(* ===== verification/Ramag_Prelude.thy ===== *)
theory Ramag_Prelude
  imports Main "HOL-Library.Word" "HOL-Library.Char_ord" "HOL-Library.List_Lexorder"
    "HOL-Library.Sublist"
begin

text \<open>
  The vocabulary the component theories share.  A Rust \<open>String\<close> or \<open>&str\<close> is the list of its
  UTF-8 bytes (a HOL \<open>char\<close> is exactly one byte), so \<open>len()\<close> is \<^const>\<open>length\<close>;
  \<open>Result\<close> is a sum with the error on the left; a \<open>BTreeMap\<close> is an association list with
  strictly ascending keys; fixed-width integers are words.  The lemmas are declared so that
  \<open>simp\<close> and \<open>auto\<close> run the plumbing of the component proofs.
\<close>

named_theorems limits \<open>numeric limits of the source, as equations\<close>

type_synonym u8 = "8 word"
type_synonym u16 = "16 word"
type_synonym u32 = "32 word"
type_synonym u64 = "64 word"

section \<open>Results\<close>

text \<open>\<open>try_r r k\<close> is \<open>let a = r?; k(a)\<close>.\<close>

definition try_r :: "'e + 'a \<Rightarrow> ('a \<Rightarrow> 'e + 'b) \<Rightarrow> 'e + 'b" where
  "try_r r k = (case r of Inl e \<Rightarrow> Inl e | Inr a \<Rightarrow> k a)"

definition map_err :: "('e \<Rightarrow> 'f) \<Rightarrow> 'e + 'a \<Rightarrow> 'f + 'a" where
  "map_err f r = (case r of Inl e \<Rightarrow> Inl (f e) | Inr a \<Rightarrow> Inr a)"

definition map_ok :: "('a \<Rightarrow> 'b) \<Rightarrow> 'e + 'a \<Rightarrow> 'e + 'b" where
  "map_ok f r = (case r of Inl e \<Rightarrow> Inl e | Inr a \<Rightarrow> Inr (f a))"

definition ok_or :: "'a option \<Rightarrow> 'e \<Rightarrow> 'e + 'a" where
  "ok_or x e = (case x of None \<Rightarrow> Inl e | Some a \<Rightarrow> Inr a)"

text \<open>\<open>ensure c e\<close> is \<open>if !c { return Err(e) }\<close>.\<close>

definition ensure :: "bool \<Rightarrow> 'e \<Rightarrow> 'e + unit" where
  "ensure c e = (if c then Inr () else Inl e)"

text \<open>A \<open>for\<close> loop whose body may return early with an error.\<close>

fun for_r :: "('a \<Rightarrow> 'e + unit) \<Rightarrow> 'a list \<Rightarrow> 'e + unit" where
  "for_r f [] = Inr ()"
| "for_r f (x # xs) = try_r (f x) (\<lambda>_. for_r f xs)"

text \<open>The same with a state threaded through the iterations.\<close>

fun fold_r :: "('s \<Rightarrow> 'a \<Rightarrow> 'e + 's) \<Rightarrow> 's \<Rightarrow> 'a list \<Rightarrow> 'e + 's" where
  "fold_r f s [] = Inr s"
| "fold_r f s (x # xs) = try_r (f s x) (\<lambda>s'. fold_r f s' xs)"

lemma try_r_simps [simp]:
  "try_r (Inl e) k = Inl e"
  "try_r (Inr a) k = k a"
  by (simp_all add: try_r_def)

lemma try_r_ok [simp]: "try_r r k = Inr b \<longleftrightarrow> (\<exists>a. r = Inr a \<and> k a = Inr b)"
  by (cases r) auto

lemma try_r_err [simp]:
  "try_r r k = Inl e \<longleftrightarrow> r = Inl e \<or> (\<exists>a. r = Inr a \<and> k a = Inl e)"
  by (cases r) auto

lemma map_err_simps [simp]:
  "map_err f (Inl e) = Inl (f e)"
  "map_err f (Inr a) = Inr a"
  by (simp_all add: map_err_def)

lemma map_err_ok [simp]: "map_err f r = Inr a \<longleftrightarrow> r = Inr a"
  by (cases r) auto

lemma map_err_err [simp]: "map_err f r = Inl e \<longleftrightarrow> (\<exists>d. r = Inl d \<and> e = f d)"
  by (cases r) auto

lemma map_ok_simps [simp]:
  "map_ok f (Inl e) = Inl e"
  "map_ok f (Inr a) = Inr (f a)"
  by (simp_all add: map_ok_def)

lemma map_ok_ok [simp]: "map_ok f r = Inr b \<longleftrightarrow> (\<exists>a. r = Inr a \<and> b = f a)"
  by (cases r) auto

lemma map_ok_err [simp]: "map_ok f r = Inl e \<longleftrightarrow> r = Inl e"
  by (cases r) auto

lemma ok_or_simps [simp]:
  "ok_or None e = Inl e"
  "ok_or (Some a) e = Inr a"
  by (simp_all add: ok_or_def)

lemma ok_or_ok [simp]: "ok_or x e = Inr a \<longleftrightarrow> x = Some a"
  by (cases x) auto

lemma ensure_ok [simp]: "ensure c e = Inr u \<longleftrightarrow> c"
  by (cases u) (simp add: ensure_def)

lemma ensure_err [simp]: "ensure c e = Inl d \<longleftrightarrow> \<not> c \<and> d = e"
  by (auto simp: ensure_def)

lemma ensure_simps [simp]:
  "ensure True e = Inr ()"
  "ensure False e = Inl e"
  by (simp_all add: ensure_def)

lemma for_r_ok [simp]: "for_r f xs = Inr u \<longleftrightarrow> (\<forall>x\<in>set xs. f x = Inr ())"
  by (induction xs) auto

lemma for_r_err: "for_r f xs = Inl e \<Longrightarrow> \<exists>x\<in>set xs. f x = Inl e"
  by (induction xs) auto

lemma fold_r_append:
  "fold_r f s (xs @ ys) = try_r (fold_r f s xs) (\<lambda>s'. fold_r f s' ys)"
  by (induction xs arbitrary: s) (auto simp: try_r_def split: sum.splits)

lemma fold_r_invariant:
  assumes "fold_r f s xs = Inr s'" and "I s"
    and "\<And>s x s'. x \<in> set xs \<Longrightarrow> I s \<Longrightarrow> f s x = Inr s' \<Longrightarrow> I s'"
  shows "I s'"
  using assms
proof (induction xs arbitrary: s)
  case Nil
  then show ?case by simp
next
  case (Cons x xs)
  then obtain s1 where s1: "f s x = Inr s1" "fold_r f s1 xs = Inr s'" by auto
  then have "I s1" using Cons.prems(2,3) by auto
  with s1(2) show ?case using Cons.IH Cons.prems(3) by auto
qed

lemma unit_sum_ok: "(r :: 'e + unit) = Inr u \<longleftrightarrow> r = Inr ()"
  by simp

lemma map_of_rev: "distinct (map fst xs) \<Longrightarrow> map_of (rev xs) = map_of xs"
  by (rule map_of_inject_set [THEN iffD2]) (simp_all add: rev_map [symmetric])

section \<open>Fallible steps on a state\<close>

text \<open>\<open>bind_s m k\<close> is \<open>let a = m?; k(a)\<close> for a step that reads and writes a state: an error stops
  the computation and keeps the state reached so far.\<close>

definition bind_s :: "('s \<Rightarrow> ('e + 'a) \<times> 's) \<Rightarrow> ('a \<Rightarrow> 's \<Rightarrow> ('e + 'b) \<times> 's) \<Rightarrow> 's \<Rightarrow> ('e + 'b) \<times> 's" where
  "bind_s m k s = (case m s of (Inl e, s') \<Rightarrow> (Inl e, s') | (Inr a, s') \<Rightarrow> k a s')"

text \<open>A step that only computes a result.\<close>

definition lift_r :: "'e + 'a \<Rightarrow> 's \<Rightarrow> ('e + 'a) \<times> 's" where
  "lift_r r s = (r, s)"

definition map_err_s :: "('e \<Rightarrow> 'f) \<Rightarrow> ('s \<Rightarrow> ('e + 'a) \<times> 's) \<Rightarrow> 's \<Rightarrow> ('f + 'a) \<times> 's" where
  "map_err_s f m s = (let (r, s') = m s in (map_err f r, s'))"

lemma bind_s_ok:
  "bind_s m k s = (Inr b, s') \<longleftrightarrow> (\<exists>a s1. m s = (Inr a, s1) \<and> k a s1 = (Inr b, s'))"
  by (auto simp: bind_s_def split: prod.splits sum.splits)

lemma bind_s_err:
  "bind_s m k s = (Inl e, s') \<longleftrightarrow>
     m s = (Inl e, s') \<or> (\<exists>a s1. m s = (Inr a, s1) \<and> k a s1 = (Inl e, s'))"
  by (auto simp: bind_s_def split: prod.splits sum.splits)

lemma bind_s_step:
  "m s = (Inr a, s1) \<Longrightarrow> bind_s m k s = k a s1"
  "m s = (Inl e, s1) \<Longrightarrow> bind_s m k s = (Inl e, s1)"
  by (simp_all add: bind_s_def)

lemma lift_r_iff [simp]: "lift_r r s = (r', s') \<longleftrightarrow> r = r' \<and> s' = s"
  by (auto simp: lift_r_def)

lemma map_err_s_ok [simp]: "map_err_s f m s = (Inr a, s') \<longleftrightarrow> m s = (Inr a, s')"
  by (auto simp: map_err_s_def split: prod.splits)

lemma map_err_s_err [simp]:
  "map_err_s f m s = (Inl e, s') \<longleftrightarrow> (\<exists>d. m s = (Inl d, s') \<and> e = f d)"
  by (auto simp: map_err_s_def split: prod.splits)

section \<open>Unsigned arithmetic\<close>

definition sat_add :: "'a::len word \<Rightarrow> 'a word \<Rightarrow> 'a word" where
  "sat_add a b = (if unat a + unat b < 2 ^ LENGTH('a) then a + b else - 1)"

definition checked_add :: "'a::len word \<Rightarrow> 'a word \<Rightarrow> 'a word option" where
  "checked_add a b = (if unat a + unat b < 2 ^ LENGTH('a) then Some (a + b) else None)"

lemma unat_sat_add:
  "unat (sat_add a (b :: 'a::len word)) = min (unat a + unat b) (2 ^ LENGTH('a) - 1)"
proof -
  have "unat (- 1 :: 'a word) = 2 ^ LENGTH('a) - 1"
    by (simp add: unsigned_minus_1_eq_mask mask_eq_exp_minus_1)
  then show ?thesis by (auto simp: sat_add_def unat_word_ariths)
qed

lemma sat_add_mono: "a \<le> sat_add a (b :: 'a::len word)"
proof -
  have "unat a < 2 ^ LENGTH('a)" by simp
  then have "unat a \<le> 2 ^ LENGTH('a) - 1" by linarith
  then show ?thesis by (simp add: word_le_nat_alt unat_sat_add)
qed

lemma sat_add_0 [simp]: "sat_add a 0 = a" "sat_add 0 a = a"
  by (simp_all add: sat_add_def)

section \<open>Strings as UTF-8 bytes\<close>

abbreviation byte :: "char \<Rightarrow> nat" where
  "byte c \<equiv> of_char c"

definition utf8_enc :: "nat \<Rightarrow> string" where
  "utf8_enc c =
     (if c < 0x80 then [char_of c]
      else if c < 0x800 then [char_of (0xC0 + c div 64), char_of (0x80 + c mod 64)]
      else if c < 0x10000 then
        [char_of (0xE0 + c div 4096), char_of (0x80 + c div 64 mod 64), char_of (0x80 + c mod 64)]
      else
        [char_of (0xF0 + c div 262144), char_of (0x80 + c div 4096 mod 64),
         char_of (0x80 + c div 64 mod 64), char_of (0x80 + c mod 64)])"

definition utf8 :: "nat list \<Rightarrow> string" where
  "utf8 cs = concat (map utf8_enc cs)"

text \<open>The Unicode scalar values, the values a Rust \<open>char\<close> can take.\<close>

definition is_scalar :: "nat \<Rightarrow> bool" where
  "is_scalar c \<longleftrightarrow> c < 0xD800 \<or> (0xE000 \<le> c \<and> c < 0x110000)"

definition is_utf8 :: "string \<Rightarrow> bool" where
  "is_utf8 s \<longleftrightarrow> (\<exists>cs. list_all is_scalar cs \<and> s = utf8 cs)"

definition is_cont :: "char \<Rightarrow> bool" where
  "is_cont b \<longleftrightarrow> 0x80 \<le> byte b \<and> byte b < 0xC0"

text \<open>\<open>str::is_char_boundary\<close>.\<close>

definition is_char_boundary :: "string \<Rightarrow> nat \<Rightarrow> bool" where
  "is_char_boundary s i =
     (if i = 0 then True else if length s \<le> i then i = length s else \<not> is_cont (s ! i))"

text \<open>\<open>while !s.is_char_boundary(end) { end -= 1 }\<close>; position 0 is a boundary.\<close>

fun floor_boundary :: "string \<Rightarrow> nat \<Rightarrow> nat" where
  "floor_boundary s 0 = 0"
| "floor_boundary s (Suc n) = (if is_char_boundary s (Suc n) then Suc n else floor_boundary s n)"

lemma utf8_simps [simp]: "utf8 [] = []" "utf8 (c # cs) = utf8_enc c @ utf8 cs"
  by (simp_all add: utf8_def)

lemma utf8_append: "utf8 (xs @ ys) = utf8 xs @ utf8 ys"
  by (simp add: utf8_def)

lemma utf8_enc_shape:
  assumes "is_scalar c"
  obtains b bs where "utf8_enc c = b # bs" "\<not> is_cont b" "list_all is_cont bs" "length bs \<le> 3"
proof -
  have "c < 0x110000" using assms by (auto simp: is_scalar_def)
  then have lead: "c div 262144 < 5" by auto
  have cont: "is_cont (char_of (0x80 + m mod 64))" for m :: nat
  proof -
    have "m mod 64 < 64" by simp
    then show ?thesis by (simp add: is_cont_def)
  qed
  consider "c < 0x80" | "0x80 \<le> c" "c < 0x800" | "0x800 \<le> c" "c < 0x10000" | "0x10000 \<le> c"
    by linarith
  then show thesis
  proof cases
    case 1
    then show thesis
      by (intro that [of "char_of c" "[]"]) (auto simp: utf8_enc_def is_cont_def)
  next
    case 2
    then have "c div 64 < 32" by auto
    with 2 show thesis
      by (intro that [of "char_of (0xC0 + c div 64)" "[char_of (0x80 + c mod 64)]"])
        (use cont [of c] in \<open>auto simp: utf8_enc_def is_cont_def\<close>)
  next
    case 3
    then have "c div 4096 < 16" by auto
    with 3 show thesis
      by (intro that [of "char_of (0xE0 + c div 4096)"
            "[char_of (0x80 + c div 64 mod 64), char_of (0x80 + c mod 64)]"])
        (use cont [of c] cont [of "c div 64"] in \<open>auto simp: utf8_enc_def is_cont_def\<close>)
  next
    case 4
    with lead show thesis
      by (intro that [of "char_of (0xF0 + c div 262144)" "[char_of (0x80 + c div 4096 mod 64),
            char_of (0x80 + c div 64 mod 64), char_of (0x80 + c mod 64)]"])
        (use cont [of c] cont [of "c div 64"] cont [of "c div 4096"] in
          \<open>auto simp: utf8_enc_def is_cont_def\<close>)
  qed
qed

lemma is_utf8I: "list_all is_scalar cs \<Longrightarrow> is_utf8 (utf8 cs)"
  by (auto simp: is_utf8_def)

lemma is_utf8_append: "is_utf8 s \<Longrightarrow> is_utf8 t \<Longrightarrow> is_utf8 (s @ t)"
  by (auto simp: is_utf8_def) (metis list_all_append utf8_append)

lemma utf8_ascii:
  "list_all (\<lambda>b. byte b < 0x80) s \<Longrightarrow> utf8 (map byte s) = s"
  by (induction s) (auto simp: utf8_enc_def)

lemma is_utf8_ascii:
  assumes "list_all (\<lambda>b. byte b < 0x80) s"
  shows "is_utf8 s"
proof -
  have "list_all is_scalar (map byte s)"
    using assms by (auto simp: list_all_iff is_scalar_def)
  then show ?thesis using is_utf8I utf8_ascii [OF assms] by metis
qed

text \<open>A cut at a character boundary of an encoded text is the encoding of a prefix of it.\<close>

lemma boundary_take:
  assumes "list_all is_scalar cs" and "is_char_boundary (utf8 cs) i"
  shows "\<exists>k. k \<le> length cs \<and> take i (utf8 cs) = utf8 (take k cs)"
  using assms
proof (induction cs arbitrary: i)
  case Nil
  then show ?case by simp
next
  case (Cons c cs)
  then have "is_scalar c" by simp
  then obtain b bs where enc: "utf8_enc c = b # bs" "list_all is_cont bs"
    by (rule utf8_enc_shape)
  consider "i = 0" | "0 < i" "i < length (utf8_enc c)" | "length (utf8_enc c) \<le> i" "0 < i"
    by linarith
  then show ?case
  proof cases
    case 1
    then show ?thesis by (auto intro: exI [of _ 0])
  next
    case 2
    then have "(utf8 (c # cs)) ! i \<in> set bs"
      using enc by (auto simp: nth_append nth_Cons')
    with enc have "is_cont ((utf8 (c # cs)) ! i)" by (auto simp: list_all_iff)
    with 2 Cons.prems(2) show ?thesis
      by (auto simp: is_char_boundary_def split: if_splits)
  next
    case 3
    let ?j = "i - length (utf8_enc c)"
    have "is_char_boundary (utf8 cs) ?j"
      using Cons.prems(2) 3 by (auto simp: is_char_boundary_def nth_append split: if_splits)
    with Cons obtain k where "k \<le> length cs" "take ?j (utf8 cs) = utf8 (take k cs)" by auto
    with 3 show ?thesis by (auto intro!: exI [of _ "Suc k"])
  qed
qed

lemma floor_boundary_le: "floor_boundary s n \<le> n"
  by (induction n) (auto simp: le_Suc_eq)

lemma floor_boundary_boundary: "is_char_boundary s (floor_boundary s n)"
  by (induction n) (auto simp: is_char_boundary_def)

lemma floor_boundary_greatest: "j \<le> n \<Longrightarrow> is_char_boundary s j \<Longrightarrow> j \<le> floor_boundary s n"
  by (induction n) (auto simp: le_Suc_eq)

lemma is_utf8_floor: "is_utf8 s \<Longrightarrow> is_utf8 (take (floor_boundary s n) s)"
  by (metis boundary_take floor_boundary_boundary is_utf8_def list_all_append append_take_drop_id)

lemma boundary_near:
  assumes "list_all is_scalar cs" and "i \<le> length (utf8 cs)"
  shows "\<exists>j. j \<le> i \<and> i \<le> j + 3 \<and> is_char_boundary (utf8 cs) j"
  using assms
proof (induction cs arbitrary: i)
  case Nil
  then show ?case by (simp add: is_char_boundary_def)
next
  case (Cons c cs)
  then have "is_scalar c" by simp
  then obtain b bs where enc: "utf8_enc c = b # bs" "\<not> is_cont b" "length bs \<le> 3"
    by (rule utf8_enc_shape)
  show ?case
  proof (cases "i < length (utf8_enc c)")
    case True
    with enc show ?thesis by (intro exI [of _ 0]) (simp add: is_char_boundary_def)
  next
    case False
    let ?m = "length (utf8_enc c)"
    have "i - ?m \<le> length (utf8 cs)" using Cons.prems(2) by simp
    with Cons obtain j where j: "j \<le> i - ?m" "i - ?m \<le> j + 3" "is_char_boundary (utf8 cs) j"
      by auto
    show ?thesis
    proof (cases "j = 0")
      case True
      have "is_char_boundary (utf8 (c # cs)) ?m"
      proof (cases cs)
        case Nil
        then show ?thesis by (simp add: is_char_boundary_def)
      next
        case (Cons d ds)
        then have "is_scalar d" using Cons.prems(1) \<open>list_all is_scalar (c # cs)\<close> by simp
        then obtain b' bs' where "utf8_enc d = b' # bs'" "\<not> is_cont b'"
          by (rule utf8_enc_shape)
        with Cons show ?thesis by (simp add: is_char_boundary_def nth_append)
      qed
      with True j False show ?thesis by (intro exI [of _ ?m]) auto
    next
      case False
      then have "is_char_boundary (utf8 (c # cs)) (j + ?m)"
        using j(3) by (auto simp: is_char_boundary_def nth_append split: if_splits)
      with j \<open>\<not> i < ?m\<close> show ?thesis by (intro exI [of _ "j + ?m"]) auto
    qed
  qed
qed

lemma floor_boundary_near:
  assumes "is_utf8 s" and "n \<le> length s"
  shows "n \<le> floor_boundary s n + 3"
proof -
  obtain j where "j \<le> n" "n \<le> j + 3" "is_char_boundary s j"
    using assms boundary_near unfolding is_utf8_def by blast
  with floor_boundary_greatest [of j n s] show ?thesis by simp
qed

end
