(* ===== verification/Rust_Text.thy ===== *)
theory Rust_Text
  imports Ramag_Prelude
begin

text \<open>
  The string operations of Rust's standard library that the modelled code calls, on UTF-8 byte
  lists: ASCII classification and case, decimal formatting, prefixes, control characters and
  character counts, with what each means for the code points the bytes encode.
\<close>

section \<open>ASCII classes\<close>

definition is_ascii_lowercase :: "char \<Rightarrow> bool" where
  "is_ascii_lowercase c \<longleftrightarrow> 97 \<le> byte c \<and> byte c \<le> 122"

definition is_ascii_uppercase :: "char \<Rightarrow> bool" where
  "is_ascii_uppercase c \<longleftrightarrow> 65 \<le> byte c \<and> byte c \<le> 90"

definition is_ascii_digit :: "char \<Rightarrow> bool" where
  "is_ascii_digit c \<longleftrightarrow> 48 \<le> byte c \<and> byte c \<le> 57"

definition is_ascii_alphabetic :: "char \<Rightarrow> bool" where
  "is_ascii_alphabetic c \<longleftrightarrow> is_ascii_lowercase c \<or> is_ascii_uppercase c"

definition is_ascii_alphanumeric :: "char \<Rightarrow> bool" where
  "is_ascii_alphanumeric c \<longleftrightarrow> is_ascii_alphabetic c \<or> is_ascii_digit c"

text \<open>\<open>u8::is_ascii_whitespace\<close>: space, tab, line feed, form feed, carriage return.\<close>

definition is_ascii_whitespace :: "char \<Rightarrow> bool" where
  "is_ascii_whitespace c \<longleftrightarrow> byte c \<in> {32, 9, 10, 12, 13}"

definition ascii_upper :: "char \<Rightarrow> char" where
  "ascii_upper c = (if is_ascii_lowercase c then char_of (byte c - 32) else c)"

definition ascii_lower :: "char \<Rightarrow> char" where
  "ascii_lower c = (if is_ascii_uppercase c then char_of (byte c + 32) else c)"

definition to_ascii_uppercase :: "string \<Rightarrow> string" where
  "to_ascii_uppercase s = map ascii_upper s"

definition to_ascii_lowercase :: "string \<Rightarrow> string" where
  "to_ascii_lowercase s = map ascii_lower s"

definition eq_ignore_ascii_case :: "string \<Rightarrow> string \<Rightarrow> bool" where
  "eq_ignore_ascii_case s t \<longleftrightarrow> to_ascii_lowercase s = to_ascii_lowercase t"

section \<open>Formatting and prefixes\<close>

fun dec :: "nat \<Rightarrow> string" where
  "dec n = (if n < 10 then [char_of (48 + n)] else dec (n div 10) @ [char_of (48 + n mod 10)])"

declare dec.simps [simp del]

lemma dec_not_Nil [simp]: "dec n \<noteq> []"
  by (subst dec.simps) simp

lemma dec_digits: "c \<in> set (dec n) \<Longrightarrow> is_ascii_digit c"
proof (induction n rule: dec.induct)
  case (1 n)
  have m: "n mod 10 < 10" by simp
  from 1 show ?case
    by (subst (asm) dec.simps) (auto simp: is_ascii_digit_def split: if_splits)
qed

fun strip_prefix :: "string \<Rightarrow> string \<Rightarrow> string option" where
  "strip_prefix [] s = Some s"
| "strip_prefix (p # ps) [] = None"
| "strip_prefix (p # ps) (c # s) = (if p = c then strip_prefix ps s else None)"

definition starts_with :: "string \<Rightarrow> string \<Rightarrow> bool" where
  "starts_with s p \<longleftrightarrow> strip_prefix p s \<noteq> None"

lemma strip_prefix_iff: "strip_prefix p s = Some r \<longleftrightarrow> s = p @ r"
  by (induction p s rule: strip_prefix.induct) auto

lemma strip_prefix_append [simp]: "strip_prefix p (p @ r) = Some r"
  by (simp add: strip_prefix_iff)

lemma strip_prefix_None: "strip_prefix p s = None \<longleftrightarrow> (\<nexists>r. s = p @ r)"
  by (metis strip_prefix_iff option.exhaust option.distinct(1))

lemma starts_with_iff: "starts_with s p \<longleftrightarrow> prefix p s"
  by (auto simp: starts_with_def strip_prefix_iff prefix_def)

section \<open>Characters of an encoded text\<close>

text \<open>
  \<open>s.chars().count()\<close>: the bytes that start a character.  \<open>s.chars().any(char::is_control)\<close>: the
  control characters are U+0000 to U+001F, U+007F and U+0080 to U+009F, the last encoded as
  \<open>C2 80\<close> to \<open>C2 9F\<close>.
\<close>

definition char_count :: "string \<Rightarrow> nat" where
  "char_count s = length (filter (\<lambda>b. \<not> is_cont b) s)"

fun has_control :: "string \<Rightarrow> bool" where
  "has_control [] = False"
| "has_control [b] = (byte b < 32 \<or> byte b = 127)"
| "has_control (b # c # s) =
     (byte b < 32 \<or> byte b = 127 \<or> (byte b = 0xC2 \<and> 0x80 \<le> byte c \<and> byte c < 0xA0)
      \<or> has_control (c # s))"

definition is_control :: "nat \<Rightarrow> bool" where
  "is_control c \<longleftrightarrow> c < 32 \<or> (127 \<le> c \<and> c < 160)"

lemma char_count_utf8: "list_all is_scalar cs \<Longrightarrow> char_count (utf8 cs) = length cs"
proof (induction cs)
  case Nil
  then show ?case by (simp add: char_count_def)
next
  case (Cons c cs)
  then have "is_scalar c" by simp
  then obtain b bs where enc: "utf8_enc c = b # bs" "\<not> is_cont b" "list_all is_cont bs"
    by (rule utf8_enc_shape)
  then have "filter (\<lambda>b. \<not> is_cont b) bs = []" by (auto simp: list_all_iff filter_empty_conv)
  with enc Cons show ?case by (simp add: char_count_def)
qed

lemma char_count_le: "char_count s \<le> length s"
  by (simp add: char_count_def)

lemma has_control_ascii: "list_all (\<lambda>b. 32 \<le> byte b \<and> byte b < 127) s \<Longrightarrow> \<not> has_control s"
  by (induction s rule: has_control.induct) auto

lemma has_control_cont [simp]: "is_cont b \<Longrightarrow> has_control (b # s) \<longleftrightarrow> has_control s"
  by (cases s) (auto simp: is_cont_def)

lemma has_control_high: "0xC3 \<le> byte b \<Longrightarrow> has_control (b # s) \<longleftrightarrow> has_control s"
  by (cases s) auto

lemma has_control_enc:
  assumes "is_scalar c"
  shows "has_control (utf8_enc c @ s) \<longleftrightarrow> is_control c \<or> has_control s"
proof -
  have cont: "is_cont (char_of (0x80 + m mod 64))" for m :: nat
  proof -
    have "m mod 64 < 64" by simp
    then show ?thesis by (simp add: is_cont_def)
  qed
  have top: "c div 262144 < 5" using assms by (auto simp: is_scalar_def)
  consider "c < 0x80" | "0x80 \<le> c" "c < 0x800" | "0x800 \<le> c" "c < 0x10000" | "0x10000 \<le> c"
    by linarith
  then show ?thesis
  proof cases
    case 1
    then have "byte (char_of c) = c" "utf8_enc c = [char_of c]" by (simp_all add: utf8_enc_def)
    moreover have "is_control c \<longleftrightarrow> c < 32 \<or> c = 127" using 1 by (auto simp: is_control_def)
    ultimately show ?thesis using 1 by (cases s) simp_all
  next
    case 2
    then have d: "c div 64 < 32" by auto
    have enc: "utf8_enc c = [char_of (0xC0 + c div 64), char_of (0x80 + c mod 64)]"
      using 2 by (simp add: utf8_enc_def)
    have m: "c mod 64 < 64" by simp
    have l: "byte (char_of (0xC0 + c div 64)) = 0xC0 + c div 64" using d by simp
    have k: "byte (char_of (0x80 + c mod 64)) = 0x80 + c mod 64" using m by simp
    have "is_control c \<longleftrightarrow> c div 64 = 2 \<and> c mod 64 < 32"
    proof -
      define q r where "q = c div 64" and "r = c mod 64"
      then have c: "c = 64 * q + r" "r < 64" by simp_all
      consider "q \<le> 1" | "q = 2" | "3 \<le> q" by linarith
      then show ?thesis
        using 2 c unfolding is_control_def q_def [symmetric] r_def [symmetric]
        by cases auto
    qed
    with cont [of c] show ?thesis
      unfolding enc append.simps has_control.simps l k by auto
  next
    case 3
    then have "c div 4096 < 16" by auto
    with 3 cont [of c] cont [of "c div 64"] show ?thesis
      by (simp add: utf8_enc_def is_control_def has_control_high del: has_control.simps)
  next
    case 4
    with top cont [of c] cont [of "c div 64"] cont [of "c div 4096"] show ?thesis
      by (simp add: utf8_enc_def is_control_def has_control_high del: has_control.simps)
  qed
qed

lemma has_control_utf8:
  "list_all is_scalar cs \<Longrightarrow> has_control (utf8 cs) \<longleftrightarrow> list_ex is_control cs"
  by (induction cs) (simp_all add: has_control_enc)

end
