(* ===== verification/Bounded_Text.thy ===== *)
theory Bounded_Text
  imports Rust_Text
begin

text \<open>
  The three places where a diagnostic text is cut to a byte budget without splitting a character:
  \<open>bounded_message\<close> (lifecycle errors), \<open>bound_task_error\<close> (task errors) and
  \<open>compact_text\<close> (synchronisation errors).  They share one contract, the
  locale \<open>bounded_text\<close>: a short text is returned as it is, a long one is cut at the last
  character boundary at or below a budget and gets a fixed suffix.
\<close>

(* crates/ramag-app/src/plugin_lifecycle.rs:19-19 MAX_PLUGIN_OPERATION_ERROR_BYTES *)
definition MAX_PLUGIN_OPERATION_ERROR_BYTES :: nat where
  [limits]: "MAX_PLUGIN_OPERATION_ERROR_BYTES = 512"

(* crates/ramag-app/src/plugin_tasks.rs:26-26 MAX_PLUGIN_TASK_ERROR_BYTES *)
definition MAX_PLUGIN_TASK_ERROR_BYTES :: nat where
  [limits]: "MAX_PLUGIN_TASK_ERROR_BYTES = 512"

(* crates/ramag-app/src/usecases/data_sync/gate.rs:10-10 MAX_SYNC_ERROR_BYTES *)
definition MAX_SYNC_ERROR_BYTES :: nat where
  [limits]: "MAX_SYNC_ERROR_BYTES = 128 * 1024"

(* crates/ramag-app/src/plugin_lifecycle.rs:413-425 bounded_message *)
definition bounded_message :: "string \<Rightarrow> string" where
  "bounded_message message =
     (if length message \<le> MAX_PLUGIN_OPERATION_ERROR_BYTES then message
      else
        let SUFFIX = ''...'';
            end = floor_boundary message (MAX_PLUGIN_OPERATION_ERROR_BYTES - length SUFFIX)
        in take end message @ SUFFIX)"

(* crates/ramag-app/src/plugin_tasks.rs:411-420 bound_task_error *)
definition bound_task_error :: "string \<Rightarrow> string" where
  "bound_task_error message =
     (if length message \<le> MAX_PLUGIN_TASK_ERROR_BYTES then message
      else
        let end = floor_boundary message (MAX_PLUGIN_TASK_ERROR_BYTES - 3)
        in take end message @ ''...'')"

text \<open>The horizontal ellipsis U+2026.\<close>

definition ELLIPSIS :: string where
  "ELLIPSIS = utf8 [0x2026]"

(* crates/ramag-app/src/usecases/data_sync/gate.rs:290-301 compact_text *)
definition compact_text :: "string \<Rightarrow> nat \<Rightarrow> string" where
  "compact_text text max_bytes =
     (if length text \<le> max_bytes then text
      else
        let boundary = floor_boundary text max_bytes
        in take boundary text @ ELLIPSIS)"

locale bounded_text =
  fixes cut :: "string \<Rightarrow> string"
    and limit budget :: nat
    and suffix :: string
  assumes short: "length s \<le> limit \<Longrightarrow> cut s = s"
    and long: "limit < length s \<Longrightarrow> cut s = take (floor_boundary s budget) s @ suffix"
    and budget_le: "budget \<le> limit"
    and suffix_utf8: "is_utf8 suffix"
begin

lemma cut_utf8: "is_utf8 s \<Longrightarrow> is_utf8 (cut s)"
  by (cases "length s \<le> limit") (auto simp: short long is_utf8_append is_utf8_floor suffix_utf8)

lemma cut_length: "length (cut s) \<le> max limit (budget + length suffix)"
proof (cases "length s \<le> limit")
  case True
  then show ?thesis by (simp add: short)
next
  case False
  have "floor_boundary s budget \<le> budget" by (rule floor_boundary_le)
  with False show ?thesis by (auto simp: long)
qed

text \<open>A cut text keeps all but at most three bytes of its budget.\<close>

lemma cut_keeps:
  assumes "is_utf8 s" and "limit < length s"
  obtains k where "cut s = take k s @ suffix" "k \<le> budget" "budget \<le> k + 3"
proof (rule that)
  show "cut s = take (floor_boundary s budget) s @ suffix" using assms(2) by (rule long)
  show "floor_boundary s budget \<le> budget" by (rule floor_boundary_le)
  show "budget \<le> floor_boundary s budget + 3"
    using assms budget_le by (intro floor_boundary_near) auto
qed

lemma cut_prefix: "\<exists>k. cut s = s \<or> cut s = take k s @ suffix"
  by (cases "length s \<le> limit") (auto simp: short long)

end

lemma utf8_dots: "is_utf8 ''...''"
  by (rule is_utf8_ascii) simp

lemma utf8_ellipsis: "is_utf8 ELLIPSIS"
  unfolding ELLIPSIS_def by (rule is_utf8I) (simp add: is_scalar_def)

interpretation lifecycle_text: bounded_text bounded_message 512 509 "''...''"
  by unfold_locales (simp_all add: bounded_message_def limits utf8_dots)

interpretation task_text: bounded_text bound_task_error 512 509 "''...''"
  by unfold_locales (simp_all add: bound_task_error_def limits utf8_dots)

interpretation sync_text:
  bounded_text "\<lambda>s. compact_text s MAX_SYNC_ERROR_BYTES" MAX_SYNC_ERROR_BYTES
    MAX_SYNC_ERROR_BYTES ELLIPSIS
  by unfold_locales (simp_all add: compact_text_def utf8_ellipsis)

lemma bounded_message_length: "length (bounded_message s) \<le> 512"
  using lifecycle_text.cut_length [of s] by simp

lemma bounded_message_short: "length s \<le> 512 \<Longrightarrow> bounded_message s = s"
  by (rule lifecycle_text.short)

lemma bounded_message_idem [simp]: "bounded_message (bounded_message s) = bounded_message s"
  using bounded_message_length by (rule bounded_message_short)

lemma bound_task_error_length: "length (bound_task_error s) \<le> 512"
  using task_text.cut_length [of s] by simp

section \<open>Properties\<close>

text \<open>Whatever text a plugin callback reports, the stored lifecycle error has at most 512
  bytes and a task error too; a text within the limit is stored as it is, and bounding a bounded
  text changes nothing.\<close>
theorem error_texts_bounded:
  "length (bounded_message s) \<le> 512 \<and> length (bound_task_error s) \<le> 512
   \<and> (512 < length s \<or> bounded_message s = s \<and> bound_task_error s = s)
   \<and> bounded_message (bounded_message s) = bounded_message s"
  using bounded_message_length bound_task_error_length
  by (auto simp: bounded_message_short task_text.short not_less)

text \<open>Cutting a well-formed UTF-8 text never splits a character, for all three routines, and a
  cut lifecycle error keeps at least 506 of its first 509 bytes before the suffix.\<close>
theorem cut_texts_are_utf8:
  assumes "is_utf8 s"
  shows "is_utf8 (bounded_message s) \<and> is_utf8 (bound_task_error s)
     \<and> is_utf8 (compact_text s MAX_SYNC_ERROR_BYTES)
     \<and> (length s \<le> 512 \<or> (\<exists>k. 506 \<le> k \<and> k \<le> 509 \<and> bounded_message s = take k s @ ''...''))"
proof (intro conjI)
  show "is_utf8 (bounded_message s)" using assms by (rule lifecycle_text.cut_utf8)
  show "is_utf8 (bound_task_error s)" using assms by (rule task_text.cut_utf8)
  show "is_utf8 (compact_text s MAX_SYNC_ERROR_BYTES)" using assms by (rule sync_text.cut_utf8)
  show "length s \<le> 512 \<or> (\<exists>k. 506 \<le> k \<and> k \<le> 509 \<and> bounded_message s = take k s @ ''...'')"
  proof (cases "length s \<le> 512")
    case False
    then obtain k where "bounded_message s = take k s @ ''...''" "k \<le> 509" "509 \<le> k + 3"
      using assms by (auto elim: lifecycle_text.cut_keeps)
    then show ?thesis by auto
  qed simp
qed

lemma cut_texts_are_utf8_witness:
  "is_utf8 (bounded_message (utf8 (replicate 200 0x4E2D)))
   \<and> \<not> length (utf8 (replicate 200 0x4E2D)) \<le> 512"
proof
  have "is_utf8 (utf8 (replicate 200 0x4E2D))"
    by (rule is_utf8I) (simp add: list_all_iff is_scalar_def)
  then show "is_utf8 (bounded_message (utf8 (replicate 200 0x4E2D)))"
    using cut_texts_are_utf8 by blast
  have "length (utf8 (replicate n 0x4E2D)) = 3 * n" for n
    by (induction n) (simp_all add: utf8_enc_def)
  then show "\<not> length (utf8 (replicate 200 0x4E2D)) \<le> 512" by simp
qed

end
