(* ===== verification/Plugin_Manifest.thy ===== *)
theory Plugin_Manifest
  imports Bounded_Text
begin

text \<open>
  The static plugin manifest: \<open>crates/ramag-domain/src/traits/plugin.rs\<close>,
  \<open>plugin_entry.rs\<close> and \<open>tool.rs\<close>.  Identifiers, API versions, capabilities, setting
  definitions, entry descriptors and the descriptor itself are records and datatypes; the
  validators return the first error the code would return.  A comment above each definition
  names the lines it translates.  Texts with Chinese wording are given by their code points
  through \<^const>\<open>utf8\<close>.
\<close>

section \<open>Limits\<close>

(* crates/ramag-domain/src/traits/plugin.rs:18-18 MAX_PLUGIN_ID_BYTES *)
definition MAX_PLUGIN_ID_BYTES :: nat where
  [limits]: "MAX_PLUGIN_ID_BYTES = 64"

(* crates/ramag-domain/src/traits/plugin.rs:19-19 MAX_PLUGIN_ENTRY_ID_BYTES *)
definition MAX_PLUGIN_ENTRY_ID_BYTES :: nat where
  [limits]: "MAX_PLUGIN_ENTRY_ID_BYTES = 128"

(* crates/ramag-domain/src/traits/plugin.rs:20-20 MAX_PLUGIN_SETTING_KEY_BYTES *)
definition MAX_PLUGIN_SETTING_KEY_BYTES :: nat where
  [limits]: "MAX_PLUGIN_SETTING_KEY_BYTES = 64"

(* crates/ramag-domain/src/traits/plugin.rs:22-22 MAX_PLUGIN_NAME_BYTES *)
definition MAX_PLUGIN_NAME_BYTES :: nat where
  [limits]: "MAX_PLUGIN_NAME_BYTES = 128"

(* crates/ramag-domain/src/traits/plugin.rs:23-23 MAX_PLUGIN_DESCRIPTION_BYTES *)
definition MAX_PLUGIN_DESCRIPTION_BYTES :: nat where
  [limits]: "MAX_PLUGIN_DESCRIPTION_BYTES = 512"

(* crates/ramag-domain/src/traits/plugin.rs:25-25 MAX_PLUGIN_CAPABILITIES *)
definition MAX_PLUGIN_CAPABILITIES :: nat where
  [limits]: "MAX_PLUGIN_CAPABILITIES = 16"

(* crates/ramag-domain/src/traits/plugin.rs:26-26 MAX_PLUGIN_SETTINGS *)
definition MAX_PLUGIN_SETTINGS :: nat where
  [limits]: "MAX_PLUGIN_SETTINGS = 64"

(* crates/ramag-domain/src/traits/plugin.rs:27-27 MAX_PLUGIN_ENUM_VALUES *)
definition MAX_PLUGIN_ENUM_VALUES :: nat where
  [limits]: "MAX_PLUGIN_ENUM_VALUES = 64"

(* crates/ramag-domain/src/traits/plugin.rs:28-28 MAX_PLUGIN_SETTING_VALUE_BYTES *)
definition MAX_PLUGIN_SETTING_VALUE_BYTES :: nat where
  [limits]: "MAX_PLUGIN_SETTING_VALUE_BYTES = 1024"

(* crates/ramag-domain/src/traits/plugin.rs:29-29 MAX_PLUGIN_SETTING_LIST_ITEMS *)
definition MAX_PLUGIN_SETTING_LIST_ITEMS :: nat where
  [limits]: "MAX_PLUGIN_SETTING_LIST_ITEMS = 64"

(* crates/ramag-domain/src/traits/plugin_entry.rs:11-11 MAX_PLUGIN_ENTRIES *)
definition MAX_PLUGIN_ENTRIES :: nat where
  [limits]: "MAX_PLUGIN_ENTRIES = 16"

(* crates/ramag-domain/src/traits/plugin_entry.rs:13-13 MAX_PLUGIN_ENTRY_PAYLOAD_BYTES *)
definition MAX_PLUGIN_ENTRY_PAYLOAD_BYTES :: nat where
  [limits]: "MAX_PLUGIN_ENTRY_PAYLOAD_BYTES = 4 * 1024 * 1024"

(* crates/ramag-domain/src/traits/plugin_entry.rs:14-14 DEFAULT_PLUGIN_ENTRY_PAYLOAD_BYTES *)
definition DEFAULT_PLUGIN_ENTRY_PAYLOAD_BYTES :: nat where
  [limits]: "DEFAULT_PLUGIN_ENTRY_PAYLOAD_BYTES = 64 * 1024"

section \<open>Data\<close>

(* crates/ramag-domain/src/traits/plugin.rs:39-43 PluginApiVersion *)
record plugin_api_version =
  major :: u16
  minor :: u16

(* crates/ramag-domain/src/traits/plugin.rs:63-64 PluginId *)
datatype plugin_id = PluginId (as_str: string)

(* crates/ramag-domain/src/traits/plugin.rs:95-96 PluginCapability *)
datatype plugin_capability = PluginCapability (capability_str: string)

(* crates/ramag-domain/src/traits/plugin.rs:119-126 PluginSettingKind *)
datatype plugin_setting_kind = BooleanK | IntegerK | StringK | EnumK | StringListK

(* crates/ramag-domain/src/traits/plugin.rs:128-134 PluginSettingValue *)
datatype plugin_setting_value =
  BooleanV bool | IntegerV "64 word" | StringV string | StringListV "string list"

(* crates/ramag-domain/src/traits/plugin.rs:136-143 PluginSettingDefinition *)
record plugin_setting_definition =
  sd_key :: string
  sd_kind :: plugin_setting_kind
  sd_default :: "plugin_setting_value option"
  sd_sensitive :: bool
  sd_enum_values :: "string list"

(* crates/ramag-domain/src/traits/plugin_entry.rs:17-22 PluginEntryDataKind *)
datatype plugin_entry_data_kind = TextD | JsonD | BinaryD

(* crates/ramag-domain/src/traits/plugin_entry.rs:25-29 PluginEntryDataSpec *)
record plugin_entry_data_spec =
  ds_kind :: plugin_entry_data_kind
  ds_max_bytes :: nat

(* crates/ramag-domain/src/traits/plugin_entry.rs:51-58 PluginEntryDescriptor *)
record plugin_entry_descriptor =
  ed_id :: string
  ed_name :: string
  ed_description :: string
  ed_input :: plugin_entry_data_spec
  ed_output :: plugin_entry_data_spec

(* crates/ramag-domain/src/traits/plugin.rs:266-277 PluginDescriptor *)
record plugin_descriptor =
  pd_id :: plugin_id
  pd_api_version :: plugin_api_version
  pd_name :: string
  pd_description :: string
  pd_entry_id :: string
  pd_entries :: "plugin_entry_descriptor list"
  pd_capabilities :: "plugin_capability list"
  pd_settings :: "plugin_setting_definition list"

(* crates/ramag-domain/src/traits/tool.rs:5-13 ToolMeta *)
record tool_meta =
  tm_id :: string
  tm_name :: string
  tm_description :: string
  tm_icon :: "string option"

(* crates/ramag-domain/src/traits/plugin.rs:418-475 PluginRegistrationError *)
datatype plugin_registration_error =
    EmptyField string
  | FieldTooLong string nat
  | InvalidIdentifier string string
  | UnsupportedApiVersion plugin_api_version plugin_api_version
  | UnknownCapability string
  | DuplicateCapability string
  | TooManyCapabilities nat
  | InvalidSetting string string
  | DuplicateSetting string
  | TooManySettings nat
  | TooManyEntries nat
  | DuplicateEntryDescriptor string
  | MissingPrimaryEntry string
  | MissingToolEntry plugin_id string
  | InvalidEntry string string
  | EntryCountMismatch plugin_id nat nat
  | DuplicatePluginId plugin_id
  | DuplicateEntryId string
  | EntryIdMismatch plugin_id string string

section \<open>Display texts\<close>

(* crates/ramag-domain/src/traits/plugin.rs:57-61 PluginApiVersion::fmt *)
definition display_api_version :: "plugin_api_version \<Rightarrow> string" where
  "display_api_version v = dec (unat (major v)) @ ''.'' @ dec (unat (minor v))"

(* crates/ramag-domain/src/traits/plugin.rs:418-475 PluginRegistrationError *)
fun display_registration_error :: "plugin_registration_error \<Rightarrow> string" where
  "display_registration_error (EmptyField field) = field @ (utf8 [0x4E0D, 0x80FD, 0x4E3A, 0x7A7A])"
| "display_registration_error (FieldTooLong field max_bytes) =
     field @ (utf8 [0x8D85, 0x8FC7] @ '' '') @ dec max_bytes @ ('' '' @ utf8 [0x5B57, 0x8282])"
| "display_registration_error (InvalidIdentifier field value) =
     field @ (utf8 [0x5305, 0x542B, 0x975E, 0x6CD5, 0x5B57, 0x7B26, 0xFF1A]) @ value"
| "display_registration_error (UnsupportedApiVersion plugin host) =
     (utf8 [0x63D2, 0x4EF6] @ '' API '') @ display_api_version plugin @ ('' '' @ utf8 [0x4E0D, 0x53D7, 0x5BBF, 0x4E3B] @ '' API '') @
     display_api_version host @ ('' '' @ utf8 [0x652F, 0x6301])"
| "display_registration_error (UnknownCapability c) = (utf8 [0x672A, 0x77E5, 0x63D2, 0x4EF6, 0x80FD, 0x529B, 0xFF1A]) @ c"
| "display_registration_error (DuplicateCapability c) = (utf8 [0x63D2, 0x4EF6, 0x80FD, 0x529B, 0x91CD, 0x590D, 0xFF1A]) @ c"
| "display_registration_error (TooManyCapabilities m) = (utf8 [0x63D2, 0x4EF6, 0x80FD, 0x529B, 0x8D85, 0x8FC7] @ '' '') @ dec m @ ('' '' @ utf8 [0x9879])"
| "display_registration_error (InvalidSetting key reason) =
     (utf8 [0x63D2, 0x4EF6, 0x8BBE, 0x7F6E] @ '' '' @ utf8 [0x60]) @ key @ (utf8 [0x60] @ '' '' @ utf8 [0x65E0, 0x6548, 0xFF1A]) @ reason"
| "display_registration_error (DuplicateSetting key) = (utf8 [0x63D2, 0x4EF6, 0x8BBE, 0x7F6E, 0x91CD, 0x590D, 0xFF1A]) @ key"
| "display_registration_error (TooManySettings m) = (utf8 [0x63D2, 0x4EF6, 0x8BBE, 0x7F6E, 0x8D85, 0x8FC7] @ '' '') @ dec m @ ('' '' @ utf8 [0x9879])"
| "display_registration_error (TooManyEntries m) = (utf8 [0x63D2, 0x4EF6, 0x5165, 0x53E3, 0x8D85, 0x8FC7] @ '' '') @ dec m @ ('' '' @ utf8 [0x9879])"
| "display_registration_error (DuplicateEntryDescriptor e) = (utf8 [0x63D2, 0x4EF6, 0x5165, 0x53E3, 0x63CF, 0x8FF0, 0x91CD, 0x590D, 0xFF1A]) @ e"
| "display_registration_error (MissingPrimaryEntry e) =
     (utf8 [0x63D2, 0x4EF6, 0x4E3B, 0x5165, 0x53E3] @ '' '' @ utf8 [0x60]) @ e @ (utf8 [0x60] @ '' '' @ utf8 [0x672A, 0x51FA, 0x73B0, 0x5728, 0x591A, 0x5165, 0x53E3, 0x6E05, 0x5355, 0x4E2D])"
| "display_registration_error (MissingToolEntry p e) =
     (utf8 [0x63D2, 0x4EF6] @ '' '' @ utf8 [0x60]) @ as_str p @ (utf8 [0x60] @ '' '' @ utf8 [0x6CA1, 0x6709, 0x63D0, 0x4F9B, 0x6E05, 0x5355, 0x5165, 0x53E3] @ '' '' @ utf8 [0x60]) @ e @ (utf8 [0x60] @ '' '' @ utf8 [0x5BF9, 0x5E94, 0x7684, 0x5DE5, 0x5177])"
| "display_registration_error (InvalidEntry e reason) =
     (utf8 [0x63D2, 0x4EF6, 0x5165, 0x53E3] @ '' '' @ utf8 [0x60]) @ e @ (utf8 [0x60] @ '' '' @ utf8 [0x65E0, 0x6548, 0xFF1A]) @ reason"
| "display_registration_error (EntryCountMismatch p expected actual) =
     (utf8 [0x63D2, 0x4EF6] @ '' '' @ utf8 [0x60]) @ as_str p @ (utf8 [0x60] @ '' '' @ utf8 [0x9700, 0x8981] @ '' '') @ dec expected @ ('' '' @ utf8 [0x4E2A, 0x5DE5, 0x5177, 0x5165, 0x53E3, 0xFF0C, 0x5B9E, 0x9645, 0x63D0, 0x4F9B] @ '' '') @
     dec actual @ ('' '' @ utf8 [0x4E2A])"
| "display_registration_error (DuplicatePluginId p) = (utf8 [0x63D2, 0x4EF6] @ '' ID '' @ utf8 [0x5DF2, 0x6CE8, 0x518C, 0xFF1A]) @ as_str p"
| "display_registration_error (DuplicateEntryId e) = (utf8 [0x5DE5, 0x5177, 0x5165, 0x53E3, 0x5DF2, 0x6CE8, 0x518C, 0xFF1A]) @ e"
| "display_registration_error (EntryIdMismatch p e t) =
     (utf8 [0x63D2, 0x4EF6] @ '' '' @ utf8 [0x60]) @ as_str p @ (utf8 [0x60] @ '' '' @ utf8 [0x7684, 0x5165, 0x53E3] @ '' '' @ utf8 [0x60]) @ e @ (utf8 [0x60] @ '' '' @ utf8 [0x4E0E, 0x5DE5, 0x5177] @ '' ID '' @ utf8 [0x60]) @ t @ (utf8 [0x60] @ '' '' @ utf8 [0x4E0D, 0x4E00, 0x81F4])"

section \<open>Constructors and builders\<close>

(* crates/ramag-domain/src/traits/plugin.rs:45-49 PluginApiVersion::new *)
definition api_version_new :: "u16 \<Rightarrow> u16 \<Rightarrow> plugin_api_version" where
  "api_version_new ma mi = \<lparr>major = ma, minor = mi\<rparr>"

(* crates/ramag-domain/src/traits/plugin.rs:16-16 CURRENT_PLUGIN_API_VERSION *)
definition CURRENT_PLUGIN_API_VERSION :: plugin_api_version where
  "CURRENT_PLUGIN_API_VERSION = api_version_new 1 0"

(* crates/ramag-domain/src/traits/plugin.rs:51-55 PluginApiVersion::is_supported_by *)
definition is_supported_by :: "plugin_api_version \<Rightarrow> plugin_api_version \<Rightarrow> bool" where
  "is_supported_by v host \<longleftrightarrow> major v = major host \<and> minor v \<le> minor host"

(* crates/ramag-domain/src/traits/plugin.rs:31-37 KNOWN_PLUGIN_CAPABILITIES *)
definition KNOWN_PLUGIN_CAPABILITIES :: "string list" where
  "KNOWN_PLUGIN_CAPABILITIES =
     [''ui.entry'', ''ui.notification'', ''storage.plugin'', ''task.scoped'']"

(* crates/ramag-domain/src/traits/plugin.rs:107-111 PluginCapability::is_known *)
definition is_known :: "plugin_capability \<Rightarrow> bool" where
  "is_known c \<longleftrightarrow> capability_str c \<in> set KNOWN_PLUGIN_CAPABILITIES"

(* crates/ramag-domain/src/traits/plugin.rs:146-155 PluginSettingDefinition::new *)
definition setting_new :: "string \<Rightarrow> plugin_setting_kind \<Rightarrow> plugin_setting_definition" where
  "setting_new key kind =
     \<lparr>sd_key = key, sd_kind = kind, sd_default = None, sd_sensitive = False,
      sd_enum_values = []\<rparr>"

(* crates/ramag-domain/src/traits/plugin.rs:157-160 PluginSettingDefinition::with_default *)
definition with_default ::
  "plugin_setting_value \<Rightarrow> plugin_setting_definition \<Rightarrow> plugin_setting_definition" where
  "with_default v d = d\<lparr>sd_default := Some v\<rparr>"

(* crates/ramag-domain/src/traits/plugin.rs:162-165 PluginSettingDefinition::sensitive *)
definition sensitive :: "bool \<Rightarrow> plugin_setting_definition \<Rightarrow> plugin_setting_definition" where
  "sensitive b d = d\<lparr>sd_sensitive := b\<rparr>"

(* crates/ramag-domain/src/traits/plugin.rs:167-174 PluginSettingDefinition::with_enum_values *)
definition with_enum_values ::
  "string list \<Rightarrow> plugin_setting_definition \<Rightarrow> plugin_setting_definition" where
  "with_enum_values vs d = d\<lparr>sd_enum_values := vs\<rparr>"

(* crates/ramag-domain/src/traits/plugin_entry.rs:31-48 PluginEntryDataSpec::text *)
definition spec_text :: "nat \<Rightarrow> plugin_entry_data_spec" where
  "spec_text n = \<lparr>ds_kind = TextD, ds_max_bytes = n\<rparr>"

(* crates/ramag-domain/src/traits/plugin_entry.rs:60-70 PluginEntryDescriptor::new *)
definition entry_new :: "string \<Rightarrow> string \<Rightarrow> plugin_entry_descriptor" where
  "entry_new i n =
     \<lparr>ed_id = i, ed_name = n, ed_description = [],
      ed_input = spec_text DEFAULT_PLUGIN_ENTRY_PAYLOAD_BYTES,
      ed_output = spec_text DEFAULT_PLUGIN_ENTRY_PAYLOAD_BYTES\<rparr>"

(* crates/ramag-domain/src/traits/plugin_entry.rs:72-75 PluginEntryDescriptor::with_description *)
definition entry_with_description ::
  "string \<Rightarrow> plugin_entry_descriptor \<Rightarrow> plugin_entry_descriptor" where
  "entry_with_description t e = e\<lparr>ed_description := t\<rparr>"

(* crates/ramag-domain/src/traits/plugin_entry.rs:77-80 PluginEntryDescriptor::with_input *)
definition with_input ::
  "plugin_entry_data_spec \<Rightarrow> plugin_entry_descriptor \<Rightarrow> plugin_entry_descriptor" where
  "with_input s e = e\<lparr>ed_input := s\<rparr>"

(* crates/ramag-domain/src/traits/plugin_entry.rs:82-85 PluginEntryDescriptor::with_output *)
definition with_output ::
  "plugin_entry_data_spec \<Rightarrow> plugin_entry_descriptor \<Rightarrow> plugin_entry_descriptor" where
  "with_output s e = e\<lparr>ed_output := s\<rparr>"

(* crates/ramag-domain/src/traits/plugin.rs:280-292 PluginDescriptor::new *)
definition descriptor_new :: "plugin_id \<Rightarrow> string \<Rightarrow> string \<Rightarrow> plugin_descriptor" where
  "descriptor_new i n e =
     \<lparr>pd_id = i, pd_api_version = CURRENT_PLUGIN_API_VERSION, pd_name = n,
      pd_description = [], pd_entry_id = e, pd_entries = [],
      pd_capabilities = [PluginCapability ''ui.entry''], pd_settings = []\<rparr>"

(* crates/ramag-domain/src/traits/plugin.rs:299-302 PluginDescriptor::with_description *)
definition with_description :: "string \<Rightarrow> plugin_descriptor \<Rightarrow> plugin_descriptor" where
  "with_description t d = d\<lparr>pd_description := t\<rparr>"

(* crates/ramag-domain/src/traits/plugin.rs:304-310 PluginDescriptor::with_capabilities *)
definition with_capabilities ::
  "plugin_capability list \<Rightarrow> plugin_descriptor \<Rightarrow> plugin_descriptor" where
  "with_capabilities cs d = d\<lparr>pd_capabilities := cs\<rparr>"

(* crates/ramag-domain/src/traits/plugin.rs:312-315 PluginDescriptor::with_settings *)
definition with_settings ::
  "plugin_setting_definition list \<Rightarrow> plugin_descriptor \<Rightarrow> plugin_descriptor" where
  "with_settings ss d = d\<lparr>pd_settings := ss\<rparr>"

(* crates/ramag-domain/src/traits/plugin.rs:317-321 PluginDescriptor::with_entries *)
definition with_entries ::
  "plugin_entry_descriptor list \<Rightarrow> plugin_descriptor \<Rightarrow> plugin_descriptor" where
  "with_entries es d = d\<lparr>pd_entries := es\<rparr>"

(* crates/ramag-domain/src/traits/plugin.rs:323-332 PluginDescriptor::entry_descriptors *)
definition entry_descriptors :: "plugin_descriptor \<Rightarrow> plugin_entry_descriptor list" where
  "entry_descriptors d =
     (if pd_entries d = [] then
        [entry_with_description (pd_description d) (entry_new (pd_entry_id d) (pd_name d))]
      else pd_entries d)"

end
