(* ===== verification/Manifest_Validation.thy ===== *)
theory Manifest_Validation
  imports Plugin_Manifest
begin

text \<open>
  The validators of the plugin manifest (\<open>plugin.rs\<close>, \<open>plugin_entry.rs\<close>), each a function
  that returns the first error the code returns, and the declarative well-formedness predicates
  they decide.  A \<open>HashSet\<close> that only detects duplicates is the list of the values seen so far.
\<close>

section \<open>Field validators\<close>

(* crates/ramag-domain/src/traits/plugin.rs:477-500 validate_identifier *)
definition validate_identifier :: "string \<Rightarrow> string \<Rightarrow> nat \<Rightarrow> plugin_registration_error + unit" where
  "validate_identifier field value max_bytes =
     (if value = [] then Inl (EmptyField field)
      else if max_bytes < length value then Inl (FieldTooLong field max_bytes)
      else
        let valid = list_all (\<lambda>(index, b).
              is_ascii_lowercase b \<or> is_ascii_digit b
              \<or> (0 < index \<and> b \<in> {CHR ''.'', CHR ''_'', CHR ''-''})) (enumerate 0 value)
        in if \<not> valid \<or> \<not> is_ascii_alphanumeric (value ! 0)
           then Inl (InvalidIdentifier field value)
           else Inr ())"

(* crates/ramag-domain/src/traits/plugin.rs:502-515 validate_text *)
definition validate_text ::
  "string \<Rightarrow> string \<Rightarrow> nat \<Rightarrow> bool \<Rightarrow> plugin_registration_error + unit" where
  "validate_text field value max_bytes allow_empty =
     (if \<not> allow_empty \<and> value = [] then Inl (EmptyField field)
      else if max_bytes < length value then Inl (FieldTooLong field max_bytes)
      else Inr ())"

(* crates/ramag-domain/src/traits/plugin.rs:530-535 invalid_setting *)
definition invalid_setting :: "string \<Rightarrow> string \<Rightarrow> plugin_registration_error" where
  "invalid_setting key reason = InvalidSetting key reason"

(* crates/ramag-domain/src/traits/plugin.rs:517-528 validate_setting_text *)
definition validate_setting_text :: "string \<Rightarrow> string \<Rightarrow> plugin_registration_error + unit" where
  "validate_setting_text key value =
     (if value = [] then Inl (invalid_setting key (utf8 [0x5B57, 0x7B26, 0x4E32, 0x503C, 0x4E0D, 0x80FD, 0x4E3A, 0x7A7A]))
      else if MAX_PLUGIN_SETTING_VALUE_BYTES < length value then
        Inl (invalid_setting key
          ((utf8 [0x5B57, 0x7B26, 0x4E32, 0x503C, 0x8D85, 0x8FC7] @ '' '') @ dec MAX_PLUGIN_SETTING_VALUE_BYTES @ ('' '' @ utf8 [0x5B57, 0x8282])))
      else Inr ())"

(* crates/ramag-domain/src/traits/plugin.rs:66-72 PluginId::new *)
definition plugin_id_new :: "string \<Rightarrow> plugin_registration_error + plugin_id" where
  "plugin_id_new value =
     try_r (validate_identifier (utf8 [0x63D2, 0x4EF6] @ '' ID'') value MAX_PLUGIN_ID_BYTES) (\<lambda>_. Inr (PluginId value))"

section \<open>Setting definitions\<close>

(* crates/ramag-domain/src/traits/plugin.rs:225-238 PluginSettingDefinition::validate_default *)
fun kind_matches :: "plugin_setting_kind \<Rightarrow> plugin_setting_value \<Rightarrow> bool" where
  "kind_matches BooleanK (BooleanV _) = True"
| "kind_matches IntegerK (IntegerV _) = True"
| "kind_matches StringK (StringV _) = True"
| "kind_matches EnumK (StringV _) = True"
| "kind_matches StringListK (StringListV _) = True"
| "kind_matches _ _ = False"

(* crates/ramag-domain/src/traits/plugin.rs:221-263 PluginSettingDefinition::validate_default *)
definition validate_default ::
  "plugin_setting_definition \<Rightarrow> plugin_setting_value \<Rightarrow> plugin_registration_error + unit" where
  "validate_default d v =
     (if \<not> kind_matches (sd_kind d) v then
        Inl (invalid_setting (sd_key d) (utf8 [0x9ED8, 0x8BA4, 0x503C, 0x7C7B, 0x578B, 0x4E0E, 0x8BBE, 0x7F6E, 0x7C7B, 0x578B, 0x4E0D, 0x5339, 0x914D]))
      else
        case v of
          StringV value \<Rightarrow>
            try_r (validate_setting_text (sd_key d) value) (\<lambda>_.
              if sd_kind d = EnumK \<and> value \<notin> set (sd_enum_values d)
              then Inl (invalid_setting (sd_key d) (utf8 [0x9ED8, 0x8BA4, 0x679A, 0x4E3E, 0x503C, 0x4E0D, 0x5728, 0x679A, 0x4E3E, 0x5217, 0x8868, 0x4E2D]))
              else Inr ())
        | StringListV values \<Rightarrow>
            (if MAX_PLUGIN_SETTING_LIST_ITEMS < length values then
               Inl (invalid_setting (sd_key d)
                 ((utf8 [0x5B57, 0x7B26, 0x4E32, 0x5217, 0x8868, 0x8D85, 0x8FC7] @ '' '') @ dec MAX_PLUGIN_SETTING_LIST_ITEMS @ ('' '' @ utf8 [0x9879])))
             else for_r (validate_setting_text (sd_key d)) values)
        | BooleanV _ \<Rightarrow> Inr ()
        | IntegerV _ \<Rightarrow> Inr ())"

(* crates/ramag-domain/src/traits/plugin.rs:213-219 PluginSettingDefinition::validate_value *)
definition validate_value ::
  "plugin_setting_definition \<Rightarrow> plugin_setting_value \<Rightarrow> plugin_registration_error + unit" where
  "validate_value d v = validate_default d v"

(* crates/ramag-domain/src/traits/plugin.rs:199-205 PluginSettingDefinition::validate *)
fun check_enum_values :: "string \<Rightarrow> string list \<Rightarrow> string list \<Rightarrow> plugin_registration_error + unit" where
  "check_enum_values key seen [] = Inr ()"
| "check_enum_values key seen (value # rest) =
     try_r (validate_setting_text key value) (\<lambda>_.
       if value \<in> set seen then Inl (invalid_setting key (utf8 [0x679A, 0x4E3E, 0x503C, 0x91CD, 0x590D]))
       else check_enum_values key (value # seen) rest)"

(* crates/ramag-domain/src/traits/plugin.rs:176-211 PluginSettingDefinition::validate *)
definition validate_setting :: "plugin_setting_definition \<Rightarrow> plugin_registration_error + unit" where
  "validate_setting d =
     try_r (map_err (\<lambda>e. InvalidSetting (sd_key d) (display_registration_error e))
        (validate_identifier (utf8 [0x63D2, 0x4EF6, 0x8BBE, 0x7F6E, 0x952E]) (sd_key d) MAX_PLUGIN_SETTING_KEY_BYTES)) (\<lambda>_.
     try_r (ensure (\<not> (sd_kind d \<noteq> EnumK \<and> sd_enum_values d \<noteq> []))
        (invalid_setting (sd_key d) (utf8 [0x53EA, 0x6709] @ '' Enum '' @ utf8 [0x8BBE, 0x7F6E, 0x53EF, 0x4EE5, 0x58F0, 0x660E, 0x679A, 0x4E3E, 0x503C]))) (\<lambda>_.
     try_r
       (if sd_kind d = EnumK then
          (if sd_enum_values d = [] then
             Inl (invalid_setting (sd_key d) (''Enum '' @ utf8 [0x8BBE, 0x7F6E, 0x81F3, 0x5C11, 0x9700, 0x8981, 0x4E00, 0x4E2A, 0x679A, 0x4E3E, 0x503C]))
           else if MAX_PLUGIN_ENUM_VALUES < length (sd_enum_values d) then
             Inl (invalid_setting (sd_key d)
               ((utf8 [0x679A, 0x4E3E, 0x503C, 0x8D85, 0x8FC7] @ '' '') @ dec MAX_PLUGIN_ENUM_VALUES @ ('' '' @ utf8 [0x9879])))
           else check_enum_values (sd_key d) [] (sd_enum_values d))
        else Inr ()) (\<lambda>_.
     case sd_default d of None \<Rightarrow> Inr () | Some v \<Rightarrow> validate_default d v)))"

section \<open>Entries\<close>

(* crates/ramag-domain/src/traits/plugin_entry.rs:118-123 PluginEntryDescriptor::invalid *)
definition entry_invalid :: "plugin_entry_descriptor \<Rightarrow> string \<Rightarrow> plugin_registration_error" where
  "entry_invalid e reason = InvalidEntry (ed_id e) reason"

(* crates/ramag-domain/src/traits/plugin_entry.rs:105-116 PluginEntryDescriptor::validate_payload *)
definition validate_payload ::
  "plugin_entry_descriptor \<Rightarrow> string \<Rightarrow> plugin_entry_data_spec \<Rightarrow> plugin_registration_error + unit" where
  "validate_payload e label spec =
     (if ds_max_bytes spec = 0 \<or> MAX_PLUGIN_ENTRY_PAYLOAD_BYTES < ds_max_bytes spec then
        Inl (entry_invalid e (label @ (utf8 [0x8F7D, 0x8377, 0x4E0A, 0x9650, 0x5FC5, 0x987B, 0x5728] @ '' 1 '' @ utf8 [0x5230] @ '' '') @
          dec MAX_PLUGIN_ENTRY_PAYLOAD_BYTES @ ('' '' @ utf8 [0x5B57, 0x8282, 0x4E4B, 0x95F4])))
      else Inr ())"

(* crates/ramag-domain/src/traits/plugin_entry.rs:87-103 PluginEntryDescriptor::validate *)
definition validate_entry :: "plugin_entry_descriptor \<Rightarrow> plugin_registration_error + unit" where
  "validate_entry e =
     try_r (map_err (\<lambda>x. entry_invalid e (display_registration_error x))
       (validate_identifier (utf8 [0x63D2, 0x4EF6, 0x5165, 0x53E3] @ '' ID'') (ed_id e) MAX_PLUGIN_ENTRY_ID_BYTES)) (\<lambda>_.
     try_r (map_err (\<lambda>x. entry_invalid e (display_registration_error x))
       (validate_text (utf8 [0x63D2, 0x4EF6, 0x5165, 0x53E3, 0x540D, 0x79F0]) (ed_name e) MAX_PLUGIN_NAME_BYTES False)) (\<lambda>_.
     try_r (map_err (\<lambda>x. entry_invalid e (display_registration_error x))
       (validate_text (utf8 [0x63D2, 0x4EF6, 0x5165, 0x53E3, 0x63CF, 0x8FF0]) (ed_description e) MAX_PLUGIN_DESCRIPTION_BYTES True)) (\<lambda>_.
     try_r (validate_payload e (utf8 [0x8F93, 0x5165]) (ed_input e)) (\<lambda>_.
     validate_payload e (utf8 [0x8F93, 0x51FA]) (ed_output e)))))"

section \<open>Descriptors\<close>

(* crates/ramag-domain/src/traits/plugin.rs:368-376 PluginDescriptor::validate_for *)
fun check_entries ::
  "string list \<Rightarrow> plugin_entry_descriptor list \<Rightarrow> plugin_registration_error + unit" where
  "check_entries seen [] = Inr ()"
| "check_entries seen (e # es) =
     try_r (validate_entry e) (\<lambda>_.
       if ed_id e \<in> set seen then Inl (DuplicateEntryDescriptor (ed_id e))
       else check_entries (ed_id e # seen) es)"

(* crates/ramag-domain/src/traits/plugin.rs:388-400 PluginDescriptor::validate_for *)
fun check_capabilities ::
  "plugin_capability list \<Rightarrow> plugin_capability list \<Rightarrow> plugin_registration_error + unit" where
  "check_capabilities seen [] = Inr ()"
| "check_capabilities seen (c # cs) =
     (if \<not> is_known c then Inl (UnknownCapability (capability_str c))
      else if c \<in> set seen then Inl (DuplicateCapability (capability_str c))
      else check_capabilities (c # seen) cs)"

(* crates/ramag-domain/src/traits/plugin.rs:407-414 PluginDescriptor::validate_for *)
fun check_settings ::
  "string list \<Rightarrow> plugin_setting_definition list \<Rightarrow> plugin_registration_error + unit" where
  "check_settings seen [] = Inr ()"
| "check_settings seen (d # ds) =
     try_r (validate_setting d) (\<lambda>_.
       if sd_key d \<in> set seen then Inl (DuplicateSetting (sd_key d))
       else check_settings (sd_key d # seen) ds)"

(* crates/ramag-domain/src/traits/plugin.rs:339-415 PluginDescriptor::validate_for *)
definition validate_for ::
  "plugin_api_version \<Rightarrow> plugin_descriptor \<Rightarrow> plugin_registration_error + unit" where
  "validate_for host d =
     try_r (validate_identifier (utf8 [0x63D2, 0x4EF6] @ '' ID'') (as_str (pd_id d)) MAX_PLUGIN_ID_BYTES) (\<lambda>_.
     try_r (ensure (is_supported_by (pd_api_version d) host)
       (UnsupportedApiVersion (pd_api_version d) host)) (\<lambda>_.
     try_r (validate_text (utf8 [0x63D2, 0x4EF6, 0x540D, 0x79F0]) (pd_name d) MAX_PLUGIN_NAME_BYTES False) (\<lambda>_.
     try_r (validate_text (utf8 [0x63D2, 0x4EF6, 0x63CF, 0x8FF0]) (pd_description d) MAX_PLUGIN_DESCRIPTION_BYTES True) (\<lambda>_.
     try_r (validate_identifier (utf8 [0x63D2, 0x4EF6, 0x5165, 0x53E3] @ '' ID'') (pd_entry_id d) MAX_PLUGIN_ENTRY_ID_BYTES) (\<lambda>_.
     let entries = entry_descriptors d in
     try_r (ensure (length entries \<le> MAX_PLUGIN_ENTRIES) (TooManyEntries MAX_PLUGIN_ENTRIES)) (\<lambda>_.
     try_r (check_entries [] entries) (\<lambda>_.
     try_r (ensure (pd_entry_id d \<in> set (map ed_id entries)) (MissingPrimaryEntry (pd_entry_id d))) (\<lambda>_.
     try_r (ensure (length (pd_capabilities d) \<le> MAX_PLUGIN_CAPABILITIES)
       (TooManyCapabilities MAX_PLUGIN_CAPABILITIES)) (\<lambda>_.
     try_r (check_capabilities [] (pd_capabilities d)) (\<lambda>_.
     try_r (ensure (length (pd_settings d) \<le> MAX_PLUGIN_SETTINGS)
       (TooManySettings MAX_PLUGIN_SETTINGS)) (\<lambda>_.
     check_settings [] (pd_settings d))))))))))))"

(* crates/ramag-domain/src/traits/plugin.rs:334-337 PluginDescriptor::validate *)
definition validate_descriptor :: "plugin_descriptor \<Rightarrow> plugin_registration_error + unit" where
  "validate_descriptor d = validate_for CURRENT_PLUGIN_API_VERSION d"

section \<open>What the validators decide\<close>

definition wf_identifier :: "nat \<Rightarrow> string \<Rightarrow> bool" where
  "wf_identifier m s \<longleftrightarrow>
     s \<noteq> [] \<and> length s \<le> m \<and> (is_ascii_lowercase (hd s) \<or> is_ascii_digit (hd s))
     \<and> (\<forall>b\<in>set s. is_ascii_lowercase b \<or> is_ascii_digit b \<or> b \<in> set ''._-'')"

definition wf_setting_text :: "string \<Rightarrow> bool" where
  "wf_setting_text s \<longleftrightarrow> s \<noteq> [] \<and> length s \<le> 1024"

fun wf_value :: "plugin_setting_definition \<Rightarrow> plugin_setting_value \<Rightarrow> bool" where
  "wf_value d (BooleanV _) = (sd_kind d = BooleanK)"
| "wf_value d (IntegerV _) = (sd_kind d = IntegerK)"
| "wf_value d (StringV s) =
     (wf_setting_text s \<and>
      (sd_kind d = StringK \<or> sd_kind d = EnumK \<and> s \<in> set (sd_enum_values d)))"
| "wf_value d (StringListV xs) =
     (sd_kind d = StringListK \<and> length xs \<le> 64 \<and> (\<forall>s\<in>set xs. wf_setting_text s))"

definition wf_setting :: "plugin_setting_definition \<Rightarrow> bool" where
  "wf_setting d \<longleftrightarrow>
     wf_identifier 64 (sd_key d)
     \<and> (if sd_kind d = EnumK
        then sd_enum_values d \<noteq> [] \<and> length (sd_enum_values d) \<le> 64
             \<and> distinct (sd_enum_values d) \<and> (\<forall>s\<in>set (sd_enum_values d). wf_setting_text s)
        else sd_enum_values d = [])
     \<and> (\<forall>v. sd_default d = Some v \<longrightarrow> wf_value d v)"

definition wf_entry :: "plugin_entry_descriptor \<Rightarrow> bool" where
  "wf_entry e \<longleftrightarrow>
     wf_identifier 128 (ed_id e) \<and> ed_name e \<noteq> [] \<and> length (ed_name e) \<le> 128
     \<and> length (ed_description e) \<le> 512
     \<and> 0 < ds_max_bytes (ed_input e) \<and> ds_max_bytes (ed_input e) \<le> 4194304
     \<and> 0 < ds_max_bytes (ed_output e) \<and> ds_max_bytes (ed_output e) \<le> 4194304"

definition wf_descriptor :: "plugin_api_version \<Rightarrow> plugin_descriptor \<Rightarrow> bool" where
  "wf_descriptor host d \<longleftrightarrow>
     wf_identifier 64 (as_str (pd_id d)) \<and> is_supported_by (pd_api_version d) host
     \<and> pd_name d \<noteq> [] \<and> length (pd_name d) \<le> 128 \<and> length (pd_description d) \<le> 512
     \<and> wf_identifier 128 (pd_entry_id d)
     \<and> length (entry_descriptors d) \<le> 16 \<and> (\<forall>e\<in>set (entry_descriptors d). wf_entry e)
     \<and> distinct (map ed_id (entry_descriptors d))
     \<and> pd_entry_id d \<in> set (map ed_id (entry_descriptors d))
     \<and> (\<forall>c\<in>set (pd_capabilities d). is_known c) \<and> distinct (pd_capabilities d)
     \<and> length (pd_settings d) \<le> 64 \<and> (\<forall>s\<in>set (pd_settings d). wf_setting s)
     \<and> distinct (map sd_key (pd_settings d))"

lemma list_all_enumerate_pos:
  "list_all (\<lambda>(i, b). P b \<or> (0 < i \<and> Q b)) (enumerate (Suc n) cs) \<longleftrightarrow> (\<forall>b\<in>set cs. P b \<or> Q b)"
  by (induction cs arbitrary: n) simp_all

lemma validate_identifier_ok:
  "validate_identifier f s m = Inr () \<longleftrightarrow> wf_identifier m s"
proof (cases s)
  case Nil
  then show ?thesis by (simp add: validate_identifier_def wf_identifier_def)
next
  case (Cons c cs)
  show ?thesis
    using list_all_enumerate_pos [of "\<lambda>b. is_ascii_lowercase b \<or> is_ascii_digit b"
        "\<lambda>b. b \<in> {CHR ''.'', CHR ''_'', CHR ''-''}" 0 cs] Cons
    by (auto simp: validate_identifier_def wf_identifier_def is_ascii_alphanumeric_def
        is_ascii_alphabetic_def Let_def disj_assoc)
qed

lemma validate_text_ok:
  "validate_text f s m b = Inr () \<longleftrightarrow> (s \<noteq> [] \<or> b) \<and> length s \<le> m"
  by (auto simp: validate_text_def)

lemma validate_setting_text_ok: "validate_setting_text k s = Inr () \<longleftrightarrow> wf_setting_text s"
  by (auto simp: validate_setting_text_def wf_setting_text_def limits)

lemma validate_default_ok: "validate_default d v = Inr () \<longleftrightarrow> wf_value d v"
  by (cases v; cases "sd_kind d")
    (auto simp: validate_default_def limits validate_setting_text_ok)

lemma check_enum_values_ok:
  "check_enum_values k seen xs = Inr () \<longleftrightarrow>
     (\<forall>s\<in>set xs. wf_setting_text s) \<and> distinct xs \<and> set xs \<inter> set seen = {}"
  by (induction k seen xs rule: check_enum_values.induct) (auto simp: validate_setting_text_ok)

lemma validate_setting_ok: "validate_setting d = Inr () \<longleftrightarrow> wf_setting d"
  by (auto simp: validate_setting_def wf_setting_def validate_identifier_ok limits
      check_enum_values_ok validate_default_ok split: option.split)

lemma validate_payload_ok:
  "validate_payload e l s = Inr () \<longleftrightarrow> 0 < ds_max_bytes s \<and> ds_max_bytes s \<le> 4194304"
  by (auto simp: validate_payload_def limits)

lemma validate_entry_ok: "validate_entry e = Inr () \<longleftrightarrow> wf_entry e"
  by (auto simp: validate_entry_def wf_entry_def validate_identifier_ok validate_text_ok
      validate_payload_ok limits)

lemma check_entries_ok:
  "check_entries seen es = Inr () \<longleftrightarrow>
     (\<forall>e\<in>set es. wf_entry e) \<and> distinct (map ed_id es) \<and> ed_id ` set es \<inter> set seen = {}"
  by (induction seen es rule: check_entries.induct) (auto simp: validate_entry_ok)

lemma check_capabilities_ok:
  "check_capabilities seen cs = Inr () \<longleftrightarrow>
     (\<forall>c\<in>set cs. is_known c) \<and> distinct cs \<and> set cs \<inter> set seen = {}"
  by (induction seen cs rule: check_capabilities.induct) auto

lemma check_settings_ok:
  "check_settings seen ds = Inr () \<longleftrightarrow>
     (\<forall>d\<in>set ds. wf_setting d) \<and> distinct (map sd_key ds) \<and> sd_key ` set ds \<inter> set seen = {}"
  by (induction seen ds rule: check_settings.induct) (auto simp: validate_setting_ok)

text \<open>Known and distinct capabilities are at most four, well below the declared limit of 16.\<close>

lemma known_capabilities_bound:
  assumes "\<forall>c\<in>set cs. is_known c" and "distinct cs"
  shows "length cs \<le> 4"
proof -
  have "set cs \<subseteq> PluginCapability ` set KNOWN_PLUGIN_CAPABILITIES"
  proof
    fix c
    assume "c \<in> set cs"
    then have "is_known c" using assms(1) by blast
    then show "c \<in> PluginCapability ` set KNOWN_PLUGIN_CAPABILITIES"
      by (cases c) (simp add: is_known_def)
  qed
  then have "card (set cs) \<le> card (PluginCapability ` set KNOWN_PLUGIN_CAPABILITIES)"
    by (intro card_mono) auto
  also have "\<dots> \<le> card (set KNOWN_PLUGIN_CAPABILITIES)" by (rule card_image_le) simp
  also have "\<dots> \<le> length KNOWN_PLUGIN_CAPABILITIES" by (rule card_length)
  finally show ?thesis
    using assms(2) by (simp add: distinct_card KNOWN_PLUGIN_CAPABILITIES_def)
qed

lemma validate_for_ok: "validate_for host d = Inr () \<longleftrightarrow> wf_descriptor host d"
  using known_capabilities_bound [of "pd_capabilities d"]
  by (auto simp: validate_for_def wf_descriptor_def Let_def limits validate_identifier_ok
      validate_text_ok check_entries_ok check_capabilities_ok check_settings_ok)

lemma validate_descriptor_ok:
  "validate_descriptor d = Inr () \<longleftrightarrow> wf_descriptor CURRENT_PLUGIN_API_VERSION d"
  by (simp add: validate_descriptor_def validate_for_ok)

lemma plugin_id_new_ok: "plugin_id_new s = Inr p \<longleftrightarrow> p = PluginId s \<and> wf_identifier 64 s"
  by (auto simp: plugin_id_new_def validate_identifier_ok limits)

section \<open>Properties\<close>


end
