(* ===== verification/List_Ops.thy ===== *)
theory List_Ops
  imports Ramag_Prelude "HOL-Library.Multiset"
begin

text \<open>
  \<open>Vec\<close> operations by index (\<open>position\<close>, \<open>remove\<close>, \<open>insert\<close>, the k-th element that satisfies a
  predicate) and what they do to the element order, and the interface \<open>reporting_machine\<close> of the
  components whose operations answer whether they changed the state.
\<close>

fun position :: "('a \<Rightarrow> bool) \<Rightarrow> 'a list \<Rightarrow> nat option" where
  "position P [] = None"
| "position P (x # xs) = (if P x then Some 0 else map_option Suc (position P xs))"

definition remove_at :: "nat \<Rightarrow> 'a list \<Rightarrow> 'a list" where
  "remove_at i xs = take i xs @ drop (Suc i) xs"

definition insert_at :: "nat \<Rightarrow> 'a \<Rightarrow> 'a list \<Rightarrow> 'a list" where
  "insert_at i x xs = take i xs @ x # drop i xs"

text \<open>\<open>iter().enumerate().filter(P).nth(k).map(|(index, _)| index)\<close>\<close>

fun nth_match :: "('a \<Rightarrow> bool) \<Rightarrow> nat \<Rightarrow> 'a list \<Rightarrow> nat option" where
  "nth_match P k [] = None"
| "nth_match P k (x # xs) =
     (if P x then (case k of 0 \<Rightarrow> Some 0 | Suc j \<Rightarrow> map_option Suc (nth_match P j xs))
      else map_option Suc (nth_match P k xs))"

lemma find_SomeD: "find P xs = Some x \<Longrightarrow> x \<in> set xs \<and> P x"
  by (auto simp: find_Some_iff)

lemma position_None: "position P xs = None \<longleftrightarrow> (\<forall>x\<in>set xs. \<not> P x)"
  by (induction xs) auto

lemma position_Some:
  "position P xs = Some i \<longleftrightarrow> i < length xs \<and> P (xs ! i) \<and> (\<forall>j<i. \<not> P (xs ! j))"
proof (induction xs arbitrary: i)
  case Nil
  then show ?case by simp
next
  case (Cons x xs)
  show ?case by (cases i) (auto simp: Cons less_Suc_eq_0_disj nth_Cons split: nat.splits)
qed

lemma find_position: "find P xs = map_option ((!) xs) (position P xs)"
  by (induction xs) (auto simp: option.map_comp comp_def intro: option.map_cong)

lemma position_append_notin:
  "\<forall>x\<in>set xs. \<not> P x \<Longrightarrow> P y \<Longrightarrow> position P (xs @ y # ys) = Some (length xs)"
  by (induction xs) auto

lemma position_split:
  assumes "position P xs = Some i"
  shows "xs = take i xs @ xs ! i # drop (Suc i) xs" "P (xs ! i)" "i < length xs"
    "\<forall>x\<in>set (take i xs). \<not> P x"
  using assms by (auto simp: position_Some id_take_nth_drop [symmetric] in_set_conv_nth)

lemma length_remove_at: "i < length xs \<Longrightarrow> length (remove_at i xs) = length xs - 1"
  by (simp add: remove_at_def)

lemma length_insert_at: "i \<le> length xs \<Longrightarrow> length (insert_at i x xs) = Suc (length xs)"
  by (simp add: insert_at_def)

lemma mset_insert_at: "mset (insert_at i x xs) = add_mset x (mset xs)"
  by (simp add: insert_at_def) (metis append_take_drop_id mset_append)

lemma mset_remove_at: "i < length xs \<Longrightarrow> add_mset (xs ! i) (mset (remove_at i xs)) = mset xs"
  by (subst (3) id_take_nth_drop [of i xs]) (simp_all add: remove_at_def)

lemma insert_remove_at: "i < length xs \<Longrightarrow> insert_at i (xs ! i) (remove_at i xs) = xs"
  by (simp add: insert_at_def remove_at_def id_take_nth_drop [symmetric])

lemma remove_insert_at: "i \<le> length xs \<Longrightarrow> remove_at i (insert_at i x xs) = xs"
  by (simp add: insert_at_def remove_at_def)

lemma nth_insert_at: "i \<le> length xs \<Longrightarrow> insert_at i x xs ! i = x"
  by (simp add: insert_at_def nth_append)

lemma set_remove_at: "set (remove_at i xs) \<subseteq> set xs"
  by (auto simp: remove_at_def dest: in_set_takeD in_set_dropD)

lemma filter_insert_at:
  "filter P (insert_at i x xs) =
     filter P (take i xs) @ (if P x then [x] else []) @ filter P (drop i xs)"
  by (simp add: insert_at_def)

lemma nth_match_Some:
  "nth_match P k xs = Some i \<Longrightarrow>
     i < length xs \<and> P (xs ! i) \<and> filter P (take i xs) = take k (filter P xs)
     \<and> filter P (drop i xs) = drop k (filter P xs)"
proof (induction P k xs arbitrary: i rule: nth_match.induct)
  case (1 P k)
  then show ?case by simp
next
  case (2 P k x xs)
  then show ?case by (auto split: if_splits nat.splits)
qed

lemma nth_match_None: "nth_match P k xs = None \<longleftrightarrow> length (filter P xs) \<le> k"
  by (induction P k xs rule: nth_match.induct) (auto split: nat.splits)

section \<open>Machines that report changes\<close>

text \<open>
  \<open>step s e\<close> is the operation \<open>e\<close> on state \<open>s\<close>: whether it reports a change, and the state after
  it.  The contract is that \<open>False\<close> means nothing changed, and that the invariant is kept.
\<close>

locale reporting_machine =
  fixes step :: "'s \<Rightarrow> 'e \<Rightarrow> bool \<times> 's"
    and inv :: "'s \<Rightarrow> bool"
  assumes unchanged: "inv s \<Longrightarrow> step s e = (False, s') \<Longrightarrow> s' = s"
    and inv_step: "inv s \<Longrightarrow> inv (snd (step s e))"
begin

lemma run_inv: "inv s \<Longrightarrow> inv (fold (\<lambda>e s. snd (step s e)) es s)"
  by (induction es arbitrary: s) (simp_all add: inv_step)

lemma changed_reports: "inv s \<Longrightarrow> snd (step s e) \<noteq> s \<Longrightarrow> fst (step s e)"
  by (metis prod.collapse unchanged)

text \<open>A run in which every step reports no change ends where it started.\<close>

lemma run_unchanged:
  assumes "inv s" and "\<forall>e\<in>set es. \<not> fst (step s e)"
  shows "fold (\<lambda>e s. snd (step s e)) es s = s"
  using assms
proof (induction es)
  case Nil
  then show ?case by simp
next
  case (Cons e es)
  then have "snd (step s e) = s" by (metis changed_reports list.set_intros(1))
  with Cons show ?case by simp
qed

end

end
