(* ===== verification/Tool_Registry.thy ===== *)
theory Tool_Registry
  imports Manifest_Validation List_Ops
begin

text \<open>
  The tool registry (\<open>crates/ramag-app/src/tool_registry.rs\<close>, \<open>tool_visibility.rs\<close>): the ordered
  list of tool entries with their surface visibility, registration of tools and of whole plugin
  entry groups, and the reordering operations behind drag and drop.  The \<open>RwLock\<close> around the
  list makes each operation one step; \<open>Arc<dyn Tool>\<close> is the tool's metadata, the only method the
  trait has.  Operations that answer whether they changed the list return the flag with the list.
\<close>

section \<open>State\<close>

(* crates/ramag-app/src/tool_registry.rs:14-18 ToolVisibility *)
record tool_visibility =
  tv_home :: bool
  tv_sidebar :: bool

(* crates/ramag-app/src/tool_registry.rs:20-26 ToolEntry *)
record tool_entry =
  te_tool :: tool_meta
  te_enabled :: bool
  te_home_visible :: bool
  te_sidebar_visible :: bool
  te_plugin :: "plugin_descriptor option"

(* crates/ramag-app/src/tool_registry.rs:28-31 ToolRegistry *)
type_synonym tool_registry = "tool_entry list"

abbreviation tool_id :: "tool_entry \<Rightarrow> string" where
  "tool_id e \<equiv> tm_id (te_tool e)"

section \<open>Registration\<close>

(* crates/ramag-app/src/tool_registry.rs:38-62 ToolRegistry::register *)
definition register_tool :: "tool_meta \<Rightarrow> tool_registry \<Rightarrow> tool_registry" where
  "register_tool tool tools =
     (if list_ex (\<lambda>t. tool_id t = tm_id tool) tools then tools
      else tools @ [\<lparr>te_tool = tool, te_enabled = True, te_home_visible = True,
                     te_sidebar_visible = True, te_plugin = None\<rparr>])"

(* crates/ramag-app/src/tool_registry.rs:102-117 ToolRegistry::register_plugin_entries *)
fun check_tool_ids ::
  "plugin_descriptor \<Rightarrow> string list \<Rightarrow> string list \<Rightarrow> tool_meta list \<Rightarrow>
     plugin_registration_error + string list" where
  "check_tool_ids d entry_ids tool_ids [] = Inr tool_ids"
| "check_tool_ids d entry_ids tool_ids (tool # rest) =
     (if tm_id tool \<notin> set entry_ids then
        Inl (EntryIdMismatch (pd_id d) (pd_entry_id d) (tm_id tool))
      else if tm_id tool \<in> set tool_ids then Inl (DuplicateEntryId (tm_id tool))
      else check_tool_ids d entry_ids (tm_id tool # tool_ids) rest)"

(* crates/ramag-app/src/tool_registry.rs:126-134 ToolRegistry::register_plugin_entries *)
definition order_tools :: "plugin_entry_descriptor list \<Rightarrow> tool_meta list \<Rightarrow> tool_meta list" where
  "order_tools entries plugin_tools =
     List.map_filter (\<lambda>entry. find (\<lambda>tool. tm_id tool = ed_id entry) plugin_tools) entries"

(* crates/ramag-app/src/tool_registry.rs:83-171 ToolRegistry::register_plugin_entries *)
definition register_plugin_entries ::
  "plugin_descriptor \<Rightarrow> tool_meta list \<Rightarrow> tool_registry \<Rightarrow>
     plugin_registration_error + tool_registry" where
  "register_plugin_entries d plugin_tools tools =
     try_r (validate_descriptor d) (\<lambda>_.
     let entries = entry_descriptors d in
     try_r (ensure (length entries = length plugin_tools)
       (EntryCountMismatch (pd_id d) (length entries) (length plugin_tools))) (\<lambda>_.
     let entry_ids = map ed_id entries in
     try_r (check_tool_ids d entry_ids [] plugin_tools) (\<lambda>tool_ids.
     try_r (for_r (\<lambda>entry. ensure (ed_id entry \<in> set tool_ids)
       (MissingToolEntry (pd_id d) (ed_id entry))) entries) (\<lambda>_.
     let ordered_tools = order_tools entries plugin_tools in
     if list_ex (\<lambda>e. case te_plugin e of None \<Rightarrow> False | Some p \<Rightarrow> pd_id p = pd_id d) tools then
       Inl (DuplicatePluginId (pd_id d))
     else
       case find (\<lambda>e. tool_id e \<in> set entry_ids) tools of
         Some duplicate \<Rightarrow> Inl (DuplicateEntryId (tool_id duplicate))
       | None \<Rightarrow>
           Inr (tools @ map (\<lambda>tool. \<lparr>te_tool = tool, te_enabled = True, te_home_visible = True,
             te_sidebar_visible = True, te_plugin = Some d\<rparr>) ordered_tools)))))"

(* crates/ramag-app/src/tool_registry.rs:74-81 ToolRegistry::register_plugin *)
definition register_plugin ::
  "plugin_descriptor \<Rightarrow> tool_meta \<Rightarrow> tool_registry \<Rightarrow>
     plugin_registration_error + tool_registry" where
  "register_plugin d tool tools = register_plugin_entries d [tool] tools"

(* crates/ramag-app/src/tool_registry.rs:64-72 ToolRegistry::register_builtin *)
definition register_builtin ::
  "tool_meta \<Rightarrow> tool_registry \<Rightarrow> plugin_registration_error + tool_registry" where
  "register_builtin tool tools =
     try_r (plugin_id_new (tm_id tool)) (\<lambda>plugin_id.
       register_plugin
         (with_capabilities [PluginCapability ''ui.entry'']
           (with_description (tm_description tool)
             (descriptor_new plugin_id (tm_name tool) (tm_id tool)))) tool tools)"

(* crates/ramag-app/src/tool_registry.rs:173-184 ToolRegistry::plugin_descriptors *)
fun plugin_descriptors_from :: "plugin_id list \<Rightarrow> tool_registry \<Rightarrow> plugin_descriptor list" where
  "plugin_descriptors_from seen [] = []"
| "plugin_descriptors_from seen (e # es) =
     (case te_plugin e of
        None \<Rightarrow> plugin_descriptors_from seen es
      | Some p \<Rightarrow>
          if pd_id p \<in> set seen then plugin_descriptors_from seen es
          else p # plugin_descriptors_from (pd_id p # seen) es)"

(* crates/ramag-app/src/tool_registry.rs:173-184 ToolRegistry::plugin_descriptors *)
definition plugin_descriptors :: "tool_registry \<Rightarrow> plugin_descriptor list" where
  "plugin_descriptors tools = plugin_descriptors_from [] tools"

(* crates/ramag-app/src/tool_registry.rs:190-195 ToolRegistry::unregister_plugin *)
definition of_plugin :: "string \<Rightarrow> tool_entry \<Rightarrow> bool" where
  "of_plugin p e = (case te_plugin e of None \<Rightarrow> False | Some d \<Rightarrow> as_str (pd_id d) = p)"

(* crates/ramag-app/src/tool_registry.rs:186-205 ToolRegistry::unregister_plugin *)
definition unregister_plugin :: "string \<Rightarrow> tool_registry \<Rightarrow> bool \<times> tool_registry" where
  "unregister_plugin p tools =
     (let before = length tools;
          tools' = filter (\<lambda>e. \<not> of_plugin p e) tools
      in if before = length tools' then (False, tools') else (True, tools'))"

section \<open>Visibility\<close>

text \<open>\<open>tools.iter_mut().find(P)\<close> followed by an update of the entry found.\<close>

(* crates/ramag-app/src/tool_registry.rs:211-220 ToolRegistry::set_enabled *)
definition update_at :: "nat \<Rightarrow> ('a \<Rightarrow> 'a) \<Rightarrow> 'a list \<Rightarrow> 'a list" where
  "update_at i f xs = xs[i := f (xs ! i)]"

(* crates/ramag-app/src/tool_registry.rs:207-224 ToolRegistry::set_enabled *)
definition set_enabled :: "string \<Rightarrow> bool \<Rightarrow> tool_registry \<Rightarrow> bool \<times> tool_registry" where
  "set_enabled i b tools =
     (case position (\<lambda>t. tool_id t = i) tools of
        None \<Rightarrow> (False, tools)
      | Some n \<Rightarrow>
          if te_enabled (tools ! n) = b then (False, tools)
          else (True, update_at n (\<lambda>e. e\<lparr>te_enabled := b\<rparr>) tools))"

(* crates/ramag-app/src/tool_registry.rs:524-549 ToolRegistry::set_surface_visibility *)
definition set_surface_visibility ::
  "string \<Rightarrow> bool \<Rightarrow> (tool_entry \<Rightarrow> bool) \<Rightarrow> (tool_entry \<Rightarrow> tool_entry) \<Rightarrow>
     tool_registry \<Rightarrow> bool \<times> tool_registry" where
  "set_surface_visibility i visible current store tools =
     (case position (\<lambda>e. tool_id e = i) tools of
        None \<Rightarrow> (False, tools)
      | Some n \<Rightarrow>
          if current (tools ! n) = visible then (False, tools)
          else (True, update_at n store tools))"

(* crates/ramag-app/src/tool_registry.rs:267-270 ToolRegistry::set_home_visible *)
definition set_home_visible :: "string \<Rightarrow> bool \<Rightarrow> tool_registry \<Rightarrow> bool \<times> tool_registry" where
  "set_home_visible i visible =
     set_surface_visibility i visible te_home_visible (\<lambda>e. e\<lparr>te_home_visible := visible\<rparr>)"

(* crates/ramag-app/src/tool_registry.rs:272-275 ToolRegistry::set_sidebar_visible *)
definition set_sidebar_visible :: "string \<Rightarrow> bool \<Rightarrow> tool_registry \<Rightarrow> bool \<times> tool_registry" where
  "set_sidebar_visible i visible =
     set_surface_visibility i visible te_sidebar_visible (\<lambda>e. e\<lparr>te_sidebar_visible := visible\<rparr>)"

(* crates/ramag-app/src/tool_registry.rs:226-233 ToolRegistry::list_all *)
definition list_all_tools :: "tool_registry \<Rightarrow> tool_meta list" where
  "list_all_tools tools = map te_tool tools"

(* crates/ramag-app/src/tool_registry.rs:235-243 ToolRegistry::home_list *)
definition home_list :: "tool_registry \<Rightarrow> tool_meta list" where
  "home_list tools = map te_tool (filter (\<lambda>e. te_enabled e \<and> te_home_visible e) tools)"

(* crates/ramag-app/src/tool_registry.rs:245-253 ToolRegistry::sidebar_list *)
definition sidebar_list :: "tool_registry \<Rightarrow> tool_meta list" where
  "sidebar_list tools = map te_tool (filter (\<lambda>e. te_enabled e \<and> te_sidebar_visible e) tools)"

(* crates/ramag-app/src/tool_registry.rs:255-265 ToolRegistry::visibility *)
definition visibility :: "string \<Rightarrow> tool_registry \<Rightarrow> tool_visibility option" where
  "visibility i tools =
     map_option (\<lambda>e. \<lparr>tv_home = te_home_visible e, tv_sidebar = te_sidebar_visible e\<rparr>)
       (find (\<lambda>e. tool_id e = i) tools)"

(* crates/ramag-app/src/tool_registry.rs:277-284 ToolRegistry::is_visible *)
definition is_visible :: "string \<Rightarrow> tool_registry \<Rightarrow> bool" where
  "is_visible i tools =
     list_ex (\<lambda>e. te_enabled e \<and> tool_id e = i \<and> (te_home_visible e \<or> te_sidebar_visible e)) tools"

(* crates/ramag-app/src/tool_registry.rs:286-294 ToolRegistry::list *)
definition list_enabled :: "tool_registry \<Rightarrow> tool_meta list" where
  "list_enabled tools = map te_tool (filter te_enabled tools)"

(* crates/ramag-app/src/tool_registry.rs:296-303 ToolRegistry::order *)
definition order :: "tool_registry \<Rightarrow> string list" where
  "order tools = map tool_id tools"

(* crates/ramag-app/src/tool_registry.rs:512-518 ToolRegistry::find *)
definition find_tool :: "string \<Rightarrow> tool_registry \<Rightarrow> tool_meta option" where
  "find_tool i tools = map_option te_tool (find (\<lambda>t. te_enabled t \<and> tool_id t = i) tools)"

(* crates/ramag-app/src/tool_registry.rs:520-522 ToolRegistry::count *)
definition count_enabled :: "tool_registry \<Rightarrow> nat" where
  "count_enabled tools = length (filter te_enabled tools)"

section \<open>Order\<close>

text \<open>
  The rank of an id is its index in the preference list; a \<open>HashMap\<close> built from the pairs keeps
  the last index of a repeated id.  \<open>sort_by_key\<close> is stable, as \<^const>\<open>sort_key\<close> is.
\<close>

(* crates/ramag-app/src/tool_registry.rs:317-332 ToolRegistry::apply_order *)
definition rank :: "string list \<Rightarrow> string \<Rightarrow> nat" where
  "rank ids i =
     (case map_of (rev (zip ids [0..<length ids])) i of Some index \<Rightarrow> index | None \<Rightarrow> length ids)"

(* crates/ramag-app/src/tool_registry.rs:311-342 ToolRegistry::apply_order *)
definition apply_order :: "string list \<Rightarrow> tool_registry \<Rightarrow> bool \<times> tool_registry" where
  "apply_order ids tools =
     (if ids = [] then (False, tools)
      else
        let previous = order tools;
            tools' = sort_key (\<lambda>e. rank ids (tool_id e)) tools
        in (previous \<noteq> order tools', tools'))"

(* crates/ramag-app/src/tool_registry.rs:305-309 ToolRegistry::apply_order_json *)
definition apply_order_json ::
  "(string \<Rightarrow> 'e + string list) \<Rightarrow> string \<Rightarrow> tool_registry \<Rightarrow> 'e + (bool \<times> tool_registry)" where
  "apply_order_json from_str json tools =
     try_r (from_str json) (\<lambda>ids. Inr (apply_order ids tools))"

(* crates/ramag-app/src/tool_registry.rs:344-400 ToolRegistry::reorder *)
definition reorder :: "string \<Rightarrow> string \<Rightarrow> bool \<Rightarrow> tool_registry \<Rightarrow> bool \<times> tool_registry" where
  "reorder dragged_id target_id before tools =
     (if dragged_id = target_id then (False, tools)
      else
        case position (\<lambda>e. te_enabled e \<and> tool_id e = dragged_id) tools of
          None \<Rightarrow> (False, tools)
        | Some dragged_index \<Rightarrow>
            if \<not> list_ex (\<lambda>e. te_enabled e \<and> tool_id e = target_id) tools then (False, tools)
            else
              let previous_order = order tools;
                  dragged = tools ! dragged_index;
                  rest = remove_at dragged_index tools
              in case position (\<lambda>e. te_enabled e \<and> tool_id e = target_id) rest of
                   None \<Rightarrow> (False, insert_at (min dragged_index (length rest)) dragged rest)
                 | Some target_index \<Rightarrow>
                     let insert_index = (if before then target_index else target_index + 1);
                         insert_index = min insert_index (length rest);
                         tools' = insert_at insert_index dragged rest
                     in (previous_order \<noteq> order tools', tools'))"

(* crates/ramag-app/src/tool_registry.rs:402-428 ToolRegistry::reorder_to_target *)
definition reorder_to_target :: "string \<Rightarrow> string \<Rightarrow> tool_registry \<Rightarrow> bool \<times> tool_registry" where
  "reorder_to_target dragged_id target_id tools =
     (if dragged_id = target_id then (False, tools)
      else
        case position (\<lambda>e. te_enabled e \<and> tool_id e = dragged_id) tools of
          None \<Rightarrow> (False, tools)
        | Some dragged_index \<Rightarrow>
            (case position (\<lambda>e. te_enabled e \<and> tool_id e = target_id) tools of
               None \<Rightarrow> (False, tools)
             | Some target_index \<Rightarrow>
                 reorder dragged_id target_id (target_index < dragged_index) tools))"

(* crates/ramag-app/src/tool_registry.rs:450-497 ToolRegistry::reorder_to_index_where *)
definition reorder_to_index_where ::
  "string \<Rightarrow> nat \<Rightarrow> (tool_entry \<Rightarrow> bool) \<Rightarrow> tool_registry \<Rightarrow> bool \<times> tool_registry" where
  "reorder_to_index_where dragged_id visible_index vis tools =
     (case position (\<lambda>e. vis e \<and> tool_id e = dragged_id) tools of
        None \<Rightarrow> (False, tools)
      | Some dragged_index \<Rightarrow>
          let previous_order = order tools;
              dragged = tools ! dragged_index;
              rest = remove_at dragged_index tools;
              remaining_visible_count = length (filter vis rest);
              target_index = min visible_index remaining_visible_count;
              insert_index =
                (if target_index = remaining_visible_count then length rest
                 else case nth_match vis target_index rest of
                        None \<Rightarrow> length rest | Some index \<Rightarrow> index);
              tools' = insert_at insert_index dragged rest
          in (previous_order \<noteq> order tools', tools'))"

(* crates/ramag-app/src/tool_registry.rs:430-434 ToolRegistry::reorder_to_index *)
definition reorder_to_index :: "string \<Rightarrow> nat \<Rightarrow> tool_registry \<Rightarrow> bool \<times> tool_registry" where
  "reorder_to_index dragged_id visible_index =
     reorder_to_index_where dragged_id visible_index te_enabled"

(* crates/ramag-app/src/tool_registry.rs:436-441 ToolRegistry::reorder_home_to_index *)
definition reorder_home_to_index :: "string \<Rightarrow> nat \<Rightarrow> tool_registry \<Rightarrow> bool \<times> tool_registry" where
  "reorder_home_to_index dragged_id visible_index =
     reorder_to_index_where dragged_id visible_index (\<lambda>e. te_enabled e \<and> te_home_visible e)"

(* crates/ramag-app/src/tool_registry.rs:443-448 ToolRegistry::reorder_sidebar_to_index *)
definition reorder_sidebar_to_index :: "string \<Rightarrow> nat \<Rightarrow> tool_registry \<Rightarrow> bool \<times> tool_registry" where
  "reorder_sidebar_to_index dragged_id visible_index =
     reorder_to_index_where dragged_id visible_index (\<lambda>e. te_enabled e \<and> te_sidebar_visible e)"

(* crates/ramag-app/src/tool_registry.rs:499-510 ToolRegistry::move_to_end *)
definition move_to_end :: "string \<Rightarrow> tool_registry \<Rightarrow> bool \<times> tool_registry" where
  "move_to_end dragged_id tools =
     (case map_option tool_id (find te_enabled (rev tools)) of
        None \<Rightarrow> (False, tools)
      | Some target_id \<Rightarrow> reorder dragged_id target_id False tools)"

section \<open>Saved visibility\<close>

(* crates/ramag-app/src/tool_visibility.rs:7-13 ToolVisibilityPreference *)
record visibility_preference =
  home_hidden :: "string list"
  sidebar_hidden :: "string list"

(* crates/ramag-app/src/tool_visibility.rs:24-28 ToolRegistry::apply_visibility_json *)
definition apply_visibility_one ::
  "visibility_preference \<Rightarrow> string \<Rightarrow> bool \<times> tool_registry \<Rightarrow> bool \<times> tool_registry" where
  "apply_visibility_one pref i s =
     (let (changed, tools) = s;
          (b, tools1) = set_home_visible i (i \<notin> set (home_hidden pref)) tools;
          (c, tools2) = set_sidebar_visible i (i \<notin> set (sidebar_hidden pref)) tools1
      in (changed \<or> b \<or> c, tools2))"

(* crates/ramag-app/src/tool_visibility.rs:22-33 ToolRegistry::apply_visibility_json *)
definition apply_visibility :: "visibility_preference \<Rightarrow> tool_registry \<Rightarrow> bool \<times> tool_registry" where
  "apply_visibility pref tools = fold (apply_visibility_one pref) (order tools) (False, tools)"

(* crates/ramag-app/src/tool_visibility.rs:15-36 ToolRegistry::apply_visibility_json *)
definition apply_visibility_json ::
  "(string \<Rightarrow> 'e + visibility_preference) \<Rightarrow> string \<Rightarrow> tool_registry \<Rightarrow>
     'e + (bool \<times> tool_registry)" where
  "apply_visibility_json from_str json tools =
     try_r (from_str json) (\<lambda>pref. Inr (apply_visibility pref tools))"

(* crates/ramag-app/src/tool_visibility.rs:40-51 ToolRegistry::visibility_json *)
definition collect_hidden ::
  "tool_registry \<Rightarrow> string \<Rightarrow> visibility_preference \<Rightarrow> visibility_preference" where
  "collect_hidden tools i pref =
     (case visibility i tools of
        None \<Rightarrow> pref
      | Some v \<Rightarrow>
          let pref1 = (if tv_home v then pref
                       else pref\<lparr>home_hidden := home_hidden pref @ [i]\<rparr>)
          in if tv_sidebar v then pref1
             else pref1\<lparr>sidebar_hidden := sidebar_hidden pref1 @ [i]\<rparr>)"

(* crates/ramag-app/src/tool_visibility.rs:39-51 ToolRegistry::visibility_json *)
definition visibility_preference_of :: "tool_registry \<Rightarrow> visibility_preference" where
  "visibility_preference_of tools =
     fold (collect_hidden tools) (order tools) \<lparr>home_hidden = [], sidebar_hidden = []\<rparr>"

(* crates/ramag-app/src/tool_visibility.rs:38-53 ToolRegistry::visibility_json *)
definition visibility_json ::
  "(visibility_preference \<Rightarrow> 'e + string) \<Rightarrow> tool_registry \<Rightarrow> 'e + string" where
  "visibility_json to_string tools = to_string (visibility_preference_of tools)"

end
