(* ===== verification/Registry_Laws.thy ===== *)
theory Registry_Laws
  imports Tool_Registry
begin

text \<open>
  What the registry operations do to the list: the invariant (unique tool ids, plugin entries
  that belong to a valid manifest, one manifest per plugin id), the exact condition and effect of
  registering a plugin group, and where each reordering operation puts the dragged tool.  The
  operations form a \<open>reporting_machine\<close>.
\<close>

definition registry_inv :: "tool_registry \<Rightarrow> bool" where
  "registry_inv tools \<longleftrightarrow>
     distinct (order tools)
     \<and> (\<forall>e\<in>set tools. \<forall>d. te_plugin e = Some d \<longrightarrow>
          wf_descriptor CURRENT_PLUGIN_API_VERSION d
          \<and> tool_id e \<in> ed_id ` set (entry_descriptors d))
     \<and> (\<forall>e\<in>set tools. \<forall>f\<in>set tools. \<forall>d c. te_plugin e = Some d \<longrightarrow> te_plugin f = Some c \<longrightarrow>
          pd_id d = pd_id c \<longrightarrow> d = c)"

abbreviation plugin_entry :: "plugin_descriptor \<Rightarrow> tool_meta \<Rightarrow> tool_entry" where
  "plugin_entry d tool \<equiv> \<lparr>te_tool = tool, te_enabled = True, te_home_visible = True,
     te_sidebar_visible = True, te_plugin = Some d\<rparr>"

lemma registry_inv_empty [simp]: "registry_inv []"
  by (simp add: registry_inv_def order_def)

lemma registry_inv_distinct: "registry_inv tools \<Longrightarrow> distinct (map tool_id tools)"
  by (simp add: registry_inv_def order_def)

text \<open>Keeping the entries up to flags and order keeps the invariant.\<close>

lemma registry_inv_mset:
  assumes "registry_inv tools" and "mset tools' = mset tools"
  shows "registry_inv tools'"
proof -
  have "set tools' = set tools" using assms(2) by (rule mset_eq_setD)
  moreover have "distinct (map tool_id tools')"
    using assms by (metis mset_map mset_eq_imp_distinct_iff registry_inv_distinct)
  ultimately show ?thesis using assms(1) by (simp add: registry_inv_def order_def)
qed

lemma registry_inv_update:
  assumes "registry_inv tools" and "n < length tools"
    and "te_tool e = te_tool (tools ! n)" and "te_plugin e = te_plugin (tools ! n)"
  shows "registry_inv (tools[n := e])"
proof -
  have "map tool_id (tools[n := e]) = map tool_id tools"
    using assms(2,3) by (simp add: map_update list_update_same_conv)
  moreover have "\<exists>f\<in>set tools. te_tool x = te_tool f \<and> te_plugin x = te_plugin f"
    if "x \<in> set (tools[n := e])" for x
    using that assms set_update_subset_insert [of tools n e] by (metis insertE nth_mem subsetD)
  ultimately show ?thesis
    using assms(1) unfolding registry_inv_def order_def by metis
qed

lemma registry_inv_filter: "registry_inv tools \<Longrightarrow> registry_inv (filter P tools)"
  by (auto simp: registry_inv_def order_def distinct_map inj_on_def)

section \<open>Registration\<close>

lemma register_tool_inv: "registry_inv tools \<Longrightarrow> registry_inv (register_tool tool tools)"
  by (auto simp: register_tool_def registry_inv_def order_def list_ex_iff)

lemma check_tool_ids_ok:
  "check_tool_ids d E seen ts = Inr r \<longleftrightarrow>
     r = rev (map tm_id ts) @ seen \<and> tm_id ` set ts \<subseteq> set E \<and> distinct (map tm_id ts)
     \<and> tm_id ` set ts \<inter> set seen = {}"
  by (induction d E seen ts arbitrary: r rule: check_tool_ids.induct) auto

lemma order_tools_ids:
  assumes "ed_id ` set entries \<subseteq> tm_id ` set ts"
  shows "map tm_id (order_tools entries ts) = map ed_id entries"
  using assms
proof (induction entries)
  case Nil
  then show ?case by (simp add: order_tools_def List.map_filter_simps)
next
  case (Cons e es)
  have "\<exists>t\<in>set ts. tm_id t = ed_id e" using Cons.prems by auto
  then obtain t where "find (\<lambda>t. tm_id t = ed_id e) ts = Some t"
    by (metis (mono_tags, lifting) find_None_iff not_None_eq)
  moreover from this have "tm_id t = ed_id e" by (auto simp: find_Some_iff)
  ultimately show ?case using Cons by (simp add: order_tools_def List.map_filter_simps)
qed

lemma set_order_tools: "set (order_tools entries ts) \<subseteq> set ts"
  by (auto simp: order_tools_def List.map_filter_def dest: find_SomeD)

lemma same_ids_by_count:
  assumes "distinct xs" and "distinct ys" and "set xs \<subseteq> set ys" and "length xs = length ys"
  shows "set xs = set ys"
  using assms by (metis card_subset_eq distinct_card finite_set)

lemma register_plugin_entries_ok:
  "register_plugin_entries d ts tools = Inr tools' \<longleftrightarrow>
     wf_descriptor CURRENT_PLUGIN_API_VERSION d
     \<and> distinct (map tm_id ts) \<and> tm_id ` set ts = ed_id ` set (entry_descriptors d)
     \<and> (\<forall>e\<in>set tools. \<forall>p. te_plugin e = Some p \<longrightarrow> pd_id p \<noteq> pd_id d)
     \<and> tool_id ` set tools \<inter> ed_id ` set (entry_descriptors d) = {}
     \<and> tools' = tools @ map (plugin_entry d) (order_tools (entry_descriptors d) ts)"
  (is "?l \<longleftrightarrow> ?r")
proof
  assume ?l
  then show ?r
    by (auto simp: register_plugin_entries_def validate_descriptor_ok Let_def check_tool_ids_ok
        list_ex_iff find_None_iff split: if_splits option.splits)
next
  assume r: ?r
  have "distinct (map ed_id (entry_descriptors d))" using r by (simp add: wf_descriptor_def)
  then have "length (entry_descriptors d) = length ts"
    using r by (metis distinct_card length_map list.set_map)
  moreover have "find (\<lambda>e. tool_id e \<in> set (map ed_id (entry_descriptors d))) tools = None"
    using r by (auto simp: find_None_iff)
  ultimately show ?l
    using r by (auto simp: register_plugin_entries_def validate_descriptor_ok Let_def
        check_tool_ids_ok list_ex_iff split: option.splits)
qed

lemma register_plugin_entries_ids:
  assumes "register_plugin_entries d ts tools = Inr tools'"
  shows "order tools' = order tools @ map ed_id (entry_descriptors d)"
  using assms order_tools_ids [of "entry_descriptors d" ts]
  by (auto simp: register_plugin_entries_ok order_def comp_def)

lemma register_plugin_entries_inv:
  assumes "registry_inv tools" and "register_plugin_entries d ts tools = Inr tools'"
  shows "registry_inv tools'"
proof -
  let ?new = "map (plugin_entry d) (order_tools (entry_descriptors d) ts)"
  note r = assms(2) [unfolded register_plugin_entries_ok]
  have tools': "tools' = tools @ ?new" using r by simp
  have "map tm_id (order_tools (entry_descriptors d) ts) = map ed_id (entry_descriptors d)"
    using r by (intro order_tools_ids) simp
  then have ids: "map tool_id ?new = map ed_id (entry_descriptors d)" by (simp add: comp_def)
  then have "distinct (map tool_id ?new)" using r by (simp add: wf_descriptor_def)
  moreover have "tool_id ` set ?new = ed_id ` set (entry_descriptors d)"
    using ids by (metis list.set_map)
  ultimately have "distinct (order tools')"
    using assms(1) r unfolding registry_inv_def order_def tools' map_append distinct_append
    by (auto simp del: set_map map_map simp: set_map [of tool_id, symmetric])
  moreover have new: "te_plugin e = Some d \<and> tool_id e \<in> ed_id ` set (entry_descriptors d)"
    if "e \<in> set ?new" for e
    using that imageI [OF that, of tool_id] \<open>tool_id ` set ?new = _\<close> by auto
  moreover have "\<forall>e\<in>set tools'. \<forall>p. te_plugin e = Some p \<longrightarrow>
      wf_descriptor CURRENT_PLUGIN_API_VERSION p \<and> tool_id e \<in> ed_id ` set (entry_descriptors p)"
  proof (intro ballI allI impI)
    fix e p
    assume "e \<in> set tools'" "te_plugin e = Some p"
    then consider "e \<in> set tools" | "e \<in> set ?new" using tools' by (metis Un_iff set_append)
    then show "wf_descriptor CURRENT_PLUGIN_API_VERSION p \<and> tool_id e \<in> ed_id ` set (entry_descriptors p)"
      using \<open>te_plugin e = Some p\<close> assms(1) r new [of e] by cases (auto simp: registry_inv_def)
  qed
  moreover have "\<forall>e\<in>set tools'. \<forall>f\<in>set tools'. \<forall>p c. te_plugin e = Some p \<longrightarrow>
      te_plugin f = Some c \<longrightarrow> pd_id p = pd_id c \<longrightarrow> p = c"
  proof (intro ballI allI impI)
    fix e f p c
    assume e: "e \<in> set tools'" "te_plugin e = Some p" and f: "f \<in> set tools'" "te_plugin f = Some c"
      and same: "pd_id p = pd_id c"
    have old: "x \<in> set tools \<or> q = d" if "x \<in> set tools'" "te_plugin x = Some q" for x q
      using that new [of x] unfolding tools' set_append by (metis Un_iff option.inject)
    have "e \<in> set tools \<or> p = d" "f \<in> set tools \<or> c = d"
      using old [OF e] old [OF f] by simp_all
    moreover have "pd_id p \<noteq> pd_id d" if "e \<in> set tools" using that e(2) r by blast
    moreover have "pd_id c \<noteq> pd_id d" if "f \<in> set tools" using that f(2) r by blast
    ultimately show "p = c"
      using assms(1) e(2) f(2) same unfolding registry_inv_def by metis
  qed
  ultimately show ?thesis by (simp add: registry_inv_def)
qed

lemma unregister_plugin_inv: "registry_inv tools \<Longrightarrow> registry_inv (snd (unregister_plugin p tools))"
  by (simp add: unregister_plugin_def Let_def registry_inv_filter)

lemma unregister_plugin_unchanged:
  assumes "unregister_plugin p tools = (False, tools')"
  shows "tools' = tools"
proof -
  have "length (filter (\<lambda>e. \<not> of_plugin p e) tools) = length tools"
    and "tools' = filter (\<lambda>e. \<not> of_plugin p e) tools"
    using assms by (auto simp: unregister_plugin_def Let_def split: if_splits)
  then show ?thesis by (metis filter_True length_filter_less less_irrefl)
qed

lemma register_then_unregister:
  assumes "register_plugin_entries d ts tools = Inr tools'"
  shows "unregister_plugin (as_str (pd_id d)) tools' = (True, tools)"
proof -
  let ?new = "map (plugin_entry d) (order_tools (entry_descriptors d) ts)"
  have tools': "tools' = tools @ ?new"
    and fresh: "\<forall>e\<in>set tools. \<forall>p. te_plugin e = Some p \<longrightarrow> pd_id p \<noteq> pd_id d"
    using assms by (auto simp: register_plugin_entries_ok)
  have old: "filter (\<lambda>e. \<not> of_plugin (as_str (pd_id d)) e) tools = tools"
    using fresh by (auto simp: filter_id_conv of_plugin_def split: option.splits)
      (metis plugin_id.expand)
  have new: "filter (\<lambda>e. \<not> of_plugin (as_str (pd_id d)) e) ?new = []"
    by (simp add: filter_empty_conv of_plugin_def)
  have "map tm_id (order_tools (entry_descriptors d) ts) = map ed_id (entry_descriptors d)"
    using assms by (intro order_tools_ids) (simp add: register_plugin_entries_ok)
  then have "?new \<noteq> []" by (auto simp: entry_descriptors_def split: if_splits)
  with old new show ?thesis by (simp add: unregister_plugin_def Let_def tools' del: map_is_Nil_conv)
qed

section \<open>Flags\<close>

lemma update_at_inv:
  assumes "registry_inv tools" and "position P tools = Some n"
    and "\<And>e. te_tool (f e) = te_tool e" and "\<And>e. te_plugin (f e) = te_plugin e"
  shows "registry_inv (update_at n f tools)"
  unfolding update_at_def using assms by (intro registry_inv_update) (auto dest: position_split(3))

lemma set_enabled_inv: "registry_inv tools \<Longrightarrow> registry_inv (snd (set_enabled i b tools))"
  by (auto simp: set_enabled_def intro: update_at_inv split: option.splits)

lemma set_surface_inv:
  assumes "registry_inv tools" and "\<And>e. te_tool (f e) = te_tool e" and "\<And>e. te_plugin (f e) = te_plugin e"
  shows "registry_inv (snd (set_surface_visibility i v c f tools))"
  using assms by (auto simp: set_surface_visibility_def intro: update_at_inv split: option.splits)

section \<open>Reordering\<close>

text \<open>Every reordering moves one entry: the entries are the same, and so is the order of the rest.\<close>

lemma remove_insert_inv:
  assumes "registry_inv tools" and "i < length tools"
  shows "registry_inv (insert_at j (tools ! i) (remove_at i tools))"
  using assms by (auto intro: registry_inv_mset simp: mset_insert_at mset_remove_at)

lemma reorder_inv: "registry_inv tools \<Longrightarrow> registry_inv (snd (reorder d t b tools))"
  by (auto simp: reorder_def Let_def intro: remove_insert_inv dest: position_split(3)
      split: option.splits)

lemma reorder_to_target_inv: "registry_inv tools \<Longrightarrow> registry_inv (snd (reorder_to_target d t tools))"
  by (auto simp: reorder_to_target_def intro: reorder_inv split: option.splits)

lemma reorder_to_index_inv:
  "registry_inv tools \<Longrightarrow> registry_inv (snd (reorder_to_index_where d k vis tools))"
  by (auto simp: reorder_to_index_where_def Let_def intro: remove_insert_inv dest: position_split(3)
      split: option.splits)

lemma move_to_end_inv: "registry_inv tools \<Longrightarrow> registry_inv (snd (move_to_end d tools))"
  by (auto simp: move_to_end_def intro: reorder_inv split: option.splits)

lemma apply_order_inv: "registry_inv tools \<Longrightarrow> registry_inv (snd (apply_order ids tools))"
  by (auto simp: apply_order_def Let_def intro: registry_inv_mset)

text \<open>With unique ids, an unchanged id order means an unchanged list.\<close>

lemma order_same:
  assumes "distinct (order tools)" and "mset tools' = mset tools" and "order tools' = order tools"
  shows "tools' = tools"
proof (rule nth_equalityI)
  show len: "length tools' = length tools" using assms(2) by (rule mset_eq_length)
  fix i
  assume i: "i < length tools'"
  have "set tools' = set tools" using assms(2) by (rule mset_eq_setD)
  then have "tools' ! i \<in> set tools" "tools ! i \<in> set tools"
    using i len nth_mem by fastforce+
  moreover have "tool_id (tools' ! i) = tool_id (tools ! i)"
    using assms(3) i len by (metis nth_map order_def)
  ultimately show "tools' ! i = tools ! i"
    using assms(1) by (auto simp: order_def distinct_map inj_on_def)
qed

lemma position_enabled_unique:
  assumes "distinct (order tools)" and "position (\<lambda>e. P e \<and> tool_id e = d) tools = Some i"
    and "j < length tools" and "tool_id (tools ! j) = d"
  shows "j = i"
  using assms position_split [OF assms(2)]
  by (auto simp: order_def distinct_conv_nth)

lemma reorder_target_found:
  assumes "d \<noteq> t" and "position (\<lambda>e. te_enabled e \<and> tool_id e = d) tools = Some i"
    and "list_ex (\<lambda>e. te_enabled e \<and> tool_id e = t) tools"
  shows "position (\<lambda>e. te_enabled e \<and> tool_id e = t) (remove_at i tools) \<noteq> None"
proof -
  obtain e where e: "e \<in> set tools" "te_enabled e" "tool_id e = t"
    using assms(3) by (auto simp: list_ex_iff)
  moreover have "tool_id (tools ! i) = d" and i: "i < length tools"
    using position_split(2,3) [OF assms(2)] by auto
  ultimately have "e \<in> set (remove_at i tools)"
    using assms(1) id_take_nth_drop [OF i] by (auto simp: remove_at_def)
      (metis Un_iff insert_iff list.simps(15) set_append)
  with e show ?thesis by (auto simp: position_None)
qed

lemma reorder_false:
  assumes "registry_inv tools" and "reorder d t b tools = (False, tools')"
  shows "tools' = tools"
proof -
  have dist: "distinct (order tools)" using assms(1) by (simp add: registry_inv_def)
  show ?thesis
  proof (cases "d = t \<or> position (\<lambda>e. te_enabled e \<and> tool_id e = d) tools = None
      \<or> \<not> list_ex (\<lambda>e. te_enabled e \<and> tool_id e = t) tools")
    case True
    then show ?thesis using assms(2) by (auto simp: reorder_def split: option.splits if_splits)
  next
    case False
    then obtain i where i: "position (\<lambda>e. te_enabled e \<and> tool_id e = d) tools = Some i" by auto
    obtain j where "position (\<lambda>e. te_enabled e \<and> tool_id e = t) (remove_at i tools) = Some j"
      using reorder_target_found [OF _ i] False by auto
    then have "\<exists>k. tools' = insert_at k (tools ! i) (remove_at i tools)" "order tools' = order tools"
      using assms(2) False i by (auto simp: reorder_def Let_def)
    then show ?thesis
      using order_same [OF dist] position_split(3) [OF i]
      by (auto simp: mset_insert_at mset_remove_at)
  qed
qed

lemma reorder_to_index_false:
  assumes "registry_inv tools" and "reorder_to_index_where d k vis tools = (False, tools')"
  shows "tools' = tools"
proof (cases "position (\<lambda>e. vis e \<and> tool_id e = d) tools")
  case None
  then show ?thesis using assms(2) by (simp add: reorder_to_index_where_def)
next
  case (Some i)
  then have "\<exists>n. tools' = insert_at n (tools ! i) (remove_at i tools)" "order tools' = order tools"
    using assms(2) by (auto simp: reorder_to_index_where_def Let_def)
  then show ?thesis
    using order_same [of tools tools'] position_split(3) [OF Some] assms(1)
    by (auto simp: mset_insert_at mset_remove_at registry_inv_def)
qed

text \<open>The dragged tool ends right before or right after the target; the rest keep their order.\<close>

lemma reorder_adjacent:
  assumes "d \<noteq> t" and i: "position (\<lambda>e. te_enabled e \<and> tool_id e = d) tools = Some i"
    and "list_ex (\<lambda>e. te_enabled e \<and> tool_id e = t) tools"
  obtains pre target post where
    "remove_at i tools = pre @ target # post" "te_enabled target" "tool_id target = t"
    "snd (reorder d t before tools) =
       pre @ (if before then [tools ! i, target] else [target, tools ! i]) @ post"
proof -
  obtain j where j: "position (\<lambda>e. te_enabled e \<and> tool_id e = t) (remove_at i tools) = Some j"
    using reorder_target_found [OF assms] by auto
  let ?rest = "remove_at i tools"
  have len: "j < length ?rest" and target: "te_enabled (?rest ! j)" "tool_id (?rest ! j) = t"
    using position_split(2,3) [OF j] by auto
  have "snd (reorder d t before tools) =
      take j ?rest @ (if before then [tools ! i, ?rest ! j] else [?rest ! j, tools ! i])
        @ drop (Suc j) ?rest"
    using assms i j len
    by (auto simp: reorder_def Let_def insert_at_def min_def take_Suc_conv_app_nth Cons_nth_drop_Suc)
  with target id_take_nth_drop [OF len] show ?thesis by (intro that) auto
qed

lemma position_insert_at:
  assumes "k \<le> length xs" and "P x" and "\<forall>y\<in>set xs. \<not> P y"
  shows "position P (insert_at k x xs) = Some k"
  using assms position_append_notin [of "take k xs" P x "drop k xs"]
  by (auto simp: insert_at_def dest: in_set_takeD)

lemma remove_at_others:
  assumes "distinct (order tools)" and "i < length tools" and "e \<in> set (remove_at i tools)"
  shows "tool_id e \<noteq> tool_id (tools ! i)"
proof -
  have "distinct (map tool_id (take i tools @ tools ! i # drop (Suc i) tools))"
    using assms(1,2) by (simp add: order_def id_take_nth_drop [symmetric])
  then have "tool_id (tools ! i) \<notin> tool_id ` set (remove_at i tools)"
    by (auto simp: remove_at_def)
  with assms(3) show ?thesis by (metis imageI)
qed

lemma reorder_to_index_places:
  assumes "position (\<lambda>e. vis e \<and> tool_id e = d) tools = Some i"
  shows "filter vis (snd (reorder_to_index_where d k vis tools)) =
     insert_at (min k (length (filter vis (remove_at i tools)))) (tools ! i)
       (filter vis (remove_at i tools))"
proof -
  let ?rest = "remove_at i tools"
  let ?n = "length (filter vis ?rest)"
  have vis: "vis (tools ! i)" using position_split(2) [OF assms] by simp
  show ?thesis
  proof (cases "?n \<le> k")
    case True
    then show ?thesis using assms vis
      by (simp add: reorder_to_index_where_def Let_def min_def filter_insert_at insert_at_def)
  next
    case False
    then obtain n where n: "nth_match vis k ?rest = Some n"
      by (metis nth_match_None not_None_eq)
    then show ?thesis using assms vis False nth_match_Some [OF n]
      by (simp add: reorder_to_index_where_def Let_def min_def filter_insert_at insert_at_def)
  qed
qed

section \<open>The operations as one machine\<close>

text \<open>The operations that take the list and answer whether they changed it.\<close>

datatype registry_op =
  OpUnregister string
| OpSetEnabled string bool
| OpSetHome string bool
| OpSetSidebar string bool
| OpReorder string string bool
| OpReorderToTarget string string
| OpReorderToIndex string nat
| OpReorderHome string nat
| OpReorderSidebar string nat
| OpMoveToEnd string

fun registry_step :: "tool_registry \<Rightarrow> registry_op \<Rightarrow> bool \<times> tool_registry" where
  "registry_step tools (OpUnregister p) = unregister_plugin p tools"
| "registry_step tools (OpSetEnabled i b) = set_enabled i b tools"
| "registry_step tools (OpSetHome i b) = set_home_visible i b tools"
| "registry_step tools (OpSetSidebar i b) = set_sidebar_visible i b tools"
| "registry_step tools (OpReorder d t b) = reorder d t b tools"
| "registry_step tools (OpReorderToTarget d t) = reorder_to_target d t tools"
| "registry_step tools (OpReorderToIndex d k) = reorder_to_index d k tools"
| "registry_step tools (OpReorderHome d k) = reorder_home_to_index d k tools"
| "registry_step tools (OpReorderSidebar d k) = reorder_sidebar_to_index d k tools"
| "registry_step tools (OpMoveToEnd d) = move_to_end d tools"

lemma registry_step_inv: "registry_inv tools \<Longrightarrow> registry_inv (snd (registry_step tools e))"
  by (cases e)
    (auto simp: unregister_plugin_inv set_enabled_inv set_home_visible_def set_sidebar_visible_def
      set_surface_inv reorder_inv reorder_to_target_inv reorder_to_index_def
      reorder_home_to_index_def reorder_sidebar_to_index_def reorder_to_index_inv move_to_end_inv)

lemma registry_step_unchanged:
  assumes "registry_inv tools" and "registry_step tools e = (False, tools')"
  shows "tools' = tools"
proof (cases e)
  case (OpReorderToTarget d t)
  then show ?thesis
    using assms by (auto simp: reorder_to_target_def dest: reorder_false split: if_splits option.splits)
next
  case (OpMoveToEnd d)
  then show ?thesis
    using assms by (auto simp: move_to_end_def dest: reorder_false split: option.splits)
qed (use assms in \<open>auto simp: set_enabled_def set_home_visible_def set_sidebar_visible_def
      set_surface_visibility_def reorder_to_index_def reorder_home_to_index_def
      reorder_sidebar_to_index_def dest: unregister_plugin_unchanged reorder_false reorder_to_index_false
      split: if_splits option.splits\<close>)

interpretation registry: reporting_machine registry_step registry_inv
  by unfold_locales (auto intro: registry_step_unchanged registry_step_inv)

section \<open>Applying a saved order\<close>

lemma apply_order_mset: "mset (snd (apply_order ids tools)) = mset tools"
  by (simp add: apply_order_def Let_def)

lemma rank_less: "distinct ids \<Longrightarrow> i < length ids \<Longrightarrow> rank ids (ids ! i) = i"
  by (simp add: rank_def map_of_rev distinct_map zip_map_fst_snd map_of_zip_nth)

lemma rank_notin: "i \<notin> set ids \<Longrightarrow> rank ids i = length ids"
  by (auto simp: rank_def map_of_eq_None_iff split: option.splits dest!: map_of_SomeD set_zip_leftD)

text \<open>The tools the order does not name stay in their old relative order, at the end.\<close>

lemma apply_order_stable:
  "filter (\<lambda>e. rank ids (tool_id e) = k) (snd (apply_order ids tools)) =
     filter (\<lambda>e. rank ids (tool_id e) = k) tools"
  by (cases "ids = []")
    (simp_all add: apply_order_def Let_def sort_key_stable [of "\<lambda>e. rank ids (tool_id e)" k tools])

lemma apply_order_sorted:
  "ids \<noteq> [] \<Longrightarrow> sorted (map (\<lambda>e. rank ids (tool_id e)) (snd (apply_order ids tools)))"
  by (simp add: apply_order_def Let_def)

end
