(* ===== verification/Btree_Map.thy ===== *)
theory Btree_Map
  imports Ramag_Prelude
begin

text \<open>
  Rust's \<open>BTreeMap<K, V>\<close> as the list of its entries in ascending key order, which is what
  \<open>iter()\<close>, \<open>keys()\<close> and \<open>values()\<close> produce.  \<open>ordered_map\<close> is the interface the
  components rely on (what a lookup finds after an insert or a removal, and the invariant every
  operation keeps); it is interpreted on the association lists below.
\<close>

type_synonym ('k, 'v) bmap = "('k \<times> 'v) list"

fun bm_insert :: "'k::linorder \<Rightarrow> 'v \<Rightarrow> ('k, 'v) bmap \<Rightarrow> ('k, 'v) bmap" where
  "bm_insert k v [] = [(k, v)]"
| "bm_insert k v ((a, b) # m) =
     (if k < a then (k, v) # (a, b) # m
      else if k = a then (k, v) # m
      else (a, b) # bm_insert k v m)"

definition bm_get :: "('k, 'v) bmap \<Rightarrow> 'k \<Rightarrow> 'v option" where
  "bm_get m k = map_of m k"

definition bm_remove :: "'k \<Rightarrow> ('k, 'v) bmap \<Rightarrow> ('k, 'v) bmap" where
  "bm_remove k m = filter (\<lambda>e. fst e \<noteq> k) m"

definition bm_keys :: "('k, 'v) bmap \<Rightarrow> 'k list" where
  "bm_keys m = map fst m"

definition bm_values :: "('k, 'v) bmap \<Rightarrow> 'v list" where
  "bm_values m = map snd m"

text \<open>\<open>iter.collect::<BTreeMap<_, _>>()\<close>: a later entry replaces an earlier one.\<close>

definition bm_collect :: "('k::linorder \<times> 'v) list \<Rightarrow> ('k, 'v) bmap" where
  "bm_collect xs = fold (\<lambda>(k, v). bm_insert k v) xs []"

definition bm_wf :: "('k::linorder, 'v) bmap \<Rightarrow> bool" where
  "bm_wf m \<longleftrightarrow> sorted_wrt (<) (map fst m)"

locale ordered_map =
  fixes empty :: "'m"
    and insert :: "'k \<Rightarrow> 'v \<Rightarrow> 'm \<Rightarrow> 'm"
    and remove :: "'k \<Rightarrow> 'm \<Rightarrow> 'm"
    and lookup :: "'m \<Rightarrow> 'k \<Rightarrow> 'v option"
    and inv :: "'m \<Rightarrow> bool"
  assumes lookup_empty: "lookup empty k = None"
    and lookup_insert: "inv m \<Longrightarrow> lookup (insert a v m) k = (if k = a then Some v else lookup m k)"
    and lookup_remove: "inv m \<Longrightarrow> lookup (remove a m) k = (if k = a then None else lookup m k)"
    and inv_empty: "inv empty"
    and inv_insert: "inv m \<Longrightarrow> inv (insert a v m)"
    and inv_remove: "inv m \<Longrightarrow> inv (remove a m)"
begin

lemma inv_insert_all: "inv m \<Longrightarrow> inv (fold (\<lambda>(k, v). insert k v) xs m)"
  by (induction xs arbitrary: m) (auto simp: inv_insert)

lemma lookup_insert_all:
  "inv m \<Longrightarrow> lookup (fold (\<lambda>(k, v). insert k v) xs m) k =
     (case map_of (rev xs) k of None \<Rightarrow> lookup m k | Some v \<Rightarrow> Some v)"
  by (induction xs arbitrary: m)
    (auto simp: lookup_insert inv_insert map_add_def split: option.splits)

lemma lookup_collect:
  "lookup (fold (\<lambda>(k, v). insert k v) xs empty) k = map_of (rev xs) k"
  by (simp add: lookup_insert_all inv_empty lookup_empty split: option.split)

lemma insert_swap:
  assumes "inv m" and "a \<noteq> b"
  shows "lookup (insert a v (insert b w m)) k = lookup (insert b w (insert a v m)) k"
  using assms by (simp add: lookup_insert inv_insert)

lemma remove_insert:
  assumes "inv m" and "lookup m a = None"
  shows "lookup (remove a (insert a v m)) k = lookup m k"
  using assms by (simp add: lookup_insert lookup_remove inv_insert)

end

lemma bm_insert_keys: "set (map fst (bm_insert k v m)) = insert k (set (map fst m))"
  by (induction k v m rule: bm_insert.induct) auto

lemma bm_wf_Nil [simp]: "bm_wf []"
  by (simp add: bm_wf_def)

lemma bm_wf_Cons:
  "bm_wf ((a, b) # m) \<longleftrightarrow> bm_wf m \<and> (\<forall>x\<in>set m. a < fst x)"
  by (auto simp: bm_wf_def)

lemma bm_wf_distinct: "bm_wf m \<Longrightarrow> distinct (map fst m)"
  by (simp add: bm_wf_def strict_sorted_iff)

lemma bm_insert_wf: "bm_wf m \<Longrightarrow> bm_wf (bm_insert k v m)"
proof (induction k v m rule: bm_insert.induct)
  case (1 k v)
  then show ?case by (simp add: bm_wf_def)
next
  case (2 k v a b m)
  have "fst x \<in> insert k (set (map fst m))" if "x \<in> set (bm_insert k v m)" for x
    using that bm_insert_keys [of k v m] by (metis image_eqI list.set_map)
  with 2 show ?case by (fastforce simp: bm_wf_Cons)
qed

lemma bm_get_insert: "bm_get (bm_insert a v m) k = (if k = a then Some v else bm_get m k)"
  by (induction a v m rule: bm_insert.induct) (auto simp: bm_get_def)

lemma bm_get_remove: "bm_get (bm_remove a m) k = (if k = a then None else bm_get m k)"
  by (induction m) (auto simp: bm_get_def bm_remove_def)

lemma bm_remove_wf: "bm_wf m \<Longrightarrow> bm_wf (bm_remove a m)"
  by (induction m) (auto simp: bm_wf_def bm_remove_def)

interpretation bm: ordered_map "[]" bm_insert bm_remove bm_get bm_wf
  by unfold_locales
    (simp_all add: bm_get_insert bm_get_remove bm_insert_wf bm_remove_wf, simp add: bm_get_def)

text \<open>Two ordered maps with the same lookups are the same list.\<close>

lemma bm_keys_eq: "set (map fst m) = {k. bm_get m k \<noteq> None}"
  by (auto simp: bm_get_def map_of_eq_None_iff)

lemma map_of_keys: "distinct (map fst m) \<Longrightarrow> map (\<lambda>k. (k, the (map_of m k))) (map fst m) = m"
  by (auto simp: comp_def intro!: map_idI)

lemma bm_ext:
  assumes "bm_wf m" and "bm_wf n" and get: "\<And>k. bm_get m k = bm_get n k"
  shows "m = n"
proof -
  have "map fst m = map fst n"
    using assms by (intro strict_sorted_equal) (auto simp: bm_wf_def bm_keys_eq simp del: set_map)
  moreover have "map_of m = map_of n" using get by (auto simp: bm_get_def)
  ultimately show ?thesis
    using map_of_keys [OF bm_wf_distinct [OF assms(1)]] map_of_keys [OF bm_wf_distinct [OF assms(2)]]
    by simp
qed

lemma bm_collect_wf [simp]: "bm_wf (bm_collect xs)"
  unfolding bm_collect_def by (rule bm.inv_insert_all) simp

lemma bm_get_collect: "bm_get (bm_collect xs) k = map_of (rev xs) k"
  unfolding bm_collect_def by (rule bm.lookup_collect)

lemma bm_get_collect_distinct: "distinct (map fst xs) \<Longrightarrow> bm_get (bm_collect xs) k = map_of xs k"
  by (simp add: bm_get_collect map_of_rev)

lemma bm_get_in_set: "bm_wf m \<Longrightarrow> bm_get m k = Some v \<longleftrightarrow> (k, v) \<in> set m"
  by (simp add: bm_get_def bm_wf_distinct)

lemma bm_collect_id: "bm_wf m \<Longrightarrow> bm_collect m = m"
  by (rule bm_ext) (simp_all add: bm_get_collect_distinct bm_wf_distinct, simp add: bm_get_def)

lemma length_bm_insert_le: "length (bm_insert k v m) \<le> Suc (length m)"
  by (induction k v m rule: bm_insert.induct) auto

end
