(* ===== verification/Plugin_Tasks.thy ===== *)
theory Plugin_Tasks
  imports Bounded_Text Btree_Map List_Ops
begin

text \<open>
  The bounded task registry of a plugin (\<open>crates/ramag-app/src/plugin_tasks.rs\<close>).  A cancellation
  flag \<open>Arc<AtomicBool>\<close> is an address into the list of all flags allocated so far, so that the
  registry entry, the handle and the running operation share it.  \<open>task_world\<close> is the locked
  \<open>TaskInner\<close> together with these flags and the handles that somebody still owns; an operation of
  one thread is one step on it.  The executor (smol) and \<open>select\<close> (futures) are third-party: which
  future finished first is an argument of \<open>run_operation\<close>.  A \<open>Duration\<close> is a number of
  nanoseconds.
\<close>

section \<open>Limits and data\<close>

(* crates/ramag-app/src/plugin_tasks.rs:19-19 MAX_PLUGIN_TASKS *)
definition MAX_PLUGIN_TASKS :: nat where
  [limits]: "MAX_PLUGIN_TASKS = 8"

(* crates/ramag-app/src/plugin_tasks.rs:21-21 MAX_PLUGIN_TASK_NAME_BYTES *)
definition MAX_PLUGIN_TASK_NAME_BYTES :: nat where
  [limits]: "MAX_PLUGIN_TASK_NAME_BYTES = 128"

(* crates/ramag-app/src/plugin_tasks.rs:23-23 MAX_PLUGIN_TASK_TIMEOUT *)
definition MAX_PLUGIN_TASK_TIMEOUT :: nat where
  [limits]: "MAX_PLUGIN_TASK_TIMEOUT = 60 * 1000000000"

(* crates/ramag-app/src/plugin_tasks.rs:25-25 MAX_PLUGIN_TASK_RESULT_BYTES *)
definition MAX_PLUGIN_TASK_RESULT_BYTES :: nat where
  [limits]: "MAX_PLUGIN_TASK_RESULT_BYTES = 1024 * 1024"

(* crates/ramag-app/src/plugin_tasks.rs:303-315 PluginTaskError *)
datatype plugin_task_error = EmptyName | NameTooLong | InvalidName | LimitReached nat | NotAccepting

(* crates/ramag-app/src/plugin_tasks.rs:346-352 PluginTaskBudgetError *)
datatype plugin_task_budget_error = InvalidTimeout | InvalidResultLimit

(* crates/ramag-app/src/plugin_tasks.rs:354-364 PluginTaskRunError *)
datatype plugin_task_run_error = Cancelled | TimedOut | ResultTooLarge nat nat | Failed string

(* crates/ramag-app/src/plugin_tasks.rs:29-34 TaskInner *)
record task_inner =
  ti_next_id :: u64
  ti_accepting :: bool
  ti_tasks :: "(u64, nat) bmap"

(* crates/ramag-app/src/plugin_tasks.rs:99-104 PluginTaskHandle *)
record plugin_task_handle =
  th_id :: u64
  th_name :: string
  th_cancellation :: nat

(* crates/ramag-app/src/plugin_tasks.rs:317-321 PluginTaskBudget *)
record plugin_task_budget =
  tb_timeout :: nat
  tb_max_result_bytes :: nat

text \<open>\<open>tw_flags\<close> holds the value behind each allocated flag, \<open>tw_handles\<close> the handles not dropped yet.\<close>

(* crates/ramag-app/src/plugin_tasks.rs:37-40 PluginTaskRegistry *)
record task_world =
  tw_inner :: task_inner
  tw_flags :: "bool list"
  tw_handles :: "plugin_task_handle list"

(* crates/ramag-app/src/plugin_tasks.rs:303-315 PluginTaskError *)
fun display_task_error :: "plugin_task_error \<Rightarrow> string" where
  "display_task_error EmptyName = (utf8 [0x4EFB, 0x52A1, 0x540D, 0x79F0, 0x4E0D, 0x80FD, 0x4E3A, 0x7A7A])"
| "display_task_error NameTooLong = (utf8 [0x4EFB, 0x52A1, 0x540D, 0x79F0, 0x8D85, 0x8FC7] @ '' '') @ dec MAX_PLUGIN_TASK_NAME_BYTES @ ('' '' @ utf8 [0x5B57, 0x8282])"
| "display_task_error InvalidName = (utf8 [0x4EFB, 0x52A1, 0x540D, 0x79F0, 0x5305, 0x542B, 0x63A7, 0x5236, 0x5B57, 0x7B26])"
| "display_task_error (LimitReached m) = (utf8 [0x6D3B, 0x52A8, 0x4EFB, 0x52A1, 0x8FBE, 0x5230, 0x4E0A, 0x9650] @ '' '') @ dec m"
| "display_task_error NotAccepting = (utf8 [0x63D2, 0x4EF6, 0x5DF2, 0x505C, 0x6B62, 0x63A5, 0x53D7, 0x65B0, 0x4EFB, 0x52A1])"

section \<open>The registry\<close>

(* crates/ramag-app/src/plugin_tasks.rs:43-50 PluginTaskRegistry::new *)
definition task_registry_new :: task_world where
  "task_registry_new =
     \<lparr>tw_inner = \<lparr>ti_next_id = 0, ti_accepting = True, ti_tasks = []\<rparr>, tw_flags = [],
      tw_handles = []\<rparr>"

(* crates/ramag-app/src/plugin_tasks.rs:422-433 validate_name *)
definition validate_name :: "string \<Rightarrow> plugin_task_error + unit" where
  "validate_name name =
     (if name = [] then Inl EmptyName
      else if MAX_PLUGIN_TASK_NAME_BYTES < length name then Inl NameTooLong
      else if has_control name then Inl InvalidName
      else Inr ())"

(* crates/ramag-app/src/plugin_tasks.rs:66-69 PluginTaskRegistry::start *)
definition next_task_id :: "u64 \<Rightarrow> u64" where
  "next_task_id n = (let n' = sat_add n 1 in if n' = 0 then 1 else n')"

(* crates/ramag-app/src/plugin_tasks.rs:53-81 PluginTaskRegistry::start *)
definition task_start ::
  "string \<Rightarrow> task_world \<Rightarrow> plugin_task_error + (plugin_task_handle \<times> task_world)" where
  "task_start name w =
     try_r (validate_name name) (\<lambda>_.
     let inner = tw_inner w in
     if \<not> ti_accepting inner then Inl NotAccepting
     else if MAX_PLUGIN_TASKS \<le> length (ti_tasks inner) then Inl (LimitReached MAX_PLUGIN_TASKS)
     else
       let id = next_task_id (ti_next_id inner);
           cancellation = length (tw_flags w);
           handle = \<lparr>th_id = id, th_name = name, th_cancellation = cancellation\<rparr>
       in Inr (handle,
            w\<lparr>tw_inner := inner\<lparr>ti_next_id := id, ti_tasks := bm_insert id cancellation (ti_tasks inner)\<rparr>,
              tw_flags := tw_flags w @ [False], tw_handles := tw_handles w @ [handle]\<rparr>))"

text \<open>\<open>cancellation.store(true)\<close> on every flag in a list of addresses.\<close>

definition set_flags :: "nat list \<Rightarrow> bool list \<Rightarrow> bool list" where
  "set_flags addrs flags = fold (\<lambda>a fs. fs[a := True]) addrs flags"

(* crates/ramag-app/src/plugin_tasks.rs:84-90 PluginTaskRegistry::cancel_all *)
definition cancel_all :: "task_world \<Rightarrow> task_world" where
  "cancel_all w =
     w\<lparr>tw_inner := (tw_inner w)\<lparr>ti_accepting := False\<rparr>,
       tw_flags := set_flags (bm_values (ti_tasks (tw_inner w))) (tw_flags w)\<rparr>"

section \<open>Handles\<close>

(* crates/ramag-app/src/plugin_tasks.rs:126-128 PluginTaskHandle::cancellation_requested *)
definition cancellation_requested :: "plugin_task_handle \<Rightarrow> task_world \<Rightarrow> bool" where
  "cancellation_requested h w = tw_flags w ! th_cancellation h"

text \<open>A handle is dropped at most once, so only a held one can be dropped.\<close>

(* crates/ramag-app/src/plugin_tasks.rs:161-165 PluginTaskHandle::drop *)
definition drop_handle :: "plugin_task_handle \<Rightarrow> task_world \<Rightarrow> task_world" where
  "drop_handle h w =
     (if h \<in> set (tw_handles w) then
        w\<lparr>tw_inner := (tw_inner w)\<lparr>ti_tasks := bm_remove (th_id h) (ti_tasks (tw_inner w))\<rparr>,
          tw_handles := remove1 h (tw_handles w)\<rparr>
      else w)"

section \<open>Running an operation\<close>

(* crates/ramag-app/src/plugin_tasks.rs:324-335 PluginTaskBudget::new *)
definition budget_new :: "nat \<Rightarrow> nat \<Rightarrow> plugin_task_budget_error + plugin_task_budget" where
  "budget_new timeout max_result_bytes =
     (if timeout = 0 \<or> MAX_PLUGIN_TASK_TIMEOUT < timeout then Inl InvalidTimeout
      else if max_result_bytes = 0 \<or> MAX_PLUGIN_TASK_RESULT_BYTES < max_result_bytes then
        Inl InvalidResultLimit
      else Inr \<lparr>tb_timeout = timeout, tb_max_result_bytes = max_result_bytes\<rparr>)"

text \<open>Which of the three futures of \<open>select(select(operation, timeout), cancelled)\<close> ended it.\<close>

(* crates/ramag-app/src/plugin_tasks.rs:392-397 run_operation *)
datatype select_outcome = OperationEnded "string + string" | TimerFired | CancellationSeen

(* crates/ramag-app/src/plugin_tasks.rs:375-409 run_operation *)
definition run_operation ::
  "bool \<Rightarrow> select_outcome \<Rightarrow> plugin_task_budget \<Rightarrow> plugin_task_run_error + string" where
  "run_operation cancellation_at_start outcome budget =
     (if cancellation_at_start then Inl Cancelled
      else
        try_r
          (case outcome of
             OperationEnded result \<Rightarrow> map_err (\<lambda>message. Failed (bound_task_error message)) result
           | TimerFired \<Rightarrow> Inl TimedOut
           | CancellationSeen \<Rightarrow> Inl Cancelled) (\<lambda>result.
        if tb_max_result_bytes budget < length result then
          Inl (ResultTooLarge (length result) (tb_max_result_bytes budget))
        else Inr result))"

section \<open>Executions\<close>

text \<open>The spawned future is third-party; its result is an argument of the operation that awaits it.\<close>

(* crates/ramag-app/src/plugin_tasks.rs:168-172 PluginTaskExecution *)
record plugin_task_execution =
  te_handle :: "plugin_task_handle option"
  te_started_at :: nat

(* crates/ramag-app/src/plugin_tasks.rs:244-248 PluginTaskCompletion *)
record plugin_task_completion =
  tc_output :: string
  tc_elapsed :: nat

(* crates/ramag-app/src/plugin_tasks.rs:272-276 PluginTaskOutcome *)
record plugin_task_outcome =
  to_result :: "plugin_task_run_error + string"
  to_elapsed :: nat

(* crates/ramag-app/src/plugin_tasks.rs:147-158 PluginTaskHandle::spawn *)
definition task_spawn :: "nat \<Rightarrow> plugin_task_handle \<Rightarrow> plugin_task_execution" where
  "task_spawn now h = \<lparr>te_handle = Some h, te_started_at = now\<rparr>"

(* crates/ramag-app/src/plugin_tasks.rs:202-209 PluginTaskExecution::join_with_outcome *)
definition join_with_outcome ::
  "plugin_task_run_error + string \<Rightarrow> nat \<Rightarrow> plugin_task_execution \<Rightarrow> task_world \<Rightarrow>
     plugin_task_outcome \<times> task_world" where
  "join_with_outcome result now e w =
     (\<lparr>to_result = result, to_elapsed = now - te_started_at e\<rparr>,
      case te_handle e of None \<Rightarrow> w | Some h \<Rightarrow> drop_handle h w)"

(* crates/ramag-app/src/plugin_tasks.rs:287-289 PluginTaskOutcome::output_bytes *)
definition outcome_output_bytes :: "plugin_task_outcome \<Rightarrow> nat option" where
  "outcome_output_bytes out = (case to_result out of Inl _ \<Rightarrow> None | Inr output \<Rightarrow> Some (length output))"

(* crates/ramag-app/src/plugin_tasks.rs:295-300 PluginTaskOutcome::into_completion *)
definition into_completion ::
  "plugin_task_outcome \<Rightarrow> plugin_task_run_error + plugin_task_completion" where
  "into_completion out =
     map_ok (\<lambda>output. \<lparr>tc_output = output, tc_elapsed = to_elapsed out\<rparr>) (to_result out)"

(* crates/ramag-app/src/plugin_tasks.rs:192-194 PluginTaskExecution::join *)
definition task_join ::
  "plugin_task_run_error + string \<Rightarrow> nat \<Rightarrow> plugin_task_execution \<Rightarrow> task_world \<Rightarrow>
     (plugin_task_run_error + string) \<times> task_world" where
  "task_join result now e w =
     (let (out, w') = join_with_outcome result now e w in (to_result out, w'))"

(* crates/ramag-app/src/plugin_tasks.rs:197-199 PluginTaskExecution::join_with_metrics *)
definition join_with_metrics ::
  "plugin_task_run_error + string \<Rightarrow> nat \<Rightarrow> plugin_task_execution \<Rightarrow> task_world \<Rightarrow>
     (plugin_task_run_error + plugin_task_completion) \<times> task_world" where
  "join_with_metrics result now e w =
     (let (out, w') = join_with_outcome result now e w in (into_completion out, w'))"

(* crates/ramag-app/src/plugin_tasks.rs:212-216 PluginTaskExecution::request_cancel *)
definition request_cancel :: "plugin_task_execution \<Rightarrow> task_world \<Rightarrow> task_world" where
  "request_cancel e w =
     (case te_handle e of
        None \<Rightarrow> w
      | Some h \<Rightarrow> w\<lparr>tw_flags := (tw_flags w)[th_cancellation h := True]\<rparr>)"

(* crates/ramag-app/src/plugin_tasks.rs:229-231 PluginTaskExecution::id *)
definition execution_id :: "plugin_task_execution \<Rightarrow> u64" where
  "execution_id e = (case te_handle e of None \<Rightarrow> 0 | Some h \<Rightarrow> th_id h)"

(* crates/ramag-app/src/plugin_tasks.rs:233-237 PluginTaskExecution::cancellation_requested *)
definition execution_cancellation_requested :: "plugin_task_execution \<Rightarrow> task_world \<Rightarrow> bool" where
  "execution_cancellation_requested e w =
     (case te_handle e of None \<Rightarrow> False | Some h \<Rightarrow> cancellation_requested h w)"

section \<open>Runs of the registry\<close>

text \<open>What threads can do with a registry: start a task, drop a held handle, ask one execution to
  cancel, or close the registry.  Handles are named by their place in the list of held ones.\<close>

datatype task_op = OpStart string | OpDrop nat | OpRequestCancel nat | OpCancelAll

fun task_step :: "task_op \<Rightarrow> task_world \<Rightarrow> task_world" where
  "task_step (OpStart name) w = (case task_start name w of Inl _ \<Rightarrow> w | Inr (_, w') \<Rightarrow> w')"
| "task_step (OpDrop i) w =
     (if i < length (tw_handles w) then drop_handle (tw_handles w ! i) w else w)"
| "task_step (OpRequestCancel i) w =
     (if i < length (tw_handles w) then request_cancel (task_spawn 0 (tw_handles w ! i)) w else w)"
| "task_step OpCancelAll w = cancel_all w"

abbreviation entries :: "task_world \<Rightarrow> (u64, nat) bmap" where
  "entries w \<equiv> ti_tasks (tw_inner w)"

definition held :: "plugin_task_handle list \<Rightarrow> u64 \<Rightarrow> nat option" where
  "held hs i = map_of (map (\<lambda>h. (th_id h, th_cancellation h)) hs) i"

text \<open>
  After at most \<open>n\<close> operations: the entries are exactly the held handles, ids do not repeat,
  every flag exists, at most 8 tasks are active, and in a closed registry all held handles are
  cancelled.
\<close>

definition task_inv :: "nat \<Rightarrow> task_world \<Rightarrow> bool" where
  "task_inv n w \<longleftrightarrow>
     bm_wf (entries w) \<and> length (entries w) \<le> MAX_PLUGIN_TASKS
     \<and> distinct (map th_id (tw_handles w))
     \<and> (\<forall>i. bm_get (entries w) i = held (tw_handles w) i)
     \<and> (\<forall>h\<in>set (tw_handles w). th_cancellation h < length (tw_flags w) \<and> th_id h \<le> ti_next_id (tw_inner w))
     \<and> unat (ti_next_id (tw_inner w)) \<le> n
     \<and> (\<not> ti_accepting (tw_inner w) \<longrightarrow> (\<forall>h\<in>set (tw_handles w). cancellation_requested h w))"

lemma length_set_flags [simp]: "length (set_flags addrs flags) = length flags"
  unfolding set_flags_def by (induction addrs arbitrary: flags) simp_all

lemma nth_update_True: "a < length fs \<Longrightarrow> fs[b := True] ! a \<longleftrightarrow> a = b \<or> fs ! a"
  by (cases "b = a") auto

lemma nth_set_flags:
  "a < length flags \<Longrightarrow> set_flags addrs flags ! a \<longleftrightarrow> a \<in> set addrs \<or> flags ! a"
  unfolding set_flags_def
  by (induction addrs arbitrary: flags) (auto simp: nth_update_True)

lemma set_flags_mono: "a < length flags \<Longrightarrow> flags ! a \<Longrightarrow> set_flags addrs flags ! a"
  by (simp add: nth_set_flags)

lemma held_in: "distinct (map th_id hs) \<Longrightarrow> h \<in> set hs \<Longrightarrow> held hs (th_id h) = Some (th_cancellation h)"
  unfolding held_def by (intro map_of_is_SomeI) (auto simp: comp_def)

lemma held_append:
  "th_id h \<notin> th_id ` set hs \<Longrightarrow> held (hs @ [h]) i = (if i = th_id h then Some (th_cancellation h) else held hs i)"
  unfolding held_def by (induction hs) auto

lemma held_None: "held hs i = None \<longleftrightarrow> i \<notin> th_id ` set hs"
  by (simp add: held_def map_of_eq_None_iff image_image)

lemma held_remove1:
  "distinct (map th_id hs) \<Longrightarrow> h \<in> set hs \<Longrightarrow>
     held (remove1 h hs) i = (if i = th_id h then None else held hs i)"
  unfolding held_def by (induction hs) (auto simp: map_of_eq_None_iff image_image)

lemma next_task_id: "unat n < 2 ^ 64 - 1 \<Longrightarrow> unat (next_task_id n) = Suc (unat n)"
proof -
  assume n: "unat n < 2 ^ 64 - 1"
  then have "unat (sat_add n 1) = Suc (unat n)" by (simp add: unat_sat_add)
  moreover from this have "sat_add n 1 \<noteq> 0" by (metis unat_0 Zero_not_Suc)
  ultimately show ?thesis by (simp add: next_task_id_def Let_def)
qed

lemma bm_insert_new_length: "bm_get m k = None \<Longrightarrow> length (bm_insert k v m) = Suc (length m)"
  by (induction k v m rule: bm_insert.induct) (auto simp: bm_get_def split: if_splits)

lemma task_start_ok:
  "task_start name w = Inr (h, w') \<longleftrightarrow>
     validate_name name = Inr () \<and> ti_accepting (tw_inner w) \<and> length (entries w) < MAX_PLUGIN_TASKS
     \<and> h = \<lparr>th_id = next_task_id (ti_next_id (tw_inner w)), th_name = name,
            th_cancellation = length (tw_flags w)\<rparr>
     \<and> w' = w\<lparr>tw_inner := (tw_inner w)\<lparr>ti_next_id := th_id h,
              ti_tasks := bm_insert (th_id h) (th_cancellation h) (entries w)\<rparr>,
            tw_flags := tw_flags w @ [False], tw_handles := tw_handles w @ [h]\<rparr>"
  by (auto simp: task_start_def Let_def)

lemma task_start_inv:
  assumes "task_inv n w" and "n < 2 ^ 64 - 1" and "task_start name w = Inr (h, w')"
  shows "task_inv (Suc n) w'"
proof -
  let ?id = "next_task_id (ti_next_id (tw_inner w))"
  have "unat ?id = Suc (unat (ti_next_id (tw_inner w)))"
    using assms(1,2) by (intro next_task_id) (simp add: task_inv_def)
  then have less: "ti_next_id (tw_inner w) < ?id" by (simp add: word_less_nat_alt)
  have ids: "th_id x < ?id" if "x \<in> set (tw_handles w)" for x
    using assms(1) that less by (auto simp: task_inv_def)
  then have fresh: "?id \<notin> th_id ` set (tw_handles w)" using less_irrefl by fastforce
  then have "bm_get (entries w) ?id = None"
    using assms(1) by (simp add: task_inv_def held_None)
  then have len: "length (bm_insert ?id a (entries w)) = Suc (length (entries w))" for a
    by (rule bm_insert_new_length)
  show ?thesis
    using assms fresh len ids less \<open>unat ?id = _\<close>
    by (auto simp: task_start_ok task_inv_def bm_insert_wf bm_get_insert held_append nth_append
        less_imp_le)
qed

lemma drop_inv:
  assumes "task_inv n w" and "h \<in> set (tw_handles w)"
  shows "task_inv n (drop_handle h w)"
proof -
  have "length (bm_remove i m) \<le> length m" for i and m :: "(u64, nat) bmap"
    by (simp add: bm_remove_def)
  then have "length (bm_remove (th_id h) (entries w)) \<le> MAX_PLUGIN_TASKS"
    using assms(1) by (meson order_trans task_inv_def)
  moreover have "set (remove1 h (tw_handles w)) \<subseteq> set (tw_handles w)" by (rule set_remove1_subset)
  moreover have "distinct (map th_id (remove1 h (tw_handles w)))"
    using assms(1) by (simp add: task_inv_def distinct_map distinct_remove1 inj_on_diff)
  ultimately show ?thesis
    using assms by (auto simp: task_inv_def drop_handle_def bm_remove_wf bm_get_remove held_remove1
        cancellation_requested_def)
qed

lemma cancel_one_inv:
  assumes "task_inv n w"
  shows "task_inv n (w\<lparr>tw_flags := (tw_flags w)[a := True]\<rparr>)"
  using assms by (auto simp: task_inv_def cancellation_requested_def nth_update_True)

lemma cancel_all_cancels:
  assumes "task_inv n w" and "h \<in> set (tw_handles w)"
  shows "cancellation_requested h (cancel_all w)"
proof -
  have "bm_get (entries w) (th_id h) = Some (th_cancellation h)"
    using assms held_in by (auto simp: task_inv_def)
  then have "(th_id h, th_cancellation h) \<in> set (entries w)"
    using assms(1) bm_get_in_set [of "entries w"] by (simp add: task_inv_def)
  then have "th_cancellation h \<in> set (bm_values (entries w))" by (force simp: bm_values_def)
  moreover have "th_cancellation h < length (tw_flags w)" using assms by (auto simp: task_inv_def)
  ultimately show ?thesis by (simp add: cancellation_requested_def cancel_all_def nth_set_flags)
qed

lemma cancel_all_inv: "task_inv n w \<Longrightarrow> task_inv n (cancel_all w)"
  using cancel_all_cancels [of n w]
  by (simp add: task_inv_def cancel_all_def cancellation_requested_def)

lemma task_inv_mono: "task_inv n w \<Longrightarrow> n \<le> m \<Longrightarrow> task_inv m w"
  by (auto simp: task_inv_def)

lemma task_step_inv:
  assumes "task_inv n w" and "n < 2 ^ 64 - 1"
  shows "task_inv (Suc n) (task_step op w)"
proof (cases op)
  case (OpStart name)
  then show ?thesis
    using assms task_start_inv task_inv_mono [OF assms(1), of "Suc n"]
    by (auto split: sum.splits)
next
  case (OpDrop i)
  then show ?thesis
    using assms drop_inv task_inv_mono by (auto intro: task_inv_mono)
next
  case (OpRequestCancel i)
  then show ?thesis
    using assms by (auto simp: request_cancel_def task_spawn_def intro: task_inv_mono cancel_one_inv)
next
  case OpCancelAll
  then show ?thesis using assms by (auto intro: task_inv_mono cancel_all_inv)
qed

lemma task_run_inv:
  assumes "task_inv n w" and "n + length ops < 2 ^ 64"
  shows "task_inv (n + length ops) (fold task_step ops w)"
  using assms
proof (induction ops arbitrary: n w)
  case Nil
  then show ?case by simp
next
  case (Cons op ops)
  then have "task_inv (Suc n) (task_step op w)" by (intro task_step_inv) auto
  then have "task_inv (Suc n + length ops) (fold task_step ops (task_step op w))"
    using Cons.prems(2) by (intro Cons.IH) auto
  then show ?case by simp
qed

lemma task_inv_new: "task_inv 0 task_registry_new"
  by (simp add: task_inv_def task_registry_new_def bm_get_def held_def)

lemma handles_entries:
  assumes "task_inv n w"
  shows "length (tw_handles w) = length (entries w)"
proof -
  have "set (map fst (entries w)) = set (map th_id (tw_handles w))"
    using assms held_None [of "tw_handles w"] by (auto simp: task_inv_def bm_keys_eq simp del: set_map) auto
  moreover have "distinct (map fst (entries w))" using assms by (simp add: task_inv_def bm_wf_distinct)
  ultimately show ?thesis
    using assms unfolding task_inv_def by (metis distinct_card length_map)
qed

lemma run_new_inv: "length ops < 2 ^ 64 \<Longrightarrow> task_inv (length ops) (fold task_step ops task_registry_new)"
  using task_run_inv [OF task_inv_new, of ops] by simp

lemma closed_step:
  assumes "\<not> ti_accepting (tw_inner w)"
  shows "\<not> ti_accepting (tw_inner (task_step op w))
     \<and> set (tw_handles (task_step op w)) \<subseteq> set (tw_handles w)"
  using assms
  by (cases op) (auto simp: task_start_def Let_def drop_handle_def request_cancel_def task_spawn_def
      cancel_all_def try_r_def dest: set_remove1_subset [THEN subsetD] split: sum.splits)

lemma closed_run:
  assumes "\<not> ti_accepting (tw_inner w)"
  shows "\<not> ti_accepting (tw_inner (fold task_step ops w))
     \<and> set (tw_handles (fold task_step ops w)) \<subseteq> set (tw_handles w)"
  using assms
proof (induction ops arbitrary: w)
  case Nil
  then show ?case by simp
next
  case (Cons op ops)
  note step = closed_step [OF Cons.prems, of op]
  with Cons.IH [of "task_step op w"] show ?case by (auto dest: subsetD)
qed

text \<open>
  The invariant without a count of operations: it holds as long as fewer than 2^64 flags, that is
  tasks, have ever been allocated.
\<close>

definition task_ok :: "task_world \<Rightarrow> bool" where
  "task_ok w \<longleftrightarrow> length (tw_flags w) < 2 ^ 64 \<longrightarrow> task_inv (length (tw_flags w)) w"

lemma task_ok_new [simp]: "task_ok task_registry_new"
  using task_inv_new by (simp add: task_ok_def task_registry_new_def)

lemma task_ok_start:
  assumes "task_ok w" and "task_start name w = Inr (h, w')"
  shows "task_ok w'"
proof -
  have "length (tw_flags w') = Suc (length (tw_flags w))"
    using assms(2) by (simp add: task_start_ok)
  then show ?thesis
    using assms task_start_inv [of "length (tw_flags w)" w name h w'] by (simp add: task_ok_def)
qed

lemma task_ok_drop:
  assumes "task_ok w"
  shows "task_ok (drop_handle h w)"
proof (cases "h \<in> set (tw_handles w)")
  case True
  moreover have "tw_flags (drop_handle h w) = tw_flags w" by (simp add: drop_handle_def)
  ultimately show ?thesis using assms drop_inv by (simp add: task_ok_def)
qed (use assms in \<open>simp add: drop_handle_def\<close>)

lemma task_ok_cancel_all: "task_ok w \<Longrightarrow> task_ok (cancel_all w)"
  using cancel_all_inv by (simp add: task_ok_def) (simp add: cancel_all_def)

lemma task_ok_step:
  assumes "task_ok w"
  shows "task_ok (task_step op w)"
proof (cases op)
  case (OpStart name)
  then show ?thesis using assms task_ok_start [OF assms] by (auto split: sum.splits)
next
  case (OpDrop i)
  then show ?thesis using assms task_ok_drop by simp
next
  case (OpRequestCancel i)
  then show ?thesis
    using assms cancel_one_inv by (auto simp: request_cancel_def task_spawn_def task_ok_def)
next
  case OpCancelAll
  then show ?thesis using assms task_ok_cancel_all by simp
qed

lemma task_ok_closed:
  assumes "task_ok w" and "\<not> ti_accepting (tw_inner w)" and "length (tw_flags w) < 2 ^ 64"
  shows "list_all (\<lambda>h. cancellation_requested h w) (tw_handles w)"
  using assms by (simp add: task_ok_def task_inv_def list_all_iff)

section \<open>Properties\<close>

text \<open>After any sequence of starts, drops, cancel requests and closings shorter than 2^64, a
  plugin holds at most 8 task handles, no two with the same id; and another task is accepted
  exactly when its name is valid, the registry is open, and fewer than 8 handles are held.\<close>
theorem active_tasks_bounded:
  assumes "length ops < 2 ^ 64"
  shows "length (tw_handles (fold task_step ops task_registry_new)) \<le> 8
     \<and> distinct (map th_id (tw_handles (fold task_step ops task_registry_new)))
     \<and> ((\<exists>r. task_start name (fold task_step ops task_registry_new) = Inr r) \<longleftrightarrow>
          name \<noteq> [] \<and> length name \<le> 128 \<and> \<not> has_control name
          \<and> ti_accepting (tw_inner (fold task_step ops task_registry_new))
          \<and> length (tw_handles (fold task_step ops task_registry_new)) < 8)"
proof -
  let ?w = "fold task_step ops task_registry_new"
  have inv: "task_inv (length ops) ?w" using assms by (rule run_new_inv)
  have "(\<exists>r. task_start name ?w = Inr r) \<longleftrightarrow>
      validate_name name = Inr () \<and> ti_accepting (tw_inner ?w) \<and> length (tw_handles ?w) < 8"
    using handles_entries [OF inv] by (auto simp: task_start_ok limits)
  moreover have "validate_name name = Inr () \<longleftrightarrow>
      name \<noteq> [] \<and> length name \<le> 128 \<and> \<not> has_control name"
    by (auto simp: validate_name_def limits)
  ultimately show ?thesis
    using inv handles_entries [OF inv] by (auto simp: task_inv_def limits)
qed

lemma next_task_id_samples: "next_task_id 0 = 1" "next_task_id 1 = 2"
  by (simp_all add: next_task_id_def sat_add_def)

lemmas task_sample_simps = Let_def task_registry_new_def task_start_def validate_name_def limits
  next_task_id_samples drop_handle_def cancel_all_def bm_remove_def

lemma active_tasks_bounded_witness:
  "length (tw_handles (fold task_step [OpStart ''a'', OpStart ''b'', OpDrop 0] task_registry_new)) \<le> 8
   \<and> (\<exists>r. task_start ''c'' (fold task_step [OpStart ''a'', OpStart ''b'', OpDrop 0] task_registry_new) = Inr r)"
proof -
  have "length (tw_handles (fold task_step [OpStart ''a'', OpStart ''b'', OpDrop 0] task_registry_new)) = 1"
    "ti_accepting (tw_inner (fold task_step [OpStart ''a'', OpStart ''b'', OpDrop 0] task_registry_new))"
    by (simp_all add: task_sample_simps)
  then show ?thesis
    using active_tasks_bounded [of "[OpStart ''a'', OpStart ''b'', OpDrop 0]" "''c''"] by simp
qed

text \<open>Once a registry has been closed, whatever happened before and whatever happens later, every
  task handle still held was held at the closing and sees its cancellation, and no task is ever
  accepted again.\<close>
theorem closed_registry_cancels_all:
  assumes "length before + length after < 2 ^ 64 - 1"
  shows "let closed = cancel_all (fold task_step before task_registry_new);
             w = fold task_step after closed
         in set (tw_handles w) \<subseteq> set (tw_handles (fold task_step before task_registry_new))
          \<and> list_all (\<lambda>h. cancellation_requested h w) (tw_handles w)
          \<and> isl (task_start name w)"
proof -
  let ?open = "fold task_step before task_registry_new"
  let ?closed = "cancel_all ?open"
  let ?w = "fold task_step after ?closed"
  have inv: "task_inv (length before) ?open" using assms by (intro run_new_inv) simp
  then have w: "task_inv (length before + length after) ?w"
    using assms by (intro task_run_inv cancel_all_inv) auto
  have "\<not> ti_accepting (tw_inner ?closed)" by (simp add: cancel_all_def)
  note closed = closed_run [OF this, of after]
  then have "set (tw_handles ?w) \<subseteq> set (tw_handles ?open)" by (simp add: cancel_all_def)
  moreover have "list_all (\<lambda>h. cancellation_requested h ?w) (tw_handles ?w)"
    using w closed by (simp add: task_inv_def list_all_iff)
  moreover have "isl (task_start name ?w)"
    using closed by (cases "task_start name ?w") (auto simp: task_start_ok)
  ultimately show ?thesis by (simp add: Let_def)
qed

lemma closed_registry_cancels_all_witness:
  "let closed = cancel_all (fold task_step [OpStart ''a'', OpStart ''b''] task_registry_new);
       w = fold task_step [OpDrop 0, OpStart ''c''] closed
   in length (tw_handles w) = 1 \<and> list_all (\<lambda>h. cancellation_requested h w) (tw_handles w)"
proof -
  let ?closed = "cancel_all (fold task_step [OpStart ''a'', OpStart ''b''] task_registry_new)"
  have "length (tw_handles (fold task_step [OpDrop 0, OpStart ''c''] ?closed)) = 1"
    by (simp add: task_sample_simps)
  then show ?thesis
    using closed_registry_cancels_all [of "[OpStart ''a'', OpStart ''b'']" "[OpDrop 0, OpStart ''c'']" "''d''"]
    by (simp add: Let_def)
qed

text \<open>With a budget the constructor accepts, an operation returns at most 1 MiB, reports errors
  of at most 512 bytes, runs at most 60 seconds before its timer, and never returns a result when
  it was cancelled before it started.\<close>
theorem task_results_bounded:
  assumes "budget_new timeout max_bytes = Inr budget"
  shows "0 < tb_timeout budget \<and> tb_timeout budget \<le> 60000000000
     \<and> (case run_operation cancelled outcome budget of
          Inr result \<Rightarrow> length result \<le> max_bytes \<and> length result \<le> 1048576 \<and> \<not> cancelled
            \<and> outcome = OperationEnded (Inr result)
        | Inl (Failed message) \<Rightarrow> length message \<le> 512
        | Inl (ResultTooLarge actual limit) \<Rightarrow> limit = max_bytes \<and> limit < actual
        | Inl _ \<Rightarrow> cancelled \<or> outcome = TimerFired \<or> outcome = CancellationSeen)"
  using assms bound_task_error_length
  by (auto simp: budget_new_def run_operation_def limits try_r_def map_err_def
      split: if_splits sum.splits select_outcome.splits)

lemma task_results_bounded_witness:
  "\<exists>budget. budget_new 1000 4 = Inr budget
     \<and> run_operation False (OperationEnded (Inr ''abcd'')) budget = Inr ''abcd''
     \<and> tb_timeout budget \<le> 60000000000"
proof -
  have b: "budget_new 1000 4 = Inr \<lparr>tb_timeout = 1000, tb_max_result_bytes = 4\<rparr>"
    by (simp add: budget_new_def limits)
  moreover have "run_operation False (OperationEnded (Inr ''abcd''))
      \<lparr>tb_timeout = 1000, tb_max_result_bytes = 4\<rparr> = Inr ''abcd''"
    by (simp add: run_operation_def)
  ultimately show ?thesis
    using task_results_bounded [OF b, of False "OperationEnded (Inr ''abcd'')"] by auto
qed

end
