(* ===== verification/Plugin_Settings.thy ===== *)
theory Plugin_Settings
  imports Manifest_Validation Btree_Map
begin

text \<open>
  The in-memory snapshot of a plugin's ordinary settings (\<open>crates/ramag-app/src/plugin_settings.rs\<close>):
  values keyed without the namespace prefix \<open>plugin.<id>.\<close>, created from stored values, read and
  updated through the plugin's setting definitions.  A \<open>BTreeMap\<close> is the ordered list of its
  entries; \<open>snapshot_inv\<close> is what every snapshot the code can build satisfies.
\<close>

section \<open>Data\<close>

(* crates/ramag-app/src/plugin_settings.rs:12-12 PLUGIN_NAMESPACE_PREFIX *)
definition PLUGIN_NAMESPACE_PREFIX :: string where
  "PLUGIN_NAMESPACE_PREFIX = ''plugin.''"

(* crates/ramag-app/src/plugin_settings.rs:15-37 PluginSettingsError *)
datatype plugin_settings_error =
    InvalidDescriptor plugin_id plugin_registration_error
  | NamespaceMismatch string string
  | DuplicateKey string
  | UnknownSetting plugin_id string
  | SensitiveSettingRequiresSecretStorage string
  | InvalidValue string plugin_registration_error

(* crates/ramag-app/src/plugin_settings.rs:43-49 PluginSettingsSnapshot *)
record plugin_settings_snapshot =
  ss_plugin_id :: plugin_id
  ss_namespace :: string
  ss_definitions :: "(string, plugin_setting_definition) bmap"
  ss_values :: "(string, plugin_setting_value) bmap"

(* crates/ramag-app/src/plugin_settings.rs:15-37 PluginSettingsError *)
fun display_settings_error :: "plugin_settings_error \<Rightarrow> string" where
  "display_settings_error (InvalidDescriptor p e) =
     (utf8 [0x63D2, 0x4EF6] @ '' '' @ utf8 [0x60]) @ as_str p @ (utf8 [0x60] @ '' '' @ utf8 [0x6E05, 0x5355, 0x65E0, 0x6548, 0xFF1A]) @ display_registration_error e"
| "display_settings_error (NamespaceMismatch expected key) =
     (utf8 [0x8BBE, 0x7F6E, 0x952E] @ '' '' @ utf8 [0x60]) @ key @ (utf8 [0x60] @ '' '' @ utf8 [0x4E0D, 0x5C5E, 0x4E8E, 0x63D2, 0x4EF6, 0x547D, 0x540D, 0x7A7A, 0x95F4] @ '' '' @ utf8 [0x60]) @ expected @ (utf8 [0x60])"
| "display_settings_error (DuplicateKey key) = (utf8 [0x63D2, 0x4EF6, 0x8BBE, 0x7F6E, 0x952E, 0x91CD, 0x590D, 0xFF1A]) @ key"
| "display_settings_error (UnknownSetting p key) =
     (utf8 [0x63D2, 0x4EF6] @ '' '' @ utf8 [0x60]) @ as_str p @ (utf8 [0x60] @ '' '' @ utf8 [0x672A, 0x58F0, 0x660E, 0x8BBE, 0x7F6E] @ '' '' @ utf8 [0x60]) @ key @ (utf8 [0x60])"
| "display_settings_error (SensitiveSettingRequiresSecretStorage key) =
     (utf8 [0x63D2, 0x4EF6, 0x8BBE, 0x7F6E] @ '' '' @ utf8 [0x60]) @ key @ (utf8 [0x60] @ '' '' @ utf8 [0x662F, 0x654F, 0x611F, 0x503C, 0xFF0C, 0x5FC5, 0x987B, 0x901A, 0x8FC7, 0x79D8, 0x5BC6, 0x5B58, 0x50A8, 0x8BBF, 0x95EE])"
| "display_settings_error (InvalidValue key e) =
     (utf8 [0x63D2, 0x4EF6, 0x8BBE, 0x7F6E] @ '' '' @ utf8 [0x60]) @ key @ (utf8 [0x60] @ '' '' @ utf8 [0x65E0, 0x6548, 0xFF1A]) @ display_registration_error e"

section \<open>Operations\<close>

(* crates/ramag-app/src/plugin_settings.rs:213-215 namespace_for *)
definition namespace_for :: "plugin_id \<Rightarrow> string" where
  "namespace_for p = PLUGIN_NAMESPACE_PREFIX @ as_str p @ ''.''"

(* crates/ramag-app/src/plugin_settings.rs:217-228 validate_value *)
definition validate_snapshot_value ::
  "plugin_setting_definition \<Rightarrow> string \<Rightarrow> plugin_setting_value \<Rightarrow> plugin_settings_error + unit" where
  "validate_snapshot_value definition qualified_key v =
     map_err (\<lambda>source. InvalidValue qualified_key source) (validate_value definition v)"

text \<open>\<open>settings.iter().cloned().map(|d| (d.key.clone(), d)).collect::<BTreeMap<_, _>>()\<close>\<close>

(* crates/ramag-app/src/plugin_settings.rs:70-75 PluginSettingsSnapshot::from_namespaced_values *)
definition setting_definitions ::
  "plugin_descriptor \<Rightarrow> (string, plugin_setting_definition) bmap" where
  "setting_definitions d = bm_collect (map (\<lambda>s. (sd_key s, s)) (pd_settings d))"

(* crates/ramag-app/src/plugin_settings.rs:78-104 PluginSettingsSnapshot::from_namespaced_values *)
definition add_stored_setting ::
  "plugin_id \<Rightarrow> (string, plugin_setting_definition) bmap \<Rightarrow> (string, plugin_setting_value) bmap \<Rightarrow>
     string \<times> plugin_setting_value \<Rightarrow> plugin_settings_error + (string, plugin_setting_value) bmap" where
  "add_stored_setting p definitions vals kv =
     (let (qualified_key, v) = kv; namespace = namespace_for p in
      case strip_prefix namespace qualified_key of
        None \<Rightarrow> Inl (NamespaceMismatch namespace qualified_key)
      | Some setting_key \<Rightarrow>
          try_r (ok_or (bm_get definitions setting_key) (UnknownSetting p setting_key)) (\<lambda>definition.
          try_r (ensure (\<not> sd_sensitive definition)
            (SensitiveSettingRequiresSecretStorage setting_key)) (\<lambda>_.
          try_r (validate_snapshot_value definition qualified_key v) (\<lambda>_.
          if bm_get vals setting_key \<noteq> None then Inl (DuplicateKey qualified_key)
          else Inr (bm_insert setting_key v vals)))))"

(* crates/ramag-app/src/plugin_settings.rs:106-114 PluginSettingsSnapshot::from_namespaced_values *)
definition add_default ::
  "plugin_setting_definition \<Rightarrow> (string, plugin_setting_value) bmap \<Rightarrow>
     (string, plugin_setting_value) bmap" where
  "add_default definition vals =
     (if sd_sensitive definition then vals
      else case sd_default definition of
        None \<Rightarrow> vals
      | Some v \<Rightarrow>
          if bm_get vals (sd_key definition) = None then bm_insert (sd_key definition) v vals
          else vals)"

(* crates/ramag-app/src/plugin_settings.rs:53-122 PluginSettingsSnapshot::from_namespaced_values *)
definition settings_from_namespaced ::
  "plugin_descriptor \<Rightarrow> (string \<times> plugin_setting_value) list \<Rightarrow>
     plugin_settings_error + plugin_settings_snapshot" where
  "settings_from_namespaced d vals =
     try_r (map_err (\<lambda>source. InvalidDescriptor (pd_id d) source) (validate_descriptor d)) (\<lambda>_.
     let plugin_id = pd_id d;
         namespace = namespace_for plugin_id;
         definitions = setting_definitions d
     in try_r (fold_r (add_stored_setting plugin_id definitions) [] vals) (\<lambda>snapshot_values.
        Inr \<lparr>ss_plugin_id = plugin_id, ss_namespace = namespace, ss_definitions = definitions,
             ss_values = fold add_default (bm_values definitions) snapshot_values\<rparr>))"

(* crates/ramag-app/src/plugin_settings.rs:135-137 PluginSettingsSnapshot::get *)
definition settings_get :: "plugin_settings_snapshot \<Rightarrow> string \<Rightarrow> plugin_setting_value option" where
  "settings_get s key = bm_get (ss_values s) key"

(* crates/ramag-app/src/plugin_settings.rs:203-210 PluginSettingsSnapshot::setting_key *)
definition setting_key :: "plugin_settings_snapshot \<Rightarrow> string \<Rightarrow> plugin_settings_error + string" where
  "setting_key s qualified_key =
     ok_or (strip_prefix (ss_namespace s) qualified_key)
       (NamespaceMismatch (ss_namespace s) qualified_key)"

(* crates/ramag-app/src/plugin_settings.rs:140-146 PluginSettingsSnapshot::get_namespaced *)
definition settings_get_namespaced ::
  "plugin_settings_snapshot \<Rightarrow> string \<Rightarrow> plugin_settings_error + plugin_setting_value option" where
  "settings_get_namespaced s qualified_key =
     try_r (setting_key s qualified_key) (\<lambda>key. Inr (bm_get (ss_values s) key))"

(* crates/ramag-app/src/plugin_settings.rs:149-162 PluginSettingsSnapshot::qualified_key *)
definition settings_qualified_key ::
  "plugin_settings_snapshot \<Rightarrow> string \<Rightarrow> plugin_settings_error + string" where
  "settings_qualified_key s key =
     (case bm_get (ss_definitions s) key of
        None \<Rightarrow> Inl (UnknownSetting (ss_plugin_id s) key)
      | Some definition \<Rightarrow>
          if sd_sensitive definition then Inl (SensitiveSettingRequiresSecretStorage key)
          else Inr (ss_namespace s @ key))"

(* crates/ramag-app/src/plugin_settings.rs:165-170 PluginSettingsSnapshot::namespaced_values *)
definition settings_namespaced_values ::
  "plugin_settings_snapshot \<Rightarrow> (string, plugin_setting_value) bmap" where
  "settings_namespaced_values s = bm_collect (map (\<lambda>(key, v). (ss_namespace s @ key, v)) (ss_values s))"

(* crates/ramag-app/src/plugin_settings.rs:183-201 PluginSettingsSnapshot::update_namespaced *)
definition settings_update_namespaced ::
  "plugin_settings_snapshot \<Rightarrow> string \<Rightarrow> plugin_setting_value \<Rightarrow>
     plugin_settings_error + plugin_settings_snapshot" where
  "settings_update_namespaced s qualified_key v =
     try_r (setting_key s qualified_key) (\<lambda>key.
     try_r (ok_or (bm_get (ss_definitions s) key) (UnknownSetting (ss_plugin_id s) key)) (\<lambda>definition.
     try_r (validate_snapshot_value definition qualified_key v) (\<lambda>_.
     Inr (s\<lparr>ss_values := bm_insert key v (ss_values s)\<rparr>))))"

(* crates/ramag-app/src/plugin_settings.rs:173-180 PluginSettingsSnapshot::update *)
definition settings_update ::
  "plugin_settings_snapshot \<Rightarrow> string \<Rightarrow> plugin_setting_value \<Rightarrow>
     plugin_settings_error + plugin_settings_snapshot" where
  "settings_update s key v =
     try_r (settings_qualified_key s key) (\<lambda>qualified_key. settings_update_namespaced s qualified_key v)"

section \<open>What a snapshot holds\<close>

text \<open>A value may enter a snapshot when the plugin declares its key as an ordinary setting.\<close>

definition plain_setting :: "plugin_descriptor \<Rightarrow> string \<Rightarrow> plugin_setting_value \<Rightarrow> bool" where
  "plain_setting d key v \<longleftrightarrow>
     (\<exists>s\<in>set (pd_settings d). sd_key s = key \<and> \<not> sd_sensitive s \<and> wf_value s v)"

definition default_of :: "plugin_descriptor \<Rightarrow> string \<Rightarrow> plugin_setting_value option" where
  "default_of d key =
     (case find (\<lambda>s. sd_key s = key) (pd_settings d) of
        None \<Rightarrow> None | Some s \<Rightarrow> if sd_sensitive s then None else sd_default s)"

definition snapshot_inv :: "plugin_descriptor \<Rightarrow> plugin_settings_snapshot \<Rightarrow> bool" where
  "snapshot_inv d s \<longleftrightarrow>
     wf_descriptor CURRENT_PLUGIN_API_VERSION d
     \<and> ss_plugin_id s = pd_id d \<and> ss_namespace s = namespace_for (pd_id d)
     \<and> ss_definitions s = setting_definitions d
     \<and> bm_wf (ss_values s)
     \<and> (\<forall>key v. settings_get s key = Some v \<longrightarrow> plain_setting d key v)
     \<and> (\<forall>key. default_of d key \<noteq> None \<longrightarrow> settings_get s key \<noteq> None)"

lemma find_key:
  assumes "distinct (map f xs)" and "x \<in> set xs"
  shows "find (\<lambda>y. f y = f x) xs = Some x"
  using assms by (induction xs) auto

lemma definitions_get:
  assumes "distinct (map sd_key (pd_settings d))"
  shows "bm_get (setting_definitions d) key = Some s \<longleftrightarrow> s \<in> set (pd_settings d) \<and> sd_key s = key"
proof -
  have "distinct (map fst (map (\<lambda>s. (sd_key s, s)) (pd_settings d)))"
    using assms by (simp add: comp_def)
  then show ?thesis
    by (auto simp: setting_definitions_def bm_get_collect_distinct)
qed

lemma definitions_values:
  assumes "distinct (map sd_key (pd_settings d))"
  shows "set (bm_values (setting_definitions d)) = set (pd_settings d)"
    and "distinct (map sd_key (bm_values (setting_definitions d)))"
proof -
  let ?m = "setting_definitions d"
  have wf: "bm_wf ?m" by (simp add: setting_definitions_def)
  have entry: "(k, s) \<in> set ?m \<longleftrightarrow> s \<in> set (pd_settings d) \<and> sd_key s = k" for k s
    using bm_get_in_set [OF wf] definitions_get [OF assms] by metis
  show "set (bm_values ?m) = set (pd_settings d)"
  proof (rule set_eqI)
    fix s
    have "s \<in> snd ` set ?m \<longleftrightarrow> (\<exists>k. (k, s) \<in> set ?m)" by force
    then show "s \<in> set (bm_values ?m) \<longleftrightarrow> s \<in> set (pd_settings d)"
      by (simp add: bm_values_def entry)
  qed
  have "map sd_key (bm_values ?m) = map fst ?m"
    using entry by (auto simp: bm_values_def)
  then show "distinct (map sd_key (bm_values ?m))" using wf by (simp add: bm_wf_distinct)
qed

lemma wf_descriptor_settings:
  "wf_descriptor v d \<Longrightarrow> distinct (map sd_key (pd_settings d)) \<and> (\<forall>s\<in>set (pd_settings d). wf_setting s)"
  by (simp add: wf_descriptor_def)

lemma default_of_Some:
  assumes "distinct (map sd_key (pd_settings d))"
  shows "default_of d key = Some v \<longleftrightarrow>
     (\<exists>s\<in>set (pd_settings d). sd_key s = key \<and> \<not> sd_sensitive s \<and> sd_default s = Some v)"
proof
  assume "default_of d key = Some v"
  then show "\<exists>s\<in>set (pd_settings d). sd_key s = key \<and> \<not> sd_sensitive s \<and> sd_default s = Some v"
    by (auto simp: default_of_def find_Some_iff split: option.splits if_splits)
next
  assume "\<exists>s\<in>set (pd_settings d). sd_key s = key \<and> \<not> sd_sensitive s \<and> sd_default s = Some v"
  then show "default_of d key = Some v" using find_key [OF assms] by (auto simp: default_of_def)
qed

lemma default_plain:
  assumes "wf_descriptor v d" and "default_of d key = Some w"
  shows "plain_setting d key w"
  using assms wf_descriptor_settings [OF assms(1)]
  by (auto simp: default_of_Some plain_setting_def wf_setting_def)

section \<open>Loading stored pairs\<close>

text \<open>
  The interface of the two snapshot kinds (ordinary and secret settings): a step that adds one
  stored pair, for a descriptor \<open>d\<close> that is \<open>ok\<close>, accepts exactly a key of the namespace whose
  value is accepted and which is not there yet.  The loop over all pairs is proved once.
\<close>

locale namespaced_loader =
  fixes ok :: "'d \<Rightarrow> bool"
    and ns :: "'d \<Rightarrow> string"
    and accept :: "'d \<Rightarrow> string \<Rightarrow> 'v \<Rightarrow> bool"
    and add :: "'d \<Rightarrow> (string, 'v) bmap \<Rightarrow> string \<times> 'v \<Rightarrow> 'e + (string, 'v) bmap"
  assumes add_ok: "ok d \<Longrightarrow> add d m (qk, v) = Inr m' \<longleftrightarrow>
    (\<exists>key. qk = ns d @ key \<and> accept d key v \<and> bm_get m key = None \<and> m' = bm_insert key v m)"
begin

lemma load_sound:
  assumes "ok d" and "bm_wf m" and "fold_r (add d) m vals = Inr m'"
  shows "bm_wf m' \<and> distinct (map fst vals)
     \<and> (\<forall>(qk, v)\<in>set vals. \<exists>key. qk = ns d @ key \<and> accept d key v \<and> bm_get m key = None)
     \<and> (\<forall>key. bm_get m' key =
           (case map_of vals (ns d @ key) of None \<Rightarrow> bm_get m key | Some v \<Rightarrow> Some v))"
  using assms(2,3)
proof (induction vals arbitrary: m)
  case Nil
  then show ?case by simp
next
  case (Cons kv vals)
  obtain qk v where kv: "kv = (qk, v)" by force
  from Cons.prems(2) kv obtain key where key: "qk = ns d @ key" "accept d key v" "bm_get m key = None"
    and rest: "fold_r (add d) (bm_insert key v m) vals = Inr m'"
    by (auto simp: add_ok [OF assms(1)])
  note IH = Cons.IH [OF bm_insert_wf [OF Cons.prems(1)] rest]
  have fresh: "map_of vals qk = None"
  proof (rule ccontr)
    assume "map_of vals qk \<noteq> None"
    then obtain w where "(qk, w) \<in> set vals" by (auto dest: map_of_SomeD)
    with IH key show False by (auto simp: bm_get_insert)
  qed
  then have "qk \<notin> fst ` set vals" by (simp add: map_of_eq_None_iff)
  moreover have "\<forall>(qk, v)\<in>set vals. \<exists>key. qk = ns d @ key \<and> accept d key v \<and> bm_get m key = None"
    using IH by (fastforce simp: bm_get_insert split: if_splits)
  ultimately show ?case
    using IH key fresh by (auto simp: kv bm_get_insert split: option.splits)
qed

lemma load_complete:
  assumes "ok d" and "distinct (map fst vals)"
    and "\<forall>(qk, v)\<in>set vals. \<exists>key. qk = ns d @ key \<and> accept d key v \<and> bm_get m key = None"
  shows "\<exists>m'. fold_r (add d) m vals = Inr m'"
  using assms(2,3)
proof (induction vals arbitrary: m)
  case Nil
  then show ?case by simp
next
  case (Cons kv vals)
  then obtain key v where kv: "kv = (ns d @ key, v)" "accept d key v" "bm_get m key = None"
    by (cases kv) auto
  then have "add d m kv = Inr (bm_insert key v m)" by (auto simp: add_ok [OF assms(1)])
  moreover have "\<exists>m'. fold_r (add d) (bm_insert key v m) vals = Inr m'"
    using Cons.prems kv by (intro Cons.IH) (fastforce simp: bm_get_insert image_iff)+
  ultimately show ?case by simp
qed

end

section \<open>Creating a snapshot\<close>

lemma add_stored_ok:
  assumes "distinct (map sd_key (pd_settings d))"
  shows "add_stored_setting (pd_id d) (setting_definitions d) m (qk, v) = Inr m' \<longleftrightarrow>
     (\<exists>key. qk = namespace_for (pd_id d) @ key \<and> plain_setting d key v \<and> bm_get m key = None
        \<and> m' = bm_insert key v m)"
  by (auto simp: add_stored_setting_def validate_snapshot_value_def validate_value_def
      validate_default_ok definitions_get [OF assms] strip_prefix_iff plain_setting_def Let_def
      split: option.splits if_splits)

interpretation plain: namespaced_loader
  "\<lambda>d. distinct (map sd_key (pd_settings d))" "\<lambda>d. namespace_for (pd_id d)" plain_setting
  "\<lambda>d. add_stored_setting (pd_id d) (setting_definitions d)"
  by unfold_locales (simp add: add_stored_ok)

lemma fold_defaults:
  assumes "distinct (map sd_key defs)" and "bm_wf m"
  shows "bm_wf (fold add_default defs m)
     \<and> (\<forall>key v. bm_get (fold add_default defs m) key = Some v \<longleftrightarrow>
          bm_get m key = Some v
          \<or> bm_get m key = None \<and> (\<exists>s\<in>set defs. sd_key s = key \<and> \<not> sd_sensitive s \<and> sd_default s = Some v))"
  using assms
proof (induction defs arbitrary: m)
  case Nil
  then show ?case by simp
next
  case (Cons s defs)
  have step: "bm_get (add_default s m) key = Some v \<longleftrightarrow>
      bm_get m key = Some v
      \<or> bm_get m key = None \<and> sd_key s = key \<and> \<not> sd_sensitive s \<and> sd_default s = Some v" for key v
    by (auto simp: add_default_def bm_get_insert split: option.splits)
  have none: "bm_get (add_default s m) key = None \<longleftrightarrow>
      bm_get m key = None \<and> \<not> (sd_key s = key \<and> \<not> sd_sensitive s \<and> sd_default s \<noteq> None)" for key
    by (auto simp: add_default_def bm_get_insert split: option.splits)
  have wf: "bm_wf (add_default s m)"
    using Cons.prems(2) by (auto simp: add_default_def bm_insert_wf split: option.split)
  have keys: "sd_key s \<noteq> sd_key x" if "x \<in> set defs" for x
    using Cons.prems(1) that by (auto simp: image_iff)
  have "distinct (map sd_key defs)" using Cons.prems(1) by simp
  from Cons.IH [OF this wf] show ?case
    using keys by (auto simp: step none)
qed

lemma from_namespaced_sound:
  assumes "settings_from_namespaced d vals = Inr s"
  shows "snapshot_inv d s
     \<and> distinct (map fst vals)
     \<and> (\<forall>(qk, v)\<in>set vals. \<exists>key. qk = namespace_for (pd_id d) @ key \<and> plain_setting d key v)
     \<and> (\<forall>key. settings_get s key =
           (case map_of vals (namespace_for (pd_id d) @ key) of
              None \<Rightarrow> default_of d key | Some v \<Rightarrow> Some v))"
proof -
  have wf: "wf_descriptor CURRENT_PLUGIN_API_VERSION d"
    using assms by (auto simp: settings_from_namespaced_def validate_descriptor_ok Let_def)
  note dist = conjunct1 [OF wf_descriptor_settings [OF wf]]
  obtain m where m: "fold_r (add_stored_setting (pd_id d) (setting_definitions d)) [] vals = Inr m"
    and s: "s = \<lparr>ss_plugin_id = pd_id d, ss_namespace = namespace_for (pd_id d),
        ss_definitions = setting_definitions d,
        ss_values = fold add_default (bm_values (setting_definitions d)) m\<rparr>"
    using assms by (auto simp: settings_from_namespaced_def Let_def)
  note stored = plain.load_sound [OF dist bm_wf_Nil m]
  then have get_m: "bm_get m key = map_of vals (namespace_for (pd_id d) @ key)" for key
    by (auto simp: bm_get_def split: option.splits)
  have "bm_wf m" using stored by simp
  note defaults = fold_defaults [OF definitions_values(2) [OF dist] this, unfolded definitions_values(1) [OF dist]]
  have get: "settings_get s key = (case map_of vals (namespace_for (pd_id d) @ key) of
      None \<Rightarrow> default_of d key | Some v \<Rightarrow> Some v)" for key
  proof -
    have "settings_get s key = Some v \<longleftrightarrow> (case map_of vals (namespace_for (pd_id d) @ key) of
        None \<Rightarrow> default_of d key | Some v \<Rightarrow> Some v) = Some v" for v
      using defaults default_of_Some [OF dist, of key]
      by (auto simp: s settings_get_def get_m split: option.splits)
    then show ?thesis by (metis not_None_eq)
  qed
  have vals: "\<exists>key. qk = namespace_for (pd_id d) @ key \<and> plain_setting d key v"
    if "(qk, v) \<in> set vals" for qk v
    using stored that by fastforce
  have "plain_setting d key v" if "settings_get s key = Some v" for key v
  proof (cases "map_of vals (namespace_for (pd_id d) @ key)")
    case None
    then show ?thesis using that get default_plain [OF wf] by simp
  next
    case (Some w)
    then show ?thesis using that get vals [OF map_of_SomeD [OF Some]] by simp
  qed
  moreover have "settings_get s key \<noteq> None" if "default_of d key \<noteq> None" for key
    using that get by (auto split: option.splits)
  ultimately have "snapshot_inv d s"
    using wf defaults by (simp add: snapshot_inv_def s)
  with get vals stored show ?thesis by blast
qed

lemma from_namespaced_complete:
  assumes "wf_descriptor CURRENT_PLUGIN_API_VERSION d" and "distinct (map fst vals)"
    and "\<forall>(qk, v)\<in>set vals. \<exists>key. qk = namespace_for (pd_id d) @ key \<and> plain_setting d key v"
  shows "\<exists>s. settings_from_namespaced d vals = Inr s"
proof -
  have "\<exists>m. fold_r (add_stored_setting (pd_id d) (setting_definitions d)) [] vals = Inr m"
    using assms wf_descriptor_settings [OF assms(1)]
    by (intro plain.load_complete) (auto simp: bm_get_def)
  then show ?thesis
    using assms(1) by (auto simp: settings_from_namespaced_def validate_descriptor_ok Let_def)
qed

section \<open>Stored form\<close>

lemma append_less_iff [simp]: "(ns @ a < ns @ b) = (a < (b :: 'a::linorder list))"
  by (induction ns) simp_all

lemma wf_namespaced: "bm_wf m \<Longrightarrow> bm_wf (map (\<lambda>(key, v). (ns @ key, v)) m)"
  by (induction m) (fastforce simp: bm_wf_Cons)+

lemma namespaced_values_eq:
  assumes "bm_wf (ss_values s)"
  shows "settings_namespaced_values s = map (\<lambda>(key, v). (ss_namespace s @ key, v)) (ss_values s)"
  using wf_namespaced [OF assms] by (simp add: settings_namespaced_values_def bm_collect_id)

lemma fst_namespaced: "map fst (map (\<lambda>(key, v). (ns @ key, v)) m) = map ((@) ns) (map fst m)"
  by (induction m) auto

lemma map_of_namespaced:
  "map_of (map (\<lambda>(key, v). (ns @ key, v)) m) (ns @ key) = map_of m key"
  by (induction m) auto

lemma namespaced_roundtrip:
  assumes "snapshot_inv d s"
  shows "settings_from_namespaced d (settings_namespaced_values s) = Inr s"
proof -
  have wf: "bm_wf (ss_values s)" and ns: "ss_namespace s = namespace_for (pd_id d)"
    using assms by (simp_all add: snapshot_inv_def)
  have vals: "settings_namespaced_values s =
      map (\<lambda>(key, v). (namespace_for (pd_id d) @ key, v)) (ss_values s)"
    using namespaced_values_eq [OF wf] ns by simp
  have plain: "plain_setting d key v" if "(key, v) \<in> set (ss_values s)" for key v
    using that assms bm_get_in_set [OF wf] by (auto simp: snapshot_inv_def settings_get_def)
  have "distinct (map fst (settings_namespaced_values s))"
    using bm_wf_distinct [OF wf] unfolding vals fst_namespaced distinct_map [of "(@) _"]
    by (simp add: inj_on_def)
  moreover have "\<forall>(qk, v)\<in>set (settings_namespaced_values s).
      \<exists>key. qk = namespace_for (pd_id d) @ key \<and> plain_setting d key v"
    using plain by (auto simp: vals)
  moreover have "wf_descriptor CURRENT_PLUGIN_API_VERSION d" using assms by (simp add: snapshot_inv_def)
  ultimately obtain r where r: "settings_from_namespaced d (settings_namespaced_values s) = Inr r"
    using from_namespaced_complete by blast
  note sound = from_namespaced_sound [OF r]
  have "settings_get r key = settings_get s key" for key
  proof (cases "settings_get s key")
    case None
    then have "default_of d key = None" using assms by (auto simp: snapshot_inv_def)
    with None sound show ?thesis
      by (simp add: vals map_of_namespaced settings_get_def bm_get_def)
  next
    case (Some v)
    with sound show ?thesis
      by (simp add: vals map_of_namespaced settings_get_def bm_get_def)
  qed
  then have "ss_values r = ss_values s"
    using sound wf by (intro bm_ext) (auto simp: snapshot_inv_def settings_get_def)
  then have "r = s" using sound assms by (auto simp: snapshot_inv_def)
  with r show ?thesis by simp
qed

section \<open>Updates\<close>

lemma update_namespaced_ok:
  assumes "snapshot_inv d s"
  shows "settings_update_namespaced s qk v = Inr s' \<longleftrightarrow>
     (\<exists>x\<in>set (pd_settings d). qk = namespace_for (pd_id d) @ sd_key x \<and> wf_value x v
        \<and> s' = s\<lparr>ss_values := bm_insert (sd_key x) v (ss_values s)\<rparr>)"
proof -
  have "distinct (map sd_key (pd_settings d))"
    using assms wf_descriptor_settings by (auto simp: snapshot_inv_def)
  from definitions_get [OF this] show ?thesis
    using assms by (auto simp: settings_update_namespaced_def setting_key_def snapshot_inv_def
        validate_snapshot_value_def validate_value_def validate_default_ok strip_prefix_iff)
qed

lemma update_ok:
  assumes "snapshot_inv d s"
  shows "settings_update s key v = Inr s' \<longleftrightarrow>
     plain_setting d key v \<and> s' = s\<lparr>ss_values := bm_insert key v (ss_values s)\<rparr>"
proof -
  have dist: "distinct (map sd_key (pd_settings d))"
    using assms wf_descriptor_settings by (auto simp: snapshot_inv_def)
  have "settings_qualified_key s key = Inr qk \<longleftrightarrow>
      (\<exists>x\<in>set (pd_settings d). sd_key x = key \<and> \<not> sd_sensitive x \<and> qk = namespace_for (pd_id d) @ key)" for qk
  proof -
    have "settings_qualified_key s key = Inr qk \<longleftrightarrow>
        (\<exists>x. bm_get (setting_definitions d) key = Some x \<and> \<not> sd_sensitive x
           \<and> qk = namespace_for (pd_id d) @ key)"
      using assms by (auto simp: settings_qualified_key_def snapshot_inv_def split: option.splits)
    then show ?thesis by (auto simp: definitions_get [OF dist])
  qed
  moreover have "x = y" if "x \<in> set (pd_settings d)" "y \<in> set (pd_settings d)" "sd_key x = sd_key y" for x y
    using that dist by (auto simp: distinct_map inj_on_def)
  ultimately show ?thesis
    by (auto simp: settings_update_def update_namespaced_ok [OF assms] plain_setting_def)
qed

lemma update_inv:
  assumes "snapshot_inv d s" and "settings_update s key v = Inr s'"
  shows "snapshot_inv d s'"
  using assms by (auto simp: update_ok [OF assms(1)] snapshot_inv_def settings_get_def bm_get_insert
      bm_insert_wf split: if_splits)

section \<open>Properties\<close>

text \<open>Stored values become a snapshot exactly when the manifest is valid, no key is repeated, and
  every key is in the plugin's namespace, declared, not sensitive, and has a value of its kind.\<close>
theorem stored_settings_accepted_iff:
  "(\<exists>s. settings_from_namespaced d vals = Inr s) \<longleftrightarrow>
     wf_descriptor CURRENT_PLUGIN_API_VERSION d \<and> distinct (map fst vals)
     \<and> set vals \<subseteq> {(namespace_for (pd_id d) @ key, v) | key v. plain_setting d key v}"
proof
  assume "\<exists>s. settings_from_namespaced d vals = Inr s"
  then obtain s where "settings_from_namespaced d vals = Inr s" ..
  from from_namespaced_sound [OF this] show "wf_descriptor CURRENT_PLUGIN_API_VERSION d
      \<and> distinct (map fst vals)
      \<and> set vals \<subseteq> {(namespace_for (pd_id d) @ key, v) | key v. plain_setting d key v}"
    by (fastforce simp: snapshot_inv_def)
next
  assume "wf_descriptor CURRENT_PLUGIN_API_VERSION d \<and> distinct (map fst vals)
      \<and> set vals \<subseteq> {(namespace_for (pd_id d) @ key, v) | key v. plain_setting d key v}"
  then show "\<exists>s. settings_from_namespaced d vals = Inr s"
    by (intro from_namespaced_complete) auto
qed

text \<open>A snapshot loaded from storage answers the stored value, or else the declared default of a
  setting that is not sensitive; an accepted update changes the answer for its key only; and
  loading the stored form of the updated snapshot gives the updated snapshot back.\<close>
theorem settings_update_roundtrip:
  assumes "settings_from_namespaced d vals = Inr s" and "settings_update s key v = Inr s'"
  shows "settings_get s k =
       (case map_of vals (namespace_for (pd_id d) @ k) of None \<Rightarrow> default_of d k | Some w \<Rightarrow> Some w)
     \<and> settings_get s' k = (if k = key then Some v else settings_get s k)
     \<and> settings_from_namespaced d (settings_namespaced_values s') = Inr s'"
proof (intro conjI)
  note sound = from_namespaced_sound [OF assms(1)]
  then show "settings_get s k =
      (case map_of vals (namespace_for (pd_id d) @ k) of None \<Rightarrow> default_of d k | Some w \<Rightarrow> Some w)"
    by blast
  have inv: "snapshot_inv d s" using sound by blast
  show "settings_get s' k = (if k = key then Some v else settings_get s k)"
    using assms(2) by (auto simp: update_ok [OF inv] settings_get_def bm_get_insert)
  show "settings_from_namespaced d (settings_namespaced_values s') = Inr s'"
    using update_inv [OF inv assms(2)] by (rule namespaced_roundtrip)
qed

definition sample_settings :: plugin_descriptor where
  "sample_settings = with_settings
     [with_default (IntegerV 8) (setting_new ''size'' IntegerK),
      sensitive True (setting_new ''token'' StringK)]
     (descriptor_new (PluginId ''p'') ''P'' ''p'')"

lemmas sample_settings_simps =
  sample_settings_def with_settings_def with_default_def sensitive_def setting_new_def
  descriptor_new_def

lemma sample_settings_wf: "wf_descriptor CURRENT_PLUGIN_API_VERSION sample_settings"
  by (simp add: wf_descriptor_def sample_settings_simps entry_descriptors_def
      entry_with_description_def entry_new_def wf_identifier_def wf_entry_def wf_setting_def
      is_supported_by_def is_known_def KNOWN_PLUGIN_CAPABILITIES_def spec_text_def limits
      is_ascii_lowercase_def)

lemma settings_update_roundtrip_witness:
  "\<exists>s s'. settings_from_namespaced sample_settings [] = Inr s
     \<and> settings_update s ''size'' (IntegerV 9) = Inr s'
     \<and> settings_get s ''size'' = Some (IntegerV 8) \<and> settings_get s' ''size'' = Some (IntegerV 9)"
proof -
  obtain s where s: "settings_from_namespaced sample_settings [] = Inr s"
    using from_namespaced_complete [OF sample_settings_wf, of "[]"] by auto
  then have "snapshot_inv sample_settings s" using from_namespaced_sound by blast
  then obtain s' where s': "settings_update s ''size'' (IntegerV 9) = Inr s'"
    by (auto simp: update_ok plain_setting_def sample_settings_simps)
  from settings_update_roundtrip [OF s s', of "''size''"] s s' show ?thesis
    by (intro exI [of _ s] exI [of _ s']) (simp add: default_of_def sample_settings_simps)
qed

text \<open>Updating by the unqualified key refuses a sensitive setting, but updating the same setting
  by its qualified key puts the sensitive value into the plain snapshot, whose stored form can then
  no longer be loaded.\<close>
theorem qualified_update_leaks_sensitive:
  assumes "snapshot_inv d s" and "x \<in> set (pd_settings d)" and "sd_sensitive x" and "wf_value x v"
  shows "settings_update s (sd_key x) v = Inl (SensitiveSettingRequiresSecretStorage (sd_key x))
     \<and> (\<exists>s'. settings_update_namespaced s (namespace_for (pd_id d) @ sd_key x) v = Inr s'
          \<and> settings_get s' (sd_key x) = Some v
          \<and> isl (settings_from_namespaced d (settings_namespaced_values s')))"
proof (intro conjI)
  have dist: "distinct (map sd_key (pd_settings d))"
    using assms(1) wf_descriptor_settings by (auto simp: snapshot_inv_def)
  show "settings_update s (sd_key x) v = Inl (SensitiveSettingRequiresSecretStorage (sd_key x))"
    using assms definitions_get [OF dist, of "sd_key x" x]
    by (simp add: settings_update_def settings_qualified_key_def snapshot_inv_def)
  let ?s' = "s\<lparr>ss_values := bm_insert (sd_key x) v (ss_values s)\<rparr>"
  have upd: "settings_update_namespaced s (namespace_for (pd_id d) @ sd_key x) v = Inr ?s'"
    using assms by (auto simp: update_namespaced_ok [OF assms(1)])
  have wf: "bm_wf (ss_values ?s')" using assms(1) by (simp add: snapshot_inv_def bm_insert_wf)
  have "(sd_key x, v) \<in> set (ss_values ?s')"
    using bm_get_in_set [OF wf, of "sd_key x" v] by (simp add: bm_get_insert)
  then have stored: "(namespace_for (pd_id d) @ sd_key x, v) \<in> set (settings_namespaced_values ?s')"
    using assms(1) unfolding namespaced_values_eq [OF wf] by (force simp: snapshot_inv_def)
  have "\<not> plain_setting d (sd_key x) v"
    using dist assms(2,3) by (auto simp: plain_setting_def distinct_map inj_on_def)
  then have "settings_from_namespaced d (settings_namespaced_values ?s') \<noteq> Inr r" for r
    using from_namespaced_sound [of d "settings_namespaced_values ?s'" r] stored by blast
  then have "isl (settings_from_namespaced d (settings_namespaced_values ?s'))"
    by (cases "settings_from_namespaced d (settings_namespaced_values ?s')") auto
  with upd show "\<exists>s'. settings_update_namespaced s (namespace_for (pd_id d) @ sd_key x) v = Inr s'
      \<and> settings_get s' (sd_key x) = Some v
      \<and> isl (settings_from_namespaced d (settings_namespaced_values s'))"
    by (auto simp: settings_get_def bm_get_insert)
qed

lemma qualified_update_leaks_sensitive_witness:
  "\<exists>s s'. settings_from_namespaced sample_settings [] = Inr s
     \<and> settings_update_namespaced s ''plugin.p.token'' (StringV ''secret'') = Inr s'
     \<and> settings_get s' ''token'' = Some (StringV ''secret'')"
proof -
  obtain s where s: "settings_from_namespaced sample_settings [] = Inr s"
    using from_namespaced_complete [OF sample_settings_wf, of "[]"] by auto
  then have "snapshot_inv sample_settings s" using from_namespaced_sound by blast
  then have "\<exists>s'. settings_update_namespaced s (namespace_for (pd_id sample_settings) @ ''token'')
        (StringV ''secret'') = Inr s' \<and> settings_get s' ''token'' = Some (StringV ''secret'')"
    using qualified_update_leaks_sensitive [of sample_settings s
        "sensitive True (setting_new ''token'' StringK)" "StringV ''secret''"]
    by (auto simp: sample_settings_simps wf_setting_text_def)
  then show ?thesis using s
    by (auto simp: namespace_for_def PLUGIN_NAMESPACE_PREFIX_def sample_settings_simps)
qed

end
