(* ===== verification/Plugin_Secrets.thy ===== *)
theory Plugin_Secrets
  imports Plugin_Settings
begin

text \<open>
  The in-memory snapshot of a plugin's sensitive settings (\<open>crates/ramag-app/src/plugin_secrets.rs\<close>):
  the counterpart of \<^theory_text>\<open>Plugin_Settings\<close> that takes exactly the keys declared as sensitive
  and has no defaults.  It loads through the same interface \<open>namespaced_loader\<close>.
\<close>

(* crates/ramag-app/src/plugin_secrets.rs:21-43 PluginSecretError *)
datatype plugin_secret_error =
    SecretInvalidDescriptor plugin_id plugin_registration_error
  | SecretNamespaceMismatch string string
  | SecretUnknownSetting plugin_id string
  | NotSensitive string
  | SecretDuplicateKey string
  | SecretInvalidValue string plugin_registration_error

(* crates/ramag-app/src/plugin_secrets.rs:68-74 PluginSecretSnapshot *)
record plugin_secret_snapshot =
  sc_plugin_id :: plugin_id
  sc_namespace :: string
  sc_definitions :: "(string, plugin_setting_definition) bmap"
  sc_values :: "(string, plugin_setting_value) bmap"

(* crates/ramag-app/src/plugin_secrets.rs:21-43 PluginSecretError *)
fun display_secret_error :: "plugin_secret_error \<Rightarrow> string" where
  "display_secret_error (SecretInvalidDescriptor p e) =
     (utf8 [0x63D2, 0x4EF6] @ '' '' @ utf8 [0x60]) @ as_str p @ (utf8 [0x60] @ '' '' @ utf8 [0x6E05, 0x5355, 0x65E0, 0x6548, 0xFF1A]) @ display_registration_error e"
| "display_secret_error (SecretNamespaceMismatch expected key) =
     (utf8 [0x8BBE, 0x7F6E, 0x952E] @ '' '' @ utf8 [0x60]) @ key @ (utf8 [0x60] @ '' '' @ utf8 [0x4E0D, 0x5C5E, 0x4E8E, 0x63D2, 0x4EF6, 0x547D, 0x540D, 0x7A7A, 0x95F4] @ '' '' @ utf8 [0x60]) @ expected @ (utf8 [0x60])"
| "display_secret_error (SecretUnknownSetting p key) =
     (utf8 [0x63D2, 0x4EF6] @ '' '' @ utf8 [0x60]) @ as_str p @ (utf8 [0x60] @ '' '' @ utf8 [0x672A, 0x58F0, 0x660E, 0x8BBE, 0x7F6E] @ '' '' @ utf8 [0x60]) @ key @ (utf8 [0x60])"
| "display_secret_error (NotSensitive key) = (utf8 [0x8BBE, 0x7F6E] @ '' '' @ utf8 [0x60]) @ key @ (utf8 [0x60] @ '' '' @ utf8 [0x672A, 0x58F0, 0x660E, 0x4E3A, 0x654F, 0x611F, 0x8BBE, 0x7F6E])"
| "display_secret_error (SecretDuplicateKey key) = (utf8 [0x63D2, 0x4EF6, 0x79D8, 0x5BC6, 0x8BBE, 0x7F6E, 0x952E, 0x91CD, 0x590D, 0xFF1A]) @ key"
| "display_secret_error (SecretInvalidValue key e) =
     (utf8 [0x63D2, 0x4EF6, 0x79D8, 0x5BC6, 0x8BBE, 0x7F6E] @ '' '' @ utf8 [0x60]) @ key @ (utf8 [0x60] @ '' '' @ utf8 [0x65E0, 0x6548, 0xFF1A]) @ display_registration_error e"

(* crates/ramag-app/src/plugin_secrets.rs:327-329 namespace_for *)
definition secret_namespace_for :: "plugin_id \<Rightarrow> string" where
  "secret_namespace_for p = ''plugin.'' @ as_str p @ ''.''"

(* crates/ramag-app/src/plugin_secrets.rs:314-325 validate_value *)
definition validate_secret_value ::
  "plugin_setting_definition \<Rightarrow> string \<Rightarrow> plugin_setting_value \<Rightarrow> plugin_secret_error + unit" where
  "validate_secret_value definition qualified_key v =
     map_err (\<lambda>source. SecretInvalidValue qualified_key source) (validate_value definition v)"

(* crates/ramag-app/src/plugin_secrets.rs:94-99 PluginSecretSnapshot::from_namespaced_values *)
definition secret_definitions ::
  "plugin_descriptor \<Rightarrow> (string, plugin_setting_definition) bmap" where
  "secret_definitions d = bm_collect (map (\<lambda>s. (sd_key s, s)) (pd_settings d))"

(* crates/ramag-app/src/plugin_secrets.rs:102-129 PluginSecretSnapshot::from_namespaced_values *)
definition add_stored_secret ::
  "plugin_id \<Rightarrow> (string, plugin_setting_definition) bmap \<Rightarrow> (string, plugin_setting_value) bmap \<Rightarrow>
     string \<times> plugin_setting_value \<Rightarrow> plugin_secret_error + (string, plugin_setting_value) bmap" where
  "add_stored_secret p definitions vals kv =
     (let (qualified_key, v) = kv; namespace = secret_namespace_for p in
      case strip_prefix namespace qualified_key of
        None \<Rightarrow> Inl (SecretNamespaceMismatch namespace qualified_key)
      | Some skey \<Rightarrow>
          try_r (ok_or (bm_get definitions skey) (SecretUnknownSetting p skey)) (\<lambda>definition.
          try_r (ensure (sd_sensitive definition) (NotSensitive skey)) (\<lambda>_.
          try_r (validate_secret_value definition qualified_key v) (\<lambda>_.
          if bm_get vals skey \<noteq> None then Inl (SecretDuplicateKey qualified_key)
          else Inr (bm_insert skey v vals)))))"

(* crates/ramag-app/src/plugin_secrets.rs:78-137 PluginSecretSnapshot::from_namespaced_values *)
definition secrets_from_namespaced ::
  "plugin_descriptor \<Rightarrow> (string \<times> plugin_setting_value) list \<Rightarrow>
     plugin_secret_error + plugin_secret_snapshot" where
  "secrets_from_namespaced d vals =
     try_r (map_err (\<lambda>source. SecretInvalidDescriptor (pd_id d) source) (validate_descriptor d)) (\<lambda>_.
     let plugin_id = pd_id d;
         namespace = secret_namespace_for plugin_id;
         definitions = secret_definitions d
     in try_r (fold_r (add_stored_secret plugin_id definitions) [] vals) (\<lambda>snapshot_values.
        Inr \<lparr>sc_plugin_id = plugin_id, sc_namespace = namespace, sc_definitions = definitions,
             sc_values = snapshot_values\<rparr>))"

(* crates/ramag-app/src/plugin_secrets.rs:143-145 PluginSecretSnapshot::get *)
definition secret_get :: "plugin_secret_snapshot \<Rightarrow> string \<Rightarrow> plugin_setting_value option" where
  "secret_get s key = bm_get (sc_values s) key"

(* crates/ramag-app/src/plugin_secrets.rs:147-160 PluginSecretSnapshot::qualified_key *)
definition secret_qualified_key :: "plugin_secret_snapshot \<Rightarrow> string \<Rightarrow> plugin_secret_error + string" where
  "secret_qualified_key s key =
     (case bm_get (sc_definitions s) key of
        None \<Rightarrow> Inl (SecretUnknownSetting (sc_plugin_id s) key)
      | Some definition \<Rightarrow>
          if \<not> sd_sensitive definition then Inl (NotSensitive key)
          else Inr (sc_namespace s @ key))"

(* crates/ramag-app/src/plugin_secrets.rs:162-167 PluginSecretSnapshot::namespaced_values *)
definition secret_namespaced_values ::
  "plugin_secret_snapshot \<Rightarrow> (string, plugin_setting_value) bmap" where
  "secret_namespaced_values s = bm_collect (map (\<lambda>(key, v). (sc_namespace s @ key, v)) (sc_values s))"

(* crates/ramag-app/src/plugin_secrets.rs:170-188 PluginSecretSnapshot::update *)
definition secret_update ::
  "plugin_secret_snapshot \<Rightarrow> string \<Rightarrow> plugin_setting_value \<Rightarrow>
     plugin_secret_error + plugin_secret_snapshot" where
  "secret_update s key v =
     try_r (secret_qualified_key s key) (\<lambda>qualified_key.
     case strip_prefix (sc_namespace s) qualified_key of
       None \<Rightarrow> Inl (SecretNamespaceMismatch (sc_namespace s) qualified_key)
     | Some skey \<Rightarrow>
         (case bm_get (sc_definitions s) skey of
            None \<Rightarrow> Inl (SecretUnknownSetting (sc_plugin_id s) skey)
          | Some definition \<Rightarrow>
              try_r (validate_secret_value definition qualified_key v) (\<lambda>_.
              Inr (s\<lparr>sc_values := bm_insert skey v (sc_values s)\<rparr>))))"

section \<open>What a secret snapshot holds\<close>

definition secret_setting :: "plugin_descriptor \<Rightarrow> string \<Rightarrow> plugin_setting_value \<Rightarrow> bool" where
  "secret_setting d key v \<longleftrightarrow>
     (\<exists>s\<in>set (pd_settings d). sd_key s = key \<and> sd_sensitive s \<and> wf_value s v)"

definition secret_inv :: "plugin_descriptor \<Rightarrow> plugin_secret_snapshot \<Rightarrow> bool" where
  "secret_inv d s \<longleftrightarrow>
     wf_descriptor CURRENT_PLUGIN_API_VERSION d
     \<and> sc_plugin_id s = pd_id d \<and> sc_namespace s = secret_namespace_for (pd_id d)
     \<and> sc_definitions s = secret_definitions d
     \<and> bm_wf (sc_values s)
     \<and> (\<forall>key v. secret_get s key = Some v \<longrightarrow> secret_setting d key v)"

lemma secret_definitions_eq: "secret_definitions d = setting_definitions d"
  by (simp add: secret_definitions_def setting_definitions_def)

lemma secret_namespace_eq: "secret_namespace_for p = namespace_for p"
  by (simp add: secret_namespace_for_def namespace_for_def PLUGIN_NAMESPACE_PREFIX_def)

lemma add_secret_ok:
  assumes "distinct (map sd_key (pd_settings d))"
  shows "add_stored_secret (pd_id d) (secret_definitions d) m (qk, v) = Inr m' \<longleftrightarrow>
     (\<exists>key. qk = secret_namespace_for (pd_id d) @ key \<and> secret_setting d key v \<and> bm_get m key = None
        \<and> m' = bm_insert key v m)"
  by (auto simp: add_stored_secret_def validate_secret_value_def validate_value_def
      validate_default_ok secret_definitions_eq definitions_get [OF assms] strip_prefix_iff
      secret_setting_def Let_def split: option.splits if_splits)

interpretation secret: namespaced_loader
  "\<lambda>d. distinct (map sd_key (pd_settings d))" "\<lambda>d. secret_namespace_for (pd_id d)" secret_setting
  "\<lambda>d. add_stored_secret (pd_id d) (secret_definitions d)"
  by unfold_locales (simp add: add_secret_ok)

lemma secrets_sound:
  assumes "secrets_from_namespaced d vals = Inr s"
  shows "secret_inv d s
     \<and> (\<forall>key. secret_get s key = map_of vals (secret_namespace_for (pd_id d) @ key))"
proof -
  have wf: "wf_descriptor CURRENT_PLUGIN_API_VERSION d"
    using assms by (auto simp: secrets_from_namespaced_def validate_descriptor_ok Let_def)
  note dist = conjunct1 [OF wf_descriptor_settings [OF wf]]
  obtain m where m: "fold_r (add_stored_secret (pd_id d) (secret_definitions d)) [] vals = Inr m"
    and s: "s = \<lparr>sc_plugin_id = pd_id d, sc_namespace = secret_namespace_for (pd_id d),
        sc_definitions = secret_definitions d, sc_values = m\<rparr>"
    using assms by (auto simp: secrets_from_namespaced_def Let_def)
  note stored = secret.load_sound [OF dist bm_wf_Nil m]
  then have get: "secret_get s key = map_of vals (secret_namespace_for (pd_id d) @ key)" for key
    by (auto simp: s secret_get_def bm_get_def split: option.splits)
  have "secret_setting d key v" if "secret_get s key = Some v" for key v
  proof -
    have "(secret_namespace_for (pd_id d) @ key, v) \<in> set vals"
      using that get by (simp add: map_of_SomeD)
    with stored show ?thesis by fastforce
  qed
  with get wf stored show ?thesis by (simp add: secret_inv_def s)
qed

lemma secrets_complete:
  assumes "wf_descriptor CURRENT_PLUGIN_API_VERSION d" and "distinct (map fst vals)"
    and "\<forall>(qk, v)\<in>set vals. \<exists>key. qk = secret_namespace_for (pd_id d) @ key \<and> secret_setting d key v"
  shows "\<exists>s. secrets_from_namespaced d vals = Inr s"
proof -
  have "\<exists>m. fold_r (add_stored_secret (pd_id d) (secret_definitions d)) [] vals = Inr m"
    using assms wf_descriptor_settings [OF assms(1)]
    by (intro secret.load_complete) (auto simp: bm_get_def)
  then show ?thesis
    using assms(1) by (auto simp: secrets_from_namespaced_def validate_descriptor_ok Let_def)
qed

lemma secret_roundtrip:
  assumes "secret_inv d s"
  shows "secrets_from_namespaced d (secret_namespaced_values s) = Inr s"
proof -
  have wf: "bm_wf (sc_values s)" and ns: "sc_namespace s = secret_namespace_for (pd_id d)"
    using assms by (simp_all add: secret_inv_def)
  have vals: "secret_namespaced_values s =
      map (\<lambda>(key, v). (secret_namespace_for (pd_id d) @ key, v)) (sc_values s)"
    using wf_namespaced [OF wf] ns by (simp add: secret_namespaced_values_def bm_collect_id)
  have plain: "secret_setting d key v" if "(key, v) \<in> set (sc_values s)" for key v
    using that assms bm_get_in_set [OF wf] by (auto simp: secret_inv_def secret_get_def)
  have "distinct (map fst (secret_namespaced_values s))"
    using bm_wf_distinct [OF wf] unfolding vals fst_namespaced distinct_map [of "(@) _"]
    by (simp add: inj_on_def)
  moreover have "\<forall>(qk, v)\<in>set (secret_namespaced_values s).
      \<exists>key. qk = secret_namespace_for (pd_id d) @ key \<and> secret_setting d key v"
    using plain by (auto simp: vals)
  moreover have "wf_descriptor CURRENT_PLUGIN_API_VERSION d" using assms by (simp add: secret_inv_def)
  ultimately obtain r where r: "secrets_from_namespaced d (secret_namespaced_values s) = Inr r"
    using secrets_complete by blast
  note sound = secrets_sound [OF r]
  then have "secret_get r key = secret_get s key" for key
    by (simp add: vals map_of_namespaced secret_get_def bm_get_def)
  then have "sc_values r = sc_values s"
    using sound wf by (intro bm_ext) (auto simp: secret_inv_def secret_get_def)
  then have "r = s" using sound assms by (auto simp: secret_inv_def)
  with r show ?thesis by simp
qed

end
