(* ===== verification/Plugin_Catalog.thy ===== *)
theory Plugin_Catalog
  imports Manifest_Validation
begin

text \<open>
  The first-party catalogue (\<open>crates/ramag-app/src/plugin_catalog.rs\<close>): a bounded list of entry
  records whose (plugin, entry) keys are unique, extended by whole groups and pruned by plugin.
\<close>

(* crates/ramag-app/src/plugin_catalog.rs:10-11 MAX_PLUGIN_CATALOG_ENTRIES *)
definition MAX_PLUGIN_CATALOG_ENTRIES :: nat where
  [limits]: "MAX_PLUGIN_CATALOG_ENTRIES = 256"

(* crates/ramag-app/src/plugin_catalog.rs:13-17 PluginDataHandling *)
datatype plugin_data_handling = LocalOnly

(* crates/ramag-app/src/plugin_catalog.rs:27-31 PluginCatalogAcceptance *)
datatype plugin_catalog_acceptance = Verified

(* crates/ramag-app/src/plugin_catalog.rs:41-53 PluginCatalogEntry *)
record plugin_catalog_entry =
  ce_plugin_id :: plugin_id
  ce_entry_id :: string
  ce_name :: string
  ce_api_version :: plugin_api_version
  ce_desktop :: bool
  ce_web :: bool
  ce_capabilities :: "plugin_capability list"
  ce_data_handling :: plugin_data_handling
  ce_acceptance :: plugin_catalog_acceptance

(* crates/ramag-app/src/plugin_catalog.rs:121-130 PluginCatalogError *)
datatype plugin_catalog_error =
  TooManyCatalogEntries nat | DuplicateCatalogEntry plugin_id string

type_synonym plugin_catalog = "plugin_catalog_entry list"

text \<open>The derived text of an error (\<open>#[error(...)]\<close>).\<close>

(* crates/ramag-app/src/plugin_catalog.rs:121-130 PluginCatalogError *)
fun display_catalog_error :: "plugin_catalog_error \<Rightarrow> string" where
  "display_catalog_error (TooManyCatalogEntries m) = (utf8 [0x7B2C, 0x4E00, 0x65B9, 0x76EE, 0x5F55, 0x5165, 0x53E3, 0x8D85, 0x8FC7] @ '' '') @ dec m @ ('' '' @ utf8 [0x9879])"
| "display_catalog_error (DuplicateCatalogEntry p e) =
     (utf8 [0x7B2C, 0x4E00, 0x65B9, 0x76EE, 0x5F55, 0x5165, 0x53E3, 0x91CD, 0x590D, 0xFF1A, 0x63D2, 0x4EF6] @ '' '' @ utf8 [0x60]) @ as_str p @ (utf8 [0x60] @ '' / '' @ utf8 [0x5165, 0x53E3] @ '' '' @ utf8 [0x60]) @ e @ (utf8 [0x60])"

(* crates/ramag-app/src/plugin_catalog.rs:55-69 PluginCatalogEntry::desktop_only *)
definition desktop_only ::
  "plugin_descriptor \<Rightarrow> plugin_entry_descriptor \<Rightarrow> plugin_catalog_entry" where
  "desktop_only d e =
     \<lparr>ce_plugin_id = pd_id d, ce_entry_id = ed_id e, ce_name = ed_name e,
      ce_api_version = pd_api_version d, ce_desktop = True, ce_web = False,
      ce_capabilities = pd_capabilities d, ce_data_handling = LocalOnly,
      ce_acceptance = Verified\<rparr>"

(* crates/ramag-app/src/plugin_catalog.rs:71-74 PluginCatalogEntry::with_web_support *)
definition with_web_support :: "bool \<Rightarrow> plugin_catalog_entry \<Rightarrow> plugin_catalog_entry" where
  "with_web_support w e = e\<lparr>ce_web := w\<rparr>"

abbreviation catalog_key :: "plugin_catalog_entry \<Rightarrow> plugin_id \<times> string" where
  "catalog_key e \<equiv> (ce_plugin_id e, ce_entry_id e)"

(* crates/ramag-app/src/plugin_catalog.rs:94-106 PluginCatalog::register *)
fun check_catalog_keys ::
  "(plugin_id \<times> string) list \<Rightarrow> plugin_catalog_entry list \<Rightarrow> plugin_catalog_error + unit" where
  "check_catalog_keys keys [] = Inr ()"
| "check_catalog_keys keys (e # es) =
     (if catalog_key e \<in> set keys then Inl (DuplicateCatalogEntry (ce_plugin_id e) (ce_entry_id e))
      else check_catalog_keys (catalog_key e # keys) es)"

(* crates/ramag-app/src/plugin_catalog.rs:87-109 PluginCatalog::register *)
definition catalog_register ::
  "plugin_catalog_entry list \<Rightarrow> plugin_catalog \<Rightarrow> plugin_catalog_error + plugin_catalog" where
  "catalog_register es cat =
     (if MAX_PLUGIN_CATALOG_ENTRIES < length cat + length es then
        Inl (TooManyCatalogEntries MAX_PLUGIN_CATALOG_ENTRIES)
      else try_r (check_catalog_keys (map catalog_key cat) es) (\<lambda>_. Inr (cat @ es)))"

(* crates/ramag-app/src/plugin_catalog.rs:111-114 PluginCatalog::remove_plugin *)
definition catalog_remove_plugin :: "string \<Rightarrow> plugin_catalog \<Rightarrow> plugin_catalog" where
  "catalog_remove_plugin p cat = filter (\<lambda>e. as_str (ce_plugin_id e) \<noteq> p) cat"

section \<open>The catalogue invariant\<close>

definition catalog_inv :: "plugin_catalog \<Rightarrow> bool" where
  "catalog_inv cat \<longleftrightarrow> length cat \<le> MAX_PLUGIN_CATALOG_ENTRIES \<and> distinct (map catalog_key cat)"

lemma check_catalog_keys_ok:
  "check_catalog_keys keys es = Inr () \<longleftrightarrow>
     distinct (map catalog_key es) \<and> set (map catalog_key es) \<inter> set keys = {}"
  by (induction keys es rule: check_catalog_keys.induct) auto

lemma catalog_inv_empty [simp]: "catalog_inv []"
  by (simp add: catalog_inv_def)

lemma catalog_register_ok:
  "catalog_register es cat = Inr cat' \<longleftrightarrow>
     cat' = cat @ es \<and> length cat + length es \<le> MAX_PLUGIN_CATALOG_ENTRIES
     \<and> distinct (map catalog_key es) \<and> catalog_key ` set es \<inter> catalog_key ` set cat = {}"
  by (auto simp: catalog_register_def check_catalog_keys_ok)

lemma catalog_register_inv:
  "catalog_inv cat \<Longrightarrow> catalog_register es cat = Inr cat' \<Longrightarrow> catalog_inv cat'"
  by (auto simp: catalog_register_ok catalog_inv_def)

lemma catalog_remove_inv: "catalog_inv cat \<Longrightarrow> catalog_inv (catalog_remove_plugin p cat)"
  by (auto simp: catalog_inv_def catalog_remove_plugin_def distinct_map inj_on_def
      intro: order_trans [OF length_filter_le])

lemma catalog_remove_register:
  assumes "catalog_register es cat = Inr cat'"
    and "\<forall>e\<in>set es. as_str (ce_plugin_id e) = p" and "\<forall>e\<in>set cat. as_str (ce_plugin_id e) \<noteq> p"
  shows "catalog_remove_plugin p cat' = cat"
  using assms by (auto simp: catalog_register_ok catalog_remove_plugin_def)

section \<open>Properties\<close>

text \<open>A group is added to the catalogue exactly when it fits the 256 entries, its keys are
  distinct and none is taken; then it is appended as a whole, the catalogue stays within its limit
  with distinct keys, and removing the plugin gives back the catalogue from before.\<close>
theorem catalog_group_registration:
  assumes "catalog_inv cat" and "list_all (\<lambda>e. as_str (ce_plugin_id e) = p) es"
    and "list_all (\<lambda>e. as_str (ce_plugin_id e) \<noteq> p) cat"
  shows "(case catalog_register es cat of
       Inl _ \<Rightarrow> 256 < length cat + length es \<or> \<not> distinct (map catalog_key es)
     | Inr cat' \<Rightarrow> cat' = cat @ es \<and> catalog_inv cat' \<and> catalog_remove_plugin p cat' = cat)"
proof (cases "catalog_register es cat")
  case (Inl e)
  have "catalog_key ` set es \<inter> catalog_key ` set cat = {}"
    using assms(2,3) by (auto simp: list_all_iff) metis
  then show ?thesis using Inl catalog_register_ok [of es cat "cat @ es"] by (auto simp: limits)
next
  case (Inr cat')
  then have "cat' = cat @ es" by (simp add: catalog_register_ok)
  moreover have "catalog_inv cat'" "catalog_remove_plugin p cat' = cat"
    using assms catalog_register_inv [OF assms(1) Inr] catalog_remove_register [OF Inr, of p]
    by (simp_all add: list_all_iff)
  ultimately show ?thesis by (simp add: Inr)
qed

definition sample_group :: "plugin_catalog_entry list" where
  "sample_group = map (desktop_only (descriptor_new (PluginId ''p'') ''P'' ''p.one''))
     [entry_new ''p.one'' ''One'', entry_new ''p.two'' ''Two'']"

lemma catalog_group_registration_witness:
  "catalog_register sample_group [] = Inr sample_group
   \<and> catalog_remove_plugin ''p'' sample_group = []"
proof -
  have "catalog_register sample_group [] = Inr sample_group"
    by (simp add: catalog_register_ok sample_group_def desktop_only_def entry_new_def limits)
  moreover have "list_all (\<lambda>e. as_str (ce_plugin_id e) = ''p'') sample_group"
    by (simp add: sample_group_def desktop_only_def descriptor_new_def)
  ultimately show ?thesis
    using catalog_group_registration [of "[]" "''p''" sample_group] by simp
qed

end
