(* ===== verification/Plugin_Context.thy ===== *)
theory Plugin_Context
  imports Plugin_Tasks Plugin_Secrets Plugin_Catalog
begin

text \<open>
  The runtime context of a static plugin and the vocabulary of its lifecycle
  (\<open>crates/ramag-app/src/plugin_lifecycle.rs\<close>): states with their raw encoding, capability checks,
  the permission policy, settings and secret snapshots, task creation, errors and reports, and the
  default callbacks of \<open>StaticPlugin\<close>.  A context is shared by reference; each method is one step
  on its content.  A \<open>HashSet\<close> is a set, a \<open>HashMap\<close> used only by key a map.
\<close>

section \<open>States\<close>

(* crates/ramag-app/src/plugin_lifecycle.rs:26-35 PluginState *)
datatype plugin_state = Registered | Initializing | Ready | ShuttingDown | StFailed | Unloaded

(* crates/ramag-app/src/plugin_lifecycle.rs:26-35 PluginState *)
fun state_raw :: "plugin_state \<Rightarrow> u8" where
  "state_raw Registered = 0"
| "state_raw Initializing = 1"
| "state_raw Ready = 2"
| "state_raw ShuttingDown = 3"
| "state_raw StFailed = 4"
| "state_raw Unloaded = 5"

(* crates/ramag-app/src/plugin_lifecycle.rs:38-47 PluginState::from_raw *)
definition state_from_raw :: "u8 \<Rightarrow> plugin_state" where
  "state_from_raw v =
     (if v = 0 then Registered else if v = 1 then Initializing else if v = 2 then Ready
      else if v = 3 then ShuttingDown else if v = 4 then StFailed else Unloaded)"

(* crates/ramag-app/src/plugin_lifecycle.rs:50-62 PluginState::fmt *)
fun display_state :: "plugin_state \<Rightarrow> string" where
  "display_state Registered = ''Registered''"
| "display_state Initializing = ''Initializing''"
| "display_state Ready = ''Ready''"
| "display_state ShuttingDown = ''ShuttingDown''"
| "display_state StFailed = ''Failed''"
| "display_state Unloaded = ''Unloaded''"

lemma state_raw_inj [simp]: "state_raw a = state_raw b \<longleftrightarrow> a = b"
  by (cases a; cases b) simp_all

lemma state_from_to [simp]: "state_from_raw (state_raw s) = s"
  by (cases s) (simp_all add: state_from_raw_def)

declare state_raw.simps [simp del]

section \<open>Errors and reports\<close>

(* crates/ramag-app/src/plugin_lifecycle.rs:218-245 PluginContextError *)
datatype plugin_context_error =
    Unavailable plugin_id plugin_state
  | CapabilityNotDeclared plugin_id string
  | CapabilityNotGranted plugin_id string
  | SettingsUnavailable plugin_id
  | SecretsUnavailable plugin_id
  | TaskUnavailable plugin_id plugin_task_error

(* crates/ramag-app/src/plugin_lifecycle.rs:218-245 PluginContextError *)
fun display_context_error :: "plugin_context_error \<Rightarrow> string" where
  "display_context_error (Unavailable p s) =
     (utf8 [0x63D2, 0x4EF6] @ '' '' @ utf8 [0x60]) @ as_str p @ (utf8 [0x60] @ '' '' @ utf8 [0x5F53, 0x524D, 0x72B6, 0x6001, 0x4E3A] @ '' '') @ display_state s @ (utf8 [0xFF0C, 0x4E0D, 0x5141, 0x8BB8, 0x8BBF, 0x95EE, 0x8FD0, 0x884C, 0x65F6, 0x4E0A, 0x4E0B, 0x6587])"
| "display_context_error (CapabilityNotDeclared p c) =
     (utf8 [0x63D2, 0x4EF6] @ '' '' @ utf8 [0x60]) @ as_str p @ (utf8 [0x60] @ '' '' @ utf8 [0x672A, 0x58F0, 0x660E, 0x80FD, 0x529B] @ '' '' @ utf8 [0x60]) @ c @ (utf8 [0x60])"
| "display_context_error (CapabilityNotGranted p c) =
     (utf8 [0x63D2, 0x4EF6] @ '' '' @ utf8 [0x60]) @ as_str p @ (utf8 [0x60] @ '' '' @ utf8 [0x672A, 0x83B7, 0x51C6, 0x4F7F, 0x7528, 0x80FD, 0x529B] @ '' '' @ utf8 [0x60]) @ c @ (utf8 [0x60])"
| "display_context_error (SettingsUnavailable p) = (utf8 [0x63D2, 0x4EF6] @ '' '' @ utf8 [0x60]) @ as_str p @ (utf8 [0x60] @ '' '' @ utf8 [0x7684, 0x666E, 0x901A, 0x8BBE, 0x7F6E, 0x5C1A, 0x672A, 0x52A0, 0x8F7D])"
| "display_context_error (SecretsUnavailable p) = (utf8 [0x63D2, 0x4EF6] @ '' '' @ utf8 [0x60]) @ as_str p @ (utf8 [0x60] @ '' '' @ utf8 [0x7684, 0x79D8, 0x5BC6, 0x8BBE, 0x7F6E, 0x5C1A, 0x672A, 0x52A0, 0x8F7D])"
| "display_context_error (TaskUnavailable p e) =
     (utf8 [0x63D2, 0x4EF6] @ '' '' @ utf8 [0x60]) @ as_str p @ (utf8 [0x60] @ '' '' @ utf8 [0x7684, 0x4EFB, 0x52A1, 0x4E0D, 0x53EF, 0x7528, 0xFF1A]) @ display_task_error e"

(* crates/ramag-app/src/plugin_lifecycle.rs:265-269 PluginOperationError *)
datatype plugin_operation_error = PluginOperationError (operation_message: string)

(* crates/ramag-app/src/plugin_lifecycle.rs:272-276 PluginOperationError::new *)
definition operation_error_new :: "string \<Rightarrow> plugin_operation_error" where
  "operation_error_new message = PluginOperationError (bounded_message message)"

(* crates/ramag-app/src/plugin_lifecycle.rs:284-289 PluginLifecycleStage *)
datatype plugin_lifecycle_stage = RegistrationStage | InitializeStage | ShutdownStage

(* crates/ramag-app/src/plugin_lifecycle.rs:291-299 PluginLifecycleStage::fmt *)
fun display_stage :: "plugin_lifecycle_stage \<Rightarrow> string" where
  "display_stage RegistrationStage = (utf8 [0x6CE8, 0x518C])"
| "display_stage InitializeStage = (utf8 [0x521D, 0x59CB, 0x5316])"
| "display_stage ShutdownStage = (utf8 [0x5173, 0x95ED])"

(* crates/ramag-app/src/plugin_lifecycle.rs:302-307 PluginLifecycleFailure *)
record plugin_lifecycle_failure =
  lf_plugin_id :: plugin_id
  lf_stage :: plugin_lifecycle_stage
  lf_error :: plugin_operation_error

(* crates/ramag-app/src/plugin_lifecycle.rs:310-314 PluginLifecycleReport *)
record plugin_lifecycle_report =
  lr_succeeded :: "plugin_id list"
  lr_failures :: "plugin_lifecycle_failure list"

(* crates/ramag-app/src/plugin_lifecycle.rs:309-309 PluginLifecycleReport *)
definition report_default :: plugin_lifecycle_report where
  "report_default = \<lparr>lr_succeeded = [], lr_failures = []\<rparr>"

(* crates/ramag-app/src/plugin_lifecycle.rs:332-334 PluginLifecycleReport::is_success *)
definition report_is_success :: "plugin_lifecycle_report \<Rightarrow> bool" where
  "report_is_success r \<longleftrightarrow> lr_failures r = []"

(* crates/ramag-app/src/plugin_lifecycle.rs:317-321 PluginDiagnosticFailure *)
record plugin_diagnostic_failure =
  df_stage :: plugin_lifecycle_stage
  df_message :: string

(* crates/ramag-app/src/plugin_lifecycle.rs:324-329 PluginDiagnostic *)
record plugin_diagnostic =
  dg_descriptor :: plugin_descriptor
  dg_state :: plugin_state
  dg_failure :: "plugin_diagnostic_failure option"

section \<open>The permission policy\<close>

(* crates/ramag-app/src/plugin_lifecycle.rs:248-251 PluginPermissionPolicy *)
record plugin_permission_policy =
  pp_grants :: "plugin_id \<Rightarrow> plugin_capability set option"

(* crates/ramag-app/src/plugin_lifecycle.rs:255-257 PluginPermissionPolicy::grant *)
definition policy_grant ::
  "plugin_id \<Rightarrow> plugin_capability \<Rightarrow> plugin_permission_policy \<Rightarrow> plugin_permission_policy" where
  "policy_grant p c policy =
     policy\<lparr>pp_grants := (pp_grants policy)(p \<mapsto>
       insert c (case pp_grants policy p of None \<Rightarrow> {} | Some cs \<Rightarrow> cs))\<rparr>"

(* crates/ramag-app/src/plugin_lifecycle.rs:259-261 PluginPermissionPolicy::grants_for *)
definition grants_for :: "plugin_permission_policy \<Rightarrow> plugin_id \<Rightarrow> plugin_capability set" where
  "grants_for policy p = (case pp_grants policy p of None \<Rightarrow> {} | Some cs \<Rightarrow> cs)"

section \<open>The context\<close>

(* crates/ramag-app/src/plugin_lifecycle.rs:70-78 PluginContextInner *)
record plugin_context =
  pc_plugin_id :: plugin_id
  pc_declared :: "plugin_capability set"
  pc_granted :: "plugin_capability set"
  pc_settings :: "plugin_settings_snapshot option"
  pc_secrets :: "plugin_secret_snapshot option"
  pc_tasks :: task_world
  pc_state :: u8

(* crates/ramag-app/src/plugin_lifecycle.rs:81-97 PluginContext::new *)
definition context_new ::
  "plugin_id \<Rightarrow> plugin_capability list \<Rightarrow> plugin_capability set \<Rightarrow> plugin_context" where
  "context_new plugin_id declared granted =
     \<lparr>pc_plugin_id = plugin_id, pc_declared = set declared, pc_granted = granted,
      pc_settings = None, pc_secrets = None, pc_tasks = task_registry_new,
      pc_state = state_raw Registered\<rparr>"

(* crates/ramag-app/src/plugin_lifecycle.rs:105-107 PluginContext::state *)
definition context_state :: "plugin_context \<Rightarrow> plugin_state" where
  "context_state c = state_from_raw (pc_state c)"

(* crates/ramag-app/src/plugin_lifecycle.rs:110-122 PluginContext::ensure_available *)
definition ensure_available :: "plugin_context \<Rightarrow> plugin_context_error + unit" where
  "ensure_available c =
     (let state = context_state c
      in if state \<in> {Initializing, Ready, ShuttingDown} then Inr ()
         else Inl (Unavailable (pc_plugin_id c) state))"

(* crates/ramag-app/src/plugin_lifecycle.rs:125-141 PluginContext::require_capability *)
definition require_capability :: "string \<Rightarrow> plugin_context \<Rightarrow> plugin_context_error + unit" where
  "require_capability capability c =
     try_r (ensure_available c) (\<lambda>_.
     let capability_value = PluginCapability capability
     in if capability_value \<notin> pc_declared c then
          Inl (CapabilityNotDeclared (pc_plugin_id c) capability)
        else if capability_value \<notin> pc_granted c then
          Inl (CapabilityNotGranted (pc_plugin_id c) capability)
        else Inr ())"

(* crates/ramag-app/src/plugin_lifecycle.rs:144-153 PluginContext::settings_snapshot *)
definition context_settings :: "plugin_context \<Rightarrow> plugin_context_error + plugin_settings_snapshot" where
  "context_settings c =
     try_r (require_capability ''storage.plugin'' c) (\<lambda>_.
     ok_or (pc_settings c) (SettingsUnavailable (pc_plugin_id c)))"

(* crates/ramag-app/src/plugin_lifecycle.rs:156-165 PluginContext::secret_snapshot *)
definition context_secrets :: "plugin_context \<Rightarrow> plugin_context_error + plugin_secret_snapshot" where
  "context_secrets c =
     try_r (require_capability ''storage.plugin'' c) (\<lambda>_.
     ok_or (pc_secrets c) (SecretsUnavailable (pc_plugin_id c)))"

(* crates/ramag-app/src/plugin_lifecycle.rs:168-186 PluginContext::start_task *)
definition context_start_task ::
  "string \<Rightarrow> plugin_context \<Rightarrow> plugin_context_error + (plugin_task_handle \<times> plugin_context)" where
  "context_start_task name c =
     try_r (require_capability ''task.scoped'' c) (\<lambda>_.
     if context_state c = ShuttingDown then Inl (TaskUnavailable (pc_plugin_id c) NotAccepting)
     else
       try_r (map_err (\<lambda>source. TaskUnavailable (pc_plugin_id c) source) (task_start name (pc_tasks c)))
         (\<lambda>(handle, w). Inr (handle, c\<lparr>pc_tasks := w\<rparr>)))"

(* crates/ramag-app/src/plugin_lifecycle.rs:189-196 PluginContext::install_snapshots *)
definition install_snapshots ::
  "plugin_settings_snapshot \<Rightarrow> plugin_secret_snapshot \<Rightarrow> plugin_context \<Rightarrow> plugin_context" where
  "install_snapshots settings secrets c = c\<lparr>pc_settings := Some settings, pc_secrets := Some secrets\<rparr>"

(* crates/ramag-app/src/plugin_lifecycle.rs:198-203 PluginContext::transition *)
definition context_transition ::
  "plugin_state \<Rightarrow> plugin_state \<Rightarrow> plugin_context \<Rightarrow> bool \<times> plugin_context" where
  "context_transition fr to c =
     (if pc_state c = state_raw fr then (True, c\<lparr>pc_state := state_raw to\<rparr>) else (False, c))"

(* crates/ramag-app/src/plugin_lifecycle.rs:212-214 PluginContext::stop_tasks *)
definition stop_tasks :: "plugin_context \<Rightarrow> plugin_context" where
  "stop_tasks c = c\<lparr>pc_tasks := cancel_all (pc_tasks c)\<rparr>"

(* crates/ramag-app/src/plugin_lifecycle.rs:205-210 PluginContext::mark_unloaded *)
definition mark_unloaded :: "plugin_context \<Rightarrow> plugin_context" where
  "mark_unloaded c = (stop_tasks c)\<lparr>pc_state := state_raw Unloaded\<rparr>"

section \<open>What a plugin may do with its context\<close>

text \<open>The public methods that change a context, or a task handle obtained from it.\<close>

datatype context_op = CtxStart string | CtxDrop nat | CtxRequestCancel nat

fun context_step :: "context_op \<Rightarrow> plugin_context \<Rightarrow> plugin_context" where
  "context_step (CtxStart name) c =
     (case context_start_task name c of Inl _ \<Rightarrow> c | Inr (_, c') \<Rightarrow> c')"
| "context_step (CtxDrop i) c = c\<lparr>pc_tasks := task_step (OpDrop i) (pc_tasks c)\<rparr>"
| "context_step (CtxRequestCancel i) c = c\<lparr>pc_tasks := task_step (OpRequestCancel i) (pc_tasks c)\<rparr>"

text \<open>
  A static plugin: its manifest and tools, and callbacks.  A callback is code of the plugin, a
  parameter: its result and the calls it makes on its context, both depending on the context it is
  given.
\<close>

(* crates/ramag-app/src/plugin_lifecycle.rs:338-379 StaticPlugin *)
record static_plugin =
  sp_descriptor :: plugin_descriptor
  sp_tools :: "tool_meta list"
  sp_catalog_entries :: "plugin_catalog_entry list"
  sp_initialize :: "plugin_context \<Rightarrow> (plugin_operation_error + unit) \<times> context_op list"
  sp_shutdown :: "plugin_context \<Rightarrow> (plugin_operation_error + unit) \<times> context_op list"
  sp_execute :: "string \<Rightarrow> string \<Rightarrow> plugin_context \<Rightarrow> (plugin_operation_error + unit) \<times> context_op list"

(* crates/ramag-app/src/plugin_lifecycle.rs:348-354 StaticPlugin::catalog_entries *)
definition default_catalog_entries :: "plugin_descriptor \<Rightarrow> plugin_catalog_entry list" where
  "default_catalog_entries d = map (desktop_only d) (entry_descriptors d)"

(* crates/ramag-app/src/plugin_lifecycle.rs:357-361 StaticPlugin::initialize *)
definition default_initialize ::
  "plugin_context \<Rightarrow> (plugin_operation_error + unit) \<times> context_op list" where
  "default_initialize c =
     (map_err (\<lambda>e. operation_error_new (display_context_error e)) (ensure_available c), [])"

(* crates/ramag-app/src/plugin_lifecycle.rs:364-368 StaticPlugin::shutdown *)
definition default_shutdown ::
  "plugin_context \<Rightarrow> (plugin_operation_error + unit) \<times> context_op list" where
  "default_shutdown c =
     (map_err (\<lambda>e. operation_error_new (display_context_error e)) (ensure_available c), [])"

(* crates/ramag-app/src/plugin_lifecycle.rs:371-378 StaticPlugin::execute *)
definition default_execute ::
  "string \<Rightarrow> string \<Rightarrow> plugin_context \<Rightarrow> (plugin_operation_error + unit) \<times> context_op list" where
  "default_execute entry_id input c =
     (Inl (operation_error_new ((utf8 [0x63D2, 0x4EF6, 0x672A, 0x63D0, 0x4F9B, 0x5165, 0x53E3, 0x6267, 0x884C, 0x9002, 0x914D]))), [])"

(* crates/ramag-app/src/plugin_lifecycle.rs:388-409 StaticPluginAdapter *)
definition adapter_new :: "plugin_descriptor \<Rightarrow> tool_meta \<Rightarrow> static_plugin" where
  "adapter_new d tool =
     \<lparr>sp_descriptor = d, sp_tools = [tool], sp_catalog_entries = default_catalog_entries d,
      sp_initialize = default_initialize, sp_shutdown = default_shutdown,
      sp_execute = default_execute\<rparr>"

(* crates/ramag-app/src/plugin_lifecycle.rs:392-398 StaticPluginAdapter::from_tool *)
definition adapter_from_tool :: "tool_meta \<Rightarrow> plugin_registration_error + static_plugin" where
  "adapter_from_tool meta =
     try_r (plugin_id_new (tm_id meta)) (\<lambda>plugin_id.
     Inr (adapter_new
       (with_description (tm_description meta) (descriptor_new plugin_id (tm_name meta) (tm_id meta)))
       meta))"

end
