(* ===== verification/Domain_Error.thy ===== *)
theory Domain_Error
  imports Rust_Text
begin

text \<open>
  The error type of the domain layer (\<open>crates/ramag-domain/src/error.rs\<close>): the structured errors
  of the connectors, the sum \<open>DomainError\<close>, its messages and the texts shown to the user.
\<close>

section \<open>Connector errors\<close>

(* crates/ramag-domain/src/error.rs:10-26 ObjectStorageErrorCategory *)
datatype object_storage_error_category =
  OsInvalidConfig | OsInvalidCredentials | OsPermissionDenied | OsClockSkew | OsNetwork | OsTls
  | OsTimeout | OsRateLimited | OsNotFound | OsConflict | OsArchived | OsCancelled
  | OsProvider | OsCorruptResponse

(* crates/ramag-domain/src/error.rs:28-41 KafkaErrorCategory *)
datatype kafka_error_category =
  KfInvalidConfig | KfAuthentication | KfTls | KfTimeout | KfPermissionDenied | KfNotFound
  | KfUnsupported | KfCancelled | KfNetwork | KfProtocol | KfUnknown

(* crates/ramag-domain/src/error.rs:74-81 KafkaError *)
record kafka_error =
  ke_category :: kafka_error_category
  ke_safe_message :: string
  ke_retryable :: bool
  ke_operation :: string

(* crates/ramag-domain/src/error.rs:84-95 KafkaError::new *)
definition kafka_error_new :: "kafka_error_category \<Rightarrow> string \<Rightarrow> string \<Rightarrow> kafka_error" where
  "kafka_error_new category operation safe_message =
     \<lparr>ke_category = category, ke_safe_message = safe_message, ke_retryable = False,
      ke_operation = operation\<rparr>"

(* crates/ramag-domain/src/error.rs:97-100 KafkaError::retryable *)
definition kafka_retryable :: "bool \<Rightarrow> kafka_error \<Rightarrow> kafka_error" where
  "kafka_retryable b e = e\<lparr>ke_retryable := b\<rparr>"

(* crates/ramag-domain/src/error.rs:102-104 KafkaError::user_message *)
definition kafka_user_message :: "kafka_error \<Rightarrow> string" where
  "kafka_user_message e = ke_safe_message e"

(* crates/ramag-domain/src/error.rs:43-56 MqttErrorCategory *)
datatype mqtt_error_category =
  MqInvalidConfig | MqAuthentication | MqTls | MqTimeout | MqPermissionDenied | MqNotFound
  | MqUnsupported | MqCancelled | MqNetwork | MqProtocol | MqUnknown

(* crates/ramag-domain/src/error.rs:108-115 MqttError *)
record mqtt_error =
  me_category :: mqtt_error_category
  me_safe_message :: string
  me_retryable :: bool
  me_operation :: string

(* crates/ramag-domain/src/error.rs:118-129 MqttError::new *)
definition mqtt_error_new :: "mqtt_error_category \<Rightarrow> string \<Rightarrow> string \<Rightarrow> mqtt_error" where
  "mqtt_error_new category operation safe_message =
     \<lparr>me_category = category, me_safe_message = safe_message, me_retryable = False,
      me_operation = operation\<rparr>"

(* crates/ramag-domain/src/error.rs:131-134 MqttError::retryable *)
definition mqtt_retryable :: "bool \<Rightarrow> mqtt_error \<Rightarrow> mqtt_error" where
  "mqtt_retryable b e = e\<lparr>me_retryable := b\<rparr>"

(* crates/ramag-domain/src/error.rs:136-138 MqttError::user_message *)
definition mqtt_user_message :: "mqtt_error \<Rightarrow> string" where
  "mqtt_user_message e = me_safe_message e"

(* crates/ramag-domain/src/error.rs:58-71 ContainerErrorCategory *)
datatype container_error_category =
  CtInvalidConfig | CtAuthentication | CtTls | CtTimeout | CtPermissionDenied | CtNotFound
  | CtUnsupported | CtCancelled | CtNetwork | CtProtocol | CtUnknown

(* crates/ramag-domain/src/error.rs:142-149 ContainerError *)
record container_error =
  ne_category :: container_error_category
  ne_safe_message :: string
  ne_retryable :: bool
  ne_operation :: string

(* crates/ramag-domain/src/error.rs:152-163 ContainerError::new *)
definition container_error_new :: "container_error_category \<Rightarrow> string \<Rightarrow> string \<Rightarrow> container_error" where
  "container_error_new category operation safe_message =
     \<lparr>ne_category = category, ne_safe_message = safe_message, ne_retryable = False,
      ne_operation = operation\<rparr>"

(* crates/ramag-domain/src/error.rs:165-168 ContainerError::retryable *)
definition container_retryable :: "bool \<Rightarrow> container_error \<Rightarrow> container_error" where
  "container_retryable b e = e\<lparr>ne_retryable := b\<rparr>"

(* crates/ramag-domain/src/error.rs:170-172 ContainerError::user_message *)
definition container_user_message :: "container_error \<Rightarrow> string" where
  "container_user_message e = ne_safe_message e"

(* crates/ramag-domain/src/error.rs:176-185 ObjectStorageError *)
record object_storage_error =
  oe_category :: object_storage_error_category
  oe_safe_message :: string
  oe_provider_code :: "string option"
  oe_request_id :: "string option"
  oe_retryable :: bool
  oe_operation :: string

(* crates/ramag-domain/src/error.rs:188-201 ObjectStorageError::new *)
definition object_storage_error_new ::
  "object_storage_error_category \<Rightarrow> string \<Rightarrow> string \<Rightarrow> object_storage_error" where
  "object_storage_error_new category operation safe_message =
     \<lparr>oe_category = category, oe_safe_message = safe_message, oe_provider_code = None,
      oe_request_id = None, oe_retryable = False, oe_operation = operation\<rparr>"

(* crates/ramag-domain/src/error.rs:203-211 ObjectStorageError::with_provider_details *)
definition with_provider_details ::
  "string option \<Rightarrow> string option \<Rightarrow> object_storage_error \<Rightarrow> object_storage_error" where
  "with_provider_details code request_id e =
     e\<lparr>oe_provider_code := code, oe_request_id := request_id\<rparr>"

(* crates/ramag-domain/src/error.rs:213-216 ObjectStorageError::retryable *)
definition object_storage_retryable :: "bool \<Rightarrow> object_storage_error \<Rightarrow> object_storage_error" where
  "object_storage_retryable b e = e\<lparr>oe_retryable := b\<rparr>"

(* crates/ramag-domain/src/error.rs:218-227 ObjectStorageError::user_message *)
definition object_storage_user_message :: "object_storage_error \<Rightarrow> string" where
  "object_storage_user_message e =
     oe_safe_message e
     @ (case oe_provider_code e of None \<Rightarrow> [] | Some code \<Rightarrow> (utf8 [0xFF08, 0x670D, 0x52A1, 0x5546, 0x9519, 0x8BEF, 0x7801, 0xFF1A]) @ code @ (utf8 [0xFF09]))
     @ (case oe_request_id e of None \<Rightarrow> [] | Some request_id \<Rightarrow> (utf8 [0xFF08] @ ''RequestId'' @ utf8 [0xFF1A]) @ request_id @ (utf8 [0xFF09]))"

section \<open>The sum\<close>

(* crates/ramag-domain/src/error.rs:8-8 READ_ONLY_MESSAGE *)
definition READ_ONLY_MESSAGE :: string where
  "READ_ONLY_MESSAGE = (utf8 [0x751F, 0x4EA7, 0x6A21, 0x5F0F, 0x4E0B, 0x65E0, 0x6CD5, 0x6267, 0x884C, 0x5199, 0x64CD, 0x4F5C])"

(* crates/ramag-domain/src/error.rs:232-273 DomainError *)
datatype domain_error =
    DeInvalidConfig string
  | DeConnectionFailed string
  | DeCancelled string
  | DeQueryFailed string
  | DeStorage string
  | DeNotFound string
  | DeObjectStorage object_storage_error
  | DeKafka kafka_error
  | DeMqtt mqtt_error
  | DeContainer container_error
  | DeNotImplemented string
  | DeForbidden string
  | DeOther string

(* crates/ramag-domain/src/error.rs:277-293 DomainError::message *)
fun domain_message :: "domain_error \<Rightarrow> string" where
  "domain_message (DeInvalidConfig m) = m"
| "domain_message (DeConnectionFailed m) = m"
| "domain_message (DeCancelled m) = m"
| "domain_message (DeQueryFailed m) = m"
| "domain_message (DeStorage m) = m"
| "domain_message (DeNotFound m) = m"
| "domain_message (DeNotImplemented m) = m"
| "domain_message (DeForbidden m) = m"
| "domain_message (DeOther m) = m"
| "domain_message (DeObjectStorage e) = oe_safe_message e"
| "domain_message (DeKafka e) = ke_safe_message e"
| "domain_message (DeMqtt e) = me_safe_message e"
| "domain_message (DeContainer e) = ne_safe_message e"

(* crates/ramag-domain/src/error.rs:232-273 DomainError *)
fun display_domain_error :: "domain_error \<Rightarrow> string" where
  "display_domain_error (DeInvalidConfig m) = (utf8 [0x914D, 0x7F6E, 0x65E0, 0x6548] @ '': '') @ m"
| "display_domain_error (DeConnectionFailed m) = (utf8 [0x8FDE, 0x63A5, 0x5931, 0x8D25] @ '': '') @ m"
| "display_domain_error (DeCancelled m) = (utf8 [0x64CD, 0x4F5C, 0x5DF2, 0x53D6, 0x6D88] @ '': '') @ m"
| "display_domain_error (DeQueryFailed m) = (utf8 [0x67E5, 0x8BE2, 0x6267, 0x884C, 0x5931, 0x8D25] @ '': '') @ m"
| "display_domain_error (DeStorage m) = (utf8 [0x5B58, 0x50A8, 0x9519, 0x8BEF] @ '': '') @ m"
| "display_domain_error (DeNotFound m) = (utf8 [0x672A, 0x627E, 0x5230] @ '': '') @ m"
| "display_domain_error (DeObjectStorage e) = (utf8 [0x5BF9, 0x8C61, 0x5B58, 0x50A8, 0x9519, 0x8BEF] @ '': '') @ oe_safe_message e"
| "display_domain_error (DeKafka e) = (''Kafka '' @ utf8 [0x9519, 0x8BEF] @ '': '') @ ke_safe_message e"
| "display_domain_error (DeMqtt e) = (''MQTT '' @ utf8 [0x9519, 0x8BEF] @ '': '') @ me_safe_message e"
| "display_domain_error (DeContainer e) = (utf8 [0x5BB9, 0x5668, 0x7BA1, 0x7406, 0x9519, 0x8BEF] @ '': '') @ ne_safe_message e"
| "display_domain_error (DeNotImplemented m) = (utf8 [0x529F, 0x80FD, 0x5C1A, 0x672A, 0x5B9E, 0x73B0] @ '': '') @ m"
| "display_domain_error (DeForbidden m) = m"
| "display_domain_error (DeOther m) = (utf8 [0x672A, 0x77E5, 0x9519, 0x8BEF] @ '': '') @ m"

(* crates/ramag-domain/src/error.rs:295-303 DomainError::user_message *)
fun domain_user_message :: "domain_error \<Rightarrow> string" where
  "domain_user_message (DeObjectStorage e) = object_storage_user_message e"
| "domain_user_message (DeKafka e) = kafka_user_message e"
| "domain_user_message (DeMqtt e) = mqtt_user_message e"
| "domain_user_message (DeContainer e) = container_user_message e"
| "domain_user_message other = domain_message other"

(* crates/ramag-domain/src/error.rs:306-311 DomainError::write_hint *)
fun write_hint :: "domain_error \<Rightarrow> string \<Rightarrow> string" where
  "write_hint (DeForbidden m) pfx = m"
| "write_hint other pfx = pfx @ (utf8 [0xFF1A]) @ display_domain_error other"

end
