(* ===== verification/Preference_Storage.thy ===== *)
theory Preference_Storage
  imports Domain_Error Btree_Map
begin

text \<open>
  The storage interface of the domain layer as far as the plugin stores use it (the trait
  \<open>Storage\<close>, \<open>crates/ramag-domain/src/traits/storage.rs\<close>) and the preference repository that
  implements it on a redb table (\<open>crates/ramag-infra-storage/src/repos/prefs_repo.rs\<close>).  redb
  itself is third-party code: the outcome of each of its calls is read from a script in the
  state (\<open>None\<close> is success, \<open>Some e\<close> a failure with text \<open>e\<close>; an exhausted script is success), and
  a write transaction takes effect when its commit succeeds.  \<open>preference_storage\<close> is the contract
  the stores rely on; the repository is proved to meet it.
\<close>

section \<open>The trait\<close>

(* crates/ramag-domain/src/traits/storage.rs:228-240 Storage *)
record 's storage =
  get_preference :: "string \<Rightarrow> 's \<Rightarrow> (domain_error + string option) \<times> 's"
  set_preference :: "string \<Rightarrow> string \<Rightarrow> 's \<Rightarrow> (domain_error + unit) \<times> 's"
  seal :: "string \<Rightarrow> 's \<Rightarrow> (domain_error + string) \<times> 's"
  unseal :: "string \<Rightarrow> 's \<Rightarrow> (domain_error + string) \<times> 's"

text \<open>\<open>view s\<close> is the key-value content a state stands for.\<close>

locale preference_storage =
  fixes st :: "'s storage"
    and view :: "'s \<Rightarrow> string \<Rightarrow> string option"
  assumes get_ok: "get_preference st k s = (Inr v, s') \<Longrightarrow> v = view s k"
    and get_view: "get_preference st k s = (g, s') \<Longrightarrow> view s' = view s"
    and set_ok: "set_preference st k w s = (Inr (), s') \<Longrightarrow> view s' = (view s)(k \<mapsto> w)"
    and set_err: "set_preference st k w s = (Inl e, s') \<Longrightarrow> view s' = view s"
    and seal_view: "seal st b s = (r, s') \<Longrightarrow> view s' = view s"
    and unseal_view: "unseal st b s = (r, s') \<Longrightarrow> view s' = view s"
begin

lemma set_get:
  assumes "set_preference st k v s = (Inr (), s1)" and "get_preference st j s1 = (Inr w, s2)"
  shows "w = (if j = k then Some v else view s j)"
  using get_ok [OF assms(2)] set_ok [OF assms(1)] by simp

lemma set_cases:
  assumes "set_preference st k v s = (r, s')"
  shows "view s' = view s \<or> r = Inr () \<and> view s' = (view s)(k \<mapsto> v)"
  using assms by (cases r) (auto dest: set_ok set_err)

end

section \<open>The preference repository\<close>

(* crates/ramag-infra-storage/src/repos/prefs_repo.rs:13-14 PREFERENCES_TABLE *)
record preference_db =
  db_table :: "string \<Rightarrow> string option"
  db_script :: "string option list"

(* crates/ramag-infra-storage/src/repos/prefs_repo.rs:11-11 MAX_PREFERENCE_BYTES *)
definition MAX_PREFERENCE_BYTES :: nat where
  [limits]: "MAX_PREFERENCE_BYTES = 16 * 1024 * 1024"

(* crates/ramag-infra-storage/src/repos/bounded_json.rs:55-63 ensure_len *)
definition ensure_len :: "nat \<Rightarrow> nat \<Rightarrow> string \<Rightarrow> domain_error + unit" where
  "ensure_len len limit label =
     (if limit < len then
        Inl (DeStorage (label @ (utf8 [0x8D85, 0x8FC7] @ '' '') @ dec (limit div 1024 div 1024) @ ('' MiB '' @ utf8 [0x5B89, 0x5168, 0x4E0A, 0x9650])))
      else Inr ())"

text \<open>One redb call, with the text the code puts before redb's own error text.\<close>

definition redb_call :: "string \<Rightarrow> preference_db \<Rightarrow> (domain_error + unit) \<times> preference_db" where
  "redb_call label db =
     (case db_script db of
        [] \<Rightarrow> (Inr (), db)
      | f # fs \<Rightarrow>
          ((case f of None \<Rightarrow> Inr () | Some e \<Rightarrow> Inl (DeStorage (label @ e))), db\<lparr>db_script := fs\<rparr>))"

(* crates/ramag-infra-storage/src/repos/prefs_repo.rs:23-42 get *)
definition prefs_get ::
  "string \<Rightarrow> preference_db \<Rightarrow> (domain_error + string option) \<times> preference_db" where
  "prefs_get key =
     bind_s (redb_call ((utf8 [0x542F, 0x52A8, 0x8BFB, 0x4E8B, 0x52A1, 0x5931, 0x8D25, 0xFF1A]))) (\<lambda>_.
     bind_s (redb_call ((utf8 [0x6253, 0x5F00] @ '' preferences '' @ utf8 [0x8868, 0x5931, 0x8D25, 0xFF1A]))) (\<lambda>_.
     bind_s (redb_call ((utf8 [0x8BFB, 0x504F, 0x597D, 0x5931, 0x8D25, 0xFF1A]))) (\<lambda>_ db.
       case db_table db key of
         None \<Rightarrow> (Inr None, db)
       | Some v \<Rightarrow>
           bind_s (lift_r (ensure_len (length v) MAX_PREFERENCE_BYTES ((utf8 [0x504F, 0x597D] @ '' '') @ key)))
             (\<lambda>_ db. (Inr (Some v), db)) db)))"

(* crates/ramag-infra-storage/src/repos/prefs_repo.rs:44-61 set *)
definition prefs_set ::
  "string \<Rightarrow> string \<Rightarrow> preference_db \<Rightarrow> (domain_error + unit) \<times> preference_db" where
  "prefs_set key v =
     bind_s (lift_r (ensure_len (length v) MAX_PREFERENCE_BYTES ((utf8 [0x504F, 0x597D] @ '' '') @ key))) (\<lambda>_.
     bind_s (redb_call ((utf8 [0x542F, 0x52A8, 0x5199, 0x4E8B, 0x52A1, 0x5931, 0x8D25, 0xFF1A]))) (\<lambda>_.
     bind_s (redb_call ((utf8 [0x6253, 0x5F00] @ '' preferences '' @ utf8 [0x8868, 0x5931, 0x8D25, 0xFF1A]))) (\<lambda>_.
     bind_s (redb_call ((utf8 [0x5199, 0x504F, 0x597D, 0x5931, 0x8D25, 0xFF1A]))) (\<lambda>_.
     bind_s (redb_call ((utf8 [0x63D0, 0x4EA4, 0x4E8B, 0x52A1, 0x5931, 0x8D25, 0xFF1A]))) (\<lambda>_ db.
       (Inr (), db\<lparr>db_table := (db_table db)(key \<mapsto> v)\<rparr>))))))"

(* crates/ramag-infra-storage/src/repos/prefs_repo.rs:63-79 delete *)
definition prefs_delete :: "string \<Rightarrow> preference_db \<Rightarrow> (domain_error + unit) \<times> preference_db" where
  "prefs_delete key =
     bind_s (redb_call ((utf8 [0x542F, 0x52A8, 0x5199, 0x4E8B, 0x52A1, 0x5931, 0x8D25, 0xFF1A]))) (\<lambda>_.
     bind_s (redb_call ((utf8 [0x6253, 0x5F00] @ '' preferences '' @ utf8 [0x8868, 0x5931, 0x8D25, 0xFF1A]))) (\<lambda>_.
     bind_s (redb_call ((utf8 [0x5220, 0x9664, 0x504F, 0x597D, 0x5931, 0x8D25, 0xFF1A]))) (\<lambda>_.
     bind_s (redb_call ((utf8 [0x63D0, 0x4EA4, 0x4E8B, 0x52A1, 0x5931, 0x8D25, 0xFF1A]))) (\<lambda>_ db.
       (Inr (), db\<lparr>db_table := (db_table db)(key := None)\<rparr>)))))"

text \<open>The storage object: the preference calls go to the repository, sealing to the cipher, which
  is third-party code (AES-GCM) and a parameter.\<close>

(* crates/ramag-infra-storage/src/storage_impl.rs:266-321 RedbStorage *)
definition redb_storage ::
  "(string \<Rightarrow> domain_error + string) \<Rightarrow> (string \<Rightarrow> domain_error + string) \<Rightarrow>
     preference_db storage" where
  "redb_storage encrypt_bytes decrypt_bytes =
     \<lparr>get_preference = prefs_get, set_preference = prefs_set,
      seal = (\<lambda>plain. lift_r (encrypt_bytes plain)),
      unseal = (\<lambda>blob. lift_r (decrypt_bytes blob))\<rparr>"

lemma redb_call_table: "redb_call label db = (r, db') \<Longrightarrow> db_table db' = db_table db"
  by (auto simp: redb_call_def split: list.splits)

lemma redb_call_ok [simp]: "db_script db = [] \<Longrightarrow> redb_call label db = (Inr (), db)"
  by (simp add: redb_call_def)

lemma redb_call_fail [simp]:
  "db_script db = f # fs \<Longrightarrow>
     redb_call label db =
       ((case f of None \<Rightarrow> Inr () | Some e \<Rightarrow> Inl (DeStorage (label @ e))), db\<lparr>db_script := fs\<rparr>)"
  by (simp add: redb_call_def)

lemma ensure_len_ok [simp]: "ensure_len n m l = Inr u \<longleftrightarrow> n \<le> m"
  by (auto simp: ensure_len_def)

lemma prefs_get_table: "prefs_get k db = (r, db') \<Longrightarrow> db_table db' = db_table db"
  by (cases r)
    (auto simp: prefs_get_def bind_s_ok bind_s_err dest!: redb_call_table split: option.splits)

lemma prefs_get_ok: "prefs_get k db = (Inr v, db') \<Longrightarrow> v = db_table db k"
  by (auto simp: prefs_get_def bind_s_ok dest!: redb_call_table split: option.splits)

lemma prefs_set_ok: "prefs_set k v db = (Inr (), db') \<Longrightarrow> db_table db' = (db_table db)(k \<mapsto> v)"
  by (auto simp: prefs_set_def bind_s_ok dest!: redb_call_table)

lemma prefs_set_err: "prefs_set k v db = (Inl e, db') \<Longrightarrow> db_table db' = db_table db"
  by (auto simp: prefs_set_def bind_s_err dest!: redb_call_table)

interpretation redb: preference_storage "redb_storage enc decr" db_table for enc decr
  by unfold_locales
    (auto simp: redb_storage_def dest: prefs_get_table prefs_get_ok prefs_set_ok prefs_set_err)

text \<open>Without failures of redb, a bounded value can be written and every bounded value read.\<close>

lemma prefs_set_succeeds:
  "db_script db = [] \<Longrightarrow> length v \<le> MAX_PREFERENCE_BYTES \<Longrightarrow>
     prefs_set k v db = (Inr (), db\<lparr>db_table := (db_table db)(k \<mapsto> v)\<rparr>)"
  by (simp add: prefs_set_def bind_s_def lift_r_def ensure_len_def)

lemma prefs_get_succeeds:
  "db_script db = [] \<Longrightarrow> (\<And>v. db_table db k = Some v \<Longrightarrow> length v \<le> MAX_PREFERENCE_BYTES) \<Longrightarrow>
     prefs_get k db = (Inr (db_table db k), db)"
  by (auto simp: prefs_get_def bind_s_def lift_r_def ensure_len_def split: option.split)

text \<open>A read uses three calls of redb, a write four.\<close>

lemma prefs_get_script:
  assumes "db_script db = None # None # None # rest"
    and "\<And>v. db_table db k = Some v \<Longrightarrow> length v \<le> MAX_PREFERENCE_BYTES"
  shows "prefs_get k db = (Inr (db_table db k), db\<lparr>db_script := rest\<rparr>)"
  using assms by (auto simp: prefs_get_def bind_s_def lift_r_def ensure_len_def split: option.split)

lemma prefs_set_script:
  assumes "db_script db = None # None # None # None # rest" and "length v \<le> MAX_PREFERENCE_BYTES"
  shows "prefs_set k v db = (Inr (), db\<lparr>db_table := (db_table db)(k \<mapsto> v), db_script := rest\<rparr>)"
  using assms by (simp add: prefs_set_def bind_s_def lift_r_def ensure_len_def)

lemma prefs_set_fault:
  assumes "db_script db = Some e # rest" and "length v \<le> MAX_PREFERENCE_BYTES"
  shows "\<exists>d. prefs_set k v db = (Inl d, db\<lparr>db_script := rest\<rparr>)"
  using assms by (simp add: prefs_set_def bind_s_def lift_r_def ensure_len_def)

end
