(* ===== verification/Backed_Record.thy ===== *)
theory Backed_Record
  imports Preference_Storage
begin

text \<open>
  The load and save protocol that the settings store and the secret store spell out identically:
  a primary record and a backup record under two preference keys; a save first copies the current
  primary record to the backup key and then replaces the primary record; a load falls back to the
  backup when the primary record is missing or cannot be decoded.  \<open>backed_record\<close> proves the
  protocol once, on any storage that meets \<open>preference_storage\<close>.
\<close>

definition read_record ::
  "'s storage \<Rightarrow> (domain_error \<Rightarrow> 'e) \<Rightarrow> string \<Rightarrow> 's \<Rightarrow> ('e + string option) \<times> 's" where
  "read_record st storage_error key = map_err_s storage_error (get_preference st key)"

definition write_record ::
  "'s storage \<Rightarrow> (domain_error \<Rightarrow> 'e) \<Rightarrow> string \<Rightarrow> string \<Rightarrow> 's \<Rightarrow> ('e + unit) \<times> 's" where
  "write_record st storage_error key v = map_err_s storage_error (set_preference st key v)"

definition save_with_backup ::
  "'s storage \<Rightarrow> (domain_error \<Rightarrow> 'e) \<Rightarrow> (nat \<Rightarrow> 'e + unit) \<Rightarrow> string \<Rightarrow> string \<Rightarrow>
     string \<Rightarrow> 's \<Rightarrow> ('e + unit) \<times> 's" where
  "save_with_backup st storage_error ensure_size primary_key backup_key encoded =
     bind_s (read_record st storage_error primary_key) (\<lambda>current.
     bind_s (case current of
         None \<Rightarrow> lift_r (Inr ())
       | Some current \<Rightarrow>
           bind_s (lift_r (ensure_size (length current))) (\<lambda>_.
           write_record st storage_error backup_key current)) (\<lambda>_.
     write_record st storage_error primary_key encoded))"

text \<open>The result pairs the decoded record with whether it was recovered from the backup.\<close>

definition load_with_backup ::
  "'s storage \<Rightarrow> (domain_error \<Rightarrow> 'e) \<Rightarrow> (string \<Rightarrow> 's \<Rightarrow> ('e + 'r) \<times> 's) \<Rightarrow> ('e \<Rightarrow> 'e \<Rightarrow> 'e) \<Rightarrow>
     'e + 'r \<Rightarrow> string \<Rightarrow> string \<Rightarrow> 's \<Rightarrow> ('e + 'r \<times> bool) \<times> 's" where
  "load_with_backup st storage_error decode recovery fresh primary_key backup_key =
     bind_s (read_record st storage_error primary_key) (\<lambda>primary.
     case primary of
       Some raw \<Rightarrow> (\<lambda>s.
         case decode raw s of
           (Inr snapshot, s1) \<Rightarrow> (Inr (snapshot, False), s1)
         | (Inl primary_error, s1) \<Rightarrow>
             bind_s (read_record st storage_error backup_key) (\<lambda>backup s2.
               case backup of
                 None \<Rightarrow> (Inl primary_error, s2)
               | Some b \<Rightarrow>
                   (case decode b s2 of
                      (Inr snapshot, s3) \<Rightarrow> (Inr (snapshot, True), s3)
                    | (Inl backup_error, s3) \<Rightarrow> (Inl (recovery primary_error backup_error), s3))) s1)
     | None \<Rightarrow>
         bind_s (read_record st storage_error backup_key) (\<lambda>backup.
           case backup of
             Some b \<Rightarrow> bind_s (decode b) (\<lambda>snapshot. lift_r (Inr (snapshot, True)))
           | None \<Rightarrow> lift_r (map_ok (\<lambda>snapshot. (snapshot, False)) fresh)))"

locale backed_record = preference_storage st view
  for st :: "'s storage" and view :: "'s \<Rightarrow> string \<Rightarrow> string option" +
  fixes storage_error :: "domain_error \<Rightarrow> 'e"
    and ensure_size :: "nat \<Rightarrow> 'e + unit"
    and decode :: "string \<Rightarrow> 's \<Rightarrow> ('e + 'r) \<times> 's"
    and recovery :: "'e \<Rightarrow> 'e \<Rightarrow> 'e"
    and fresh :: "'e + 'r"
    and primary_key backup_key :: string
  assumes keys_differ: "primary_key \<noteq> backup_key"
    and decode_view: "decode raw s = (r, s') \<Longrightarrow> view s' = view s"
begin

abbreviation save :: "string \<Rightarrow> 's \<Rightarrow> ('e + unit) \<times> 's" where
  "save \<equiv> save_with_backup st storage_error ensure_size primary_key backup_key"

abbreviation load :: "'s \<Rightarrow> ('e + 'r \<times> bool) \<times> 's" where
  "load \<equiv> load_with_backup st storage_error decode recovery fresh primary_key backup_key"

text \<open>A save that succeeds replaces the primary record and keeps the previous one as the backup.\<close>

lemma save_success:
  assumes "save encoded s = (Inr (), s')"
  shows "view s' primary_key = Some encoded"
    and "view s' backup_key =
      (case view s primary_key of None \<Rightarrow> view s backup_key | Some current \<Rightarrow> Some current)"
proof -
  obtain current s1 where r: "get_preference st primary_key s = (Inr current, s1)"
    using assms by (auto simp: save_with_backup_def read_record_def bind_s_ok)
  note current = get_ok [OF r] get_view [OF r]
  show "view s' primary_key = Some encoded"
    using assms set_ok by (auto simp: save_with_backup_def write_record_def bind_s_ok)
  show "view s' backup_key =
      (case view s primary_key of None \<Rightarrow> view s backup_key | Some current \<Rightarrow> Some current)"
    using assms r current keys_differ
    by (auto simp: save_with_backup_def read_record_def write_record_def bind_s_ok bind_s_step
        dest!: set_ok split: option.splits)
qed

text \<open>A save that fails leaves the primary record; the backup is the old one or a copy of it.\<close>

lemma save_failure:
  assumes "save encoded s = (Inl e, s')"
  shows "view s' primary_key = view s primary_key
     \<and> (view s' backup_key = view s backup_key \<or> view s' backup_key = view s primary_key)"
proof -
  obtain r s1 where r: "get_preference st primary_key s = (r, s1)" by force
  note s1 = get_view [OF r]
  show ?thesis
  proof (cases r)
    case (Inl d)
    then show ?thesis
      using assms r s1 by (simp add: save_with_backup_def read_record_def bind_s_def map_err_s_def)
  next
    case (Inr current)
    then have current: "current = view s primary_key" using r get_ok by simp
    have rest: "bind_s (case current of None \<Rightarrow> lift_r (Inr ())
        | Some c \<Rightarrow> bind_s (lift_r (ensure_size (length c))) (\<lambda>_. write_record st storage_error backup_key c))
        (\<lambda>_. write_record st storage_error primary_key encoded) s1 = (Inl e, s')"
      using assms r Inr by (simp add: save_with_backup_def read_record_def bind_s_def map_err_s_def)
    show ?thesis
    proof (cases current)
      case None
      then show ?thesis
        using rest s1 by (auto simp: bind_s_err write_record_def dest!: set_err)
    next
      case (Some c)
      then show ?thesis
        using rest s1 current keys_differ
        by (auto simp: bind_s_err bind_s_ok write_record_def dest!: set_ok set_err)
    qed
  qed
qed

lemma load_primary:
  assumes "get_preference st primary_key s = (Inr (Some raw), s1)"
    and "decode raw s1 = (Inr x, s2)"
  shows "load s = (Inr (x, False), s2)"
  using assms by (simp add: load_with_backup_def read_record_def bind_s_def map_err_s_def)

lemma load_backup:
  assumes "get_preference st primary_key s = (Inr (Some raw), s1)"
    and "decode raw s1 = (Inl e, s2)"
    and "get_preference st backup_key s2 = (Inr (Some b), s3)" and "decode b s3 = (Inr x, s4)"
  shows "load s = (Inr (x, True), s4)"
  using assms by (simp add: load_with_backup_def read_record_def bind_s_def map_err_s_def)

lemma load_unrecoverable:
  assumes "get_preference st primary_key s = (Inr (Some raw), s1)"
    and "decode raw s1 = (Inl e, s2)"
    and "get_preference st backup_key s2 = (Inr (Some b), s3)" and "decode b s3 = (Inl f, s4)"
  shows "load s = (Inl (recovery e f), s4)"
  using assms by (simp add: load_with_backup_def read_record_def bind_s_def map_err_s_def)

end

end
