(* ===== verification/Settings_Store.thy ===== *)
theory Settings_Store
  imports Plugin_Settings Backed_Record
begin

text \<open>
  The persistent store of a plugin's ordinary settings
  (\<open>crates/ramag-app/src/plugin_settings_store.rs\<close>): the versioned envelope, the bounded chain of
  format migrations, and load and save with a backup record.  The JSON codec (serde_json) is a
  parameter: \<open>to_json\<close> answers \<open>None\<close> when encoding fails, \<open>from_json\<close> when parsing fails.
\<close>

section \<open>Limits and data\<close>

(* crates/ramag-app/src/plugin_settings_store.rs:14-14 CURRENT_PLUGIN_SETTINGS_FORMAT_VERSION *)
definition CURRENT_PLUGIN_SETTINGS_FORMAT_VERSION :: u16 where
  [limits]: "CURRENT_PLUGIN_SETTINGS_FORMAT_VERSION = 1"

(* crates/ramag-app/src/plugin_settings_store.rs:16-16 MAX_PLUGIN_SETTINGS_PAYLOAD_BYTES *)
definition MAX_PLUGIN_SETTINGS_PAYLOAD_BYTES :: nat where
  [limits]: "MAX_PLUGIN_SETTINGS_PAYLOAD_BYTES = 128 * 1024"

(* crates/ramag-app/src/plugin_settings_store.rs:18-18 MAX_PLUGIN_SETTINGS_MIGRATION_STEPS *)
definition MAX_PLUGIN_SETTINGS_MIGRATION_STEPS :: nat where
  [limits]: "MAX_PLUGIN_SETTINGS_MIGRATION_STEPS = 8"

(* crates/ramag-app/src/plugin_settings_store.rs:24-32 PluginSettingsMigrationRegistrationError *)
datatype migration_registration_error =
  NonConsecutiveVersions u16 u16 | DuplicateStep u16 | TooManyRegisteredSteps nat

(* crates/ramag-app/src/plugin_settings_store.rs:34-44 PluginSettingsMigrationError *)
datatype migration_error =
  MissingStep u16 | MigrationFailed u16 u16 | TooManySteps nat | TooManyValues nat

type_synonym setting_values = "(string, plugin_setting_value) bmap"

text \<open>A migration function returns \<open>None\<close> for \<open>Err(PluginSettingsMigrationFailure)\<close>.\<close>

(* crates/ramag-app/src/plugin_settings_store.rs:46-57 MigrationStep *)
record migration_step =
  ms_to_version :: u16
  ms_migrate :: "setting_values \<Rightarrow> setting_values option"

(* crates/ramag-app/src/plugin_settings_store.rs:60-63 PluginSettingsMigrator *)
record settings_migrator =
  sm_steps :: "(u16, migration_step) bmap"

(* crates/ramag-app/src/plugin_settings_store.rs:166-191 PluginSettingsStoreError *)
datatype settings_store_error =
    StStorage domain_error
  | StCorruptPayload
  | StUnsupportedFormat u16
  | StPayloadTooLarge nat nat
  | StSnapshot plugin_settings_error
  | StMigration migration_error
  | StRecoveryFailed

(* crates/ramag-app/src/plugin_settings_store.rs:194-198 PluginSettingsLoad *)
record settings_load_result =
  sl_snapshot :: plugin_settings_snapshot
  sl_recovered_from_backup :: bool

(* crates/ramag-app/src/plugin_settings_store.rs:200-204 StoredPluginSettings *)
record stored_settings =
  st_format_version :: u16
  st_values :: setting_values

(* crates/ramag-app/src/plugin_settings_store.rs:34-44 PluginSettingsMigrationError *)
fun display_migration_error :: "migration_error \<Rightarrow> string" where
  "display_migration_error (MissingStep v) = (utf8 [0x7F3A, 0x5C11, 0x4ECE, 0x63D2, 0x4EF6, 0x8BBE, 0x7F6E, 0x7248, 0x672C] @ '' '') @ dec (unat v) @ ('' '' @ utf8 [0x5F00, 0x59CB, 0x7684, 0x8FC1, 0x79FB, 0x6B65, 0x9AA4])"
| "display_migration_error (MigrationFailed a b) =
     (utf8 [0x63D2, 0x4EF6, 0x8BBE, 0x7F6E, 0x8FC1, 0x79FB] @ '' '') @ dec (unat a) @ ('' -> '') @ dec (unat b) @ ('' '' @ utf8 [0x5931, 0x8D25])"
| "display_migration_error (TooManySteps m) = (utf8 [0x63D2, 0x4EF6, 0x8BBE, 0x7F6E, 0x8FC1, 0x79FB, 0x6B65, 0x9AA4, 0x8D85, 0x8FC7] @ '' '') @ dec m @ ('' '' @ utf8 [0x9879, 0x4E0A, 0x9650])"
| "display_migration_error (TooManyValues m) = (utf8 [0x63D2, 0x4EF6, 0x8BBE, 0x7F6E, 0x8FC1, 0x79FB, 0x8F93, 0x51FA, 0x8D85, 0x8FC7] @ '' '') @ dec m @ ('' '' @ utf8 [0x4E2A, 0x952E, 0x7684, 0x4E0A, 0x9650])"

(* crates/ramag-app/src/plugin_settings_store.rs:166-191 PluginSettingsStoreError *)
fun display_settings_store_error :: "settings_store_error \<Rightarrow> string" where
  "display_settings_store_error (StStorage e) = (utf8 [0x63D2, 0x4EF6, 0x8BBE, 0x7F6E, 0x5B58, 0x50A8, 0x5931, 0x8D25, 0xFF1A]) @ display_domain_error e"
| "display_settings_store_error StCorruptPayload = (utf8 [0x63D2, 0x4EF6, 0x8BBE, 0x7F6E, 0x5305, 0x7EDC, 0x65E0, 0x6CD5, 0x89E3, 0x6790])"
| "display_settings_store_error (StUnsupportedFormat v) =
     (utf8 [0x63D2, 0x4EF6, 0x8BBE, 0x7F6E, 0x683C, 0x5F0F, 0x7248, 0x672C] @ '' '') @ dec (unat v) @ ('' '' @ utf8 [0x4E0D, 0x53D7, 0x5F53, 0x524D, 0x5BBF, 0x4E3B, 0x652F, 0x6301])"
| "display_settings_store_error (StPayloadTooLarge n m) =
     (utf8 [0x63D2, 0x4EF6, 0x8BBE, 0x7F6E, 0x5305, 0x7EDC, 0x8D85, 0x8FC7] @ '' '') @ dec m @ ('' bytes '' @ utf8 [0x4E0A, 0x9650, 0xFF08, 0x5B9E, 0x9645] @ '' '') @ dec n @ ('' bytes'' @ utf8 [0xFF09])"
| "display_settings_store_error (StSnapshot e) = (utf8 [0x63D2, 0x4EF6, 0x8BBE, 0x7F6E, 0x5FEB, 0x7167, 0x65E0, 0x6548, 0xFF1A]) @ display_settings_error e"
| "display_settings_store_error (StMigration e) = (utf8 [0x63D2, 0x4EF6, 0x8BBE, 0x7F6E, 0x8FC1, 0x79FB, 0x5931, 0x8D25, 0xFF1A]) @ display_migration_error e"
| "display_settings_store_error StRecoveryFailed = (utf8 [0x63D2, 0x4EF6, 0x4E3B, 0x8BBE, 0x7F6E, 0x548C, 0x5907, 0x4EFD, 0x8BBE, 0x7F6E, 0x5747, 0x65E0, 0x6CD5, 0x6062, 0x590D])"

section \<open>Migrations\<close>

(* crates/ramag-app/src/plugin_settings_store.rs:91-130 PluginSettingsMigrator::register *)
definition register_migration ::
  "u16 \<Rightarrow> u16 \<Rightarrow> (setting_values \<Rightarrow> setting_values option) \<Rightarrow> settings_migrator \<Rightarrow>
     migration_registration_error + settings_migrator" where
  "register_migration from_version to_version migrate m =
     (if to_version \<noteq> sat_add from_version 1 then
        Inl (NonConsecutiveVersions from_version to_version)
      else if bm_get (sm_steps m) from_version \<noteq> None then Inl (DuplicateStep from_version)
      else if MAX_PLUGIN_SETTINGS_MIGRATION_STEPS \<le> length (sm_steps m) then
        Inl (TooManyRegisteredSteps MAX_PLUGIN_SETTINGS_MIGRATION_STEPS)
      else Inr (m\<lparr>sm_steps := bm_insert from_version
             \<lparr>ms_to_version = to_version, ms_migrate = migrate\<rparr> (sm_steps m)\<rparr>))"

text \<open>The loop of \<open>migrate\<close>; the first argument counts the iterations left.\<close>

(* crates/ramag-app/src/plugin_settings_store.rs:138-162 PluginSettingsMigrator::migrate *)
fun migrate_loop ::
  "nat \<Rightarrow> settings_migrator \<Rightarrow> u16 \<Rightarrow> setting_values \<Rightarrow> migration_error + setting_values" where
  "migrate_loop 0 m version vals = Inl (TooManySteps MAX_PLUGIN_SETTINGS_MIGRATION_STEPS)"
| "migrate_loop (Suc n) m version vals =
     (if version = CURRENT_PLUGIN_SETTINGS_FORMAT_VERSION then Inr vals
      else
        try_r (ok_or (bm_get (sm_steps m) version) (MissingStep version)) (\<lambda>step.
        try_r (ok_or (ms_migrate step vals) (MigrationFailed version (ms_to_version step))) (\<lambda>vals'.
        if MAX_PLUGIN_SETTINGS < length vals' then Inl (TooManyValues MAX_PLUGIN_SETTINGS)
        else migrate_loop n m (ms_to_version step) vals')))"

(* crates/ramag-app/src/plugin_settings_store.rs:132-163 PluginSettingsMigrator::migrate *)
definition migrate :: "settings_migrator \<Rightarrow> u16 \<Rightarrow> setting_values \<Rightarrow> migration_error + setting_values" where
  "migrate m from_version vals =
     migrate_loop MAX_PLUGIN_SETTINGS_MIGRATION_STEPS m from_version vals"

section \<open>The envelope\<close>

(* crates/ramag-app/src/plugin_settings_store.rs:330-338 ensure_payload_size *)
definition ensure_payload_size :: "nat \<Rightarrow> settings_store_error + unit" where
  "ensure_payload_size bytes =
     (if MAX_PLUGIN_SETTINGS_PAYLOAD_BYTES < bytes then
        Inl (StPayloadTooLarge bytes MAX_PLUGIN_SETTINGS_PAYLOAD_BYTES)
      else Inr ())"

(* crates/ramag-app/src/plugin_settings_store.rs:300-309 encode *)
definition encode_settings ::
  "(stored_settings \<Rightarrow> string option) \<Rightarrow> plugin_settings_snapshot \<Rightarrow> settings_store_error + string" where
  "encode_settings to_json snapshot =
     (let envelope = \<lparr>st_format_version = CURRENT_PLUGIN_SETTINGS_FORMAT_VERSION,
                      st_values = settings_namespaced_values snapshot\<rparr>
      in try_r (ok_or (to_json envelope) StCorruptPayload) (\<lambda>encoded.
         try_r (ensure_payload_size (length encoded)) (\<lambda>_. Inr encoded)))"

(* crates/ramag-app/src/plugin_settings_store.rs:311-328 decode *)
definition decode_settings ::
  "(string \<Rightarrow> stored_settings option) \<Rightarrow> plugin_descriptor \<Rightarrow> string \<Rightarrow> settings_migrator \<Rightarrow>
     settings_store_error + plugin_settings_snapshot" where
  "decode_settings from_json d raw m =
     try_r (ensure_payload_size (length raw)) (\<lambda>_.
     try_r (ok_or (from_json raw) StCorruptPayload) (\<lambda>envelope.
     if CURRENT_PLUGIN_SETTINGS_FORMAT_VERSION < st_format_version envelope then
       Inl (StUnsupportedFormat (st_format_version envelope))
     else
       try_r (map_err StMigration (migrate m (st_format_version envelope) (st_values envelope))) (\<lambda>vals.
       map_err StSnapshot (settings_from_namespaced d vals))))"

(* crates/ramag-app/src/plugin_settings_store.rs:290-298 empty_snapshot *)
definition empty_settings :: "plugin_descriptor \<Rightarrow> settings_store_error + plugin_settings_snapshot" where
  "empty_settings d = map_err StSnapshot (settings_from_namespaced d [])"

section \<open>Load and save\<close>

(* crates/ramag-app/src/plugin_settings_store.rs:348-350 primary_key_for_id *)
definition settings_primary_key :: "plugin_id \<Rightarrow> string" where
  "settings_primary_key p = ''plugin.'' @ as_str p @ ''.__snapshot.v1''"

(* crates/ramag-app/src/plugin_settings_store.rs:352-354 backup_key_for_id *)
definition settings_backup_key :: "plugin_id \<Rightarrow> string" where
  "settings_backup_key p = ''plugin.'' @ as_str p @ ''.__snapshot.backup.v1''"

(* crates/ramag-app/src/plugin_settings_store.rs:364-369 recovery_error_pair *)
definition recovery_error_pair ::
  "settings_store_error \<Rightarrow> settings_store_error \<Rightarrow> settings_store_error" where
  "recovery_error_pair primary backup = StRecoveryFailed"

(* crates/ramag-app/src/plugin_settings_store.rs:222-260 PluginSettingsStore::load *)
definition settings_load ::
  "'s storage \<Rightarrow> (string \<Rightarrow> stored_settings option) \<Rightarrow> settings_migrator \<Rightarrow> plugin_descriptor \<Rightarrow>
     's \<Rightarrow> (settings_store_error + settings_load_result) \<times> 's" where
  "settings_load st from_json m d =
     bind_s (load_with_backup st StStorage (\<lambda>raw. lift_r (decode_settings from_json d raw m))
         recovery_error_pair (empty_settings d)
         (settings_primary_key (pd_id d)) (settings_backup_key (pd_id d)))
       (\<lambda>(snapshot, recovered).
         lift_r (Inr \<lparr>sl_snapshot = snapshot, sl_recovered_from_backup = recovered\<rparr>))"

(* crates/ramag-app/src/plugin_settings_store.rs:263-280 PluginSettingsStore::save *)
definition settings_save ::
  "'s storage \<Rightarrow> (stored_settings \<Rightarrow> string option) \<Rightarrow> plugin_settings_snapshot \<Rightarrow>
     's \<Rightarrow> (settings_store_error + unit) \<times> 's" where
  "settings_save st to_json snapshot =
     bind_s (lift_r (encode_settings to_json snapshot)) (\<lambda>encoded.
     save_with_backup st StStorage ensure_payload_size
       (settings_primary_key (ss_plugin_id snapshot)) (settings_backup_key (ss_plugin_id snapshot))
       encoded)"

section \<open>The record protocol on the preference repository\<close>

interpretation settings_record: backed_record "redb_storage enc decr" db_table StStorage
  ensure_payload_size "\<lambda>raw. lift_r (decode_settings from_json d raw m)" recovery_error_pair
  "empty_settings d" "settings_primary_key (pd_id d)" "settings_backup_key (pd_id d)"
  for enc decr from_json d m
  by unfold_locales (auto simp: settings_primary_key_def settings_backup_key_def)

lemma migrate_current [simp]: "migrate m CURRENT_PLUGIN_SETTINGS_FORMAT_VERSION vals = Inr vals"
  by (simp add: migrate_def MAX_PLUGIN_SETTINGS_MIGRATION_STEPS_def eval_nat_numeral)

lemma decode_encode:
  assumes "snapshot_inv d s" and "encode_settings to_json s = Inr encoded"
    and "\<And>x str. to_json x = Some str \<Longrightarrow> from_json str = Some x"
  shows "decode_settings from_json d encoded m = Inr s"
proof -
  let ?envelope = "\<lparr>st_format_version = CURRENT_PLUGIN_SETTINGS_FORMAT_VERSION,
      st_values = settings_namespaced_values s\<rparr>"
  have "to_json ?envelope = Some encoded" and size: "ensure_payload_size (length encoded) = Inr ()"
    using assms(2) by (auto simp: encode_settings_def Let_def)
  then have "from_json encoded = Some ?envelope" using assms(3) by blast
  then show ?thesis
    using size namespaced_roundtrip [OF assms(1)] by (simp add: decode_settings_def)
qed

lemma decode_size: "decode_settings from_json d raw m = Inr s \<Longrightarrow> length raw \<le> 128 * 1024"
  by (auto simp: decode_settings_def ensure_payload_size_def limits split: if_splits)


lemma redb_get:
  assumes "db_script db = []" and "db_table db k = Some v" and "length v \<le> 128 * 1024"
  shows "get_preference (redb_storage enc decr) k db = (Inr (Some v), db)"
  using prefs_get_succeeds [of db k] assms by (simp add: redb_storage_def limits)

lemma settings_load_result:
  assumes "load_with_backup st StStorage (\<lambda>raw. lift_r (decode_settings from_json d raw m))
      recovery_error_pair (empty_settings d) (settings_primary_key (pd_id d))
      (settings_backup_key (pd_id d)) s = (r, s')"
  shows "settings_load st from_json m d s =
    (map_ok (\<lambda>(x, b). \<lparr>sl_snapshot = x, sl_recovered_from_backup = b\<rparr>) r, s')"
  using assms by (cases r) (auto simp: settings_load_def bind_s_def lift_r_def)

lemma settings_load_primary:
  assumes "db_script db = []" and "db_table db (settings_primary_key (pd_id d)) = Some raw"
    and "decode_settings from_json d raw m = Inr x"
  shows "settings_load (redb_storage enc decr) from_json m d db =
    (Inr \<lparr>sl_snapshot = x, sl_recovered_from_backup = False\<rparr>, db)"
proof -
  have get: "get_preference (redb_storage enc decr) (settings_primary_key (pd_id d)) db = (Inr (Some raw), db)"
    using assms(1,2) decode_size [OF assms(3)] by (rule redb_get)
  have dec: "lift_r (decode_settings from_json d raw m) db = (Inr x, db)" using assms(3) by simp
  from settings_load_result [OF settings_record.load_primary [OF get dec]] show ?thesis by simp
qed



section \<open>Properties\<close>

text \<open>When a snapshot was saved without an error and the database works afterwards, loading gives
  back exactly this snapshot from the primary record, for any JSON codec whose parser reverses
  its printer.\<close>
theorem settings_saved_then_loaded:
  assumes "snapshot_inv d s"
    and "\<And>x str. to_json x = Some str \<Longrightarrow> from_json str = Some x"
    and "settings_save (redb_storage enc decr) to_json s db = (Inr (), db')"
    and "db_script db' = []"
  shows "settings_load (redb_storage enc decr) from_json m d db' =
    (Inr \<lparr>sl_snapshot = s, sl_recovered_from_backup = False\<rparr>, db')"
proof -
  have p: "ss_plugin_id s = pd_id d" using assms(1) by (simp add: snapshot_inv_def)
  obtain encoded where e: "encode_settings to_json s = Inr encoded"
    and save: "save_with_backup (redb_storage enc decr) StStorage ensure_payload_size
        (settings_primary_key (pd_id d)) (settings_backup_key (pd_id d)) encoded db = (Inr (), db')"
    using assms(3) p by (auto simp: settings_save_def bind_s_ok)
  have "db_table db' (settings_primary_key (pd_id d)) = Some encoded"
    using save by (rule settings_record.save_success(1))
  moreover have "decode_settings from_json d encoded m = Inr s"
    using assms(1) e assms(2) by (rule decode_encode)
  ultimately show ?thesis using assms(4) by (intro settings_load_primary)
qed

text \<open>Whatever database call fails during a save, the settings saved before stay loadable: if the
  primary record was valid, a failed save leaves it in place.\<close>
theorem failed_save_keeps_settings:
  assumes "db_table db (settings_primary_key (pd_id d)) = Some raw"
    and "decode_settings from_json d raw m = Inr old"
    and "ss_plugin_id s = pd_id d"
    and "settings_save (redb_storage enc decr) to_json s db = (Inl e, db')"
    and "db_script db' = []"
  shows "settings_load (redb_storage enc decr) from_json m d db' =
    (Inr \<lparr>sl_snapshot = old, sl_recovered_from_backup = False\<rparr>, db')"
proof -
  have "db_table db' (settings_primary_key (pd_id d)) = Some raw"
    using assms(1,3,4)
    by (auto simp: settings_save_def bind_s_err dest!: settings_record.save_failure)
  then show ?thesis using assms(2,5) by (intro settings_load_primary)
qed


abbreviation decodes :: "(string \<Rightarrow> stored_settings option) \<Rightarrow> plugin_descriptor \<Rightarrow> settings_migrator \<Rightarrow>
    string \<Rightarrow> plugin_settings_snapshot \<Rightarrow> bool" where
  "decodes from_json d m raw s \<equiv> decode_settings from_json d raw m = Inr s"

lemma failing_save:
  assumes "T (settings_primary_key (pd_id d)) = Some raw" and "length raw \<le> 128 * 1024"
    and "ss_plugin_id s = pd_id d" and "encode_settings to_json s = Inr encoded"
    and "length encoded \<le> 128 * 1024"
  shows "\<exists>e. settings_save (redb_storage enc decr) to_json s
      \<lparr>db_table = T, db_script = [None, None, None, None, None, None, None, Some fault]\<rparr> =
      (Inl e, \<lparr>db_table = T(settings_backup_key (pd_id d) \<mapsto> raw), db_script = []\<rparr>)"
proof -
  let ?p = "settings_primary_key (pd_id d)" and ?b = "settings_backup_key (pd_id d)"
  let ?db = "\<lparr>db_table = T, db_script = [None, None, None, None, None, None, None, Some fault]\<rparr>"
  let ?db1 = "\<lparr>db_table = T, db_script = [None, None, None, None, Some fault]\<rparr>"
  let ?db2 = "\<lparr>db_table = T(?b \<mapsto> raw), db_script = [Some fault]\<rparr>"
  have "prefs_get ?p ?db = (Inr (Some raw), ?db1)"
    using prefs_get_script [of ?db "[None, None, None, None, Some fault]" ?p] assms(1,2)
    by (simp add: limits)
  moreover have "prefs_set ?b raw ?db1 = (Inr (), ?db2)"
    using prefs_set_script [of ?db1 "[Some fault]" raw ?b] assms(2)
    by (simp add: limits)
  moreover obtain f where "prefs_set ?p encoded ?db2 = (Inl f, \<lparr>db_table = T(?b \<mapsto> raw), db_script = []\<rparr>)"
    using prefs_set_fault [of ?db2 fault "[]" encoded ?p] assms(5) by (auto simp: limits)
  ultimately show ?thesis
    using assms(2-4)
    by (simp add: settings_save_def save_with_backup_def read_record_def write_record_def
        redb_storage_def bind_s_def lift_r_def map_err_s_def ensure_payload_size_def limits)
qed


section \<open>Witnesses\<close>

text \<open>A codec that knows one envelope.\<close>

definition sample_envelope :: stored_settings where
  "sample_envelope = \<lparr>st_format_version = 1, st_values = [(''plugin.p.size'', IntegerV 8)]\<rparr>"

definition sample_to_json :: "stored_settings \<Rightarrow> string option" where
  "sample_to_json x = (if x = sample_envelope then Some ''J'' else None)"

definition sample_from_json :: "string \<Rightarrow> stored_settings option" where
  "sample_from_json s = (if s = ''J'' then Some sample_envelope else None)"

lemma sample_codec: "sample_to_json x = Some str \<Longrightarrow> sample_from_json str = Some x"
  by (auto simp: sample_to_json_def sample_from_json_def split: if_splits)

definition sample_snapshot :: plugin_settings_snapshot where
  "sample_snapshot = \<lparr>ss_plugin_id = PluginId ''p'', ss_namespace = ''plugin.p.'',
     ss_definitions = setting_definitions sample_settings, ss_values = [(''size'', IntegerV 8)]\<rparr>"

lemma sample_snapshot_created: "settings_from_namespaced sample_settings [] = Inr sample_snapshot"
proof -
  have "bm_values (setting_definitions sample_settings) =
      [with_default (IntegerV 8) (setting_new ''size'' IntegerK),
       sensitive True (setting_new ''token'' StringK)]"
    by code_simp
  then show ?thesis
    using sample_settings_wf
    by (simp add: settings_from_namespaced_def validate_descriptor_ok Let_def sample_snapshot_def
        namespace_for_def PLUGIN_NAMESPACE_PREFIX_def add_default_def sample_settings_simps bm_get_def)
qed

lemma sample_snapshot_inv: "snapshot_inv sample_settings sample_snapshot"
  using from_namespaced_sound [OF sample_snapshot_created] by simp

lemma sample_encode: "encode_settings sample_to_json sample_snapshot = Inr ''J''"
  by (simp add: encode_settings_def sample_to_json_def sample_envelope_def sample_snapshot_def
      settings_namespaced_values_def bm_collect_def ensure_payload_size_def limits)

lemma sample_decode: "decodes sample_from_json sample_settings m ''J'' sample_snapshot"
  by (rule decode_encode [OF sample_snapshot_inv sample_encode sample_codec])

lemma sample_ids: "ss_plugin_id sample_snapshot = pd_id sample_settings"
  by (simp add: sample_snapshot_def sample_settings_simps)

abbreviation plain_redb :: "preference_db storage" where
  "plain_redb \<equiv> redb_storage Inr Inr"

abbreviation no_migrations :: settings_migrator where
  "no_migrations \<equiv> \<lparr>sm_steps = []\<rparr>"

definition key_p :: string where
  "key_p = settings_primary_key (PluginId ''p'')"

definition backup_p :: string where
  "backup_p = settings_backup_key (PluginId ''p'')"

lemma sample_keys:
  "settings_primary_key (pd_id sample_settings) = key_p"
  "settings_backup_key (pd_id sample_settings) = backup_p"
  "key_p \<noteq> backup_p"
  by (simp_all add: key_p_def backup_p_def sample_settings_simps settings_primary_key_def
      settings_backup_key_def)

lemma sample_save:
  "settings_save plain_redb sample_to_json sample_snapshot \<lparr>db_table = Map.empty, db_script = []\<rparr> =
     (Inr (), \<lparr>db_table = [key_p \<mapsto> ''J''], db_script = []\<rparr>)"
  using prefs_get_succeeds [of "\<lparr>db_table = Map.empty, db_script = []\<rparr>" key_p]
    prefs_set_succeeds [of "\<lparr>db_table = Map.empty, db_script = []\<rparr>" "''J''" key_p]
  by (simp add: settings_save_def sample_encode save_with_backup_def read_record_def
      write_record_def redb_storage_def bind_s_def lift_r_def map_err_s_def limits sample_ids
      sample_keys)

lemma settings_saved_then_loaded_witness:
  "settings_load plain_redb sample_from_json no_migrations sample_settings
     (snd (settings_save plain_redb sample_to_json sample_snapshot
        \<lparr>db_table = Map.empty, db_script = []\<rparr>)) =
   (Inr \<lparr>sl_snapshot = sample_snapshot, sl_recovered_from_backup = False\<rparr>,
    \<lparr>db_table = [key_p \<mapsto> ''J''], db_script = []\<rparr>)"
  using settings_saved_then_loaded [OF sample_snapshot_inv sample_codec sample_save, where m = no_migrations]
  by (simp add: sample_save)

lemma failed_save_keeps_settings_witness:
  "fst (settings_load plain_redb sample_from_json no_migrations sample_settings
     (snd (settings_save plain_redb sample_to_json sample_snapshot
        \<lparr>db_table = [key_p \<mapsto> ''J''], db_script = [None, None, None, None, None, None, None, Some ''disk full'']\<rparr>))) =
   Inr \<lparr>sl_snapshot = sample_snapshot, sl_recovered_from_backup = False\<rparr>"
proof -
  let ?db = "\<lparr>db_table = [key_p \<mapsto> ''J''],
      db_script = [None, None, None, None, None, None, None, Some ''disk full'']\<rparr>"
  obtain e where e: "settings_save plain_redb sample_to_json sample_snapshot ?db =
      (Inl e, \<lparr>db_table = [key_p \<mapsto> ''J'', backup_p \<mapsto> ''J''], db_script = []\<rparr>)"
    using failing_save [of "[key_p \<mapsto> ''J'']" sample_settings "''J''" sample_snapshot sample_to_json
        "''J''" Inr Inr "''disk full''"]
    by (auto simp: sample_keys sample_ids sample_encode)
  from failed_save_keeps_settings [OF _ sample_decode [of no_migrations] sample_ids e] show ?thesis
    by (simp add: e sample_keys)
qed


end
