(* ===== verification/Secret_Store.thy ===== *)
theory Secret_Store
  imports Plugin_Secrets Settings_Store
begin

text \<open>
  The persistent store of a plugin's sensitive settings (\<open>crates/ramag-app/src/plugin_secrets.rs\<close>):
  the envelope is encoded, sealed with the platform key, written in hexadecimal behind a prefix,
  and kept with a backup record by the protocol of \<^theory_text>\<open>Backed_Record\<close>.  The JSON codec
  (serde_json) and the hexadecimal codec (hex) are parameters, sealing is the storage's.
\<close>

(* crates/ramag-app/src/plugin_secrets.rs:14-14 CURRENT_PLUGIN_SECRET_FORMAT_VERSION *)
definition CURRENT_PLUGIN_SECRET_FORMAT_VERSION :: u16 where
  [limits]: "CURRENT_PLUGIN_SECRET_FORMAT_VERSION = 1"

(* crates/ramag-app/src/plugin_secrets.rs:16-16 MAX_PLUGIN_SECRET_PLAINTEXT_BYTES *)
definition MAX_PLUGIN_SECRET_PLAINTEXT_BYTES :: nat where
  [limits]: "MAX_PLUGIN_SECRET_PLAINTEXT_BYTES = 128 * 1024"

(* crates/ramag-app/src/plugin_secrets.rs:18-18 MAX_PLUGIN_SECRET_STORED_BYTES *)
definition MAX_PLUGIN_SECRET_STORED_BYTES :: nat where
  [limits]: "MAX_PLUGIN_SECRET_STORED_BYTES = 256 * 1024"

(* crates/ramag-app/src/plugin_secrets.rs:19-19 ENCRYPTED_PLUGIN_SECRET_PREFIX *)
definition ENCRYPTED_PLUGIN_SECRET_PREFIX :: string where
  "ENCRYPTED_PLUGIN_SECRET_PREFIX = ''encrypted-v1:''"

(* crates/ramag-app/src/plugin_secrets.rs:45-65 PluginSecretStoreError *)
datatype secret_store_error =
    ScStorage domain_error
  | ScCorruptPayload
  | ScUnsupportedFormat u16
  | ScPayloadTooLarge nat nat
  | ScSnapshot plugin_secret_error
  | ScRecoveryFailed

(* crates/ramag-app/src/plugin_secrets.rs:191-196 StoredPluginSecrets *)
record stored_secrets =
  sx_format_version :: u16
  sx_values :: setting_values

(* crates/ramag-app/src/plugin_secrets.rs:45-65 PluginSecretStoreError *)
fun display_secret_store_error :: "secret_store_error \<Rightarrow> string" where
  "display_secret_store_error (ScStorage e) = (utf8 [0x63D2, 0x4EF6, 0x79D8, 0x5BC6, 0x5B58, 0x50A8, 0x5931, 0x8D25, 0xFF1A]) @ display_domain_error e"
| "display_secret_store_error ScCorruptPayload = (utf8 [0x63D2, 0x4EF6, 0x79D8, 0x5BC6, 0x5305, 0x7EDC, 0x65E0, 0x6CD5, 0x89E3, 0x6790])"
| "display_secret_store_error (ScUnsupportedFormat v) =
     (utf8 [0x63D2, 0x4EF6, 0x79D8, 0x5BC6, 0x683C, 0x5F0F, 0x7248, 0x672C] @ '' '') @ dec (unat v) @ ('' '' @ utf8 [0x4E0D, 0x53D7, 0x5F53, 0x524D, 0x5BBF, 0x4E3B, 0x652F, 0x6301])"
| "display_secret_store_error (ScPayloadTooLarge n m) =
     (utf8 [0x63D2, 0x4EF6, 0x79D8, 0x5BC6, 0x5305, 0x7EDC, 0x8D85, 0x8FC7] @ '' '') @ dec m @ ('' bytes '' @ utf8 [0x4E0A, 0x9650, 0xFF08, 0x5B9E, 0x9645] @ '' '') @ dec n @ ('' bytes'' @ utf8 [0xFF09])"
| "display_secret_store_error (ScSnapshot e) = (utf8 [0x63D2, 0x4EF6, 0x79D8, 0x5BC6, 0x5FEB, 0x7167, 0x65E0, 0x6548, 0xFF1A]) @ display_secret_error e"
| "display_secret_store_error ScRecoveryFailed = (utf8 [0x63D2, 0x4EF6, 0x4E3B, 0x79D8, 0x5BC6, 0x548C, 0x5907, 0x4EFD, 0x79D8, 0x5BC6, 0x5747, 0x65E0, 0x6CD5, 0x6062, 0x590D])"

(* crates/ramag-app/src/plugin_secrets.rs:347-355 ensure_plaintext_size *)
definition ensure_plaintext_size :: "nat \<Rightarrow> secret_store_error + unit" where
  "ensure_plaintext_size bytes =
     (if MAX_PLUGIN_SECRET_PLAINTEXT_BYTES < bytes then
        Inl (ScPayloadTooLarge bytes MAX_PLUGIN_SECRET_PLAINTEXT_BYTES)
      else Inr ())"

(* crates/ramag-app/src/plugin_secrets.rs:357-365 ensure_stored_size *)
definition ensure_stored_size :: "nat \<Rightarrow> secret_store_error + unit" where
  "ensure_stored_size bytes =
     (if MAX_PLUGIN_SECRET_STORED_BYTES < bytes then
        Inl (ScPayloadTooLarge bytes MAX_PLUGIN_SECRET_STORED_BYTES)
      else Inr ())"

(* crates/ramag-app/src/plugin_secrets.rs:252-267 PluginSecretStore::encode *)
definition encode_secrets ::
  "'s storage \<Rightarrow> (stored_secrets \<Rightarrow> string option) \<Rightarrow> (string \<Rightarrow> string) \<Rightarrow>
     plugin_secret_snapshot \<Rightarrow> 's \<Rightarrow> (secret_store_error + string) \<times> 's" where
  "encode_secrets st to_json hex_encode snapshot =
     (let envelope = \<lparr>sx_format_version = CURRENT_PLUGIN_SECRET_FORMAT_VERSION,
                      sx_values = secret_namespaced_values snapshot\<rparr>
      in bind_s (lift_r (ok_or (to_json envelope) ScCorruptPayload)) (\<lambda>plain.
         bind_s (lift_r (ensure_plaintext_size (length plain))) (\<lambda>_.
         bind_s (map_err_s ScStorage (seal st plain)) (\<lambda>encrypted.
         let stored = ENCRYPTED_PLUGIN_SECRET_PREFIX @ hex_encode encrypted
         in bind_s (lift_r (ensure_stored_size (length stored))) (\<lambda>_. lift_r (Inr stored))))))"

(* crates/ramag-app/src/plugin_secrets.rs:269-294 PluginSecretStore::decode *)
definition decode_secrets ::
  "'s storage \<Rightarrow> (string \<Rightarrow> stored_secrets option) \<Rightarrow> (string \<Rightarrow> string option) \<Rightarrow>
     plugin_descriptor \<Rightarrow> string \<Rightarrow> 's \<Rightarrow> (secret_store_error + plugin_secret_snapshot) \<times> 's" where
  "decode_secrets st from_json hex_decode d stored =
     bind_s (lift_r (ensure_stored_size (length stored))) (\<lambda>_.
     bind_s (lift_r (ok_or (strip_prefix ENCRYPTED_PLUGIN_SECRET_PREFIX stored) ScCorruptPayload)) (\<lambda>encoded.
     bind_s (lift_r (ok_or (hex_decode encoded) ScCorruptPayload)) (\<lambda>encrypted.
     bind_s (map_err_s ScStorage (unseal st encrypted)) (\<lambda>plain.
     bind_s (lift_r (ensure_plaintext_size (length plain))) (\<lambda>_.
     bind_s (lift_r (ok_or (from_json plain) ScCorruptPayload)) (\<lambda>envelope.
     lift_r (if sx_format_version envelope \<noteq> CURRENT_PLUGIN_SECRET_FORMAT_VERSION then
               Inl (ScUnsupportedFormat (sx_format_version envelope))
             else map_err ScSnapshot (secrets_from_namespaced d (sx_values envelope)))))))))"

(* crates/ramag-app/src/plugin_secrets.rs:304-312 empty_snapshot *)
definition empty_secrets :: "plugin_descriptor \<Rightarrow> secret_store_error + plugin_secret_snapshot" where
  "empty_secrets d = map_err ScSnapshot (secrets_from_namespaced d [])"

(* crates/ramag-app/src/plugin_secrets.rs:339-341 primary_key_for_id *)
definition secret_primary_key :: "plugin_id \<Rightarrow> string" where
  "secret_primary_key p = ''plugin.'' @ as_str p @ ''.__secrets.v1''"

(* crates/ramag-app/src/plugin_secrets.rs:343-345 backup_key_for_id *)
definition secret_backup_key :: "plugin_id \<Rightarrow> string" where
  "secret_backup_key p = ''plugin.'' @ as_str p @ ''.__secrets.backup.v1''"

(* crates/ramag-app/src/plugin_secrets.rs:208-231 PluginSecretStore::load *)
definition secret_load ::
  "'s storage \<Rightarrow> (string \<Rightarrow> stored_secrets option) \<Rightarrow> (string \<Rightarrow> string option) \<Rightarrow>
     plugin_descriptor \<Rightarrow> 's \<Rightarrow> (secret_store_error + plugin_secret_snapshot) \<times> 's" where
  "secret_load st from_json hex_decode d =
     bind_s (load_with_backup st ScStorage (decode_secrets st from_json hex_decode d)
         (\<lambda>_ _. ScRecoveryFailed) (empty_secrets d)
         (secret_primary_key (pd_id d)) (secret_backup_key (pd_id d)))
       (\<lambda>(snapshot, _). lift_r (Inr snapshot))"

(* crates/ramag-app/src/plugin_secrets.rs:233-250 PluginSecretStore::save *)
definition secret_save ::
  "'s storage \<Rightarrow> (stored_secrets \<Rightarrow> string option) \<Rightarrow> (string \<Rightarrow> string) \<Rightarrow>
     plugin_secret_snapshot \<Rightarrow> 's \<Rightarrow> (secret_store_error + unit) \<times> 's" where
  "secret_save st to_json hex_encode snapshot =
     bind_s (encode_secrets st to_json hex_encode snapshot) (\<lambda>encoded.
     save_with_backup st ScStorage ensure_stored_size
       (secret_primary_key (sc_plugin_id snapshot)) (secret_backup_key (sc_plugin_id snapshot))
       encoded)"

section \<open>The record protocol on the preference repository\<close>

lemma decode_secrets_state:
  "decode_secrets (redb_storage enc decr) from_json hex_decode d stored db = (r, db') \<Longrightarrow> db' = db"
  by (cases r) (auto simp: decode_secrets_def redb_storage_def bind_s_ok bind_s_err)

interpretation secret_record: backed_record "redb_storage enc decr" db_table ScStorage
  ensure_stored_size "decode_secrets (redb_storage enc decr) from_json hex_decode d"
  "\<lambda>_ _. ScRecoveryFailed" "empty_secrets d" "secret_primary_key (pd_id d)"
  "secret_backup_key (pd_id d)"
  for enc decr from_json hex_decode d
  by unfold_locales
    (auto simp: secret_primary_key_def secret_backup_key_def dest: decode_secrets_state)

text \<open>What the parameters must satisfy: each decoder reverses its encoder.\<close>

definition secret_codecs ::
  "(stored_secrets \<Rightarrow> string option) \<Rightarrow> (string \<Rightarrow> stored_secrets option) \<Rightarrow>
     (string \<Rightarrow> string) \<Rightarrow> (string \<Rightarrow> string option) \<Rightarrow>
     (string \<Rightarrow> domain_error + string) \<Rightarrow> (string \<Rightarrow> domain_error + string) \<Rightarrow> bool" where
  "secret_codecs to_json from_json hex_encode hex_decode enc decr \<longleftrightarrow>
     (\<forall>x s. to_json x = Some s \<longrightarrow> from_json s = Some x)
     \<and> (\<forall>b. hex_decode (hex_encode b) = Some b)
     \<and> (\<forall>p c. enc p = Inr c \<longrightarrow> decr c = Inr p)"

lemma decode_encode_secrets:
  assumes "secret_inv d s" and "secret_codecs to_json from_json hex_encode hex_decode enc decr"
    and "encode_secrets (redb_storage enc decr) to_json hex_encode s db = (Inr encoded, db1)"
  shows "decode_secrets (redb_storage enc decr) from_json hex_decode d encoded db' = (Inr s, db')"
proof -
  let ?envelope = "\<lparr>sx_format_version = CURRENT_PLUGIN_SECRET_FORMAT_VERSION,
      sx_values = secret_namespaced_values s\<rparr>"
  obtain plain encrypted where "to_json ?envelope = Some plain" "enc plain = Inr encrypted"
      "ensure_plaintext_size (length plain) = Inr ()"
      "encoded = ENCRYPTED_PLUGIN_SECRET_PREFIX @ hex_encode encrypted"
      "ensure_stored_size (length encoded) = Inr ()"
    using assms(3) by (auto simp: encode_secrets_def redb_storage_def bind_s_ok Let_def)
  then show ?thesis
    using assms(2) secret_roundtrip [OF assms(1)]
    by (simp add: decode_secrets_def redb_storage_def bind_s_def lift_r_def map_err_s_def
        secret_codecs_def)
qed

section \<open>Keys\<close>

lemma append_suffix_eq:
  assumes "rev u = a # us" and "rev v = b # vs" and "a \<noteq> b"
  shows "x @ u \<noteq> y @ v"
proof
  assume "x @ u = y @ v"
  then have "rev u @ rev x = rev v @ rev y" by (metis rev_append)
  with assms show False by simp
qed

text \<open>The four record kinds of all plugins use pairwise different keys, although plugin ids may
  contain dots.\<close>

lemma record_keys_injective:
  "settings_primary_key p = settings_primary_key q \<longleftrightarrow> p = q"
  "settings_backup_key p = settings_backup_key q \<longleftrightarrow> p = q"
  "secret_primary_key p = secret_primary_key q \<longleftrightarrow> p = q"
  "secret_backup_key p = secret_backup_key q \<longleftrightarrow> p = q"
  by (auto simp: settings_primary_key_def settings_backup_key_def secret_primary_key_def
      secret_backup_key_def intro: plugin_id.expand)

lemma rev_eqD: "x @ u = y @ v \<Longrightarrow> rev u @ rev x = rev v @ rev y"
  by (metis rev_append)

lemma record_keys_disjoint:
  "settings_primary_key p \<noteq> settings_backup_key q"
  "settings_primary_key p \<noteq> secret_primary_key q"
  "settings_primary_key p \<noteq> secret_backup_key q"
  "settings_backup_key p \<noteq> secret_primary_key q"
  "settings_backup_key p \<noteq> secret_backup_key q"
  "secret_primary_key p \<noteq> secret_backup_key q"
  by (auto simp: settings_primary_key_def settings_backup_key_def secret_primary_key_def
      secret_backup_key_def dest!: rev_eqD)

section \<open>Properties\<close>

text \<open>No record of one plugin is ever written or read under a key of another plugin, or of
  another kind: the primary and backup keys of the settings and secrets of all plugins are
  pairwise different.\<close>
theorem record_keys_separate:
  "distinct [settings_primary_key p, settings_backup_key p, secret_primary_key p, secret_backup_key p]
   \<and> (p = q \<or> set [settings_primary_key p, settings_backup_key p, secret_primary_key p, secret_backup_key p]
        \<inter> set [settings_primary_key q, settings_backup_key q, secret_primary_key q, secret_backup_key q] = {})"
  using record_keys_disjoint record_keys_injective by (auto simp: eq_commute)

text \<open>Secrets saved without an error are loaded back exactly, provided JSON, hexadecimal and
  sealing are reversed by their decoders, and a failed save leaves the stored ciphertext in place.\<close>
theorem secrets_saved_then_loaded:
  assumes "secret_inv d s" and "secret_codecs to_json from_json hex_encode hex_decode enc decr"
    and "secret_save (redb_storage enc decr) to_json hex_encode s db = (r, db')"
    and "db_script db' = []"
  shows "(case r of
       Inr _ \<Rightarrow> fst (secret_load (redb_storage enc decr) from_json hex_decode d db') = Inr s
     | Inl _ \<Rightarrow> db_table db' (secret_primary_key (pd_id d)) = db_table db (secret_primary_key (pd_id d)))"
proof -
  have p: "sc_plugin_id s = pd_id d" using assms(1) by (simp add: secret_inv_def)
  obtain x db1 where e: "encode_secrets (redb_storage enc decr) to_json hex_encode s db = (x, db1)"
    by force
  have db1: "db1 = db"
    using e by (cases x) (auto simp: encode_secrets_def redb_storage_def bind_s_ok bind_s_err Let_def)
  show ?thesis
  proof (cases r)
    case (Inl f)
    then show ?thesis
      using assms(3) e db1 p
      by (cases x) (auto simp: secret_save_def bind_s_def dest!: secret_record.save_failure)
  next
    case (Inr u)
    then obtain encoded where x: "x = Inr encoded"
      and save: "save_with_backup (redb_storage enc decr) ScStorage ensure_stored_size
        (secret_primary_key (pd_id d)) (secret_backup_key (pd_id d)) encoded db = (Inr (), db')"
      using assms(3) e db1 p by (cases x) (auto simp: secret_save_def bind_s_def)
    have table: "db_table db' (secret_primary_key (pd_id d)) = Some encoded"
      using save by (rule secret_record.save_success(1))
    have "length encoded \<le> 256 * 1024"
      using e x by (auto simp: encode_secrets_def redb_storage_def bind_s_ok Let_def
          ensure_stored_size_def limits split: if_splits)
    then have "get_preference (redb_storage enc decr) (secret_primary_key (pd_id d)) db' =
        (Inr (Some encoded), db')"
      using prefs_get_succeeds [OF assms(4), of "secret_primary_key (pd_id d)"] table
      by (simp add: redb_storage_def limits)
    from secret_record.load_primary [OF this decode_encode_secrets [OF assms(1,2) e [unfolded x]]]
    show ?thesis by (simp add: Inr secret_load_def bind_s_def lift_r_def)
  qed
qed

definition sample_secret_envelope :: stored_secrets where
  "sample_secret_envelope =
     \<lparr>sx_format_version = 1, sx_values = [(''plugin.p.token'', StringV ''s'')]\<rparr>"

definition sample_secret_to_json :: "stored_secrets \<Rightarrow> string option" where
  "sample_secret_to_json x = (if x = sample_secret_envelope then Some ''S'' else None)"

definition sample_secret_from_json :: "string \<Rightarrow> stored_secrets option" where
  "sample_secret_from_json s = (if s = ''S'' then Some sample_secret_envelope else None)"

definition sample_secret_snapshot :: plugin_secret_snapshot where
  "sample_secret_snapshot = \<lparr>sc_plugin_id = PluginId ''p'', sc_namespace = ''plugin.p.'',
     sc_definitions = secret_definitions sample_settings, sc_values = [(''token'', StringV ''s'')]\<rparr>"

lemma sample_secret_inv: "secret_inv sample_settings sample_secret_snapshot"
  using sample_settings_wf
  by (auto simp: secret_inv_def sample_secret_snapshot_def secret_namespace_for_def secret_get_def
      bm_get_def bm_wf_def secret_setting_def sample_settings_simps wf_setting_text_def
      split: if_splits)

lemma sample_secret_codecs:
  "secret_codecs sample_secret_to_json sample_secret_from_json rev (\<lambda>s. Some (rev s)) Inr Inr"
  by (auto simp: secret_codecs_def sample_secret_to_json_def sample_secret_from_json_def
      split: if_splits)

lemma sample_secret_save:
  "secret_save plain_redb sample_secret_to_json rev sample_secret_snapshot
     \<lparr>db_table = Map.empty, db_script = []\<rparr> =
   (Inr (), \<lparr>db_table = [secret_primary_key (PluginId ''p'') \<mapsto> ''encrypted-v1:S''], db_script = []\<rparr>)"
proof -
  let ?db = "\<lparr>db_table = Map.empty, db_script = []\<rparr>" and ?k = "secret_primary_key (PluginId ''p'')"
  have "encode_secrets plain_redb sample_secret_to_json rev sample_secret_snapshot ?db =
      (Inr ''encrypted-v1:S'', ?db)"
    by (simp add: encode_secrets_def sample_secret_to_json_def sample_secret_envelope_def
        sample_secret_snapshot_def secret_namespaced_values_def bm_collect_def bind_s_def lift_r_def
        map_err_s_def redb_storage_def ensure_plaintext_size_def ensure_stored_size_def limits
        ENCRYPTED_PLUGIN_SECRET_PREFIX_def)
  then show ?thesis
    using prefs_get_succeeds [of ?db ?k] prefs_set_succeeds [of ?db "''encrypted-v1:S''" ?k]
    by (simp add: secret_save_def save_with_backup_def read_record_def write_record_def
        redb_storage_def bind_s_def lift_r_def map_err_s_def limits sample_secret_snapshot_def)
qed

lemma secrets_saved_then_loaded_witness:
  "fst (secret_load plain_redb sample_secret_from_json (\<lambda>s. Some (rev s)) sample_settings
     (snd (secret_save plain_redb sample_secret_to_json rev sample_secret_snapshot
       \<lparr>db_table = Map.empty, db_script = []\<rparr>))) = Inr sample_secret_snapshot"
  using secrets_saved_then_loaded [OF sample_secret_inv sample_secret_codecs sample_secret_save]
  by (simp add: sample_secret_save)

end
