(* ===== verification/Plugin_Host.thy ===== *)
theory Plugin_Host
  imports Registry_Laws Plugin_Context Secret_Store
begin

text \<open>
  The static plugin host (\<open>crates/ramag-app/src/plugin_host.rs\<close>): registration of plugins with the
  tool registry and the catalogue, initialisation in registration order, shutdown in reverse order,
  and the execution of plugin entries.  The \<open>operation_lock\<close> makes registration, initialisation and
  shutdown mutually exclusive, so each is one function on the host state; a record's context is
  shared by reference and is therefore updated in place in the list of records.  The storage object
  (with its state), the JSON and hexadecimal codecs and the plugins' callbacks are parameters.
\<close>

section \<open>State\<close>

(* crates/ramag-app/src/plugin_host.rs:21-27 HostPhase *)
datatype host_phase = PhRegistering | PhRunning | PhShuttingDown | PhStopped

(* crates/ramag-app/src/plugin_host.rs:29-32 PluginRecord *)
record plugin_record =
  pr_plugin :: static_plugin
  pr_context :: plugin_context

(* crates/ramag-app/src/plugin_host.rs:44-55 StaticPluginHost *)
record 's plugin_host =
  ph_registry :: tool_registry
  ph_records :: "plugin_record list"
  ph_phase :: host_phase
  ph_policy :: plugin_permission_policy
  ph_storage :: "'s storage option"
  ph_db :: 's
  ph_migrator :: settings_migrator
  ph_catalog :: plugin_catalog
  ph_failures :: "plugin_id \<Rightarrow> plugin_diagnostic_failure option"
  ph_registration_failures :: "plugin_diagnostic list"

text \<open>The third-party decoders the stores use.\<close>

record plugin_codecs =
  settings_from_json :: "string \<Rightarrow> stored_settings option"
  secrets_from_json :: "string \<Rightarrow> stored_secrets option"
  hex_decoder :: "string \<Rightarrow> string option"

(* crates/ramag-app/src/plugin_host.rs:454-470 PluginHostError *)
datatype plugin_host_error =
    HostRegistration plugin_id plugin_registration_error
  | RegistrationClosed plugin_id
  | HostCatalog plugin_id plugin_catalog_error

(* crates/ramag-app/src/plugin_host.rs:473-496 PluginEntryExecutionError *)
datatype plugin_entry_execution_error =
    PluginNotFound string
  | NotReady string plugin_state
  | EntryNotFound string string
  | InputTooLarge string nat nat
  | InvalidBudget plugin_task_budget_error
  | EntryTaskUnavailable plugin_context_error
  | EntryOperation plugin_operation_error

(* crates/ramag-app/src/plugin_host.rs:103-121 StaticPluginHost::with_options *)
definition host_with_options ::
  "tool_registry \<Rightarrow> plugin_permission_policy \<Rightarrow> 's storage option \<Rightarrow> 's \<Rightarrow> settings_migrator \<Rightarrow>
     's plugin_host" where
  "host_with_options registry policy storage db m =
     \<lparr>ph_registry = registry, ph_records = [], ph_phase = PhRegistering, ph_policy = policy,
      ph_storage = storage, ph_db = db, ph_migrator = m, ph_catalog = [],
      ph_failures = Map.empty, ph_registration_failures = []\<rparr>"

(* crates/ramag-app/src/plugin_host.rs:58-65 StaticPluginHost::new *)
definition host_new :: "tool_registry \<Rightarrow> 's \<Rightarrow> 's plugin_host" where
  "host_new registry db =
     host_with_options registry \<lparr>pp_grants = Map.empty\<rparr> None db \<lparr>sm_steps = []\<rparr>"

(* crates/ramag-app/src/plugin_host.rs:88-100 StaticPluginHost::with_storage_and_permissions *)
definition host_with_storage_and_permissions ::
  "tool_registry \<Rightarrow> 's storage \<Rightarrow> 's \<Rightarrow> plugin_permission_policy \<Rightarrow> settings_migrator \<Rightarrow>
     's plugin_host" where
  "host_with_storage_and_permissions registry storage db policy m =
     host_with_options registry policy (Some storage) db m"

abbreviation record_id :: "plugin_record \<Rightarrow> plugin_id" where
  "record_id r \<equiv> pc_plugin_id (pr_context r)"

abbreviation record_state :: "plugin_record \<Rightarrow> plugin_state" where
  "record_state r \<equiv> context_state (pr_context r)"

text \<open>\<open>f\<close> applied to the context of the \<open>i\<close>-th record.\<close>

definition with_context :: "nat \<Rightarrow> (plugin_context \<Rightarrow> plugin_context) \<Rightarrow> 's plugin_host \<Rightarrow> 's plugin_host" where
  "with_context i f host =
     host\<lparr>ph_records := (ph_records host)
       [i := (ph_records host ! i)\<lparr>pr_context := f (pr_context (ph_records host ! i))\<rparr>]\<rparr>"

section \<open>Registration\<close>

(* crates/ramag-app/src/plugin_host.rs:412-421 StaticPluginHost::record_registration_failure *)
definition record_registration_failure ::
  "plugin_descriptor \<Rightarrow> string \<Rightarrow> 's plugin_host \<Rightarrow> 's plugin_host" where
  "record_registration_failure d message host =
     host\<lparr>ph_registration_failures := ph_registration_failures host @
       [\<lparr>dg_descriptor = d, dg_state = StFailed,
         dg_failure = Some \<lparr>df_stage = RegistrationStage, df_message = bounded_message message\<rparr>\<rparr>]\<rparr>"

(* crates/ramag-app/src/plugin_host.rs:133-167 StaticPluginHost::register_plugin *)
definition host_register_plugin ::
  "static_plugin \<Rightarrow> 's plugin_host \<Rightarrow> (plugin_host_error + unit) \<times> 's plugin_host" where
  "host_register_plugin plugin host =
     (let descriptor = sp_descriptor plugin; plugin_id = pd_id descriptor in
      if ph_phase host \<noteq> PhRegistering then
        (Inl (RegistrationClosed plugin_id),
         record_registration_failure descriptor
           ((utf8 [0x63D2, 0x4EF6, 0x5BBF, 0x4E3B, 0x5DF2, 0x5F00, 0x59CB, 0x751F, 0x547D, 0x5468, 0x671F, 0x5904, 0x7406, 0xFF0C, 0x4E0D, 0x80FD, 0x6CE8, 0x518C, 0x63D2, 0x4EF6] @ '' '' @ utf8 [0x60]) @ as_str plugin_id @ (utf8 [0x60])) host)
      else case register_plugin_entries descriptor (sp_tools plugin) (ph_registry host) of
        Inl source \<Rightarrow>
          (Inl (HostRegistration plugin_id source),
           record_registration_failure descriptor (display_registration_error source) host)
      | Inr registry \<Rightarrow>
          (case catalog_register (sp_catalog_entries plugin) (ph_catalog host) of
             Inl source \<Rightarrow>
               (Inl (HostCatalog plugin_id source),
                record_registration_failure descriptor (display_catalog_error source)
                  (host\<lparr>ph_registry := snd (unregister_plugin (as_str plugin_id) registry)\<rparr>))
           | Inr cat \<Rightarrow>
               (Inr (),
                host\<lparr>ph_registry := registry, ph_catalog := cat,
                  ph_records := ph_records host @
                    [\<lparr>pr_plugin = plugin,
                      pr_context = context_new plugin_id (pd_capabilities descriptor)
                        (grants_for (ph_policy host) plugin_id)\<rparr>]\<rparr>)))"

section \<open>Initialisation\<close>

(* crates/ramag-app/src/plugin_host.rs:424-450 StaticPluginHost::prepare_context *)
definition prepare_context ::
  "plugin_codecs \<Rightarrow> plugin_record \<Rightarrow> 's plugin_host \<Rightarrow>
     (plugin_operation_error + (plugin_context \<Rightarrow> plugin_context)) \<times> 's" where
  "prepare_context codecs r host =
     (let descriptor = sp_descriptor (pr_plugin r) in
      case ph_storage host of
        None \<Rightarrow>
          (if pd_settings descriptor = [] then Inr (\<lambda>c. c)
           else Inl (operation_error_new ((utf8 [0x63D2, 0x4EF6, 0x58F0, 0x660E, 0x4E86, 0x8BBE, 0x7F6E, 0xFF0C, 0x4F46, 0x5BBF, 0x4E3B, 0x6CA1, 0x6709, 0x914D, 0x7F6E, 0x63D2, 0x4EF6, 0x5B58, 0x50A8]))), ph_db host)
      | Some storage \<Rightarrow>
          bind_s (map_err_s (\<lambda>e. operation_error_new (display_settings_store_error e))
              (settings_load storage (settings_from_json codecs) (ph_migrator host) descriptor))
            (\<lambda>settings.
          bind_s (map_err_s (\<lambda>e. operation_error_new (display_secret_store_error e))
              (secret_load storage (secrets_from_json codecs) (hex_decoder codecs) descriptor))
            (\<lambda>secrets. lift_r (Inr (install_snapshots (sl_snapshot settings) secrets))))
          (ph_db host))"

(* crates/ramag-app/src/plugin_host.rs:189-209 StaticPluginHost::initialize_all *)
definition initialization_failed ::
  "nat \<Rightarrow> plugin_operation_error \<Rightarrow> 's plugin_host \<times> plugin_lifecycle_report \<Rightarrow>
     's plugin_host \<times> plugin_lifecycle_report" where
  "initialization_failed i error hr =
     (let (host, report) = hr;
          plugin_id = record_id (ph_records host ! i);
          host = with_context i (\<lambda>c. snd (context_transition Initializing StFailed (stop_tasks c))) host
      in (host\<lparr>ph_registry := snd (unregister_plugin (as_str plugin_id) (ph_registry host)),
            ph_failures := (ph_failures host)(plugin_id \<mapsto>
              \<lparr>df_stage = InitializeStage, df_message = operation_message error\<rparr>)\<rparr>,
          report\<lparr>lr_failures := lr_failures report @
            [\<lparr>lf_plugin_id = plugin_id, lf_stage = InitializeStage, lf_error = error\<rparr>]\<rparr>))"

(* crates/ramag-app/src/plugin_host.rs:182-247 StaticPluginHost::initialize_all *)
definition initialize_one ::
  "plugin_codecs \<Rightarrow> nat \<Rightarrow> 's plugin_host \<times> plugin_lifecycle_report \<Rightarrow>
     's plugin_host \<times> plugin_lifecycle_report" where
  "initialize_one codecs i hr =
     (let (host, report) = hr;
          r = ph_records host ! i
      in if \<not> fst (context_transition Registered Initializing (pr_context r)) then (host, report)
         else
           let host = with_context i (\<lambda>c. snd (context_transition Registered Initializing c)) host;
               (prepared, db) = prepare_context codecs r host;
               host = host\<lparr>ph_db := db\<rparr>
           in case prepared of
                Inl error \<Rightarrow> initialization_failed i error (host, report)
              | Inr install \<Rightarrow>
                  let host = with_context i install host;
                      (result, calls) = sp_initialize (pr_plugin r) (pr_context (ph_records host ! i));
                      host = with_context i (fold context_step calls) host
                  in case result of
                       Inr _ \<Rightarrow>
                         (with_context i (\<lambda>c. snd (context_transition Initializing Ready c)) host,
                          report\<lparr>lr_succeeded := lr_succeeded report @ [record_id r]\<rparr>)
                     | Inl error \<Rightarrow> initialization_failed i error (host, report))"

(* crates/ramag-app/src/plugin_host.rs:170-249 StaticPluginHost::initialize_all *)
definition initialize_all ::
  "plugin_codecs \<Rightarrow> 's plugin_host \<Rightarrow> plugin_lifecycle_report \<times> 's plugin_host" where
  "initialize_all codecs host =
     (if ph_phase host \<noteq> PhRegistering then (report_default, host)
      else
        let host = host\<lparr>ph_phase := PhRunning\<rparr>;
            (host, report) =
              fold (initialize_one codecs) [0..<length (ph_records host)] (host, report_default)
        in (report, host))"

section \<open>Shutdown\<close>

(* crates/ramag-app/src/plugin_host.rs:270-304 StaticPluginHost::shutdown_all *)
definition shutdown_one ::
  "nat \<Rightarrow> 's plugin_host \<times> plugin_lifecycle_report \<Rightarrow> 's plugin_host \<times> plugin_lifecycle_report" where
  "shutdown_one i hr =
     (let (host, report) = hr;
          r = ph_records host ! i;
          plugin_id = record_id r;
          (host, report) =
            (if record_state r = Ready \<and> fst (context_transition Ready ShuttingDown (pr_context r)) then
               let host = with_context i
                     (\<lambda>c. stop_tasks (snd (context_transition Ready ShuttingDown c))) host;
                   (result, calls) = sp_shutdown (pr_plugin r) (pr_context (ph_records host ! i));
                   host = with_context i (fold context_step calls) host
               in case result of
                    Inr _ \<Rightarrow> (host, report\<lparr>lr_succeeded := lr_succeeded report @ [plugin_id]\<rparr>)
                  | Inl error \<Rightarrow>
                      (host\<lparr>ph_failures := (ph_failures host)(plugin_id \<mapsto>
                         \<lparr>df_stage = ShutdownStage, df_message = operation_message error\<rparr>)\<rparr>,
                       report\<lparr>lr_failures := lr_failures report @
                         [\<lparr>lf_plugin_id = plugin_id, lf_stage = ShutdownStage, lf_error = error\<rparr>]\<rparr>)
             else (host, report));
          host = with_context i mark_unloaded host
      in (host\<lparr>ph_registry := snd (unregister_plugin (as_str plugin_id) (ph_registry host)),
            ph_catalog := catalog_remove_plugin (as_str plugin_id) (ph_catalog host)\<rparr>,
          report))"

(* crates/ramag-app/src/plugin_host.rs:252-308 StaticPluginHost::shutdown_all *)
definition shutdown_all :: "'s plugin_host \<Rightarrow> plugin_lifecycle_report \<times> 's plugin_host" where
  "shutdown_all host =
     (if ph_phase host \<in> {PhShuttingDown, PhStopped} then (report_default, host)
      else
        let host = host\<lparr>ph_phase := PhShuttingDown\<rparr>;
            (host, report) =
              fold shutdown_one (rev [0..<length (ph_records host)]) (host, report_default)
        in (report, host\<lparr>ph_phase := PhStopped\<rparr>))"

section \<open>Queries\<close>

(* crates/ramag-app/src/plugin_host.rs:310-316 StaticPluginHost::state *)
definition host_state :: "string \<Rightarrow> 's plugin_host \<Rightarrow> plugin_state option" where
  "host_state plugin_id host =
     map_option record_state (find (\<lambda>r. as_str (record_id r) = plugin_id) (ph_records host))"

(* crates/ramag-app/src/plugin_host.rs:318-324 StaticPluginHost::context *)
definition host_context :: "string \<Rightarrow> 's plugin_host \<Rightarrow> plugin_context option" where
  "host_context plugin_id host =
     map_option pr_context (find (\<lambda>r. as_str (record_id r) = plugin_id) (ph_records host))"

(* crates/ramag-app/src/plugin_host.rs:384-390 StaticPluginHost::states *)
definition host_states :: "'s plugin_host \<Rightarrow> (plugin_id \<times> plugin_state) list" where
  "host_states host = map (\<lambda>r. (record_id r, record_state r)) (ph_records host)"

(* crates/ramag-app/src/plugin_host.rs:393-410 StaticPluginHost::diagnostics *)
definition host_diagnostics :: "'s plugin_host \<Rightarrow> plugin_diagnostic list" where
  "host_diagnostics host =
     map (\<lambda>r. \<lparr>dg_descriptor = sp_descriptor (pr_plugin r), dg_state = record_state r,
             dg_failure = ph_failures host (record_id r)\<rparr>) (ph_records host)
     @ ph_registration_failures host"

section \<open>Entry execution\<close>

(* crates/ramag-app/src/plugin_host.rs:327-382 StaticPluginHost::execute_entry *)
definition execute_entry ::
  "nat \<Rightarrow> string \<Rightarrow> string \<Rightarrow> string \<Rightarrow> plugin_task_budget \<Rightarrow> 's plugin_host \<Rightarrow>
     (plugin_entry_execution_error + (plugin_task_execution \<times> plugin_task_budget)) \<times> 's plugin_host" where
  "execute_entry now plugin_id entry_id input budget host =
     (case position (\<lambda>r. as_str (record_id r) = plugin_id) (ph_records host) of
        None \<Rightarrow> (Inl (PluginNotFound plugin_id), host)
      | Some i \<Rightarrow>
          let r = ph_records host ! i in
          if record_state r \<noteq> Ready then (Inl (NotReady plugin_id (record_state r)), host)
          else case find (\<lambda>e. ed_id e = entry_id) (entry_descriptors (sp_descriptor (pr_plugin r))) of
            None \<Rightarrow> (Inl (EntryNotFound plugin_id entry_id), host)
          | Some entry \<Rightarrow>
              if ds_max_bytes (ed_input entry) < length input then
                (Inl (InputTooLarge (ed_id entry) (length input) (ds_max_bytes (ed_input entry))), host)
              else case budget_new (tb_timeout budget)
                  (min (tb_max_result_bytes budget) (ds_max_bytes (ed_output entry))) of
                Inl e \<Rightarrow> (Inl (InvalidBudget e), host)
              | Inr task_budget \<Rightarrow>
                  (case context_start_task (''entry:'' @ entry_id) (pr_context r) of
                     Inl e \<Rightarrow> (Inl (EntryTaskUnavailable e), host)
                   | Inr (task, c) \<Rightarrow>
                       let host = with_context i (\<lambda>_. c) host;
                           (result, calls) = sp_execute (pr_plugin r) entry_id input c;
                           host = with_context i (fold context_step calls) host
                       in case result of
                            Inl e \<Rightarrow>
                              (Inl (EntryOperation e),
                               with_context i (\<lambda>c. c\<lparr>pc_tasks := drop_handle task (pc_tasks c)\<rparr>) host)
                          | Inr _ \<Rightarrow> (Inr (task_spawn now task, task_budget), host)))"

end
