(* ===== verification/Plugin_Host_Laws.thy ===== *)
theory Plugin_Host_Laws
  imports Plugin_Host
begin

text \<open>
  How the host's operations act on the records: what a context keeps through a plugin's calls,
  what one initialisation or one shutdown does to the record it handles, and what that adds up to
  over all records.
\<close>

section \<open>Contexts\<close>

definition context_ok :: "plugin_context \<Rightarrow> bool" where
  "context_ok c \<longleftrightarrow>
     task_ok (pc_tasks c)
     \<and> (context_state c \<in> {StFailed, Unloaded} \<longrightarrow> \<not> ti_accepting (tw_inner (pc_tasks c)))"

text \<open>What a plugin's calls cannot change.\<close>

definition same_plugin :: "plugin_context \<Rightarrow> plugin_context \<Rightarrow> bool" where
  "same_plugin c c' \<longleftrightarrow>
     pc_plugin_id c' = pc_plugin_id c \<and> pc_declared c' = pc_declared c
     \<and> pc_granted c' = pc_granted c"

definition closed :: "plugin_context \<Rightarrow> bool" where
  "closed c \<longleftrightarrow> \<not> ti_accepting (tw_inner (pc_tasks c))"

lemma task_step_open:
  assumes "\<not> ti_accepting (tw_inner w)"
  shows "\<not> ti_accepting (tw_inner (task_step op w))"
  using closed_step [OF assms] by blast

lemma context_start_task_ok:
  "context_start_task name c = Inr (h, c') \<longleftrightarrow>
     require_capability ''task.scoped'' c = Inr () \<and> context_state c \<noteq> ShuttingDown
     \<and> (\<exists>w. task_start name (pc_tasks c) = Inr (h, w) \<and> c' = c\<lparr>pc_tasks := w\<rparr>)"
  by (auto simp: context_start_task_def)

lemma context_step_shape:
  "\<exists>w. context_step op c = c\<lparr>pc_tasks := w\<rparr> \<and> (task_ok (pc_tasks c) \<longrightarrow> task_ok w)
     \<and> (\<not> ti_accepting (tw_inner (pc_tasks c)) \<longrightarrow> \<not> ti_accepting (tw_inner w))"
proof (cases op)
  case (CtxStart name)
  show ?thesis
  proof (cases "context_start_task name c")
    case (Inl e)
    then show ?thesis using CtxStart by (intro exI [of _ "pc_tasks c"]) simp
  next
    case (Inr hc)
    then obtain h w where "task_start name (pc_tasks c) = Inr (h, w)" "hc = (h, c\<lparr>pc_tasks := w\<rparr>)"
      by (cases hc) (auto simp: context_start_task_ok)
    then show ?thesis
      using CtxStart Inr by (intro exI [of _ w]) (auto simp: task_start_ok dest: task_ok_start)
  qed
next
  case (CtxDrop i)
  then show ?thesis
    using task_ok_step [of "pc_tasks c" "OpDrop i"] task_step_open [of "pc_tasks c" "OpDrop i"]
    by (intro exI [of _ "task_step (OpDrop i) (pc_tasks c)"]) (simp del: task_step.simps)
next
  case (CtxRequestCancel i)
  then show ?thesis
    using task_ok_step [of "pc_tasks c" "OpRequestCancel i"]
      task_step_open [of "pc_tasks c" "OpRequestCancel i"]
    by (intro exI [of _ "task_step (OpRequestCancel i) (pc_tasks c)"]) (simp del: task_step.simps)
qed

lemma context_steps_shape:
  "\<exists>w. fold context_step ops c = c\<lparr>pc_tasks := w\<rparr> \<and> (task_ok (pc_tasks c) \<longrightarrow> task_ok w)
     \<and> (\<not> ti_accepting (tw_inner (pc_tasks c)) \<longrightarrow> \<not> ti_accepting (tw_inner w))"
proof (induction ops arbitrary: c)
  case Nil
  then show ?case by (intro exI [of _ "pc_tasks c"]) simp
next
  case (Cons op ops)
  obtain w where w: "context_step op c = c\<lparr>pc_tasks := w\<rparr>" "task_ok (pc_tasks c) \<longrightarrow> task_ok w"
      "\<not> ti_accepting (tw_inner (pc_tasks c)) \<longrightarrow> \<not> ti_accepting (tw_inner w)"
    using context_step_shape by blast
  from Cons.IH [of "c\<lparr>pc_tasks := w\<rparr>"] w show ?case by auto
qed

lemma context_state_tasks [simp]: "context_state (c\<lparr>pc_tasks := w\<rparr>) = context_state c"
  by (simp add: context_state_def)

lemma context_state_raw [simp]: "context_state (c\<lparr>pc_state := state_raw s\<rparr>) = s"
  by (simp add: context_state_def)

lemma steps_state [simp]: "context_state (fold context_step ops c) = context_state c"
  using context_steps_shape [of ops c] by auto

lemma steps_same: "same_plugin c (fold context_step ops c)"
  using context_steps_shape [of ops c] by (auto simp: same_plugin_def)

lemma steps_closed: "closed c \<Longrightarrow> closed (fold context_step ops c)"
  using context_steps_shape [of ops c] by (auto simp: closed_def)

lemma steps_ok: "context_ok c \<Longrightarrow> context_ok (fold context_step ops c)"
  using context_steps_shape [of ops c] by (auto simp: context_ok_def)

lemma same_plugin_refl [simp]: "same_plugin c c"
  by (simp add: same_plugin_def)

lemma same_plugin_trans: "same_plugin a b \<Longrightarrow> same_plugin b c \<Longrightarrow> same_plugin a c"
  by (simp add: same_plugin_def)

lemma stop_tasks_simps [simp]:
  "closed (stop_tasks c)" "same_plugin c (stop_tasks c)"
  "context_state (stop_tasks c) = context_state c"
  "task_ok (pc_tasks c) \<Longrightarrow> task_ok (pc_tasks (stop_tasks c))"
  by (simp_all add: closed_def stop_tasks_def same_plugin_def task_ok_cancel_all cancel_all_def)
    (simp_all add: task_ok_cancel_all flip: cancel_all_def)

lemma mark_unloaded_simps [simp]:
  "closed (mark_unloaded c)" "same_plugin c (mark_unloaded c)" "context_state (mark_unloaded c) = Unloaded"
  "task_ok (pc_tasks c) \<Longrightarrow> task_ok (pc_tasks (mark_unloaded c))"
  using stop_tasks_simps [of c] by (simp_all add: mark_unloaded_def closed_def same_plugin_def)

lemma raw_state: "pc_state c = state_raw s \<Longrightarrow> context_state c = s"
  by (simp add: context_state_def)

lemma transition_iff:
  "fst (context_transition fr to c) \<longleftrightarrow> pc_state c = state_raw fr"
  "snd (context_transition fr to c) =
     (if pc_state c = state_raw fr then c\<lparr>pc_state := state_raw to\<rparr> else c)"
  by (simp_all add: context_transition_def)

lemma transition_same [simp]: "same_plugin c (snd (context_transition fr to c))"
  by (simp add: transition_iff same_plugin_def)

lemma transition_closed [simp]: "closed (snd (context_transition fr to c)) \<longleftrightarrow> closed c"
  by (simp add: transition_iff closed_def)

lemma transition_tasks [simp]: "pc_tasks (snd (context_transition fr to c)) = pc_tasks c"
  by (simp add: transition_iff)

lemma new_context_ok [simp]: "context_ok (context_new p cs gs)"
  by (simp add: context_ok_def context_new_def context_state_def)

section \<open>Records\<close>

lemma with_context_simps [simp]:
  "ph_registry (with_context i f host) = ph_registry host"
  "ph_phase (with_context i f host) = ph_phase host"
  "ph_policy (with_context i f host) = ph_policy host"
  "ph_storage (with_context i f host) = ph_storage host"
  "ph_db (with_context i f host) = ph_db host"
  "ph_migrator (with_context i f host) = ph_migrator host"
  "ph_catalog (with_context i f host) = ph_catalog host"
  "ph_failures (with_context i f host) = ph_failures host"
  "ph_registration_failures (with_context i f host) = ph_registration_failures host"
  "length (ph_records (with_context i f host)) = length (ph_records host)"
  by (simp_all add: with_context_def)

lemma with_context_id [simp]: "with_context i id host = host"
  by (simp add: with_context_def)

lemma with_context_records:
  "ph_records (with_context i f host) = (ph_records host)
     [i := (ph_records host ! i)\<lparr>pr_context := f (pr_context (ph_records host ! i))\<rparr>]"
  by (simp add: with_context_def)

text \<open>Without the plugin \<open>p\<close>: the registry after \<open>unregister_plugin\<close>.\<close>

abbreviation without_plugin :: "plugin_id \<Rightarrow> tool_registry \<Rightarrow> tool_registry" where
  "without_plugin p tools \<equiv> snd (unregister_plugin (as_str p) tools)"

lemma without_plugin_eq: "without_plugin p tools = filter (\<lambda>e. \<not> of_plugin (as_str p) e) tools"
proof (cases "unregister_plugin (as_str p) tools")
  case (Pair b tools')
  then show ?thesis by (auto simp: unregister_plugin_def Let_def split: if_splits)
qed

section \<open>Initialising one plugin\<close>

text \<open>\<open>r'\<close> is what became of the record \<open>r\<close>: ready, or failed with its task registry closed.\<close>

definition initialized :: "plugin_record \<Rightarrow> plugin_record \<Rightarrow> bool" where
  "initialized r r' \<longleftrightarrow>
     pr_plugin r' = pr_plugin r \<and> same_plugin (pr_context r) (pr_context r')
     \<and> (context_ok (pr_context r) \<longrightarrow> context_ok (pr_context r'))
     \<and> (pc_state (pr_context r') = state_raw Ready
        \<or> pc_state (pr_context r') = state_raw StFailed \<and> closed (pr_context r'))"

text \<open>The states between the two transitions of the \<open>i\<close>-th record: only this record differs.\<close>

definition in_progress :: "nat \<Rightarrow> 's plugin_host \<Rightarrow> 's plugin_host \<Rightarrow> bool" where
  "in_progress i host h \<longleftrightarrow>
     i < length (ph_records host)
     \<and> (\<exists>r. ph_records h = (ph_records host)[i := r]
        \<and> pr_plugin r = pr_plugin (ph_records host ! i)
        \<and> same_plugin (pr_context (ph_records host ! i)) (pr_context r)
        \<and> (context_ok (pr_context (ph_records host ! i)) \<longrightarrow> task_ok (pc_tasks (pr_context r)))
        \<and> pc_state (pr_context r) = state_raw Initializing)
     \<and> ph_registry h = ph_registry host \<and> ph_catalog h = ph_catalog host
     \<and> ph_phase h = ph_phase host"

text \<open>What one initialisation did, with the record \<open>r'\<close> it left behind.\<close>

definition init_effect ::
  "nat \<Rightarrow> 's plugin_host \<Rightarrow> plugin_lifecycle_report \<Rightarrow> 's plugin_host \<times> plugin_lifecycle_report \<Rightarrow>
     plugin_record \<Rightarrow> bool" where
  "init_effect i host rep hr r' \<longleftrightarrow>
     initialized (ph_records host ! i) r'
     \<and> ph_records (fst hr) = (ph_records host)[i := r']
     \<and> lr_succeeded (snd hr) = lr_succeeded rep @ (if record_state r' = Ready then [record_id r'] else [])
     \<and> map lf_plugin_id (lr_failures (snd hr)) =
         map lf_plugin_id (lr_failures rep) @ (if record_state r' = StFailed then [record_id r'] else [])
     \<and> ph_registry (fst hr) =
         (if record_state r' = StFailed then without_plugin (record_id r') (ph_registry host)
          else ph_registry host)
     \<and> ph_catalog (fst hr) = ph_catalog host
     \<and> ph_phase (fst hr) = ph_phase host"

lemma in_progress_start:
  assumes "i < length (ph_records host)"
    and "pc_state (pr_context (ph_records host ! i)) = state_raw Registered"
  shows "in_progress i host (with_context i (\<lambda>c. snd (context_transition Registered Initializing c)) host)"
  using assms by (auto simp: in_progress_def with_context_records transition_iff same_plugin_def context_ok_def)

lemma in_progress_db: "in_progress i host h \<Longrightarrow> in_progress i host (h\<lparr>ph_db := db\<rparr>)"
  by (simp add: in_progress_def)

lemma in_progress_context:
  assumes "in_progress i host h"
    and "\<And>c. same_plugin c (f c)" and "\<And>c. pc_state (f c) = pc_state c"
    and "\<And>c. task_ok (pc_tasks c) \<Longrightarrow> task_ok (pc_tasks (f c))"
  shows "in_progress i host (with_context i f h)"
proof -
  obtain r where r: "ph_records h = (ph_records host)[i := r]"
      "pr_plugin r = pr_plugin (ph_records host ! i)"
      "same_plugin (pr_context (ph_records host ! i)) (pr_context r)"
      "context_ok (pr_context (ph_records host ! i)) \<longrightarrow> task_ok (pc_tasks (pr_context r))"
      "pc_state (pr_context r) = state_raw Initializing" "i < length (ph_records host)"
    using assms(1) by (auto simp: in_progress_def)
  then have "ph_records (with_context i f h) = (ph_records host)[i := r\<lparr>pr_context := f (pr_context r)\<rparr>]"
    by (simp add: with_context_records)
  then show ?thesis
    using assms r unfolding in_progress_def
    by (auto intro!: exI [of _ "r\<lparr>pr_context := f (pr_context r)\<rparr>"] intro: same_plugin_trans)
qed

lemma init_failed_effect:
  assumes "in_progress i host h"
  shows "\<exists>r'. init_effect i host rep (initialization_failed i e (h, rep)) r'"
proof -
  obtain r where r: "ph_records h = (ph_records host)[i := r]"
      "pr_plugin r = pr_plugin (ph_records host ! i)"
      "same_plugin (pr_context (ph_records host ! i)) (pr_context r)"
      "context_ok (pr_context (ph_records host ! i)) \<longrightarrow> task_ok (pc_tasks (pr_context r))"
      "pc_state (pr_context r) = state_raw Initializing" "i < length (ph_records host)"
    and h: "ph_registry h = ph_registry host" "ph_catalog h = ph_catalog host" "ph_phase h = ph_phase host"
    using assms by (auto simp: in_progress_def)
  let ?c = "(stop_tasks (pr_context r))\<lparr>pc_state := state_raw StFailed\<rparr>"
  let ?r' = "r\<lparr>pr_context := ?c\<rparr>"
  have stop: "snd (context_transition Initializing StFailed (stop_tasks (pr_context r))) = ?c"
    using r(5) by (simp add: transition_iff stop_tasks_def)
  have nth: "ph_records h ! i = r" using r(1,6) by simp
  have same: "same_plugin (pr_context r) ?c" by (simp add: same_plugin_def stop_tasks_def)
  have c: "closed ?c" "task_ok (pc_tasks (pr_context r)) \<Longrightarrow> task_ok (pc_tasks ?c)"
    using stop_tasks_simps(1,4) [of "pr_context r"] by (simp_all add: closed_def)
  have "initialized (ph_records host ! i) ?r'"
    using r c same_plugin_trans [OF r(3) same]
    by (auto simp: initialized_def context_ok_def closed_def)
  then have "init_effect i host rep (initialization_failed i e (h, rep)) ?r'"
    using r h nth same by (simp add: init_effect_def initialization_failed_def Let_def stop
        with_context_records same_plugin_def)
  then show ?thesis ..
qed

lemma init_ready_effect:
  assumes "in_progress i host h" and "p = record_id (ph_records host ! i)"
  shows "\<exists>r'. init_effect i host rep
     (with_context i (\<lambda>c. snd (context_transition Initializing Ready c)) h,
      rep\<lparr>lr_succeeded := lr_succeeded rep @ [p]\<rparr>) r'"
proof -
  obtain r where r: "ph_records h = (ph_records host)[i := r]"
      "pr_plugin r = pr_plugin (ph_records host ! i)"
      "same_plugin (pr_context (ph_records host ! i)) (pr_context r)"
      "context_ok (pr_context (ph_records host ! i)) \<longrightarrow> task_ok (pc_tasks (pr_context r))"
      "pc_state (pr_context r) = state_raw Initializing" "i < length (ph_records host)"
    and h: "ph_registry h = ph_registry host" "ph_catalog h = ph_catalog host" "ph_phase h = ph_phase host"
    using assms(1) by (auto simp: in_progress_def)
  let ?r' = "r\<lparr>pr_context := (pr_context r)\<lparr>pc_state := state_raw Ready\<rparr>\<rparr>"
  have "initialized (ph_records host ! i) ?r'"
    using r by (auto simp: initialized_def context_ok_def same_plugin_def)
  then have "init_effect i host rep (with_context i (\<lambda>c. snd (context_transition Initializing Ready c)) h,
      rep\<lparr>lr_succeeded := lr_succeeded rep @ [p]\<rparr>) ?r'"
    using r h assms(2) by (simp add: init_effect_def with_context_records transition_iff same_plugin_def)
  then show ?thesis ..
qed

lemma prepare_context_install:
  assumes "prepare_context codecs r host = (Inr install, db)"
  shows "same_plugin c (install c)" "pc_state (install c) = pc_state c" "pc_tasks (install c) = pc_tasks c"
proof -
  have "install = (\<lambda>c. c) \<or> (\<exists>x y. install = install_snapshots x y)"
    using assms by (auto simp: prepare_context_def Let_def bind_s_ok split: option.splits if_splits)
  then show "same_plugin c (install c)" "pc_state (install c) = pc_state c" "pc_tasks (install c) = pc_tasks c"
    by (auto simp: install_snapshots_def same_plugin_def)
qed

lemma steps_raw: "pc_state (fold context_step ops c) = pc_state c"
  using context_steps_shape [of ops c] by auto

lemma steps_task_ok: "task_ok (pc_tasks c) \<Longrightarrow> task_ok (pc_tasks (fold context_step ops c))"
  using context_steps_shape [of ops c] by auto

lemma initialize_one_effect:
  assumes "i < length (ph_records host)"
    and "pc_state (pr_context (ph_records host ! i)) = state_raw Registered"
  shows "\<exists>r'. init_effect i host rep (initialize_one codecs i (host, rep)) r'"
proof -
  let ?r = "ph_records host ! i"
  let ?h1 = "with_context i (\<lambda>c. snd (context_transition Registered Initializing c)) host"
  obtain prepared db where prep: "prepare_context codecs ?r ?h1 = (prepared, db)" by force
  let ?h2 = "?h1\<lparr>ph_db := db\<rparr>"
  have h2: "in_progress i host ?h2" using assms by (intro in_progress_db in_progress_start)
  have start: "fst (context_transition Registered Initializing (pr_context ?r))"
    using assms(2) by (simp add: transition_iff)
  show ?thesis
  proof (cases prepared)
    case (Inl e)
    then have "initialize_one codecs i (host, rep) = initialization_failed i e (?h2, rep)"
      using start prep by (simp add: initialize_one_def Let_def)
    with init_failed_effect [OF h2] show ?thesis by simp
  next
    case (Inr install)
    let ?h3 = "with_context i install ?h2"
    obtain result calls where init: "sp_initialize (pr_plugin ?r) (pr_context (ph_records ?h3 ! i)) = (result, calls)"
      by force
    let ?h4 = "with_context i (fold context_step calls) ?h3"
    have h3: "in_progress i host ?h3"
      using prepare_context_install [OF prep [unfolded Inr]] by (intro in_progress_context [OF h2]) auto
    have h4: "in_progress i host ?h4"
      by (rule in_progress_context [OF h3]) (simp_all add: steps_same steps_raw steps_task_ok)
    show ?thesis
    proof (cases result)
      case (Inl e)
      then have "initialize_one codecs i (host, rep) = initialization_failed i e (?h4, rep)"
        using start prep init \<open>prepared = Inr install\<close> by (simp add: initialize_one_def Let_def)
      with init_failed_effect [OF h4] show ?thesis by simp
    next
      case (Inr u)
      then have "initialize_one codecs i (host, rep) =
          (with_context i (\<lambda>c. snd (context_transition Initializing Ready c)) ?h4,
           rep\<lparr>lr_succeeded := lr_succeeded rep @ [record_id ?r]\<rparr>)"
        using start prep init \<open>prepared = Inr install\<close> by (simp add: initialize_one_def Let_def)
      with init_ready_effect [OF h4 refl] show ?thesis by simp
    qed
  qed
qed

section \<open>Initialising all plugins\<close>

abbreviation raw_state_of :: "plugin_record \<Rightarrow> u8" where
  "raw_state_of r \<equiv> pc_state (pr_context r)"

text \<open>The loop after its first \<open>k\<close> iterations: \<open>done\<close> are the records it has handled.\<close>

definition init_progress ::
  "plugin_record list \<Rightarrow> tool_registry \<Rightarrow> nat \<Rightarrow> plugin_record list \<Rightarrow>
     's plugin_host \<times> plugin_lifecycle_report \<Rightarrow> bool" where
  "init_progress rs tools k handled hr \<longleftrightarrow>
     length handled = k \<and> ph_records (fst hr) = handled @ drop k rs
     \<and> list_all2 initialized (take k rs) handled
     \<and> lr_succeeded (snd hr) = map record_id (filter (\<lambda>r. record_state r = Ready) handled)
     \<and> map lf_plugin_id (lr_failures (snd hr)) =
         map record_id (filter (\<lambda>r. record_state r = StFailed) handled)
     \<and> ph_registry (fst hr) =
         fold (\<lambda>r. without_plugin (record_id r)) (filter (\<lambda>r. record_state r = StFailed) handled) tools"

lemma init_loop:
  assumes "\<forall>r\<in>set (ph_records host). raw_state_of r = state_raw Registered"
    and "k \<le> length (ph_records host)"
  shows "\<exists>handled. init_progress (ph_records host) (ph_registry host) k handled
       (fold (initialize_one codecs) [0..<k] (host, report_default))
     \<and> ph_catalog (fst (fold (initialize_one codecs) [0..<k] (host, report_default))) = ph_catalog host
     \<and> ph_phase (fst (fold (initialize_one codecs) [0..<k] (host, report_default))) = ph_phase host"
  using assms(2)
proof (induction k)
  case 0
  then show ?case by (intro exI [of _ "[]"]) (simp add: init_progress_def report_default_def)
next
  case (Suc k)
  let ?rs = "ph_records host"
  obtain h rep where hr: "fold (initialize_one codecs) [0..<k] (host, report_default) = (h, rep)" by force
  with Suc obtain handled where IH: "init_progress ?rs (ph_registry host) k handled (h, rep)"
      "ph_catalog h = ph_catalog host" "ph_phase h = ph_phase host"
    by auto
  then have rec: "ph_records h = handled @ drop k ?rs" and len: "length handled = k"
    by (simp_all add: init_progress_def)
  have k: "k < length (ph_records h)" "ph_records h ! k = ?rs ! k"
    using Suc.prems rec len by (simp_all add: nth_append)
  moreover have "raw_state_of (?rs ! k) = state_raw Registered" using assms(1) Suc.prems by simp
  ultimately obtain r' where r': "init_effect k h rep (initialize_one codecs k (h, rep)) r'"
    using initialize_one_effect [of k h rep codecs] by auto
  have step: "fold (initialize_one codecs) [0..<Suc k] (host, report_default) =
      initialize_one codecs k (h, rep)"
    by (simp add: hr)
  have "(handled @ drop k ?rs)[k := r'] = (handled @ [r']) @ drop (Suc k) ?rs"
    using Suc.prems len by (simp add: list_update_append flip: Cons_nth_drop_Suc)
  moreover have "list_all2 initialized (take (Suc k) ?rs) (handled @ [r'])"
    using IH(1) r' k(2) Suc.prems
    by (auto simp: init_progress_def init_effect_def take_Suc_conv_app_nth intro!: list_all2_appendI)
  ultimately have "init_progress ?rs (ph_registry host) (Suc k) (handled @ [r'])
      (initialize_one codecs k (h, rep))"
    using IH(1) r' len rec by (auto simp: init_progress_def init_effect_def)
  moreover have "ph_catalog (fst (initialize_one codecs k (h, rep))) = ph_catalog host"
    "ph_phase (fst (initialize_one codecs k (h, rep))) = ph_phase host"
    using r' IH by (simp_all add: init_effect_def)
  ultimately show ?case unfolding step by blast
qed

lemma without_plugins_eq:
  "fold (\<lambda>r. without_plugin (record_id r)) rs tools =
     filter (\<lambda>e. \<forall>r\<in>set rs. \<not> of_plugin (as_str (record_id r)) e) tools"
  by (induction rs arbitrary: tools) (simp_all add: without_plugin_eq conj_commute)

lemma initialize_all_effect:
  assumes "ph_phase host = PhRegistering"
    and "\<forall>r\<in>set (ph_records host). raw_state_of r = state_raw Registered"
    and "initialize_all codecs host = (report, host')"
  shows "list_all2 initialized (ph_records host) (ph_records host')
     \<and> lr_succeeded report = map record_id (filter (\<lambda>r. record_state r = Ready) (ph_records host'))
     \<and> map lf_plugin_id (lr_failures report) =
         map record_id (filter (\<lambda>r. record_state r = StFailed) (ph_records host'))
     \<and> ph_registry host' = filter (\<lambda>e. \<forall>r\<in>set (ph_records host').
           record_state r = StFailed \<longrightarrow> \<not> of_plugin (as_str (record_id r)) e) (ph_registry host)
     \<and> ph_catalog host' = ph_catalog host \<and> ph_phase host' = PhRunning"
proof -
  let ?h = "host\<lparr>ph_phase := PhRunning\<rparr>"
  let ?fold = "fold (initialize_one codecs) [0..<length (ph_records host)] (?h, report_default)"
  have res: "?fold = (host', report)"
    using assms(1,3) by (auto simp: initialize_all_def Let_def split: prod.splits)
  obtain handled where p: "init_progress (ph_records host) (ph_registry host)
      (length (ph_records host)) handled (host', report)"
      "ph_catalog host' = ph_catalog host" "ph_phase host' = PhRunning"
    using init_loop [of ?h "length (ph_records host)" codecs] assms(2) res by auto
  then have "ph_records host' = handled" by (simp add: init_progress_def)
  with p show ?thesis by (auto simp: init_progress_def without_plugins_eq intro!: filter_cong)
qed

section \<open>Shutting down\<close>

lemma ready_iff: "context_state c = Ready \<longleftrightarrow> pc_state c = state_raw Ready"
  by (auto simp: context_state_def state_from_raw_def state_raw.simps split: if_splits)

definition unloaded :: "plugin_record \<Rightarrow> plugin_record \<Rightarrow> bool" where
  "unloaded r r' \<longleftrightarrow>
     pr_plugin r' = pr_plugin r \<and> same_plugin (pr_context r) (pr_context r')
     \<and> (context_ok (pr_context r) \<longrightarrow> context_ok (pr_context r'))
     \<and> pc_state (pr_context r') = state_raw Unloaded \<and> closed (pr_context r')"

text \<open>The context a shutdown callback gets, and whether the callback succeeds on it.\<close>

definition shutdown_succeeds :: "plugin_record \<Rightarrow> bool" where
  "shutdown_succeeds r \<longleftrightarrow>
     \<not> isl (fst (sp_shutdown (pr_plugin r)
        (stop_tasks ((pr_context r)\<lparr>pc_state := state_raw ShuttingDown\<rparr>))))"

definition shutdown_effect ::
  "nat \<Rightarrow> 's plugin_host \<Rightarrow> plugin_lifecycle_report \<Rightarrow> 's plugin_host \<times> plugin_lifecycle_report \<Rightarrow> bool" where
  "shutdown_effect i host rep hr \<longleftrightarrow>
     (let r = ph_records host ! i in
      (\<exists>r'. ph_records (fst hr) = (ph_records host)[i := r'] \<and> unloaded r r')
      \<and> ph_registry (fst hr) = without_plugin (record_id r) (ph_registry host)
      \<and> ph_catalog (fst hr) = catalog_remove_plugin (as_str (record_id r)) (ph_catalog host)
      \<and> lr_succeeded (snd hr) = lr_succeeded rep
          @ (if record_state r = Ready \<and> shutdown_succeeds r then [record_id r] else [])
      \<and> map lf_plugin_id (lr_failures (snd hr)) = map lf_plugin_id (lr_failures rep)
          @ (if record_state r = Ready \<and> \<not> shutdown_succeeds r then [record_id r] else []))"

lemma unloadedI:
  assumes "pr_plugin r' = pr_plugin r" and "same_plugin (pr_context r) c"
    and "context_ok (pr_context r) \<Longrightarrow> task_ok (pc_tasks c)" and "pr_context r' = mark_unloaded c"
  shows "unloaded r r'"
  using assms same_plugin_trans [OF assms(2) mark_unloaded_simps(2)]
  by (auto simp: unloaded_def context_ok_def closed_def [symmetric])
    (simp add: mark_unloaded_def)

lemma shutdown_one_effect:
  assumes i: "i < length (ph_records host)"
  shows "shutdown_effect i host rep (shutdown_one i (host, rep))"
proof -
  let ?r = "ph_records host ! i"
  let ?c = "stop_tasks ((pr_context ?r)\<lparr>pc_state := state_raw ShuttingDown\<rparr>)"
  obtain result calls where cb: "sp_shutdown (pr_plugin ?r) ?c = (result, calls)" by force
  show ?thesis
  proof (cases "record_state ?r = Ready")
    case True
    then have raw: "pc_state (pr_context ?r) = state_raw Ready" by (simp add: ready_iff)
    let ?d = "fold context_step calls ?c"
    have same: "same_plugin (pr_context ?r) ?c"
      by (simp add: same_plugin_def stop_tasks_def)
    have task: "context_ok (pr_context ?r) \<Longrightarrow> task_ok (pc_tasks ?d)"
      by (intro steps_task_ok) (simp add: context_ok_def stop_tasks_def task_ok_cancel_all)
    have rec: "ph_records (fst (shutdown_one i (host, rep))) =
        (ph_records host)[i := ?r\<lparr>pr_context := mark_unloaded ?d\<rparr>]"
      using i True raw cb
      by (simp add: shutdown_one_def Let_def transition_iff with_context_records split: sum.split)
    moreover have "unloaded ?r (?r\<lparr>pr_context := mark_unloaded ?d\<rparr>)"
      using same_plugin_trans [OF same steps_same] task by (intro unloadedI) auto
    ultimately show ?thesis
      using i True raw cb
      by (auto simp: shutdown_effect_def Let_def shutdown_one_def transition_iff with_context_records
          shutdown_succeeds_def split: sum.split)
  next
    case False
    have "ph_records (fst (shutdown_one i (host, rep))) =
        (ph_records host)[i := ?r\<lparr>pr_context := mark_unloaded (pr_context ?r)\<rparr>]"
      using False by (simp add: shutdown_one_def Let_def with_context_records)
    moreover have "unloaded ?r (?r\<lparr>pr_context := mark_unloaded (pr_context ?r)\<rparr>)"
      by (rule unloadedI [of _ _ "pr_context ?r"]) (simp_all add: context_ok_def)
    ultimately show ?thesis
      using False by (auto simp: shutdown_effect_def Let_def shutdown_one_def)
  qed
qed

lemma shutdown_loop:
  assumes "distinct is" and "set is \<subseteq> {..<length (ph_records host)}"
    and "fold shutdown_one is (host, rep) = (host', rep')"
  shows "length (ph_records host') = length (ph_records host)
     \<and> (\<forall>j<length (ph_records host).
          if j \<in> set is then unloaded (ph_records host ! j) (ph_records host' ! j)
          else ph_records host' ! j = ph_records host ! j)
     \<and> ph_registry host' = filter (\<lambda>e. \<forall>j\<in>set is. \<not> of_plugin (as_str (record_id (ph_records host ! j))) e)
          (ph_registry host)
     \<and> ph_catalog host' = filter (\<lambda>e. \<forall>j\<in>set is. ce_plugin_id e \<noteq> record_id (ph_records host ! j))
          (ph_catalog host)
     \<and> lr_succeeded rep' = lr_succeeded rep @ map (\<lambda>j. record_id (ph_records host ! j))
          (filter (\<lambda>j. record_state (ph_records host ! j) = Ready \<and> shutdown_succeeds (ph_records host ! j)) is)
     \<and> map lf_plugin_id (lr_failures rep') = map lf_plugin_id (lr_failures rep)
          @ map (\<lambda>j. record_id (ph_records host ! j))
          (filter (\<lambda>j. record_state (ph_records host ! j) = Ready \<and> \<not> shutdown_succeeds (ph_records host ! j)) is)"
  using assms
proof (induction "is" arbitrary: host rep)
  case Nil
  then show ?case by simp
next
  case (Cons i "is")
  obtain h r where hr: "shutdown_one i (host, rep) = (h, r)" by force
  have i: "i < length (ph_records host)" "i \<notin> set is" "distinct is" using Cons.prems(1,2) by auto
  have eff: "shutdown_effect i host rep (h, r)" using shutdown_one_effect [OF i(1)] hr by metis
  then obtain r' where r': "ph_records h = (ph_records host)[i := r']" "unloaded (ph_records host ! i) r'"
    by (auto simp: shutdown_effect_def Let_def)
  have others: "ph_records h ! j = ph_records host ! j" if "j \<in> set is" for j
    using r'(1) i(2) that by (metis nth_list_update_neq)
  have sub: "set is \<subseteq> {..<length (ph_records h)}" using Cons.prems(2) r'(1) by simp
  have run: "fold shutdown_one is (h, r) = (host', rep')" using Cons.prems(3) hr by simp
  note IH = Cons.IH [OF i(3) sub run]
  have nth_cong: "map (\<lambda>j. record_id (ph_records h ! j)) (filter (\<lambda>j. P (ph_records h ! j)) is) =
      map (\<lambda>j. record_id (ph_records host ! j)) (filter (\<lambda>j. P (ph_records host ! j)) is)" for P
  proof -
    have "filter (\<lambda>j. P (ph_records h ! j)) is = filter (\<lambda>j. P (ph_records host ! j)) is"
      using others by (intro filter_cong) auto
    then show ?thesis using others by (intro map_cong) auto
  qed
  have len: "length (ph_records h) = length (ph_records host)" using r'(1) by simp
  have recs: "if j \<in> set (i # is) then unloaded (ph_records host ! j) (ph_records host' ! j)
      else ph_records host' ! j = ph_records host ! j" if j: "j < length (ph_records host)" for j
  proof (cases "j = i")
    case True
    then have "ph_records host' ! j = r'" using IH i j len r'(1) by auto
    with True r'(2) show ?thesis by simp
  next
    case False
    then have "ph_records h ! j = ph_records host ! j" using r'(1) by simp
    with False IH j len show ?thesis by (metis set_ConsD list.set_intros(2))
  qed
  have "ph_registry host' = filter (\<lambda>e. \<forall>j\<in>set is. \<not> of_plugin (as_str (record_id (ph_records host ! j))) e)
      (without_plugin (record_id (ph_records host ! i)) (ph_registry host))"
    using IH eff others by (simp add: shutdown_effect_def Let_def)
  then have reg: "ph_registry host' = filter (\<lambda>e. \<forall>j\<in>set (i # is).
      \<not> of_plugin (as_str (record_id (ph_records host ! j))) e) (ph_registry host)"
    by (simp add: without_plugin_eq conj_commute)
  have "ph_catalog host' = filter (\<lambda>e. \<forall>j\<in>set is. ce_plugin_id e \<noteq> record_id (ph_records host ! j))
      (catalog_remove_plugin (as_str (record_id (ph_records host ! i))) (ph_catalog host))"
    using IH eff others by (simp add: shutdown_effect_def Let_def)
  then have cat: "ph_catalog host' = filter (\<lambda>e. \<forall>j\<in>set (i # is).
      ce_plugin_id e \<noteq> record_id (ph_records host ! j)) (ph_catalog host)"
    by (auto simp: catalog_remove_plugin_def intro!: filter_cong plugin_id.expand)
  have reports: "lr_succeeded r = lr_succeeded rep
      @ (if record_state (ph_records host ! i) = Ready \<and> shutdown_succeeds (ph_records host ! i)
         then [record_id (ph_records host ! i)] else [])"
    "map lf_plugin_id (lr_failures r) = map lf_plugin_id (lr_failures rep)
      @ (if record_state (ph_records host ! i) = Ready \<and> \<not> shutdown_succeeds (ph_records host ! i)
         then [record_id (ph_records host ! i)] else [])"
    using eff by (simp_all add: shutdown_effect_def Let_def)
  have "lr_succeeded rep' = lr_succeeded r @ map (\<lambda>j. record_id (ph_records host ! j))
      (filter (\<lambda>j. record_state (ph_records host ! j) = Ready \<and> shutdown_succeeds (ph_records host ! j)) is)"
    using IH nth_cong [of "\<lambda>x. record_state x = Ready \<and> shutdown_succeeds x"] by simp
  moreover have "map lf_plugin_id (lr_failures rep') = map lf_plugin_id (lr_failures r)
      @ map (\<lambda>j. record_id (ph_records host ! j))
      (filter (\<lambda>j. record_state (ph_records host ! j) = Ready \<and> \<not> shutdown_succeeds (ph_records host ! j)) is)"
    using IH nth_cong [of "\<lambda>x. record_state x = Ready \<and> \<not> shutdown_succeeds x"] by simp
  ultimately show ?case using recs reg cat IH len reports by simp
qed

lemma shutdown_all_effect:
  assumes "ph_phase host \<notin> {PhShuttingDown, PhStopped}" and "shutdown_all host = (report, host')"
  shows "list_all2 unloaded (ph_records host) (ph_records host')
     \<and> ph_phase host' = PhStopped
     \<and> ph_registry host' = filter (\<lambda>e. \<forall>r\<in>set (ph_records host).
          \<not> of_plugin (as_str (record_id r)) e) (ph_registry host)
     \<and> ph_catalog host' = filter (\<lambda>e. \<forall>r\<in>set (ph_records host). ce_plugin_id e \<noteq> record_id r)
          (ph_catalog host)
     \<and> lr_succeeded report = map record_id
          (filter (\<lambda>r. record_state r = Ready \<and> shutdown_succeeds r) (rev (ph_records host)))
     \<and> map lf_plugin_id (lr_failures report) = map record_id
          (filter (\<lambda>r. record_state r = Ready \<and> \<not> shutdown_succeeds r) (rev (ph_records host)))"
proof -
  let ?rs = "ph_records host" and ?h = "host\<lparr>ph_phase := PhShuttingDown\<rparr>"
  let ?is = "rev [0..<length (ph_records host)]"
  obtain h where run: "fold shutdown_one ?is (?h, report_default) = (h, report)"
    and host': "host' = h\<lparr>ph_phase := PhStopped\<rparr>"
    using assms by (auto simp: shutdown_all_def Let_def split: prod.splits)
  have L: "distinct ?is" "set ?is \<subseteq> {..<length (ph_records ?h)}" by auto
  note loop = shutdown_loop [OF L run]
  have idx: "map (\<lambda>j. record_id (?rs ! j)) (filter (\<lambda>j. P (?rs ! j)) ?is) =
      map record_id (filter P (rev ?rs))" for P
  proof -
    have "map ((!) ?rs) ?is = rev ?rs" by (simp add: map_nth flip: rev_map)
    then have "filter P (rev ?rs) = map ((!) ?rs) (filter (P \<circ> (!) ?rs) ?is)"
      by (metis filter_map)
    then show ?thesis by (simp add: comp_def)
  qed
  have all: "(\<forall>j\<in>set ?is. Q (?rs ! j)) \<longleftrightarrow> (\<forall>r\<in>set ?rs. Q r)" for Q
    unfolding all_set_conv_all_nth [of ?rs] by auto
  have phase: "ph_phase host' = PhStopped" "ph_records host' = ph_records h"
    "ph_registry host' = ph_registry h" "ph_catalog host' = ph_catalog h"
    by (simp_all add: host')
  have recs: "list_all2 unloaded ?rs (ph_records h)"
    using loop by (simp add: list_all2_conv_all_nth)
  have "ph_registry h = filter (\<lambda>e. \<forall>j\<in>set ?is. \<not> of_plugin (as_str (record_id (?rs ! j))) e)
      (ph_registry host)"
    using loop by simp
  then have reg: "ph_registry h = filter (\<lambda>e. \<forall>r\<in>set ?rs. \<not> of_plugin (as_str (record_id r)) e)
      (ph_registry host)"
    unfolding all [where Q = "\<lambda>r. \<not> of_plugin (as_str (record_id r)) e" for e] .
  have "ph_catalog h = filter (\<lambda>e. \<forall>j\<in>set ?is. ce_plugin_id e \<noteq> record_id (?rs ! j)) (ph_catalog host)"
    using loop by simp
  then have cat: "ph_catalog h = filter (\<lambda>e. \<forall>r\<in>set ?rs. ce_plugin_id e \<noteq> record_id r)
      (ph_catalog host)"
    unfolding all [where Q = "\<lambda>r. ce_plugin_id e \<noteq> record_id r" for e] .
  have "lr_succeeded report = map record_id
      (filter (\<lambda>r. record_state r = Ready \<and> shutdown_succeeds r) (rev ?rs))"
    using loop idx [of "\<lambda>r. record_state r = Ready \<and> shutdown_succeeds r"]
    by (simp add: report_default_def)
  moreover have "map lf_plugin_id (lr_failures report) = map record_id
      (filter (\<lambda>r. record_state r = Ready \<and> \<not> shutdown_succeeds r) (rev ?rs))"
    using loop idx [of "\<lambda>r. record_state r = Ready \<and> \<not> shutdown_succeeds r"]
    by (simp add: report_default_def)
  ultimately show ?thesis using phase recs reg cat by simp
qed

section \<open>Executing an entry\<close>

text \<open>An execution, like any call of a plugin, changes nothing but the task registry of one context.\<close>

definition tasks_only :: "plugin_record \<Rightarrow> plugin_record \<Rightarrow> bool" where
  "tasks_only r r' \<longleftrightarrow>
     (\<exists>w. r' = r\<lparr>pr_context := (pr_context r)\<lparr>pc_tasks := w\<rparr>\<rparr>
        \<and> (task_ok (pc_tasks (pr_context r)) \<longrightarrow> task_ok w)
        \<and> (closed (pr_context r) \<longrightarrow> \<not> ti_accepting (tw_inner w)))"

definition host_tasks_only :: "'s plugin_host \<Rightarrow> 's plugin_host \<Rightarrow> bool" where
  "host_tasks_only host host' \<longleftrightarrow>
     list_all2 tasks_only (ph_records host) (ph_records host')
     \<and> host' = host\<lparr>ph_records := ph_records host'\<rparr>"

lemma tasks_only_refl [simp]: "tasks_only r r"
  unfolding tasks_only_def by (rule exI [of _ "pc_tasks (pr_context r)"]) (simp add: closed_def)

lemma tasks_only_trans: "tasks_only a b \<Longrightarrow> tasks_only b c \<Longrightarrow> tasks_only a c"
  unfolding tasks_only_def by (auto simp: closed_def)

lemma host_tasks_only_refl [simp]: "host_tasks_only host host"
  by (simp add: host_tasks_only_def list.rel_refl)

lemma host_tasks_only_trans:
  assumes "host_tasks_only a b" and "host_tasks_only b c"
  shows "host_tasks_only a c"
proof -
  have "list_all2 tasks_only (ph_records a) (ph_records c)"
    using assms by (auto simp: host_tasks_only_def intro: list_all2_trans [OF tasks_only_trans])
  moreover have "c = a\<lparr>ph_records := ph_records c\<rparr>"
    using assms unfolding host_tasks_only_def by (metis plugin_host.update_convs(2) plugin_host.surjective)
  ultimately show ?thesis by (simp add: host_tasks_only_def)
qed

lemma with_context_tasks_only:
  assumes "i < length (ph_records host)"
    and "\<exists>w. f (pr_context (ph_records host ! i)) = (pr_context (ph_records host ! i))\<lparr>pc_tasks := w\<rparr>
        \<and> (task_ok (pc_tasks (pr_context (ph_records host ! i))) \<longrightarrow> task_ok w)
        \<and> (closed (pr_context (ph_records host ! i)) \<longrightarrow> \<not> ti_accepting (tw_inner w))"
  shows "host_tasks_only host (with_context i f host)"
proof -
  have "tasks_only (ph_records host ! i)
      ((ph_records host ! i)\<lparr>pr_context := f (pr_context (ph_records host ! i))\<rparr>)"
    using assms(2) by (auto simp: tasks_only_def)
  then show ?thesis
    using assms(1) by (simp add: host_tasks_only_def with_context_def list_all2_conv_all_nth nth_list_update)
qed

lemma steps_tasks_only:
  "i < length (ph_records host) \<Longrightarrow> host_tasks_only host (with_context i (fold context_step ops) host)"
  using context_steps_shape by (intro with_context_tasks_only) (auto simp: closed_def)

lemma execute_tasks_only: "host_tasks_only host (snd (execute_entry now p entry_id input budget host))"
proof -
  have start: "host_tasks_only host (with_context i (\<lambda>_. c) host)"
    if i: "i < length (ph_records host)"
      and c: "context_start_task name (pr_context (ph_records host ! i)) = Inr (h, c)" for i c h name
  proof -
    obtain w where "task_start name (pc_tasks (pr_context (ph_records host ! i))) = Inr (h, w)"
        "c = (pr_context (ph_records host ! i))\<lparr>pc_tasks := w\<rparr>"
      using c by (auto simp: context_start_task_ok)
    then show ?thesis
      using i task_ok_start
      by (intro with_context_tasks_only exI [of _ w]) (auto simp: task_start_ok closed_def)
  qed
  have drop: "host_tasks_only h (with_context i (\<lambda>c. c\<lparr>pc_tasks := drop_handle t (pc_tasks c)\<rparr>) h)"
    if "i < length (ph_records h)" for i t and h :: "'a plugin_host"
    using that task_ok_drop
    by (intro with_context_tasks_only exI [of _ "drop_handle t (pc_tasks (pr_context (ph_records h ! i)))"])
      (auto simp: closed_def drop_handle_def)
  show ?thesis
  proof (cases "position (\<lambda>r. as_str (record_id r) = p) (ph_records host)")
    case None
    then show ?thesis by (simp add: execute_entry_def)
  next
    case (Some i)
    then have i: "i < length (ph_records host)" by (rule position_split(3))
    let ?c = "pr_context (ph_records host ! i)"
    have ran: "host_tasks_only host
        (with_context i (fold context_step calls) (with_context i (\<lambda>_. c) host))"
      if "context_start_task name ?c = Inr (t, c)" for name t c calls
      by (rule host_tasks_only_trans [OF start [OF i that] steps_tasks_only]) (simp add: i)
    have dropped: "host_tasks_only host
        (with_context i (\<lambda>c. c\<lparr>pc_tasks := drop_handle t (pc_tasks c)\<rparr>)
          (with_context i (fold context_step calls) (with_context i (\<lambda>_. c) host)))"
      if "context_start_task name ?c = Inr (t', c)" for name t t' c calls
      by (rule host_tasks_only_trans [OF ran [OF that] drop]) (simp add: i)
    show ?thesis
      using Some by (auto simp: execute_entry_def Let_def intro: ran dropped
        split: option.split sum.split prod.split)
  qed
qed

end
