(* ===== verification/Registry_Properties.thy ===== *)
theory Registry_Properties
  imports Registry_Laws
begin

text \<open>
  The properties of the tool registry: what can be reached from the empty list, when a plugin
  group is accepted and how to take it back, where the drag-and-drop operations put a tool, and
  what a saved order or a saved visibility restores.
\<close>

section \<open>Reachable registries\<close>

inductive registry_reachable :: "tool_registry \<Rightarrow> bool" where
  start: "registry_reachable []"
| tool: "registry_reachable tools \<Longrightarrow> registry_reachable (register_tool tool tools)"
| group: "registry_reachable tools \<Longrightarrow> register_plugin_entries d ts tools = Inr tools' \<Longrightarrow>
    registry_reachable tools'"
| builtin: "registry_reachable tools \<Longrightarrow> register_builtin tool tools = Inr tools' \<Longrightarrow>
    registry_reachable tools'"
| step: "registry_reachable tools \<Longrightarrow> registry_reachable (snd (registry_step tools e))"
| saved_order: "registry_reachable tools \<Longrightarrow> registry_reachable (snd (apply_order ids tools))"
| saved_visibility: "registry_reachable tools \<Longrightarrow> registry_reachable (snd (apply_visibility pref tools))"

lemma apply_visibility_one_inv:
  "registry_inv (snd s) \<Longrightarrow> registry_inv (snd (apply_visibility_one pref i s))"
  using registry.inv_step [of _ "OpSetHome i b" for b] registry.inv_step [of _ "OpSetSidebar i b" for b]
  by (auto simp: apply_visibility_one_def Let_def split: prod.splits)
    (metis registry_step.simps(3,4) snd_conv)+

lemma apply_visibility_inv: "registry_inv tools \<Longrightarrow> registry_inv (snd (apply_visibility pref tools))"
proof -
  have "registry_inv (snd s) \<Longrightarrow> registry_inv (snd (fold (apply_visibility_one pref) is s))" for "is" s
    by (induction "is" arbitrary: s) (simp_all add: apply_visibility_one_inv)
  then show "registry_inv tools \<Longrightarrow> ?thesis" by (simp add: apply_visibility_def)
qed

lemma register_builtin_inv:
  "registry_inv tools \<Longrightarrow> register_builtin tool tools = Inr tools' \<Longrightarrow> registry_inv tools'"
  by (auto simp: register_builtin_def register_plugin_def intro: register_plugin_entries_inv)

definition sample_tool :: "string \<Rightarrow> tool_meta" where
  "sample_tool i = \<lparr>tm_id = i, tm_name = ''Tool'', tm_description = [], tm_icon = None\<rparr>"

definition sample_tools :: tool_registry where
  "sample_tools = register_tool (sample_tool ''c'') (register_tool (sample_tool ''b'')
     (register_tool (sample_tool ''a'') []))"

lemma sample_tools_reachable: "registry_reachable sample_tools"
  unfolding sample_tools_def by (intro registry_reachable.intros)

text \<open>C1. Every registry reachable from the empty one by registering tools, plugin groups and
  built-in tools, by removing a plugin, toggling visibility, reordering or applying saved
  preferences has pairwise distinct tool ids, and an entry that belongs to a plugin belongs to a
  valid manifest that declares its id, one manifest per plugin id.\<close>
theorem registry_reachable_inv: "registry_reachable tools \<Longrightarrow> registry_inv tools"
  by (induction rule: registry_reachable.induct)
    (blast intro: registry_inv_empty register_tool_inv register_plugin_entries_inv
      register_builtin_inv registry_step_inv apply_order_inv apply_visibility_inv)+

lemma registry_reachable_inv_witness: "registry_inv sample_tools \<and> length sample_tools = 3"
  using registry_reachable_inv [OF sample_tools_reachable]
  by (simp add: sample_tools_def register_tool_def sample_tool_def)


text \<open>In a registry that satisfies the invariant, an operation that answers \<open>false\<close> left the
  list unchanged, so a run of operations that all answer \<open>false\<close> ends where it started.\<close>
theorem silent_runs_change_nothing:
  assumes "registry_inv tools" and "list_all (\<lambda>e. \<not> fst (registry_step tools e)) es"
  shows "fold (\<lambda>e tools. snd (registry_step tools e)) es tools = tools"
  using assms by (intro registry.run_unchanged) (simp_all add: list_all_iff)

lemma silent_runs_change_nothing_witness:
  "fold (\<lambda>e tools. snd (registry_step tools e))
     [OpReorder ''a'' ''b'' True, OpSetHome ''b'' True, OpMoveToEnd ''c''] sample_tools = sample_tools"
proof (rule silent_runs_change_nothing)
  show "registry_inv sample_tools"
    by (simp add: sample_tools_def register_tool_inv)
  show "list_all (\<lambda>e. \<not> fst (registry_step sample_tools e))
      [OpReorder ''a'' ''b'' True, OpSetHome ''b'' True, OpMoveToEnd ''c'']"
    by code_simp
qed

section \<open>Plugin groups\<close>

definition plugin_ids :: "tool_registry \<Rightarrow> plugin_id set" where
  "plugin_ids tools = {p. \<exists>e\<in>set tools. map_option pd_id (te_plugin e) = Some p}"

text \<open>A plugin group is accepted exactly when the manifest is valid, the tools are the
  manifest's entries (each once, in any order), the plugin id is new, and no entry id is taken.\<close>
theorem plugin_group_accepted_iff:
  "(\<exists>tools'. register_plugin_entries d ts tools = Inr tools') \<longleftrightarrow>
     wf_descriptor CURRENT_PLUGIN_API_VERSION d
     \<and> distinct (map tm_id ts) \<and> tm_id ` set ts = ed_id ` set (entry_descriptors d)
     \<and> pd_id d \<notin> plugin_ids tools
     \<and> set (order tools) \<inter> ed_id ` set (entry_descriptors d) = {}"
  by (auto simp: register_plugin_entries_ok order_def plugin_ids_def)

text \<open>Registering a plugin group appends its tools in the manifest's order and touches nothing
  else, and unregistering the plugin gives back exactly the list from before.\<close>
theorem plugin_group_roundtrip:
  assumes "register_plugin_entries d ts tools = Inr tools'"
  shows "order tools' = order tools @ map ed_id (entry_descriptors d)
     \<and> take (length tools) tools' = tools
     \<and> set (drop (length tools) tools') \<subseteq> plugin_entry d ` set ts
     \<and> unregister_plugin (as_str (pd_id d)) tools' = (True, tools)"
proof (intro conjI)
  have tools': "tools' = tools @ map (plugin_entry d) (order_tools (entry_descriptors d) ts)"
    using assms by (simp add: register_plugin_entries_ok)
  show "order tools' = order tools @ map ed_id (entry_descriptors d)"
    using assms by (rule register_plugin_entries_ids)
  show "take (length tools) tools' = tools" by (simp add: tools')
  show "set (drop (length tools) tools') \<subseteq> plugin_entry d ` set ts"
    using set_order_tools by (auto simp: tools')
  show "unregister_plugin (as_str (pd_id d)) tools' = (True, tools)"
    using assms by (rule register_then_unregister)
qed

definition sample_plugin :: plugin_descriptor where
  "sample_plugin = with_entries [entry_new ''p.one'' ''One'', entry_new ''p.two'' ''Two'']
     (descriptor_new (PluginId ''p'') ''P'' ''p.one'')"

lemma sample_entries:
  "map ed_id (entry_descriptors sample_plugin) = [''p.one'', ''p.two'']"
  "ed_id ` set (entry_descriptors sample_plugin) = {''p.one'', ''p.two''}"
  by (simp_all add: sample_plugin_def with_entries_def descriptor_new_def entry_descriptors_def
      entry_new_def)

lemma sample_plugin_wf: "wf_descriptor CURRENT_PLUGIN_API_VERSION sample_plugin"
  by (simp add: wf_descriptor_def sample_plugin_def with_entries_def descriptor_new_def
      entry_descriptors_def entry_new_def wf_identifier_def wf_entry_def is_supported_by_def
      is_known_def KNOWN_PLUGIN_CAPABILITIES_def spec_text_def limits is_ascii_lowercase_def)

lemma plugin_group_roundtrip_witness:
  "\<exists>tools'. register_plugin_entries sample_plugin [sample_tool ''p.two'', sample_tool ''p.one'']
       sample_tools = Inr tools'
     \<and> order tools' = [''a'', ''b'', ''c'', ''p.one'', ''p.two'']
     \<and> unregister_plugin ''p'' tools' = (True, sample_tools)"
proof -
  obtain tools' where r: "register_plugin_entries sample_plugin
      [sample_tool ''p.two'', sample_tool ''p.one''] sample_tools = Inr tools'"
    by (auto simp: register_plugin_entries_ok sample_plugin_wf sample_tools_def
        register_tool_def sample_tool_def sample_entries)
  moreover have "order sample_tools = [''a'', ''b'', ''c'']" by code_simp
  ultimately show ?thesis
    using plugin_group_roundtrip [OF r]
    by (simp add: sample_entries) (simp add: sample_plugin_def with_entries_def descriptor_new_def)
qed

section \<open>Drag and drop\<close>

lemma position_Cons_remove:
  assumes i: "position P tools = Some i" and j: "position Q tools = Some j"
    and "\<And>x. P x \<Longrightarrow> \<not> Q x"
  shows "position Q (remove_at i tools) = Some (if j < i then j else j - 1)"
proof (cases "j < i")
  case True
  have "i < length tools" using position_split(3) [OF i] .
  then show ?thesis using True j by (auto simp: position_Some remove_at_def nth_append)
next
  case False
  moreover have "j \<noteq> i" using assms(3) position_split(2) [OF i] position_split(2) [OF j] by auto
  ultimately have "i < j" by simp
  then show ?thesis
    using j position_split(3) [OF i] by (auto simp: position_Some remove_at_def nth_append min_def)
qed

lemma reorder_to_target_insert:
  assumes "d \<noteq> t" and i: "position (\<lambda>e. te_enabled e \<and> tool_id e = d) tools = Some i"
    and j: "position (\<lambda>e. te_enabled e \<and> tool_id e = t) tools = Some j"
  shows "snd (reorder_to_target d t tools) = insert_at j (tools ! i) (remove_at i tools)"
proof -
  have r: "position (\<lambda>e. te_enabled e \<and> tool_id e = t) (remove_at i tools) =
      Some (if j < i then j else j - 1)"
    using assms(1) by (intro position_Cons_remove [OF i j]) auto
  have "j < length tools" "i < length tools" "te_enabled (tools ! j) \<and> tool_id (tools ! j) = t"
    using position_split(2,3) [OF j] position_split(3) [OF i] by auto
  moreover from this have "list_ex (\<lambda>e. te_enabled e \<and> tool_id e = t) tools"
    by (auto simp: list_ex_iff)
  moreover have "i \<noteq> j"
    using position_split(2) [OF i] position_split(2) [OF j] assms(1) by auto
  ultimately show ?thesis
    using assms r by (auto simp: reorder_to_target_def reorder_def Let_def length_remove_at min_def)
qed

text \<open>Dropping an enabled tool on another one puts it exactly where the target was, and every
  other tool keeps its place relative to the rest.\<close>
theorem drop_takes_target_slot:
  assumes "registry_inv tools" and "d \<noteq> t"
    and "position (\<lambda>e. te_enabled e \<and> tool_id e = d) tools = Some i"
    and "position (\<lambda>e. te_enabled e \<and> tool_id e = t) tools = Some j"
  shows "snd (reorder_to_target d t tools) ! j = tools ! i
     \<and> remove_at j (snd (reorder_to_target d t tools)) = remove_at i tools
     \<and> mset (snd (reorder_to_target d t tools)) = mset tools
     \<and> fst (reorder_to_target d t tools)"
proof (intro conjI)
  have i: "i < length tools" and j: "j < length tools"
    using position_split(3) assms(3,4) by blast+
  then have len: "j \<le> length (remove_at i tools)" by (simp add: length_remove_at)
  note res = reorder_to_target_insert [OF assms(2-4)]
  show slot: "snd (reorder_to_target d t tools) ! j = tools ! i"
    using len by (simp add: res nth_insert_at)
  show "remove_at j (snd (reorder_to_target d t tools)) = remove_at i tools"
    using len by (simp add: res remove_insert_at)
  show "mset (snd (reorder_to_target d t tools)) = mset tools"
    using i by (simp add: res mset_insert_at mset_remove_at)
  have "tool_id (tools ! i) \<noteq> tool_id (tools ! j)"
    using position_split(2) [OF assms(3)] position_split(2) [OF assms(4)] assms(2) by auto
  then have "snd (reorder_to_target d t tools) \<noteq> tools" using slot by metis
  then have "fst (registry_step tools (OpReorderToTarget d t))"
    using assms(1) by (intro registry.changed_reports) simp_all
  then show "fst (reorder_to_target d t tools)" by simp
qed

lemma drop_takes_target_slot_witness:
  "order (snd (reorder_to_target ''a'' ''c'' sample_tools)) = [''b'', ''c'', ''a'']
   \<and> snd (reorder_to_target ''a'' ''c'' sample_tools) ! 2 = sample_tools ! 0"
proof
  show "order (snd (reorder_to_target ''a'' ''c'' sample_tools)) = [''b'', ''c'', ''a'']"
    by code_simp
  have "registry_inv sample_tools" by (simp add: sample_tools_def register_tool_inv)
  moreover have "position (\<lambda>e. te_enabled e \<and> tool_id e = ''a'') sample_tools = Some 0"
    "position (\<lambda>e. te_enabled e \<and> tool_id e = ''c'') sample_tools = Some 2"
    by code_simp+
  ultimately show "snd (reorder_to_target ''a'' ''c'' sample_tools) ! 2 = sample_tools ! 0"
    using drop_takes_target_slot [of sample_tools "''a''" "''c''" 0 2] by simp
qed

text \<open>Dropping a tool at a slot of a surface (home page, sidebar, or all enabled tools) moves it
  to that slot among the tools the surface shows, or to the end when the slot is past them, and
  keeps the relative order of all other tools.\<close>
theorem drop_at_surface_slot:
  assumes "position (\<lambda>e. vis e \<and> tool_id e = d) tools = Some i"
  shows "filter vis (snd (reorder_to_index_where d k vis tools)) =
       insert_at (min k (length (filter vis (remove_at i tools)))) (tools ! i)
         (filter vis (remove_at i tools))
     \<and> (\<exists>n. snd (reorder_to_index_where d k vis tools) =
         insert_at n (tools ! i) (remove_at i tools))"
  using reorder_to_index_places [OF assms] assms
  by (auto simp: reorder_to_index_where_def Let_def)

lemma drop_at_surface_slot_witness:
  "order (filter te_home_visible (snd (reorder_to_index_where ''a'' 1 te_home_visible
     (snd (set_home_visible ''b'' False sample_tools))))) = [''c'', ''a'']"
proof -
  have p: "position (\<lambda>e. te_home_visible e \<and> tool_id e = ''a'')
      (snd (set_home_visible ''b'' False sample_tools)) = Some 0"
    by code_simp
  have "order (insert_at (min 1 (length (filter te_home_visible (remove_at 0
      (snd (set_home_visible ''b'' False sample_tools))))))
      (snd (set_home_visible ''b'' False sample_tools) ! 0)
      (filter te_home_visible (remove_at 0 (snd (set_home_visible ''b'' False sample_tools))))) =
      [''c'', ''a'']"
    by code_simp
  then show ?thesis using drop_at_surface_slot [OF p, of 1] by simp
qed

section \<open>Saved order\<close>

lemma sorted_split_filter:
  fixes f :: "'a \<Rightarrow> nat"
  shows "sorted (map f xs) \<Longrightarrow> filter (\<lambda>x. f x < n) xs @ filter (\<lambda>x. \<not> f x < n) xs = xs"
proof (induction xs)
  case Nil
  then show ?case by simp
next
  case (Cons a xs)
  show ?case
  proof (cases "f a < n")
    case True
    with Cons show ?thesis by simp
  next
    case False
    then have "filter (\<lambda>x. f x < n) xs = []" "filter (\<lambda>x. \<not> f x < n) xs = xs"
      using Cons.prems by (auto simp: filter_empty_conv filter_id_conv dest: order_trans)
    with False show ?thesis by simp
  qed
qed

lemma rank_bound: "distinct ids \<Longrightarrow> rank ids i < length ids \<longleftrightarrow> i \<in> set ids"
  by (metis in_set_conv_nth rank_less rank_notin less_irrefl)

lemma rank_inj: "distinct ids \<Longrightarrow> inj_on (rank ids) (set ids)"
  by (auto simp: inj_on_def in_set_conv_nth rank_less)

lemma map_rank: "distinct ids \<Longrightarrow> map (rank ids) ids = [0..<length ids]"
  by (rule nth_equalityI) (simp_all add: rank_less)

lemma ranked_ids_eq:
  assumes "distinct ids" and "distinct xs" and "set xs = set ys" and "set ys \<subseteq> set ids"
    and "distinct ys" and "sorted (map (rank ids) xs)" and "sorted (map (rank ids) ys)"
  shows "xs = ys"
proof -
  have inj: "inj_on (rank ids) (set ys)"
    using rank_inj [OF assms(1)] assms(4) by (rule inj_on_subset)
  then have "map (rank ids) xs = map (rank ids) ys"
    using assms by (intro sorted_distinct_set_unique) (auto simp: distinct_map)
  with inj show ?thesis using assms(3) by (metis inj_on_map_eq_map Un_absorb)
qed

text \<open>Applying a saved order of distinct ids lists the known ids in the saved order, then the
  tools the saved order does not name in their old order; the entries themselves are kept.\<close>
theorem saved_order_applied:
  assumes "registry_inv tools" and "distinct ids"
  shows "order (snd (apply_order ids tools)) =
       filter (\<lambda>i. i \<in> set (order tools)) ids @ filter (\<lambda>i. i \<notin> set ids) (order tools)
     \<and> mset (snd (apply_order ids tools)) = mset tools"
proof (cases "ids = []")
  case True
  then show ?thesis by (simp add: apply_order_def)
next
  case False
  let ?res = "snd (apply_order ids tools)"
  let ?r = "\<lambda>e. rank ids (tool_id e)"
  have sorted: "sorted (map ?r ?res)" using False by (rule apply_order_sorted)
  have perm: "mset ?res = mset tools" by (rule apply_order_mset)
  then have set_eq: "set ?res = set tools" by (rule mset_eq_setD)
  have dist: "distinct (order ?res)"
    using registry_inv_mset [OF assms(1) perm] by (simp add: registry_inv_def)
  have "filter (\<lambda>e. \<not> ?r e < length ids) ?res = filter (\<lambda>e. ?r e = length ids) ?res"
    using assms(2) by (intro filter_cong) (metis rank_bound rank_notin less_irrefl refl)+
  also have "\<dots> = filter (\<lambda>e. tool_id e \<notin> set ids) tools"
    using assms(2) unfolding apply_order_stable
    by (intro filter_cong) (metis rank_bound rank_notin less_irrefl refl)+
  finally have rest: "order (filter (\<lambda>e. \<not> ?r e < length ids) ?res) =
      filter (\<lambda>i. i \<notin> set ids) (order tools)"
    by (simp add: order_def filter_map comp_def)
  have known: "order (filter (\<lambda>e. ?r e < length ids) ?res) = filter (\<lambda>i. i \<in> set (order tools)) ids"
  proof (rule ranked_ids_eq [OF assms(2)])
    show "distinct (order (filter (\<lambda>e. ?r e < length ids) ?res))"
      using dist by (simp add: order_def distinct_map_filter)
    show "set (order (filter (\<lambda>e. ?r e < length ids) ?res)) =
        set (filter (\<lambda>i. i \<in> set (order tools)) ids)"
      using assms(2) set_eq by (auto simp: order_def rank_bound)
    show "sorted (map (rank ids) (order (filter (\<lambda>e. ?r e < length ids) ?res)))"
      using sorted_filter [OF sorted] by (simp add: order_def comp_def)
    show "sorted (map (rank ids) (filter (\<lambda>i. i \<in> set (order tools)) ids))"
      using assms(2) by (intro sorted_filter) (simp add: map_rank)
  qed (use assms(2) in auto)
  have "order ?res = order (filter (\<lambda>e. ?r e < length ids) ?res)
      @ order (filter (\<lambda>e. \<not> ?r e < length ids) ?res)"
    unfolding order_def map_append [symmetric] by (simp only: sorted_split_filter [OF sorted])
  with rest known perm show ?thesis by simp
qed

lemma saved_order_applied_witness:
  "order (snd (apply_order [''c'', ''x'', ''a''] sample_tools)) = [''c'', ''a'', ''b'']"
proof -
  have "registry_inv sample_tools" by (simp add: sample_tools_def register_tool_inv)
  moreover have "order sample_tools = [''a'', ''b'', ''c'']" by code_simp
  ultimately show ?thesis
    using saved_order_applied [of sample_tools "[''c'', ''x'', ''a'']"] by simp
qed

section \<open>Saved visibility\<close>

definition with_visibility :: "visibility_preference \<Rightarrow> tool_entry \<Rightarrow> tool_entry" where
  "with_visibility pref e =
     e\<lparr>te_home_visible := tool_id e \<notin> set (home_hidden pref),
       te_sidebar_visible := tool_id e \<notin> set (sidebar_hidden pref)\<rparr>"

abbreviation flags :: "tool_entry \<Rightarrow> string \<times> bool \<times> bool" where
  "flags e \<equiv> (tool_id e, te_home_visible e, te_sidebar_visible e)"

lemma position_id:
  "tool_id e \<notin> tool_id ` set xs \<Longrightarrow> position (\<lambda>t. tool_id t = tool_id e) (xs @ e # ys) = Some (length xs)"
  by (intro position_append_notin) (auto simp: image_iff)

lemma apply_visibility_one_append:
  assumes "tool_id e \<notin> tool_id ` set xs"
  shows "snd (apply_visibility_one pref (tool_id e) (b, xs @ e # ys)) =
     xs @ with_visibility pref e # ys"
proof -
  have p: "position (\<lambda>t. tool_id t = tool_id e) (xs @ e # ys) = Some (length xs)"
    using assms by (rule position_id)
  have p': "position (\<lambda>t. tool_id t = tool_id e) (xs @ e\<lparr>te_home_visible := h\<rparr> # ys) = Some (length xs)" for h
    using position_id [of "e\<lparr>te_home_visible := h\<rparr>"] assms by simp
  show ?thesis
    by (auto simp: apply_visibility_one_def set_home_visible_def set_sidebar_visible_def
        set_surface_visibility_def p p' update_at_def with_visibility_def Let_def)
qed

lemma apply_visibility_map:
  assumes "distinct (order tools)"
  shows "snd (apply_visibility pref tools) = map (with_visibility pref) tools"
proof -
  have ids: "tool_id ` set (map (with_visibility pref) xs) = tool_id ` set xs" for xs
    by (auto simp: with_visibility_def image_iff)
  have "snd (fold (apply_visibility_one pref) (map tool_id ys) (b, map (with_visibility pref) xs @ ys)) =
      map (with_visibility pref) (xs @ ys)" if "distinct (map tool_id (xs @ ys))" for b xs ys
    using that
  proof (induction ys arbitrary: b xs)
    case Nil
    then show ?case by simp
  next
    case (Cons e ys)
    obtain c where "apply_visibility_one pref (tool_id e) (b, map (with_visibility pref) xs @ e # ys) =
        (c, map (with_visibility pref) (xs @ [e]) @ ys)"
      using apply_visibility_one_append [of e "map (with_visibility pref) xs" pref b ys] Cons.prems
      by (cases "apply_visibility_one pref (tool_id e) (b, map (with_visibility pref) xs @ e # ys)")
        (auto simp: ids image_image with_visibility_def)
    with Cons.IH [of "xs @ [e]" c] Cons.prems show ?case by simp
  qed
  from this [of "[]" tools] show ?thesis using assms by (simp add: apply_visibility_def order_def)
qed

lemma find_id:
  assumes "distinct (map tool_id tools)" and "e \<in> set tools"
  shows "find (\<lambda>t. tool_id t = tool_id e) tools = Some e"
  using assms by (induction tools) auto

lemma collect_hidden_entry:
  assumes "distinct (order tools)" and "e \<in> set tools"
  shows "collect_hidden tools (tool_id e) pref =
     \<lparr>home_hidden = home_hidden pref @ (if te_home_visible e then [] else [tool_id e]),
      sidebar_hidden = sidebar_hidden pref @ (if te_sidebar_visible e then [] else [tool_id e])\<rparr>"
  using find_id [of tools e] assms by (simp add: collect_hidden_def visibility_def order_def Let_def)

lemma visibility_preference_eq:
  assumes "distinct (order tools)"
  shows "visibility_preference_of tools =
     \<lparr>home_hidden = map tool_id (filter (\<lambda>e. \<not> te_home_visible e) tools),
      sidebar_hidden = map tool_id (filter (\<lambda>e. \<not> te_sidebar_visible e) tools)\<rparr>"
proof -
  have "fold (collect_hidden tools) (map tool_id xs) pref =
     \<lparr>home_hidden = home_hidden pref @ map tool_id (filter (\<lambda>e. \<not> te_home_visible e) xs),
      sidebar_hidden = sidebar_hidden pref @ map tool_id (filter (\<lambda>e. \<not> te_sidebar_visible e) xs)\<rparr>"
    if "set xs \<subseteq> set tools" for xs pref
    using that by (induction xs arbitrary: pref) (simp_all add: collect_hidden_entry [OF assms])
  from this [of tools] show ?thesis by (simp add: visibility_preference_of_def order_def)
qed

text \<open>The hidden-tool lists saved from one registry, applied to a registry with the same ids in
  the same order (the next start of the program, whatever its flags), restore the home and sidebar
  visibility of every tool.\<close>
theorem saved_visibility_roundtrip:
  assumes "registry_inv tools" and "order fresh = order tools"
  shows "map flags (snd (apply_visibility (visibility_preference_of tools) fresh)) = map flags tools"
proof -
  have dist: "distinct (order tools)" using assms(1) by (simp add: registry_inv_def)
  have len: "length fresh = length tools" using assms(2) by (metis length_map order_def)
  have "flags (with_visibility (visibility_preference_of tools) (fresh ! n)) = flags (tools ! n)"
    if n: "n < length tools" for n
  proof -
    have same: "tool_id (fresh ! n) = tool_id (tools ! n)"
      using assms(2) n len by (metis nth_map order_def)
    have "tool_id (tools ! n) \<in> tool_id ` set (filter P tools) \<longleftrightarrow> P (tools ! n)" for P
      using dist nth_mem [OF n] by (auto simp: order_def distinct_map inj_on_def image_iff)
    then show ?thesis
      by (simp add: with_visibility_def visibility_preference_eq [OF dist] same)
  qed
  then have "map flags (map (with_visibility (visibility_preference_of tools)) fresh) = map flags tools"
    using len by (intro nth_equalityI) simp_all
  then show ?thesis using assms(2) dist by (simp add: apply_visibility_map)
qed

lemma saved_visibility_roundtrip_witness:
  "map flags (snd (apply_visibility
     (visibility_preference_of (snd (set_home_visible ''b'' False sample_tools))) sample_tools)) =
   [(''a'', True, True), (''b'', False, True), (''c'', True, True)]"
proof -
  have "registry_inv (snd (set_home_visible ''b'' False sample_tools))"
    using registry.inv_step [of sample_tools "OpSetHome ''b'' False"]
    by (simp add: sample_tools_def register_tool_inv)
  moreover have "order sample_tools = order (snd (set_home_visible ''b'' False sample_tools))"
    by code_simp
  moreover have "map flags (snd (set_home_visible ''b'' False sample_tools)) =
      [(''a'', True, True), (''b'', False, True), (''c'', True, True)]"
    by code_simp
  ultimately show ?thesis using saved_visibility_roundtrip by simp
qed

end
