(* ===== verification/Plugin_Host_Invariant.thy ===== *)
theory Plugin_Host_Invariant
  imports Plugin_Host_Laws Registry_Properties
begin

text \<open>
  The reachable hosts and their invariant: which states a record can be in at each phase of the
  host, the agreement of the records with the tool registry, and the capabilities of every context.
  Between two host operations the shell may toggle, hide and reorder tools, and plugins may keep
  using the contexts they were given.
\<close>

section \<open>What the shell changes in the registry\<close>

inductive shell_change :: "tool_registry \<Rightarrow> tool_registry \<Rightarrow> bool" where
  step: "(\<And>p. e \<noteq> OpUnregister p) \<Longrightarrow> shell_change tools (snd (registry_step tools e))"
| order: "shell_change tools (snd (apply_order ids tools))"
| visibility: "shell_change tools (snd (apply_visibility pref tools))"

text \<open>The plugins of the entries, with multiplicity.\<close>

definition plugin_marks :: "tool_registry \<Rightarrow> plugin_descriptor option multiset" where
  "plugin_marks tools = mset (map te_plugin tools)"

lemma plugin_ids_cong:
  assumes "plugin_marks tools' = plugin_marks tools"
  shows "plugin_ids tools' = plugin_ids tools"
proof -
  have "te_plugin ` set tools' = te_plugin ` set tools"
    using assms mset_eq_setD unfolding plugin_marks_def by fastforce
  moreover have "plugin_ids xs = {p. Some p \<in> map_option pd_id ` te_plugin ` set xs}" for xs
    unfolding plugin_ids_def by (intro Collect_cong) (simp only: image_image image_iff eq_commute [of "Some _"])
  ultimately show ?thesis by simp
qed

lemma plugin_marks_mset: "mset tools' = mset tools \<Longrightarrow> plugin_marks tools' = plugin_marks tools"
  by (simp add: plugin_marks_def)

lemma update_at_marks:
  assumes "i < length tools" and "te_plugin (f (tools ! i)) = te_plugin (tools ! i)"
  shows "plugin_marks (update_at i f tools) = plugin_marks tools"
proof -
  have "map te_plugin (update_at i f tools) = map te_plugin tools"
    using assms by (simp add: update_at_def map_update) (metis list_update_id nth_map)
  then show ?thesis by (simp add: plugin_marks_def del: mset_map)
qed

lemma set_surface_marks:
  assumes "\<And>e. te_plugin (f e) = te_plugin e"
  shows "plugin_marks (snd (set_surface_visibility i v c f tools)) = plugin_marks tools"
  using update_at_marks [where f = f, OF position_split(3) assms]
  by (simp add: set_surface_visibility_def split: option.split)

lemma home_marks: "plugin_marks (snd (set_home_visible i b tools)) = plugin_marks tools"
  by (simp add: set_home_visible_def set_surface_marks)

lemma sidebar_marks: "plugin_marks (snd (set_sidebar_visible i b tools)) = plugin_marks tools"
  by (simp add: set_sidebar_visible_def set_surface_marks)

lemma set_enabled_marks: "plugin_marks (snd (set_enabled i b tools)) = plugin_marks tools"
  using update_at_marks [where f = "\<lambda>e. e\<lparr>te_enabled := b\<rparr>", OF position_split(3)]
  by (simp add: set_enabled_def split: option.split)

lemma reorder_marks: "plugin_marks (snd (reorder d t b tools)) = plugin_marks tools"
  by (rule plugin_marks_mset) (auto simp: reorder_def Let_def mset_insert_at mset_remove_at
      dest: position_split(3) split: option.splits)

lemma reorder_to_index_marks:
  "plugin_marks (snd (reorder_to_index_where d k vis tools)) = plugin_marks tools"
  by (rule plugin_marks_mset) (auto simp: reorder_to_index_where_def Let_def mset_insert_at
      mset_remove_at dest: position_split(3) split: option.splits)

lemmas marks = set_surface_marks set_enabled_marks reorder_marks reorder_to_index_marks

lemma registry_step_marks:
  assumes "\<And>p. e \<noteq> OpUnregister p"
  shows "plugin_marks (snd (registry_step tools e)) = plugin_marks tools"
  using assms by (cases e) (auto simp: marks home_marks sidebar_marks
      reorder_to_index_def reorder_home_to_index_def reorder_sidebar_to_index_def
      reorder_to_target_def move_to_end_def split: option.split)

lemma apply_visibility_marks: "plugin_marks (snd (apply_visibility pref tools)) = plugin_marks tools"
proof -
  have one: "plugin_marks (snd (apply_visibility_one pref i s)) = plugin_marks (snd s)" for i s
    by (cases s) (simp add: apply_visibility_one_def Let_def case_prod_beta home_marks sidebar_marks)
  have "plugin_marks (snd (fold (apply_visibility_one pref) is s)) = plugin_marks (snd s)" for "is" s
    by (induction "is" arbitrary: s) (simp_all add: one)
  then show ?thesis by (simp add: apply_visibility_def)
qed

lemma shell_change_keeps:
  assumes "shell_change tools tools'" and "registry_inv tools"
  shows "registry_inv tools'" and "plugin_ids tools' = plugin_ids tools"
proof -
  show "registry_inv tools'" using assms
    by cases (auto intro: registry_step_inv apply_order_inv apply_visibility_inv)
  have "plugin_marks tools' = plugin_marks tools" using assms(1)
  proof cases
    case (step e)
    show ?thesis unfolding step(1) using step(2) by (rule registry_step_marks)
  next
    case (order ids)
    show ?thesis unfolding order by (rule plugin_marks_mset) (rule apply_order_mset)
  next
    case (visibility pref)
    then show ?thesis by (simp only: apply_visibility_marks)
  qed
  then show "plugin_ids tools' = plugin_ids tools" by (rule plugin_ids_cong)
qed

section \<open>Registering a plugin\<close>

lemma host_register_ok:
  "host_register_plugin p host = (Inr u, host') \<longleftrightarrow>
     ph_phase host = PhRegistering
     \<and> (\<exists>tools cat. register_plugin_entries (sp_descriptor p) (sp_tools p) (ph_registry host) = Inr tools
        \<and> catalog_register (sp_catalog_entries p) (ph_catalog host) = Inr cat
        \<and> host' = host\<lparr>ph_registry := tools, ph_catalog := cat,
            ph_records := ph_records host @ [\<lparr>pr_plugin = p,
              pr_context = context_new (pd_id (sp_descriptor p)) (pd_capabilities (sp_descriptor p))
                (grants_for (ph_policy host) (pd_id (sp_descriptor p)))\<rparr>]\<rparr>)"
  by (auto simp: host_register_plugin_def Let_def split: sum.splits)

lemma host_register_failed:
  assumes "host_register_plugin p host = (Inl e, host')"
  shows "\<exists>m. host' = host\<lparr>ph_registration_failures := ph_registration_failures host @
      [\<lparr>dg_descriptor = sp_descriptor p, dg_state = StFailed,
        dg_failure = Some \<lparr>df_stage = RegistrationStage, df_message = bounded_message m\<rparr>\<rparr>]\<rparr>"
proof -
  have same: "h\<lparr>ph_registry := ph_registry h\<rparr> = h" for h :: "'a plugin_host" by simp
  show ?thesis
    using assms register_then_unregister same
    by (fastforce simp: host_register_plugin_def record_registration_failure_def Let_def
        split: if_splits sum.splits)
qed

section \<open>Reachable hosts\<close>

text \<open>
  \<open>plugin_call\<close> is a later use of a context or a task handle by a plugin or by the caller of an
  execution.
\<close>

inductive host_reachable :: "plugin_codecs \<Rightarrow> 's plugin_host \<Rightarrow> bool" for codecs where
  start: "registry_inv registry \<Longrightarrow> plugin_ids registry = {} \<Longrightarrow>
    host_reachable codecs (host_with_options registry policy storage db m)"
| register: "host_reachable codecs host \<Longrightarrow> host_reachable codecs (snd (host_register_plugin p host))"
| initialize: "host_reachable codecs host \<Longrightarrow> host_reachable codecs (snd (initialize_all codecs host))"
| shutdown: "host_reachable codecs host \<Longrightarrow> host_reachable codecs (snd (shutdown_all host))"
| execute: "host_reachable codecs host \<Longrightarrow>
    host_reachable codecs (snd (execute_entry now plugin_id entry_id input budget host))"
| plugin_call: "host_reachable codecs host \<Longrightarrow> i < length (ph_records host) \<Longrightarrow>
    host_reachable codecs (with_context i (context_step op) host)"
| shell: "host_reachable codecs host \<Longrightarrow> shell_change (ph_registry host) tools \<Longrightarrow>
    host_reachable codecs (host\<lparr>ph_registry := tools\<rparr>)"

text \<open>The states a record can be in, given the phase of the host.\<close>

fun phase_states :: "host_phase \<Rightarrow> plugin_state set" where
  "phase_states PhRegistering = {Registered}"
| "phase_states PhRunning = {Ready, StFailed}"
| "phase_states PhShuttingDown = {}"
| "phase_states PhStopped = {Unloaded}"

definition record_inv :: "'s plugin_host \<Rightarrow> plugin_record \<Rightarrow> bool" where
  "record_inv host r \<longleftrightarrow>
     context_ok (pr_context r)
     \<and> record_id r = pd_id (sp_descriptor (pr_plugin r))
     \<and> pc_declared (pr_context r) = set (pd_capabilities (sp_descriptor (pr_plugin r)))
     \<and> pc_granted (pr_context r) = grants_for (ph_policy host) (record_id r)
     \<and> (\<exists>s\<in>phase_states (ph_phase host). pc_state (pr_context r) = state_raw s)"

text \<open>The plugins of the tool registry are those of the records that are registered or ready.\<close>

definition host_inv :: "'s plugin_host \<Rightarrow> bool" where
  "host_inv host \<longleftrightarrow>
     registry_inv (ph_registry host) \<and> catalog_inv (ph_catalog host)
     \<and> (\<forall>r\<in>set (ph_records host). record_inv host r)
     \<and> distinct (map record_id (ph_records host))
     \<and> plugin_ids (ph_registry host) =
         record_id ` {r \<in> set (ph_records host). record_state r \<in> {Registered, Ready}}"

lemma plugin_ids_filter:
  "plugin_ids (filter (\<lambda>e. \<forall>x\<in>X. \<not> of_plugin (as_str (f x)) e) tools) = plugin_ids tools - f ` X"
proof -
  have of: "of_plugin (as_str q) e \<longleftrightarrow> (\<exists>d. te_plugin e = Some d \<and> pd_id d = q)" for q e
    by (auto simp: of_plugin_def plugin_id.expand split: option.splits)
  show ?thesis by (auto simp: of plugin_ids_def)
qed

lemma plugin_ids_register:
  assumes "register_plugin_entries d ts tools = Inr tools'"
  shows "plugin_ids tools' = insert (pd_id d) (plugin_ids tools)"
proof -
  have ok: "tools' = tools @ map (plugin_entry d) (order_tools (entry_descriptors d) ts)"
      "wf_descriptor CURRENT_PLUGIN_API_VERSION d" "tm_id ` set ts = ed_id ` set (entry_descriptors d)"
    using assms by (simp_all add: register_plugin_entries_ok)
  have "map tm_id (order_tools (entry_descriptors d) ts) = map ed_id (entry_descriptors d)"
    using ok(3) by (intro order_tools_ids) simp
  then have "order_tools (entry_descriptors d) ts \<noteq> []"
    using ok(2) by (auto simp: wf_descriptor_def)
  then show ?thesis unfolding ok(1) by (auto simp: neq_Nil_conv plugin_ids_def)
qed

section \<open>The invariant\<close>

lemma record_inv_cong:
  assumes "record_inv host r" and "ph_policy host' = ph_policy host"
    and "pr_plugin r' = pr_plugin r" and "same_plugin (pr_context r) (pr_context r')"
    and "context_ok (pr_context r')"
    and "\<exists>s\<in>phase_states (ph_phase host'). pc_state (pr_context r') = state_raw s"
  shows "record_inv host' r'"
  using assms by (simp add: record_inv_def same_plugin_def)

lemma register_keeps:
  assumes "host_inv host"
  shows "host_inv (snd (host_register_plugin p host))"
proof (cases "host_register_plugin p host")
  case (Pair res host')
  show ?thesis
  proof (cases res)
    case (Inl e)
    with Pair obtain m where "host' = host\<lparr>ph_registration_failures := m\<rparr>"
      using host_register_failed [of p host e host'] by auto
    then show ?thesis using Pair assms by (simp add: host_inv_def record_inv_def)
  next
    case (Inr u)
    let ?d = "sp_descriptor p"
    let ?r = "\<lparr>pr_plugin = p, pr_context = context_new (pd_id ?d) (pd_capabilities ?d)
        (grants_for (ph_policy host) (pd_id ?d))\<rparr>"
    obtain tools cat where r: "ph_phase host = PhRegistering"
        "register_plugin_entries ?d (sp_tools p) (ph_registry host) = Inr tools"
        "catalog_register (sp_catalog_entries p) (ph_catalog host) = Inr cat"
        "host' = host\<lparr>ph_registry := tools, ph_catalog := cat, ph_records := ph_records host @ [?r]\<rparr>"
      using Pair Inr by (auto simp: host_register_ok)
    have new: "record_inv host' ?r"
      using r(1,4) by (simp add: record_inv_def) (simp add: context_new_def)
    have old: "\<forall>x\<in>set (ph_records host). record_inv host' x \<and> record_state x = Registered"
      using assms r(1,4) by (auto simp: host_inv_def record_inv_def context_state_def)
    have ids: "record_id ` set (ph_records host) = plugin_ids (ph_registry host)"
      using assms old by (auto simp: host_inv_def)
    have fresh: "pd_id ?d \<notin> plugin_ids (ph_registry host)"
      using r(2) by (auto simp: register_plugin_entries_ok plugin_ids_def)
    have base: "registry_inv tools" "catalog_inv cat"
      using assms r register_plugin_entries_inv catalog_register_inv by (auto simp: host_inv_def)
    moreover have "record_state ?r = Registered" "record_id ?r = pd_id ?d"
      by (simp_all add: context_new_def context_state_def)
    then have "\<forall>x\<in>set (ph_records host'). record_state x = Registered"
      "record_id ` set (ph_records host') = insert (pd_id ?d) (record_id ` set (ph_records host))"
      using old r(4) by auto
    moreover from this(1) have "{x \<in> set (ph_records host'). record_state x \<in> {Registered, Ready}}
        = set (ph_records host')" by auto
    ultimately have "plugin_ids tools = record_id ` {x \<in> set (ph_records host'). record_state x \<in> {Registered, Ready}}"
      using plugin_ids_register [OF r(2)] ids by simp
    moreover have "distinct (map record_id (ph_records host'))"
      using assms fresh ids r(4) by (auto simp: host_inv_def context_new_def)
    moreover have "ph_registry host' = tools" "ph_catalog host' = cat"
      "\<forall>x\<in>set (ph_records host'). record_inv host' x"
      using new old r(4) by auto
    ultimately have "host_inv host'" unfolding host_inv_def using base by simp
    then show ?thesis using Pair by simp
  qed
qed

lemma initialize_policy: "ph_policy (snd (initialize_all codecs host)) = ph_policy host"
proof -
  have one: "ph_policy (fst (initialize_one codecs i hr)) = ph_policy (fst hr)" for i and hr :: "'a plugin_host \<times> _"
    by (cases hr) (simp add: initialize_one_def initialization_failed_def Let_def
        split: prod.splits sum.splits)
  have "ph_policy (fst (fold (initialize_one codecs) is hr)) = ph_policy (fst hr)"
    for "is" and hr :: "'a plugin_host \<times> _"
    by (induction "is" arbitrary: hr) (simp_all add: one)
  then show ?thesis by (simp add: initialize_all_def Let_def case_prod_beta)
qed

lemma shutdown_policy: "ph_policy (snd (shutdown_all host)) = ph_policy host"
proof -
  have one: "ph_policy (fst (shutdown_one i hr)) = ph_policy (fst hr)" for i and hr :: "'a plugin_host \<times> _"
    by (cases hr) (simp add: shutdown_one_def Let_def split: prod.splits sum.splits)
  have "ph_policy (fst (fold shutdown_one is hr)) = ph_policy (fst hr)"
    for "is" and hr :: "'a plugin_host \<times> _"
    by (induction "is" arbitrary: hr) (simp_all add: one)
  then show ?thesis by (simp add: shutdown_all_def Let_def case_prod_beta)
qed

lemma same_ids:
  assumes "list_all2 R rs rs'" and "\<And>r r'. R r r' \<Longrightarrow> same_plugin (pr_context r) (pr_context r')"
  shows "map record_id rs' = map record_id rs"
  using assms(1) by (induction rule: list_all2_induct) (auto dest!: assms(2) simp: same_plugin_def)

lemma records_inv_via:
  assumes "\<forall>r\<in>set (ph_records host). record_inv host r"
    and "list_all2 R (ph_records host) (ph_records host')"
    and "\<And>r r'. r \<in> set (ph_records host) \<Longrightarrow> record_inv host r \<Longrightarrow> R r r' \<Longrightarrow> record_inv host' r'"
  shows "\<forall>r\<in>set (ph_records host'). record_inv host' r"
proof
  fix r'
  assume "r' \<in> set (ph_records host')"
  then obtain i where "i < length (ph_records host')" "r' = ph_records host' ! i"
    by (auto simp: in_set_conv_nth)
  with assms show "record_inv host' r'"
    by (metis list_all2_conv_all_nth nth_mem)
qed

lemma initialize_keeps:
  assumes "host_inv host"
  shows "host_inv (snd (initialize_all codecs host))"
proof (cases "ph_phase host = PhRegistering")
  case False
  then show ?thesis using assms by (simp add: initialize_all_def)
next
  case True
  obtain report host' where run: "initialize_all codecs host = (report, host')" by force
  have raw: "\<forall>r\<in>set (ph_records host). raw_state_of r = state_raw Registered"
    using assms True by (auto simp: host_inv_def record_inv_def)
  have policy: "ph_policy host' = ph_policy host"
    using initialize_policy [of codecs host] run by simp
  note eff = initialize_all_effect [OF True raw run]
  have phase: "ph_phase host' = PhRunning" using eff by simp
  have recs: "list_all2 initialized (ph_records host) (ph_records host')" using eff by simp
  have inv: "\<forall>r\<in>set (ph_records host'). record_inv host' r"
    using assms recs policy phase
    by (intro records_inv_via [OF _ recs] record_inv_cong [where host' = host' and host = host])
      (auto simp: host_inv_def initialized_def record_inv_def)
  have ids: "map record_id (ph_records host') = map record_id (ph_records host)"
    using recs by (rule same_ids) (simp add: initialized_def)
  have old: "plugin_ids (ph_registry host) = record_id ` set (ph_records host)"
    using assms raw by (auto simp: host_inv_def context_state_def)
  let ?failed = "{r \<in> set (ph_records host'). record_state r = StFailed}"
  have states: "\<forall>r\<in>set (ph_records host'). record_state r = Ready \<or> record_state r = StFailed"
    using inv phase by (auto simp: record_inv_def raw_state)
  have dist: "distinct (map record_id (ph_records host'))" using assms ids by (simp add: host_inv_def)
  have "ph_registry host' = filter (\<lambda>e. \<forall>r\<in>?failed. \<not> of_plugin (as_str (record_id r)) e) (ph_registry host)"
    using eff by (auto intro!: filter_cong)
  then have "plugin_ids (ph_registry host') = record_id ` set (ph_records host) - record_id ` ?failed"
    unfolding old [symmetric] by (simp only: plugin_ids_filter)
  also have "record_id ` set (ph_records host) = record_id ` set (ph_records host')"
    using ids by (metis list.set_map)
  also have "record_id ` set (ph_records host') - record_id ` ?failed
      = record_id ` {r \<in> set (ph_records host'). record_state r \<in> {Registered, Ready}}"
    using dist states by (auto simp: distinct_map inj_on_def)
  finally show ?thesis
    using run eff assms inv dist registry_inv_filter by (simp add: host_inv_def)
qed

lemma shutdown_keeps:
  assumes "host_inv host"
  shows "host_inv (snd (shutdown_all host))"
proof (cases "ph_phase host \<in> {PhShuttingDown, PhStopped}")
  case True
  then show ?thesis using assms by (simp add: shutdown_all_def)
next
  case False
  obtain report host' where run: "shutdown_all host = (report, host')" by force
  have policy: "ph_policy host' = ph_policy host" using shutdown_policy [of host] run by simp
  note eff = shutdown_all_effect [OF False run]
  have phase: "ph_phase host' = PhStopped" using eff by simp
  have recs: "list_all2 unloaded (ph_records host) (ph_records host')" using eff by simp
  have raw: "raw_state_of r' = state_raw Unloaded" if "unloaded r r'" for r r'
    using that by (simp add: unloaded_def)
  have inv: "\<forall>r\<in>set (ph_records host'). record_inv host' r"
    using assms recs policy phase raw
    by (intro records_inv_via [OF _ recs] record_inv_cong [where host' = host' and host = host])
      (auto simp: host_inv_def unloaded_def record_inv_def)
  have ids: "map record_id (ph_records host') = map record_id (ph_records host)"
    using recs by (rule same_ids) (simp add: unloaded_def)
  have states: "\<forall>r\<in>set (ph_records host'). record_state r = Unloaded"
    using inv phase by (auto simp: record_inv_def raw_state)
  have "ph_registry host' = filter (\<lambda>e. \<forall>r\<in>set (ph_records host).
      \<not> of_plugin (as_str (record_id r)) e) (ph_registry host)"
    using eff by simp
  then have "plugin_ids (ph_registry host') =
      plugin_ids (ph_registry host) - record_id ` set (ph_records host)"
    by (simp only: plugin_ids_filter)
  moreover have "plugin_ids (ph_registry host) \<subseteq> record_id ` set (ph_records host)"
    using assms by (auto simp: host_inv_def)
  ultimately have gone: "plugin_ids (ph_registry host') = {}" by blast
  have "catalog_inv (ph_catalog host')"
    using eff assms by (auto simp: host_inv_def catalog_inv_def distinct_map_filter
        intro: order_trans [OF length_filter_le])
  moreover have "{r \<in> set (ph_records host'). record_state r \<in> {Registered, Ready}} = {}"
    using states by auto
  ultimately show ?thesis
    using run eff assms inv ids gone registry_inv_filter unfolding host_inv_def by simp
qed

lemma tasks_only_keeps:
  assumes "host_inv host" and "host_tasks_only host host'"
  shows "host_inv host'"
proof -
  have recs: "list_all2 tasks_only (ph_records host) (ph_records host')"
    using assms(2) by (simp add: host_tasks_only_def)
  obtain rs where h': "host' = host\<lparr>ph_records := rs\<rparr>"
    using assms(2) unfolding host_tasks_only_def by blast
  have fields: "ph_registry host' = ph_registry host" "ph_catalog host' = ph_catalog host"
      "ph_phase host' = ph_phase host" "ph_policy host' = ph_policy host"
    unfolding h' by simp_all
  have same: "same_plugin (pr_context r) (pr_context r')" "raw_state_of r' = raw_state_of r"
      "pr_plugin r' = pr_plugin r" if "tasks_only r r'" for r r'
    using that by (auto simp: tasks_only_def same_plugin_def)
  have ok: "context_ok (pr_context r')" if "context_ok (pr_context r)" "tasks_only r r'" for r r'
    using that by (auto simp: tasks_only_def context_ok_def closed_def)
  have inv: "\<forall>r\<in>set (ph_records host'). record_inv host' r"
    using assms(1) fields
    by (intro records_inv_via [OF _ recs] record_inv_cong [where host' = host' and host = host])
      (auto simp: host_inv_def record_inv_def same ok)
  have "map (\<lambda>r. (record_id r, record_state r)) (ph_records host') =
      map (\<lambda>r. (record_id r, record_state r)) (ph_records host)"
    using recs by (induction rule: list_all2_induct) (auto simp: tasks_only_def)
  from arg_cong [OF this, of set]
  have pairs: "(\<lambda>r. (record_id r, record_state r)) ` set (ph_records host') =
      (\<lambda>r. (record_id r, record_state r)) ` set (ph_records host)"
    by simp
  have live: "record_id ` {r \<in> set rs. record_state r \<in> X} =
      {p. \<exists>s\<in>X. (p, s) \<in> (\<lambda>r. (record_id r, record_state r)) ` set rs}" for rs X
    by auto
  have "record_id ` {r \<in> set (ph_records host'). record_state r \<in> {Registered, Ready}} =
      record_id ` {r \<in> set (ph_records host). record_state r \<in> {Registered, Ready}}"
    unfolding live by (simp only: pairs)
  then show ?thesis
    using assms(1) inv same_ids [OF recs same(1)] unfolding host_inv_def by (simp only: fields)
qed

lemma reachable_inv: "host_reachable codecs host \<Longrightarrow> host_inv host"
proof (induction rule: host_reachable.induct)
  case (start registry policy storage db m)
  then show ?case by (simp add: host_inv_def host_with_options_def)
next
  case (plugin_call host i op)
  then have "host_tasks_only host (with_context i (context_step op) host)"
    using steps_tasks_only [of i host "[op]"] by simp
  with plugin_call show ?case by (blast intro: tasks_only_keeps)
next
  case (shell host tools)
  then have "registry_inv tools" "plugin_ids tools = plugin_ids (ph_registry host)"
    using shell_change_keeps by (simp_all add: host_inv_def)
  with shell show ?case by (simp add: host_inv_def record_inv_def)
qed (blast intro: register_keeps initialize_keeps shutdown_keeps tasks_only_keeps execute_tasks_only)+

end
