(* ===== verification/Plugin_Host_Properties.thy ===== *)
theory Plugin_Host_Properties
  imports Plugin_Host_Invariant
begin

text \<open>
  The properties of the plugin host: which plugins are accepted, what a refused registration, an
  initialisation and a shutdown leave behind, when an entry runs, and what a context may do.
\<close>

section \<open>A sample host\<close>

definition sample_static :: static_plugin where
  "sample_static =
     \<lparr>sp_descriptor = with_capabilities [PluginCapability ''task.scoped''] sample_plugin,
      sp_tools = [sample_tool ''p.two'', sample_tool ''p.one''],
      sp_catalog_entries = [], sp_initialize = default_initialize, sp_shutdown = default_shutdown,
      sp_execute = (\<lambda>entry input c.
        (if input = ''bad'' then Inl (operation_error_new ''bad input'') else Inr (), []))\<rparr>"

definition sample_policy :: plugin_permission_policy where
  "sample_policy = policy_grant (PluginId ''p'') (PluginCapability ''task.scoped'')
     \<lparr>pp_grants = Map.empty\<rparr>"

definition sample_host :: "unit plugin_host" where
  "sample_host = host_with_options [] sample_policy None () \<lparr>sm_steps = []\<rparr>"

definition sample_codecs :: plugin_codecs where
  "sample_codecs = \<lparr>settings_from_json = (\<lambda>_. None), secrets_from_json = (\<lambda>_. None),
     hex_decoder = (\<lambda>_. None)\<rparr>"

definition sample_registered :: "unit plugin_host" where
  "sample_registered = snd (host_register_plugin sample_static sample_host)"

definition sample_running :: "unit plugin_host" where
  "sample_running = snd (initialize_all sample_codecs sample_registered)"

lemma sample_descriptor:
  "entry_descriptors (sp_descriptor sample_static) = entry_descriptors sample_plugin"
  "pd_id (sp_descriptor sample_static) = PluginId ''p''"
  "pd_settings (sp_descriptor sample_static) = []"
  "pd_capabilities (sp_descriptor sample_static) = [PluginCapability ''task.scoped'']"
  by (simp_all add: sample_static_def with_capabilities_def sample_plugin_def with_entries_def
      descriptor_new_def entry_descriptors_def)

lemma sample_descriptor_wf: "wf_descriptor CURRENT_PLUGIN_API_VERSION (sp_descriptor sample_static)"
  by (simp add: sample_static_def with_capabilities_def wf_descriptor_def sample_plugin_def
      with_entries_def descriptor_new_def entry_descriptors_def entry_new_def wf_identifier_def
      wf_entry_def is_supported_by_def is_known_def KNOWN_PLUGIN_CAPABILITIES_def spec_text_def
      limits is_ascii_lowercase_def)

lemma sample_grants: "grants_for sample_policy (PluginId ''p'') = {PluginCapability ''task.scoped''}"
  by (simp add: sample_policy_def policy_grant_def grants_for_def)

lemma sample_register:
  "\<exists>tools. host_register_plugin sample_static sample_host = (Inr (), sample_registered)
     \<and> sample_registered = sample_host\<lparr>ph_registry := tools, ph_records :=
         [\<lparr>pr_plugin = sample_static, pr_context = context_new (PluginId ''p'')
            [PluginCapability ''task.scoped''] {PluginCapability ''task.scoped''}\<rparr>]\<rparr>"
proof -
  obtain tools where r: "register_plugin_entries (sp_descriptor sample_static)
      (sp_tools sample_static) [] = Inr tools"
    by (auto simp: register_plugin_entries_ok sample_descriptor_wf sample_descriptor sample_entries)
      (simp_all add: sample_static_def sample_tool_def insert_commute)
  have "host_register_plugin sample_static sample_host = (Inr (), sample_host\<lparr>ph_registry := tools,
      ph_records := [\<lparr>pr_plugin = sample_static, pr_context = context_new (PluginId ''p'')
            [PluginCapability ''task.scoped''] {PluginCapability ''task.scoped''}\<rparr>]\<rparr>)"
    using r sample_grants
    by (simp add: host_register_ok sample_host_def host_with_options_def sample_descriptor)
      (simp add: sample_static_def catalog_register_ok limits)
  then show ?thesis by (auto simp: sample_registered_def)
qed

definition sample_record :: plugin_record where
  "sample_record = \<lparr>pr_plugin = sample_static, pr_context = context_new (PluginId ''p'')
     [PluginCapability ''task.scoped''] {PluginCapability ''task.scoped''}\<rparr>"

lemma sample_registered_simps:
  "ph_records sample_registered = [sample_record]" "ph_phase sample_registered = PhRegistering"
  "ph_storage sample_registered = None" "ph_catalog sample_registered = []"
  "record_id sample_record = PluginId ''p''" "record_state sample_record = Registered"
proof -
  obtain tools where eq: "sample_registered = sample_host\<lparr>ph_registry := tools, ph_records :=
      [\<lparr>pr_plugin = sample_static, pr_context = context_new (PluginId ''p'')
        [PluginCapability ''task.scoped''] {PluginCapability ''task.scoped''}\<rparr>]\<rparr>"
    using sample_register by blast
  show "ph_records sample_registered = [sample_record]" "ph_phase sample_registered = PhRegistering"
    "ph_storage sample_registered = None" "ph_catalog sample_registered = []"
    unfolding eq by (simp_all add: sample_record_def sample_host_def host_with_options_def)
  show "record_id sample_record = PluginId ''p''" "record_state sample_record = Registered"
    by (simp_all add: sample_record_def context_new_def context_state_def)
qed

lemma sample_reachable: "host_reachable codecs sample_host" "host_reachable codecs sample_registered"
  using host_reachable.start [of "[]" codecs sample_policy None "()" "\<lparr>sm_steps = []\<rparr>"]
  by (simp_all add: sample_registered_def host_reachable.register plugin_ids_def
      flip: sample_host_def)

section \<open>Registration\<close>

text \<open>The host accepts a plugin exactly when registration is still open, the manifest is valid,
  the tools are the manifest's entries, neither the plugin id nor an entry id is taken, and its
  catalogue entries are new, distinct and within the catalogue's limit.\<close>
theorem host_accepts_plugin_iff:
  "(\<exists>host'. host_register_plugin p host = (Inr (), host')) \<longleftrightarrow>
     ph_phase host = PhRegistering
     \<and> wf_descriptor CURRENT_PLUGIN_API_VERSION (sp_descriptor p)
     \<and> distinct (map tm_id (sp_tools p))
     \<and> tm_id ` set (sp_tools p) = ed_id ` set (entry_descriptors (sp_descriptor p))
     \<and> pd_id (sp_descriptor p) \<notin> plugin_ids (ph_registry host)
     \<and> set (order (ph_registry host)) \<inter> ed_id ` set (entry_descriptors (sp_descriptor p)) = {}
     \<and> length (ph_catalog host) + length (sp_catalog_entries p) \<le> 256
     \<and> distinct (map catalog_key (sp_catalog_entries p))
     \<and> catalog_key ` set (sp_catalog_entries p) \<inter> catalog_key ` set (ph_catalog host) = {}"
  by (auto simp: host_register_ok register_plugin_entries_ok catalog_register_ok order_def
      plugin_ids_def limits)

text \<open>C3. A refused registration is atomic: registry, catalogue, records and everything else are as
  before, also when the tools had already been registered and the catalogue refused the entries.
  Only a diagnostic of the plugin is added, in state Failed, with a message of at most 512 bytes.\<close>
theorem refused_registration_is_atomic:
  assumes "host_register_plugin p host = (Inl e, host')"
  shows "\<exists>m. length m \<le> 512
     \<and> host' = host\<lparr>ph_registration_failures := ph_registration_failures host @
         [\<lparr>dg_descriptor = sp_descriptor p, dg_state = StFailed,
           dg_failure = Some \<lparr>df_stage = RegistrationStage, df_message = m\<rparr>\<rparr>]\<rparr>
     \<and> host_diagnostics host' = host_diagnostics host @
         [\<lparr>dg_descriptor = sp_descriptor p, dg_state = StFailed,
           dg_failure = Some \<lparr>df_stage = RegistrationStage, df_message = m\<rparr>\<rparr>]"
  using host_register_failed [OF assms] bounded_message_length
  by (auto simp: host_diagnostics_def)

definition crowded_host :: "unit plugin_host" where
  "crowded_host = sample_host\<lparr>ph_catalog := replicate 256 (hd sample_group)\<rparr>"

lemma refused_registration_is_atomic_witness:
  "\<exists>e host'. host_register_plugin (sample_static\<lparr>sp_catalog_entries := sample_group\<rparr>) crowded_host
       = (Inl e, host')
     \<and> ph_registry host' = [] \<and> length (ph_registration_failures host') = 1"
proof -
  let ?p = "sample_static\<lparr>sp_catalog_entries := sample_group\<rparr>"
  have "\<not> (\<exists>u host'. host_register_plugin ?p crowded_host = (Inr u, host'))"
    by (simp add: host_register_ok catalog_register_ok crowded_host_def sample_group_def limits)
  then obtain e host' where r: "host_register_plugin ?p crowded_host = (Inl e, host')"
    by (cases "host_register_plugin ?p crowded_host") (metis sum.exhaust)
  from refused_registration_is_atomic [OF r] show ?thesis
    using r by (auto simp: crowded_host_def sample_host_def host_with_options_def)
qed

section \<open>The lifecycle\<close>

text \<open>C2. In every reachable host the records have distinct plugin ids, every record is in a state
  that fits the phase (Registered before initialisation, Ready or Failed after it, Unloaded after
  shutdown), and the plugins that own tools in the registry are exactly the registered and ready
  ones: a failed or unloaded plugin has no tool left.\<close>
theorem host_phases_and_states:
  assumes "host_reachable codecs host"
  shows "distinct (map fst (host_states host))
     \<and> snd ` set (host_states host) \<subseteq> phase_states (ph_phase host)
     \<and> plugin_ids (ph_registry host) =
         {p. (p, Registered) \<in> set (host_states host) \<or> (p, Ready) \<in> set (host_states host)}
     \<and> registry_inv (ph_registry host) \<and> catalog_inv (ph_catalog host)"
proof -
  note inv = reachable_inv [OF assms, unfolded host_inv_def]
  have "map fst (host_states host) = map record_id (ph_records host)"
    by (simp add: host_states_def comp_def)
  moreover have "snd ` set (host_states host) \<subseteq> phase_states (ph_phase host)"
    using inv by (auto simp: host_states_def record_inv_def raw_state)
  moreover have "record_id ` {r \<in> set (ph_records host). record_state r \<in> {Registered, Ready}} =
      {p. (p, Registered) \<in> set (host_states host) \<or> (p, Ready) \<in> set (host_states host)}"
    by (auto simp: host_states_def)
  ultimately show ?thesis using inv by simp
qed

lemma host_phases_and_states_witness:
  "host_states sample_registered = [(PluginId ''p'', Registered)]
   \<and> plugin_ids (ph_registry sample_registered) = {PluginId ''p''}"
proof -
  have "host_states sample_registered = [(PluginId ''p'', Registered)]"
    by (simp add: host_states_def sample_registered_simps)
  with host_phases_and_states [OF sample_reachable(2)] show ?thesis by simp
qed

text \<open>C4. Initialisation handles every record and isolates failures: each plugin ends Ready or Failed,
  the report lists the successes and the failures in registration order, exactly the tools of the
  failed plugins leave the registry, and calling it again does nothing.\<close>
theorem initialization_isolates_failures:
  assumes "host_reachable codecs host" and "ph_phase host = PhRegistering"
    and "initialize_all codecs host = (report, host')"
  shows "map fst (host_states host') = map fst (host_states host)
     \<and> snd ` set (host_states host') \<subseteq> {Ready, StFailed}
     \<and> lr_succeeded report = map fst (filter (\<lambda>x. snd x = Ready) (host_states host'))
     \<and> map lf_plugin_id (lr_failures report) = map fst (filter (\<lambda>x. snd x = StFailed) (host_states host'))
     \<and> ph_registry host' = filter (\<lambda>e. \<forall>p. (p, StFailed) \<in> set (host_states host') \<longrightarrow>
          \<not> of_plugin (as_str p) e) (ph_registry host)
     \<and> ph_catalog host' = ph_catalog host
     \<and> initialize_all codecs host' = (report_default, host')"
proof -
  have inv: "host_inv host" "host_inv host'"
    using reachable_inv [OF assms(1)] initialize_keeps [of host codecs] assms(3) by auto
  have raw: "\<forall>r\<in>set (ph_records host). raw_state_of r = state_raw Registered"
    using inv(1) assms(2) by (auto simp: host_inv_def record_inv_def)
  note eff = initialize_all_effect [OF assms(2) raw assms(3)]
  have recs: "list_all2 initialized (ph_records host) (ph_records host')" using eff by simp
  have "map record_id (ph_records host') = map record_id (ph_records host)"
    using recs by (rule same_ids) (simp add: initialized_def)
  then have "map fst (host_states host') = map fst (host_states host)"
    by (simp add: host_states_def comp_def)
  moreover have states: "record_state r \<in> {Ready, StFailed}" if "r \<in> set (ph_records host')" for r
    using that inv(2) eff by (auto simp: host_inv_def record_inv_def raw_state)
  have "snd ` set (host_states host') \<subseteq> {Ready, StFailed}"
    using states by (force simp: host_states_def)
  moreover have "map fst (filter (\<lambda>x. snd x = s) (host_states host')) =
      map record_id (filter (\<lambda>r. record_state r = s) (ph_records host'))" for s
    by (simp add: host_states_def filter_map comp_def)
  moreover have "ph_registry host' = filter (\<lambda>e. \<forall>p. (p, StFailed) \<in> set (host_states host') \<longrightarrow>
      \<not> of_plugin (as_str p) e) (ph_registry host)"
  proof -
    have "(\<forall>p. (p, StFailed) \<in> set (host_states host') \<longrightarrow> Q p) \<longleftrightarrow>
        (\<forall>r\<in>set (ph_records host'). record_state r = StFailed \<longrightarrow> Q (record_id r))" for Q
    proof -
      have "(\<forall>p. (p, StFailed) \<in> X \<longrightarrow> Q p) \<longleftrightarrow> (\<forall>x\<in>X. snd x = StFailed \<longrightarrow> Q (fst x))" for X
        by force
      then show ?thesis by (simp add: host_states_def)
    qed
    then show ?thesis using eff by simp
  qed
  moreover have "initialize_all codecs host' = (report_default, host')"
    using eff by (simp add: initialize_all_def)
  ultimately show ?thesis using eff by simp
qed

lemma sample_initialize:
  "initialize_all sample_codecs sample_registered =
     (\<lparr>lr_succeeded = [PluginId ''p''], lr_failures = []\<rparr>, sample_running)"
  "sample_running = sample_registered\<lparr>ph_phase := PhRunning, ph_db := (), ph_records :=
     [sample_record\<lparr>pr_context := (pr_context sample_record)\<lparr>pc_state := state_raw Ready\<rparr>\<rparr>]\<rparr>"
proof -
  have "initialize_all sample_codecs sample_registered =
     (\<lparr>lr_succeeded = [PluginId ''p''], lr_failures = []\<rparr>,
      sample_registered\<lparr>ph_phase := PhRunning, ph_db := (), ph_records :=
        [sample_record\<lparr>pr_context := (pr_context sample_record)\<lparr>pc_state := state_raw Ready\<rparr>\<rparr>]\<rparr>)"
    by (simp add: initialize_all_def initialize_one_def sample_registered_simps transition_iff
        with_context_def prepare_context_def sample_record_def sample_descriptor context_new_def
        report_default_def Let_def)
      (simp add: sample_static_def default_initialize_def ensure_available_def map_err_def
        sample_registered_simps Let_def context_state_def sample_record_def context_new_def
        transition_iff with_context_def)
  then show "initialize_all sample_codecs sample_registered =
     (\<lparr>lr_succeeded = [PluginId ''p''], lr_failures = []\<rparr>, sample_running)"
    "sample_running = sample_registered\<lparr>ph_phase := PhRunning, ph_db := (), ph_records :=
     [sample_record\<lparr>pr_context := (pr_context sample_record)\<lparr>pc_state := state_raw Ready\<rparr>\<rparr>]\<rparr>"
    by (simp_all add: sample_running_def)
qed

lemma initialization_isolates_failures_witness:
  "host_states sample_running = [(PluginId ''p'', Ready)]
   \<and> ph_registry sample_running = ph_registry sample_registered
   \<and> initialize_all sample_codecs sample_running = (report_default, sample_running)"
proof -
  have "host_states sample_running = [(PluginId ''p'', Ready)]"
    by (simp add: host_states_def sample_initialize(2) sample_registered_simps)
  with initialization_isolates_failures [OF sample_reachable(2) sample_registered_simps(2)
    sample_initialize(1)]
  show ?thesis by simp
qed

text \<open>C5. Shutdown leaves every plugin unloaded, calls the shutdown callbacks of exactly the ready
  plugins in reverse registration order, takes every plugin tool and every catalogue entry of the
  plugins away and keeps the rest, and calling it again does nothing.\<close>
theorem shutdown_unloads_everything:
  assumes "host_reachable codecs host" and "ph_phase host \<in> {PhRegistering, PhRunning}"
    and "shutdown_all host = (report, host')"
  shows "host_states host' = map (\<lambda>(p, s). (p, Unloaded)) (host_states host)
     \<and> plugin_ids (ph_registry host') = {}
     \<and> ph_registry host' = filter (\<lambda>e. te_plugin e = None) (ph_registry host)
     \<and> ph_catalog host' = filter (\<lambda>e. ce_plugin_id e \<notin> fst ` set (host_states host)) (ph_catalog host)
     \<and> lr_succeeded report = map record_id
          (filter (\<lambda>r. record_state r = Ready \<and> shutdown_succeeds r) (rev (ph_records host)))
     \<and> map lf_plugin_id (lr_failures report) = map record_id
          (filter (\<lambda>r. record_state r = Ready \<and> \<not> shutdown_succeeds r) (rev (ph_records host)))
     \<and> shutdown_all host' = (report_default, host')"
proof -
  have inv: "host_inv host" "host_inv host'"
    using reachable_inv [OF assms(1)] shutdown_keeps [of host] assms(3) by auto
  have "ph_phase host \<notin> {PhShuttingDown, PhStopped}" using assms(2) by auto
  note eff = shutdown_all_effect [OF this assms(3)]
  have recs: "list_all2 unloaded (ph_records host) (ph_records host')" using eff by simp
  have "host_states host' = map (\<lambda>(p, s). (p, Unloaded)) (host_states host)"
    using recs unfolding host_states_def
    by (induction rule: list_all2_induct) (auto simp: unloaded_def same_plugin_def raw_state)
  moreover have "ph_registry host' = filter (\<lambda>e. te_plugin e = None) (ph_registry host)"
  proof -
    have none: "(\<forall>r\<in>set (ph_records host). \<not> of_plugin (as_str (record_id r)) e) \<longleftrightarrow> te_plugin e = None"
      if "e \<in> set (ph_registry host)" for e
    proof (cases "te_plugin e")
      case (Some d)
      then have "pd_id d \<in> plugin_ids (ph_registry host)" using that by (auto simp: plugin_ids_def)
      then show ?thesis using inv(1) Some by (auto simp: host_inv_def of_plugin_def)
    qed (simp add: of_plugin_def)
    have "ph_registry host' = filter (\<lambda>e. \<forall>r\<in>set (ph_records host).
        \<not> of_plugin (as_str (record_id r)) e) (ph_registry host)"
      using eff by simp
    also have "\<dots> = filter (\<lambda>e. te_plugin e = None) (ph_registry host)"
      using none by (rule filter_cong [OF refl])
    finally show ?thesis .
  qed
  moreover from this have "plugin_ids (ph_registry host') = {}" by (simp add: plugin_ids_def)
  moreover have "ph_catalog host' =
      filter (\<lambda>e. ce_plugin_id e \<notin> fst ` set (host_states host)) (ph_catalog host)"
    using eff by (auto simp: host_states_def image_image intro!: filter_cong)
  moreover have "shutdown_all host' = (report_default, host')"
    using eff by (simp add: shutdown_all_def)
  ultimately show ?thesis using eff by simp
qed

lemma sample_running_reachable: "host_reachable sample_codecs sample_running"
  unfolding sample_running_def using sample_reachable(2) by (rule host_reachable.initialize)

lemma sample_running_simps:
  "ph_phase sample_running = PhRunning"
  "ph_records sample_running =
     [sample_record\<lparr>pr_context := (pr_context sample_record)\<lparr>pc_state := state_raw Ready\<rparr>\<rparr>]"
  by (simp_all add: sample_initialize(2))

lemma shutdown_unloads_everything_witness:
  "\<exists>report host'. shutdown_all sample_running = (report, host')
     \<and> host_states host' = [(PluginId ''p'', Unloaded)] \<and> plugin_ids (ph_registry host') = {}
     \<and> lr_succeeded report = [PluginId ''p'']"
proof -
  obtain report host' where r: "shutdown_all sample_running = (report, host')" by force
  let ?r = "sample_record\<lparr>pr_context := (pr_context sample_record)\<lparr>pc_state := state_raw Ready\<rparr>\<rparr>"
  have "shutdown_succeeds ?r" "record_state ?r = Ready" "record_id ?r = PluginId ''p''"
    by (simp_all add: sample_registered_simps)
      (simp_all add: shutdown_succeeds_def sample_running_simps sample_record_def sample_static_def
        default_shutdown_def ensure_available_def map_err_def)
  with shutdown_unloads_everything [OF sample_running_reachable _ r] r show ?thesis
    by (simp add: host_states_def sample_running_simps sample_registered_simps plugin_ids_def)
qed

text \<open>C6. No task outlives its plugin: in every reachable host, once a plugin has failed or is
  unloaded, every task handle obtained from its context and still alive sees the cancellation, and
  no new task can be started.  (The bound on the tasks ever started keeps the task ids fresh.)\<close>
theorem no_task_outlives_its_plugin:
  assumes "host_reachable codecs host" and "host_context plugin_id host = Some c"
    and "context_state c \<in> {StFailed, Unloaded}" and "length (tw_flags (pc_tasks c)) < 2 ^ 64"
  shows "list_all (\<lambda>h. cancellation_requested h (pc_tasks c)) (tw_handles (pc_tasks c))
     \<and> context_start_task name c = Inl (Unavailable (pc_plugin_id c) (context_state c))"
proof -
  obtain r where "r \<in> set (ph_records host)" "c = pr_context r"
    using assms(2) by (auto simp: host_context_def dest: find_SomeD)
  then have "context_ok c"
    using reachable_inv [OF assms(1)] by (simp add: host_inv_def record_inv_def)
  then have "list_all (\<lambda>h. cancellation_requested h (pc_tasks c)) (tw_handles (pc_tasks c))"
    using assms(3,4) by (intro task_ok_closed) (auto simp: context_ok_def)
  then show ?thesis
    using assms(3) by (auto simp: context_start_task_def require_capability_def ensure_available_def Let_def)
qed

definition sample_busy :: "unit plugin_host" where
  "sample_busy = with_context 0 (context_step (CtxStart ''job'')) sample_running"

lemma sample_start:
  assumes "pc_tasks c = task_registry_new"
    and "require_capability ''task.scoped'' c = Inr ()" and "context_state c = Ready"
  shows "\<exists>h w. context_start_task ''job'' c = Inr (h, c\<lparr>pc_tasks := w\<rparr>) \<and> tw_handles w = [h]
     \<and> length (tw_flags w) = 1"
proof -
  obtain h w where "task_start ''job'' task_registry_new = Inr (h, w)"
      "tw_handles w = [h]" "length (tw_flags w) = 1"
    by (simp add: task_start_def task_registry_new_def validate_name_def limits Let_def)
  then show ?thesis using assms by (auto simp: context_start_task_ok)
qed

definition sample_stopped :: "unit plugin_host" where
  "sample_stopped = snd (shutdown_all sample_busy)"

lemma no_task_outlives_its_plugin_witness:
  "\<exists>c. host_context ''p'' sample_stopped = Some c \<and> context_state c = Unloaded
     \<and> length (tw_handles (pc_tasks c)) = 1
     \<and> list_all (\<lambda>h. cancellation_requested h (pc_tasks c)) (tw_handles (pc_tasks c))
     \<and> context_start_task ''late'' c = Inl (Unavailable (PluginId ''p'') Unloaded)"
proof -
  let ?c = "(pr_context sample_record)\<lparr>pc_state := state_raw Ready\<rparr>"
  have "pc_tasks ?c = task_registry_new" "require_capability ''task.scoped'' ?c = Inr ()"
      "context_state ?c = Ready"
    by (simp_all add: sample_record_def context_new_def require_capability_def ensure_available_def
        context_state_def)
  then obtain h w where w: "context_start_task ''job'' ?c = Inr (h, ?c\<lparr>pc_tasks := w\<rparr>)"
      "tw_handles w = [h]" "length (tw_flags w) = 1"
    using sample_start by blast
  have busy: "ph_records sample_busy = [sample_record\<lparr>pr_context := ?c\<lparr>pc_tasks := w\<rparr>\<rparr>]"
      "ph_phase sample_busy = PhRunning"
    using w(1) by (simp_all add: sample_busy_def with_context_def sample_running_simps)
  let ?d = "?c\<lparr>pc_tasks := cancel_all (cancel_all w), pc_state := state_raw Unloaded\<rparr>"
  have "ph_records sample_stopped = [sample_record\<lparr>pr_context := ?d\<rparr>]"
    by (simp add: sample_stopped_def shutdown_all_def shutdown_one_def busy Let_def transition_iff
        with_context_def stop_tasks_def mark_unloaded_def sample_record_def split: prod.splits)
      (simp add: sample_static_def default_shutdown_def ensure_available_def map_err_def)
  then have c: "host_context ''p'' sample_stopped = Some ?d"
    by (simp add: host_context_def sample_registered_simps)
  have r: "host_reachable sample_codecs sample_stopped"
    unfolding sample_stopped_def sample_busy_def
    by (intro host_reachable.shutdown host_reachable.plugin_call sample_running_reachable)
      (simp add: sample_running_simps)
  have "tw_handles (pc_tasks ?d) = [h]" "length (tw_flags (pc_tasks ?d)) < 2 ^ 64"
    using w by (simp_all add: cancel_all_def)
  with no_task_outlives_its_plugin [OF r c, of "''late''"] c show ?thesis
    by (simp add: sample_registered_simps)
qed

section \<open>Capabilities and entries\<close>

lemma require_capability_iff:
  "require_capability k c = Inr () \<longleftrightarrow>
     context_state c \<in> {Initializing, Ready, ShuttingDown}
     \<and> PluginCapability k \<in> pc_declared c \<and> PluginCapability k \<in> pc_granted c"
  by (simp add: require_capability_def ensure_available_def Let_def)

text \<open>In every reachable host a plugin holds a capability exactly while it is initialising, ready
  or shutting down, its manifest declares the capability, and the policy of the host grants it; so a
  host built with the empty policy grants nothing.\<close>
theorem capability_needs_declaration_and_grant:
  assumes "host_reachable codecs host" and "r \<in> set (ph_records host)"
  shows "(require_capability k (pr_context r) = Inr () \<longleftrightarrow>
      record_state r \<in> {Initializing, Ready, ShuttingDown}
      \<and> PluginCapability k \<in> set (pd_capabilities (sp_descriptor (pr_plugin r)))
      \<and> PluginCapability k \<in> grants_for (ph_policy host) (pd_id (sp_descriptor (pr_plugin r))))
    \<and> (pp_grants (ph_policy host) = Map.empty \<longrightarrow> require_capability k (pr_context r) \<noteq> Inr ())"
  using reachable_inv [OF assms(1)] assms(2)
  by (auto simp: require_capability_iff host_inv_def record_inv_def grants_for_def)

lemma capability_needs_declaration_and_grant_witness:
  "require_capability ''task.scoped'' (pr_context (hd (ph_records sample_running))) = Inr ()
   \<and> require_capability ''storage.plugin'' (pr_context (hd (ph_records sample_running))) \<noteq> Inr ()
   \<and> require_capability ''task.scoped'' (pr_context (hd (ph_records sample_registered))) \<noteq> Inr ()"
proof -
  let ?r = "sample_record\<lparr>pr_context := (pr_context sample_record)\<lparr>pc_state := state_raw Ready\<rparr>\<rparr>"
  have p: "ph_policy sample_registered = sample_policy" "ph_policy sample_running = sample_policy"
    using initialize_policy [of sample_codecs sample_registered]
      arg_cong [OF sample_initialize(2), of ph_policy] sample_register
    by (auto simp: sample_running_def sample_host_def host_with_options_def dest: arg_cong [where f = ph_policy])
  have plugin: "pr_plugin sample_record = sample_static" by (simp add: sample_record_def)
  have r: "?r \<in> set (ph_records sample_running)" "sample_record \<in> set (ph_records sample_registered)"
    by (simp_all add: sample_running_simps sample_registered_simps)
  show ?thesis
    using capability_needs_declaration_and_grant [OF sample_running_reachable r(1)]
      capability_needs_declaration_and_grant [OF sample_reachable(2) r(2)] p plugin
    by (simp add: sample_running_simps sample_registered_simps sample_descriptor sample_grants)
qed

text \<open>C7. An accepted execution was allowed: the plugin is ready and holds \<open>task.scoped\<close>, its manifest
  declares the entry, the input fits the entry's limit, and the budget of the run is the caller's
  with the result limit lowered to the entry's output limit.\<close>
theorem accepted_execution_was_allowed:
  assumes "execute_entry now plugin_id entry_id input budget host = (Inr (execution, b), host')"
  shows "\<exists>r\<in>set (ph_records host). \<exists>entry\<in>set (entry_descriptors (sp_descriptor (pr_plugin r))).
     as_str (record_id r) = plugin_id \<and> record_state r = Ready
     \<and> require_capability ''task.scoped'' (pr_context r) = Inr ()
     \<and> ed_id entry = entry_id \<and> length input \<le> ds_max_bytes (ed_input entry)
     \<and> tb_timeout b = tb_timeout budget
     \<and> tb_max_result_bytes b = min (tb_max_result_bytes budget) (ds_max_bytes (ed_output entry))
     \<and> te_started_at execution = now \<and> te_handle execution \<noteq> None"
proof (cases "position (\<lambda>r. as_str (record_id r) = plugin_id) (ph_records host)")
  case None
  then show ?thesis using assms by (simp add: execute_entry_def)
next
  case (Some i)
  let ?r = "ph_records host ! i"
  have r: "?r \<in> set (ph_records host)" "as_str (record_id ?r) = plugin_id"
    using position_split(2,3) [OF Some] by simp_all
  show ?thesis
  proof (cases "find (\<lambda>e. ed_id e = entry_id) (entry_descriptors (sp_descriptor (pr_plugin ?r)))")
    case None
    then show ?thesis using assms Some by (simp add: execute_entry_def Let_def split: if_splits)
  next
    case entry: (Some entry)
    from find_SomeD [OF this] have e: "entry \<in> set (entry_descriptors (sp_descriptor (pr_plugin ?r)))"
      "ed_id entry = entry_id" by simp_all
    show ?thesis
      by (rule bexI [OF _ r(1)], rule bexI [OF _ e(1)])
        (use assms Some entry r(2) e(2) in \<open>auto simp: execute_entry_def Let_def budget_new_def
          context_start_task_ok task_spawn_def split: if_splits sum.splits prod.splits\<close>)
  qed
qed

lemma sample_entry:
  "find (\<lambda>e. ed_id e = ''p.two'') (entry_descriptors (sp_descriptor sample_static)) =
     Some (entry_new ''p.two'' ''Two'')"
  by (simp add: sample_descriptor(1)) (simp add: sample_plugin_def with_entries_def
      descriptor_new_def entry_descriptors_def entry_new_def)

lemma sample_execute:
  assumes "input \<in> {''ok'', ''bad''}"
  shows "\<exists>h w. execute_entry 7 ''p'' ''p.two'' input \<lparr>tb_timeout = 1000, tb_max_result_bytes = 64\<rparr>
       sample_running =
     (if input = ''bad'' then (Inl (EntryOperation (operation_error_new ''bad input'')),
         with_context 0 (\<lambda>c. c\<lparr>pc_tasks := drop_handle h w\<rparr>) sample_running)
      else (Inr (task_spawn 7 h, \<lparr>tb_timeout = 1000, tb_max_result_bytes = 64\<rparr>),
         with_context 0 (\<lambda>c. c\<lparr>pc_tasks := w\<rparr>) sample_running))"
proof -
  let ?c = "(pr_context sample_record)\<lparr>pc_state := state_raw Ready\<rparr>"
  have "validate_name ''entry:p.two'' = Inr ()" by (simp add: validate_name_def limits)
  then obtain h w where "task_start ''entry:p.two'' task_registry_new = Inr (h, w)"
    by (simp add: task_start_def task_registry_new_def limits Let_def)
  moreover have "pc_tasks ?c = task_registry_new" "require_capability ''task.scoped'' ?c = Inr ()"
      "context_state ?c = Ready"
    by (simp_all add: sample_record_def context_new_def require_capability_iff context_state_def)
  ultimately have start: "context_start_task ''entry:p.two'' ?c = Inr (h, ?c\<lparr>pc_tasks := w\<rparr>)"
    by (simp add: context_start_task_ok)
  have room: "ds_max_bytes (ed_input (entry_new ''p.two'' ''Two'')) \<ge> 64"
    "ds_max_bytes (ed_output (entry_new ''p.two'' ''Two'')) \<ge> 64"
    by (simp_all add: entry_new_def spec_text_def limits)
  have plugin: "pr_plugin sample_record = sample_static" by (simp add: sample_record_def)
  have op: "sp_execute sample_static e x c =
      (if x = ''bad'' then Inl (operation_error_new ''bad input'') else Inr (), [])" for e x c
    by (simp add: sample_static_def)
  have budget: "budget_new 1000 64 = Inr \<lparr>tb_timeout = 1000, tb_max_result_bytes = 64\<rparr>"
    by (simp add: budget_new_def limits)
  show ?thesis
    using assms start room budget
    by (auto simp: execute_entry_def sample_running_simps sample_registered_simps plugin
        sample_entry op with_context_def Let_def min_def intro!: exI [of _ h] exI [of _ w])
qed

lemma accepted_execution_was_allowed_witness:
  "\<exists>execution host'. execute_entry 7 ''p'' ''p.two'' ''ok''
       \<lparr>tb_timeout = 1000, tb_max_result_bytes = 64\<rparr> sample_running =
       (Inr (execution, \<lparr>tb_timeout = 1000, tb_max_result_bytes = 64\<rparr>), host')
     \<and> te_started_at execution = 7"
proof -
  obtain execution host' where r: "execute_entry 7 ''p'' ''p.two'' ''ok''
       \<lparr>tb_timeout = 1000, tb_max_result_bytes = 64\<rparr> sample_running =
       (Inr (execution, \<lparr>tb_timeout = 1000, tb_max_result_bytes = 64\<rparr>), host')"
    using sample_execute [of "''ok''"] by auto
  with accepted_execution_was_allowed [OF r] show ?thesis by auto
qed

text \<open>A refused execution leaves nothing behind: unless the plugin's own adapter failed the host
  is untouched, and when an adapter that started no task of its own fails, the task slot of the
  execution is released, so every context holds the same task handles as before.\<close>
theorem refused_execution_releases_slot:
  assumes "host_reachable codecs host"
    and "\<forall>r\<in>set (ph_records host). length (tw_flags (pc_tasks (pr_context r))) < 2 ^ 64"
    and "\<forall>r\<in>set (ph_records host). \<forall>c. snd (sp_execute (pr_plugin r) entry_id input c) = []"
    and "execute_entry now plugin_id entry_id input budget host = (Inl err, host')"
  shows "map (\<lambda>r. tw_handles (pc_tasks (pr_context r))) (ph_records host') =
       map (\<lambda>r. tw_handles (pc_tasks (pr_context r))) (ph_records host)
     \<and> (case err of EntryOperation e \<Rightarrow> True | _ \<Rightarrow> host' = host)"
proof (cases "position (\<lambda>r. as_str (record_id r) = plugin_id) (ph_records host)")
  case None
  then show ?thesis using assms(4) by (auto simp: execute_entry_def)
next
  case (Some i)
  let ?r = "ph_records host ! i"
  have i: "i < length (ph_records host)" using position_split(3) [OF Some] .
  then have r: "?r \<in> set (ph_records host)" by simp
  have "task_ok (pc_tasks (pr_context ?r))"
    using reachable_inv [OF assms(1)] r by (simp add: host_inv_def record_inv_def context_ok_def)
  then have fresh: "\<forall>h\<in>set (tw_handles (pc_tasks (pr_context ?r))).
      th_cancellation h < length (tw_flags (pc_tasks (pr_context ?r)))"
    using assms(2) r by (simp add: task_ok_def task_inv_def)
  show ?thesis
  proof (cases "\<exists>e. err = EntryOperation e")
    case False
    then have "host' = host"
      using assms(4) Some by (auto simp: execute_entry_def Let_def split: if_splits option.splits
          sum.splits prod.splits)
    then show ?thesis by (simp split: plugin_entry_execution_error.split)
  next
    case True
    have quiet: "sp_execute (pr_plugin ?r) entry_id input c = (res, calls) \<Longrightarrow> calls = []" for c res calls
      using assms(3) r by (metis snd_conv)
    obtain t c where start: "context_start_task (''entry:'' @ entry_id) (pr_context ?r) = Inr (t, c)"
      and host': "host' = with_context i (\<lambda>c. c\<lparr>pc_tasks := drop_handle t (pc_tasks c)\<rparr>)
          (with_context i (\<lambda>_. c) host)"
      using assms(4) Some True by (auto simp: execute_entry_def Let_def dest!: quiet
          split: if_splits option.splits sum.splits prod.splits)
    have "tw_handles (drop_handle t (pc_tasks c)) = tw_handles (pc_tasks (pr_context ?r))"
      using start fresh by (auto simp: context_start_task_ok task_start_ok drop_handle_def remove1_append)
    then show ?thesis
      using True i by (auto simp: host' with_context_def map_update list_update_same_conv)
  qed
qed

lemma refused_execution_releases_slot_witness:
  "\<exists>host'. execute_entry 7 ''p'' ''p.two'' ''bad'' \<lparr>tb_timeout = 1000, tb_max_result_bytes = 64\<rparr>
       sample_running = (Inl (EntryOperation (operation_error_new ''bad input'')), host')
     \<and> map (\<lambda>r. tw_handles (pc_tasks (pr_context r))) (ph_records host') = [[]]"
proof -
  obtain host' where r: "execute_entry 7 ''p'' ''p.two'' ''bad''
      \<lparr>tb_timeout = 1000, tb_max_result_bytes = 64\<rparr> sample_running =
      (Inl (EntryOperation (operation_error_new ''bad input'')), host')"
    using sample_execute [of "''bad''"] by auto
  have "pc_tasks (pr_context sample_record) = task_registry_new" "pr_plugin sample_record = sample_static"
    by (simp_all add: sample_record_def context_new_def)
  then show ?thesis
    using refused_execution_releases_slot [OF sample_running_reachable _ _ r] r
    by (simp add: sample_running_simps task_registry_new_def) (simp add: sample_static_def)
qed

end
