(* ===== verification/Rust_Trim.thy ===== *)
theory Rust_Trim
  imports Rust_Text
begin

text \<open>
  \<open>str::trim\<close> on UTF-8 byte lists.  \<open>WHITE_SPACE\<close> lists the encodings of the characters with the
  Unicode property \<open>White_Space\<close>; a whitespace character at the front or at the end of the bytes is
  one of them.
\<close>

definition WHITE_SPACE :: "string list" where
  "WHITE_SPACE = map utf8_enc ([9, 10, 11, 12, 13, 0x20, 0x85, 0xA0, 0x1680, 0x2000, 0x2001, 0x2002,
     0x2003, 0x2004, 0x2005, 0x2006, 0x2007, 0x2008, 0x2009, 0x200A, 0x2028, 0x2029, 0x202F, 0x205F,
     0x3000])"

definition first_space :: "string \<Rightarrow> nat" where
  "first_space s = (case find (\<lambda>w. prefix w s) WHITE_SPACE of None \<Rightarrow> 0 | Some w \<Rightarrow> length w)"

definition last_space :: "string \<Rightarrow> nat" where
  "last_space s = (case find (\<lambda>w. suffix w s) WHITE_SPACE of None \<Rightarrow> 0 | Some w \<Rightarrow> length w)"

text \<open>Every encoding starts and ends outside the printable ASCII characters.\<close>

definition blank_ends :: "string \<Rightarrow> bool" where
  "blank_ends w \<longleftrightarrow> w \<noteq> [] \<and> (byte (hd w) < 33 \<or> 128 \<le> byte (hd w))
     \<and> (byte (last w) < 33 \<or> 128 \<le> byte (last w))"

lemma blank_ends_enc:
  assumes "c < 33 \<or> 128 \<le> c \<and> c < 0x10000"
  shows "blank_ends (utf8_enc c)"
proof -
  have k: "byte (char_of (0x80 + m mod 64)) = 0x80 + m mod 64" for m :: nat
  proof -
    have "m mod 64 < 64" by simp
    then show ?thesis by simp
  qed
  consider "c < 33" | "128 \<le> c" "c < 0x800" | "0x800 \<le> c" "c < 0x10000"
    using assms by linarith
  then show ?thesis
  proof cases
    case 2
    then have "c div 64 < 32" by auto
    then show ?thesis using 2 k [of c] by (simp add: blank_ends_def utf8_enc_def)
  next
    case 3
    then have "c div 4096 < 16" by auto
    then show ?thesis using 3 k [of c] by (simp add: blank_ends_def utf8_enc_def)
  qed (simp add: blank_ends_def utf8_enc_def)
qed

lemma white_space_ends: "w \<in> set WHITE_SPACE \<Longrightarrow> blank_ends w"
  unfolding WHITE_SPACE_def by (auto intro!: blank_ends_enc)

lemma first_space_le: "first_space s \<le> length s"
  by (auto simp: first_space_def find_Some_iff prefix_length_le split: option.splits)

lemma last_space_le: "last_space s \<le> length s"
  by (auto simp: last_space_def find_Some_iff suffix_length_le split: option.splits)

function trim_start :: "string \<Rightarrow> string" where
  "trim_start s = (if first_space s = 0 then s else trim_start (drop (first_space s) s))"
  by pat_completeness auto
termination
proof (relation "measure length")
  fix s :: string
  assume "first_space s \<noteq> 0"
  then show "(drop (first_space s) s, s) \<in> measure length"
    using first_space_le [of s] by simp
qed simp

function trim_end :: "string \<Rightarrow> string" where
  "trim_end s = (if last_space s = 0 then s else trim_end (take (length s - last_space s) s))"
  by pat_completeness auto
termination
proof (relation "measure length")
  fix s :: string
  assume "last_space s \<noteq> 0"
  then show "(take (length s - last_space s) s, s) \<in> measure length"
    using last_space_le [of s] by simp
qed simp

definition trim :: "string \<Rightarrow> string" where
  "trim s = trim_end (trim_start s)"

declare trim_start.simps [simp del] trim_end.simps [simp del]

lemma trim_start_suffix: "suffix (trim_start s) s"
proof (induction s rule: trim_start.induct)
  case (1 s)
  have "suffix (drop (first_space s) s) s" by (rule suffix_drop)
  with 1 show ?case by (subst trim_start.simps) (auto dest: suffix_order.trans)
qed

lemma trim_end_prefix: "prefix (trim_end s) s"
proof (induction s rule: trim_end.induct)
  case (1 s)
  have "prefix (take (length s - last_space s) s) s" by (rule take_is_prefix)
  with 1 show ?case by (subst trim_end.simps) (auto dest: prefix_order.trans)
qed

lemma trim_sublist: "sublist (trim s) s"
  unfolding trim_def
  using sublist_order.order_trans [OF prefix_imp_sublist suffix_imp_sublist]
  by (metis trim_end_prefix trim_start_suffix)

lemma trim_start_first: "first_space (trim_start s) = 0"
  by (induction s rule: trim_start.induct) (subst trim_start.simps, simp)

lemma trim_end_last: "last_space (trim_end s) = 0"
  by (induction s rule: trim_end.induct) (subst trim_end.simps, simp)

lemma trim_length: "length (trim s) \<le> length s"
  using trim_sublist by (rule sublist_length_le)

lemma trim_Nil [simp]: "trim [] = []"
  using trim_length [of "[]"] by simp

lemma no_space_trim: "first_space s = 0 \<Longrightarrow> last_space s = 0 \<Longrightarrow> trim s = s"
  by (simp add: trim_def trim_start.simps [of s] trim_end.simps [of s])

lemma first_space_zero: "first_space s = 0 \<longleftrightarrow> (\<forall>w\<in>set WHITE_SPACE. \<not> prefix w s)"
proof (cases "find (\<lambda>w. prefix w s) WHITE_SPACE")
  case None
  moreover from None have "\<forall>w\<in>set WHITE_SPACE. \<not> prefix w s" by (auto simp: find_None_iff)
  ultimately show ?thesis by (simp add: first_space_def)
next
  case (Some w)
  then have "w \<in> set WHITE_SPACE \<and> prefix w s" by (auto simp: find_Some_iff)
  with Some white_space_ends [of w] show ?thesis by (auto simp: first_space_def blank_ends_def)
qed

lemma trim_trim: "trim (trim s) = trim s"
proof (rule no_space_trim)
  have "prefix (trim s) (trim_start s)" by (simp add: trim_def trim_end_prefix)
  with trim_start_first [of s] show "first_space (trim s) = 0"
    by (auto simp: first_space_zero dest: prefix_order.trans)
  show "last_space (trim s) = 0" by (simp add: trim_def trim_end_last)
qed

text \<open>The encodings of more than one byte have no ASCII byte, so a search that reaches an ASCII byte does not
  depend on what follows it.\<close>

lemma enc_shape:
  assumes "c < 0x10000"
  shows "length (utf8_enc c) = 1 \<or> (\<forall>b\<in>set (utf8_enc c). 128 \<le> byte b)"
proof -
  have k: "128 \<le> byte (char_of (0x80 + m mod 64))" for m :: nat
  proof -
    have "m mod 64 < 64" by simp
    then show ?thesis by simp
  qed
  consider "c < 0x80" | "0x80 \<le> c" "c < 0x800" | "0x800 \<le> c" by linarith
  then show ?thesis
  proof cases
    case 2
    then have "c div 64 < 32" by auto
    then show ?thesis using 2 k by (simp add: utf8_enc_def)
  next
    case 3
    with assms have "c div 4096 < 16" by auto
    then show ?thesis using 3 assms k by (simp add: utf8_enc_def)
  qed (simp add: utf8_enc_def)
qed

lemma first_space_cut:
  assumes "byte c < 128" and "x \<noteq> []"
  shows "first_space (x @ c # s) = 0 \<longleftrightarrow> first_space (x @ [c]) = 0"
proof -
  have "prefix w (x @ c # s) \<longleftrightarrow> prefix w (x @ [c])" if "w \<in> set WHITE_SPACE" for w
  proof -
    obtain d where w: "w = utf8_enc d" and d: "d < 0x10000"
      using \<open>w \<in> set WHITE_SPACE\<close> by (auto simp: WHITE_SPACE_def)
    show ?thesis
    proof (cases "length w = 1")
      case True
      then obtain b where "w = [b]" by (cases w) auto
      with assms(2) show ?thesis by (cases x) auto
    next
      case False
      then have "c \<notin> set w" using enc_shape [OF d] assms(1) by (auto simp: w)
      then have "prefix w (x @ c # u) \<longleftrightarrow> prefix w x" for u
        by (auto simp: prefix_append prefix_Cons dest: set_mono_prefix)
      then show ?thesis by blast
    qed
  qed
  then show ?thesis by (simp add: first_space_zero)
qed

text \<open>A text that starts and ends with printable ASCII is unchanged.\<close>

lemma first_space_ascii:
  assumes "33 \<le> byte c" and "byte c < 128"
  shows "first_space (c # s) = 0"
proof -
  have "\<not> prefix w (c # s)" if "w \<in> set WHITE_SPACE" for w
    using white_space_ends [OF that] assms by (cases w) (auto simp: blank_ends_def)
  then have "find (\<lambda>w. prefix w (c # s)) WHITE_SPACE = None"
    unfolding find_None_iff by blast
  then show ?thesis by (simp only: first_space_def option.case)
qed

lemma first_space_blank: "first_space (CHR '' '' # s) = 1"
proof -
  have enc: "utf8_enc 9 = [CHR 0x09]" "utf8_enc 10 = [CHR 0x0A]" "utf8_enc 11 = [CHR 0x0B]"
    "utf8_enc 12 = [CHR 0x0C]" "utf8_enc 13 = [CHR 0x0D]" "utf8_enc 0x20 = [CHR '' '']"
    by code_simp+
  show ?thesis unfolding first_space_def WHITE_SPACE_def list.map enc find.simps by simp
qed

lemma trim_blank: "trim (CHR '' '' # s) = trim s"
  using first_space_blank [of s] by (simp add: trim_def trim_start.simps [of "CHR '' '' # s"])

lemma last_space_ascii:
  assumes "33 \<le> byte c" and "byte c < 128"
  shows "last_space (s @ [c]) = 0"
proof -
  have "\<not> suffix w (s @ [c])" if "w \<in> set WHITE_SPACE" for w
    using white_space_ends [OF that] assms by (cases w rule: rev_cases) (auto simp: blank_ends_def)
  then have "find (\<lambda>w. suffix w (s @ [c])) WHITE_SPACE = None"
    unfolding find_None_iff by blast
  then show ?thesis by (simp only: last_space_def option.case)
qed

lemma trim_ascii:
  assumes "s \<noteq> []" and "33 \<le> byte (hd s)" "byte (hd s) < 128" and "33 \<le> byte (last s)" "byte (last s) < 128"
  shows "trim s = s"
proof (rule no_space_trim)
  show "first_space s = 0" using assms first_space_ascii by (cases s) auto
  show "last_space s = 0" using assms last_space_ascii [of "last s" "butlast s"] by simp
qed

end
