(* ===== verification/Connection_Config.thy ===== *)
theory Connection_Config
  imports Rust_Trim Domain_Error
begin

text \<open>
  Database connections (\<open>crates/ramag-domain/src/entities/connection.rs\<close>): the driver kinds, the
  quoting of identifiers, the configuration record with its constructors, and the validation that
  every persisted or opened connection passes.
\<close>

section \<open>Data\<close>

(* crates/ramag-domain/src/entities/connection.rs:4-4 MAX_CONNECTION_NAME_BYTES *)
definition MAX_CONNECTION_NAME_BYTES :: nat where
  [limits]: "MAX_CONNECTION_NAME_BYTES = 256"

(* crates/ramag-domain/src/entities/connection.rs:5-5 MAX_CONNECTION_HOST_BYTES *)
definition MAX_CONNECTION_HOST_BYTES :: nat where
  [limits]: "MAX_CONNECTION_HOST_BYTES = 1024"

(* crates/ramag-domain/src/entities/connection.rs:6-6 MAX_CONNECTION_IDENTIFIER_BYTES *)
definition MAX_CONNECTION_IDENTIFIER_BYTES :: nat where
  [limits]: "MAX_CONNECTION_IDENTIFIER_BYTES = 4 * 1024"

(* crates/ramag-domain/src/entities/connection.rs:7-7 MAX_CONNECTION_PASSWORD_BYTES *)
definition MAX_CONNECTION_PASSWORD_BYTES :: nat where
  [limits]: "MAX_CONNECTION_PASSWORD_BYTES = 64 * 1024"

(* crates/ramag-domain/src/entities/connection.rs:8-8 MAX_CONNECTION_REMARK_BYTES *)
definition MAX_CONNECTION_REMARK_BYTES :: nat where
  [limits]: "MAX_CONNECTION_REMARK_BYTES = 16 * 1024"

(* crates/ramag-domain/src/entities/connection.rs:9-9 MAX_CONNECTION_ENVIRONMENT_BYTES *)
definition MAX_CONNECTION_ENVIRONMENT_BYTES :: nat where
  [limits]: "MAX_CONNECTION_ENVIRONMENT_BYTES = 64"

(* crates/ramag-domain/src/entities/connection.rs:10-10 MAX_CONNECTION_PATH_BYTES *)
definition MAX_CONNECTION_PATH_BYTES :: nat where
  [limits]: "MAX_CONNECTION_PATH_BYTES = 32 * 1024"

(* crates/ramag-domain/src/entities/connection.rs:11-11 MAX_CONNECTION_SSH_TARGET_BYTES *)
definition MAX_CONNECTION_SSH_TARGET_BYTES :: nat where
  [limits]: "MAX_CONNECTION_SSH_TARGET_BYTES = 4 * 1024"

(* crates/ramag-domain/src/entities/connection.rs:14-15 ConnectionId *)
datatype connection_id = ConnectionId "128 word"

(* crates/ramag-domain/src/entities/connection.rs:35-42 DriverKind *)
datatype driver_kind = Mysql | Postgres | Sqlite | Redis | Mongodb

(* crates/ramag-domain/src/entities/connection.rs:46-51 DriverKind::supports_transactions *)
definition supports_transactions :: "driver_kind \<Rightarrow> bool" where
  "supports_transactions k \<longleftrightarrow> k \<in> {Mysql, Postgres, Sqlite}"

definition BACKTICK :: char where "BACKTICK = CHR 0x60"
definition DOUBLE_QUOTE :: char where "DOUBLE_QUOTE = CHR 0x22"

text \<open>\<open>ident.replace(q, qq)\<close> for a one-byte \<open>q\<close>.\<close>

definition double_char :: "char \<Rightarrow> string \<Rightarrow> string" where
  "double_char q s = concat (map (\<lambda>c. if c = q then [q, q] else [c]) s)"

(* crates/ramag-domain/src/entities/connection.rs:53-61 DriverKind::quote_identifier *)
definition quote_identifier :: "driver_kind \<Rightarrow> string \<Rightarrow> string" where
  "quote_identifier k ident =
     (case k of
        Mysql \<Rightarrow> [BACKTICK] @ double_char BACKTICK ident @ [BACKTICK]
      | Postgres \<Rightarrow> [DOUBLE_QUOTE] @ double_char DOUBLE_QUOTE ident @ [DOUBLE_QUOTE]
      | Sqlite \<Rightarrow> [DOUBLE_QUOTE] @ double_char DOUBLE_QUOTE ident @ [DOUBLE_QUOTE]
      | Redis \<Rightarrow> ident
      | Mongodb \<Rightarrow> ident)"

(* crates/ramag-domain/src/entities/connection.rs:65-74 TlsVerify *)
datatype tls_verify = TlsNone | TlsCa | TlsFull

(* crates/ramag-domain/src/entities/connection.rs:71-73 TlsVerify::default *)
definition tls_verify_default :: tls_verify where
  "tls_verify_default = TlsFull"

(* crates/ramag-domain/src/entities/connection.rs:76-107 ConnectionConfig *)
record connection_config =
  cc_id :: connection_id
  cc_name :: string
  cc_driver :: driver_kind
  cc_host :: string
  cc_port :: u16
  cc_username :: string
  cc_password :: string
  cc_database :: "string option"
  cc_auth_source :: "string option"
  cc_remark :: "string option"
  cc_environment :: "string option"
  cc_production :: bool
  cc_tls :: bool
  cc_tls_verify :: tls_verify
  cc_ca_cert_path :: "string option"
  cc_ssh_target :: "string option"
  cc_ssh_port :: "u16 option"

section \<open>Constructors\<close>

text \<open>The identifier is a fresh random UUID, a parameter here.\<close>

(* crates/ramag-domain/src/entities/connection.rs:192-217 ConnectionConfig::new_mysql *)
definition new_mysql ::
  "connection_id \<Rightarrow> string \<Rightarrow> string \<Rightarrow> u16 \<Rightarrow> string \<Rightarrow> connection_config" where
  "new_mysql i name host port user =
     \<lparr>cc_id = i, cc_name = name, cc_driver = Mysql, cc_host = host, cc_port = port,
      cc_username = user, cc_password = [], cc_database = None, cc_auth_source = None,
      cc_remark = None, cc_environment = None, cc_production = False, cc_tls = False,
      cc_tls_verify = tls_verify_default, cc_ca_cert_path = None, cc_ssh_target = None,
      cc_ssh_port = None\<rparr>"

(* crates/ramag-domain/src/entities/connection.rs:220-240 ConnectionConfig::new_sqlite *)
definition new_sqlite :: "connection_id \<Rightarrow> string \<Rightarrow> string \<Rightarrow> connection_config" where
  "new_sqlite i name path =
     \<lparr>cc_id = i, cc_name = name, cc_driver = Sqlite, cc_host = path, cc_port = 0,
      cc_username = [], cc_password = [], cc_database = None, cc_auth_source = None,
      cc_remark = None, cc_environment = None, cc_production = False, cc_tls = False,
      cc_tls_verify = tls_verify_default, cc_ca_cert_path = None, cc_ssh_target = None,
      cc_ssh_port = None\<rparr>"

(* crates/ramag-domain/src/entities/connection.rs:242-262 ConnectionConfig::new_redis *)
definition new_redis :: "connection_id \<Rightarrow> string \<Rightarrow> string \<Rightarrow> u16 \<Rightarrow> connection_config" where
  "new_redis i name host port =
     \<lparr>cc_id = i, cc_name = name, cc_driver = Redis, cc_host = host, cc_port = port,
      cc_username = [], cc_password = [], cc_database = None, cc_auth_source = None,
      cc_remark = None, cc_environment = None, cc_production = False, cc_tls = False,
      cc_tls_verify = tls_verify_default, cc_ca_cert_path = None, cc_ssh_target = None,
      cc_ssh_port = None\<rparr>"

(* crates/ramag-domain/src/entities/connection.rs:264-284 ConnectionConfig::new_mongodb *)
definition new_mongodb :: "connection_id \<Rightarrow> string \<Rightarrow> string \<Rightarrow> u16 \<Rightarrow> connection_config" where
  "new_mongodb i name host port =
     \<lparr>cc_id = i, cc_name = name, cc_driver = Mongodb, cc_host = host, cc_port = port,
      cc_username = [], cc_password = [], cc_database = None, cc_auth_source = None,
      cc_remark = None, cc_environment = None, cc_production = False, cc_tls = False,
      cc_tls_verify = tls_verify_default, cc_ca_cert_path = None, cc_ssh_target = None,
      cc_ssh_port = None\<rparr>"

section \<open>Validation\<close>

(* crates/ramag-domain/src/entities/connection.rs:317-328 validate_protocol_text *)
definition validate_protocol_text :: "string \<Rightarrow> string \<Rightarrow> nat \<Rightarrow> string + unit" where
  "validate_protocol_text label_text val max_bytes =
     try_r (ensure (length val \<le> max_bytes)
       (label_text @ (utf8 [0x8FC7, 0x957F, 0xFF1A]) @ dec (length val) @ ('' bytes'' @ utf8 [0xFF0C, 0x6700, 0x591A] @ '' '') @ dec max_bytes @ '' bytes''))
     (\<lambda>_. ensure (CHR 0x00 \<notin> set val) (label_text @ (utf8 [0x4E0D, 0x80FD, 0x5305, 0x542B] @ '' NUL '' @ utf8 [0x5B57, 0x7B26])))"

(* crates/ramag-domain/src/entities/connection.rs:298-304 validate_single_line *)
definition validate_single_line :: "string \<Rightarrow> string \<Rightarrow> nat \<Rightarrow> string + unit" where
  "validate_single_line label_text val max_bytes =
     try_r (validate_protocol_text label_text val max_bytes)
     (\<lambda>_. ensure (\<not> has_control val) (label_text @ (utf8 [0x4E0D, 0x80FD, 0x5305, 0x542B, 0x63A7, 0x5236, 0x5B57, 0x7B26])))"

(* crates/ramag-domain/src/entities/connection.rs:287-296 validate_optional_single_line *)
definition validate_optional_single_line :: "string \<Rightarrow> string option \<Rightarrow> nat \<Rightarrow> string + unit" where
  "validate_optional_single_line label_text val max_bytes =
     (case val of None \<Rightarrow> Inr () | Some v \<Rightarrow> validate_single_line label_text v max_bytes)"

(* crates/ramag-domain/src/entities/connection.rs:306-315 validate_optional_protocol_text *)
definition validate_optional_protocol_text :: "string \<Rightarrow> string option \<Rightarrow> nat \<Rightarrow> string + unit" where
  "validate_optional_protocol_text label_text val max_bytes =
     (case val of None \<Rightarrow> Inr () | Some v \<Rightarrow> validate_protocol_text label_text v max_bytes)"

(* crates/ramag-domain/src/entities/connection.rs:111-190 ConnectionConfig::validate *)
definition validate_config :: "connection_config \<Rightarrow> string + unit" where
  "validate_config c =
     try_r (ensure (trim (cc_name c) \<noteq> []) ((utf8 [0x8FDE, 0x63A5, 0x540D, 0x79F0, 0x4E0D, 0x80FD, 0x4E3A, 0x7A7A]))) (\<lambda>_.
     try_r (validate_single_line ((utf8 [0x8FDE, 0x63A5, 0x540D, 0x79F0])) (cc_name c) MAX_CONNECTION_NAME_BYTES) (\<lambda>_.
     try_r (ensure (trim (cc_host c) \<noteq> [])
       (if cc_driver c = Sqlite then (''SQLite '' @ utf8 [0x6570, 0x636E, 0x5E93, 0x6587, 0x4EF6, 0x8DEF, 0x5F84, 0x4E0D, 0x80FD, 0x4E3A, 0x7A7A]) else (utf8 [0x4E3B, 0x673A, 0x5730, 0x5740, 0x4E0D, 0x80FD, 0x4E3A, 0x7A7A]))) (\<lambda>_.
     try_r (if cc_driver c = Sqlite
            then validate_single_line ((''SQLite '' @ utf8 [0x6570, 0x636E, 0x5E93, 0x6587, 0x4EF6, 0x8DEF, 0x5F84])) (cc_host c) MAX_CONNECTION_PATH_BYTES
            else validate_single_line ((utf8 [0x4E3B, 0x673A, 0x5730, 0x5740])) (cc_host c) MAX_CONNECTION_HOST_BYTES) (\<lambda>_.
     try_r (if cc_driver c = Sqlite
            then ensure (cc_port c = 0) ((''SQLite '' @ utf8 [0x4E0D, 0x4F7F, 0x7528, 0x7AEF, 0x53E3, 0xFF0C, 0x7AEF, 0x53E3, 0x5FC5, 0x987B, 0x4E3A] @ '' 0''))
            else ensure (cc_port c \<noteq> 0) ((utf8 [0x7AEF, 0x53E3, 0x5FC5, 0x987B, 0x662F] @ '' 1 - 65535''))) (\<lambda>_.
     try_r (ensure (\<not> (cc_driver c = Sqlite
         \<and> (cc_username c \<noteq> [] \<or> cc_password c \<noteq> [] \<or> cc_database c \<noteq> None \<or> cc_auth_source c \<noteq> None
            \<or> cc_tls c \<or> cc_tls_verify c \<noteq> tls_verify_default \<or> cc_ca_cert_path c \<noteq> None
            \<or> cc_ssh_target c \<noteq> None \<or> cc_ssh_port c \<noteq> None)))
       ((''SQLite '' @ utf8 [0x8FDE, 0x63A5, 0x4E0D, 0x652F, 0x6301, 0x7528, 0x6237, 0x540D, 0x3001, 0x5BC6, 0x7801, 0x3001, 0x6570, 0x636E, 0x5E93, 0x540D, 0x3001, 0x8BA4, 0x8BC1, 0x5E93, 0x3001] @ ''TLS '' @ utf8 [0x6216] @ '' SSH '' @ utf8 [0x53C2, 0x6570]))) (\<lambda>_.
     try_r (validate_protocol_text ((utf8 [0x7528, 0x6237, 0x540D])) (cc_username c) MAX_CONNECTION_IDENTIFIER_BYTES) (\<lambda>_.
     try_r (validate_protocol_text ((utf8 [0x5BC6, 0x7801])) (cc_password c) MAX_CONNECTION_PASSWORD_BYTES) (\<lambda>_.
     try_r (validate_optional_protocol_text ((utf8 [0x6570, 0x636E, 0x5E93, 0x540D])) (cc_database c) MAX_CONNECTION_IDENTIFIER_BYTES) (\<lambda>_.
     try_r (validate_optional_protocol_text ((utf8 [0x8BA4, 0x8BC1, 0x5E93])) (cc_auth_source c) MAX_CONNECTION_IDENTIFIER_BYTES) (\<lambda>_.
     try_r (validate_optional_protocol_text ((utf8 [0x5907, 0x6CE8])) (cc_remark c) MAX_CONNECTION_REMARK_BYTES) (\<lambda>_.
     try_r (validate_optional_single_line ((utf8 [0x73AF, 0x5883, 0x6807, 0x7B7E])) (cc_environment c) MAX_CONNECTION_ENVIRONMENT_BYTES) (\<lambda>_.
     try_r (validate_optional_single_line ((''CA '' @ utf8 [0x8BC1, 0x4E66, 0x8DEF, 0x5F84])) (cc_ca_cert_path c) MAX_CONNECTION_PATH_BYTES) (\<lambda>_.
     try_r (validate_optional_single_line ((''SSH '' @ utf8 [0x8DF3, 0x677F, 0x76EE, 0x6807])) (cc_ssh_target c) MAX_CONNECTION_SSH_TARGET_BYTES) (\<lambda>_.
     ensure (cc_ssh_port c \<noteq> Some 0) ((''SSH '' @ utf8 [0x7AEF, 0x53E3, 0x5FC5, 0x987B, 0x662F] @ '' 1 - 65535''))))))))))))))))"

section \<open>What validation accepts\<close>

definition wf_text :: "nat \<Rightarrow> string \<Rightarrow> bool" where
  "wf_text n s \<longleftrightarrow> length s \<le> n \<and> CHR 0x00 \<notin> set s"

definition wf_line :: "nat \<Rightarrow> string \<Rightarrow> bool" where
  "wf_line n s \<longleftrightarrow> wf_text n s \<and> \<not> has_control s"

lemma protocol_text_ok: "validate_protocol_text l s n = Inr () \<longleftrightarrow> wf_text n s"
  by (auto simp: validate_protocol_text_def wf_text_def)

lemma single_line_ok: "validate_single_line l s n = Inr () \<longleftrightarrow> wf_line n s"
  by (auto simp: validate_single_line_def wf_line_def protocol_text_ok)

lemma optional_text_ok:
  "validate_optional_protocol_text l v n = Inr () \<longleftrightarrow> (\<forall>s. v = Some s \<longrightarrow> wf_text n s)"
  by (auto simp: validate_optional_protocol_text_def protocol_text_ok split: option.split)

lemma optional_line_ok:
  "validate_optional_single_line l v n = Inr () \<longleftrightarrow> (\<forall>s. v = Some s \<longrightarrow> wf_line n s)"
  by (auto simp: validate_optional_single_line_def single_line_ok split: option.split)

text \<open>The contract of a configuration, without the order of the checks.\<close>

definition wf_config :: "connection_config \<Rightarrow> bool" where
  "wf_config c \<longleftrightarrow>
     trim (cc_name c) \<noteq> [] \<and> wf_line 256 (cc_name c) \<and> trim (cc_host c) \<noteq> []
     \<and> wf_text 4096 (cc_username c) \<and> wf_text 65536 (cc_password c)
     \<and> (\<forall>s. cc_database c = Some s \<longrightarrow> wf_text 4096 s)
     \<and> (\<forall>s. cc_auth_source c = Some s \<longrightarrow> wf_text 4096 s)
     \<and> (\<forall>s. cc_remark c = Some s \<longrightarrow> wf_text 16384 s)
     \<and> (\<forall>s. cc_environment c = Some s \<longrightarrow> wf_line 64 s)
     \<and> (\<forall>s. cc_ca_cert_path c = Some s \<longrightarrow> wf_line 32768 s)
     \<and> (\<forall>s. cc_ssh_target c = Some s \<longrightarrow> wf_line 4096 s)
     \<and> cc_ssh_port c \<noteq> Some 0
     \<and> (if cc_driver c = Sqlite
        then wf_line 32768 (cc_host c)
          \<and> c = (new_sqlite (cc_id c) (cc_name c) (cc_host c))
                  \<lparr>cc_remark := cc_remark c, cc_environment := cc_environment c,
                   cc_production := cc_production c\<rparr>
        else wf_line 1024 (cc_host c) \<and> cc_port c \<noteq> 0)"

lemma sqlite_config_eq:
  "c = (new_sqlite (cc_id c) (cc_name c) (cc_host c))
      \<lparr>cc_remark := cc_remark c, cc_environment := cc_environment c, cc_production := cc_production c\<rparr>
   \<longleftrightarrow> cc_driver c = Sqlite \<and> cc_port c = 0 \<and> cc_username c = [] \<and> cc_password c = []
     \<and> cc_database c = None \<and> cc_auth_source c = None \<and> \<not> cc_tls c
     \<and> cc_tls_verify c = tls_verify_default \<and> cc_ca_cert_path c = None \<and> cc_ssh_target c = None
     \<and> cc_ssh_port c = None"
  by (cases c) (auto simp: new_sqlite_def)

lemma validate_config_ok: "validate_config c = Inr () \<longleftrightarrow> wf_config c"
  unfolding validate_config_def wf_config_def sqlite_config_eq
  by (auto simp: limits protocol_text_ok single_line_ok optional_text_ok optional_line_ok wf_text_def
      split: if_splits)

section \<open>Quoted identifiers\<close>

text \<open>
  How a server reads a quoted identifier, after its opening quote: up to the first quote that is
  not doubled.  The result is the identifier and the rest of the statement.
\<close>

fun read_quoted :: "char \<Rightarrow> string \<Rightarrow> (string \<times> string) option" where
  "read_quoted q [] = None"
| "read_quoted q (c # s) =
     (if c \<noteq> q then map_option (apfst (Cons c)) (read_quoted q s)
      else case s of
        d # s' \<Rightarrow> if d = q then map_option (apfst (Cons q)) (read_quoted q s') else Some ([], s)
      | [] \<Rightarrow> Some ([], []))"

lemma read_double_char:
  assumes "rest = [] \<or> hd rest \<noteq> q"
  shows "read_quoted q (double_char q x @ q # rest) = Some (x, rest)"
proof (induction x)
  case Nil
  then show ?case using assms by (cases rest) (auto simp: double_char_def)
next
  case (Cons c x)
  then show ?case by (auto simp: double_char_def)
qed

text \<open>A quoted identifier is one token whatever the name holds: a server that reads it, up to the
  first quote that is not doubled, gets back exactly the name and the rest of the statement, so no
  identifier can end its own quotation.\<close>
theorem quoted_identifier_is_one_token:
  assumes "supports_transactions k" and "rest = [] \<or> hd rest \<noteq> hd (quote_identifier k ident)"
  shows "read_quoted (hd (quote_identifier k ident)) (tl (quote_identifier k ident @ rest)) =
     Some (ident, rest)"
  using assms read_double_char
  by (auto simp: supports_transactions_def quote_identifier_def)

lemma quoted_identifier_is_one_token_witness:
  "read_quoted BACKTICK (tl (quote_identifier Mysql [CHR 0x60, CHR ''x''] @ '' WHERE 1'')) =
     Some ([CHR 0x60, CHR ''x''], '' WHERE 1'')"
proof -
  have "hd (quote_identifier Mysql [CHR 0x60, CHR ''x'']) = BACKTICK"
    by (simp add: quote_identifier_def)
  then show ?thesis
    using quoted_identifier_is_one_token [of Mysql "'' WHERE 1''" "[CHR 0x60, CHR ''x'']"]
    by (simp add: supports_transactions_def BACKTICK_def)
qed

end
