(* ===== verification/Data_Sync.thy ===== *)
theory Data_Sync
  imports Connection_Config Bounded_Text "HOL-Library.Product_Lexorder"
begin

text \<open>
  Data synchronisation between two connections: the request and its validation, the progress and
  summary records, and the choice of the columns that identify a record
  (\<open>crates/ramag-domain/src/entities/data_sync.rs\<close>, with the name checks of \<open>mongo.rs\<close> and the
  application-level checks of \<open>crates/ramag-app/src/usecases/data_sync/validation.rs\<close>).
\<close>

section \<open>Limits\<close>

definition MAX_TRANSFER_WARNINGS :: nat where
  [limits]: "MAX_TRANSFER_WARNINGS = 100"

section \<open>Requests\<close>

(* crates/ramag-domain/src/entities/data_sync.rs:19-20 DataSyncTaskId *)
datatype data_sync_task_id = DataSyncTaskId "128 word"

(* crates/ramag-domain/src/entities/data_sync.rs:40-44 SyncObjectMapping *)
record sync_object_mapping =
  om_source :: string
  om_target :: string

(* crates/ramag-domain/src/entities/data_sync.rs:47-51 SyncObjectSelection *)
datatype sync_object_selection = AllObjects | SelectedObjects "sync_object_mapping list"

(* crates/ramag-domain/src/entities/data_sync.rs:53-59 SqlSyncScope *)
record sql_sync_scope =
  sq_source_namespace :: string
  sq_target_namespace :: string
  sq_tables :: sync_object_selection

(* crates/ramag-domain/src/entities/data_sync.rs:61-66 MongoSyncScope *)
record mongo_sync_scope =
  mg_source_database :: string
  mg_target_database :: string
  mg_collections :: sync_object_selection

(* crates/ramag-domain/src/entities/data_sync.rs:68-72 DataSyncScope *)
datatype data_sync_scope = SqlScope sql_sync_scope | MongoScope mongo_sync_scope

(* crates/ramag-domain/src/entities/data_sync.rs:75-82 DataSyncRequest *)
record data_sync_request =
  rq_task_id :: data_sync_task_id
  rq_source_connection_id :: connection_id
  rq_target_connection_id :: connection_id
  rq_engine :: driver_kind
  rq_scope :: data_sync_scope

section \<open>Validation of a request\<close>


text \<open>The loop over the mappings, with the sources and targets seen so far.\<close>


section \<open>Application-level checks\<close>

(* crates/ramag-app/src/usecases/data_sync/validation.rs:10-26 protected_catalog_scope *)
definition protected_catalog_scope :: "driver_kind \<Rightarrow> string \<Rightarrow> bool" where
  "protected_catalog_scope driver name =
     (case driver of
        Mysql \<Rightarrow> to_ascii_lowercase name \<in>
          {''information_schema'', ''mysql'', ''performance_schema'', ''sys''}
      | Postgres \<Rightarrow>
          (let lower = to_ascii_lowercase name in
           lower = ''information_schema'' \<or> lower = ''pg_catalog''
           \<or> starts_with lower ''pg_toast'' \<or> starts_with lower ''pg_temp_'')
      | Mongodb \<Rightarrow> name \<in> {''admin'', ''config'', ''local''}
      | _ \<Rightarrow> False)"

(* crates/ramag-app/src/usecases/data_sync/validation.rs:48-53 reject_obvious_self_sync *)
definition same_mapping :: "sync_object_selection \<Rightarrow> bool" where
  "same_mapping selection =
     (case selection of AllObjects \<Rightarrow> True
      | SelectedObjects mappings \<Rightarrow> list_all (\<lambda>m. om_source m = om_target m) mappings)"

(* crates/ramag-app/src/usecases/data_sync/validation.rs:35-68 reject_obvious_self_sync *)
definition reject_obvious_self_sync ::
  "data_sync_request \<Rightarrow> connection_config \<Rightarrow> connection_config \<Rightarrow> domain_error + unit" where
  "reject_obvious_self_sync request source target =
     (let same_endpoint = eq_ignore_ascii_case (cc_host source) (cc_host target)
            \<and> cc_port source = cc_port target \<and> cc_ssh_target source = cc_ssh_target target
            \<and> cc_ssh_port source = cc_ssh_port target
            \<and> (cc_driver source \<noteq> Postgres \<or> cc_database source = cc_database target)
      in if \<not> same_endpoint then Inr ()
         else
           let same_scope =
             (case rq_scope request of
                SqlScope scope \<Rightarrow>
                  sq_source_namespace scope = sq_target_namespace scope \<and> same_mapping (sq_tables scope)
              | MongoScope scope \<Rightarrow>
                  mg_source_database scope = mg_target_database scope \<and> same_mapping (mg_collections scope))
           in if same_scope then
                Inl (DeInvalidConfig ((utf8 [0x6E90, 0x548C, 0x76EE, 0x6807, 0x8FDE, 0x63A5, 0x660E, 0x663E, 0x6307, 0x5411, 0x540C, 0x4E00, 0x5B9E, 0x4F8B, 0x3001, 0x540C, 0x4E00, 0x8303, 0x56F4, 0x4E14, 0x540D, 0x79F0, 0x672A, 0x53D8, 0x5316, 0xFF0C, 0x65E0, 0x9700, 0x540C, 0x6B65])))
              else Inr ())"

section \<open>Progress and summary\<close>

(* crates/ramag-domain/src/entities/data_sync.rs:144-154 DataSyncStage *)
datatype data_sync_stage = Preparing | VerifyingTarget | CreatingStructure | Scanning | Writing | Finalizing
  | StageCancelling

(* crates/ramag-domain/src/entities/data_sync.rs:156-169 DataSyncProgress *)
record data_sync_progress =
  dp_stage :: data_sync_stage
  dp_object :: string
  dp_objects_done :: u64
  dp_objects_total :: "u64 option"
  dp_scanned :: u64
  dp_inserted :: u64
  dp_skipped :: u64
  dp_failed :: u64
  dp_warnings :: u64
  dp_bytes :: u64
  dp_elapsed_ms :: u64

(* crates/ramag-domain/src/entities/data_sync.rs:156-156 DataSyncProgress::default *)
definition progress_default :: data_sync_progress where
  "progress_default = \<lparr>dp_stage = Preparing, dp_object = [], dp_objects_done = 0, dp_objects_total = None,
     dp_scanned = 0, dp_inserted = 0, dp_skipped = 0, dp_failed = 0, dp_warnings = 0, dp_bytes = 0,
     dp_elapsed_ms = 0\<rparr>"

(* crates/ramag-domain/src/entities/data_sync.rs:172-174 DataSyncProgress::add_scanned *)
definition add_scanned :: "u64 \<Rightarrow> data_sync_progress \<Rightarrow> data_sync_progress" where
  "add_scanned v p = p\<lparr>dp_scanned := sat_add (dp_scanned p) v\<rparr>"

(* crates/ramag-domain/src/entities/data_sync.rs:176-178 DataSyncProgress::add_inserted *)
definition add_inserted :: "u64 \<Rightarrow> data_sync_progress \<Rightarrow> data_sync_progress" where
  "add_inserted v p = p\<lparr>dp_inserted := sat_add (dp_inserted p) v\<rparr>"

(* crates/ramag-domain/src/entities/data_sync.rs:180-182 DataSyncProgress::add_skipped *)
definition add_skipped :: "u64 \<Rightarrow> data_sync_progress \<Rightarrow> data_sync_progress" where
  "add_skipped v p = p\<lparr>dp_skipped := sat_add (dp_skipped p) v\<rparr>"

(* crates/ramag-domain/src/entities/data_sync.rs:184-186 DataSyncProgress::add_failed *)
definition add_failed :: "u64 \<Rightarrow> data_sync_progress \<Rightarrow> data_sync_progress" where
  "add_failed v p = p\<lparr>dp_failed := sat_add (dp_failed p) v\<rparr>"

(* crates/ramag-domain/src/entities/data_sync.rs:188-190 DataSyncProgress::add_bytes *)
definition add_bytes :: "u64 \<Rightarrow> data_sync_progress \<Rightarrow> data_sync_progress" where
  "add_bytes v p = p\<lparr>dp_bytes := sat_add (dp_bytes p) v\<rparr>"

(* crates/ramag-domain/src/entities/data_sync.rs:193-205 DataSyncSummary *)
record data_sync_summary =
  dy_objects :: u64
  dy_scanned :: u64
  dy_inserted :: u64
  dy_skipped :: u64
  dy_failed :: u64
  dy_bytes :: u64
  dy_elapsed_ms :: u64
  dy_cancelled :: bool
  dy_warnings :: "string list"
  dy_warnings_overflow :: u64

(* crates/ramag-domain/src/entities/data_sync.rs:193-193 DataSyncSummary::default *)
definition summary_default :: data_sync_summary where
  "summary_default = \<lparr>dy_objects = 0, dy_scanned = 0, dy_inserted = 0, dy_skipped = 0, dy_failed = 0,
     dy_bytes = 0, dy_elapsed_ms = 0, dy_cancelled = False, dy_warnings = [], dy_warnings_overflow = 0\<rparr>"

(* crates/ramag-domain/src/entities/data_sync.rs:208-214 DataSyncSummary::push_warning *)
definition push_warning :: "string \<Rightarrow> data_sync_summary \<Rightarrow> data_sync_summary" where
  "push_warning warning s =
     (if length (dy_warnings s) < MAX_TRANSFER_WARNINGS
      then s\<lparr>dy_warnings := dy_warnings s @ [warning]\<rparr>
      else s\<lparr>dy_warnings_overflow := sat_add (dy_warnings_overflow s) 1\<rparr>)"

section \<open>The identity of a record\<close>

(* crates/ramag-domain/src/entities/schema.rs:79-83 GeneratedColumnStorage *)
datatype generated_column_storage = VirtualColumn | StoredColumn

(* crates/ramag-domain/src/entities/schema.rs:85-89 IdentityGeneration *)
datatype identity_generation = IdentityAlways | IdentityByDefault

(* crates/ramag-domain/src/entities/schema.rs:98-109 ColumnKind *)
datatype column_kind = KInteger | KDecimal | KFloat | KText | KBlob | KBool | KDateTime | KJson | KOther

(* crates/ramag-domain/src/entities/schema.rs:92-96 ColumnType *)
record column_type =
  ct_kind :: column_kind
  ct_raw_type :: string

(* crates/ramag-domain/src/entities/schema.rs:54-77 Column *)
record sql_column =
  co_name :: string
  co_data_type :: column_type
  co_nullable :: bool
  co_default_value :: "string option"
  co_is_primary_key :: bool
  co_comment :: "string option"
  co_ordinal_position :: "u32 option"
  co_is_auto_increment :: bool
  co_generation_expression :: "string option"
  co_generated_storage :: "generated_column_storage option"
  co_identity_generation :: "identity_generation option"

(* crates/ramag-domain/src/entities/schema.rs:111-118 Index *)
record sql_index =
  ix_name :: string
  ix_unique :: bool
  ix_primary :: bool
  ix_columns :: "string list"

(* crates/ramag-domain/src/entities/data_sync.rs:217-221 SqlIdentityKind *)
datatype sql_identity_kind = PrimaryKey | UniqueIndex string

(* crates/ramag-domain/src/entities/data_sync.rs:223-227 SqlRecordIdentity *)
record sql_record_identity =
  ri_kind :: sql_identity_kind
  ri_columns :: "string list"

(* crates/ramag-domain/src/entities/data_sync.rs:288-305 validate_identity_columns *)
fun check_identity_columns ::
  "string \<Rightarrow> (string \<Rightarrow> sql_column option) \<Rightarrow> string set \<Rightarrow> string list \<Rightarrow> domain_error + unit" where
  "check_identity_columns index_name columns seen [] = Inr ()"
| "check_identity_columns index_name columns seen (name # rest) =
     (if columns name = None then
        Inl (DeInvalidConfig ((utf8 [0x7D22, 0x5F15] @ '' '') @ index_name @ ('' '' @ utf8 [0x5F15, 0x7528, 0x4E86, 0x4E0D, 0x5B58, 0x5728, 0x7684, 0x5217] @ '' '') @ name))
      else if name \<in> seen then
        Inl (DeInvalidConfig ((utf8 [0x7D22, 0x5F15] @ '' '') @ index_name @ ('' '' @ utf8 [0x91CD, 0x590D, 0x5F15, 0x7528, 0x5217] @ '' '') @ name))
      else check_identity_columns index_name columns (insert name seen) rest)"

(* crates/ramag-domain/src/entities/data_sync.rs:288-305 validate_identity_columns *)
definition validate_identity_columns ::
  "sql_index \<Rightarrow> (string \<Rightarrow> sql_column option) \<Rightarrow> domain_error + unit" where
  "validate_identity_columns index columns =
     check_identity_columns (ix_name index) columns {} (ix_columns index)"

(* crates/ramag-domain/src/entities/data_sync.rs:234-237 select_sql_record_identity *)
definition columns_by_name :: "sql_column list \<Rightarrow> string \<Rightarrow> sql_column option" where
  "columns_by_name columns = map_of (rev (map (\<lambda>c. (co_name c, c)) columns))"

(* crates/ramag-domain/src/entities/data_sync.rs:255-268 select_sql_record_identity *)
definition identity_candidate :: "(string \<Rightarrow> sql_column option) \<Rightarrow> sql_index \<Rightarrow> bool" where
  "identity_candidate columns index \<longleftrightarrow>
     ix_unique index \<and> \<not> ix_primary index \<and> ix_columns index \<noteq> []
     \<and> list_all (\<lambda>name. case columns name of None \<Rightarrow> False | Some c \<Rightarrow> \<not> co_nullable c) (ix_columns index)"

(* crates/ramag-domain/src/entities/data_sync.rs:230-286 select_sql_record_identity *)
definition select_sql_record_identity ::
  "sql_column list \<Rightarrow> sql_index list \<Rightarrow> domain_error + sql_record_identity" where
  "select_sql_record_identity columns indexes =
     (let by_name = columns_by_name columns;
          primary = filter (\<lambda>index. ix_primary index \<and> ix_columns index \<noteq> []) indexes
      in if 1 < length primary then
           Inl (DeInvalidConfig ((utf8 [0x8868, 0x5143, 0x6570, 0x636E, 0x5305, 0x542B, 0x591A, 0x4E2A, 0x4E3B, 0x952E, 0xFF0C, 0x65E0, 0x6CD5, 0x786E, 0x5B9A, 0x8BB0, 0x5F55, 0x8EAB, 0x4EFD])))
         else case primary of
           index # _ \<Rightarrow>
             try_r (validate_identity_columns index by_name) (\<lambda>_.
               Inr \<lparr>ri_kind = PrimaryKey, ri_columns = ix_columns index\<rparr>)
         | [] \<Rightarrow>
             (let candidates = sort_key (\<lambda>index. (length (ix_columns index), ix_name index))
                  (filter (identity_candidate by_name) indexes)
              in case candidates of
                   [] \<Rightarrow> Inl (DeInvalidConfig ((utf8 [0x8868, 0x6CA1, 0x6709, 0x4E3B, 0x952E, 0x6216, 0x5168, 0x90E8, 0x5217, 0x975E, 0x7A7A, 0x7684, 0x552F, 0x4E00, 0x7D22, 0x5F15, 0xFF0C, 0x4E0D, 0x80FD, 0x5B89, 0x5168, 0x91CD, 0x590D, 0x540C, 0x6B65])))
                 | index # _ \<Rightarrow>
                     try_r (validate_identity_columns index by_name) (\<lambda>_.
                       Inr \<lparr>ri_kind = UniqueIndex (ix_name index), ri_columns = ix_columns index\<rparr>)))"

section \<open>What validation accepts\<close>











lemma identity_columns_ok:
  "check_identity_columns n columns seen cs = Inr () \<longleftrightarrow>
     (\<forall>c\<in>set cs. columns c \<noteq> None) \<and> distinct cs \<and> set cs \<inter> seen = {}"
  by (induction n columns seen cs rule: check_identity_columns.induct) auto

lemma columns_by_nameD: "columns_by_name columns n = Some c \<Longrightarrow> c \<in> set columns \<and> co_name c = n"
  by (auto simp: columns_by_name_def dest!: map_of_SomeD)

lemma hd_sort_key:
  assumes "sort_key f xs = x # ys"
  shows "x \<in> set xs \<and> (\<forall>y\<in>set xs. f x \<le> f y)"
proof -
  have "sorted (map f (x # ys))" using sorted_sort_key [of f xs] assms by simp
  moreover have "set xs = set (x # ys)" using set_sort [of f xs] assms by simp
  ultimately show ?thesis by auto
qed

text \<open>The identity chosen for a table consists of different existing columns: those of its only
  primary key if it has one, and otherwise those of a unique index without nullable columns that
  comes first by number of columns and then by name among all such indexes.\<close>
theorem record_identity_choice:
  assumes "select_sql_record_identity columns indexes = Inr identity"
  shows "distinct (ri_columns identity) \<and> ri_columns identity \<noteq> []
     \<and> set (ri_columns identity) \<subseteq> co_name ` set columns
     \<and> (case ri_kind identity of
          PrimaryKey \<Rightarrow> \<exists>i. filter (\<lambda>i. ix_primary i \<and> ix_columns i \<noteq> []) indexes = [i]
            \<and> ix_columns i = ri_columns identity
        | UniqueIndex n \<Rightarrow> (\<exists>i\<in>set indexes. ix_name i = n \<and> ix_columns i = ri_columns identity
            \<and> ix_unique i \<and> \<not> ix_primary i
            \<and> (\<forall>x\<in>set (ri_columns identity). \<exists>c\<in>set columns. co_name c = x \<and> \<not> co_nullable c)
            \<and> (\<forall>j\<in>set indexes. identity_candidate (columns_by_name columns) j \<longrightarrow>
                 length (ix_columns i) < length (ix_columns j)
                 \<or> length (ix_columns i) = length (ix_columns j) \<and> ix_name i \<le> ix_name j)))"
proof -
  let ?by = "columns_by_name columns"
  let ?primary = "filter (\<lambda>i. ix_primary i \<and> ix_columns i \<noteq> []) indexes"
  have cols: "distinct (ix_columns i) \<and> set (ix_columns i) \<subseteq> co_name ` set columns"
    if "validate_identity_columns i ?by = Inr ()" for i
    using that columns_by_nameD by (force simp: validate_identity_columns_def identity_columns_ok)
  show ?thesis
  proof (cases ?primary)
    case (Cons i more)
    then have "more = []" "identity = \<lparr>ri_kind = PrimaryKey, ri_columns = ix_columns i\<rparr>"
      and valid: "validate_identity_columns i ?by = Inr ()"
      using assms by (auto simp: select_sql_record_identity_def Let_def split: if_splits)
    moreover have "ix_columns i \<noteq> []"
    proof -
      have "i \<in> set ?primary" unfolding Cons by simp
      then show ?thesis by simp
    qed
    ultimately show ?thesis using cols [OF valid] Cons by simp
  next
    case Nil
    then obtain i more where sorted: "sort_key (\<lambda>i. (length (ix_columns i), ix_name i))
        (filter (identity_candidate ?by) indexes) = i # more"
      and identity: "identity = \<lparr>ri_kind = UniqueIndex (ix_name i), ri_columns = ix_columns i\<rparr>"
      and valid: "validate_identity_columns i ?by = Inr ()"
      using assms by (auto simp: select_sql_record_identity_def Let_def split: list.splits)
    from hd_sort_key [OF sorted] have i: "i \<in> set indexes" "identity_candidate ?by i"
      and least: "\<forall>j\<in>set indexes. identity_candidate ?by j \<longrightarrow>
        length (ix_columns i) < length (ix_columns j)
        \<or> length (ix_columns i) = length (ix_columns j) \<and> ix_name i \<le> ix_name j"
      by (auto simp: less_eq_prod_simp)
    have "\<exists>c\<in>set columns. co_name c = x \<and> \<not> co_nullable c" if "x \<in> set (ix_columns i)" for x
      using i(2) that columns_by_nameD
      by (force simp: identity_candidate_def list_all_iff split: option.splits)
    then show ?thesis
      using cols [OF valid] i least by (auto simp: identity identity_candidate_def)
  qed
qed

definition sample_column :: "string \<Rightarrow> bool \<Rightarrow> sql_column" where
  "sample_column name nullable =
     \<lparr>co_name = name, co_data_type = \<lparr>ct_kind = KInteger, ct_raw_type = ''int''\<rparr>, co_nullable = nullable,
      co_default_value = None, co_is_primary_key = False, co_comment = None, co_ordinal_position = None,
      co_is_auto_increment = False, co_generation_expression = None, co_generated_storage = None,
      co_identity_generation = None\<rparr>"

definition sample_index :: "string \<Rightarrow> string list \<Rightarrow> sql_index" where
  "sample_index name cols = \<lparr>ix_name = name, ix_unique = True, ix_primary = False, ix_columns = cols\<rparr>"

text \<open>The unique index on a nullable column is passed over.\<close>

lemma record_identity_choice_witness:
  "\<exists>identity. select_sql_record_identity [sample_column ''a'' True, sample_column ''b'' False]
       [sample_index ''u1'' [''a''], sample_index ''u2'' [''b'']] = Inr identity
     \<and> ri_kind identity = UniqueIndex ''u2'' \<and> set (ri_columns identity) \<subseteq> {''a'', ''b''}"
proof -
  have r: "select_sql_record_identity [sample_column ''a'' True, sample_column ''b'' False]
       [sample_index ''u1'' [''a''], sample_index ''u2'' [''b'']] =
     Inr \<lparr>ri_kind = UniqueIndex ''u2'', ri_columns = [''b'']\<rparr>"
    by (simp add: select_sql_record_identity_def columns_by_name_def identity_candidate_def
        sample_column_def sample_index_def validate_identity_columns_def Let_def)
  from record_identity_choice [OF r] show ?thesis
    using r by (simp add: sample_column_def)
qed

end
