(* ===== verification/Sync_Gate.thy ===== *)
theory Sync_Gate
  imports Data_Sync
begin

text \<open>
  The application-wide gate of data synchronisation
  (\<open>crates/ramag-app/src/usecases/data_sync/gate.rs\<close>).  Every method locks the gate for its whole
  body, so it is one step.  The cancellation flag of a task is shared by its permit and the gate: it
  lives in \<open>sg_flags\<close> and both hold its address.  Times are nanoseconds of a monotonic clock, a
  parameter of the methods that read it.
\<close>

section \<open>State\<close>

(* crates/ramag-app/src/usecases/data_sync/gate.rs:12-18 DataSyncExecutionContext *)
record sync_execution_context =
  ec_source_connection :: string
  ec_source_scope :: string
  ec_target_connection :: string
  ec_target_scope :: string

(* crates/ramag-app/src/usecases/data_sync/gate.rs:20-27 DataSyncGatePhase *)
datatype gate_phase = GpRunning | GpCancelling | GpCompleted | GpFailed | GpCancelled

(* crates/ramag-app/src/usecases/data_sync/gate.rs:30-32 DataSyncGatePhase::terminal *)
definition terminal :: "gate_phase \<Rightarrow> bool" where
  "terminal p \<longleftrightarrow> p \<in> {GpCompleted, GpFailed, GpCancelled}"

(* crates/ramag-app/src/usecases/data_sync/gate.rs:35-43 DataSyncGateSnapshot *)
record gate_snapshot =
  gs_task_id :: data_sync_task_id
  gs_phase :: gate_phase
  gs_context :: sync_execution_context
  gs_progress :: data_sync_progress
  gs_summary :: "data_sync_summary option"
  gs_error :: "string option"

(* crates/ramag-app/src/usecases/data_sync/gate.rs:46-51 DataSyncPermit *)
record sync_permit =
  pm_generation :: u64
  pm_task_id :: data_sync_task_id
  pm_cancel :: nat

(* crates/ramag-app/src/usecases/data_sync/gate.rs:67-78 ActiveTask *)
record active_task =
  at_generation :: u64
  at_task_id :: data_sync_task_id
  at_phase :: gate_phase
  at_context :: sync_execution_context
  at_progress :: data_sync_progress
  at_summary :: "data_sync_summary option"
  at_error :: "string option"
  at_cancel :: nat
  at_started_at :: nat

(* crates/ramag-app/src/usecases/data_sync/gate.rs:80-84 GateInner *)
record gate_inner =
  gi_generation :: u64
  gi_active :: "active_task option"

(* crates/ramag-app/src/usecases/data_sync/gate.rs:87-90 DataSyncGate *)
record sync_gate =
  sg_inner :: gate_inner
  sg_flags :: "bool list"

(* crates/ramag-app/src/usecases/data_sync/gate.rs:80-90 DataSyncGate::default *)
definition gate_default :: sync_gate where
  "gate_default = \<lparr>sg_inner = \<lparr>gi_generation = 0, gi_active = None\<rparr>, sg_flags = []\<rparr>"

abbreviation gate_active :: "sync_gate \<Rightarrow> active_task option" where
  "gate_active g \<equiv> gi_active (sg_inner g)"

text \<open>Storing the active task back after an update through the mutable reference.\<close>

definition set_active :: "active_task option \<Rightarrow> sync_gate \<Rightarrow> sync_gate" where
  "set_active a g = g\<lparr>sg_inner := (sg_inner g)\<lparr>gi_active := a\<rparr>\<rparr>"

section \<open>Operations\<close>

(* crates/ramag-app/src/usecases/data_sync/gate.rs:58-60 DataSyncPermit::cancellation_requested *)
definition sync_cancellation_requested :: "sync_permit \<Rightarrow> sync_gate \<Rightarrow> bool" where
  "sync_cancellation_requested permit g = sg_flags g ! pm_cancel permit"

(* crates/ramag-app/src/usecases/data_sync/gate.rs:273-288 current_task_mut *)
definition current_task :: "sync_gate \<Rightarrow> sync_permit \<Rightarrow> active_task option" where
  "current_task g permit =
     (case gate_active g of
        None \<Rightarrow> None
      | Some active \<Rightarrow>
          if at_generation active = pm_generation permit \<and> at_task_id active = pm_task_id permit
          then Some active else None)"

(* crates/ramag-app/src/usecases/data_sync/gate.rs:93-121 DataSyncGate::begin *)
definition gate_begin ::
  "data_sync_task_id \<Rightarrow> sync_execution_context \<Rightarrow> nat \<Rightarrow> sync_gate \<Rightarrow> sync_permit option \<times> sync_gate" where
  "gate_begin task context_value now g =
     (if gate_active g \<noteq> None then (None, g)
      else
        let generation = gi_generation (sg_inner g) + 1;
            cancel = length (sg_flags g)
        in (Some \<lparr>pm_generation = generation, pm_task_id = task, pm_cancel = cancel\<rparr>,
            g\<lparr>sg_inner := \<lparr>gi_generation = generation, gi_active = Some
                \<lparr>at_generation = generation, at_task_id = task, at_phase = GpRunning,
                 at_context = context_value, at_progress = progress_default, at_summary = None,
                 at_error = None, at_cancel = cancel, at_started_at = now\<rparr>\<rparr>,
              sg_flags := sg_flags g @ [False]\<rparr>))"

(* crates/ramag-app/src/usecases/data_sync/gate.rs:123-125 DataSyncGate::is_blocking *)
definition is_blocking :: "sync_gate \<Rightarrow> bool" where
  "is_blocking g \<longleftrightarrow> gate_active g \<noteq> None"

(* crates/ramag-app/src/usecases/data_sync/gate.rs:130-139 DataSyncGate::snapshot *)
definition elapsed_ms :: "nat \<Rightarrow> nat \<Rightarrow> u64" where
  "elapsed_ms started_at now =
     (let ms = (now - started_at) div 1000000 in if ms < 2 ^ 64 then of_nat ms else - 1)"

(* crates/ramag-app/src/usecases/data_sync/gate.rs:127-149 DataSyncGate::snapshot *)
definition gate_snapshot_at :: "nat \<Rightarrow> sync_gate \<Rightarrow> gate_snapshot option" where
  "gate_snapshot_at now g =
     map_option (\<lambda>active.
       let progress = at_progress active;
           progress = (if \<not> terminal (at_phase active)
                       then progress\<lparr>dp_elapsed_ms := max (dp_elapsed_ms progress)
                              (elapsed_ms (at_started_at active) now)\<rparr>
                       else progress)
       in \<lparr>gs_task_id = at_task_id active, gs_phase = at_phase active, gs_context = at_context active,
           gs_progress = progress, gs_summary = at_summary active, gs_error = at_error active\<rparr>)
       (gate_active g)"

(* crates/ramag-app/src/usecases/data_sync/gate.rs:152-165 DataSyncGate::update_progress *)
definition update_progress :: "sync_permit \<Rightarrow> data_sync_progress \<Rightarrow> sync_gate \<Rightarrow> bool \<times> sync_gate" where
  "update_progress permit progress g =
     (case current_task g permit of
        None \<Rightarrow> (False, g)
      | Some active \<Rightarrow>
          if terminal (at_phase active) then (False, g)
          else
            let active = active\<lparr>at_progress := progress\<rparr>;
                active = (if at_phase active = GpCancelling
                          then active\<lparr>at_progress := (at_progress active)\<lparr>dp_stage := StageCancelling\<rparr>\<rparr>
                          else active)
            in (True, set_active (Some active) g))"

text \<open>The common end of the two cancel requests: the flag, the phase and the stage.\<close>

(* crates/ramag-app/src/usecases/data_sync/gate.rs:176-179 DataSyncGate::request_cancel *)
definition start_cancelling :: "active_task \<Rightarrow> sync_gate \<Rightarrow> sync_gate" where
  "start_cancelling active g =
     set_active (Some (active\<lparr>at_phase := GpCancelling,
         at_progress := (at_progress active)\<lparr>dp_stage := StageCancelling\<rparr>\<rparr>))
       (g\<lparr>sg_flags := (sg_flags g)[at_cancel active := True]\<rparr>)"

(* crates/ramag-app/src/usecases/data_sync/gate.rs:168-180 DataSyncGate::request_cancel *)
definition gate_request_cancel :: "sync_permit \<Rightarrow> sync_gate \<Rightarrow> bool \<times> sync_gate" where
  "gate_request_cancel permit g =
     (case current_task g permit of
        None \<Rightarrow> (False, g)
      | Some active \<Rightarrow>
          if at_phase active \<noteq> GpRunning then (False, g) else (True, start_cancelling active g))"

(* crates/ramag-app/src/usecases/data_sync/gate.rs:183-195 DataSyncGate::request_cancel_current *)
definition request_cancel_current :: "data_sync_task_id \<Rightarrow> sync_gate \<Rightarrow> bool \<times> sync_gate" where
  "request_cancel_current task g =
     (case gate_active g of
        None \<Rightarrow> (False, g)
      | Some active \<Rightarrow>
          if at_task_id active \<noteq> task \<or> at_phase active \<noteq> GpRunning then (False, g)
          else (True, start_cancelling active g))"

(* crates/ramag-app/src/usecases/data_sync/gate.rs:255-265 DataSyncGate::finish *)
definition merge_summary :: "data_sync_summary \<Rightarrow> data_sync_progress \<Rightarrow> data_sync_progress" where
  "merge_summary s p = p\<lparr>
     dp_scanned := max (dp_scanned p) (dy_scanned s),
     dp_inserted := max (dp_inserted p) (dy_inserted s),
     dp_skipped := max (dp_skipped p) (dy_skipped s),
     dp_failed := max (dp_failed p) (dy_failed s),
     dp_bytes := max (dp_bytes p) (dy_bytes s),
     dp_warnings := max (dp_warnings p)
       (sat_add (of_nat (length (dy_warnings s))) (dy_warnings_overflow s)),
     dp_elapsed_ms := max (dp_elapsed_ms p) (dy_elapsed_ms s)\<rparr>"

(* crates/ramag-app/src/usecases/data_sync/gate.rs:242-270 DataSyncGate::finish *)
definition gate_finish ::
  "sync_permit \<Rightarrow> gate_phase \<Rightarrow> data_sync_summary \<Rightarrow> string option \<Rightarrow> sync_gate \<Rightarrow> bool \<times> sync_gate" where
  "gate_finish permit phase summary error g =
     (case current_task g permit of
        None \<Rightarrow> (False, g)
      | Some active \<Rightarrow>
          if terminal (at_phase active) then (False, g)
          else (True, set_active (Some (active\<lparr>at_phase := phase,
                 at_progress := merge_summary summary (at_progress active),
                 at_summary := Some summary, at_error := error\<rparr>)) g))"

(* crates/ramag-app/src/usecases/data_sync/gate.rs:197-199 DataSyncGate::finish_completed *)
definition finish_completed :: "sync_permit \<Rightarrow> data_sync_summary \<Rightarrow> sync_gate \<Rightarrow> bool \<times> sync_gate" where
  "finish_completed permit summary g = gate_finish permit GpCompleted summary None g"

(* crates/ramag-app/src/usecases/data_sync/gate.rs:201-204 DataSyncGate::finish_cancelled *)
definition finish_cancelled :: "sync_permit \<Rightarrow> data_sync_summary \<Rightarrow> sync_gate \<Rightarrow> bool \<times> sync_gate" where
  "finish_cancelled permit summary g =
     gate_finish permit GpCancelled (summary\<lparr>dy_cancelled := True\<rparr>) None g"

(* crates/ramag-app/src/usecases/data_sync/gate.rs:206-214 DataSyncGate::finish_failed *)
definition finish_failed ::
  "sync_permit \<Rightarrow> data_sync_summary \<Rightarrow> string \<Rightarrow> sync_gate \<Rightarrow> bool \<times> sync_gate" where
  "finish_failed permit summary error g =
     gate_finish permit GpFailed summary (Some (compact_text error MAX_SYNC_ERROR_BYTES)) g"

(* crates/ramag-app/src/usecases/data_sync/gate.rs:217-227 DataSyncGate::acknowledge_and_release *)
definition acknowledge_and_release :: "sync_permit \<Rightarrow> sync_gate \<Rightarrow> bool \<times> sync_gate" where
  "acknowledge_and_release permit g =
     (case current_task g permit of
        None \<Rightarrow> (False, g)
      | Some active \<Rightarrow>
          if \<not> terminal (at_phase active) then (False, g) else (True, set_active None g))"

(* crates/ramag-app/src/usecases/data_sync/gate.rs:230-240 DataSyncGate::acknowledge_current *)
definition acknowledge_current :: "data_sync_task_id \<Rightarrow> sync_gate \<Rightarrow> bool \<times> sync_gate" where
  "acknowledge_current task g =
     (case gate_active g of
        None \<Rightarrow> (False, g)
      | Some active \<Rightarrow>
          if at_task_id active \<noteq> task \<or> \<not> terminal (at_phase active) then (False, g)
          else (True, set_active None g))"

section \<open>The gate with its clients\<close>

text \<open>
  A client only has the permits that \<open>begin\<close> gave out; \<open>gw_permits\<close> keeps them all, oldest first, and
  an operation names one by its position.
\<close>

record gate_world =
  gw_gate :: sync_gate
  gw_permits :: "sync_permit list"

definition world_new :: gate_world where
  "world_new = \<lparr>gw_gate = gate_default, gw_permits = []\<rparr>"

datatype gate_op =
    GBegin data_sync_task_id sync_execution_context nat
  | GProgress nat data_sync_progress
  | GCancel nat
  | GCancelCurrent data_sync_task_id
  | GComplete nat data_sync_summary
  | GFinishCancelled nat data_sync_summary
  | GFail nat data_sync_summary string
  | GAcknowledge nat
  | GAcknowledgeCurrent data_sync_task_id

definition with_permit :: "nat \<Rightarrow> (sync_permit \<Rightarrow> sync_gate \<Rightarrow> bool \<times> sync_gate) \<Rightarrow> gate_world \<Rightarrow> bool \<times> gate_world" where
  "with_permit i f w =
     (if i < length (gw_permits w)
      then map_prod id (\<lambda>g. w\<lparr>gw_gate := g\<rparr>) (f (gw_permits w ! i) (gw_gate w))
      else (False, w))"

fun gate_step :: "gate_op \<Rightarrow> gate_world \<Rightarrow> bool \<times> gate_world" where
  "gate_step (GBegin t c now) w =
     (case gate_begin t c now (gw_gate w) of
        (None, g) \<Rightarrow> (False, w\<lparr>gw_gate := g\<rparr>)
      | (Some p, g) \<Rightarrow> (True, \<lparr>gw_gate = g, gw_permits = gw_permits w @ [p]\<rparr>))"
| "gate_step (GProgress i p) w = with_permit i (\<lambda>permit. update_progress permit p) w"
| "gate_step (GCancel i) w = with_permit i gate_request_cancel w"
| "gate_step (GCancelCurrent t) w =
     map_prod id (\<lambda>g. w\<lparr>gw_gate := g\<rparr>) (request_cancel_current t (gw_gate w))"
| "gate_step (GComplete i s) w = with_permit i (\<lambda>permit. finish_completed permit s) w"
| "gate_step (GFinishCancelled i s) w = with_permit i (\<lambda>permit. finish_cancelled permit s) w"
| "gate_step (GFail i s e) w = with_permit i (\<lambda>permit. finish_failed permit s e) w"
| "gate_step (GAcknowledge i) w = with_permit i acknowledge_and_release w"
| "gate_step (GAcknowledgeCurrent t) w =
     map_prod id (\<lambda>g. w\<lparr>gw_gate := g\<rparr>) (acknowledge_current t (gw_gate w))"

fun run_ops :: "('o \<Rightarrow> 's \<Rightarrow> bool \<times> 's) \<Rightarrow> 'o list \<Rightarrow> 's \<Rightarrow> bool list \<times> 's" where
  "run_ops step [] s = ([], s)"
| "run_ops step (e # es) s =
     (let (b, s1) = step e s; (bs, s2) = run_ops step es s1 in (b # bs, s2))"

end
