(* ===== verification/Sync_Gate_Refinement.thy ===== *)
theory Sync_Gate_Refinement
  imports Sync_Gate
begin

text \<open>
  The contract of the synchronisation gate: a lock that is taken by \<open>begin\<close>, used by the newest
  permit only, and given back by an acknowledgement of a finished task.  Permits are numbered from 1
  in the abstract machine; the generation counter of the code implements that number as long as
  fewer than 2^64 tasks are begun.
\<close>

section \<open>The abstract lock\<close>

text \<open>\<open>Idle n\<close>: free after \<open>n\<close> permits; \<open>Busy n t p\<close>: task \<open>t\<close> holds the \<open>n\<close>-th permit in phase \<open>p\<close>.\<close>

datatype gate_spec = Idle nat | Busy nat data_sync_task_id gate_phase

fun spec_update :: "(nat \<Rightarrow> data_sync_task_id \<Rightarrow> gate_phase \<Rightarrow> gate_spec option) \<Rightarrow> gate_spec \<Rightarrow> bool \<times> gate_spec" where
  "spec_update f (Idle n) = (False, Idle n)"
| "spec_update f (Busy n t p) =
     (case f n t p of None \<Rightarrow> (False, Busy n t p) | Some s \<Rightarrow> (True, s))"

definition spec_end :: "nat \<Rightarrow> gate_phase \<Rightarrow> gate_spec \<Rightarrow> bool \<times> gate_spec" where
  "spec_end i q = spec_update (\<lambda>n t p. if Suc i = n \<and> \<not> terminal p then Some (Busy n t q) else None)"

fun spec_step :: "gate_op \<Rightarrow> gate_spec \<Rightarrow> bool \<times> gate_spec" where
  "spec_step (GBegin t c now) (Idle n) = (True, Busy (Suc n) t GpRunning)"
| "spec_step (GBegin t c now) s = (False, s)"
| "spec_step (GProgress i x) s =
     spec_update (\<lambda>n t p. if Suc i = n \<and> \<not> terminal p then Some (Busy n t p) else None) s"
| "spec_step (GCancel i) s =
     spec_update (\<lambda>n t p. if Suc i = n \<and> p = GpRunning then Some (Busy n t GpCancelling) else None) s"
| "spec_step (GCancelCurrent t') s =
     spec_update (\<lambda>n t p. if t = t' \<and> p = GpRunning then Some (Busy n t GpCancelling) else None) s"
| "spec_step (GComplete i x) s = spec_end i GpCompleted s"
| "spec_step (GFinishCancelled i x) s = spec_end i GpCancelled s"
| "spec_step (GFail i x e) s = spec_end i GpFailed s"
| "spec_step (GAcknowledge i) s =
     spec_update (\<lambda>n t p. if Suc i = n \<and> terminal p then Some (Idle n) else None) s"
| "spec_step (GAcknowledgeCurrent t') s =
     spec_update (\<lambda>n t p. if t = t' \<and> terminal p then Some (Idle n) else None) s"

definition abs_gate :: "gate_world \<Rightarrow> gate_spec" where
  "abs_gate w =
     (case gate_active (gw_gate w) of
        None \<Rightarrow> Idle (length (gw_permits w))
      | Some a \<Rightarrow> Busy (length (gw_permits w)) (at_task_id a) (at_phase a))"

section \<open>The invariant\<close>

text \<open>
  The \<open>i\<close>-th permit has generation \<open>i + 1\<close> and the \<open>i\<close>-th flag; the active task belongs to the
  newest permit.
\<close>

definition gate_inv :: "gate_world \<Rightarrow> bool" where
  "gate_inv w \<longleftrightarrow>
     gi_generation (sg_inner (gw_gate w)) = of_nat (length (gw_permits w))
     \<and> length (sg_flags (gw_gate w)) = length (gw_permits w)
     \<and> (\<forall>i<length (gw_permits w). pm_generation (gw_permits w ! i) = of_nat (Suc i)
          \<and> pm_cancel (gw_permits w ! i) = i)
     \<and> (\<forall>a. gate_active (gw_gate w) = Some a \<longrightarrow>
          gw_permits w \<noteq> [] \<and> at_generation a = of_nat (length (gw_permits w))
          \<and> at_task_id a = pm_task_id (last (gw_permits w))
          \<and> at_cancel a = length (gw_permits w) - 1)"

lemma of_nat_inj64:
  assumes "m < 2 ^ 64" and "n < 2 ^ 64"
  shows "(of_nat m :: u64) = of_nat n \<longleftrightarrow> m = n"
proof -
  have "unat (of_nat m :: u64) = m" "unat (of_nat n :: u64) = n"
    using assms by (simp_all add: unat_of_nat)
  then show ?thesis by metis
qed

text \<open>Only the newest permit is current.\<close>

lemma current_task_iff:
  assumes "gate_inv w" and "length (gw_permits w) < 2 ^ 64" and "i < length (gw_permits w)"
  shows "current_task (gw_gate w) (gw_permits w ! i) =
     (if Suc i = length (gw_permits w) then gate_active (gw_gate w) else None)"
proof (cases "gate_active (gw_gate w)")
  case None
  then show ?thesis by (simp add: current_task_def)
next
  case (Some a)
  have gen: "at_generation a = of_nat (length (gw_permits w))"
    and task: "at_task_id a = pm_task_id (last (gw_permits w))"
    using assms(1) Some by (auto simp: gate_inv_def)
  have "pm_generation (gw_permits w ! i) = of_nat (Suc i)"
    using assms(1,3) by (simp add: gate_inv_def)
  moreover have "(of_nat (length (gw_permits w)) :: u64) = of_nat (Suc i) \<longleftrightarrow> length (gw_permits w) = Suc i"
    using assms(2,3) by (intro of_nat_inj64) auto
  ultimately have "at_generation a = pm_generation (gw_permits w ! i) \<longleftrightarrow> Suc i = length (gw_permits w)"
    using gen by auto
  moreover have "last (gw_permits w) = gw_permits w ! i" if "Suc i = length (gw_permits w)"
  proof -
    have "gw_permits w \<noteq> []" "length (gw_permits w) - 1 = i" using that by auto
    then show ?thesis by (simp add: last_conv_nth)
  qed
  ultimately show ?thesis using Some task by (auto simp: current_task_def)
qed

lemma set_active_simps [simp]:
  "gi_generation (sg_inner (set_active a g)) = gi_generation (sg_inner g)"
  "sg_flags (set_active a g) = sg_flags g" "gate_active (set_active a g) = a"
  by (simp_all add: set_active_def)

lemma start_cancelling_simps [simp]:
  "gi_generation (sg_inner (start_cancelling a g)) = gi_generation (sg_inner g)"
  "sg_flags (start_cancelling a g) = (sg_flags g)[at_cancel a := True]"
  "\<exists>b. gate_active (start_cancelling a g) = Some b \<and> at_generation b = at_generation a
     \<and> at_task_id b = at_task_id a \<and> at_cancel b = at_cancel a \<and> at_phase b = GpCancelling"
  by (simp_all add: start_cancelling_def)

text \<open>An update of the gate that keeps its counter, its permits and the owner of the active task.\<close>

lemma gate_inv_update:
  assumes "gate_inv w" and "gi_generation (sg_inner g) = gi_generation (sg_inner (gw_gate w))"
    and "length (sg_flags g) = length (sg_flags (gw_gate w))"
    and "\<And>b. gate_active g = Some b \<Longrightarrow> \<exists>a. gate_active (gw_gate w) = Some a
       \<and> at_generation b = at_generation a \<and> at_task_id b = at_task_id a \<and> at_cancel b = at_cancel a"
  shows "gate_inv (w\<lparr>gw_gate := g\<rparr>)"
  using assms unfolding gate_inv_def by fastforce

section \<open>Simulation\<close>

text \<open>One step of the code from a good state, and the step of the abstract lock.\<close>

definition simulates :: "gate_world \<Rightarrow> bool \<times> gate_world \<Rightarrow> bool \<times> gate_spec \<Rightarrow> bool" where
  "simulates w r s \<longleftrightarrow> gate_inv (snd r) \<and> fst r = fst s \<and> abs_gate (snd r) = snd s
     \<and> length (gw_permits (snd r)) \<le> Suc (length (gw_permits w))"

lemma begin_simulates:
  assumes "gate_inv w"
  shows "simulates w (gate_step (GBegin t c now) w) (spec_step (GBegin t c now) (abs_gate w))"
proof (cases "gate_active (gw_gate w)")
  case None
  then show ?thesis using assms
    by (auto simp: simulates_def gate_begin_def gate_inv_def abs_gate_def Let_def nth_append
        less_Suc_eq)
next
  case (Some a)
  then show ?thesis using assms by (simp add: simulates_def gate_begin_def abs_gate_def)
qed

text \<open>
  An operation on the active task: it finds the task, checks the phase, and stores an update that
  keeps the owner, or releases the gate.
\<close>

definition task_update ::
  "active_task option \<Rightarrow> (active_task \<Rightarrow> bool) \<Rightarrow> (active_task \<Rightarrow> sync_gate) \<Rightarrow> sync_gate \<Rightarrow> bool \<times> sync_gate" where
  "task_update found ready upd g =
     (case found of None \<Rightarrow> (False, g) | Some a \<Rightarrow> if ready a then (True, upd a) else (False, g))"

lemma operations_as_updates:
  "update_progress = (\<lambda>p x g. task_update (current_task g p) (\<lambda>a. \<not> terminal (at_phase a))
     (\<lambda>a. set_active (Some (a\<lparr>at_progress := if at_phase a = GpCancelling
        then x\<lparr>dp_stage := StageCancelling\<rparr> else x\<rparr>)) g) g)"
  "gate_request_cancel = (\<lambda>p g. task_update (current_task g p) (\<lambda>a. at_phase a = GpRunning)
     (\<lambda>a. start_cancelling a g) g)"
  "request_cancel_current = (\<lambda>t g. task_update (gate_active g)
     (\<lambda>a. at_task_id a = t \<and> at_phase a = GpRunning) (\<lambda>a. start_cancelling a g) g)"
  "gate_finish = (\<lambda>p q s e g. task_update (current_task g p) (\<lambda>a. \<not> terminal (at_phase a))
     (\<lambda>a. set_active (Some (a\<lparr>at_phase := q, at_progress := merge_summary s (at_progress a),
        at_summary := Some s, at_error := e\<rparr>)) g) g)"
  "acknowledge_and_release = (\<lambda>p g. task_update (current_task g p) (\<lambda>a. terminal (at_phase a))
     (\<lambda>a. set_active None g) g)"
  "acknowledge_current = (\<lambda>t g. task_update (gate_active g)
     (\<lambda>a. at_task_id a = t \<and> terminal (at_phase a)) (\<lambda>a. set_active None g) g)"
  by (auto simp: fun_eq_iff task_update_def update_progress_def gate_request_cancel_def request_cancel_current_def
      gate_finish_def acknowledge_and_release_def acknowledge_current_def Let_def split: option.split)

lemma update_simulates:
  assumes inv: "gate_inv w"
    and upd: "\<And>a. gate_active (gw_gate w) = Some a \<Longrightarrow> ready a \<Longrightarrow>
      gi_generation (sg_inner (upd a)) = gi_generation (sg_inner (gw_gate w))
      \<and> length (sg_flags (upd a)) = length (sg_flags (gw_gate w))
      \<and> (\<forall>b. gate_active (upd a) = Some b \<longrightarrow> at_generation b = at_generation a
           \<and> at_task_id b = at_task_id a \<and> at_cancel b = at_cancel a)"
    and spec: "\<And>a. gate_active (gw_gate w) = Some a \<Longrightarrow>
      f (length (gw_permits w)) (at_task_id a) (at_phase a) =
        (if ready a then Some (abs_gate (w\<lparr>gw_gate := upd a\<rparr>)) else None)"
  shows "simulates w (map_prod id (\<lambda>g. w\<lparr>gw_gate := g\<rparr>)
      (task_update (gate_active (gw_gate w)) ready upd (gw_gate w))) (spec_update f (abs_gate w))"
proof (cases "gate_active (gw_gate w)")
  case None
  then show ?thesis using inv by (simp add: simulates_def task_update_def abs_gate_def)
next
  case (Some a)
  have same: "w\<lparr>gw_gate := gw_gate w\<rparr> = w" by simp
  have keep: "gate_inv (w\<lparr>gw_gate := upd a\<rparr>)" if "ready a"
    using upd [OF Some that] Some by (intro gate_inv_update [OF inv]) auto
  show ?thesis
    using inv Some keep spec [OF Some]
    by (auto simp: simulates_def task_update_def abs_gate_def [of w])
qed

text \<open>The same through a permit: a permit that is not the newest one finds no task.\<close>

lemma permit_simulates:
  assumes inv: "gate_inv w" and "length (gw_permits w) < 2 ^ 64"
    and upd: "\<And>a. gate_active (gw_gate w) = Some a \<Longrightarrow> ready a \<Longrightarrow>
      gi_generation (sg_inner (upd (gw_gate w) a)) = gi_generation (sg_inner (gw_gate w))
      \<and> length (sg_flags (upd (gw_gate w) a)) = length (sg_flags (gw_gate w))
      \<and> (\<forall>b. gate_active (upd (gw_gate w) a) = Some b \<longrightarrow> at_generation b = at_generation a
           \<and> at_task_id b = at_task_id a \<and> at_cancel b = at_cancel a)"
    and spec: "\<And>a. gate_active (gw_gate w) = Some a \<Longrightarrow>
      f (length (gw_permits w)) (at_task_id a) (at_phase a) =
        (if Suc i = length (gw_permits w) \<and> ready a then Some (abs_gate (w\<lparr>gw_gate := upd (gw_gate w) a\<rparr>)) else None)"
  shows "simulates w (with_permit i (\<lambda>p g. task_update (current_task g p) ready (upd g) g) w)
      (spec_update f (abs_gate w))"
proof (cases "Suc i = length (gw_permits w)")
  case True
  then have "current_task (gw_gate w) (gw_permits w ! i) = gate_active (gw_gate w)"
    using current_task_iff [OF assms(1,2), of i] by simp
  then show ?thesis
    using update_simulates [OF inv upd, of ready f] spec True by (simp add: with_permit_def)
next
  case False
  have "with_permit i (\<lambda>p g. task_update (current_task g p) ready (upd g) g) w = (False, w)"
    using current_task_iff [OF assms(1,2), of i] False by (simp add: with_permit_def task_update_def)
  moreover have "spec_update f (abs_gate w) = (False, abs_gate w)"
    using spec False by (auto simp: abs_gate_def split: option.split)
  ultimately show ?thesis using inv by (simp add: simulates_def)
qed

lemma step_simulates:
  assumes "gate_inv w" and "length (gw_permits w) < 2 ^ 64"
  shows "simulates w (gate_step e w) (spec_step e (abs_gate w))"
proof -
  note permit = permit_simulates [OF assms]
  note finish = finish_completed_def [abs_def] finish_cancelled_def [abs_def] finish_failed_def [abs_def]
  show ?thesis
  proof (cases e)
    case (GBegin t c now)
    then show ?thesis using begin_simulates [OF assms(1)] by simp
  next
    case (GCancelCurrent t)
    show ?thesis unfolding GCancelCurrent gate_step.simps spec_step.simps operations_as_updates
      by (rule update_simulates [OF assms(1)]) (auto simp: abs_gate_def start_cancelling_def)
  next
    case (GAcknowledgeCurrent t)
    show ?thesis unfolding GAcknowledgeCurrent gate_step.simps spec_step.simps operations_as_updates
      by (rule update_simulates [OF assms(1)]) (auto simp: abs_gate_def)
  next
    case (GCancel i)
    show ?thesis unfolding GCancel gate_step.simps spec_step.simps operations_as_updates
      by (rule permit) (auto simp: abs_gate_def start_cancelling_def)
  next
    case (GAcknowledge i)
    show ?thesis unfolding GAcknowledge gate_step.simps spec_step.simps operations_as_updates
      by (rule permit) (auto simp: abs_gate_def)
  next
    case (GProgress i x)
    show ?thesis unfolding GProgress gate_step.simps spec_step.simps operations_as_updates
      by (rule permit) (auto simp: abs_gate_def)
  next
    case (GComplete i x)
    show ?thesis unfolding GComplete gate_step.simps spec_step.simps finish operations_as_updates spec_end_def
      by (rule permit) (auto simp: abs_gate_def)
  next
    case (GFinishCancelled i x)
    show ?thesis unfolding GFinishCancelled gate_step.simps spec_step.simps finish operations_as_updates spec_end_def
      by (rule permit) (auto simp: abs_gate_def)
  next
    case (GFail i x m)
    show ?thesis unfolding GFail gate_step.simps spec_step.simps finish operations_as_updates spec_end_def
      by (rule permit) (auto simp: abs_gate_def)
  qed
qed

lemma run_simulates:
  assumes "gate_inv w" and "length (gw_permits w) + length es < 2 ^ 64"
  shows "gate_inv (snd (run_ops gate_step es w))
     \<and> fst (run_ops gate_step es w) = fst (run_ops spec_step es (abs_gate w))
     \<and> abs_gate (snd (run_ops gate_step es w)) = snd (run_ops spec_step es (abs_gate w))
     \<and> length (gw_permits (snd (run_ops gate_step es w))) \<le> length (gw_permits w) + length es"
  using assms
proof (induction es arbitrary: w)
  case (Cons e es)
  obtain b w1 where e: "gate_step e w = (b, w1)" by force
  have "simulates w (b, w1) (spec_step e (abs_gate w))"
    using step_simulates [of w e] Cons.prems e by simp
  then have "gate_inv w1" "spec_step e (abs_gate w) = (b, abs_gate w1)"
      "length (gw_permits w1) \<le> Suc (length (gw_permits w))"
    by (auto simp: simulates_def prod_eq_iff)
  with Cons.IH [of w1] Cons.prems e show ?case by (auto simp: Let_def split: prod.splits)
qed simp

lemma world_new_inv [simp]: "gate_inv world_new" "abs_gate world_new = Idle 0"
  by (simp_all add: world_new_def gate_default_def gate_inv_def abs_gate_def)

lemma world_new_permits [simp]: "gw_permits world_new = []"
  by (simp add: world_new_def)

lemma run_new:
  assumes "length es < 2 ^ 64"
  shows "gate_inv (snd (run_ops gate_step es world_new))"
    "fst (run_ops gate_step es world_new) = fst (run_ops spec_step es (Idle 0))"
    "abs_gate (snd (run_ops gate_step es world_new)) = snd (run_ops spec_step es (Idle 0))"
    "length (gw_permits (snd (run_ops gate_step es world_new))) \<le> length es"
  using run_simulates [of world_new es] assms by simp_all

end
