(* ===== verification/Sync_Gate_Properties.thy ===== *)
theory Sync_Gate_Properties
  imports Sync_Gate_Refinement
begin

text \<open>
  What the synchronisation gate guarantees: it refines the abstract lock, old permits have no power,
  a finished task keeps its result until it is acknowledged, and the holder can always release it.
\<close>

definition sample_context :: sync_execution_context where
  "sample_context = \<lparr>ec_source_connection = ''a'', ec_source_scope = ''x'',
     ec_target_connection = ''b'', ec_target_scope = ''y''\<rparr>"

definition sample_run :: "gate_op list" where
  "sample_run = [GBegin (DataSyncTaskId 1) sample_context 0, GBegin (DataSyncTaskId 2) sample_context 5,
     GCancel 0, GAcknowledge 0, GComplete 0 summary_default, GFail 0 summary_default ''late'',
     GAcknowledgeCurrent (DataSyncTaskId 1), GBegin (DataSyncTaskId 2) sample_context 9]"

text \<open>C8. The gate refines the abstract lock: over any sequence of fewer than 2^64 operations, with
  arbitrary permits in any order, every answer and every state of the gate is the one of the lock
  that numbers its permits, accepts only the newest, and is released only by acknowledging a
  finished task.\<close>
theorem sync_gate_refines_lock:
  assumes "length es < 2 ^ 64"
  shows "map_prod id abs_gate (run_ops gate_step es world_new) = run_ops spec_step es (Idle 0)"
  using run_new [OF assms] by (simp add: prod_eq_iff)

lemma sync_gate_refines_lock_witness:
  "map_prod id abs_gate (run_ops gate_step sample_run world_new) =
     ([True, False, True, False, True, False, True, True], Busy 2 (DataSyncTaskId 2) GpRunning)"
proof -
  have "run_ops spec_step sample_run (Idle 0) =
     ([True, False, True, False, True, False, True, True], Busy 2 (DataSyncTaskId 2) GpRunning)"
    by (simp add: sample_run_def Let_def terminal_def spec_end_def)
  then show ?thesis using sync_gate_refines_lock [of sample_run] by (simp add: sample_run_def)
qed

section \<open>Old permits\<close>

text \<open>The permit an operation uses.\<close>

fun op_permit :: "gate_op \<Rightarrow> nat option" where
  "op_permit (GProgress i x) = Some i"
| "op_permit (GCancel i) = Some i"
| "op_permit (GComplete i s) = Some i"
| "op_permit (GFinishCancelled i s) = Some i"
| "op_permit (GFail i s m) = Some i"
| "op_permit (GAcknowledge i) = Some i"
| "op_permit _ = None"

lemma permit_no_task:
  assumes "op_permit e = Some i" and "current_task (gw_gate w) (gw_permits w ! i) = None"
  shows "gate_step e w = (False, w)"
  using assms by (cases e)
    (simp_all add: with_permit_def finish_completed_def finish_cancelled_def finish_failed_def
      update_progress_def gate_request_cancel_def gate_finish_def acknowledge_and_release_def)

text \<open>A permit that is not the newest, or whose task has been released, can change nothing: in
  every state reachable with fewer than 2^64 operations each operation through it is refused and
  leaves gate, flags and permits as they are.\<close>
theorem old_permits_are_powerless:
  assumes "length es < 2 ^ 64" and "w = snd (run_ops gate_step es world_new)"
    and "op_permit e = Some i" and "Suc i \<noteq> length (gw_permits w) \<or> \<not> is_blocking (gw_gate w)"
  shows "gate_step e w = (False, w)"
proof (cases "i < length (gw_permits w)")
  case True
  have "gate_inv w" "length (gw_permits w) < 2 ^ 64"
    using run_new [OF assms(1)] assms(1,2) by auto
  then have "current_task (gw_gate w) (gw_permits w ! i) = None"
    using current_task_iff [of w i] True assms(4) by (auto simp: is_blocking_def)
  with assms(3) show ?thesis by (rule permit_no_task)
next
  case False
  with assms(3) show ?thesis by (cases e) (simp_all add: with_permit_def)
qed

lemma old_permits_are_powerless_witness:
  "gate_step (GFail 0 summary_default ''late'') (snd (run_ops gate_step sample_run world_new)) =
     (False, snd (run_ops gate_step sample_run world_new))"
proof -
  let ?w = "snd (run_ops gate_step sample_run world_new)"
  have "abs_gate ?w = snd (run_ops spec_step sample_run (Idle 0))"
    by (rule run_new) (simp add: sample_run_def)
  then have "length (gw_permits ?w) = 2"
    by (simp add: sample_run_def Let_def terminal_def spec_end_def)
      (simp add: abs_gate_def split: option.splits)
  then show ?thesis
    by (intro old_permits_are_powerless [of sample_run ?w _ 0]) (simp_all add: sample_run_def)
qed

section \<open>Results\<close>

fun is_acknowledgement :: "gate_op \<Rightarrow> bool" where
  "is_acknowledgement (GAcknowledge i) = True"
| "is_acknowledgement (GAcknowledgeCurrent t) = True"
| "is_acknowledgement _ = False"

lemma terminal_step:
  assumes "gate_active (gw_gate w) = Some a" and "terminal (at_phase a)" and "\<not> is_acknowledgement e"
  shows "gate_step e w = (False, w)"
proof -
  have "at_phase a \<noteq> GpRunning" using assms(2) by (auto simp: terminal_def)
  then show ?thesis using assms
    by (cases e) (simp_all add: with_permit_def gate_begin_def finish_completed_def finish_cancelled_def
        finish_failed_def update_progress_def gate_request_cancel_def gate_finish_def
        request_cancel_current_def current_task_def)
qed

text \<open>The result of a finished task stays: whatever is called, in any order, short of an
  acknowledgement, is refused, and the phase, progress, summary and error are those of the finish;
  in particular no new task can begin.\<close>
theorem result_stays_until_acknowledged:
  assumes "gate_active (gw_gate w) = Some a" and "terminal (at_phase a)"
    and "list_all (\<lambda>e. \<not> is_acknowledgement e) es"
  shows "run_ops gate_step es w = (replicate (length es) False, w)"
  using assms(3)
proof (induction es)
  case (Cons e es)
  then show ?case using terminal_step [OF assms(1,2), of e] by simp
qed simp

definition finished_world :: gate_world where
  "finished_world = snd (run_ops gate_step
     [GBegin (DataSyncTaskId 1) sample_context 0, GFail 0 summary_default ''lost''] world_new)"

lemma finished_active:
  "\<exists>a. gate_active (gw_gate finished_world) = Some a \<and> terminal (at_phase a)
     \<and> at_error a = Some ''lost''"
  by (simp add: finished_world_def world_new_def gate_default_def gate_begin_def with_permit_def
      finish_failed_def gate_finish_def current_task_def set_active_def terminal_def compact_text_def
      limits Let_def)

lemma result_stays_until_acknowledged_witness:
  "run_ops gate_step [GBegin (DataSyncTaskId 2) sample_context 3, GComplete 0 summary_default]
     finished_world = ([False, False], finished_world)"
proof -
  obtain a where "gate_active (gw_gate finished_world) = Some a" "terminal (at_phase a)"
    using finished_active by blast
  from result_stays_until_acknowledged [OF this, of "[GBegin (DataSyncTaskId 2) sample_context 3,
      GComplete 0 summary_default]"]
  show ?thesis by simp
qed

section \<open>Release\<close>

text \<open>C9. The gate can never be blocked for good: in every reachable state with an active task, the
  holder of the newest permit frees it by at most two operations of its own, finishing and
  acknowledging, after which another task can begin.\<close>
theorem holder_can_release:
  assumes "length es < 2 ^ 64 - 3" and "w = snd (run_ops gate_step es world_new)"
    and "is_blocking (gw_gate w)"
  shows "\<exists>ops. length ops \<le> 2 \<and> list_all (\<lambda>e. op_permit e = Some (length (gw_permits w) - 1)) ops
     \<and> list_all id (fst (run_ops gate_step ops w))
     \<and> \<not> is_blocking (gw_gate (snd (run_ops gate_step ops w)))
     \<and> fst (gate_step (GBegin t c now) (snd (run_ops gate_step ops w)))"
proof -
  have inv: "gate_inv w" and len: "length (gw_permits w) + 3 < 2 ^ 64"
    using run_new [of es] assms(1,2) by auto
  obtain task p where busy: "abs_gate w = Busy (length (gw_permits w)) task p"
    using assms(3) by (auto simp: abs_gate_def is_blocking_def)
  have "gw_permits w \<noteq> []" using inv assms(3) by (auto simp: gate_inv_def is_blocking_def)
  then have last: "Suc (length (gw_permits w) - 1) = length (gw_permits w)" by simp
  define ops where "ops = (if terminal p then [] else [GFail (length (gw_permits w) - 1) summary_default []])
      @ [GAcknowledge (length (gw_permits w) - 1)]"
  have spec: "run_ops spec_step ops (abs_gate w) = (replicate (length ops) True, Idle (length (gw_permits w)))"
    using last by (simp add: ops_def busy spec_end_def Let_def terminal_def)
  have run: "fst (run_ops gate_step ops w) = replicate (length ops) True"
    "abs_gate (snd (run_ops gate_step ops w)) = Idle (length (gw_permits w))"
    using run_simulates [OF inv, of ops] len spec by (simp_all add: ops_def split: if_splits)
  have free: "gate_active (gw_gate (snd (run_ops gate_step ops w))) = None"
    using run(2) by (simp add: abs_gate_def split: option.splits)
  show ?thesis
  proof (intro exI [of _ ops] conjI)
    show "length ops \<le> 2" "list_all (\<lambda>e. op_permit e = Some (length (gw_permits w) - 1)) ops"
      by (simp_all add: ops_def)
    show "list_all id (fst (run_ops gate_step ops w))" by (simp add: run(1) list_all_iff)
    show "\<not> is_blocking (gw_gate (snd (run_ops gate_step ops w)))" using free by (simp add: is_blocking_def)
    show "fst (gate_step (GBegin t c now) (snd (run_ops gate_step ops w)))"
      using free by (simp add: gate_begin_def Let_def)
  qed
qed

lemma holder_can_release_witness:
  "\<exists>ops. length ops \<le> 2 \<and> fst (gate_step (GBegin (DataSyncTaskId 3) sample_context 20)
     (snd (run_ops gate_step ops (snd (run_ops gate_step sample_run world_new)))))"
proof -
  let ?w = "snd (run_ops gate_step sample_run world_new)"
  have "abs_gate ?w = snd (run_ops spec_step sample_run (Idle 0))"
    by (rule run_new) (simp add: sample_run_def)
  then have "is_blocking (gw_gate ?w)"
    by (simp add: sample_run_def Let_def terminal_def spec_end_def)
      (auto simp: abs_gate_def is_blocking_def split: option.splits)
  with holder_can_release [of sample_run ?w "DataSyncTaskId 3" sample_context 20]
  show ?thesis by (auto simp: sample_run_def)
qed

end
