(* ===== verification/Sql_Text.thy ===== *)
theory Sql_Text
  imports Rust_Trim Domain_Error
begin

text \<open>
  The dialect-neutral SQL text tools (\<open>crates/ramag-infra-sql-shared/src/sql.rs\<close>): splitting a script
  into statements, blanking out what is not code, the check that decides whether a statement may run
  on a production connection, and the injection of a \<open>LIMIT\<close>.  The scanners walk over byte indices;
  here each scan works on the bytes that are left and answers how many it consumes.
\<close>

section \<open>Options\<close>

(* crates/ramag-infra-sql-shared/src/sql.rs:9-15 SplitOptions *)
record split_options =
  so_dollar_quoted :: bool
  so_mysql_compound_blocks :: bool

(* crates/ramag-infra-sql-shared/src/sql.rs:18-23 SplitOptions::mysql *)
definition split_mysql :: split_options where
  "split_mysql = \<lparr>so_dollar_quoted = False, so_mysql_compound_blocks = True\<rparr>"

(* crates/ramag-infra-sql-shared/src/sql.rs:25-30 SplitOptions::postgres *)
definition split_postgres :: split_options where
  "split_postgres = \<lparr>so_dollar_quoted = True, so_mysql_compound_blocks = False\<rparr>"

(* crates/ramag-infra-sql-shared/src/sql.rs:32-38 SplitOptions::sqlite *)
definition split_sqlite :: split_options where
  "split_sqlite = \<lparr>so_dollar_quoted = False, so_mysql_compound_blocks = True\<rparr>"

(* crates/ramag-domain/src/entities/resource_limits.rs:7-7 TRANSFER_BATCH_ITEMS *)
definition TRANSFER_BATCH_ITEMS :: nat where
  [limits]: "TRANSFER_BATCH_ITEMS = 5000"

(* crates/ramag-infra-sql-shared/src/sql.rs:6-6 MAX_SQL_STATEMENTS *)
definition MAX_SQL_STATEMENTS :: nat where
  "MAX_SQL_STATEMENTS = TRANSFER_BATCH_ITEMS + 1"

section \<open>Scanning one token\<close>

definition QUOTE :: char where "QUOTE = CHR 0x27"
definition QUOTE2 :: char where "QUOTE2 = CHR 0x22"
definition BACKQUOTE :: char where "BACKQUOTE = CHR 0x60"
definition BACKSLASH :: char where "BACKSLASH = CHR 0x5C"
definition NEWLINE :: char where "NEWLINE = CHR 0x0A"

lemmas sql_chars = QUOTE_def QUOTE2_def BACKQUOTE_def BACKSLASH_def NEWLINE_def

(* crates/ramag-infra-sql-shared/src/sql.rs:433-435 is_word_byte *)
definition is_word_byte :: "char \<Rightarrow> bool" where
  "is_word_byte b \<longleftrightarrow> is_ascii_alphanumeric b \<or> b = CHR ''_''"

text \<open>After the opening quote, in the splitter: a backslash escapes, the next quote closes.\<close>

(* crates/ramag-infra-sql-shared/src/sql.rs:78-89 split_statements_with_limit *)
fun quoted_len :: "char \<Rightarrow> string \<Rightarrow> nat" where
  "quoted_len q [] = 0"
| "quoted_len q [c] = 1"
| "quoted_len q (c # d # s) =
     (if c = BACKSLASH then 2 + quoted_len q s
      else if c = q then 1
      else Suc (quoted_len q (d # s)))"

text \<open>In the write check a doubled quote does not close.\<close>

(* crates/ramag-infra-sql-shared/src/sql.rs:299-316 sql_code_for_write_check *)
fun masked_quoted_len :: "char \<Rightarrow> string \<Rightarrow> nat" where
  "masked_quoted_len q [] = 0"
| "masked_quoted_len q [c] = 1"
| "masked_quoted_len q (c # d # s) =
     (if c = BACKSLASH then 2 + masked_quoted_len q s
      else if c = q then (if d = q then 2 + masked_quoted_len q s else 1)
      else Suc (masked_quoted_len q (d # s)))"

(* crates/ramag-infra-sql-shared/src/sql.rs:98-101 split_statements_with_limit *)
definition line_comment_len :: "string \<Rightarrow> nat" where
  "line_comment_len s = length (takeWhile (\<lambda>b. b \<noteq> NEWLINE) s)"

text \<open>The bytes before the closing \<open>*/\<close>, or all but the last byte when there is none.\<close>

(* crates/ramag-infra-sql-shared/src/sql.rs:104-106 split_statements_with_limit *)
fun block_body_len :: "string \<Rightarrow> nat" where
  "block_body_len (c # d # s) =
     (if c = CHR ''*'' \<and> d = CHR ''/'' then 0 else Suc (block_body_len (d # s)))"
| "block_body_len _ = 0"

(* crates/ramag-infra-sql-shared/src/sql.rs:103-108 split_statements_with_limit *)
definition block_comment_len :: "string \<Rightarrow> nat" where
  "block_comment_len s = min (2 + block_body_len (drop 2 s) + 2) (length s)"

(* crates/ramag-infra-sql-shared/src/sql.rs:195-202 scan_dollar_quoted *)
fun find_tag :: "string \<Rightarrow> string \<Rightarrow> nat option" where
  "find_tag tag [] = (if tag = [] then Some 0 else None)"
| "find_tag tag (c # s) =
     (if take (length tag) (c # s) = tag then Some 0 else map_option Suc (find_tag tag s))"

(* crates/ramag-infra-sql-shared/src/sql.rs:182-203 scan_dollar_quoted *)
definition scan_dollar_quoted :: "string \<Rightarrow> nat option" where
  "scan_dollar_quoted s =
     (let p = Suc (length (takeWhile is_word_byte (tl s))) in
      if length s \<le> p \<or> s ! p \<noteq> CHR ''$'' then None
      else
        let tag = take (Suc p) s
        in map_option (\<lambda>q. Suc p + q + length tag) (find_tag tag (drop (Suc p) s)))"

section \<open>Splitting\<close>

text \<open>What the splitter knows of the \<open>CREATE TRIGGER\<close> it is in.\<close>

(* crates/ramag-infra-sql-shared/src/sql.rs:68-70 split_statements_with_limit *)
record block_state =
  bs_create_seen :: bool
  bs_trigger :: bool
  bs_depth :: nat

(* crates/ramag-infra-sql-shared/src/sql.rs:121-123 split_statements_with_limit *)
definition block_start :: block_state where
  "block_start = \<lparr>bs_create_seen = False, bs_trigger = False, bs_depth = 0\<rparr>"

(* crates/ramag-infra-sql-shared/src/sql.rs:165-179 mysql_end_closes_nested_block *)
definition mysql_end_closes_nested_block :: "string \<Rightarrow> bool" where
  "mysql_end_closes_nested_block rest =
     (let nxt = takeWhile is_word_byte (dropWhile is_ascii_whitespace rest)
      in list_ex (eq_ignore_ascii_case nxt) [''IF'', ''CASE'', ''LOOP'', ''REPEAT'', ''WHILE''])"

(* crates/ramag-infra-sql-shared/src/sql.rs:132-150 split_statements_with_limit *)
definition block_word :: "string \<Rightarrow> string \<Rightarrow> block_state \<Rightarrow> block_state" where
  "block_word word rest st =
     (let st = (if \<not> bs_trigger st then
                  (if eq_ignore_ascii_case word ''CREATE'' then st\<lparr>bs_create_seen := True\<rparr>
                   else if bs_create_seen st \<and> eq_ignore_ascii_case word ''TRIGGER''
                     then st\<lparr>bs_trigger := True\<rparr>
                   else st)
                else st)
      in if bs_trigger st then
           (if eq_ignore_ascii_case word ''BEGIN'' then st\<lparr>bs_depth := Suc (bs_depth st)\<rparr>
            else if eq_ignore_ascii_case word ''END'' \<and> 0 < bs_depth st
                \<and> \<not> mysql_end_closes_nested_block rest
              then st\<lparr>bs_depth := bs_depth st - 1\<rparr>
            else st)
         else st)"

text \<open>The bytes one round of the loop consumes at a byte other than a semicolon.\<close>

(* crates/ramag-infra-sql-shared/src/sql.rs:74-108 split_statements_with_limit *)
definition token_len :: "split_options \<Rightarrow> string \<Rightarrow> nat" where
  "token_len opts s =
     (case s of [] \<Rightarrow> 0 | b # r \<Rightarrow>
        if b \<in> {QUOTE, QUOTE2, BACKQUOTE} then Suc (quoted_len b r)
        else if b = CHR ''$'' \<and> so_dollar_quoted opts then
          (case scan_dollar_quoted s of Some n \<Rightarrow> n | None \<Rightarrow> 1)
        else if b = CHR ''-'' \<and> r \<noteq> [] \<and> hd r = CHR ''-'' then line_comment_len s
        else if b = CHR ''/'' \<and> r \<noteq> [] \<and> hd r = CHR ''*'' then block_comment_len s
        else if so_mysql_compound_blocks opts \<and> is_ascii_alphabetic b then
          Suc (length (takeWhile is_word_byte r))
        else 1)"

lemma quoted_len_le: "quoted_len q s \<le> length s"
  by (induction q s rule: quoted_len.induct) auto

lemma find_tag_le: "find_tag tag s = Some n \<Longrightarrow> n + length tag \<le> length s"
proof (induction s arbitrary: n)
  case (Cons c s)
  show ?case
  proof (cases "take (length tag) (c # s) = tag")
    case True
    then have "length tag \<le> length (c # s)" by (metis length_take min.cobounded1 min.commute)
    with True Cons.prems show ?thesis by simp
  next
    case False
    with Cons show ?thesis by auto
  qed
qed (simp split: if_splits)

lemma scan_dollar_len: "scan_dollar_quoted s = Some n \<Longrightarrow> 0 < n \<and> n \<le> length s"
  by (auto simp: scan_dollar_quoted_def Let_def split: if_splits dest!: find_tag_le)

lemma line_comment_len_le: "line_comment_len s \<le> length s"
  by (simp add: line_comment_len_def length_takeWhile_le)

lemma line_comment_len_pos: "b \<noteq> NEWLINE \<Longrightarrow> 0 < line_comment_len (b # s)"
  by (simp add: line_comment_len_def)

lemma block_comment_len_bounds: "s \<noteq> [] \<Longrightarrow> 0 < block_comment_len s \<and> block_comment_len s \<le> length s"
  by (simp add: block_comment_len_def)

lemma dash_no_newline: "CHR ''-'' \<noteq> NEWLINE"
  by (simp add: NEWLINE_def)

lemma if_intro: "(c \<Longrightarrow> P x) \<Longrightarrow> (\<not> c \<Longrightarrow> P y) \<Longrightarrow> P (if c then x else y)"
  by simp

lemma dash_comment_bounds:
  assumes "c = CHR ''-'' \<and> d"
  shows "0 < line_comment_len (c # r) \<and> line_comment_len (c # r) \<le> length (c # r)"
  using assms line_comment_len_pos [OF dash_no_newline] line_comment_len_le by blast

lemma dollar_bounds:
  "0 < (case scan_dollar_quoted (c # r) of Some n \<Rightarrow> n | None \<Rightarrow> 1)
    \<and> (case scan_dollar_quoted (c # r) of Some n \<Rightarrow> n | None \<Rightarrow> 1) \<le> length (c # r)"
  by (cases "scan_dollar_quoted (c # r)") (simp_all del: list.size add: scan_dollar_len, simp)

lemma token_len_bounds:
  assumes "s \<noteq> []"
  shows "0 < token_len opts s \<and> token_len opts s \<le> length s"
proof (cases s)
  case (Cons b r)
  define P where "P n \<longleftrightarrow> 0 < n \<and> n \<le> length (b # r)" for n
  have "P (token_len opts (b # r))"
    unfolding token_len_def list.case
  proof (intro if_intro [of _ P])
    show "P (Suc (quoted_len b r))" by (simp add: P_def quoted_len_le)
    show "P (case scan_dollar_quoted (b # r) of None \<Rightarrow> 1 | Some n \<Rightarrow> n)"
      unfolding P_def by (rule dollar_bounds)
    show "P (line_comment_len (b # r))" if "b = CHR ''-'' \<and> r \<noteq> [] \<and> hd r = CHR ''-''"
      unfolding P_def using that by (rule dash_comment_bounds)
    show "P (block_comment_len (b # r))"
      unfolding P_def by (rule block_comment_len_bounds) simp
    show "P (Suc (length (takeWhile is_word_byte r)))"
      by (simp add: P_def length_takeWhile_le)
    show "P 1" by (simp add: P_def)
  qed
  then show ?thesis by (simp only: P_def Cons)
qed (use assms in simp)

(* crates/ramag-infra-sql-shared/src/sql.rs:71-155 split_statements_with_limit *)
function split_loop ::
  "split_options \<Rightarrow> nat \<Rightarrow> string list \<Rightarrow> string \<Rightarrow> block_state \<Rightarrow> string \<Rightarrow> unit + (string list \<times> string)" where
  "split_loop opts max_statements out seg st [] = Inr (out, seg)"
| "split_loop opts max_statements out seg st (b # r) =
     (if b = CHR '';'' then
        if so_mysql_compound_blocks opts \<and> bs_trigger st \<and> 0 < bs_depth st then
          split_loop opts max_statements out (seg @ [b]) st r
        else
          let segment = trim seg in
          if segment \<noteq> [] \<and> max_statements \<le> length out then Inl ()
          else split_loop opts max_statements (if segment \<noteq> [] then out @ [segment] else out) []
            block_start r
      else
        let n = token_len opts (b # r);
            rest = drop n (b # r);
            st = (if so_mysql_compound_blocks opts \<and> is_ascii_alphabetic b
                  then block_word (take n (b # r)) rest st else st)
        in split_loop opts max_statements out (seg @ take n (b # r)) st rest)"
  by pat_completeness auto
termination
proof (relation "measure (\<lambda>(opts, m, out, seg, st, s). length s)", goal_cases)
  case (4 opts m out seg st b r x xa xb)
  then show ?case using token_len_bounds [of "b # r" opts] by simp
qed simp_all

(* crates/ramag-infra-sql-shared/src/sql.rs:59-163 split_statements_with_limit *)
definition split_statements_with_limit :: "string \<Rightarrow> split_options \<Rightarrow> nat \<Rightarrow> unit + string list" where
  "split_statements_with_limit sql opts max_statements =
     try_r (split_loop opts max_statements [] [] block_start sql) (\<lambda>(out, seg).
       let tail = trim seg in
       if tail \<noteq> [] then (if max_statements \<le> length out then Inl () else Inr (out @ [tail]))
       else Inr out)"

(* crates/ramag-infra-sql-shared/src/sql.rs:47-57 split_statements_bounded *)
definition split_statements_bounded :: "string \<Rightarrow> split_options \<Rightarrow> nat \<Rightarrow> domain_error + string list" where
  "split_statements_bounded sql opts max_statements =
     map_err (\<lambda>_. DeInvalidConfig ((''SQL '' @ utf8 [0x8BED, 0x53E5, 0x6570, 0x91CF, 0x8D85, 0x8FC7] @ '' '') @ dec max_statements @ ('' '' @ utf8 [0x6761, 0x5B89, 0x5168, 0x4E0A, 0x9650, 0xFF0C, 0x8BF7, 0x62C6, 0x5206, 0x811A, 0x672C, 0x540E, 0x6267, 0x884C])))
       (split_statements_with_limit sql opts max_statements)"

section \<open>Blanking what is not code\<close>

text \<open>
  One round of the write check: the bytes consumed, and whether they are blanked.  The body of an
  executable comment \<open>/*! ... */\<close> stays.
\<close>

(* crates/ramag-infra-sql-shared/src/sql.rs:294-347 sql_code_for_write_check *)
definition mask_token :: "string \<Rightarrow> nat \<times> bool" where
  "mask_token s =
     (case s of [] \<Rightarrow> (0, False) | b # r \<Rightarrow>
        if b \<in> {QUOTE, QUOTE2, BACKQUOTE} then (Suc (masked_quoted_len b r), True)
        else if b = CHR ''$'' then
          (case scan_dollar_quoted s of Some n \<Rightarrow> (n, True) | None \<Rightarrow> (1, False))
        else if b = CHR ''-'' \<and> r \<noteq> [] \<and> hd r = CHR ''-'' then (line_comment_len s, True)
        else if b = CHR ''/'' \<and> 2 \<le> length r \<and> r ! 0 = CHR ''*'' \<and> r ! 1 = CHR ''!'' then (3, True)
        else if b = CHR ''/'' \<and> r \<noteq> [] \<and> hd r = CHR ''*'' then (block_comment_len s, True)
        else (1, False))"

definition SPACE :: char where "SPACE = CHR 0x20"

lemma masked_quoted_len_le: "masked_quoted_len q s \<le> length s"
  by (induction q s rule: masked_quoted_len.induct) auto

lemma mask_token_bounds:
  assumes "s \<noteq> []"
  shows "0 < fst (mask_token s) \<and> fst (mask_token s) \<le> length s"
proof (cases s)
  case (Cons b r)
  define P where "P x \<longleftrightarrow> 0 < fst x \<and> fst x \<le> length (b # r)" for x :: "nat \<times> bool"
  have "P (mask_token (b # r))"
    unfolding mask_token_def list.case
  proof (intro if_intro [of _ P])
    show "P (Suc (masked_quoted_len b r), True)" by (simp add: P_def masked_quoted_len_le)
    show "P (case scan_dollar_quoted (b # r) of None \<Rightarrow> (1, False) | Some n \<Rightarrow> (n, True))"
      unfolding P_def using dollar_bounds [of b r] by (cases "scan_dollar_quoted (b # r)") simp_all
    show "P (line_comment_len (b # r), True)" if "b = CHR ''-'' \<and> r \<noteq> [] \<and> hd r = CHR ''-''"
      unfolding P_def fst_conv using that by (rule dash_comment_bounds)
    show "P (3, True)" if "b = CHR ''/'' \<and> 2 \<le> length r \<and> r ! 0 = CHR ''*'' \<and> r ! 1 = CHR ''!''"
      using that by (simp add: P_def)
    show "P (block_comment_len (b # r), True)"
      unfolding P_def fst_conv by (rule block_comment_len_bounds) simp
    show "P (1, False)" by (simp add: P_def)
  qed
  then show ?thesis by (simp only: P_def Cons)
qed (use assms in simp)

(* crates/ramag-infra-sql-shared/src/sql.rs:289-351 sql_code_for_write_check *)
function sql_code_for_write_check :: "string \<Rightarrow> string" where
  "sql_code_for_write_check [] = []"
| "sql_code_for_write_check (b # r) =
     (let (n, blank) = mask_token (b # r)
      in (if blank then replicate n SPACE else take n (b # r))
           @ sql_code_for_write_check (drop n (b # r)))"
  by pat_completeness auto
termination
proof (relation "measure length", goal_cases)
  case (2 b r x n blank)
  then have "n = fst (mask_token (b # r))" by (metis fst_conv)
  then show ?case using mask_token_bounds [of "b # r"] by simp
qed simp

declare split_loop.simps(2) [simp del] sql_code_for_write_check.simps(2) [simp del]

end
