(* ===== verification/Sql_Guard.thy ===== *)
theory Sql_Guard
  imports Sql_Text
begin

text \<open>
  The decisions taken on a statement once its literals are blanked
  (\<open>crates/ramag-infra-sql-shared/src/sql.rs\<close>): its first keyword, whether it returns rows, whether it may
  write, and whether a \<open>LIMIT\<close> is added.  \<open>sql_code_for_write_check\<close> ends in \<open>from_utf8_lossy\<close>; only
  whole literals and comments are blanked, so the bytes are still UTF-8 and that conversion is the
  identity here.
\<close>

section \<open>The first keyword\<close>

text \<open>Skipping ASCII white space and comments.\<close>

(* crates/ramag-infra-sql-shared/src/sql.rs:218-239 first_keyword *)
function skip_blank :: "string \<Rightarrow> string" where
  "skip_blank s =
     (let t = dropWhile is_ascii_whitespace s in
      if 2 \<le> length t \<and> t ! 0 = CHR ''-'' \<and> t ! 1 = CHR ''-'' then
        skip_blank (drop (line_comment_len t) t)
      else if 2 \<le> length t \<and> t ! 0 = CHR ''/'' \<and> t ! 1 = CHR ''*'' then
        skip_blank (drop (block_comment_len t) t)
      else t)"
  by pat_completeness auto
termination
proof (relation "measure length", goal_cases)
  case (2 s t)
  then have "length t \<le> length s" by (simp add: length_dropWhile_le)
  moreover have "0 < line_comment_len t"
  proof -
    from 2(2) have "2 \<le> length t" by blast
    then have "t \<noteq> []" by force
    then obtain a u where t: "t = a # u" by (meson list.exhaust)
    from 2(2) have "t ! 0 = CHR ''-''" by blast
    then have "a = CHR ''-''" by (simp only: t nth_Cons_0)
    then show ?thesis unfolding t using dash_comment_bounds [of a True u] by blast
  qed
  ultimately show ?case using line_comment_len_le [of t] by simp
next
  case (3 s t)
  then have "length t \<le> length s" by (simp add: length_dropWhile_le)
  moreover have "0 < block_comment_len t \<and> block_comment_len t \<le> length t"
  proof (rule block_comment_len_bounds)
    from 3(3) have "2 \<le> length t" by blast
    then show "t \<noteq> []" by force
  qed
  ultimately show ?case by simp linarith
qed simp

declare skip_blank.simps [simp del]

(* crates/ramag-infra-sql-shared/src/sql.rs:217-245 first_keyword *)
definition first_keyword :: "string \<Rightarrow> string option" where
  "first_keyword stmt =
     (let k = takeWhile is_ascii_alphabetic (skip_blank stmt)
      in if k \<noteq> [] then Some (to_ascii_uppercase k) else None)"

section \<open>Whole words\<close>

definition word_at :: "char option \<Rightarrow> string \<Rightarrow> string \<Rightarrow> bool" where
  "word_at prev w s \<longleftrightarrow>
     take (length w) s = w
     \<and> (case prev of None \<Rightarrow> True | Some c \<Rightarrow> \<not> is_word_byte c)
     \<and> (length s = length w \<or> \<not> is_word_byte (s ! length w))"

(* crates/ramag-infra-sql-shared/src/sql.rs:418-430 contains_word *)
fun contains_word_from :: "char option \<Rightarrow> string \<Rightarrow> string \<Rightarrow> bool" where
  "contains_word_from prev w [] = word_at prev w []"
| "contains_word_from prev w (c # s) = (word_at prev w (c # s) \<or> contains_word_from (Some c) w s)"

(* crates/ramag-infra-sql-shared/src/sql.rs:415-431 contains_word *)
definition contains_word :: "string \<Rightarrow> string \<Rightarrow> bool" where
  "contains_word haystack_upper word = contains_word_from None word haystack_upper"

section \<open>Rows and writes\<close>

(* crates/ramag-infra-sql-shared/src/sql.rs:205-215 is_query_returning_rows *)
definition is_query_returning_rows :: "string \<Rightarrow> bool" where
  "is_query_returning_rows sql \<longleftrightarrow>
     (let code = sql_code_for_write_check sql in
      case first_keyword code of
        None \<Rightarrow> False
      | Some keyword \<Rightarrow>
          keyword \<in> {''SELECT'', ''SHOW'', ''DESC'', ''DESCRIBE'', ''EXPLAIN'', ''WITH'', ''VALUES'', ''TABLE''}
          \<or> (keyword \<in> {''INSERT'', ''UPDATE'', ''DELETE'', ''MERGE''}
             \<and> contains_word (to_ascii_uppercase code) ''RETURNING''))"

(* crates/ramag-infra-sql-shared/src/sql.rs:251-253 is_write_statement *)
definition SAFE_LEADING :: "string list" where
  "SAFE_LEADING = [''SELECT'', ''SHOW'', ''DESC'', ''DESCRIBE'', ''EXPLAIN'', ''WITH'', ''VALUES'', ''TABLE'']"

(* crates/ramag-infra-sql-shared/src/sql.rs:255-258 is_write_statement *)
definition WRITE_INNER :: "string list" where
  "WRITE_INNER = [''INSERT'', ''UPDATE'', ''DELETE'', ''MERGE'', ''REPLACE'', ''CREATE'', ''DROP'',
     ''ALTER'', ''TRUNCATE'', ''GRANT'', ''REVOKE'', ''OUTFILE'', ''DUMPFILE'']"

text \<open>\<open>str::get(n..)\<close>: nothing past the end or inside a character.\<close>

definition str_get_from :: "nat \<Rightarrow> string \<Rightarrow> string option" where
  "str_get_from n s =
     (if n \<le> length s \<and> (n = length s \<or> \<not> is_cont (s ! n)) then Some (drop n s) else None)"

(* crates/ramag-infra-sql-shared/src/sql.rs:270-275 is_write_statement *)
definition shows_create :: "string \<Rightarrow> string \<Rightarrow> bool" where
  "shows_create kw upper \<longleftrightarrow>
     kw = ''SHOW''
     \<and> (case Option.bind (str_get_from (length kw) (trim_start upper)) first_keyword of
          None \<Rightarrow> False | Some second \<Rightarrow> second = ''CREATE'')"

(* crates/ramag-infra-sql-shared/src/sql.rs:249-285 is_write_statement *)
definition is_write_statement :: "string \<Rightarrow> bool" where
  "is_write_statement stmt \<longleftrightarrow>
     (let upper = to_ascii_uppercase (sql_code_for_write_check stmt) in
      case first_keyword upper of
        None \<Rightarrow> list_ex (contains_word upper) WRITE_INNER
      | Some kw \<Rightarrow>
          if kw \<notin> set SAFE_LEADING then True
          else if list_ex (\<lambda>word. \<not> (shows_create kw upper \<and> word = ''CREATE'') \<and> contains_word upper word)
                    WRITE_INNER
            then True
          else contains_word upper ''INTO'')"

section \<open>The row limit\<close>

(* crates/ramag-infra-sql-shared/src/sql.rs:364-376 inject_limit_if_needed *)
definition limit_core :: "string \<Rightarrow> string" where
  "limit_core stmt =
     take (length stmt - length (takeWhile (\<lambda>b. byte b \<in> {32, 9, 10, 13, 59}) (rev stmt))) stmt"

(* crates/ramag-infra-sql-shared/src/sql.rs:381-388 inject_limit_if_needed *)
definition limit_scan :: "string \<Rightarrow> string" where
  "limit_scan core =
     (let masked = trim_end (sql_code_for_write_check core)
      in dropWhile is_cont (drop (length masked - 256) masked))"

(* crates/ramag-infra-sql-shared/src/sql.rs:354-400 inject_limit_if_needed *)
definition inject_limit_if_needed :: "string \<Rightarrow> u32 option \<Rightarrow> string option" where
  "inject_limit_if_needed stmt limit =
     Option.bind limit (\<lambda>n.
       if n = 0 then None
       else if first_keyword (sql_code_for_write_check stmt) \<notin> {Some ''SELECT'', Some ''WITH''} then None
       else
         let core = limit_core stmt in
         if core = [] then None
         else if contains_word (to_ascii_uppercase (limit_scan core)) ''LIMIT'' then None
         else Some (core @ '' LIMIT '' @ dec (unat n)
                    @ (if CHR '';'' \<in> set (drop (length core) stmt) then '';'' else [])))"

text \<open>\<open>str::lines\<close>: split at line feeds, without a last empty line and without carriage returns.\<close>

function rust_lines :: "string \<Rightarrow> string list" where
  "rust_lines s =
     (if s = [] then []
      else
        let l = takeWhile (\<lambda>b. b \<noteq> NEWLINE) s
        in (if l \<noteq> [] \<and> byte (last l) = 13 \<and> length l < length s then butlast l else l)
             # rust_lines (drop (Suc (length l)) s))"
  by pat_completeness auto
termination by (relation "measure length") auto

declare rust_lines.simps [simp del]

(* crates/ramag-infra-sql-shared/src/sql.rs:402-413 sql_has_no_limit_marker *)
definition sql_has_no_limit_marker :: "string \<Rightarrow> bool" where
  "sql_has_no_limit_marker sql \<longleftrightarrow>
     list_ex (\<lambda>line.
       case strip_prefix ''--'' (trim_start line) of
         Some rest \<Rightarrow> starts_with (to_ascii_lowercase (trim_start rest)) ''ramag:no-limit''
       | None \<Rightarrow> False) (rust_lines sql)"

end
