(* ===== verification/Sql_Reference.thy ===== *)
theory Sql_Reference
  imports Sql_Guard
begin

text \<open>
  What the SQL scanners mean: a script is a sequence of tokens, some of them separators, and its
  statements are the trimmed groups between separators; a text is a sequence of maximal word runs, and
  \<open>contains_word\<close> asks for one of them; masking keeps every byte in its place or blanks it.
\<close>

section \<open>Tokens and statements\<close>

definition inside_block :: "split_options \<Rightarrow> block_state \<Rightarrow> bool" where
  "inside_block opts st \<longleftrightarrow> so_mysql_compound_blocks opts \<and> bs_trigger st \<and> 0 < bs_depth st"

definition after_token :: "split_options \<Rightarrow> string \<Rightarrow> block_state \<Rightarrow> block_state" where
  "after_token opts s st =
     (if so_mysql_compound_blocks opts \<and> is_ascii_alphabetic (hd s)
      then block_word (take (token_len opts s) s) (drop (token_len opts s) s) st else st)"

function sql_tokens :: "split_options \<Rightarrow> block_state \<Rightarrow> string \<Rightarrow> (string \<times> bool) list" where
  "sql_tokens opts st [] = []"
| "sql_tokens opts st (b # r) =
     (if b = CHR '';'' then
        (if inside_block opts st then ([b], False) # sql_tokens opts st r
         else ([b], True) # sql_tokens opts block_start r)
      else (take (token_len opts (b # r)) (b # r), False)
        # sql_tokens opts (after_token opts (b # r) st) (drop (token_len opts (b # r)) (b # r)))"
  by pat_completeness auto
termination
proof (relation "measure (\<lambda>(opts, st, s). length s)", goal_cases)
  case (4 opts st b r)
  then show ?case using token_len_bounds [of "b # r" opts] by simp
qed simp_all

fun groups :: "(string \<times> bool) list \<Rightarrow> string list" where
  "groups [] = [[]]"
| "groups ((t, sep) # ts) =
     (if sep then [] # groups ts else (t @ hd (groups ts)) # tl (groups ts))"

definition nonempty_trimmed :: "string list \<Rightarrow> string list" where
  "nonempty_trimmed gs = filter (\<lambda>s. s \<noteq> []) (map trim gs)"

definition statements :: "split_options \<Rightarrow> string \<Rightarrow> string list" where
  "statements opts sql = nonempty_trimmed (groups (sql_tokens opts block_start sql))"

lemma groups_not_Nil [simp]: "groups ts \<noteq> []"
  by (cases ts rule: groups.cases) auto

lemma nonempty_trimmed_Cons:
  "nonempty_trimmed (g # gs) = (if trim g = [] then [] else [trim g]) @ nonempty_trimmed gs"
  by (simp add: nonempty_trimmed_def)

lemma nonempty_trimmed_Nil [simp]: "nonempty_trimmed [] = []"
  by (simp add: nonempty_trimmed_def)

lemma groups_hd_tl: "nonempty_trimmed (hd (groups ts) # tl (groups ts)) = nonempty_trimmed (groups ts)"
  by simp

lemma sql_tokens_concat: "concat (map fst (sql_tokens opts st s)) = s"
proof (induction opts st s rule: sql_tokens.induct)
  case (2 opts st b r)
  show ?case
  proof (cases "b = CHR '';''")
    case True
    with 2 show ?thesis by (cases "inside_block opts st") simp_all
  next
    case False
    with 2(3) show ?thesis by (simp only: sql_tokens.simps if_False list.map concat.simps fst_conv simp_thms append_take_drop_id)
  qed
qed simp

lemma sql_tokens_sep: "(t, True) \<in> set (sql_tokens opts st s) \<Longrightarrow> t = '';''"
proof (induction opts st s rule: sql_tokens.induct)
  case (2 opts st b r)
  show ?case
  proof (cases "b = CHR '';''")
    case True
    with 2 show ?thesis by (cases "inside_block opts st") auto
  next
    case False
    with 2(3,4) show ?thesis by simp
  qed
qed simp

text \<open>The groups joined by semicolons are the script.\<close>

fun join_semicolon :: "string list \<Rightarrow> string" where
  "join_semicolon [] = []"
| "join_semicolon [g] = g"
| "join_semicolon (g # h # gs) = g @ '';'' @ join_semicolon (h # gs)"

lemma join_semicolon_Cons: "gs \<noteq> [] \<Longrightarrow> join_semicolon (g # gs) = g @ '';'' @ join_semicolon gs"
  by (cases gs) simp_all

lemma join_semicolon_prepend: "gs \<noteq> [] \<Longrightarrow> join_semicolon ((t @ hd gs) # tl gs) = t @ join_semicolon gs"
  by (cases gs rule: join_semicolon.cases) simp_all

lemma join_groups:
  "\<forall>t. (t, True) \<in> set ts \<longrightarrow> t = '';'' \<Longrightarrow> join_semicolon (groups ts) = concat (map fst ts)"
  by (induction ts rule: groups.induct) (auto simp: join_semicolon_Cons join_semicolon_prepend)

section \<open>The splitter against the reference\<close>

definition split_finish :: "nat \<Rightarrow> string list \<times> string \<Rightarrow> unit + string list" where
  "split_finish m os =
     (let tail = trim (snd os) in
      if tail \<noteq> [] then (if m \<le> length (fst os) then Inl () else Inr (fst os @ [tail]))
      else Inr (fst os))"

definition capped :: "nat \<Rightarrow> string list \<Rightarrow> unit + string list" where
  "capped m xs = (if length xs \<le> m then Inr xs else Inl ())"

lemma split_finish_capped: "length out \<le> m \<Longrightarrow> split_finish m (out, seg) = capped m (out @ nonempty_trimmed [seg])"
  by (simp add: split_finish_def capped_def nonempty_trimmed_Cons)

lemma split_loop_reference:
  "length out \<le> m \<Longrightarrow>
   try_r (split_loop opts m out seg st s) (split_finish m) =
     capped m (out @ nonempty_trimmed ((seg @ hd (groups (sql_tokens opts st s)))
       # tl (groups (sql_tokens opts st s))))"
proof (induction opts m out seg st s rule: split_loop.induct)
  case (1 opts m out seg st)
  then show ?case by (simp add: split_finish_capped)
next
  case (2 opts m out seg st b r)
  consider (inside) "b = CHR '';''" "inside_block opts st" | (sep) "b = CHR '';''" "\<not> inside_block opts st"
    | (tok) "b \<noteq> CHR '';''" by blast
  then show ?case
  proof cases
    case inside
    then have "try_r (split_loop opts m out (seg @ [b]) st r) (split_finish m) =
        capped m (out @ nonempty_trimmed (((seg @ [b]) @ hd (groups (sql_tokens opts st r)))
          # tl (groups (sql_tokens opts st r))))"
      using 2 unfolding inside_block_def by blast
    with inside show ?thesis by (simp add: split_loop.simps inside_block_def)
  next
    case sep
    show ?thesis
    proof (cases "trim seg \<noteq> [] \<and> m \<le> length out")
      case True
      with sep 2(4) show ?thesis
        by (simp add: split_loop.simps inside_block_def [symmetric] capped_def nonempty_trimmed_Cons Let_def)
    next
      case False
      define out' where "out' = (if trim seg \<noteq> [] then out @ [trim seg] else out)"
      have len: "length out' \<le> m" using False 2(4) by (auto simp: out'_def)
      have "try_r (split_loop opts m out' [] block_start r) (split_finish m) =
        capped m (out' @ nonempty_trimmed (([] @ hd (groups (sql_tokens opts block_start r)))
          # tl (groups (sql_tokens opts block_start r))))"
        unfolding out'_def
      proof (rule 2(2))
        show "\<not> (so_mysql_compound_blocks opts \<and> bs_trigger st \<and> 0 < bs_depth st)"
          using sep(2) unfolding inside_block_def .
      qed (use False sep(1) len in \<open>simp_all add: out'_def\<close>)
      moreover have "out' @ nonempty_trimmed gs = out @ nonempty_trimmed (seg # gs)" for gs
        by (simp add: out'_def nonempty_trimmed_Cons)
      moreover have "split_loop opts m out seg st (b # r) = split_loop opts m out' [] block_start r"
        using sep False by (auto simp: split_loop.simps inside_block_def out'_def Let_def)
      ultimately show ?thesis using sep by (simp only: append_Nil sql_tokens.simps groups.simps if_True if_False list.sel append_Nil2 list.collapse groups_not_Nil not_False_eq_True simp_thms)
    qed
  next
    case tok
    define n where "n = token_len opts (b # r)"
    define st' where "st' = after_token opts (b # r) st"
    have "try_r (split_loop opts m out (seg @ take n (b # r)) st' (drop n (b # r))) (split_finish m) =
        capped m (out @ nonempty_trimmed (((seg @ take n (b # r)) @ hd (groups (sql_tokens opts st' (drop n (b # r)))))
          # tl (groups (sql_tokens opts st' (drop n (b # r))))))"
      by (rule 2(3)) (use tok 2(4) in \<open>simp_all add: n_def st'_def after_token_def\<close>)
    moreover have "split_loop opts m out seg st (b # r) =
        split_loop opts m out (seg @ take n (b # r)) st' (drop n (b # r))"
      using tok by (simp add: split_loop.simps n_def st'_def after_token_def Let_def)
    moreover have "sql_tokens opts st (b # r) = (take n (b # r), False) # sql_tokens opts st' (drop n (b # r))"
      using tok by (simp add: n_def st'_def)
    ultimately show ?thesis by (simp only: groups.simps if_False list.sel append_assoc simp_thms)
  qed
qed

lemma split_is_capped: "split_statements_with_limit sql opts m = capped m (statements opts sql)"
proof -
  have "split_statements_with_limit sql opts m =
      try_r (split_loop opts m [] [] block_start sql) (split_finish m)"
    by (simp add: split_statements_with_limit_def split_finish_def [abs_def] case_prod_unfold Let_def)
  also have "\<dots> = capped m (statements opts sql)"
    using split_loop_reference [of "[]" m opts "[]" block_start sql] by (simp add: statements_def)
  finally show ?thesis .
qed

section \<open>Word runs\<close>

function word_runs :: "string \<Rightarrow> string list" where
  "word_runs [] = []"
| "word_runs (c # s) =
     (if is_word_byte c then takeWhile is_word_byte (c # s) # word_runs (dropWhile is_word_byte s)
      else word_runs s)"
  by pat_completeness auto
termination by (relation "measure length") (auto simp: less_Suc_eq_le length_dropWhile_le)

lemma word_at_first: "word_at prev w (c # s) \<Longrightarrow> w \<noteq> [] \<Longrightarrow> hd w = c"
  by (cases w) (auto simp: word_at_def)

lemma word_at_run:
  assumes "is_word_byte c" "\<forall>b \<in> set w. is_word_byte b" "w \<noteq> []"
    and "\<forall>p. prev = Some p \<longrightarrow> \<not> is_word_byte p"
  shows "word_at prev w (c # s) \<longleftrightarrow> w = takeWhile is_word_byte (c # s)"
proof
  assume a: "word_at prev w (c # s)"
  then have t: "take (length w) (c # s) = w" and e: "length (c # s) = length w \<or> \<not> is_word_byte ((c # s) ! length w)"
    by (simp_all only: word_at_def)
  have s: "c # s = w @ drop (length w) (c # s)" by (metis t append_take_drop_id)
  have "drop (length w) (c # s) = [] \<or> \<not> is_word_byte (hd (drop (length w) (c # s)))"
    using e by (metis drop_all hd_drop_conv_nth le_less_linear order_refl)
  then have "takeWhile is_word_byte (drop (length w) (c # s)) = []"
    by (cases "drop (length w) (c # s)") auto
  then have "takeWhile is_word_byte (w @ drop (length w) (c # s)) = w"
    using assms(2) by (simp add: takeWhile_append2)
  then show "w = takeWhile is_word_byte (c # s)" using s by metis
next
  assume w: "w = takeWhile is_word_byte (c # s)"
  have "take (length w) (c # s) = w" unfolding w by (metis takeWhile_eq_take)
  moreover have "length (c # s) = length w \<or> \<not> is_word_byte ((c # s) ! length w)"
    using nth_length_takeWhile [of is_word_byte "c # s"] length_takeWhile_le [of is_word_byte "c # s"]
    unfolding w by linarith
  ultimately show "word_at prev w (c # s)"
    using assms(4) by (simp only: word_at_def) (simp split: option.split)
qed

lemma contains_word_skip:
  assumes "is_word_byte p" "w \<noteq> []"
  shows "contains_word_from (Some p) w s \<longleftrightarrow>
    (case dropWhile is_word_byte s of [] \<Rightarrow> False | d # r \<Rightarrow> contains_word_from (Some p) w (d # r))"
  using assms
proof (induction s arbitrary: p)
  case (Cons c s)
  have no: "\<not> word_at (Some p) w x" for x using Cons.prems by (simp add: word_at_def)
  show ?case
  proof (cases "is_word_byte c")
    case True
    then have noc: "\<not> word_at (Some c) w x" for x by (simp add: word_at_def)
    have "contains_word_from (Some p) w (c # s) = contains_word_from (Some c) w s"
      using no by simp
    also have "\<dots> = (case dropWhile is_word_byte s of [] \<Rightarrow> False | d # r \<Rightarrow> contains_word_from (Some c) w (d # r))"
      using Cons.IH [OF True Cons.prems(2)] .
    also have "\<dots> = (case dropWhile is_word_byte (c # s) of [] \<Rightarrow> False | d # r \<Rightarrow> contains_word_from (Some p) w (d # r))"
      using True no noc by (simp split: list.split del: dropWhile_eq_Nil_conv)
    finally show ?thesis .
  qed simp
qed (simp add: word_at_def)

lemma contains_word_runs:
  assumes "\<forall>b \<in> set w. is_word_byte b" "w \<noteq> []"
    and "\<forall>p. prev = Some p \<longrightarrow> \<not> is_word_byte p"
  shows "contains_word_from prev w s \<longleftrightarrow> w \<in> set (word_runs s)"
  using assms(3)
proof (induction s arbitrary: prev rule: word_runs.induct)
  case 1
  then show ?case using assms(2) by (simp add: word_at_def)
next
  case (2 c s)
  show ?case
  proof (cases "is_word_byte c")
    case True
    have head: "word_at prev w (c # s) \<longleftrightarrow> w = takeWhile is_word_byte (c # s)"
      by (rule word_at_run [OF True assms(1,2) 2(3)])
    have tail: "contains_word_from (Some c) w s \<longleftrightarrow> w \<in> set (word_runs (dropWhile is_word_byte s))"
    proof (cases "dropWhile is_word_byte s")
      case Nil
      have "\<not> contains_word_from (Some c) w s"
        using contains_word_skip [OF True assms(2), of s] unfolding Nil list.case by blast
      moreover have "w \<notin> set (word_runs (dropWhile is_word_byte s))" unfolding Nil by simp
      ultimately show ?thesis by blast
    next
      case (Cons d r)
      then have d: "\<not> is_word_byte d" by (metis hd_dropWhile list.distinct(1) list.sel(1))
      then have "\<not> word_at q w (d # r)" for q
        using word_at_first [of q w d r] assms(1,2) by (metis hd_in_set)
      then have "contains_word_from (Some c) w (d # r) = contains_word_from None w (d # r)" by simp
      also have "\<dots> \<longleftrightarrow> w \<in> set (word_runs (dropWhile is_word_byte s))"
        using 2(1) [OF True, of None] Cons by simp
      finally show ?thesis
        using contains_word_skip [OF True assms(2), of s] unfolding Cons list.case by blast
    qed
    from head tail True show ?thesis by simp
  next
    case False
    then have "\<not> word_at prev w (c # s)"
      using word_at_first [of prev w c s] assms(1,2) by (metis hd_in_set)
    then show ?thesis using 2(2) [OF False, of "Some c"] False by simp
  qed
qed

lemma contains_word_iff:
  "\<forall>b \<in> set w. is_word_byte b \<Longrightarrow> w \<noteq> [] \<Longrightarrow> contains_word s w \<longleftrightarrow> w \<in> set (word_runs s)"
  unfolding contains_word_def by (rule contains_word_runs) simp_all

section \<open>Masking\<close>

definition blanked :: "char \<Rightarrow> char \<Rightarrow> bool" where
  "blanked c d \<longleftrightarrow> d = c \<or> d = SPACE"

lemma masked_blanked: "list_all2 blanked s (sql_code_for_write_check s)"
proof (induction s rule: sql_code_for_write_check.induct)
  case (2 b r)
  define n where "n = fst (mask_token (b # r))"
  define k where "k = snd (mask_token (b # r))"
  have m: "mask_token (b # r) = (n, k)" by (simp add: n_def k_def)
  have n: "n \<le> length (b # r)" unfolding n_def using mask_token_bounds by blast
  have "list_all2 blanked (drop n (b # r)) (sql_code_for_write_check (drop n (b # r)))"
    using 2 [of "(n, k)" n k] m by (simp only: prod.inject simp_thms)
  moreover have "list_all2 blanked (take n (b # r)) (if k then replicate n SPACE else take n (b # r))"
    using n by (auto simp: list_all2_conv_all_nth blanked_def)
  ultimately have "list_all2 blanked (take n (b # r) @ drop n (b # r)) (sql_code_for_write_check (b # r))"
    unfolding sql_code_for_write_check.simps m Let_def case_prod_conv
    by (intro list_all2_appendI)
  then show ?case by (simp only: append_take_drop_id)
qed simp

lemma masked_length [simp]: "length (sql_code_for_write_check s) = length s"
  using masked_blanked list_all2_lengthD by metis

end
