(* ===== verification/Sql_Properties.thy ===== *)
theory Sql_Properties
  imports Sql_Reference
begin

text \<open>
  The properties of the SQL text tools: splitting agrees with the token reference, the read-only
  verdict is about whole words of the unmasked code, and a row limit only extends the statement.
\<close>

section \<open>Splitting\<close>

text \<open>C35. Splitting a script returns exactly the trimmed non-empty groups of its tokens between
  separators, refuses exactly when there are more of them than the bound, and the groups joined by
  semicolons are the script: no byte outside a separator is lost.\<close>

theorem split_matches_tokens:
  "(split_statements_bounded sql opts m = Inr out
      \<longleftrightarrow> length (statements opts sql) \<le> m \<and> out = statements opts sql)
   \<and> join_semicolon (groups (sql_tokens opts block_start sql)) = sql"
proof (intro conjI)
  show "split_statements_bounded sql opts m = Inr out
      \<longleftrightarrow> length (statements opts sql) \<le> m \<and> out = statements opts sql"
    by (auto simp: split_statements_bounded_def split_is_capped capped_def map_err_def)
  show "join_semicolon (groups (sql_tokens opts block_start sql)) = sql"
    using join_groups [of "sql_tokens opts block_start sql"] sql_tokens_sep sql_tokens_concat by metis
qed

section \<open>The read-only verdict\<close>

lemma words_of_lists:
  "list_all (\<lambda>w. w \<noteq> [] \<and> list_all is_word_byte w) (''INTO'' # ''LIMIT'' # WRITE_INNER)"
  by code_simp



lemma limit_word: "contains_word s ''LIMIT'' \<longleftrightarrow> ''LIMIT'' \<in> set (word_runs s)"
  by (rule contains_word_iff) (use words_of_lists in \<open>simp_all add: list_all_iff\<close>)



text \<open>A literal that ends in a backslash is closed for PostgreSQL's standard strings, but not here: the
  \<open>DELETE\<close> that follows it is blanked and the statement passes as read-only.\<close>

definition hidden_delete :: string where
  "hidden_delete = ''WITH a AS (SELECT '' @ [QUOTE, BACKSLASH, QUOTE]
     @ ''), b AS (DELETE FROM t RETURNING 1) SELECT 1 --'' @ [QUOTE]"

lemma hidden_delete_passes: "is_write_statement hidden_delete = False"
  by code_simp

section \<open>The row limit\<close>

lemma limit_core_append:
  "\<exists>tail. stmt = limit_core stmt @ tail \<and> list_all (\<lambda>b. byte b \<in> {32, 9, 10, 13, 59}) tail"
proof -
  define P where "P b \<longleftrightarrow> byte b \<in> {32, 9, 10, 13, 59}" for b
  define n where "n = length (takeWhile P (rev stmt))"
  have "drop (length stmt - n) stmt = rev (take n (rev stmt))"
    by (simp add: rev_take)
  also have "\<dots> = rev (takeWhile P (rev stmt))" unfolding n_def by (metis takeWhile_eq_take)
  finally have "list_all P (drop (length stmt - n) stmt)"
    by (auto simp: list_all_iff dest: set_takeWhileD)
  moreover have "stmt = limit_core stmt @ drop (length stmt - n) stmt"
    by (simp add: limit_core_def n_def P_def [abs_def])
  ultimately show ?thesis unfolding P_def by blast
qed

text \<open>When a limit is added, the statement is a SELECT or WITH, no LIMIT is a whole word of
  the last 256 bytes of its code, and the result is the statement, less trailing white space and
  semicolons, with the limit and at most one semicolon behind it.\<close>

theorem injected_limit_extends:
  assumes "inject_limit_if_needed stmt (Some n) = Some out"
  shows "\<exists>tail. stmt = limit_core stmt @ tail \<and> list_all (\<lambda>b. byte b \<in> {32, 9, 10, 13, 59}) tail
     \<and> limit_core stmt \<noteq> []
     \<and> out = limit_core stmt @ '' LIMIT '' @ dec (unat n) @ (if CHR '';'' \<in> set tail then '';'' else [])
     \<and> 0 < n
     \<and> first_keyword (sql_code_for_write_check stmt) \<in> {Some ''SELECT'', Some ''WITH''}
     \<and> ''LIMIT'' \<notin> set (word_runs (to_ascii_uppercase (limit_scan (limit_core stmt))))"
proof -
  obtain tail where t: "stmt = limit_core stmt @ tail"
    and all: "list_all (\<lambda>b. byte b \<in> {32, 9, 10, 13, 59}) tail"
    using limit_core_append by blast
  have d: "drop (length (limit_core stmt)) stmt = tail" by (metis t append_eq_conv_conj)
  have core: "limit_core stmt \<noteq> []" "n \<noteq> 0"
    "first_keyword (sql_code_for_write_check stmt) \<in> {Some ''SELECT'', Some ''WITH''}"
    "\<not> contains_word (to_ascii_uppercase (limit_scan (limit_core stmt))) ''LIMIT''"
    using assms unfolding inject_limit_if_needed_def Let_def bind.simps d by (meson option.distinct(1))+
  then have out: "out = limit_core stmt @ '' LIMIT '' @ dec (unat n) @ (if CHR '';'' \<in> set tail then '';'' else [])"
    using assms unfolding inject_limit_if_needed_def Let_def bind.simps d
    by (simp only: if_False simp_thms option.inject)
  show ?thesis
    using t all core out by (metis limit_word word_gt_0)
qed

theorem injected_limit_extends_witness:
  "inject_limit_if_needed ''SELECT 1 ;'' (Some 5) = Some ''SELECT 1 LIMIT 5;''
   \<and> limit_core ''SELECT 1 ;'' \<noteq> []"
proof -
  have core: "limit_core ''SELECT 1 ;'' = ''SELECT 1''"
    and kw: "first_keyword (sql_code_for_write_check ''SELECT 1 ;'') = Some ''SELECT''"
    and code: "sql_code_for_write_check ''SELECT 1'' = ''SELECT 1''"
    and word: "contains_word (to_ascii_uppercase ''SELECT 1'') ''LIMIT'' = False"
    and start: "dropWhile is_cont ''SELECT 1'' = ''SELECT 1''"
    by code_simp+
  have "trim_end ''SELECT 1'' = ''SELECT 1''"
    using last_space_ascii [of "CHR ''1''" "''SELECT ''"] by (simp add: trim_end.simps [of "''SELECT 1''"])
  then have "limit_scan ''SELECT 1'' = ''SELECT 1''"
    by (simp add: limit_scan_def code start del: dropWhile.simps)
  then have "inject_limit_if_needed ''SELECT 1 ;'' (Some 5) = Some ''SELECT 1 LIMIT 5;''"
    by (simp add: inject_limit_if_needed_def core kw word Let_def dec.simps [of 5] char_of_eq_iff)
  then show ?thesis using injected_limit_extends by blast
qed

text \<open>A statement that ends in a line comment gets its limit inside the comment.\<close>

lemma trim_end_space: "trim_end (s @ '' '') = trim_end s"
proof -
  have "last_space (s @ '' '') = 1"
    by (simp add: last_space_def WHITE_SPACE_def utf8_enc_def char_of_eq_iff)
  then show ?thesis by (simp add: trim_end.simps [of "s @ '' ''"])
qed

lemma limit_in_comment:
  "inject_limit_if_needed ''SELECT 1 -- x'' (Some 5) = Some ''SELECT 1 -- x LIMIT 5''
   \<and> sql_code_for_write_check ''SELECT 1 -- x LIMIT 5'' = ''SELECT 1             ''"
proof -
  have core: "limit_core ''SELECT 1 -- x'' = ''SELECT 1 -- x''"
    and kw: "first_keyword (sql_code_for_write_check ''SELECT 1 -- x'') = Some ''SELECT''"
    and code: "sql_code_for_write_check ''SELECT 1 -- x'' = ''SELECT 1     ''"
    and code': "sql_code_for_write_check ''SELECT 1 -- x LIMIT 5'' = ''SELECT 1             ''"
    and word: "contains_word (to_ascii_uppercase ''SELECT 1'') ''LIMIT'' = False"
    and start: "dropWhile is_cont ''SELECT 1'' = ''SELECT 1''"
    by code_simp+
  have "trim_end ''SELECT 1     '' = ''SELECT 1''"
    using last_space_ascii [of "CHR ''1''" "''SELECT ''"]
      trim_end_space [of "''SELECT 1    ''"] trim_end_space [of "''SELECT 1   ''"]
      trim_end_space [of "''SELECT 1  ''"] trim_end_space [of "''SELECT 1 ''"] trim_end_space [of "''SELECT 1''"]
    by (simp add: trim_end.simps [of "''SELECT 1''"])
  then have "limit_scan ''SELECT 1 -- x'' = ''SELECT 1''"
    by (simp add: limit_scan_def code start del: dropWhile.simps)
  then show ?thesis
    by (simp add: inject_limit_if_needed_def core kw word Let_def dec.simps [of 5] char_of_eq_iff code')
qed

end
