(* ===== verification/Rust_Split.thy ===== *)
theory Rust_Split
  imports Rust_Text
begin

text \<open>
  \<open>str::split\<close>, \<open>str::split_once\<close> and \<open>str::contains\<close>, with what the pieces of a text are, and
  \<open>str::parse\<close> for the unsigned integers.
\<close>

section \<open>Definitions\<close>

text \<open>\<open>str::split('/')\<close>: never empty, and the pieces hold no separator.\<close>

fun split_slash :: "string \<Rightarrow> string list" where
  "split_slash [] = [[]]"
| "split_slash (c # s) =
     (if c = CHR ''/'' then [] # split_slash s
      else (c # hd (split_slash s)) # tl (split_slash s))"

text \<open>\<open>str::contains\<close> of a text.\<close>

fun str_contains :: "string \<Rightarrow> string \<Rightarrow> bool" where
  "str_contains pat [] \<longleftrightarrow> pat = []"
| "str_contains pat (c # s) \<longleftrightarrow> prefix pat (c # s) \<or> str_contains pat s"

text \<open>\<open>str::split_once\<close> with a text, and \<open>str::split\<close> with an ASCII character.\<close>

fun split_once :: "string \<Rightarrow> string \<Rightarrow> (string \<times> string) option" where
  "split_once pat [] = (if pat = [] then Some ([], []) else None)"
| "split_once pat (c # s) =
     (case strip_prefix pat (c # s) of
        Some r \<Rightarrow> Some ([], r)
      | None \<Rightarrow> map_option (\<lambda>(a, b). (c # a, b)) (split_once pat s))"

fun split_on :: "char \<Rightarrow> string \<Rightarrow> string list" where
  "split_on d [] = [[]]"
| "split_on d (c # s) =
     (if c = d then [] # split_on d s else (c # hd (split_on d s)) # tl (split_on d s))"

section \<open>Laws\<close>

lemma split_slash_not_Nil [simp]: "split_slash s \<noteq> []"
  by (cases s) auto

lemma split_slash_append: "split_slash (a @ CHR ''/'' # b) = split_slash a @ split_slash b"
  by (induction a) (auto simp: hd_append)

lemma split_slash_single: "CHR ''/'' \<notin> set b \<Longrightarrow> split_slash b = [b]"
  by (induction b) auto

lemma split_slash_last: "CHR ''/'' \<notin> set b \<Longrightarrow> split_slash (a @ CHR ''/'' # b) = split_slash a @ [b]"
  by (simp add: split_slash_append split_slash_single)

lemma split_slash_pieces: "x \<in> set (split_slash s) \<Longrightarrow> CHR ''/'' \<notin> set x"
proof (induction s arbitrary: x)
  case (Cons c s)
  have hd: "hd (split_slash s) \<in> set (split_slash s)" by simp
  have tl: "set (tl (split_slash s)) \<subseteq> set (split_slash s)" by (cases "split_slash s") auto
  show ?case
  proof (cases "c = CHR ''/''")
    case False
    with Cons.prems have "x = c # hd (split_slash s) \<or> x \<in> set (tl (split_slash s))" by simp
    with False Cons.IH hd tl show ?thesis by auto
  qed (use Cons in auto)
qed simp

lemma hd_split_slash_Nil: "hd (split_slash s) = [] \<longleftrightarrow> s = [] \<or> hd s = CHR ''/''"
  by (cases s) auto

lemma str_contains_sublist: "str_contains pat s \<longleftrightarrow> sublist pat s"
  by (induction s) (auto simp: sublist_Cons_right)

lemma empty_piece:
  "[] \<in> set (tl (split_slash t)) \<Longrightarrow> t \<noteq> [] \<and> (last t = CHR ''/'' \<or> sublist ''//'' t)"
proof (induction t)
  case (Cons c t)
  show ?case
  proof (cases "c = CHR ''/''")
    case True
    with Cons.prems have "[] \<in> set (split_slash t)" by simp
    then consider "hd (split_slash t) = []" | "[] \<in> set (tl (split_slash t))"
      by (cases "split_slash t") auto
    then show ?thesis
    proof cases
      case 1
      then show ?thesis using True by (cases t) (auto simp: hd_split_slash_Nil sublist_Cons_right)
    next
      case 2
      then show ?thesis using Cons.IH by (auto simp: sublist_Cons_right)
    qed
  next
    case False
    with Cons show ?thesis by (auto simp: sublist_Cons_right)
  qed
qed simp

lemma no_empty_piece:
  assumes "t \<noteq> []" "hd t \<noteq> CHR ''/''" "last t \<noteq> CHR ''/''" "\<not> sublist ''//'' t"
  shows "[] \<notin> set (split_slash t)"
proof
  assume "[] \<in> set (split_slash t)"
  then have "hd (split_slash t) = [] \<or> [] \<in> set (tl (split_slash t))"
    by (cases "split_slash t") auto
  with assms empty_piece [of t] show False by (auto simp: hd_split_slash_Nil)
qed

lemma split_once_parts: "split_once pat s = Some (a, b) \<Longrightarrow> s = a @ pat @ b"
  by (induction pat s arbitrary: a b rule: split_once.induct) (auto simp: strip_prefix_iff split: option.splits if_splits)

section \<open>Integers\<close>

text \<open>An optional plus sign and decimal digits, read from the left; the first digit that is none, or that
  makes the number too large, decides.\<close>

datatype int_error = IntEmpty | IntInvalidDigit | IntTooLarge

fun int_error_text :: "int_error \<Rightarrow> string" where
  "int_error_text IntEmpty = ''cannot parse integer from empty string''"
| "int_error_text IntInvalidDigit = ''invalid digit found in string''"
| "int_error_text IntTooLarge = ''number too large to fit in target type''"

fun parse_digits :: "nat \<Rightarrow> nat \<Rightarrow> string \<Rightarrow> int_error + nat" where
  "parse_digits limit acc [] = Inr acc"
| "parse_digits limit acc (c # cs) =
     (if \<not> is_ascii_digit c then Inl IntInvalidDigit
      else if limit < 10 * acc + (byte c - 48) then Inl IntTooLarge
      else parse_digits limit (10 * acc + (byte c - 48)) cs)"

definition parse_unsigned :: "nat \<Rightarrow> string \<Rightarrow> int_error + nat" where
  "parse_unsigned limit s =
     (if s = [] then Inl IntEmpty
      else if s = ''+'' \<or> s = ''-'' then Inl IntInvalidDigit
      else parse_digits limit 0 (case strip_prefix ''+'' s of Some r \<Rightarrow> r | None \<Rightarrow> s))"

subsection \<open>Laws of integers\<close>

lemma parse_digits_append:
  "parse_digits limit acc (s @ t) = try_r (parse_digits limit acc s) (\<lambda>a. parse_digits limit a t)"
  by (induction limit acc s rule: parse_digits.induct) simp_all

lemma parse_digits_dec: "n \<le> limit \<Longrightarrow> parse_digits limit 0 (dec n) = Inr n"
proof (induction n rule: dec.induct)
  case (1 n)
  have d: "is_ascii_digit (char_of (48 + n mod 10))" "byte (char_of (48 + n mod 10)) = 48 + n mod 10"
  proof -
    have "n mod 10 < 10" by simp
    then show "is_ascii_digit (char_of (48 + n mod 10))" "byte (char_of (48 + n mod 10)) = 48 + n mod 10"
      by (simp_all add: is_ascii_digit_def)
  qed
  show ?case
  proof (cases "n < 10")
    case True
    with d "1.prems" show ?thesis by (subst dec.simps) simp
  next
    case False
    then have "dec n = dec (n div 10) @ [char_of (48 + n mod 10)]" by (subst dec.simps) simp
    moreover have "parse_digits limit 0 (dec (n div 10)) = Inr (n div 10)"
      using "1.IH" False "1.prems" by simp
    moreover have "10 * (n div 10) + n mod 10 = n" by simp
    ultimately show ?thesis using d "1.prems" by (simp add: parse_digits_append)
  qed
qed

lemma parse_unsigned_dec: "n \<le> limit \<Longrightarrow> parse_unsigned limit (dec n) = Inr n"
proof -
  assume n: "n \<le> limit"
  obtain c s where dec: "dec n = c # s" "is_ascii_digit c"
    using dec_digits [of _ n] by (cases "dec n") auto
  then have "c \<noteq> CHR ''+''" "c \<noteq> CHR ''-''" by (auto simp: is_ascii_digit_def)
  with dec parse_digits_dec [OF n] show ?thesis by (simp add: parse_unsigned_def)
qed

lemma parse_digits_bound: "parse_digits limit acc s = Inr n \<Longrightarrow> acc \<le> limit \<Longrightarrow> n \<le> limit"
  by (induction limit acc s rule: parse_digits.induct) (auto split: if_splits)

lemma parse_unsigned_bound: "parse_unsigned limit s = Inr n \<Longrightarrow> n \<le> limit"
  by (auto simp: parse_unsigned_def dest: parse_digits_bound split: if_splits)

end
