(* ===== verification/Remote_Path.thy ===== *)
theory Remote_Path
  imports Rust_Split
begin

text \<open>
  Remote SFTP paths (\<open>crates/ramag-domain/src/entities/ssh_remote_path.rs\<close>): the three name spaces, the
  parsing of canonical server paths, joining a child, the parent, temporary siblings and breadcrumbs.
  A slice \<open>&s[..n]\<close> that the code does not guard answers \<open>None\<close> where Rust panics.
\<close>

section \<open>String operations\<close>

text \<open>\<open>trim_start_matches('/')\<close>, \<open>trim_end_matches('/')\<close> and \<open>trim_matches('/')\<close>.\<close>

definition trim_start_slash :: "string \<Rightarrow> string" where
  "trim_start_slash s = dropWhile (\<lambda>c. c = CHR ''/'') s"

definition trim_end_slash :: "string \<Rightarrow> string" where
  "trim_end_slash s = rev (dropWhile (\<lambda>c. c = CHR ''/'') (rev s))"

definition trim_slashes :: "string \<Rightarrow> string" where
  "trim_slashes s = trim_end_slash (trim_start_slash s)"

text \<open>The byte before which \<open>rfind('/')\<close> cuts.\<close>

definition rfind_slash :: "string \<Rightarrow> nat option" where
  "rfind_slash s =
     (let n = length (takeWhile (\<lambda>c. c \<noteq> CHR ''/'') (rev s))
      in if n = length s then None else Some (length s - n - 1))"

text \<open>\<open>&s[..n]\<close>; the bytes before \<open>n\<close> are ASCII wherever it is used, so \<open>n\<close> is on a character boundary.\<close>

definition str_slice_to :: "nat \<Rightarrow> string \<Rightarrow> string option" where
  "str_slice_to n s = (if n \<le> length s then Some (take n s) else None)"

definition BACKSLASH_BYTE :: char where "BACKSLASH_BYTE = CHR 0x5C"

section \<open>Data\<close>

(* crates/ramag-domain/src/entities/ssh.rs:29-29 MAX_SSH_PATH_BYTES *)
definition MAX_SSH_PATH_BYTES :: nat where
  [limits]: "MAX_SSH_PATH_BYTES = 32 * 1024"

(* crates/ramag-domain/src/entities/ssh_remote_path.rs:7-15 SftpNamespaceKind *)
datatype sftp_namespace = NsPosix | NsWindowsDrive | NsVirtual | NsUnknown

(* crates/ramag-domain/src/entities/ssh_remote_path.rs:17-21 RemotePath *)
record remote_path =
  rp_canonical :: string
  rp_namespace :: sftp_namespace

section \<open>Shapes\<close>

(* crates/ramag-domain/src/entities/ssh_remote_path.rs:352-359 has_virtual_windows_drive_prefix *)
definition has_virtual_windows_drive_prefix :: "string \<Rightarrow> bool" where
  "has_virtual_windows_drive_prefix v \<longleftrightarrow>
     4 \<le> length v \<and> v ! 0 = CHR ''/'' \<and> is_ascii_alphabetic (v ! 1) \<and> v ! 2 = CHR '':'' \<and> v ! 3 = CHR ''/''"

(* crates/ramag-domain/src/entities/ssh_remote_path.rs:361-363 is_virtual_windows_drive_root *)
definition is_virtual_windows_drive_root :: "string \<Rightarrow> bool" where
  "is_virtual_windows_drive_root v \<longleftrightarrow> length v = 4 \<and> has_virtual_windows_drive_prefix v"

(* crates/ramag-domain/src/entities/ssh_remote_path.rs:365-368 is_windows_drive_absolute *)
definition is_windows_drive_absolute :: "string \<Rightarrow> bool" where
  "is_windows_drive_absolute v \<longleftrightarrow>
     3 \<le> length v \<and> is_ascii_alphabetic (v ! 0) \<and> v ! 1 = CHR '':'' \<and> v ! 2 = CHR ''/''"

(* crates/ramag-domain/src/entities/ssh_remote_path.rs:370-379 is_windows_reserved_name *)
definition is_windows_reserved_name :: "string \<Rightarrow> bool" where
  "is_windows_reserved_name v \<longleftrightarrow>
     (let upper = to_ascii_uppercase v;
          device = (\<lambda>p. case strip_prefix p upper of None \<Rightarrow> False
                    | Some rest \<Rightarrow> rest \<in> set [''1'', ''2'', ''3'', ''4'', ''5'', ''6'', ''7'', ''8'', ''9''])
      in upper \<in> set [''CON'', ''PRN'', ''AUX'', ''NUL''] \<or> device ''COM'' \<or> device ''LPT'')"

section \<open>Validation\<close>

(* crates/ramag-domain/src/entities/ssh_remote_path.rs:274-288 validate_protocol_path *)
definition validate_protocol_path :: "string \<Rightarrow> string + unit" where
  "validate_protocol_path v =
     try_r (ensure (v \<noteq> []) (utf8 [0x8FDC, 0x7A0B, 0x8DEF, 0x5F84, 0x4E0D, 0x80FD, 0x4E3A, 0x7A7A])) (\<lambda>_.
     try_r (ensure (length v \<le> MAX_SSH_PATH_BYTES)
       ((utf8 [0x8FDC, 0x7A0B, 0x8DEF, 0x5F84, 0x8FC7, 0x957F, 0xFF1A]) @ dec (length v) @ ('' bytes'' @ utf8 [0xFF0C, 0x6700, 0x591A] @ '' '') @ dec MAX_SSH_PATH_BYTES @ ('' bytes''))) (\<lambda>_.
     ensure (\<not> has_control v) (utf8 [0x8FDC, 0x7A0B, 0x8DEF, 0x5F84, 0x4E0D, 0x80FD, 0x5305, 0x542B, 0x63A7, 0x5236, 0x5B57, 0x7B26])))"

(* crates/ramag-domain/src/entities/ssh_remote_path.rs:251-272 validate_remote_name_for_namespace *)
definition validate_remote_name :: "string \<Rightarrow> sftp_namespace \<Rightarrow> string + unit" where
  "validate_remote_name name ns =
     try_r (validate_protocol_path name) (\<lambda>_.
     try_r (ensure (name \<noteq> [] \<and> name \<notin> {''.'', ''..''}
         \<and> list_all (\<lambda>c. c \<noteq> CHR ''/'' \<and> c \<noteq> BACKSLASH_BYTE) name)
       (utf8 [0x8FDC, 0x7A0B, 0x6587, 0x4EF6, 0x540D, 0x4E0D, 0x80FD, 0x5305, 0x542B, 0x8DEF, 0x5F84, 0x5206, 0x9694, 0x7B26, 0x6216, 0x4F7F, 0x7528] @ '' . / ..'')) (\<lambda>_.
     if ns = NsWindowsDrive then
       try_r (ensure (list_all (\<lambda>c. byte c \<notin> {0x3C, 0x3E, 0x3A, 0x22, 0x7C, 0x3F, 0x2A}) name)
         (''Windows SFTP '' @ utf8 [0x6587, 0x4EF6, 0x540D, 0x5305, 0x542B, 0x7CFB, 0x7EDF, 0x4E0D, 0x5141, 0x8BB8, 0x7684, 0x5B57, 0x7B26])) (\<lambda>_.
       try_r (ensure (last name \<noteq> CHR '' '' \<and> last name \<noteq> CHR ''.'')
         (''Windows SFTP '' @ utf8 [0x6587, 0x4EF6, 0x540D, 0x4E0D, 0x80FD, 0x4EE5, 0x7A7A, 0x683C, 0x6216, 0x70B9, 0x7ED3, 0x5C3E])) (\<lambda>_.
       ensure (\<not> is_windows_reserved_name (takeWhile (\<lambda>c. c \<noteq> CHR ''.'') name))
         (''Windows SFTP '' @ utf8 [0x6587, 0x4EF6, 0x540D, 0x4F7F, 0x7528, 0x4E86, 0x4FDD, 0x7559, 0x8BBE, 0x5907, 0x540D])))
     else Inr ()))"

(* crates/ramag-domain/src/entities/ssh_remote_path.rs:329-337 validate_components *)
definition validate_components :: "string \<Rightarrow> string + unit" where
  "validate_components v =
     ensure (list_all (\<lambda>x. x \<notin> {''.'', ''..''}) (split_slash v)) (utf8 [0x89C4, 0x8303, 0x8FDC, 0x7A0B, 0x8DEF, 0x5F84, 0x4E0D, 0x80FD, 0x5305, 0x542B] @ '' . '' @ utf8 [0x6216] @ '' .. '' @ utf8 [0x7EC4, 0x4EF6])"

(* crates/ramag-domain/src/entities/ssh_remote_path.rs:290-296 validate_posix_absolute *)
definition validate_posix_absolute :: "string \<Rightarrow> string + unit" where
  "validate_posix_absolute v =
     try_r (ensure (starts_with v ''/'' \<and> \<not> (1 < length v \<and> str_contains ''//'' v)
         \<and> BACKSLASH_BYTE \<notin> set v)
       (utf8 [0x8FDC, 0x7A0B] @ '' POSIX '' @ utf8 [0x8DEF, 0x5F84, 0x5FC5, 0x987B, 0x4EE5, 0x5355, 0x4E2A] @ '' '' @ utf8 [0x27] @ ''/'' @ utf8 [0x27] @ '' '' @ utf8 [0x5F00, 0x5934])) (\<lambda>_.
     validate_components (trim_slashes v))"

(* crates/ramag-domain/src/entities/ssh_remote_path.rs:301-306 validate_virtual_absolute *)
definition validate_drive_names :: "string \<Rightarrow> string + unit" where
  "validate_drive_names tail =
     for_r (\<lambda>x. validate_remote_name x NsWindowsDrive) (filter (\<lambda>x. x \<noteq> []) (split_slash tail))"

(* crates/ramag-domain/src/entities/ssh_remote_path.rs:298-309 validate_virtual_absolute *)
definition validate_virtual_absolute :: "string \<Rightarrow> string + unit" where
  "validate_virtual_absolute v =
     try_r (validate_posix_absolute v) (\<lambda>_.
     if has_virtual_windows_drive_prefix v then validate_drive_names (drop 4 v) else Inr ())"

(* crates/ramag-domain/src/entities/ssh_remote_path.rs:311-327 validate_windows_drive_absolute *)
definition validate_windows_drive_absolute :: "string \<Rightarrow> string + unit" where
  "validate_windows_drive_absolute v =
     try_r (ensure (is_windows_drive_absolute v) (''Windows SFTP '' @ utf8 [0x8DEF, 0x5F84, 0x5FC5, 0x987B, 0x4F7F, 0x7528] @ '' C:/path '' @ utf8 [0x5F62, 0x5F0F, 0x7684, 0x76D8, 0x7B26, 0x7EDD, 0x5BF9, 0x8DEF, 0x5F84])) (\<lambda>_.
     try_r (ensure (BACKSLASH_BYTE \<notin> set v \<and> \<not> starts_with v ''//''
         \<and> \<not> starts_with v [BACKSLASH_BYTE, BACKSLASH_BYTE])
       (''Windows SFTP '' @ utf8 [0x6682, 0x4E0D, 0x652F, 0x6301] @ '' UNC '' @ utf8 [0x6216, 0x8BBE, 0x5907, 0x8DEF, 0x5F84])) (\<lambda>_.
     let tail = drop 3 v in
     try_r (ensure (\<not> str_contains ''//'' tail) (''Windows SFTP '' @ utf8 [0x89C4, 0x8303, 0x8DEF, 0x5F84, 0x4E0D, 0x80FD, 0x5305, 0x542B, 0x7A7A, 0x7EC4, 0x4EF6])) (\<lambda>_.
     try_r (validate_components (trim_slashes tail)) (\<lambda>_.
     validate_drive_names tail))))"

(* crates/ramag-domain/src/entities/ssh_remote_path.rs:339-350 normalize_trailing_separator *)
definition normalize_trailing_separator :: "string \<Rightarrow> sftp_namespace \<Rightarrow> string" where
  "normalize_trailing_separator v ns =
     (if v = ''/'' \<or> (ns = NsWindowsDrive \<and> length v = 3 \<and> v ! 2 = CHR ''/'')
         \<or> (ns = NsVirtual \<and> is_virtual_windows_drive_root v)
      then v else trim_end_slash v)"

(* crates/ramag-domain/src/entities/ssh_remote_path.rs:38-52 RemotePath::parse_with_namespace *)
definition parse_with_namespace :: "string \<Rightarrow> sftp_namespace \<Rightarrow> string + remote_path" where
  "parse_with_namespace v ns =
     try_r (validate_protocol_path v) (\<lambda>_.
     try_r (case ns of NsPosix \<Rightarrow> validate_posix_absolute v
            | NsVirtual \<Rightarrow> validate_virtual_absolute v
            | NsWindowsDrive \<Rightarrow> validate_windows_drive_absolute v
            | NsUnknown \<Rightarrow> Inl (utf8 [0x8FDC, 0x7A0B, 0x8DEF, 0x5F84, 0x547D, 0x540D, 0x7A7A, 0x95F4, 0x5C1A, 0x672A, 0x8BC6, 0x522B])) (\<lambda>_.
     Inr \<lparr>rp_canonical = normalize_trailing_separator v ns, rp_namespace = ns\<rparr>))"

(* crates/ramag-domain/src/entities/ssh_remote_path.rs:239-249 infer_sftp_namespace *)
definition infer_sftp_namespace :: "string \<Rightarrow> sftp_namespace" where
  "infer_sftp_namespace path =
     (if is_windows_drive_absolute path then NsWindowsDrive
      else if has_virtual_windows_drive_prefix path then NsVirtual
      else if starts_with path ''/'' then NsPosix else NsUnknown)"

(* crates/ramag-domain/src/entities/ssh_remote_path.rs:25-36 RemotePath::parse_server_canonical *)
definition parse_server_canonical :: "string \<Rightarrow> string + remote_path" where
  "parse_server_canonical v =
     try_r (if is_windows_drive_absolute v then Inr NsWindowsDrive
            else if has_virtual_windows_drive_prefix v then Inr NsVirtual
            else if starts_with v ''/'' then Inr NsPosix
            else Inl (utf8 [0x670D, 0x52A1, 0x5668, 0x8FD4, 0x56DE, 0x7684, 0x8FDC, 0x7A0B, 0x8DEF, 0x5F84, 0x4E0D, 0x662F, 0x53D7, 0x652F, 0x6301, 0x7684, 0x7EDD, 0x5BF9, 0x8DEF, 0x5F84])) (\<lambda>ns.
     parse_with_namespace v ns)"

section \<open>Operations\<close>

(* crates/ramag-domain/src/entities/ssh_remote_path.rs:62-73 RemotePath::is_root *)
definition rp_is_root :: "remote_path \<Rightarrow> bool" where
  "rp_is_root p =
     (case rp_namespace p of
        NsPosix \<Rightarrow> rp_canonical p = ''/''
      | NsVirtual \<Rightarrow> rp_canonical p = ''/'' \<or> is_virtual_windows_drive_root (rp_canonical p)
      | NsWindowsDrive \<Rightarrow> length (rp_canonical p) = 3 \<and> rp_canonical p ! 2 = CHR ''/''
      | NsUnknown \<Rightarrow> False)"

(* crates/ramag-domain/src/entities/ssh_remote_path.rs:75-97 RemotePath::join_child *)
definition join_child :: "remote_path \<Rightarrow> string \<Rightarrow> string + remote_path" where
  "join_child p name =
     (let c = rp_canonical p; ns = rp_namespace p;
          name_namespace = (if ns = NsVirtual \<and> has_virtual_windows_drive_prefix c then NsWindowsDrive else ns)
      in try_r (validate_remote_name name name_namespace) (\<lambda>_.
         try_r (if ns = NsPosix \<and> rp_is_root p then Inr (''/'' @ name)
                else if ns = NsVirtual \<and> c = ''/'' then Inr (''/'' @ name)
                else if ns = NsWindowsDrive \<and> rp_is_root p then Inr (c @ name)
                else if ns = NsVirtual \<and> c \<noteq> [] \<and> last c = CHR ''/'' then Inr (c @ name)
                else if ns = NsUnknown then Inl (utf8 [0x8FDC, 0x7A0B, 0x8DEF, 0x5F84, 0x547D, 0x540D, 0x7A7A, 0x95F4, 0x5C1A, 0x672A, 0x8BC6, 0x522B])
                else Inr (c @ ''/'' @ name)) (\<lambda>v.
         parse_with_namespace v ns)))"

(* crates/ramag-domain/src/entities/ssh_remote_path.rs:99-126 RemotePath::parent *)
definition rp_parent :: "remote_path \<Rightarrow> remote_path" where
  "rp_parent p =
     (let c = rp_canonical p; ns = rp_namespace p in
      if ns = NsVirtual \<and> is_virtual_windows_drive_root c then p\<lparr>rp_canonical := ''/''\<rparr>
      else if rp_is_root p then p
      else
        let index = (case rfind_slash c of None \<Rightarrow> 0 | Some i \<Rightarrow> i) in
        p\<lparr>rp_canonical :=
          (if ns \<in> {NsPosix, NsVirtual} \<and> index = 0 then ''/''
           else if ns = NsVirtual \<and> index = 3 \<and> has_virtual_windows_drive_prefix c then take (Suc index) c
           else if ns = NsWindowsDrive \<and> index = 2 then take 3 c
           else take index c)\<rparr>)"

(* crates/ramag-domain/src/entities/ssh_remote_path.rs:128-130 RemotePath::is_same_location *)
definition is_same_location :: "remote_path \<Rightarrow> remote_path \<Rightarrow> bool" where
  "is_same_location p q \<longleftrightarrow> rp_namespace p = rp_namespace q \<and> rp_canonical p = rp_canonical q"

(* crates/ramag-domain/src/entities/ssh_remote_path.rs:381-391 validate_portable_token *)
definition validate_portable_token :: "string \<Rightarrow> string \<Rightarrow> nat \<Rightarrow> string + unit" where
  "validate_portable_token label v max_bytes =
     ensure (v \<noteq> [] \<and> length v \<le> max_bytes \<and> list_all (\<lambda>b. is_ascii_alphanumeric b \<or> b = CHR ''-'') v)
       (label @ (utf8 [0x683C, 0x5F0F, 0x65E0, 0x6548]))"

(* crates/ramag-domain/src/entities/ssh_remote_path.rs:132-146 RemotePath::temporary_sibling *)
definition temporary_sibling :: "remote_path \<Rightarrow> string \<Rightarrow> string \<Rightarrow> string + remote_path" where
  "temporary_sibling p marker unique =
     try_r (ensure (\<not> rp_is_root p) (utf8 [0x4E0D, 0x80FD, 0x4E3A, 0x8FDC, 0x7AEF, 0x6839, 0x76EE, 0x5F55, 0x521B, 0x5EFA, 0x4E34, 0x65F6, 0x5144, 0x5F1F, 0x8DEF, 0x5F84])) (\<lambda>_.
     try_r (validate_portable_token (utf8 [0x4E34, 0x65F6, 0x6587, 0x4EF6, 0x6807, 0x8BB0]) marker 32) (\<lambda>_.
     try_r (validate_portable_token (utf8 [0x4E34, 0x65F6, 0x6587, 0x4EF6, 0x6807, 0x8BC6]) unique 64) (\<lambda>_.
     let name = last (split_slash (rp_canonical p)) in
     try_r (ensure (name \<noteq> []) (utf8 [0x8FDC, 0x7A0B, 0x76EE, 0x6807, 0x7F3A, 0x5C11, 0x6587, 0x4EF6, 0x540D])) (\<lambda>_.
     join_child (rp_parent p) (''.'' @ name @ ''.'' @ marker @ ''-'' @ unique @ ''.tmp'')))))"

text \<open>One breadcrumb per non-empty component; \<open>sep\<close> says when a separator is added.\<close>

(* crates/ramag-domain/src/entities/ssh_remote_path.rs:157-171 RemotePath::breadcrumbs *)
fun crumbs_from :: "(remote_path \<Rightarrow> bool) \<Rightarrow> remote_path \<Rightarrow> string list \<Rightarrow> (string \<times> remote_path) list" where
  "crumbs_from sep current [] = []"
| "crumbs_from sep current (x # xs) =
     (if x = [] then crumbs_from sep current xs
      else
        let current = current\<lparr>rp_canonical := rp_canonical current @ (if sep current then ''/'' else []) @ x\<rparr>
        in (x, current) # crumbs_from sep current xs)"

text \<open>The paths are cut with unguarded slices: \<open>None\<close> is a panic.\<close>

(* crates/ramag-domain/src/entities/ssh_remote_path.rs:148-230 RemotePath::breadcrumbs *)
definition breadcrumbs :: "remote_path \<Rightarrow> (string \<times> remote_path) list option" where
  "breadcrumbs p =
     (let c = rp_canonical p; slash = p\<lparr>rp_canonical := ''/''\<rparr> in
      case rp_namespace p of
        NsPosix \<Rightarrow>
          Some ((''/'', slash) #
            crumbs_from (\<lambda>q. \<not> rp_is_root q) slash (split_slash (trim_start_slash c)))
      | NsVirtual \<Rightarrow>
          (if has_virtual_windows_drive_prefix c then
             let drive = p\<lparr>rp_canonical := take 4 c\<rparr> in
             Some ((''/'', slash) # (drop 1 (take 3 c), drive) #
               crumbs_from (\<lambda>q. last (rp_canonical q) \<noteq> CHR ''/'') drive (split_slash (drop 4 c)))
           else
             Some ((''/'', slash) #
               crumbs_from (\<lambda>q. last (rp_canonical q) \<noteq> CHR ''/'') slash (split_slash (trim_start_slash c))))
      | NsWindowsDrive \<Rightarrow>
          map_option (\<lambda>root.
            (root, p\<lparr>rp_canonical := root\<rparr>) #
            crumbs_from (\<lambda>q. \<not> rp_is_root q) (p\<lparr>rp_canonical := root\<rparr>) (split_slash (drop 3 c)))
            (str_slice_to 3 c)
      | NsUnknown \<Rightarrow> Some [])"

end
