(* ===== verification/Remote_Path_Laws.thy ===== *)
theory Remote_Path_Laws
  imports Remote_Path
begin

text \<open>
  Well-formed remote paths: what parsing establishes and every operation keeps, and how joining a
  child, the parent and the breadcrumbs fit together.
\<close>

section \<open>The last separator\<close>

lemma rfind_slash_append: "CHR ''/'' \<notin> set b \<Longrightarrow> rfind_slash (a @ CHR ''/'' # b) = Some (length a)"
proof -
  assume "CHR ''/'' \<notin> set b"
  then have "takeWhile (\<lambda>c. c \<noteq> CHR ''/'') (rev b @ CHR ''/'' # rev a) = rev b"
    by (auto simp: takeWhile_append)
  then show ?thesis by (simp add: rfind_slash_def)
qed

lemma last_slash_split:
  assumes "CHR ''/'' \<in> set s"
  obtains a b where "s = a @ CHR ''/'' # b" "CHR ''/'' \<notin> set b" "rfind_slash s = Some (length a)"
  using split_list_last [OF assms] rfind_slash_append that by blast

section \<open>Trimming\<close>

lemma trim_end_slash_id: "s = [] \<or> last s \<noteq> CHR ''/'' \<Longrightarrow> trim_end_slash s = s"
  by (cases s rule: rev_cases) (simp_all add: trim_end_slash_def)

lemma trim_end_slash_snoc: "trim_end_slash (s @ ''/'') = trim_end_slash s"
  by (simp add: trim_end_slash_def)

lemma pieces_trim_start: "set (split_slash s) \<subseteq> insert [] (set (split_slash (trim_start_slash s)))"
  by (induction s) (auto simp: trim_start_slash_def)

lemma pieces_trim_end: "set (split_slash s) \<subseteq> insert [] (set (split_slash (trim_end_slash s)))"
proof (induction s rule: rev_induct)
  case (snoc c s)
  show ?case
  proof (cases "c = CHR ''/''")
    case True
    then show ?thesis using snoc trim_end_slash_snoc [of s] split_slash_append [of s "[]"] by simp
  qed (auto simp: trim_end_slash_id)
qed (simp add: trim_end_slash_def)

lemma pieces_trim: "set (split_slash s) \<subseteq> insert [] (set (split_slash (trim_slashes s)))"
  using pieces_trim_start [of s] pieces_trim_end [of "trim_start_slash s"]
  unfolding trim_slashes_def by blast

lemma trim_one_slash:
  assumes "\<not> sublist ''//'' s" "s \<noteq> []" "last s = CHR ''/''" "s \<noteq> ''/''"
  obtains c where "s = c @ ''/''" "trim_end_slash s = c" "c \<noteq> []" "last c \<noteq> CHR ''/''"
proof -
  obtain c where s: "s = c @ ''/''" using assms(2,3) by (metis append_butlast_last_id)
  have c: "c \<noteq> []" using assms(4) s by auto
  have "last c \<noteq> CHR ''/''"
  proof
    assume "last c = CHR ''/''"
    then have "s = butlast c @ ''//'' @ []" using s c by (metis append.assoc append_Cons append_Nil append_Nil2 append_butlast_last_id)
    then have "sublist ''//'' s" unfolding sublist_def by blast
    with assms(1) show False ..
  qed
  with s c that show thesis by (simp add: trim_end_slash_snoc trim_end_slash_id)
qed

lemma has_control_prefix: "\<not> has_control (a @ b) \<Longrightarrow> \<not> has_control a"
proof (induction a rule: has_control.induct)
  case (2 x)
  then show ?case by (cases b) auto
qed auto

lemma sublist_prefix: "\<not> sublist t (a @ b) \<Longrightarrow> \<not> sublist t a"
  by (meson sublist_appendI sublist_order.order_trans prefix_imp_sublist prefixI)

section \<open>Well-formed paths\<close>

definition drive_tail :: "sftp_namespace \<Rightarrow> string \<Rightarrow> string" where
  "drive_tail ns c =
     (if ns = NsWindowsDrive then drop 3 c
      else if ns = NsVirtual \<and> has_virtual_windows_drive_prefix c then drop 4 c else [])"

definition no_dots :: "string \<Rightarrow> bool" where
  "no_dots c \<longleftrightarrow> list_all (\<lambda>x. x \<notin> {''.'', ''..''}) (split_slash c)"

definition rp_wf :: "remote_path \<Rightarrow> bool" where
  "rp_wf p \<longleftrightarrow>
     (let c = rp_canonical p; ns = rp_namespace p in
      ns \<noteq> NsUnknown \<and> c \<noteq> [] \<and> length c \<le> MAX_SSH_PATH_BYTES \<and> \<not> has_control c
      \<and> BACKSLASH_BYTE \<notin> set c \<and> \<not> sublist ''//'' c \<and> no_dots c
      \<and> (if ns = NsWindowsDrive then is_windows_drive_absolute c else hd c = CHR ''/'')
      \<and> (last c = CHR ''/'' \<longleftrightarrow> rp_is_root p)
      \<and> validate_drive_names (drive_tail ns c) = Inr ())"

lemma drive_names_ok:
  "validate_drive_names t = Inr () \<longleftrightarrow>
     (\<forall>x \<in> set (split_slash t). x \<noteq> [] \<longrightarrow> validate_remote_name x NsWindowsDrive = Inr ())"
  by (auto simp: validate_drive_names_def)

lemma drive_names_Nil [simp]: "validate_drive_names [] = Inr ()"
  by (simp add: drive_names_ok)

lemma drive_names_prefix: "validate_drive_names (a @ CHR ''/'' # b) = Inr () \<Longrightarrow> validate_drive_names a = Inr ()"
  by (auto simp: drive_names_ok split_slash_append)

lemma no_dots_append: "no_dots (a @ CHR ''/'' # b) \<longleftrightarrow> no_dots a \<and> no_dots b"
  by (simp add: no_dots_def split_slash_append)

lemma no_dots_trim: "list_all (\<lambda>x. x \<notin> {''.'', ''..''}) (split_slash (trim_slashes s)) \<Longrightarrow> no_dots s"
  using pieces_trim [of s] unfolding no_dots_def list_all_iff by blast

lemma is_root_last: "rp_is_root p \<Longrightarrow> last (rp_canonical p) = CHR ''/''"
proof -
  assume r: "rp_is_root p"
  have "last c = c ! (length c - 1)" if "c \<noteq> []" for c :: string using that by (rule last_conv_nth)
  moreover have "rp_canonical p \<noteq> []" using r
    by (auto simp: rp_is_root_def is_virtual_windows_drive_root_def split: sftp_namespace.splits)
  ultimately show ?thesis using r
    by (auto simp: rp_is_root_def is_virtual_windows_drive_root_def has_virtual_windows_drive_prefix_def
        split: sftp_namespace.splits)
qed


section \<open>Parsing establishes well-formedness\<close>

lemma normalize_shape:
  assumes "\<not> sublist ''//'' v" "v \<noteq> []"
  shows "normalize_trailing_separator v ns = v \<and> (last v = CHR ''/'' \<longrightarrow> rp_is_root \<lparr>rp_canonical = v, rp_namespace = ns\<rparr> \<or> v = ''/'')
    \<or> v = normalize_trailing_separator v ns @ ''/'' \<and> normalize_trailing_separator v ns \<noteq> []
       \<and> last (normalize_trailing_separator v ns) \<noteq> CHR ''/''"
proof (cases "v = ''/'' \<or> (ns = NsWindowsDrive \<and> length v = 3 \<and> v ! 2 = CHR ''/'')
         \<or> (ns = NsVirtual \<and> is_virtual_windows_drive_root v)")
  case True
  then have "normalize_trailing_separator v ns = v" by (simp add: normalize_trailing_separator_def)
  with True show ?thesis by (auto simp: rp_is_root_def)
next
  case False
  then have n: "normalize_trailing_separator v ns = trim_end_slash v" "v \<noteq> ''/''"
    unfolding normalize_trailing_separator_def by (simp only: if_False, blast)
  show ?thesis
  proof (cases "last v = CHR ''/''")
    case True
    obtain c where "v = c @ ''/''" "trim_end_slash v = c" "c \<noteq> []" "last c \<noteq> CHR ''/''"
      using trim_one_slash [OF assms True n(2)] by blast
    then show ?thesis using n(1) by simp
  next
    case no: False
    then show ?thesis using n(1) trim_end_slash_id [of v] by simp
  qed
qed

lemma drive_prefix_cut:
  "has_virtual_windows_drive_prefix c \<Longrightarrow> has_virtual_windows_drive_prefix (c @ s)"
  by (auto simp: has_virtual_windows_drive_prefix_def nth_append)

lemma drive_absolute_cut:
  "is_windows_drive_absolute c \<Longrightarrow> is_windows_drive_absolute (c @ s)"
  by (auto simp: is_windows_drive_absolute_def nth_append)

text \<open>What one validated name space guarantees of the text it was given.\<close>

definition raw_ok :: "sftp_namespace \<Rightarrow> string \<Rightarrow> bool" where
  "raw_ok ns v \<longleftrightarrow>
     ns \<noteq> NsUnknown \<and> v \<noteq> [] \<and> length v \<le> MAX_SSH_PATH_BYTES \<and> \<not> has_control v
     \<and> BACKSLASH_BYTE \<notin> set v \<and> \<not> sublist ''//'' v \<and> no_dots v
     \<and> (if ns = NsWindowsDrive then is_windows_drive_absolute v else hd v = CHR ''/'')
     \<and> validate_drive_names (drive_tail ns v) = Inr ()"

lemma starts_with_slash: "starts_with v ''/'' \<longleftrightarrow> v \<noteq> [] \<and> hd v = CHR ''/''"
  by (cases v) (auto simp: starts_with_iff)

lemma posix_raw:
  assumes "validate_protocol_path v = Inr ()" "validate_posix_absolute v = Inr ()"
  shows "raw_ok NsPosix v"
proof -
  have v: "starts_with v ''/''" "1 < length v \<longrightarrow> \<not> sublist ''//'' v" "BACKSLASH_BYTE \<notin> set v"
    "list_all (\<lambda>x. x \<notin> {''.'', ''..''}) (split_slash (trim_slashes v))"
    using assms(2) by (auto simp: validate_posix_absolute_def validate_components_def str_contains_sublist)
  have "\<not> sublist ''//'' v"
  proof
    assume s: "sublist ''//'' v"
    then have "length ''//'' \<le> length v" by (rule sublist_length_le)
    with s v(2) show False by simp
  qed
  with v no_dots_trim [OF v(4)] assms(1) show ?thesis
    by (simp add: raw_ok_def validate_protocol_path_def starts_with_slash drive_tail_def)
qed

lemma virtual_raw:
  assumes "validate_protocol_path v = Inr ()" "validate_virtual_absolute v = Inr ()"
  shows "raw_ok NsVirtual v"
proof -
  have p: "raw_ok NsPosix v"
    using posix_raw [OF assms(1)] assms(2) by (simp add: validate_virtual_absolute_def)
  have "validate_drive_names (drive_tail NsVirtual v) = Inr ()"
    using assms(2) by (auto simp: validate_virtual_absolute_def drive_tail_def split: if_splits)
  with p show ?thesis by (simp add: raw_ok_def)
qed

lemma alphabetic_no_slash: "is_ascii_alphabetic (CHR ''/'') = False"
  by code_simp

lemma windows_raw:
  assumes "validate_protocol_path v = Inr ()" "validate_windows_drive_absolute v = Inr ()"
    and "\<not> (4 \<le> length v \<and> v ! 3 = CHR ''/'')"
  shows "raw_ok NsWindowsDrive v"
proof -
  have abs: "is_windows_drive_absolute v" and bs: "BACKSLASH_BYTE \<notin> set v"
    and tail: "\<not> sublist ''//'' (drop 3 v)"
      "list_all (\<lambda>x. x \<notin> {''.'', ''..''}) (split_slash (trim_slashes (drop 3 v)))"
      "validate_drive_names (drop 3 v) = Inr ()"
    using assms(2) by (auto simp: validate_windows_drive_absolute_def validate_components_def str_contains_sublist Let_def)
  obtain d t where v: "v = d # CHR '':'' # CHR ''/'' # t" and d: "is_ascii_alphabetic d"
  proof -
    have "3 \<le> length v" using abs by (simp add: is_windows_drive_absolute_def)
    then obtain x y z t where "v = x # y # z # t"
      by (metis Suc_le_length_iff numeral_3_eq_3)
    with abs that show thesis by (simp add: is_windows_drive_absolute_def)
  qed
  have dn: "d \<noteq> CHR ''/''" using d alphabetic_no_slash by metis
  have t: "t = [] \<or> hd t \<noteq> CHR ''/''" using assms(3) v by (cases t) auto
  have "\<not> sublist ''//'' v"
    using tail(1) dn t unfolding v by (cases t) (auto simp: sublist_Cons_right)
  moreover have "no_dots v"
  proof -
    have "no_dots t" using no_dots_trim [OF tail(2)] v by simp
    moreover have "v = [d, CHR '':''] @ CHR ''/'' # t" using v by simp
    moreover have "no_dots [d, CHR '':'']" using dn by (simp add: no_dots_def)
    ultimately show ?thesis by (metis no_dots_append)
  qed
  ultimately show ?thesis
    using assms(1) abs bs tail(3) by (simp add: raw_ok_def validate_protocol_path_def drive_tail_def)
qed

lemma raw_cut:
  assumes "raw_ok ns (c @ CHR ''/'' # b)" and "c \<noteq> []" and "ns = NsWindowsDrive \<longrightarrow> 3 \<le> length c"
  shows "raw_ok ns c"
proof -
  let ?v = "c @ CHR ''/'' # b"
  have v: "ns \<noteq> NsUnknown" "length ?v \<le> MAX_SSH_PATH_BYTES" "\<not> has_control ?v" "BACKSLASH_BYTE \<notin> set ?v"
    "\<not> sublist ''//'' ?v" "no_dots ?v"
    "if ns = NsWindowsDrive then is_windows_drive_absolute ?v else hd ?v = CHR ''/''"
    "validate_drive_names (drive_tail ns ?v) = Inr ()"
    using assms(1) unfolding raw_ok_def by blast+
  have start: "if ns = NsWindowsDrive then is_windows_drive_absolute c else hd c = CHR ''/''"
    using v(7) assms(2,3) by (auto simp: is_windows_drive_absolute_def nth_append split: if_splits)
  have names: "validate_drive_names (drive_tail ns c) = Inr ()"
  proof (cases "ns = NsWindowsDrive")
    case True
    then have "drive_tail ns ?v = drive_tail ns c @ CHR ''/'' # b" using assms(3) by (simp add: drive_tail_def)
    with v(8) show ?thesis using drive_names_prefix by metis
  next
    case False
    show ?thesis
    proof (cases "ns = NsVirtual \<and> has_virtual_windows_drive_prefix c")
      case True
      then have "drive_tail ns ?v = drive_tail ns c @ CHR ''/'' # b"
        using drive_prefix_cut [of c] by (simp add: drive_tail_def has_virtual_windows_drive_prefix_def)
      with v(8) show ?thesis using drive_names_prefix by metis
    qed (use False in \<open>auto simp: drive_tail_def\<close>)
  qed
  show ?thesis
    unfolding raw_ok_def
    using v(1,2,4) assms(2) has_control_prefix [OF v(3)] sublist_prefix [OF v(5)] v(6) start names
    by (simp add: no_dots_append)
qed

lemma raw_wf:
  "raw_ok ns c \<Longrightarrow> (last c = CHR ''/'' \<longleftrightarrow> rp_is_root \<lparr>rp_canonical = c, rp_namespace = ns\<rparr>)
    \<Longrightarrow> rp_wf \<lparr>rp_canonical = c, rp_namespace = ns\<rparr>"
  by (simp add: raw_ok_def rp_wf_def Let_def)

lemma wf_raw: "rp_wf p \<Longrightarrow> raw_ok (rp_namespace p) (rp_canonical p)"
  by (simp add: raw_ok_def rp_wf_def Let_def)

lemma normalized_wf:
  assumes "raw_ok ns v"
  shows "rp_wf \<lparr>rp_canonical = normalize_trailing_separator v ns, rp_namespace = ns\<rparr>"
proof -
  define c where "c = normalize_trailing_separator v ns"
  have v: "\<not> sublist ''//'' v" "v \<noteq> []" using assms by (simp_all add: raw_ok_def)
  consider "c = v" "last v = CHR ''/'' \<longrightarrow> rp_is_root \<lparr>rp_canonical = v, rp_namespace = ns\<rparr> \<or> v = ''/''"
    | "v = c @ ''/''" "c \<noteq> []" "last c \<noteq> CHR ''/''"
    using normalize_shape [OF v, of ns] unfolding c_def by blast
  then show ?thesis
    unfolding c_def [symmetric]
  proof cases
    case 1
    have "rp_is_root \<lparr>rp_canonical = v, rp_namespace = ns\<rparr>" if "v = ''/''"
      using assms that by (cases ns) (auto simp: raw_ok_def rp_is_root_def is_windows_drive_absolute_def)
    with 1 show "rp_wf \<lparr>rp_canonical = c, rp_namespace = ns\<rparr>"
      using assms is_root_last [of "\<lparr>rp_canonical = v, rp_namespace = ns\<rparr>"] by (auto intro: raw_wf)
  next
    case 2
    have "3 \<le> length c" if w: "ns = NsWindowsDrive"
    proof (rule ccontr)
      assume n: "\<not> 3 \<le> length c"
      have "is_windows_drive_absolute v" using assms w by (simp add: raw_ok_def)
      with n 2(1) have "length v = 3" "v ! 2 = CHR ''/''" by (auto simp: is_windows_drive_absolute_def)
      then have "c = v" using w by (simp add: c_def normalize_trailing_separator_def)
      with 2(1) show False by simp
    qed
    then have "raw_ok ns c" using assms raw_cut [of ns c "[]"] 2 by simp
    then show "rp_wf \<lparr>rp_canonical = c, rp_namespace = ns\<rparr>"
      using 2(3) is_root_last [of "\<lparr>rp_canonical = c, rp_namespace = ns\<rparr>"] by (auto intro: raw_wf)
  qed
qed

lemma parse_wf:
  assumes "parse_with_namespace v ns = Inr p"
    and "ns = NsWindowsDrive \<longrightarrow> \<not> (4 \<le> length v \<and> v ! 3 = CHR ''/'')"
  shows "rp_wf p \<and> rp_namespace p = ns"
proof -
  have proto: "validate_protocol_path v = Inr ()"
    and p: "p = \<lparr>rp_canonical = normalize_trailing_separator v ns, rp_namespace = ns\<rparr>"
    using assms(1) by (auto simp: parse_with_namespace_def)
  have "raw_ok ns v"
    using assms proto posix_raw [OF proto] virtual_raw [OF proto] windows_raw [OF proto]
    by (cases ns) (auto simp: parse_with_namespace_def)
  then show ?thesis using normalized_wf p by simp
qed


section \<open>Children and parents\<close>

text \<open>A path whose children do not start with a drive root.\<close>

definition not_bare_drive :: "remote_path \<Rightarrow> bool" where
  "not_bare_drive p \<longleftrightarrow>
     \<not> (rp_namespace p = NsVirtual \<and> length (rp_canonical p) = 3
        \<and> has_virtual_windows_drive_prefix (rp_canonical p @ ''/''))"

definition rp_extend :: "remote_path \<Rightarrow> string \<Rightarrow> remote_path" where
  "rp_extend p x = p\<lparr>rp_canonical := rp_canonical p @ (if last (rp_canonical p) = CHR ''/'' then [] else ''/'') @ x\<rparr>"

definition rp_base :: "remote_path \<Rightarrow> string" where
  "rp_base p = rp_canonical p @ (if last (rp_canonical p) = CHR ''/'' then [] else ''/'')"

lemma rp_base_split:
  assumes "rp_canonical p \<noteq> []"
  obtains a where "rp_base p = a @ ''/''"
    "last (rp_canonical p) = CHR ''/'' \<Longrightarrow> rp_canonical p = a @ ''/''"
    "last (rp_canonical p) \<noteq> CHR ''/'' \<Longrightarrow> rp_canonical p = a"
proof (cases "last (rp_canonical p) = CHR ''/''")
  case True
  with assms have "rp_canonical p = butlast (rp_canonical p) @ ''/''" by (metis append_butlast_last_id)
  with True that show thesis by (simp add: rp_base_def)
qed (use that in \<open>simp add: rp_base_def\<close>)

lemma parent_extend:
  assumes "rp_namespace p \<noteq> NsUnknown" and c: "rp_canonical p \<noteq> []"
    and "last (rp_canonical p) = CHR ''/'' \<longrightarrow> rp_is_root p"
    and win: "rp_namespace p = NsWindowsDrive \<longrightarrow> 3 \<le> length (rp_canonical p)"
    and "not_bare_drive p" and x: "x \<noteq> []" "CHR ''/'' \<notin> set x"
  shows "rp_parent (rp_extend p x) = p"
proof -
  define c where "c = rp_canonical p"
  define ns where "ns = rp_namespace p"
  obtain a where a: "rp_base p = a @ ''/''"
    "last c = CHR ''/'' \<Longrightarrow> c = a @ ''/''" "last c \<noteq> CHR ''/'' \<Longrightarrow> c = a"
    using rp_base_split [OF c] unfolding c_def by blast
  have q: "rp_extend p x = p\<lparr>rp_canonical := a @ CHR ''/'' # x\<rparr>"
    using a(1) by (simp add: rp_extend_def rp_base_def)
  have "last x \<noteq> CHR ''/''" using x last_in_set [of x] by metis
  then have last: "last (a @ CHR ''/'' # x) \<noteq> CHR ''/''" using x(1) by simp
  have noroot: "\<not> rp_is_root (rp_extend p x)" using is_root_last [of "rp_extend p x"] last q by auto
  have novroot: "\<not> (ns = NsVirtual \<and> is_virtual_windows_drive_root (a @ CHR ''/'' # x))"
    using noroot unfolding q ns_def rp_is_root_def by auto
  have idx: "rfind_slash (a @ CHR ''/'' # x) = Some (length a)" using x(2) by (rule rfind_slash_append)
  have parent: "rp_parent (rp_extend p x) = p\<lparr>rp_canonical :=
      (if ns \<in> {NsPosix, NsVirtual} \<and> length a = 0 then ''/''
       else if ns = NsVirtual \<and> length a = 3 \<and> has_virtual_windows_drive_prefix (a @ CHR ''/'' # x) then a @ ''/''
       else if ns = NsWindowsDrive \<and> length a = 2 then a @ ''/'' else a)\<rparr>"
    using noroot novroot unfolding q by (auto simp: rp_parent_def Let_def idx ns_def)
  have cut: "has_virtual_windows_drive_prefix (a @ CHR ''/'' # x) \<longleftrightarrow> has_virtual_windows_drive_prefix (a @ ''/'')"
    if "length a = 3"
    using that by (simp add: has_virtual_windows_drive_prefix_def nth_append)
  have pc: "p\<lparr>rp_canonical := c\<rparr> = p" by (simp add: c_def)
  show ?thesis
  proof (cases "last c = CHR ''/''")
    case True
    note ca = a(2) [OF True]
    have root: "rp_is_root p" using True assms(3) by (simp add: c_def)
    show ?thesis
    proof (cases ns)
      case NsPosix
      then have "c = ''/''" using root by (simp add: rp_is_root_def ns_def c_def)
      with ca parent pc NsPosix show ?thesis by simp
    next
      case NsVirtual
      then have "c = ''/'' \<or> is_virtual_windows_drive_root c" using root by (simp add: rp_is_root_def ns_def c_def)
      then consider "a = []" | "length a = 3" "has_virtual_windows_drive_prefix (a @ ''/'')"
        using ca by (auto simp: is_virtual_windows_drive_root_def)
      then show ?thesis
        using ca parent pc NsVirtual cut by cases simp_all
    next
      case NsWindowsDrive
      then have "length c = 3" using root by (simp add: rp_is_root_def ns_def c_def)
      with ca parent pc NsWindowsDrive show ?thesis by simp
    qed (use assms(1) in \<open>simp add: ns_def\<close>)
  next
    case False
    note ca = a(3) [OF False]
    have "a \<noteq> []" using c ca by (simp add: c_def)
    moreover have "\<not> (ns = NsVirtual \<and> length a = 3 \<and> has_virtual_windows_drive_prefix (a @ CHR ''/'' # x))"
      using assms(5) ca cut unfolding not_bare_drive_def c_def [symmetric] ns_def [symmetric] by blast
    moreover have "\<not> (ns = NsWindowsDrive \<and> length a = 2)" using win ca by (auto simp: c_def ns_def)
    ultimately show ?thesis using parent pc ca by auto
  qed
qed


lemma drive_length: "rp_wf p \<Longrightarrow> rp_namespace p = NsWindowsDrive \<Longrightarrow> 3 \<le> length (rp_canonical p)"
  by (simp add: rp_wf_def Let_def is_windows_drive_absolute_def)

lemma validate_remote_name_shape:
  "validate_remote_name x ns = Inr () \<Longrightarrow> x \<noteq> [] \<and> CHR ''/'' \<notin> set x"
  by (auto simp: validate_remote_name_def list_all_iff)

lemma extend_no_double:
  assumes "rp_wf p" and "CHR ''/'' \<notin> set x"
  shows "rp_namespace p = NsWindowsDrive \<Longrightarrow>
    \<not> (4 \<le> length (rp_canonical (rp_extend p x)) \<and> rp_canonical (rp_extend p x) ! 3 = CHR ''/'')"
proof
  let ?c = "rp_canonical p"
  assume w: "rp_namespace p = NsWindowsDrive"
    and s: "4 \<le> length (rp_canonical (rp_extend p x)) \<and> rp_canonical (rp_extend p x) ! 3 = CHR ''/''"
  have abs: "is_windows_drive_absolute ?c" "\<not> sublist ''//'' ?c" using assms(1) w by (simp_all add: rp_wf_def Let_def)
  show False
  proof (cases "length ?c = 3")
    case True
    then have "last ?c = CHR ''/''" using abs(1) by (cases ?c rule: rev_cases) (auto simp: is_windows_drive_absolute_def nth_append)
    then have "x ! 0 = CHR ''/''" "x \<noteq> []" using s True by (auto simp: rp_extend_def nth_append)
    with assms(2) nth_mem [of 0 x] show False by auto
  next
    case False
    then have "4 \<le> length ?c" using abs(1) by (simp add: is_windows_drive_absolute_def)
    then have "?c ! 2 = CHR ''/''" "?c ! 3 = CHR ''/''"
      using s abs(1) by (auto simp: rp_extend_def nth_append is_windows_drive_absolute_def)
    moreover have "?c = take 2 ?c @ [?c ! 2, ?c ! 3] @ drop 4 ?c"
      using \<open>4 \<le> length ?c\<close> Cons_nth_drop_Suc [of 2 ?c] Cons_nth_drop_Suc [of 3 ?c] append_take_drop_id [of 2 ?c]
      by simp
    ultimately have "sublist ''//'' ?c" unfolding sublist_def by metis
    with abs(2) show False ..
  qed
qed

lemma join_is_extend:
  assumes "rp_wf p" and "join_child p x = Inr q"
  shows "q = rp_extend p x \<and> x \<noteq> [] \<and> CHR ''/'' \<notin> set x \<and> rp_wf q"
proof -
  let ?c = "rp_canonical p" and ?ns = "rp_namespace p"
  have x: "x \<noteq> []" "CHR ''/'' \<notin> set x"
    using assms(2) validate_remote_name_shape unfolding join_child_def Let_def by auto
  have wf: "?ns \<noteq> NsUnknown" "?c \<noteq> []" "last ?c = CHR ''/'' \<longleftrightarrow> rp_is_root p"
    using assms(1) by (simp_all add: rp_wf_def Let_def)
  have "parse_with_namespace (rp_canonical (rp_extend p x)) ?ns = Inr q"
    using assms(2) wf
    by (auto simp: join_child_def Let_def rp_extend_def rp_is_root_def split: if_splits sftp_namespace.splits)
  then have q: "rp_wf q \<and> rp_namespace q = ?ns"
      "q = \<lparr>rp_canonical = normalize_trailing_separator (rp_canonical (rp_extend p x)) ?ns, rp_namespace = ?ns\<rparr>"
    using parse_wf extend_no_double [OF assms(1) x(2)] by (auto simp: parse_with_namespace_def)
  have "last x \<noteq> CHR ''/''" using x last_in_set [of x] by metis
  then have l: "last (rp_canonical (rp_extend p x)) \<noteq> CHR ''/''" using x(1) by (simp add: rp_extend_def)
  then have "normalize_trailing_separator (rp_canonical (rp_extend p x)) ?ns = rp_canonical (rp_extend p x)"
    by (simp add: normalize_trailing_separator_def trim_end_slash_id)
  then have "q = rp_extend p x" using q(2) by (simp add: rp_extend_def)
  with x q(1) show ?thesis by blast
qed

lemma no_dots_Nil [simp]: "no_dots []"
  by (simp add: no_dots_def)

lemma slash_wf: "rp_namespace p \<in> {NsPosix, NsVirtual} \<Longrightarrow> rp_wf (p\<lparr>rp_canonical := ''/''\<rparr>)"
  using no_dots_append [of "[]" "[]"]
  by (auto simp: rp_wf_def Let_def limits BACKSLASH_BYTE_def drive_tail_def rp_is_root_def
      has_virtual_windows_drive_prefix_def sublist_Cons_right)

lemma raw_cut_slash:
  assumes "raw_ok ns (a @ CHR ''/'' # b)"
    and "if ns = NsWindowsDrive then is_windows_drive_absolute (a @ ''/'') else hd (a @ ''/'') = CHR ''/''"
    and "drive_tail ns (a @ ''/'') = []"
  shows "raw_ok ns (a @ ''/'')"
proof -
  have v: "\<not> has_control ((a @ ''/'') @ b)" "\<not> sublist ''//'' ((a @ ''/'') @ b)" "no_dots (a @ CHR ''/'' # b)"
    "ns \<noteq> NsUnknown" "length (a @ CHR ''/'' # b) \<le> MAX_SSH_PATH_BYTES" "BACKSLASH_BYTE \<notin> set (a @ CHR ''/'' # b)"
    using assms(1) by (simp_all add: raw_ok_def)
  have "no_dots (a @ ''/'')" using v(3) no_dots_append [of a "[]"] no_dots_append [of a b] by simp
  then show ?thesis
    unfolding raw_ok_def
    using has_control_prefix [OF v(1)] sublist_prefix [OF v(2)] v(4,5,6) assms(2,3) by simp
qed

lemma parent_cases:
  assumes "rp_wf p" and "\<not> rp_is_root p"
  obtains a b where "rp_canonical p = a @ CHR ''/'' # b" "CHR ''/'' \<notin> set b" "b \<noteq> []"
    "rp_parent p = p\<lparr>rp_canonical :=
      (if rp_namespace p \<in> {NsPosix, NsVirtual} \<and> a = [] then ''/''
       else if rp_namespace p = NsVirtual \<and> length a = 3 \<and> has_virtual_windows_drive_prefix (a @ ''/'') then a @ ''/''
       else if rp_namespace p = NsWindowsDrive \<and> length a = 2 then a @ ''/'' else a)\<rparr>"
proof -
  let ?c = "rp_canonical p"
  have wf: "?c \<noteq> []" "last ?c \<noteq> CHR ''/''"
    "if rp_namespace p = NsWindowsDrive then is_windows_drive_absolute ?c else hd ?c = CHR ''/''"
    using assms by (simp_all add: rp_wf_def Let_def)
  have "CHR ''/'' \<in> set ?c"
  proof (cases "rp_namespace p = NsWindowsDrive")
    case True
    then have "2 < length ?c" "?c ! 2 = CHR ''/''" using wf(3) by (simp_all add: is_windows_drive_absolute_def)
    then show ?thesis using nth_mem by metis
  next
    case False
    then show ?thesis using wf(1,3) hd_in_set [of ?c] by simp
  qed
  then obtain a b where ab: "?c = a @ CHR ''/'' # b" "CHR ''/'' \<notin> set b" "rfind_slash ?c = Some (length a)"
    using last_slash_split by blast
  have b: "b \<noteq> []" using wf(2) ab(1) by auto
  have vroot: "\<not> (rp_namespace p = NsVirtual \<and> is_virtual_windows_drive_root ?c)"
    using assms(2) by (auto simp: rp_is_root_def)
  have cut: "has_virtual_windows_drive_prefix (a @ CHR ''/'' # b) \<longleftrightarrow> has_virtual_windows_drive_prefix (a @ ''/'')"
    if "length a = 3"
    using that by (simp add: has_virtual_windows_drive_prefix_def nth_append)
  have "rp_parent p = p\<lparr>rp_canonical :=
      (if rp_namespace p \<in> {NsPosix, NsVirtual} \<and> a = [] then ''/''
       else if rp_namespace p = NsVirtual \<and> length a = 3 \<and> has_virtual_windows_drive_prefix (a @ ''/'') then a @ ''/''
       else if rp_namespace p = NsWindowsDrive \<and> length a = 2 then a @ ''/'' else a)\<rparr>"
    using assms(2) vroot cut unfolding rp_parent_def Let_def ab(3) option.case
    by (auto simp: ab(1))
  with ab(1,2) b that show thesis by blast
qed

lemma parent_wf:
  assumes "rp_wf p"
  shows "rp_wf (rp_parent p)"
proof (cases "rp_is_root p")
  case True
  then show ?thesis using assms slash_wf [of p] by (auto simp: rp_parent_def Let_def)
next
  case False
  let ?ns = "rp_namespace p"
  obtain a b where c: "rp_canonical p = a @ CHR ''/'' # b" and b: "CHR ''/'' \<notin> set b"
    and parent: "rp_parent p = p\<lparr>rp_canonical :=
      (if ?ns \<in> {NsPosix, NsVirtual} \<and> a = [] then ''/''
       else if ?ns = NsVirtual \<and> length a = 3 \<and> has_virtual_windows_drive_prefix (a @ ''/'') then a @ ''/''
       else if ?ns = NsWindowsDrive \<and> length a = 2 then a @ ''/'' else a)\<rparr>"
    by (rule parent_cases [OF assms False])
  have raw: "raw_ok ?ns (a @ CHR ''/'' # b)" using wf_raw [OF assms] c by simp
  have upd: "p\<lparr>rp_canonical := s\<rparr> = \<lparr>rp_canonical = s, rp_namespace = ?ns\<rparr>" for s by simp
  consider (slash) "?ns \<in> {NsPosix, NsVirtual}" "a = []"
    | (virtual) "?ns = NsVirtual" "length a = 3" "has_virtual_windows_drive_prefix (a @ ''/'')" "a \<noteq> []"
    | (drive) "?ns = NsWindowsDrive" "length a = 2"
    | (other) "\<not> (?ns \<in> {NsPosix, NsVirtual} \<and> a = [])"
      "\<not> (?ns = NsVirtual \<and> length a = 3 \<and> has_virtual_windows_drive_prefix (a @ ''/''))"
      "\<not> (?ns = NsWindowsDrive \<and> length a = 2)"
    by fastforce
  then show ?thesis
  proof cases
    case slash
    then show ?thesis using parent slash_wf [of p] by simp
  next
    case virtual
    have "raw_ok ?ns (a @ ''/'')"
    proof (rule raw_cut_slash [OF raw])
      show "if ?ns = NsWindowsDrive then is_windows_drive_absolute (a @ ''/'') else hd (a @ ''/'') = CHR ''/''"
        using raw virtual by (simp add: raw_ok_def)
    qed (use virtual in \<open>simp add: drive_tail_def\<close>)
    then have "rp_wf \<lparr>rp_canonical = a @ ''/'', rp_namespace = ?ns\<rparr>"
      by (rule raw_wf) (use virtual in \<open>simp add: rp_is_root_def is_virtual_windows_drive_root_def\<close>)
    moreover have "rp_parent p = p\<lparr>rp_canonical := a @ ''/''\<rparr>"
      using parent virtual by simp
    ultimately show ?thesis by (simp only: upd)
  next
    case drive
    have "raw_ok ?ns (a @ ''/'')"
    proof (rule raw_cut_slash [OF raw])
      show "if ?ns = NsWindowsDrive then is_windows_drive_absolute (a @ ''/'') else hd (a @ ''/'') = CHR ''/''"
        using raw drive by (simp add: raw_ok_def is_windows_drive_absolute_def nth_append)
    qed (use drive in \<open>simp add: drive_tail_def\<close>)
    then have "rp_wf \<lparr>rp_canonical = a @ ''/'', rp_namespace = ?ns\<rparr>"
      by (rule raw_wf) (use drive in \<open>simp add: rp_is_root_def nth_append\<close>)
    moreover have "rp_parent p = p\<lparr>rp_canonical := a @ ''/''\<rparr>"
      using parent drive by simp
    ultimately show ?thesis by (simp only: upd)
  next
    case other
    have win: "3 \<le> length a" if w: "?ns = NsWindowsDrive"
    proof -
      have abs: "is_windows_drive_absolute (a @ CHR ''/'' # b)" using raw w by (simp add: raw_ok_def)
      have "\<not> length a < 2"
      proof
        assume l: "length a < 2"
        then have "(a @ CHR ''/'' # b) ! 2 = b ! (1 - length a)"
          by (cases "length a") (auto simp: nth_append numeral_2_eq_2)
        moreover have "1 - length a < length b" using abs l by (simp add: is_windows_drive_absolute_def) linarith
        ultimately have "(a @ CHR ''/'' # b) ! 2 \<in> set b" using nth_mem by metis
        with abs b show False by (simp add: is_windows_drive_absolute_def)
      qed
      with other(3) w show ?thesis by simp
    qed
    have ne: "a \<noteq> []" using other(1) win raw by (cases ?ns) (auto simp: raw_ok_def)
    have "last a \<noteq> CHR ''/''"
    proof
      assume "last a = CHR ''/''"
      then have "a @ CHR ''/'' # b = butlast a @ ''//'' @ b" using append_butlast_last_id [OF ne] by simp
      then have "sublist ''//'' (a @ CHR ''/'' # b)" unfolding sublist_def by metis
      with raw show False by (simp add: raw_ok_def)
    qed
    moreover have "raw_ok ?ns a" using raw_cut [OF raw ne] win by blast
    ultimately have "rp_wf \<lparr>rp_canonical = a, rp_namespace = ?ns\<rparr>"
      using is_root_last [of "\<lparr>rp_canonical = a, rp_namespace = ?ns\<rparr>"] by (auto intro: raw_wf)
    moreover have "rp_parent p = p\<lparr>rp_canonical := a\<rparr>"
      unfolding parent using other by (simp only: if_False)
    ultimately show ?thesis by (simp only: upd)
  qed
qed

lemma parent_not_bare:
  assumes "rp_wf p"
  shows "not_bare_drive (rp_parent p)"
proof (cases "rp_is_root p")
  case True
  then show ?thesis
    by (auto simp: rp_parent_def Let_def not_bare_drive_def rp_is_root_def is_virtual_windows_drive_root_def)
next
  case False
  obtain a b where "rp_canonical p = a @ CHR ''/'' # b"
    and parent: "rp_parent p = p\<lparr>rp_canonical :=
      (if rp_namespace p \<in> {NsPosix, NsVirtual} \<and> a = [] then ''/''
       else if rp_namespace p = NsVirtual \<and> length a = 3 \<and> has_virtual_windows_drive_prefix (a @ ''/'') then a @ ''/''
       else if rp_namespace p = NsWindowsDrive \<and> length a = 2 then a @ ''/'' else a)\<rparr>"
    by (rule parent_cases [OF assms False])
  show ?thesis unfolding parent not_bare_drive_def by auto
qed

lemma join_then_parent:
  assumes "rp_wf p" and "join_child p x = Inr q" and "not_bare_drive p"
  shows "rp_parent q = p"
proof -
  have "q = rp_extend p x" "x \<noteq> []" "CHR ''/'' \<notin> set x" using join_is_extend [OF assms(1,2)] by blast+
  then show ?thesis
    using parent_extend [of p x] assms(1,3) drive_length [OF assms(1)] by (simp add: rp_wf_def Let_def)
qed

lemma temporary_is_sibling:
  assumes "rp_wf p" and "temporary_sibling p marker unique = Inr q"
  shows "rp_wf q \<and> rp_parent q = rp_parent p \<and> \<not> rp_is_root p"
proof -
  obtain x where "join_child (rp_parent p) x = Inr q" "\<not> rp_is_root p"
    using assms(2) unfolding temporary_sibling_def Let_def by auto
  then show ?thesis
    using join_is_extend [OF parent_wf [OF assms(1)]] join_then_parent [OF parent_wf [OF assms(1)] _ parent_not_bare [OF assms(1)]]
    by blast
qed

end
