(* ===== verification/Remote_Path_Properties.thy ===== *)
theory Remote_Path_Properties
  imports Remote_Path_Laws
begin

text \<open>
  Breadcrumbs lead from a root to the path, each the parent of the next; and the properties of remote
  paths.
\<close>

section \<open>Breadcrumbs\<close>

fun join_slash :: "string list \<Rightarrow> string" where
  "join_slash [] = []"
| "join_slash [x] = x"
| "join_slash (x # y # xs) = x @ ''/'' @ join_slash (y # xs)"

lemma join_slash_Cons: "xs \<noteq> [] \<Longrightarrow> join_slash (x # xs) = x @ ''/'' @ join_slash xs"
  by (cases xs) simp_all

lemma join_slash_first: "xs \<noteq> [] \<Longrightarrow> join_slash ((c # hd xs) # tl xs) = c # join_slash xs"
  by (cases xs rule: join_slash.cases) simp_all

lemma join_split_slash: "join_slash (split_slash t) = t"
  by (induction t) (simp_all add: join_slash_Cons join_slash_first)

fun extend_crumbs :: "remote_path \<Rightarrow> string list \<Rightarrow> (string \<times> remote_path) list" where
  "extend_crumbs cur [] = []"
| "extend_crumbs cur (x # xs) = (x, rp_extend cur x) # extend_crumbs (rp_extend cur x) xs"

definition pieces_ok :: "string list \<Rightarrow> bool" where
  "pieces_ok xs \<longleftrightarrow> (\<forall>x \<in> set xs. x \<noteq> [] \<and> CHR ''/'' \<notin> set x)"

lemma extend_facts:
  assumes "x \<noteq> []" "CHR ''/'' \<notin> set x"
  shows "last (rp_canonical (rp_extend p x)) \<noteq> CHR ''/''" "rp_canonical (rp_extend p x) \<noteq> []"
    "rp_namespace (rp_extend p x) = rp_namespace p"
    "length (rp_canonical p) \<le> length (rp_canonical (rp_extend p x))"
proof -
  have "last x \<noteq> CHR ''/''" using assms last_in_set [of x] by metis
  then show "last (rp_canonical (rp_extend p x)) \<noteq> CHR ''/''" using assms(1) by (simp add: rp_extend_def)
qed (use assms in \<open>simp_all add: rp_extend_def\<close>)

lemma crumbs_are_extends:
  assumes "pieces_ok xs"
    and "\<And>q. rp_namespace q = rp_namespace cur \<Longrightarrow> q = cur \<or> last (rp_canonical q) \<noteq> CHR ''/'' \<Longrightarrow>
      sep q \<longleftrightarrow> last (rp_canonical q) \<noteq> CHR ''/''"
  shows "crumbs_from sep cur xs = extend_crumbs cur xs"
  using assms
proof (induction xs arbitrary: cur)
  case (Cons x xs)
  have x: "x \<noteq> []" "CHR ''/'' \<notin> set x" "pieces_ok xs" using Cons.prems(1) by (simp_all add: pieces_ok_def)
  have "sep cur \<longleftrightarrow> last (rp_canonical cur) \<noteq> CHR ''/''" using Cons.prems(2) by blast
  then have e: "cur\<lparr>rp_canonical := rp_canonical cur @ (if sep cur then ''/'' else []) @ x\<rparr> = rp_extend cur x"
    by (simp add: rp_extend_def)
  have "crumbs_from sep (rp_extend cur x) xs = extend_crumbs (rp_extend cur x) xs"
    by (rule Cons.IH [OF x(3)]) (use Cons.prems(2) extend_facts [OF x(1,2)] in auto)
  with e x(1) show ?case by (simp add: Let_def)
qed simp

lemma last_extend_crumbs: "snd (last ((l, cur) # extend_crumbs cur xs)) = foldl rp_extend cur xs"
  by (induction xs arbitrary: l cur) simp_all

lemma extend_all_canonical:
  "pieces_ok xs \<Longrightarrow> xs \<noteq> [] \<Longrightarrow>
    rp_canonical (foldl rp_extend cur xs) = rp_base cur @ join_slash xs
    \<and> rp_namespace (foldl rp_extend cur xs) = rp_namespace cur"
proof (induction xs arbitrary: cur)
  case (Cons x xs)
  have x: "x \<noteq> []" "CHR ''/'' \<notin> set x" "pieces_ok xs" using Cons.prems(1) by (simp_all add: pieces_ok_def)
  have b: "rp_base (rp_extend cur x) = rp_base cur @ x @ ''/''"
    using extend_facts(1) [OF x(1,2), of cur] by (simp add: rp_base_def) (simp add: rp_extend_def)
  show ?case
  proof (cases "xs = []")
    case True
    then show ?thesis by (simp add: rp_extend_def rp_base_def)
  next
    case False
    then show ?thesis using Cons.IH [OF x(3)] b extend_facts(3) [OF x(1,2)] by (simp add: join_slash_Cons)
  qed
qed simp

lemma extend_all_length: "length (rp_canonical cur) \<le> length (rp_canonical (foldl rp_extend cur ys))"
proof (induction ys arbitrary: cur)
  case (Cons y ys)
  have "length (rp_canonical cur) \<le> length (rp_canonical (rp_extend cur y))" by (simp add: rp_extend_def)
  with Cons [of "rp_extend cur y"] show ?case by simp
qed simp

lemma extend_all_namespace [simp]: "rp_namespace (foldl rp_extend cur ys) = rp_namespace cur"
  by (induction ys arbitrary: cur) (simp_all add: rp_extend_def)

lemma bare_drive_base:
  assumes "\<not> not_bare_drive q"
  shows "rp_namespace q = NsVirtual \<and> length (rp_canonical q) = 3 \<and> has_virtual_windows_drive_prefix (rp_base q)"
proof -
  have q: "rp_namespace q = NsVirtual" "length (rp_canonical q) = 3"
    "has_virtual_windows_drive_prefix (rp_canonical q @ ''/'')"
    using assms by (simp_all add: not_bare_drive_def)
  then have "rp_canonical q ! 2 = CHR '':''" by (simp add: has_virtual_windows_drive_prefix_def nth_append)
  moreover have "last (rp_canonical q) = rp_canonical q ! 2"
    using q(2) last_conv_nth [of "rp_canonical q"] by fastforce
  ultimately show ?thesis using q by (simp add: rp_base_def)
qed

lemma crumbs_chain:
  assumes "pieces_ok xs" and "rp_namespace cur \<noteq> NsUnknown" and "rp_canonical cur \<noteq> []"
    and "last (rp_canonical cur) = CHR ''/'' \<longrightarrow> rp_is_root cur"
    and "rp_namespace cur = NsWindowsDrive \<longrightarrow> 3 \<le> length (rp_canonical cur)"
    and "\<And>ys zs. xs = ys @ zs \<Longrightarrow> zs \<noteq> [] \<Longrightarrow> not_bare_drive (foldl rp_extend cur ys)"
  shows "successively (\<lambda>x y. rp_parent (snd y) = snd x) ((l, cur) # extend_crumbs cur xs)"
  using assms
proof (induction xs arbitrary: l cur)
  case (Cons x xs)
  have x: "x \<noteq> []" "CHR ''/'' \<notin> set x" "pieces_ok xs" using Cons.prems(1) by (simp_all add: pieces_ok_def)
  have "not_bare_drive cur" using Cons.prems(6) [of "[]" "x # xs"] by simp
  then have "rp_parent (rp_extend cur x) = cur"
    using parent_extend [OF Cons.prems(2-5) _ x(1,2)] by blast
  moreover have "successively (\<lambda>x y. rp_parent (snd y) = snd x) ((x, rp_extend cur x) # extend_crumbs (rp_extend cur x) xs)"
  proof (rule Cons.IH [OF x(3)])
    show "not_bare_drive (foldl rp_extend (rp_extend cur x) ys)" if "xs = ys @ zs" "zs \<noteq> []" for ys zs
      using Cons.prems(6) [of "x # ys" zs] that by simp
  qed (use Cons.prems extend_facts [OF x(1,2), of cur] in auto)
  ultimately show ?case by simp
qed simp

lemma sublist_suffix: "\<not> sublist s (a @ b) \<Longrightarrow> \<not> sublist s b"
  by (meson sublist_order.order_trans suffix_imp_sublist suffixI)

lemma crumbs_ok:
  assumes root: "rp_is_root cur" and p: "p = cur\<lparr>rp_canonical := rp_canonical cur @ t\<rparr>"
    and t: "t = [] \<or> last t \<noteq> CHR ''/''" "\<not> sublist ''//'' (rp_canonical p)"
    and bare: "rp_namespace cur = NsVirtual \<Longrightarrow> 4 \<le> length (rp_canonical cur) \<or> \<not> has_virtual_windows_drive_prefix (rp_canonical p)"
    and sep: "\<And>q. rp_namespace q = rp_namespace cur \<Longrightarrow> q = cur \<or> last (rp_canonical q) \<noteq> CHR ''/'' \<Longrightarrow>
      sep q \<longleftrightarrow> last (rp_canonical q) \<noteq> CHR ''/''"
  shows "snd (last ((l, cur) # crumbs_from sep cur (split_slash t))) = p
    \<and> successively (\<lambda>x y. rp_parent (snd y) = snd x) ((l, cur) # crumbs_from sep cur (split_slash t))"
proof (cases "t = []")
  case True
  then show ?thesis using p by simp
next
  case False
  have cl: "last (rp_canonical cur) = CHR ''/''" by (rule is_root_last [OF root])
  have ne: "rp_canonical cur \<noteq> []"
    using root by (auto simp: rp_is_root_def is_virtual_windows_drive_root_def split: sftp_namespace.splits)
  have pc: "rp_canonical p = rp_canonical cur @ t" using p by simp
  have "hd t \<noteq> CHR ''/''"
  proof
    assume "hd t = CHR ''/''"
    with False obtain u where u: "t = CHR ''/'' # u" by (cases t) auto
    have "rp_canonical cur = butlast (rp_canonical cur) @ ''/''" using append_butlast_last_id [OF ne] cl by simp
    then have "rp_canonical p = butlast (rp_canonical cur) @ ''//'' @ u"
      using u unfolding pc by (metis append.assoc append_Cons append_Nil)
    then have "sublist ''//'' (rp_canonical p)" unfolding sublist_def by metis
    with t(2) show False ..
  qed
  moreover have "\<not> sublist ''//'' t"
    using t(2) sublist_suffix unfolding pc by blast
  ultimately have "[] \<notin> set (split_slash t)" using no_empty_piece [of t] False t(1) by blast
  then have ok: "pieces_ok (split_slash t)" using split_slash_pieces unfolding pieces_ok_def by blast
  have base: "rp_base cur = rp_canonical cur" using cl by (simp add: rp_base_def)
  have full: "foldl rp_extend cur (split_slash t) = p"
    using extend_all_canonical [OF ok split_slash_not_Nil, of cur] base p join_split_slash [of t] by simp
  have "successively (\<lambda>x y. rp_parent (snd y) = snd x) ((l, cur) # extend_crumbs cur (split_slash t))"
  proof (rule crumbs_chain [OF ok])
    show "not_bare_drive (foldl rp_extend cur ys)" if s: "split_slash t = ys @ zs" "zs \<noteq> []" for ys zs
    proof (rule ccontr)
      let ?q = "foldl rp_extend cur ys"
      assume b: "\<not> not_bare_drive ?q"
      note q = bare_drive_base [OF b]
      have "pieces_ok zs" using ok s(1) by (simp add: pieces_ok_def)
      moreover have "foldl rp_extend ?q zs = p" using full s(1) by simp
      ultimately have "rp_canonical p = rp_base ?q @ join_slash zs" using extend_all_canonical [of zs ?q] s(2) by metis
      then have "has_virtual_windows_drive_prefix (rp_canonical p)" using q drive_prefix_cut by metis
      moreover have "length (rp_canonical cur) \<le> 3" using extend_all_length [of cur ys] q by simp
      moreover have "rp_namespace cur = NsVirtual" using q by simp
      ultimately show False using bare by linarith
    qed
  qed (use root ne in \<open>auto simp: rp_is_root_def\<close>)
  moreover have "crumbs_from sep cur (split_slash t) = extend_crumbs cur (split_slash t)"
    by (rule crumbs_are_extends [OF ok]) (rule sep)
  ultimately show ?thesis by (simp only: last_extend_crumbs full)
qed

definition crumbs_to :: "remote_path \<Rightarrow> (string \<times> remote_path) list \<Rightarrow> bool" where
  "crumbs_to p bs \<longleftrightarrow> bs \<noteq> [] \<and> rp_is_root (snd (hd bs)) \<and> snd (last bs) = p
     \<and> successively (\<lambda>x y. rp_parent (snd y) = snd x) bs"

lemma trim_start_slash_tl:
  assumes "c \<noteq> []" "hd c = CHR ''/''" "\<not> sublist ''//'' c"
  shows "c = CHR ''/'' # trim_start_slash c"
proof -
  obtain u where u: "c = CHR ''/'' # u" using assms(1,2) by (cases c) auto
  with assms(3) have "u = [] \<or> hd u \<noteq> CHR ''/''" by (cases u) (auto simp: sublist_Cons_right)
  then show ?thesis using u by (cases u) (auto simp: trim_start_slash_def)
qed

lemma slash_crumbs:
  assumes p: "rp_wf p" "rp_namespace p \<in> {NsPosix, NsVirtual}"
    and nodrive: "rp_namespace p = NsVirtual \<Longrightarrow> \<not> has_virtual_windows_drive_prefix (rp_canonical p)"
    and sep: "\<And>q. rp_namespace q = rp_namespace p \<Longrightarrow>
      q = p\<lparr>rp_canonical := ''/''\<rparr> \<or> last (rp_canonical q) \<noteq> CHR ''/'' \<Longrightarrow> sep q \<longleftrightarrow> last (rp_canonical q) \<noteq> CHR ''/''"
  shows "crumbs_to p ((''/'', p\<lparr>rp_canonical := ''/''\<rparr>) #
    crumbs_from sep (p\<lparr>rp_canonical := ''/''\<rparr>) (split_slash (trim_start_slash (rp_canonical p))))"
proof -
  let ?cur = "p\<lparr>rp_canonical := ''/''\<rparr>" and ?t = "trim_start_slash (rp_canonical p)"
  have wf: "rp_canonical p \<noteq> []" "hd (rp_canonical p) = CHR ''/''" "\<not> sublist ''//'' (rp_canonical p)"
    "last (rp_canonical p) = CHR ''/'' \<longleftrightarrow> rp_is_root p"
    using p by (auto simp: rp_wf_def Let_def)
  have c: "rp_canonical p = ''/'' @ ?t" using trim_start_slash_tl [OF wf(1-3)] by simp
  have root: "rp_is_root ?cur" using p(2) by (auto simp: rp_is_root_def)
  have "?t = [] \<or> last ?t \<noteq> CHR ''/''"
  proof (rule ccontr)
    assume n: "\<not> ?thesis"
    then have "last (rp_canonical p) = CHR ''/''" using c by (metis append_Cons append_Nil last_ConsR)
    then have "rp_is_root p" using wf(4) by blast
    then have "rp_canonical p = ''/''" using p(2) nodrive by (auto simp: rp_is_root_def is_virtual_windows_drive_root_def)
    with n show False by (simp add: trim_start_slash_def)
  qed
  moreover have "p = ?cur\<lparr>rp_canonical := rp_canonical ?cur @ ?t\<rparr>" using c by simp
  ultimately show ?thesis
    using crumbs_ok [OF root, of p ?t sep "''/''"] wf(3) nodrive sep root unfolding crumbs_to_def by auto
qed

lemma drive_crumbs:
  assumes root: "rp_is_root (p\<lparr>rp_canonical := take n (rp_canonical p)\<rparr>)"
    and wf: "rp_wf p" and whole: "rp_is_root p \<Longrightarrow> length (rp_canonical p) \<le> n"
    and bare: "rp_namespace p = NsVirtual \<Longrightarrow> 4 \<le> length (take n (rp_canonical p))"
    and sep: "\<And>q. rp_namespace q = rp_namespace p \<Longrightarrow>
      q = (p\<lparr>rp_canonical := take n (rp_canonical p)\<rparr>) \<or> last (rp_canonical q) \<noteq> CHR ''/'' \<Longrightarrow> sep q \<longleftrightarrow> last (rp_canonical q) \<noteq> CHR ''/''"
  shows "crumbs_to p ((l, (p\<lparr>rp_canonical := take n (rp_canonical p)\<rparr>)) # crumbs_from sep (p\<lparr>rp_canonical := take n (rp_canonical p)\<rparr>) (split_slash (drop n (rp_canonical p))))"
proof -
  let ?cur = "p\<lparr>rp_canonical := take n (rp_canonical p)\<rparr>"
  let ?t = "drop n (rp_canonical p)"
  have "?t = [] \<or> last ?t \<noteq> CHR ''/''"
  proof (rule ccontr)
    assume n: "\<not> ?thesis"
    then have "last (rp_canonical p) = CHR ''/''" using last_drop [of n "rp_canonical p"] by auto
    then have "rp_is_root p" using wf by (simp add: rp_wf_def Let_def)
    with whole n show False by simp
  qed
  moreover have "p = ?cur\<lparr>rp_canonical := rp_canonical ?cur @ ?t\<rparr>" by simp
  moreover have "\<not> sublist ''//'' (rp_canonical p)" using wf by (simp add: rp_wf_def Let_def)
  ultimately show ?thesis
    using crumbs_ok [OF root, of p ?t sep l] bare sep root unfolding crumbs_to_def by auto
qed

lemma breadcrumbs_wf:
  assumes "rp_wf p"
  shows "\<exists>bs. breadcrumbs p = Some bs \<and> crumbs_to p bs"
proof (cases "rp_namespace p")
  case NsPosix
  have "\<not> rp_is_root q \<longleftrightarrow> last (rp_canonical q) \<noteq> CHR ''/''"
    if "rp_namespace q = NsPosix" "q = p\<lparr>rp_canonical := ''/''\<rparr> \<or> last (rp_canonical q) \<noteq> CHR ''/''" for q
    using that is_root_last [of q] by (auto simp: rp_is_root_def)
  then show ?thesis using slash_crumbs [OF assms, of "\<lambda>q. \<not> rp_is_root q"] NsPosix by (simp add: breadcrumbs_def Let_def)
next
  case NsVirtual
  show ?thesis
  proof (cases "has_virtual_windows_drive_prefix (rp_canonical p)")
    case False
    then show ?thesis
      using slash_crumbs [OF assms, of "\<lambda>q. last (rp_canonical q) \<noteq> CHR ''/''"] NsVirtual
      by (simp add: breadcrumbs_def Let_def)
  next
    case True
    let ?c = "rp_canonical p"
    let ?cur = "p\<lparr>rp_canonical := take 4 ?c\<rparr>"
    have len: "4 \<le> length ?c" using True by (simp add: has_virtual_windows_drive_prefix_def)
    have vr: "is_virtual_windows_drive_root (take 4 ?c)"
      using True len by (simp add: is_virtual_windows_drive_root_def has_virtual_windows_drive_prefix_def)
    then have root: "rp_is_root ?cur" using NsVirtual by (simp add: rp_is_root_def)
    have "crumbs_to p ((drop 1 (take 3 ?c), ?cur) #
        crumbs_from (\<lambda>q. last (rp_canonical q) \<noteq> CHR ''/'') ?cur (split_slash (drop 4 ?c)))"
      by (rule drive_crumbs [OF root assms])
        (use NsVirtual len True in \<open>auto simp: rp_is_root_def is_virtual_windows_drive_root_def\<close>)
    moreover have "rp_parent ?cur = p\<lparr>rp_canonical := ''/''\<rparr>" "rp_is_root (p\<lparr>rp_canonical := ''/''\<rparr>)"
      using vr NsVirtual by (simp_all add: rp_parent_def Let_def rp_is_root_def)
    ultimately show ?thesis
      using NsVirtual True by (simp add: breadcrumbs_def Let_def crumbs_to_def)
  qed
next
  case NsWindowsDrive
  let ?c = "rp_canonical p"
  have abs: "is_windows_drive_absolute ?c" using assms NsWindowsDrive by (simp add: rp_wf_def Let_def)
  then have len: "3 \<le> length ?c" by (simp add: is_windows_drive_absolute_def)
  have root: "rp_is_root (p\<lparr>rp_canonical := take 3 ?c\<rparr>)"
    using abs len NsWindowsDrive by (simp add: rp_is_root_def is_windows_drive_absolute_def)
  have "\<not> rp_is_root q \<longleftrightarrow> last (rp_canonical q) \<noteq> CHR ''/''"
    if "q = p\<lparr>rp_canonical := take 3 ?c\<rparr> \<or> last (rp_canonical q) \<noteq> CHR ''/''" for q
    using that is_root_last [of q] root by blast
  note sep = this
  have "crumbs_to p ((take 3 ?c, p\<lparr>rp_canonical := take 3 ?c\<rparr>) #
      crumbs_from (\<lambda>q. \<not> rp_is_root q) (p\<lparr>rp_canonical := take 3 ?c\<rparr>) (split_slash (drop 3 ?c)))"
  proof (rule drive_crumbs [OF root assms])
    show "length ?c \<le> 3" if "rp_is_root p" using that NsWindowsDrive by (simp add: rp_is_root_def)
    show "4 \<le> length (take 3 ?c)" if "rp_namespace p = NsVirtual" using that NsWindowsDrive by simp
  qed (rule sep)
  then show ?thesis using NsWindowsDrive len by (simp add: breadcrumbs_def Let_def str_slice_to_def)
qed (use assms in \<open>simp add: rp_wf_def Let_def\<close>)

lemma crumbs_to_wf:
  assumes "crumbs_to p bs" and "rp_wf p" and "b \<in> set bs"
  shows "rp_wf (snd b)"
proof -
  have "\<forall>b \<in> set bs. rp_wf (snd b)"
    if "bs \<noteq> []" "rp_wf (snd (last bs))" "successively (\<lambda>x y. rp_parent (snd y) = snd x) bs" for bs
    using that
  proof (induction bs rule: induct_list012)
    case (3 x y zs)
    have tail: "\<forall>b \<in> set (y # zs). rp_wf (snd b)"
    proof (rule 3(2))
      show "rp_wf (snd (last (y # zs)))" using 3(4) by (simp only: last_ConsR list.distinct not_False_eq_True)
      show "successively (\<lambda>x y. rp_parent (snd y) = snd x) (y # zs)" using 3(5) unfolding successively.simps by blast
    qed simp
    have "rp_parent (snd y) = snd x" using 3(5) unfolding successively.simps by blast
    then have "rp_wf (snd x)" using tail parent_wf [of "snd y"] by (metis list.set_intros(1))
    with tail show ?case by simp
  qed simp_all
  with assms show ?thesis unfolding crumbs_to_def by blast
qed


section \<open>Properties\<close>

text \<open>The paths a program can obtain.\<close>

inductive remote_reachable :: "remote_path \<Rightarrow> bool" where
  parsed: "parse_with_namespace v ns = Inr p \<Longrightarrow> \<not> (ns = NsWindowsDrive \<and> 4 \<le> length v \<and> v ! 3 = CHR ''/'')
    \<Longrightarrow> remote_reachable p"
| joined: "remote_reachable p \<Longrightarrow> join_child p x = Inr q \<Longrightarrow> remote_reachable q"
| parent: "remote_reachable p \<Longrightarrow> remote_reachable (rp_parent p)"
| sibling: "remote_reachable p \<Longrightarrow> temporary_sibling p marker unique = Inr q \<Longrightarrow> remote_reachable q"
| crumb: "remote_reachable p \<Longrightarrow> breadcrumbs p = Some bs \<Longrightarrow> b \<in> set bs \<Longrightarrow> remote_reachable (snd b)"

lemma reachable_wf: "remote_reachable p \<Longrightarrow> rp_wf p"
proof (induction rule: remote_reachable.induct)
  case (parsed v ns p)
  then show ?case using parse_wf by blast
next
  case (crumb p bs b)
  then show ?case using breadcrumbs_wf [of p] crumbs_to_wf by (metis option.inject)
qed (use join_is_extend parent_wf temporary_is_sibling in blast)+

definition sample_dir :: remote_path where
  "sample_dir = \<lparr>rp_canonical = ''C:/data'', rp_namespace = NsWindowsDrive\<rparr>"

definition sample_file :: remote_path where
  "sample_file = \<lparr>rp_canonical = ''C:/data/a.txt'', rp_namespace = NsWindowsDrive\<rparr>"

lemmas path_checks = parse_with_namespace_def validate_windows_drive_absolute_def validate_protocol_path_def
  validate_components_def validate_drive_names_def validate_remote_name_def is_windows_drive_absolute_def
  trim_slashes_def trim_start_slash_def trim_end_slash_def
  normalize_trailing_separator_def is_ascii_alphabetic_def is_ascii_lowercase_def is_ascii_uppercase_def
  BACKSLASH_BYTE_def starts_with_iff limits

lemma unreserved [simp]:
  "\<not> is_windows_reserved_name ''data''" "\<not> is_windows_reserved_name ''a''" "\<not> is_windows_reserved_name []"
  by code_simp+

lemma sample_parsed: "parse_with_namespace ''C:/data/'' NsWindowsDrive = Inr sample_dir"
  by (simp add: path_checks sample_dir_def)

lemma sample_joined: "join_child sample_dir ''a.txt'' = Inr sample_file"
  by (simp add: join_child_def rp_is_root_def path_checks sample_dir_def sample_file_def)

lemma sample_paths_reachable: "remote_reachable sample_dir" "remote_reachable sample_file"
proof -
  show d: "remote_reachable sample_dir" by (rule parsed [OF sample_parsed]) simp
  show "remote_reachable sample_file" by (rule joined [OF d sample_joined])
qed



text \<open>The parent of a joined child is the directory it was joined to, unless that directory is a
  virtual drive written without its separator.\<close>

theorem parent_of_joined_child:
  assumes "remote_reachable p" and "join_child p x = Inr q" and "not_bare_drive p"
  shows "rp_parent q = p"
  using join_then_parent [OF reachable_wf [OF assms(1)] assms(2,3)] .

lemma parent_of_joined_child_witness: "rp_parent sample_file = sample_dir"
  using parent_of_joined_child [OF sample_paths_reachable(1) sample_joined]
  by (simp add: not_bare_drive_def sample_dir_def)

text \<open>Breadcrumbs exist for every such path: they start at a root, end at the path, and each is the
  parent of the next.\<close>

theorem breadcrumbs_lead_to_path:
  assumes "remote_reachable p"
  shows "\<exists>bs. breadcrumbs p = Some bs \<and> bs \<noteq> [] \<and> rp_is_root (snd (hd bs)) \<and> snd (last bs) = p
     \<and> successively (\<lambda>x y. rp_parent (snd y) = snd x) bs"
  using breadcrumbs_wf [OF reachable_wf [OF assms]] unfolding crumbs_to_def .

lemma breadcrumbs_lead_to_path_witness:
  "\<exists>bs. breadcrumbs sample_file = Some bs \<and> snd (last bs) = sample_file"
  using breadcrumbs_lead_to_path [OF sample_paths_reachable(2)] by blast

text \<open>A temporary sibling lies in the directory of its target and is not the target.\<close>

theorem temporary_sibling_beside_target:
  assumes "remote_reachable p" and "temporary_sibling p marker unique = Inr q"
  shows "rp_parent q = rp_parent p \<and> q \<noteq> p"
proof
  note wf = reachable_wf [OF assms(1)]
  show "rp_parent q = rp_parent p" using temporary_is_sibling [OF wf assms(2)] by blast
  define x where "x = ''.'' @ last (split_slash (rp_canonical p)) @ ''.'' @ marker @ ''-'' @ unique @ ''.tmp''"
  have "join_child (rp_parent p) x = Inr q"
    using assms(2) unfolding temporary_sibling_def Let_def x_def by auto
  then have q: "q = rp_extend (rp_parent p) x" "CHR ''/'' \<notin> set x"
    using join_is_extend [OF parent_wf [OF wf]] by blast+
  have "rp_canonical (rp_parent p) \<noteq> []" using parent_wf [OF wf] by (simp add: rp_wf_def Let_def)
  then obtain a where "rp_base (rp_parent p) = a @ ''/''" using rp_base_split by blast
  then have "rp_canonical q = a @ CHR ''/'' # x" using q(1) by (simp add: rp_extend_def rp_base_def)
  then have "last (split_slash (rp_canonical q)) = x" using split_slash_last [OF q(2)] by simp
  moreover have "length x > length (last (split_slash (rp_canonical p)))" by (simp add: x_def)
  ultimately show "q \<noteq> p" by auto
qed

lemma temp_name_ok: "validate_remote_name ''.a.txt.e-1.tmp'' NsWindowsDrive = Inr ()"
proof -
  have p: "validate_protocol_path ''.a.txt.e-1.tmp'' = Inr ()"
    by (simp add: validate_protocol_path_def limits)
  have a: "list_all (\<lambda>c. c \<noteq> CHR ''/'' \<and> c \<noteq> BACKSLASH_BYTE) ''.a.txt.e-1.tmp''"
    by (simp add: BACKSLASH_BYTE_def)
  have b: "list_all (\<lambda>c. byte c \<notin> {0x3C, 0x3E, 0x3A, 0x22, 0x7C, 0x3F, 0x2A}) ''.a.txt.e-1.tmp''" by simp
  have c: "takeWhile (\<lambda>c. c \<noteq> CHR ''.'') ''.a.txt.e-1.tmp'' = []" by simp
  show ?thesis
    unfolding validate_remote_name_def p c try_r_simps
    using unreserved(3) a b by (simp only: ensure_simps try_r_simps if_True simp_thms list.distinct) simp
qed

lemma temp_parsed:
  "parse_with_namespace ''C:/.a.txt.e-1.tmp'' NsWindowsDrive =
     Inr \<lparr>rp_canonical = ''C:/.a.txt.e-1.tmp'', rp_namespace = NsWindowsDrive\<rparr>"
proof -
  let ?v = "''C:/.a.txt.e-1.tmp''"
  have p: "validate_protocol_path ?v = Inr ()" by (simp add: validate_protocol_path_def limits)
  have a: "is_windows_drive_absolute ?v" by code_simp
  have b: "BACKSLASH_BYTE \<notin> set ?v" "\<not> starts_with ?v ''//''" "\<not> starts_with ?v [BACKSLASH_BYTE, BACKSLASH_BYTE]"
    by (simp_all add: BACKSLASH_BYTE_def starts_with_iff)
  have s: "split_slash ''.a.txt.e-1.tmp'' = [''.a.txt.e-1.tmp'']"
    by (rule split_slash_single) simp
  have trim: "trim_slashes ''.a.txt.e-1.tmp'' = ''.a.txt.e-1.tmp''"
    by (simp add: trim_slashes_def trim_start_slash_def trim_end_slash_def)
  have c: "drop 3 ?v = ''.a.txt.e-1.tmp''" "\<not> str_contains ''//'' ''.a.txt.e-1.tmp''"
    "validate_components (trim_slashes ''.a.txt.e-1.tmp'') = Inr ()"
    unfolding trim validate_components_def s by simp_all
  have n: "normalize_trailing_separator ?v NsWindowsDrive = ?v" by code_simp
  have d: "validate_drive_names ''.a.txt.e-1.tmp'' = Inr ()"
    unfolding validate_drive_names_def s using temp_name_ok by simp
  show ?thesis
    unfolding parse_with_namespace_def p try_r_simps sftp_namespace.case validate_windows_drive_absolute_def
      Let_def c(1,3) n d
    using a b c(2) by (simp only: ensure_simps try_r_simps simp_thms)
qed

definition root_file :: remote_path where
  "root_file = \<lparr>rp_canonical = ''C:/a.txt'', rp_namespace = NsWindowsDrive\<rparr>"

lemma temporary_sibling_beside_target_witness:
  "\<exists>q. temporary_sibling root_file ''e'' ''1'' = Inr q \<and> rp_canonical (rp_parent q) = ''C:/'' \<and> q \<noteq> root_file"
proof -
  have "parse_with_namespace ''C:/a.txt'' NsWindowsDrive = Inr root_file"
    by (simp add: path_checks root_file_def)
  then have reach: "remote_reachable root_file" by (rule parsed) simp
  have tok: "validate_portable_token l ''e'' 32 = Inr ()" "validate_portable_token l ''1'' 64 = Inr ()" for l
    by (simp_all add: validate_portable_token_def is_ascii_alphanumeric_def is_ascii_digit_def path_checks)
  have f: "\<not> rp_is_root root_file" "last (split_slash (rp_canonical root_file)) = ''a.txt''"
    by (simp_all add: root_file_def rp_is_root_def)
  have d: "rp_parent root_file = \<lparr>rp_canonical = ''C:/'', rp_namespace = NsWindowsDrive\<rparr>"
    by (simp add: root_file_def rp_parent_def rp_is_root_def rfind_slash_def)
  have "join_child (rp_parent root_file) ''.a.txt.e-1.tmp'' =
      Inr \<lparr>rp_canonical = ''C:/.a.txt.e-1.tmp'', rp_namespace = NsWindowsDrive\<rparr>"
    unfolding d using temp_name_ok temp_parsed by (simp add: join_child_def rp_is_root_def)
  then have t: "temporary_sibling root_file ''e'' ''1'' =
      Inr \<lparr>rp_canonical = ''C:/.a.txt.e-1.tmp'', rp_namespace = NsWindowsDrive\<rparr>"
    unfolding temporary_sibling_def Let_def tok f(2) using f(1) by simp
  show ?thesis using temporary_sibling_beside_target [OF reach t] t d by simp
qed

text \<open>The drive root with a second separator is accepted, its trailing separators are trimmed to a text
  that is no longer absolute, and the slice for the breadcrumbs of that text panics.\<close>

lemma doubled_drive_root_panics:
  "parse_server_canonical ''C://'' = Inr \<lparr>rp_canonical = ''C:'', rp_namespace = NsWindowsDrive\<rparr>"
  "breadcrumbs \<lparr>rp_canonical = ''C:'', rp_namespace = NsWindowsDrive\<rparr> = None"
  by (simp_all add: parse_server_canonical_def breadcrumbs_def str_slice_to_def path_checks)

text \<open>A drive joined to the virtual root is not a drive root, so its children have another parent.\<close>

lemma bare_drive_is_no_root:
  "join_child \<lparr>rp_canonical = ''/'', rp_namespace = NsVirtual\<rparr> ''C:'' = Inr \<lparr>rp_canonical = ''/C:'', rp_namespace = NsVirtual\<rparr>"
  "rp_is_root \<lparr>rp_canonical = ''/C:'', rp_namespace = NsVirtual\<rparr> = False"
  "rp_canonical (rp_parent \<lparr>rp_canonical = ''/C:/x'', rp_namespace = NsVirtual\<rparr>) = ''/C:/''"
  by (simp_all add: join_child_def rp_is_root_def rp_parent_def rfind_slash_def path_checks
      validate_virtual_absolute_def validate_posix_absolute_def has_virtual_windows_drive_prefix_def
      is_virtual_windows_drive_root_def)

end
