(* ===== verification/Id_Conversion.thy ===== *)
theory Id_Conversion
  imports Rust_Trim List_Ops
begin

text \<open>
  Conversion between textual ids and non-negative 64-bit integers
  (\<open>crates/ramag-domain/src/entities/id_conversion.rs\<close>, \<open>crates/ramag-app/src/usecases/id_conversion.rs\<close>):
  the positional codecs over an alphabet, their validation and the two conversions the user asks for.
  An \<open>i64\<close> is an \<open>int\<close>, with the checked operations writing its range out.  Whether a path is absolute and
  the run of an external converter (its standard output or an error) are parameters.
\<close>

section \<open>Configuration\<close>

(* crates/ramag-domain/src/entities/id_conversion.rs:8-8 MAX_ID_CONVERTER_PROGRAM_BYTES *)
definition MAX_ID_CONVERTER_PROGRAM_BYTES :: nat where
  [limits]: "MAX_ID_CONVERTER_PROGRAM_BYTES = 32 * 1024"

(* crates/ramag-domain/src/entities/id_conversion.rs:9-9 MAX_CUSTOM_ID_ALPHABET_BYTES *)
definition MAX_CUSTOM_ID_ALPHABET_BYTES :: nat where
  [limits]: "MAX_CUSTOM_ID_ALPHABET_BYTES = 94"

(* crates/ramag-domain/src/entities/id_conversion.rs:11-11 BASE10_ALPHABET *)
definition BASE10_ALPHABET :: string where
  "BASE10_ALPHABET = ''0123456789''"

(* crates/ramag-domain/src/entities/id_conversion.rs:12-12 BASE16_ALPHABET *)
definition BASE16_ALPHABET :: string where
  "BASE16_ALPHABET = ''0123456789abcdef''"

(* crates/ramag-domain/src/entities/id_conversion.rs:13-13 BASE36_ALPHABET *)
definition BASE36_ALPHABET :: string where
  "BASE36_ALPHABET = ''0123456789abcdefghijklmnopqrstuvwxyz''"

(* crates/ramag-domain/src/entities/id_conversion.rs:14-15 BASE58_BITCOIN_ALPHABET *)
definition BASE58_BITCOIN_ALPHABET :: string where
  "BASE58_BITCOIN_ALPHABET = ''123456789ABCDEFGHJKLMNPQRSTUVWXYZabcdefghijkmnopqrstuvwxyz''"

(* crates/ramag-domain/src/entities/id_conversion.rs:16-17 BASE58_FLICKR_ALPHABET *)
definition BASE58_FLICKR_ALPHABET :: string where
  "BASE58_FLICKR_ALPHABET = ''123456789abcdefghijkmnopqrstuvwxyzABCDEFGHJKLMNPQRSTUVWXYZ''"

(* crates/ramag-domain/src/entities/id_conversion.rs:19-30 IdConverterKind *)
datatype id_converter_kind =
  Base10 | Base16 | Base36 | Base58Bitcoin | Base58Flickr | CustomAlphabet | ExternalProgram

(* crates/ramag-domain/src/entities/id_conversion.rs:43-45 IdConverterKind::is_external *)
definition is_external :: "id_converter_kind \<Rightarrow> bool" where
  "is_external k \<longleftrightarrow> k = ExternalProgram"

(* crates/ramag-domain/src/entities/id_conversion.rs:47-49 IdConverterKind::is_custom *)
definition is_custom :: "id_converter_kind \<Rightarrow> bool" where
  "is_custom k \<longleftrightarrow> k = CustomAlphabet"

(* crates/ramag-domain/src/entities/id_conversion.rs:52-61 IdConverterConfig *)
record id_converter_config =
  ic_kind :: id_converter_kind
  ic_custom_alphabet :: string
  ic_external_program :: string

(* crates/ramag-domain/src/entities/id_conversion.rs:64-80 IdConverterConfig::validate_storable *)
definition validate_storable :: "id_converter_config \<Rightarrow> string + unit" where
  "validate_storable c =
     try_r (ensure (length (ic_external_program c) \<le> MAX_ID_CONVERTER_PROGRAM_BYTES)
       ((''ID '' @ utf8 [0x8F6C, 0x6362, 0x5668, 0x8DEF, 0x5F84, 0x8D85, 0x8FC7] @ '' '') @ dec (MAX_ID_CONVERTER_PROGRAM_BYTES div 1024) @ ('' KiB '' @ utf8 [0x4E0A, 0x9650]))) (\<lambda>_.
     try_r (ensure (\<not> has_control (ic_external_program c)) (''ID '' @ utf8 [0x8F6C, 0x6362, 0x5668, 0x8DEF, 0x5F84, 0x4E0D, 0x80FD, 0x5305, 0x542B, 0x63A7, 0x5236, 0x5B57, 0x7B26])) (\<lambda>_.
     ensure (length (ic_custom_alphabet c) \<le> MAX_CUSTOM_ID_ALPHABET_BYTES)
       ((utf8 [0x81EA, 0x5B9A, 0x4E49, 0x5B57, 0x7B26, 0x8868, 0x4E0D, 0x80FD, 0x8D85, 0x8FC7] @ '' '') @ dec MAX_CUSTOM_ID_ALPHABET_BYTES @ ('' '' @ utf8 [0x5B57, 0x8282]))))"

(* crates/ramag-domain/src/entities/id_conversion.rs:166-178 validate_alphabet_characters *)
definition validate_alphabet_characters :: "string \<Rightarrow> string + unit" where
  "validate_alphabet_characters a =
     try_r (ensure (list_all (\<lambda>b. byte b < 128) a) (utf8 [0x81EA, 0x5B9A, 0x4E49, 0x5B57, 0x7B26, 0x8868, 0x53EA, 0x652F, 0x6301, 0x53EF, 0x89C1] @ '' ASCII '' @ utf8 [0x5B57, 0x7B26])) (\<lambda>_.
     try_r (ensure (list_all (\<lambda>b. 0x21 \<le> byte b \<and> byte b \<le> 0x7E) a)
       (utf8 [0x81EA, 0x5B9A, 0x4E49, 0x5B57, 0x7B26, 0x8868, 0x53EA, 0x652F, 0x6301, 0x53EF, 0x89C1] @ '' ASCII '' @ utf8 [0x5B57, 0x7B26, 0xFF0C, 0x4E0D, 0x80FD, 0x5305, 0x542B, 0x7A7A, 0x683C])) (\<lambda>_.
     ensure (distinct a) (utf8 [0x81EA, 0x5B9A, 0x4E49, 0x5B57, 0x7B26, 0x8868, 0x4E0D, 0x80FD, 0x5305, 0x542B, 0x91CD, 0x590D, 0x5B57, 0x7B26])))"

(* crates/ramag-domain/src/entities/id_conversion.rs:158-164 validate_custom_alphabet *)
definition validate_custom_alphabet :: "string \<Rightarrow> string + unit" where
  "validate_custom_alphabet a =
     try_r (validate_alphabet_characters a) (\<lambda>_.
     ensure (2 \<le> length a) (utf8 [0x81EA, 0x5B9A, 0x4E49, 0x5B57, 0x7B26, 0x8868, 0x81F3, 0x5C11, 0x9700, 0x8981] @ '' 2 '' @ utf8 [0x4E2A, 0x5B57, 0x7B26]))"

(* crates/ramag-domain/src/entities/id_conversion.rs:82-97 IdConverterConfig::validate_active *)
definition validate_active :: "(string \<Rightarrow> bool) \<Rightarrow> id_converter_config \<Rightarrow> string + unit" where
  "validate_active is_absolute c =
     try_r (validate_storable c) (\<lambda>_.
     case ic_kind c of
       CustomAlphabet \<Rightarrow> validate_custom_alphabet (ic_custom_alphabet c)
     | ExternalProgram \<Rightarrow>
         try_r (ensure (ic_external_program c \<noteq> []) (utf8 [0x8BF7, 0x9009, 0x62E9] @ '' ID '' @ utf8 [0x8F6C, 0x6362, 0x5668, 0x53EF, 0x6267, 0x884C, 0x6587, 0x4EF6])) (\<lambda>_.
         ensure (is_absolute (ic_external_program c)) (''ID '' @ utf8 [0x8F6C, 0x6362, 0x5668, 0x5FC5, 0x987B, 0x4F7F, 0x7528, 0x7EDD, 0x5BF9, 0x8DEF, 0x5F84]))
     | _ \<Rightarrow> Inr ())"

section \<open>Positional codecs\<close>

definition I64_MAX :: int where "I64_MAX = 2 ^ 63 - 1"
definition I64_MIN :: int where "I64_MIN = - (2 ^ 63)"

definition checked_i64 :: "int \<Rightarrow> int option" where
  "checked_i64 x = (if I64_MIN \<le> x \<and> x \<le> I64_MAX then Some x else None)"

text \<open>\<open>char::escape_default\<close> on an ASCII character.\<close>

definition hex_digit :: "nat \<Rightarrow> char" where
  "hex_digit n = BASE16_ALPHABET ! n"

definition escape_default :: "char \<Rightarrow> string" where
  "escape_default b =
     (let n = byte b; bs = CHR 0x5C in
      if n = 9 then [bs, CHR ''t''] else if n = 10 then [bs, CHR ''n''] else if n = 13 then [bs, CHR ''r'']
      else if n \<in> {0x22, 0x27, 0x5C} then [bs, b]
      else if 0x20 \<le> n \<and> n \<le> 0x7E then [b]
      else [bs] @ ''u{'' @ (if n < 16 then [hex_digit n] else [hex_digit (n div 16), hex_digit (n mod 16)]) @ ''}'')"

(* crates/ramag-domain/src/entities/id_conversion.rs:193-214 decode_positional_i64 *)
definition decode_digit :: "string \<Rightarrow> bool \<Rightarrow> int \<Rightarrow> char \<Rightarrow> string + int" where
  "decode_digit alphabet case_insensitive acc b =
     (let normalized = (if case_insensitive then ascii_lower b else b) in
      try_r (ok_or (position (\<lambda>c. c = normalized) alphabet)
        ((''ID '' @ utf8 [0x641C, 0x7D22, 0x8BCD, 0x5305, 0x542B, 0x5B57, 0x7B26, 0x8868, 0x4E4B, 0x5916, 0x7684, 0x5B57, 0x7B26, 0xFF1A]) @ escape_default b)) (\<lambda>digit.
      ok_or (Option.bind (checked_i64 (acc * int (length alphabet))) (\<lambda>current. checked_i64 (current + int digit)))
        (''ID '' @ utf8 [0x8F6C, 0x6362, 0x7ED3, 0x679C, 0x8D85, 0x51FA, 0x975E, 0x8D1F] @ '' i64 '' @ utf8 [0x8303, 0x56F4])))"

(* crates/ramag-domain/src/entities/id_conversion.rs:180-217 decode_positional_i64 *)
definition decode_positional_i64 :: "string \<Rightarrow> string \<Rightarrow> bool \<Rightarrow> string + int" where
  "decode_positional_i64 input alphabet case_insensitive =
     try_r (ensure (input \<noteq> []) (''ID '' @ utf8 [0x641C, 0x7D22, 0x8BCD, 0x4E0D, 0x80FD, 0x4E3A, 0x7A7A])) (\<lambda>_.
     try_r (ensure (list_all (\<lambda>b. byte b < 128) input) (''ID '' @ utf8 [0x641C, 0x7D22, 0x8BCD, 0x5305, 0x542B, 0x5F53, 0x524D, 0x5B57, 0x7B26, 0x8868, 0x4E0D, 0x652F, 0x6301, 0x7684, 0x5B57, 0x7B26])) (\<lambda>_.
     try_r (ensure (int (length alphabet) \<le> I64_MAX) (''ID '' @ utf8 [0x8F6C, 0x6362, 0x5B57, 0x7B26, 0x8868, 0x957F, 0x5EA6, 0x8D85, 0x51FA, 0x652F, 0x6301, 0x8303, 0x56F4])) (\<lambda>_.
     fold_r (decode_digit alphabet case_insensitive) 0 input)))"

text \<open>The digits, least significant first.  The caller has refused alphabets of fewer than two characters.\<close>

(* crates/ramag-domain/src/entities/id_conversion.rs:235-246 encode_positional_i64 *)
function encode_digits :: "string \<Rightarrow> int \<Rightarrow> string \<Rightarrow> string + string" where
  "encode_digits alphabet value encoded =
     (if value \<le> 0 \<or> length alphabet < 2 then Inr encoded
      else
        let digit = nat (value mod int (length alphabet)) in
        if digit < length alphabet then
          encode_digits alphabet (value div int (length alphabet)) (encoded @ [alphabet ! digit])
        else Inl (''ID '' @ utf8 [0x8F6C, 0x6362, 0x5B57, 0x7B26, 0x4F4D, 0x7F6E, 0x8D85, 0x51FA, 0x652F, 0x6301, 0x8303, 0x56F4]))"
  by pat_completeness auto
termination
proof (relation "measure (\<lambda>(a, v, e). nat v)", goal_cases)
  case (2 a v e x)
  then have "v div int (length a) < v"
    by (intro int_div_less_self) auto
  then show ?case using 2 by simp
qed simp

declare encode_digits.simps [simp del]

(* crates/ramag-domain/src/entities/id_conversion.rs:219-249 encode_positional_i64 *)
definition encode_positional_i64 :: "int \<Rightarrow> string \<Rightarrow> string + string" where
  "encode_positional_i64 value alphabet =
     try_r (ensure (0 \<le> value) (utf8 [0x6574, 0x6570] @ '' ID '' @ utf8 [0x4E0D, 0x80FD, 0x4E3A, 0x8D1F, 0x6570])) (\<lambda>_.
     try_r (ensure (2 \<le> length alphabet) (''ID '' @ utf8 [0x8F6C, 0x6362, 0x5B57, 0x7B26, 0x8868, 0x81F3, 0x5C11, 0x9700, 0x8981] @ '' 2 '' @ utf8 [0x4E2A, 0x5B57, 0x7B26])) (\<lambda>_.
     try_r (ensure (int (length alphabet) \<le> I64_MAX) (''ID '' @ utf8 [0x8F6C, 0x6362, 0x5B57, 0x7B26, 0x8868, 0x957F, 0x5EA6, 0x8D85, 0x51FA, 0x652F, 0x6301, 0x8303, 0x56F4])) (\<lambda>_.
     try_r (if value = 0 then Inr [alphabet ! 0] else map_ok rev (encode_digits alphabet value [])) (\<lambda>encoded.
     try_r (ensure (is_utf8 encoded) (''ID '' @ utf8 [0x8F6C, 0x6362, 0x5B57, 0x7B26, 0x8868, 0x4E0D, 0x662F, 0x6709, 0x6548] @ '' UTF-8'')) (\<lambda>_. Inr encoded)))))"

(* crates/ramag-domain/src/entities/id_conversion.rs:100-123 IdConverterConfig::decode_local *)
definition decode_local :: "id_converter_config \<Rightarrow> string \<Rightarrow> string + int" where
  "decode_local c input =
     (case ic_kind c of
        Base10 \<Rightarrow> decode_positional_i64 input BASE10_ALPHABET False
      | Base16 \<Rightarrow>
          decode_positional_i64
            (case strip_prefix ''0x'' input of Some r \<Rightarrow> r
             | None \<Rightarrow> (case strip_prefix ''0X'' input of Some r \<Rightarrow> r | None \<Rightarrow> input))
            BASE16_ALPHABET True
      | Base36 \<Rightarrow> decode_positional_i64 input BASE36_ALPHABET True
      | Base58Bitcoin \<Rightarrow> decode_positional_i64 input BASE58_BITCOIN_ALPHABET False
      | Base58Flickr \<Rightarrow> decode_positional_i64 input BASE58_FLICKR_ALPHABET False
      | CustomAlphabet \<Rightarrow>
          try_r (validate_custom_alphabet (ic_custom_alphabet c)) (\<lambda>_.
          decode_positional_i64 input (ic_custom_alphabet c) False)
      | ExternalProgram \<Rightarrow> Inl (utf8 [0x5916, 0x90E8] @ '' ID '' @ utf8 [0x8F6C, 0x6362, 0x5668, 0x4E0D, 0x80FD, 0x5728, 0x8FDB, 0x7A0B, 0x5185, 0x6267, 0x884C]))"

(* crates/ramag-domain/src/entities/id_conversion.rs:126-142 IdConverterConfig::encode_local *)
definition encode_local :: "id_converter_config \<Rightarrow> int \<Rightarrow> string + string" where
  "encode_local c value =
     (case ic_kind c of
        Base10 \<Rightarrow> encode_positional_i64 value BASE10_ALPHABET
      | Base16 \<Rightarrow> encode_positional_i64 value BASE16_ALPHABET
      | Base36 \<Rightarrow> encode_positional_i64 value BASE36_ALPHABET
      | Base58Bitcoin \<Rightarrow> encode_positional_i64 value BASE58_BITCOIN_ALPHABET
      | Base58Flickr \<Rightarrow> encode_positional_i64 value BASE58_FLICKR_ALPHABET
      | CustomAlphabet \<Rightarrow>
          try_r (validate_custom_alphabet (ic_custom_alphabet c)) (\<lambda>_.
          encode_positional_i64 value (ic_custom_alphabet c))
      | ExternalProgram \<Rightarrow> Inl (utf8 [0x5916, 0x90E8] @ '' ID '' @ utf8 [0x8F6C, 0x6362, 0x5668, 0x4E0D, 0x80FD, 0x5728, 0x8FDB, 0x7A0B, 0x5185, 0x6267, 0x884C]))"

text \<open>\<open>str::parse::<u64>\<close> on a text that consists of digits only.\<close>

definition parse_u64_digits :: "string \<Rightarrow> nat option" where
  "parse_u64_digits s =
     (let n = foldl (\<lambda>acc b. acc * 10 + (byte b - 48)) 0 s
      in if s \<noteq> [] \<and> n < 2 ^ 64 then Some n else None)"

(* crates/ramag-domain/src/entities/id_conversion.rs:145-156 parse_nonnegative_id_integer *)
definition parse_nonnegative_id_integer :: "string \<Rightarrow> string + int" where
  "parse_nonnegative_id_integer input =
     try_r (ensure (input \<noteq> []) (utf8 [0x6574, 0x6570] @ '' ID '' @ utf8 [0x4E0D, 0x80FD, 0x4E3A, 0x7A7A])) (\<lambda>_.
     try_r (ensure (list_all is_ascii_digit input) (utf8 [0x6574, 0x6570] @ '' ID '' @ utf8 [0x5FC5, 0x987B, 0x53EA, 0x5305, 0x542B, 0x975E, 0x8D1F, 0x5341, 0x8FDB, 0x5236, 0x6570, 0x5B57])) (\<lambda>_.
     try_r (ok_or (parse_u64_digits input) (utf8 [0x6574, 0x6570] @ '' ID '' @ utf8 [0x8D85, 0x51FA] @ '' u64 '' @ utf8 [0x8303, 0x56F4])) (\<lambda>value.
     ok_or (checked_i64 (int value)) (utf8 [0x6574, 0x6570] @ '' ID '' @ utf8 [0x8D85, 0x51FA, 0x975E, 0x8D1F] @ '' i64 '' @ utf8 [0x8303, 0x56F4]))))"

section \<open>The two conversions\<close>

(* crates/ramag-app/src/usecases/id_conversion.rs:13-13 MAX_CONVERTER_INPUT_BYTES *)
definition MAX_CONVERTER_INPUT_BYTES :: nat where
  [limits]: "MAX_CONVERTER_INPUT_BYTES = 4 * 1024"

(* crates/ramag-app/src/usecases/id_conversion.rs:14-14 MAX_CONVERTER_INTEGER_STDOUT_BYTES *)
definition MAX_CONVERTER_INTEGER_STDOUT_BYTES :: nat where
  [limits]: "MAX_CONVERTER_INTEGER_STDOUT_BYTES = 128"

(* crates/ramag-app/src/usecases/id_conversion.rs:15-15 MAX_CONVERTER_STRING_STDOUT_BYTES *)
definition MAX_CONVERTER_STRING_STDOUT_BYTES :: nat where
  [limits]: "MAX_CONVERTER_STRING_STDOUT_BYTES = 4 * 1024"

(* crates/ramag-app/src/usecases/id_conversion.rs:112-126 validate_input *)
definition validate_id_input :: "string \<Rightarrow> string + unit" where
  "validate_id_input input =
     try_r (ensure (input \<noteq> []) (''ID '' @ utf8 [0x641C, 0x7D22, 0x8BCD, 0x4E0D, 0x80FD, 0x4E3A, 0x7A7A])) (\<lambda>_.
     try_r (ensure (length input \<le> MAX_CONVERTER_INPUT_BYTES)
       ((''ID '' @ utf8 [0x641C, 0x7D22, 0x8BCD, 0x8D85, 0x8FC7] @ '' '') @ dec (MAX_CONVERTER_INPUT_BYTES div 1024) @ ('' KiB '' @ utf8 [0x4E0A, 0x9650]))) (\<lambda>_.
     ensure (list_all (\<lambda>b. byte b \<notin> {0, 13, 10}) input) (''ID '' @ utf8 [0x641C, 0x7D22, 0x8BCD, 0x4E0D, 0x80FD, 0x5305, 0x542B] @ '' NUL '' @ utf8 [0x6216, 0x6362, 0x884C, 0x7B26])))"

(* crates/ramag-app/src/usecases/id_conversion.rs:219-233 parse_integer_stdout *)
definition parse_integer_stdout :: "string \<Rightarrow> string + int" where
  "parse_integer_stdout stdout =
     try_r (ensure (is_utf8 stdout) (''ID '' @ utf8 [0x8F6C, 0x6362, 0x5668] @ '' stdout '' @ utf8 [0x4E0D, 0x662F, 0x6709, 0x6548] @ '' UTF-8'')) (\<lambda>_.
     let text = trim stdout in
     try_r (ensure (text \<noteq> []) (''ID '' @ utf8 [0x8F6C, 0x6362, 0x5668] @ '' stdout '' @ utf8 [0x4E3A, 0x7A7A])) (\<lambda>_.
     try_r (ensure (list_all is_ascii_digit text) (''ID '' @ utf8 [0x8F6C, 0x6362, 0x5668] @ '' stdout '' @ utf8 [0x5FC5, 0x987B, 0x53EA, 0x5305, 0x542B, 0x4E00, 0x4E2A, 0x975E, 0x8D1F, 0x5341, 0x8FDB, 0x5236, 0x6574, 0x6570])) (\<lambda>_.
     try_r (ok_or (parse_u64_digits text) (''ID '' @ utf8 [0x8F6C, 0x6362, 0x5668, 0x8F93, 0x51FA, 0x7684, 0x6574, 0x6570, 0x8D85, 0x51FA] @ '' u64 '' @ utf8 [0x8303, 0x56F4])) (\<lambda>value.
     ok_or (checked_i64 (int value)) (''ID '' @ utf8 [0x8F6C, 0x6362, 0x5668, 0x8F93, 0x51FA, 0x7684, 0x6574, 0x6570, 0x8D85, 0x51FA] @ '' i64 '' @ utf8 [0x8303, 0x56F4])))))"

definition strip_suffix :: "string \<Rightarrow> string \<Rightarrow> string option" where
  "strip_suffix x s = map_option rev (strip_prefix (rev x) (rev s))"

(* crates/ramag-app/src/usecases/id_conversion.rs:235-249 parse_string_stdout *)
definition parse_string_stdout :: "string \<Rightarrow> string + string" where
  "parse_string_stdout stdout =
     try_r (ensure (is_utf8 stdout) (''ID '' @ utf8 [0x8F6C, 0x6362, 0x5668] @ '' stdout '' @ utf8 [0x4E0D, 0x662F, 0x6709, 0x6548] @ '' UTF-8'')) (\<lambda>_.
     let text = (case strip_suffix [CHR 0x0D, CHR 0x0A] stdout of Some t \<Rightarrow> t
                 | None \<Rightarrow> (case strip_suffix [CHR 0x0A] stdout of Some t \<Rightarrow> t | None \<Rightarrow> stdout)) in
     try_r (ensure (text \<noteq> []) (''ID '' @ utf8 [0x8F6C, 0x6362, 0x5668] @ '' stdout '' @ utf8 [0x4E3A, 0x7A7A])) (\<lambda>_.
     try_r (ensure (\<not> has_control text) (''ID '' @ utf8 [0x8F6C, 0x6362, 0x5668] @ '' stdout '' @ utf8 [0x5FC5, 0x987B, 0x53EA, 0x5305, 0x542B, 0x4E00, 0x884C, 0x4E14, 0x4E0D, 0x80FD, 0x5305, 0x542B, 0x63A7, 0x5236, 0x5B57, 0x7B26])) (\<lambda>_.
     Inr text)))"

(* crates/ramag-app/src/usecases/id_conversion.rs:18-38 convert_id_to_integer *)
definition convert_id_to_integer ::
  "(string \<Rightarrow> bool) \<Rightarrow> (string \<Rightarrow> string \<Rightarrow> string \<Rightarrow> nat \<Rightarrow> string + string) \<Rightarrow>
     id_converter_config \<Rightarrow> string \<Rightarrow> string + int" where
  "convert_id_to_integer is_absolute run c input =
     try_r (validate_id_input input) (\<lambda>_.
     try_r (validate_active is_absolute c) (\<lambda>_.
     if ic_kind c \<noteq> ExternalProgram then decode_local c input
     else try_r (run (ic_external_program c) ''-s'' input MAX_CONVERTER_INTEGER_STDOUT_BYTES)
       parse_integer_stdout))"

(* crates/ramag-app/src/usecases/id_conversion.rs:40-65 convert_id_to_string *)
definition convert_id_to_string ::
  "(string \<Rightarrow> bool) \<Rightarrow> (string \<Rightarrow> string \<Rightarrow> string \<Rightarrow> nat \<Rightarrow> string + string) \<Rightarrow>
     id_converter_config \<Rightarrow> string \<Rightarrow> string + string" where
  "convert_id_to_string is_absolute run c input =
     try_r (validate_id_input input) (\<lambda>_.
     try_r (validate_active is_absolute c) (\<lambda>_.
     try_r (parse_nonnegative_id_integer input) (\<lambda>value.
     if ic_kind c \<noteq> ExternalProgram then encode_local c value
     else try_r (run (ic_external_program c) ''-i'' (dec (nat value)) MAX_CONVERTER_STRING_STDOUT_BYTES)
       parse_string_stdout)))"

end
