(* ===== verification/Id_Conversion_Properties.thy ===== *)
theory Id_Conversion_Properties
  imports Id_Conversion
begin

text \<open>
  The id codecs compute positional values: a text decodes exactly when its characters are digits of
  the alphabet and its value fits, an encoded integer decodes to itself, and so do the two
  conversions the user asks for.
\<close>

section \<open>Values\<close>

definition good_alphabet :: "string \<Rightarrow> bool" where
  "good_alphabet a \<longleftrightarrow> distinct a \<and> 2 \<le> length a \<and> int (length a) \<le> I64_MAX
     \<and> list_all (\<lambda>b. 0x21 \<le> byte b \<and> byte b \<le> 0x7E) a"

definition fold_case :: "bool \<Rightarrow> char \<Rightarrow> char" where
  "fold_case ci b = (if ci then ascii_lower b else b)"

definition digit_of :: "string \<Rightarrow> bool \<Rightarrow> char \<Rightarrow> int" where
  "digit_of a ci b = int (the (position (\<lambda>c. c = fold_case ci b) a))"

definition horner :: "string \<Rightarrow> bool \<Rightarrow> int \<Rightarrow> string \<Rightarrow> int" where
  "horner a ci acc s = foldl (\<lambda>v b. v * int (length a) + digit_of a ci b) acc s"

lemma horner_simps [simp]:
  "horner a ci acc [] = acc"
  "horner a ci acc (b # s) = horner a ci (acc * int (length a) + digit_of a ci b) s"
  by (simp_all add: horner_def)

lemma digit_of_nonneg [simp]: "0 \<le> digit_of a ci b"
  by (simp add: digit_of_def)

lemma horner_ge: "1 \<le> length a \<Longrightarrow> 0 \<le> acc \<Longrightarrow> acc \<le> horner a ci acc s"
proof (induction s arbitrary: acc)
  case (Cons b s)
  have "acc * 1 \<le> acc * int (length a)" using Cons.prems by (intro mult_left_mono) auto
  then have "acc \<le> acc * int (length a) + digit_of a ci b" using digit_of_nonneg [of a ci b] by linarith
  also have "\<dots> \<le> horner a ci \<dots> s"
    using Cons.prems by (intro Cons.IH) auto
  finally show ?case by simp
qed simp

lemma checked_i64_nonneg: "0 \<le> x \<Longrightarrow> checked_i64 x = (if x \<le> I64_MAX then Some x else None)"
  by (simp add: checked_i64_def I64_MIN_def)

lemma checked_mul_add:
  "0 \<le> p \<Longrightarrow> 0 \<le> q \<Longrightarrow> Option.bind (checked_i64 p) (\<lambda>c. checked_i64 (c + q))
     = (if p + q \<le> I64_MAX then Some (p + q) else None)"
  by (simp add: checked_i64_nonneg)

lemma decode_digit_ok:
  assumes "0 \<le> acc" and "1 \<le> length a"
  shows "decode_digit a ci acc b = Inr v \<longleftrightarrow>
    fold_case ci b \<in> set a \<and> v = acc * int (length a) + digit_of a ci b \<and> v \<le> I64_MAX"
proof (cases "position (\<lambda>c. c = fold_case ci b) a")
  case None
  then have "fold_case ci b \<notin> set a" by (auto simp: position_None)
  with None show ?thesis by (simp add: decode_digit_def fold_case_def [symmetric])
next
  case (Some d)
  then have m: "fold_case ci b \<in> set a" using position_split(2,3) [OF Some] by (metis nth_mem)
  have d: "digit_of a ci b = int d" by (simp add: digit_of_def Some)
  have nn: "0 \<le> acc * int (length a)" using assms by simp
  have "decode_digit a ci acc b = ok_or (if acc * int (length a) + int d \<le> I64_MAX
      then Some (acc * int (length a) + int d) else None) (''ID '' @ utf8 [0x8F6C, 0x6362, 0x7ED3, 0x679C, 0x8D85, 0x51FA, 0x975E, 0x8D1F] @ '' i64 '' @ utf8 [0x8303, 0x56F4])"
    unfolding decode_digit_def Let_def fold_case_def [symmetric] Some ok_or_simps try_r_simps
      checked_mul_add [OF nn of_nat_0_le_iff] ..
  then show ?thesis using m by (auto simp: d)
qed

lemma decode_fold_ok:
  assumes "1 \<le> length a" and "0 \<le> acc" and "acc \<le> I64_MAX"
  shows "fold_r (decode_digit a ci) acc s = Inr v \<longleftrightarrow>
    (\<forall>b \<in> set s. fold_case ci b \<in> set a) \<and> v = horner a ci acc s \<and> v \<le> I64_MAX"
  using assms(2,3)
proof (induction s arbitrary: acc)
  case Nil
  then show ?case by auto
next
  case (Cons b s)
  define w where "w = acc * int (length a) + digit_of a ci b"
  have w: "0 \<le> w" using Cons.prems by (simp add: w_def)
  have le: "w \<le> horner a ci w s" using horner_ge [OF assms(1) w] .
  have IH: "fold_r (decode_digit a ci) w s = Inr v \<longleftrightarrow>
      (\<forall>b \<in> set s. fold_case ci b \<in> set a) \<and> v = horner a ci w s \<and> v \<le> I64_MAX" if "w \<le> I64_MAX"
    using Cons.IH [OF w that] .
  have "fold_r (decode_digit a ci) acc (b # s) = Inr v \<longleftrightarrow>
      fold_case ci b \<in> set a \<and> w \<le> I64_MAX \<and> fold_r (decode_digit a ci) w s = Inr v"
    using decode_digit_ok [OF Cons.prems(1) assms(1), of ci b] by (auto simp: w_def)
  then show ?case using IH le by (auto simp: w_def [symmetric])
qed

lemma decode_positional_iff:
  assumes "good_alphabet a"
  shows "decode_positional_i64 s a ci = Inr v \<longleftrightarrow>
    s \<noteq> [] \<and> list_all (\<lambda>b. byte b < 128) s \<and> (\<forall>b \<in> set s. fold_case ci b \<in> set a)
    \<and> v = horner a ci 0 s \<and> v \<le> I64_MAX"
  using assms decode_fold_ok [of a 0 ci s v]
  by (simp add: decode_positional_i64_def good_alphabet_def I64_MAX_def)

section \<open>Encoding\<close>

lemma digit_of_nth:
  assumes "distinct a" "i < length a" "fold_case ci (a ! i) = a ! i"
  shows "digit_of a ci (a ! i) = int i"
proof -
  have "position (\<lambda>c. c = a ! i) a = Some i"
    using assms(1,2) by (induction a arbitrary: i) (auto simp: nth_Cons split: nat.splits)
  then show ?thesis using assms(3) by (simp add: digit_of_def)
qed

lemma digit_in_range: "0 < n \<Longrightarrow> nat (v mod int n) < n"
  by (simp add: nat_less_iff)

lemma encode_digits_total:
  assumes "2 \<le> length a"
  shows "\<exists>out. encode_digits a v e = Inr (e @ out) \<and> set out \<subseteq> set a
    \<and> (\<forall>n. v < 2 ^ n \<longrightarrow> length out \<le> n) \<and> (0 < v \<longrightarrow> out \<noteq> [])"
  using assms
proof (induction a v e rule: encode_digits.induct)
  case (1 a v e)
  define L where "L = int (length a)"
  define d where "d = nat (v mod L)"
  have L: "2 \<le> L" using 1(2) by (simp add: L_def)
  show ?case
  proof (cases "v \<le> 0")
    case True
    then show ?thesis by (simp add: encode_digits.simps [of a v e])
  next
    case False
    have d: "d < length a" unfolding d_def L_def by (rule digit_in_range) (use L in \<open>auto simp: L_def\<close>)
    have step: "encode_digits a v e = encode_digits a (v div L) (e @ [a ! d])"
      using False d 1(2) by (simp add: encode_digits.simps [of a v e] Let_def d_def L_def)
    have "\<exists>out. encode_digits a (v div L) (e @ [a ! d]) = Inr ((e @ [a ! d]) @ out) \<and> set out \<subseteq> set a
        \<and> (\<forall>n. v div L < 2 ^ n \<longrightarrow> length out \<le> n) \<and> (0 < v div L \<longrightarrow> out \<noteq> [])"
      unfolding d_def L_def
      by (rule 1(1)) (use False d 1(2) in \<open>simp_all add: d_def L_def\<close>)
    then obtain out where out: "encode_digits a (v div L) (e @ [a ! d]) = Inr ((e @ [a ! d]) @ out)"
      "set out \<subseteq> set a" "\<forall>n. v div L < 2 ^ n \<longrightarrow> length out \<le> n" by blast
    have "length (a ! d # out) \<le> n" if n: "v < 2 ^ n" for n
    proof (cases n)
      case (Suc k)
      have "v div L \<le> v div 2" using L False by (intro zdiv_mono2) auto
      also have "\<dots> < 2 ^ k" using n Suc by auto
      finally show ?thesis using out(3) Suc by simp
    qed (use n False in simp)
    with out step d show ?thesis
      by (intro exI [of _ "a ! d # out"]) simp
  qed
qed

lemma encode_digits_value:
  assumes "encode_digits a v e = Inr out" and "2 \<le> length a" and "distinct a" and "0 \<le> v"
    and "\<forall>b \<in> set a. fold_case ci b = b"
  shows "horner a ci 0 (rev out) = horner a ci v (rev e)"
  using assms
proof (induction a v e rule: encode_digits.induct)
  case (1 a v e)
  define L where "L = int (length a)"
  define d where "d = nat (v mod L)"
  have L: "2 \<le> L" using 1(3) by (simp add: L_def)
  show ?case
  proof (cases "v = 0")
    case True
    with 1(2) show ?thesis by (simp add: encode_digits.simps [of a 0 e])
  next
    case False
    then have pos: "0 < v" using 1(5) by simp
    have d: "d < length a" unfolding d_def L_def by (rule digit_in_range) (use L in \<open>auto simp: L_def\<close>)
    have step: "encode_digits a v e = encode_digits a (v div L) (e @ [a ! d])"
      using pos d 1(3) by (simp add: encode_digits.simps [of a v e] Let_def d_def L_def)
    have "horner a ci 0 (rev out) = horner a ci (v div L) (rev (e @ [a ! d]))"
      unfolding d_def L_def
    proof (rule 1(1))
      show "encode_digits a (v div int (length a)) (e @ [a ! nat (v mod int (length a))]) = Inr out"
        using step 1(2) by (simp add: d_def L_def)
      show "0 \<le> v div int (length a)" using pos L by (simp add: L_def div_int_pos_iff)
    qed (use pos d 1 in \<open>simp_all add: d_def L_def\<close>)
    also have "\<dots> = horner a ci (v div L * L + digit_of a ci (a ! d)) (rev e)"
      by (simp add: L_def)
    also have "digit_of a ci (a ! d) = v mod L"
      using digit_of_nth [OF 1(4) d] 1(6) d L by (simp add: d_def)
    finally show ?thesis by simp
  qed
qed


section \<open>The configured codec\<close>

definition alphabet_of :: "id_converter_config \<Rightarrow> string" where
  "alphabet_of c =
     (case ic_kind c of Base10 \<Rightarrow> BASE10_ALPHABET | Base16 \<Rightarrow> BASE16_ALPHABET | Base36 \<Rightarrow> BASE36_ALPHABET
      | Base58Bitcoin \<Rightarrow> BASE58_BITCOIN_ALPHABET | Base58Flickr \<Rightarrow> BASE58_FLICKR_ALPHABET
      | CustomAlphabet \<Rightarrow> ic_custom_alphabet c | ExternalProgram \<Rightarrow> [])"

definition ignores_case :: "id_converter_config \<Rightarrow> bool" where
  "ignores_case c \<longleftrightarrow> ic_kind c \<in> {Base16, Base36}"

text \<open>Hexadecimal ids may carry a prefix.\<close>

definition digits_part :: "id_converter_config \<Rightarrow> string \<Rightarrow> string" where
  "digits_part c s =
     (if ic_kind c = Base16 \<and> (starts_with s ''0x'' \<or> starts_with s ''0X'') then drop 2 s else s)"

definition local_codec :: "id_converter_config \<Rightarrow> bool" where
  "local_codec c \<longleftrightarrow> ic_kind c \<noteq> ExternalProgram
     \<and> (ic_kind c = CustomAlphabet \<longrightarrow> validate_custom_alphabet (ic_custom_alphabet c) = Inr ())"

lemma builtin_alphabets:
  "list_all good_alphabet [BASE10_ALPHABET, BASE16_ALPHABET, BASE36_ALPHABET, BASE58_BITCOIN_ALPHABET,
     BASE58_FLICKR_ALPHABET]"
  by code_simp

lemma visible_distinct_short:
  assumes "distinct a" and "list_all (\<lambda>b. 0x21 \<le> byte b \<and> byte b \<le> 0x7E) a"
  shows "length a \<le> 94"
proof -
  have "inj_on byte (set a)" by (simp add: inj_on_def)
  then have "length a = card (byte ` set a)" using assms(1) by (simp add: card_image distinct_card)
  also have "\<dots> \<le> card {0x21..0x7E::nat}"
    by (rule card_mono) (use assms(2) in \<open>auto simp: list_all_iff\<close>)
  finally show ?thesis by simp
qed

lemma validate_custom_alphabet_ok: "validate_custom_alphabet a = Inr () \<longleftrightarrow> good_alphabet a"
proof
  assume v: "validate_custom_alphabet a = Inr ()"
  then have "distinct a" "list_all (\<lambda>b. 0x21 \<le> byte b \<and> byte b \<le> 0x7E) a" "2 \<le> length a"
    by (simp_all add: validate_custom_alphabet_def validate_alphabet_characters_def)
  with visible_distinct_short [of a] show "good_alphabet a" by (simp add: good_alphabet_def I64_MAX_def)
next
  assume g: "good_alphabet a"
  then have "list_all (\<lambda>b. byte b < 128) a" by (auto simp: good_alphabet_def list_all_iff)
  with g show "validate_custom_alphabet a = Inr ()"
    by (simp add: validate_custom_alphabet_def validate_alphabet_characters_def good_alphabet_def)
qed

lemma local_codec_alphabet: "local_codec c \<Longrightarrow> good_alphabet (alphabet_of c)"
  using builtin_alphabets validate_custom_alphabet_ok
  by (cases "ic_kind c") (simp_all add: local_codec_def alphabet_of_def)

lemma hex_body:
  "(case strip_prefix ''0x'' s of Some r \<Rightarrow> r
     | None \<Rightarrow> (case strip_prefix ''0X'' s of Some r \<Rightarrow> r | None \<Rightarrow> s))
   = (if starts_with s ''0x'' \<or> starts_with s ''0X'' then drop 2 s else s)"
  by (auto simp: strip_prefix_iff starts_with_def split: option.splits)

lemma decode_local_codec:
  "local_codec c \<Longrightarrow> decode_local c s =
     decode_positional_i64 (digits_part c s) (alphabet_of c) (ignores_case c)"
  unfolding decode_local_def hex_body
  by (cases "ic_kind c") (simp_all add: local_codec_def alphabet_of_def ignores_case_def digits_part_def)

lemma decode_local_no_codec: "\<not> local_codec c \<Longrightarrow> decode_local c s \<noteq> Inr v"
  by (cases "ic_kind c") (auto simp: local_codec_def decode_local_def)

lemma encode_local_codec:
  "local_codec c \<Longrightarrow> encode_local c v = encode_positional_i64 v (alphabet_of c)"
  unfolding encode_local_def
  by (cases "ic_kind c") (simp_all add: local_codec_def alphabet_of_def)

lemma fold_case_ascii:
  assumes "fold_case ci b \<in> set a" and "good_alphabet a"
  shows "byte b < 128"
  using assms by (auto simp: fold_case_def good_alphabet_def list_all_iff ascii_lower_def
      is_ascii_uppercase_def split: if_splits)

lemma case_free_alphabets:
  "list_all (\<lambda>b. ascii_lower b = b) BASE16_ALPHABET" "list_all (\<lambda>b. ascii_lower b = b) BASE36_ALPHABET"
  "CHR ''x'' \<notin> set BASE16_ALPHABET" "CHR ''X'' \<notin> set BASE16_ALPHABET"
  by code_simp+

lemma alphabet_keeps_case: "\<forall>b \<in> set (alphabet_of c). fold_case (ignores_case c) b = b"
  using case_free_alphabets(1,2)
  by (cases "ic_kind c") (simp_all add: alphabet_of_def ignores_case_def fold_case_def list_all_iff)

lemma digits_part_encoded:
  assumes "set s \<subseteq> set (alphabet_of c)"
  shows "digits_part c s = s"
proof (cases "ic_kind c = Base16")
  case True
  then have "CHR ''x'' \<notin> set s" "CHR ''X'' \<notin> set s"
    using assms case_free_alphabets(3,4) by (auto simp: alphabet_of_def)
  then show ?thesis by (auto simp: digits_part_def starts_with_iff prefix_def)
qed (simp add: digits_part_def)

lemma digits_visible:
  assumes "good_alphabet a" and "set s \<subseteq> set a"
  shows "list_all (\<lambda>b. byte b < 128) s" "list_all (\<lambda>b. byte b \<notin> {0, 13, 10}) s"
proof -
  have "0x21 \<le> byte b \<and> byte b \<le> 0x7E" if "b \<in> set s" for b
    using assms that unfolding good_alphabet_def list_all_iff by blast
  then show "list_all (\<lambda>b. byte b < 128) s" "list_all (\<lambda>b. byte b \<notin> {0, 13, 10}) s"
    unfolding list_all_iff by force+
qed

lemma encode_positional_ok:
  assumes "good_alphabet a" and "0 \<le> v" and "v \<le> I64_MAX"
  obtains s where "encode_positional_i64 v a = Inr s" "s \<noteq> []" "set s \<subseteq> set a" "length s \<le> 63"
    "\<And>ci. \<forall>b \<in> set a. fold_case ci b = b \<Longrightarrow> horner a ci 0 s = v"
proof -
  have a: "distinct a" "2 \<le> length a" "int (length a) \<le> I64_MAX"
    using assms(1) by (simp_all add: good_alphabet_def)
  have utf8: "is_utf8 s" if "set s \<subseteq> set a" for s
    using digits_visible(1) [OF assms(1) that] by (rule is_utf8_ascii)
  have "\<exists>s. (if v = 0 then Inr [a ! 0] else map_ok rev (encode_digits a v [])) = Inr s
      \<and> s \<noteq> [] \<and> set s \<subseteq> set a \<and> length s \<le> 63
      \<and> (\<forall>ci. (\<forall>b \<in> set a. fold_case ci b = b) \<longrightarrow> horner a ci 0 s = v)"
  proof (cases "v = 0")
    case True
    have a0: "a ! 0 \<in> set a" "0 < length a" using a(2) by (auto intro: nth_mem)
    then show ?thesis using True digit_of_nth [OF a(1) a0(2)] by simp
  next
    case False
    obtain out where out: "encode_digits a v [] = Inr out" "set out \<subseteq> set a"
      "\<forall>n. v < 2 ^ n \<longrightarrow> length out \<le> n" "0 < v \<longrightarrow> out \<noteq> []"
      using encode_digits_total [OF a(2), of v "[]"] by auto
    have "v < 2 ^ 63" using assms(3) by (simp add: I64_MAX_def)
    with out(3) have "length out \<le> 63" by blast
    moreover have "\<forall>ci. (\<forall>b \<in> set a. fold_case ci b = b) \<longrightarrow> horner a ci 0 (rev out) = v"
      using encode_digits_value [OF out(1) a(2,1) assms(2)] by simp
    ultimately show ?thesis using False out assms(2) by (intro exI [of _ "rev out"]) simp
  qed
  then obtain s where s: "(if v = 0 then Inr [a ! 0] else map_ok rev (encode_digits a v [])) = Inr s"
      "s \<noteq> []" "set s \<subseteq> set a" "length s \<le> 63"
      "\<forall>ci. (\<forall>b \<in> set a. fold_case ci b = b) \<longrightarrow> horner a ci 0 s = v"
    by blast
  have "encode_positional_i64 v a = Inr s"
    unfolding encode_positional_i64_def s(1) using assms(2) a utf8 [OF s(3)] by (simp add: ensure_def)
  with s show thesis using that by blast
qed

section \<open>Properties\<close>

text \<open>An id decodes exactly when the codec is usable, its digits are a non-empty text over the
  alphabet (up to case for the hexadecimal and base-36 kinds, after an optional hexadecimal prefix),
  and their positional value, taken without wrap-around, is at most the largest \<open>i64\<close>; the result is
  that value.\<close>

theorem decoding_is_positional:
  "decode_local c s = Inr v \<longleftrightarrow>
     local_codec c \<and> digits_part c s \<noteq> []
     \<and> fold_case (ignores_case c) ` set (digits_part c s) \<subseteq> set (alphabet_of c)
     \<and> v = horner (alphabet_of c) (ignores_case c) 0 (digits_part c s) \<and> v \<le> I64_MAX"
proof (cases "local_codec c")
  case True
  note good = local_codec_alphabet [OF True]
  have "list_all (\<lambda>b. byte b < 128) (digits_part c s)"
    if "fold_case (ignores_case c) ` set (digits_part c s) \<subseteq> set (alphabet_of c)"
    using that fold_case_ascii [OF _ good] unfolding list_all_iff by blast
  then show ?thesis
    unfolding decode_local_codec [OF True] decode_positional_iff [OF good] using True by blast
next
  case False
  then show ?thesis using decode_local_no_codec by blast
qed

text \<open>C38. For every in-process codec, when an integer id is converted to its textual form, converting
  that text back gives the integer the user entered.\<close>

theorem converted_id_converts_back:
  assumes "convert_id_to_string is_absolute run c input = Inr s" and "ic_kind c \<noteq> ExternalProgram"
  shows "convert_id_to_integer is_absolute run c s = parse_nonnegative_id_integer input"
proof -
  obtain v where active: "validate_active is_absolute c = Inr ()"
    and v: "parse_nonnegative_id_integer input = Inr v" and enc: "encode_local c v = Inr s"
    using assms by (auto simp: convert_id_to_string_def)
  have codec: "local_codec c"
    using active assms(2) by (cases "ic_kind c") (simp_all add: validate_active_def local_codec_def)
  note good = local_codec_alphabet [OF codec]
  have range: "0 \<le> v" "v \<le> I64_MAX"
    using v by (auto simp: parse_nonnegative_id_integer_def checked_i64_def split: if_splits)
  obtain s' where s': "encode_positional_i64 v (alphabet_of c) = Inr s'" "s' \<noteq> []"
    "set s' \<subseteq> set (alphabet_of c)" "length s' \<le> 63"
    "\<And>ci. \<forall>b \<in> set (alphabet_of c). fold_case ci b = b \<Longrightarrow> horner (alphabet_of c) ci 0 s' = v"
    using encode_positional_ok [OF good range] by blast
  have s: "s = s'" using enc s'(1) by (simp add: encode_local_codec [OF codec])
  note keep = alphabet_keeps_case [of c]
  have "decode_local c s = Inr v"
    unfolding decode_local_codec [OF codec] s digits_part_encoded [OF s'(3)] decode_positional_iff [OF good]
    using s'(2,3) s'(5) [OF keep] keep range digits_visible(1) [OF good s'(3)] by auto
  moreover have "validate_id_input s = Inr ()"
    using s'(2,4) digits_visible(2) [OF good s'(3)] unfolding s validate_id_input_def
    by (simp add: limits)
  ultimately show ?thesis using active assms(2) v by (simp add: convert_id_to_integer_def)
qed

definition flickr :: id_converter_config where
  "flickr = \<lparr>ic_kind = Base58Flickr, ic_custom_alphabet = [], ic_external_program = []\<rparr>"

lemma converted_id_converts_back_witness:
  "convert_id_to_integer (\<lambda>_. False) (\<lambda>_ _ _ _. Inl []) flickr ''qwe'' = parse_nonnegative_id_integer ''82489''"
proof (rule converted_id_converts_back)
  have "is_utf8 ''qwe''" by (rule is_utf8_ascii) code_simp
  moreover have "validate_id_input ''82489'' = Inr ()" "validate_active (\<lambda>_. False) flickr = Inr ()"
    by (simp_all add: validate_id_input_def validate_active_def validate_storable_def flickr_def limits)
  moreover have "parse_nonnegative_id_integer ''82489'' = Inr 82489"
    by (simp add: parse_nonnegative_id_integer_def parse_u64_digits_def is_ascii_digit_def
        checked_i64_def I64_MIN_def I64_MAX_def)
  moreover have "map_ok rev (encode_digits BASE58_FLICKR_ALPHABET 82489 []) = Inr ''qwe''"
    by (simp add: encode_digits.simps BASE58_FLICKR_ALPHABET_def)
  moreover have "int (length BASE58_FLICKR_ALPHABET) = 58" "length BASE58_FLICKR_ALPHABET = 58"
    by (simp_all add: BASE58_FLICKR_ALPHABET_def)
  ultimately show "convert_id_to_string (\<lambda>_. False) (\<lambda>_ _ _ _. Inl []) flickr ''82489'' = Inr ''qwe''"
    by (simp add: convert_id_to_string_def encode_local_def encode_positional_i64_def flickr_def I64_MAX_def)
qed (simp add: flickr_def)

end
