(* ===== verification/Mqtt_Text.thy ===== *)
theory Mqtt_Text
  imports Rust_Trim Rust_Split
begin

text \<open>
  The text checks of the MQTT entities (\<open>crates/ramag-domain/src/entities/mqtt/validation.rs\<close>,
  \<open>mqtt.rs\<close>), topic names and topic filters, and subscriptions (\<open>mqtt_protocol.rs\<close>), with what a
  valid filter looks like.
\<close>

section \<open>Limits\<close>

(* crates/ramag-domain/src/entities/mqtt.rs:18-18 DEFAULT_MQTT_PORT *)
definition DEFAULT_MQTT_PORT :: u16 where
  "DEFAULT_MQTT_PORT = 1883"

(* crates/ramag-domain/src/entities/mqtt.rs:19-19 DEFAULT_MQTT_TLS_PORT *)
definition DEFAULT_MQTT_TLS_PORT :: u16 where
  "DEFAULT_MQTT_TLS_PORT = 8883"

(* crates/ramag-domain/src/entities/mqtt.rs:20-20 DEFAULT_MQTT_KEEP_ALIVE_SECONDS *)
definition DEFAULT_MQTT_KEEP_ALIVE_SECONDS :: u16 where
  "DEFAULT_MQTT_KEEP_ALIVE_SECONDS = 60"

(* crates/ramag-domain/src/entities/mqtt.rs:26-26 MAX_MQTT_PROFILE_NAME_BYTES *)
definition MAX_MQTT_PROFILE_NAME_BYTES :: nat where
  [limits]: "MAX_MQTT_PROFILE_NAME_BYTES = 256"

(* crates/ramag-domain/src/entities/mqtt.rs:27-27 MAX_MQTT_HOST_BYTES *)
definition MAX_MQTT_HOST_BYTES :: nat where
  [limits]: "MAX_MQTT_HOST_BYTES = 1024"

(* crates/ramag-domain/src/entities/mqtt.rs:28-28 MAX_MQTT_CLIENT_ID_BYTES *)
definition MAX_MQTT_CLIENT_ID_BYTES :: nat where
  [limits]: "MAX_MQTT_CLIENT_ID_BYTES = 256"

(* crates/ramag-domain/src/entities/mqtt.rs:29-29 MAX_MQTT_USERNAME_BYTES *)
definition MAX_MQTT_USERNAME_BYTES :: nat where
  [limits]: "MAX_MQTT_USERNAME_BYTES = 1024"

(* crates/ramag-domain/src/entities/mqtt.rs:30-30 MAX_MQTT_PASSWORD_BYTES *)
definition MAX_MQTT_PASSWORD_BYTES :: nat where
  [limits]: "MAX_MQTT_PASSWORD_BYTES = 64 * 1024"

(* crates/ramag-domain/src/entities/mqtt.rs:31-31 MAX_MQTT_REMARK_BYTES *)
definition MAX_MQTT_REMARK_BYTES :: nat where
  [limits]: "MAX_MQTT_REMARK_BYTES = 16 * 1024"

(* crates/ramag-domain/src/entities/mqtt.rs:32-32 MAX_MQTT_TLS_PATH_BYTES *)
definition MAX_MQTT_TLS_PATH_BYTES :: nat where
  [limits]: "MAX_MQTT_TLS_PATH_BYTES = 32 * 1024"

(* crates/ramag-domain/src/entities/mqtt.rs:33-33 MAX_MQTT_TOPIC_BYTES *)
definition MAX_MQTT_TOPIC_BYTES :: nat where
  [limits]: "MAX_MQTT_TOPIC_BYTES = 65535"

(* crates/ramag-domain/src/entities/mqtt.rs:34-34 MAX_MOSQUITTO_NAME_BYTES *)
definition MAX_MOSQUITTO_NAME_BYTES :: nat where
  [limits]: "MAX_MOSQUITTO_NAME_BYTES = 256"

(* crates/ramag-domain/src/entities/mqtt.rs:35-35 MAX_MOSQUITTO_DESCRIPTION_BYTES *)
definition MAX_MOSQUITTO_DESCRIPTION_BYTES :: nat where
  [limits]: "MAX_MOSQUITTO_DESCRIPTION_BYTES = 16 * 1024"

(* crates/ramag-domain/src/entities/mqtt.rs:36-36 MAX_MOSQUITTO_ACLS *)
definition MAX_MOSQUITTO_ACLS :: nat where
  [limits]: "MAX_MOSQUITTO_ACLS = 4096"

section \<open>Texts\<close>

text \<open>\<open>chars().any(char::is_whitespace)\<close>.\<close>

definition has_white_space :: "string \<Rightarrow> bool" where
  "has_white_space s = list_ex (\<lambda>w. str_contains w s) WHITE_SPACE"

(* crates/ramag-domain/src/entities/mqtt/validation.rs:110-121 validate_protocol_text *)
definition mq_protocol_text :: "string \<Rightarrow> string \<Rightarrow> nat \<Rightarrow> string + unit" where
  "mq_protocol_text label v max_bytes =
     (if max_bytes < length v
      then Inl (label @ (utf8 [0x8FC7, 0x957F, 0xFF1A]) @ dec (length v) @ ('' bytes'' @ utf8 [0xFF0C, 0x6700, 0x591A] @ '' '') @ dec max_bytes @ '' bytes'')
      else if CHR 0x00 \<in> set v then Inl (label @ (utf8 [0x4E0D, 0x80FD, 0x5305, 0x542B] @ '' NUL '' @ utf8 [0x5B57, 0x7B26]))
      else Inr ())"

(* crates/ramag-domain/src/entities/mqtt/validation.rs:102-108 validate_single_line *)
definition mq_single_line :: "string \<Rightarrow> string \<Rightarrow> nat \<Rightarrow> string + unit" where
  "mq_single_line label v max_bytes =
     try_r (mq_protocol_text label v max_bytes) (\<lambda>_.
       if has_control v then Inl (label @ (utf8 [0x4E0D, 0x80FD, 0x5305, 0x542B, 0x63A7, 0x5236, 0x5B57, 0x7B26])) else Inr ())"

(* crates/ramag-domain/src/entities/mqtt/validation.rs:55-60 validate_required_text *)
definition mq_required_text :: "string \<Rightarrow> string \<Rightarrow> nat \<Rightarrow> string + unit" where
  "mq_required_text label v max_bytes =
     (if trim v = [] then Inl (label @ (utf8 [0x4E0D, 0x80FD, 0x4E3A, 0x7A7A])) else mq_single_line label v max_bytes)"

(* crates/ramag-domain/src/entities/mqtt/validation.rs:62-71 validate_optional_single_line *)
definition mq_optional_single_line :: "string \<Rightarrow> string option \<Rightarrow> nat \<Rightarrow> string + unit" where
  "mq_optional_single_line label v max_bytes =
     (case v of None \<Rightarrow> Inr () | Some v \<Rightarrow> mq_single_line label v max_bytes)"

(* crates/ramag-domain/src/entities/mqtt/validation.rs:73-82 validate_optional_protocol_text *)
definition mq_optional_protocol_text :: "string \<Rightarrow> string option \<Rightarrow> nat \<Rightarrow> string + unit" where
  "mq_optional_protocol_text label v max_bytes =
     (case v of None \<Rightarrow> Inr () | Some v \<Rightarrow> mq_protocol_text label v max_bytes)"

(* crates/ramag-domain/src/entities/mqtt/validation.rs:84-93 validate_optional_text *)
definition mq_optional_text :: "string \<Rightarrow> string option \<Rightarrow> nat \<Rightarrow> string + unit" where
  "mq_optional_text label v max_bytes =
     (case v of None \<Rightarrow> Inr () | Some v \<Rightarrow> mq_protocol_text label v max_bytes)"

(* crates/ramag-domain/src/entities/mqtt/validation.rs:95-100 validate_optional_path *)
definition mq_optional_path :: "string \<Rightarrow> string option \<Rightarrow> string + unit" where
  "mq_optional_path label v =
     (case v of None \<Rightarrow> Inr () | Some v \<Rightarrow> mq_required_text label v MAX_MQTT_TLS_PATH_BYTES)"

(* crates/ramag-domain/src/entities/mqtt/validation.rs:44-53 validate_required_host *)
definition mq_required_host :: "string \<Rightarrow> string + unit" where
  "mq_required_host host =
     try_r (mq_protocol_text (''MQTT Broker '' @ utf8 [0x5730, 0x5740]) host MAX_MQTT_HOST_BYTES) (\<lambda>_.
       if trim host = [] then Inl (''MQTT Broker '' @ utf8 [0x5730, 0x5740, 0x4E0D, 0x80FD, 0x4E3A, 0x7A7A])
       else if str_contains ''://'' host \<or> has_white_space host
       then Inl (''MQTT Broker '' @ utf8 [0x5730, 0x5740, 0x4E0D, 0x80FD, 0x5305, 0x542B, 0x534F, 0x8BAE, 0x524D, 0x7F00, 0x6216, 0x7A7A, 0x767D, 0x5B57, 0x7B26])
       else Inr ())"

section \<open>Topics\<close>

(* crates/ramag-domain/src/entities/mqtt/validation.rs:1-10 validate_mqtt_topic_name *)
definition validate_mqtt_topic_name :: "string \<Rightarrow> string + unit" where
  "validate_mqtt_topic_name topic =
     try_r (mq_protocol_text ''MQTT Topic'' topic MAX_MQTT_TOPIC_BYTES) (\<lambda>_.
       if topic = [] then Inl (''MQTT Topic '' @ utf8 [0x4E0D, 0x80FD, 0x4E3A, 0x7A7A])
       else if CHR ''+'' \<in> set topic \<or> CHR ''#'' \<in> set topic
       then Inl (''MQTT '' @ utf8 [0x53D1, 0x5E03] @ '' Topic '' @ utf8 [0x4E0D, 0x80FD, 0x5305, 0x542B] @ '' + '' @ utf8 [0x6216] @ '' # '' @ utf8 [0x901A, 0x914D, 0x7B26])
       else Inr ())"

text \<open>\<open>splitn(2, '/')\<close>, with \<open>unwrap_or_default\<close> on a missing second part.\<close>

definition split_two :: "string \<Rightarrow> string \<times> string" where
  "split_two s = (takeWhile (\<lambda>c. c \<noteq> CHR ''/'') s, drop 1 (dropWhile (\<lambda>c. c \<noteq> CHR ''/'') s))"

(* crates/ramag-domain/src/entities/mqtt/validation.rs:32-40 validate_mqtt_topic_filter *)
definition mq_filter_level :: "nat \<Rightarrow> nat \<times> string \<Rightarrow> string + unit" where
  "mq_filter_level n = (\<lambda>(index, level).
     if CHR ''#'' \<in> set level \<and> (level \<noteq> ''#'' \<or> index + 1 \<noteq> n)
     then Inl (''MQTT # '' @ utf8 [0x5FC5, 0x987B, 0x72EC, 0x5360, 0x6700, 0x540E, 0x4E00, 0x4E2A] @ '' Topic '' @ utf8 [0x5C42, 0x7EA7])
     else if CHR ''+'' \<in> set level \<and> level \<noteq> ''+''
     then Inl (''MQTT + '' @ utf8 [0x5FC5, 0x987B, 0x72EC, 0x5360, 0x4E00, 0x4E2A] @ '' Topic '' @ utf8 [0x5C42, 0x7EA7])
     else Inr ())"

(* crates/ramag-domain/src/entities/mqtt/validation.rs:17-30 validate_mqtt_topic_filter *)
definition mq_shared_filter :: "string \<Rightarrow> string + string" where
  "mq_shared_filter topic_filter =
     (case strip_prefix ''$share/'' topic_filter of
        Some shared \<Rightarrow>
          (let (group, rest) = split_two shared in
           if group = [] \<or> CHR ''+'' \<in> set group \<or> CHR ''#'' \<in> set group
           then Inl (utf8 [0x5171, 0x4EAB, 0x8BA2, 0x9605, 0x7684] @ '' Group '' @ utf8 [0x540D, 0x79F0, 0x65E0, 0x6548])
           else if rest = [] then Inl (utf8 [0x5171, 0x4EAB, 0x8BA2, 0x9605, 0x7F3A, 0x5C11] @ '' Topic Filter'')
           else Inr rest)
      | None \<Rightarrow> Inr topic_filter)"

(* crates/ramag-domain/src/entities/mqtt/validation.rs:11-42 validate_mqtt_topic_filter *)
definition validate_mqtt_topic_filter :: "string \<Rightarrow> string + unit" where
  "validate_mqtt_topic_filter topic_filter =
     try_r (mq_protocol_text ''MQTT Topic Filter'' topic_filter MAX_MQTT_TOPIC_BYTES) (\<lambda>_.
       if topic_filter = [] then Inl (''MQTT Topic Filter '' @ utf8 [0x4E0D, 0x80FD, 0x4E3A, 0x7A7A])
       else try_r (mq_shared_filter topic_filter) (\<lambda>f.
         let levels = split_slash f in
         for_r (mq_filter_level (length levels)) (enumerate 0 levels)))"

section \<open>Subscriptions\<close>

(* crates/ramag-domain/src/entities/mqtt_protocol.rs:14-14 MAX_MQTT_PUBLISH_PAYLOAD_BYTES *)
definition MAX_MQTT_PUBLISH_PAYLOAD_BYTES :: nat where
  [limits]: "MAX_MQTT_PUBLISH_PAYLOAD_BYTES = 16 * 1024 * 1024"

(* crates/ramag-domain/src/entities/mqtt_protocol.rs:15-15 MAX_MQTT_SUBSCRIPTIONS *)
definition MAX_MQTT_SUBSCRIPTIONS :: nat where
  [limits]: "MAX_MQTT_SUBSCRIPTIONS = 128"

(* crates/ramag-domain/src/entities/mqtt_protocol.rs:25-31 MqttQos *)
datatype mqtt_qos = AtMostOnce | AtLeastOnce | ExactlyOnce

(* crates/ramag-domain/src/entities/mqtt_protocol.rs:34-40 MqttQos::as_u8 *)
definition qos_as_u8 :: "mqtt_qos \<Rightarrow> u8" where
  "qos_as_u8 q = (case q of AtMostOnce \<Rightarrow> 0 | AtLeastOnce \<Rightarrow> 1 | ExactlyOnce \<Rightarrow> 2)"

(* crates/ramag-infra-mqtt/src/local_server.rs:979-985 qos_from_oximqtt *)
definition qos_from_oximqtt :: "u8 \<Rightarrow> mqtt_qos" where
  "qos_from_oximqtt v = (if v = 0 then AtMostOnce else if v = 1 then AtLeastOnce else ExactlyOnce)"

(* crates/ramag-domain/src/entities/mqtt_protocol.rs:43-51 MqttSubscription *)
record mqtt_subscription =
  su_filter :: string
  su_qos :: mqtt_qos
  su_no_local :: bool

(* crates/ramag-domain/src/entities/mqtt_protocol.rs:54-56 MqttSubscription::validate *)
definition validate_subscription :: "mqtt_subscription \<Rightarrow> string + unit" where
  "validate_subscription s = validate_mqtt_topic_filter (su_filter s)"

(* crates/ramag-domain/src/entities/mqtt_protocol.rs:92-102 validate_mqtt_subscriptions *)
fun mq_distinct_filters :: "string set \<Rightarrow> mqtt_subscription list \<Rightarrow> string + unit" where
  "mq_distinct_filters seen [] = Inr ()"
| "mq_distinct_filters seen (s # ss) =
     try_r (validate_subscription s) (\<lambda>_.
       if su_filter s \<in> seen then Inl ((''MQTT '' @ utf8 [0x8BA2, 0x9605] @ '' Topic Filter '' @ utf8 [0x4E0D, 0x80FD, 0x91CD, 0x590D, 0xFF1A]) @ su_filter s)
       else mq_distinct_filters (insert (su_filter s) seen) ss)"

(* crates/ramag-domain/src/entities/mqtt_protocol.rs:86-103 validate_mqtt_subscriptions *)
definition validate_mqtt_subscriptions :: "mqtt_subscription list \<Rightarrow> string + unit" where
  "validate_mqtt_subscriptions ss =
     (if MAX_MQTT_SUBSCRIPTIONS < length ss
      then Inl ((''MQTT '' @ utf8 [0x8BA2, 0x9605, 0x6570, 0x91CF, 0x4E0D, 0x80FD, 0x8D85, 0x8FC7] @ '' '') @ dec MAX_MQTT_SUBSCRIPTIONS)
      else mq_distinct_filters {} ss)"

(* crates/ramag-domain/src/entities/mqtt_protocol.rs:111-116 MqttSubscribeRequest::validate *)
definition validate_subscribe_request :: "mqtt_subscription list \<Rightarrow> string + unit" where
  "validate_subscribe_request ss =
     (if ss = [] then Inl (''MQTT '' @ utf8 [0x8BA2, 0x9605, 0x81F3, 0x5C11, 0x9700, 0x8981, 0x4E00, 0x4E2A] @ '' Topic Filter'')
      else validate_mqtt_subscriptions ss)"

section \<open>Chains of checks\<close>

lemma if_Inl: "(if c then Inl e else r) = Inr u \<longleftrightarrow> \<not> c \<and> r = Inr u"
  by simp

end
