(* ===== verification/Mqtt_Profile.thy ===== *)
theory Mqtt_Profile
  imports Mqtt_Text Connection_Config
begin

text \<open>
  Connections to a broker (\<open>crates/ramag-domain/src/entities/mqtt/connection_config.rs\<close>), the
  capabilities of a transport (\<open>transport_capabilities.rs\<close>), the objects of Mosquitto's dynamic
  security (\<open>dynamic_security_entities.rs\<close>) and its static files (\<open>mqtt_protocol.rs\<close>), each with its
  validation.  A random id is a parameter of the constructor.
\<close>

section \<open>Profiles\<close>

(* crates/ramag-domain/src/entities/mqtt/connection_config.rs:2-3 MqttProfileId *)
datatype mqtt_profile_id = MqttProfileId "128 word"

datatype ssh_profile_id = SshProfileId "128 word"

(* crates/ramag-domain/src/entities/mqtt/connection_config.rs:23-28 MqttProtocolVersion *)
datatype mqtt_protocol_version = V5 | V311

(* crates/ramag-domain/src/entities/mqtt/connection_config.rs:30-35 MqttTransport *)
datatype mqtt_transport = TransportTcp | TransportTls

(* crates/ramag-domain/src/entities/mqtt/connection_config.rs:38-43 MqttTransport::default_port *)
definition transport_default_port :: "mqtt_transport \<Rightarrow> u16" where
  "transport_default_port t =
     (case t of TransportTcp \<Rightarrow> DEFAULT_MQTT_PORT | TransportTls \<Rightarrow> DEFAULT_MQTT_TLS_PORT)"

(* crates/ramag-domain/src/entities/mqtt/connection_config.rs:45-47 MqttTransport::uses_tls *)
definition uses_tls :: "mqtt_transport \<Rightarrow> bool" where
  "uses_tls t \<longleftrightarrow> (case t of TransportTls \<Rightarrow> True | _ \<Rightarrow> False)"

(* crates/ramag-domain/src/entities/mqtt/connection_config.rs:50-60 MqttTlsConfig *)
record mqtt_tls_config =
  tl_verify :: tls_verify
  tl_ca_cert_path :: "string option"
  tl_client_cert_path :: "string option"
  tl_client_key_path :: "string option"

(* crates/ramag-domain/src/entities/mqtt/connection_config.rs:50-60 MqttTlsConfig::default *)
definition mqtt_tls_default :: mqtt_tls_config where
  "mqtt_tls_default = \<lparr>tl_verify = tls_verify_default, tl_ca_cert_path = None,
     tl_client_cert_path = None, tl_client_key_path = None\<rparr>"

(* crates/ramag-domain/src/entities/mqtt/connection_config.rs:84-92 MqttTlsConfig::validate *)
definition validate_mqtt_tls :: "mqtt_tls_config \<Rightarrow> string + unit" where
  "validate_mqtt_tls t =
     try_r (mq_optional_path (''CA '' @ utf8 [0x8BC1, 0x4E66, 0x8DEF, 0x5F84]) (tl_ca_cert_path t)) (\<lambda>_.
     try_r (mq_optional_path (utf8 [0x5BA2, 0x6237, 0x7AEF, 0x8BC1, 0x4E66, 0x8DEF, 0x5F84]) (tl_client_cert_path t)) (\<lambda>_.
     try_r (mq_optional_path (utf8 [0x5BA2, 0x6237, 0x7AEF, 0x5BC6, 0x94A5, 0x8DEF, 0x5F84]) (tl_client_key_path t)) (\<lambda>_.
       if (tl_client_cert_path t \<noteq> None) \<noteq> (tl_client_key_path t \<noteq> None)
       then Inl (utf8 [0x5BA2, 0x6237, 0x7AEF, 0x8BC1, 0x4E66, 0x548C, 0x5BA2, 0x6237, 0x7AEF, 0x5BC6, 0x94A5, 0x5FC5, 0x987B, 0x540C, 0x65F6, 0x914D, 0x7F6E])
       else Inr ())))"

(* crates/ramag-domain/src/entities/mqtt/connection_config.rs:94-98 MqttTlsConfig::has_certificate_paths *)
definition has_certificate_paths :: "mqtt_tls_config \<Rightarrow> bool" where
  "has_certificate_paths t \<longleftrightarrow>
     tl_ca_cert_path t \<noteq> None \<or> tl_client_cert_path t \<noteq> None \<or> tl_client_key_path t \<noteq> None"

(* crates/ramag-domain/src/entities/mqtt/connection_config.rs:101-108 MosquittoConfigTarget *)
datatype mosquitto_config_target = TargetLocal | TargetSsh ssh_profile_id

(* crates/ramag-domain/src/entities/mqtt/connection_config.rs:110-116 MosquittoStaticConfig *)
record mosquitto_static_config =
  sc_target :: mosquitto_config_target
  sc_password_file :: "string option"
  sc_acl_file :: "string option"

(* crates/ramag-domain/src/entities/mqtt/connection_config.rs:133-140 MosquittoStaticConfig::validate *)
definition validate_static_config :: "mosquitto_static_config \<Rightarrow> string + unit" where
  "validate_static_config c =
     try_r (mq_optional_path (''password_file '' @ utf8 [0x8DEF, 0x5F84]) (sc_password_file c)) (\<lambda>_.
     try_r (mq_optional_path (''acl_file '' @ utf8 [0x8DEF, 0x5F84]) (sc_acl_file c)) (\<lambda>_.
       if sc_password_file c = None \<and> sc_acl_file c = None
       then Inl (''Mosquitto '' @ utf8 [0x9759, 0x6001, 0x914D, 0x7F6E, 0x81F3, 0x5C11, 0x9700, 0x8981] @ '' password_file '' @ utf8 [0x6216] @ '' acl_file'')
       else Inr ()))"

(* crates/ramag-domain/src/entities/mqtt/connection_config.rs:143-153 MosquittoManagementConfig *)
record mosquitto_management_config =
  mg_enabled :: bool
  mg_admin_username :: "string option"
  mg_admin_password :: "string option"
  mg_static_config :: "mosquitto_static_config option"

(* crates/ramag-domain/src/entities/mqtt/connection_config.rs:143-153 MosquittoManagementConfig::default *)
definition management_default :: mosquitto_management_config where
  "management_default = \<lparr>mg_enabled = False, mg_admin_username = None, mg_admin_password = None,
     mg_static_config = None\<rparr>"

text \<open>\<open>as_deref().is_none_or(str::is_empty)\<close>.\<close>

definition none_or_empty :: "string option \<Rightarrow> bool" where
  "none_or_empty v \<longleftrightarrow> (case v of None \<Rightarrow> True | Some s \<Rightarrow> s = [])"

(* crates/ramag-domain/src/entities/mqtt/connection_config.rs:174-193 MosquittoManagementConfig::validate *)
definition validate_management :: "mosquitto_management_config \<Rightarrow> string + unit" where
  "validate_management m =
     try_r (mq_optional_protocol_text (utf8 [0x7BA1, 0x7406, 0x7528, 0x6237, 0x540D]) (mg_admin_username m) MAX_MQTT_USERNAME_BYTES) (\<lambda>_.
     try_r (mq_optional_protocol_text (utf8 [0x7BA1, 0x7406, 0x5BC6, 0x7801]) (mg_admin_password m) MAX_MQTT_PASSWORD_BYTES) (\<lambda>_.
       if mg_admin_password m \<noteq> None \<and> none_or_empty (mg_admin_username m)
       then Inl (utf8 [0x8BBE, 0x7F6E] @ '' Mosquitto '' @ utf8 [0x7BA1, 0x7406, 0x5BC6, 0x7801, 0x65F6, 0x5FC5, 0x987B, 0x540C, 0x65F6, 0x8BBE, 0x7F6E, 0x7BA1, 0x7406, 0x7528, 0x6237, 0x540D])
       else case mg_static_config m of Some c \<Rightarrow> validate_static_config c | None \<Rightarrow> Inr ()))"

(* crates/ramag-domain/src/entities/mqtt/connection_config.rs:196-226 MqttProfile *)
record mqtt_profile =
  mq_id :: mqtt_profile_id
  mq_name :: string
  mq_host :: string
  mq_port :: u16
  mq_transport :: mqtt_transport
  mq_protocol_version :: mqtt_protocol_version
  mq_client_id :: "string option"
  mq_username :: "string option"
  mq_password :: "string option"
  mq_tls :: mqtt_tls_config
  mq_keep_alive_seconds :: u16
  mq_clean_start :: bool
  mq_session_expiry_seconds :: "u32 option"
  mq_subscriptions :: "mqtt_subscription list"
  mq_management :: mosquitto_management_config
  mq_remark :: "string option"

(* crates/ramag-domain/src/entities/mqtt/connection_config.rs:332-338 default_mqtt_subscriptions *)
definition default_mqtt_subscriptions :: "mqtt_subscription list" where
  "default_mqtt_subscriptions = [\<lparr>su_filter = ''+/#'', su_qos = AtLeastOnce, su_no_local = False\<rparr>]"

(* crates/ramag-domain/src/entities/mqtt/connection_config.rs:253-272 MqttProfile::new *)
definition mqtt_profile_new :: "mqtt_profile_id \<Rightarrow> string \<Rightarrow> string \<Rightarrow> u16 \<Rightarrow> mqtt_profile" where
  "mqtt_profile_new fresh_id name host port =
     \<lparr>mq_id = fresh_id, mq_name = name, mq_host = host, mq_port = port, mq_transport = TransportTcp,
      mq_protocol_version = V5, mq_client_id = None, mq_username = None, mq_password = None,
      mq_tls = mqtt_tls_default, mq_keep_alive_seconds = DEFAULT_MQTT_KEEP_ALIVE_SECONDS,
      mq_clean_start = True, mq_session_expiry_seconds = None,
      mq_subscriptions = default_mqtt_subscriptions, mq_management = management_default,
      mq_remark = None\<rparr>"

(* crates/ramag-domain/src/entities/mqtt/connection_config.rs:274-325 MqttProfile::validate *)
definition validate_mqtt_profile :: "mqtt_profile \<Rightarrow> string + unit" where
  "validate_mqtt_profile p =
     try_r (mq_required_text (''MQTT '' @ utf8 [0x914D, 0x7F6E, 0x540D, 0x79F0]) (mq_name p) MAX_MQTT_PROFILE_NAME_BYTES) (\<lambda>_.
     try_r (mq_required_host (mq_host p)) (\<lambda>_.
     if mq_port p = 0 then Inl (''MQTT '' @ utf8 [0x7AEF, 0x53E3, 0x5FC5, 0x987B, 0x662F] @ '' 1 - 65535'')
     else if mq_keep_alive_seconds p \<noteq> 0 \<and> mq_keep_alive_seconds p < 5
     then Inl (''MQTT Keep Alive '' @ utf8 [0x5FC5, 0x987B, 0x4E3A] @ '' 0 '' @ utf8 [0x6216, 0x81F3, 0x5C11] @ '' 5 '' @ utf8 [0x79D2])
     else if mq_protocol_version p = V311 \<and> mq_session_expiry_seconds p \<noteq> None
     then Inl (''MQTT 3.1.1 '' @ utf8 [0x4E0D, 0x80FD, 0x8BBE, 0x7F6E] @ '' MQTT 5 '' @ utf8 [0x4F1A, 0x8BDD, 0x8FC7, 0x671F, 0x65F6, 0x95F4])
     else try_r (validate_mqtt_subscriptions (mq_subscriptions p)) (\<lambda>_.
     if mq_protocol_version p = V311 \<and> list_ex su_no_local (mq_subscriptions p)
     then Inl (''MQTT 3.1.1 '' @ utf8 [0x4E0D, 0x80FD, 0x8BBE, 0x7F6E, 0x8BA2, 0x9605] @ '' No Local'')
     else try_r (mq_optional_single_line ''Client ID'' (mq_client_id p) MAX_MQTT_CLIENT_ID_BYTES) (\<lambda>_.
     try_r (mq_optional_protocol_text (utf8 [0x7528, 0x6237, 0x540D]) (mq_username p) MAX_MQTT_USERNAME_BYTES) (\<lambda>_.
     try_r (mq_optional_protocol_text (utf8 [0x5BC6, 0x7801]) (mq_password p) MAX_MQTT_PASSWORD_BYTES) (\<lambda>_.
     if mq_password p \<noteq> None \<and> none_or_empty (mq_username p)
     then Inl (utf8 [0x8BBE, 0x7F6E] @ '' MQTT '' @ utf8 [0x5BC6, 0x7801, 0x65F6, 0x5FC5, 0x987B, 0x540C, 0x65F6, 0x8BBE, 0x7F6E, 0x7528, 0x6237, 0x540D])
     else try_r (mq_optional_single_line (utf8 [0x5907, 0x6CE8]) (mq_remark p) MAX_MQTT_REMARK_BYTES) (\<lambda>_.
     try_r (validate_mqtt_tls (mq_tls p)) (\<lambda>_.
     if \<not> uses_tls (mq_transport p) \<and> has_certificate_paths (mq_tls p)
     then Inl (utf8 [0x975E] @ '' TLS MQTT '' @ utf8 [0x8FDE, 0x63A5, 0x4E0D, 0x80FD, 0x8BBE, 0x7F6E, 0x8BC1, 0x4E66, 0x8DEF, 0x5F84])
     else if mg_enabled (mq_management p) then validate_management (mq_management p)
     else if mg_admin_username (mq_management p) \<noteq> None
       \<or> mg_admin_password (mq_management p) \<noteq> None
       \<or> mg_static_config (mq_management p) \<noteq> None
     then Inl (utf8 [0x672A, 0x542F, 0x7528] @ '' Mosquitto '' @ utf8 [0x7BA1, 0x7406, 0x65F6, 0x4E0D, 0x80FD, 0x8BBE, 0x7F6E, 0x7BA1, 0x7406, 0x53C2, 0x6570])
     else Inr ()))))))))"

section \<open>Capabilities\<close>

(* crates/ramag-domain/src/entities/mqtt/transport_capabilities.rs:2-6 MqttTransportBackend *)
datatype mqtt_transport_backend = BackendNative | BackendTestDouble

(* crates/ramag-domain/src/entities/mqtt/transport_capabilities.rs:8-23 MqttTransportCapabilities *)
record mqtt_capabilities =
  tc_backend :: mqtt_transport_backend
  tc_build_available :: bool
  tc_mqtt311 :: bool
  tc_mqtt5 :: bool
  tc_tcp :: bool
  tc_tls :: bool
  tc_subscribe :: bool
  tc_publish :: bool
  tc_dynamic_security :: bool
  tc_static_config :: bool
  tc_metrics :: bool
  tc_retained_topics :: bool
  tc_online_clients :: bool

(* crates/ramag-domain/src/entities/mqtt/transport_capabilities.rs:26-42 MqttTransportCapabilities::unknown *)
definition capabilities_unknown :: mqtt_capabilities where
  "capabilities_unknown =
     \<lparr>tc_backend = BackendTestDouble, tc_build_available = False, tc_mqtt311 = False,
      tc_mqtt5 = False, tc_tcp = False, tc_tls = False, tc_subscribe = False, tc_publish = False,
      tc_dynamic_security = False, tc_static_config = False, tc_metrics = False,
      tc_retained_topics = False, tc_online_clients = False\<rparr>"

(* crates/ramag-domain/src/entities/mqtt/transport_capabilities.rs:45-58 MqttTransportCapability *)
datatype mqtt_capability =
    CapMqtt311 | CapMqtt5 | CapTcp | CapTls | CapSubscribe | CapPublish | CapDynamicSecurity
  | CapStaticConfig | CapMetrics | CapRetainedTopics | CapOnlineClients

(* crates/ramag-domain/src/entities/mqtt/transport_capabilities.rs:61-75 MqttTransportCapabilities::supports *)
fun mqtt_supports :: "mqtt_capabilities \<Rightarrow> mqtt_capability \<Rightarrow> bool" where
  "mqtt_supports c CapMqtt311 = tc_mqtt311 c"
| "mqtt_supports c CapMqtt5 = tc_mqtt5 c"
| "mqtt_supports c CapTcp = tc_tcp c"
| "mqtt_supports c CapTls = tc_tls c"
| "mqtt_supports c CapSubscribe = tc_subscribe c"
| "mqtt_supports c CapPublish = tc_publish c"
| "mqtt_supports c CapDynamicSecurity = tc_dynamic_security c"
| "mqtt_supports c CapStaticConfig = tc_static_config c"
| "mqtt_supports c CapMetrics = tc_metrics c"
| "mqtt_supports c CapRetainedTopics = tc_retained_topics c"
| "mqtt_supports c CapOnlineClients = tc_online_clients c"

end
