(* ===== verification/Mqtt_Topics.thy ===== *)
theory Mqtt_Topics
  imports Mqtt_Text
begin

text \<open>
  Matching a topic against the filters of a client
  (\<open>crates/ramag-infra-mqtt/src/local_server.rs\<close>), what the validation of a filter accepts, and the
  reference both are compared with: a filter covers a topic level by level.
\<close>

section \<open>Matching\<close>

text \<open>The loop over the levels of the filter, with the iterator over the levels of the topic.\<close>

(* crates/ramag-infra-mqtt/src/local_server.rs:717-732 topic_filter_matches *)
fun match_levels :: "string list \<Rightarrow> string list \<Rightarrow> bool" where
  "match_levels [] ts \<longleftrightarrow> ts = []"
| "match_levels (f # fs) ts \<longleftrightarrow>
     (if f = ''#'' then True
      else if f = ''+'' then (case ts of [] \<Rightarrow> False | _ # ts' \<Rightarrow> match_levels fs ts')
      else (case ts of [] \<Rightarrow> False | t # ts' \<Rightarrow> if t \<noteq> f then False else match_levels fs ts'))"

(* crates/ramag-infra-mqtt/src/local_server.rs:712-733 topic_filter_matches *)
definition topic_filter_matches :: "string \<Rightarrow> string \<Rightarrow> bool" where
  "topic_filter_matches topic_filter topic =
     match_levels (split_slash topic_filter) (split_slash topic)"

section \<open>The reference\<close>

definition level_fits :: "string \<Rightarrow> string \<Rightarrow> bool" where
  "level_fits f t \<longleftrightarrow> f = ''+'' \<or> f = t"

definition filter_covers :: "string list \<Rightarrow> string list \<Rightarrow> bool" where
  "filter_covers fs ts \<longleftrightarrow>
     (if last fs = ''#''
      then length (butlast fs) \<le> length ts
        \<and> list_all2 level_fits (butlast fs) (take (length (butlast fs)) ts)
      else list_all2 level_fits fs ts)"

definition filter_shape :: "string list \<Rightarrow> bool" where
  "filter_shape ls \<longleftrightarrow>
     (\<forall>l\<in>set (butlast ls). CHR ''#'' \<notin> set l)
     \<and> (last ls = ''#'' \<or> CHR ''#'' \<notin> set (last ls))
     \<and> (\<forall>l\<in>set ls. CHR ''+'' \<in> set l \<longrightarrow> l = ''+'')"

section \<open>Laws\<close>

lemma mq_filter_level_ok:
  "mq_filter_level n (i, l) = Inr u \<longleftrightarrow>
     (CHR ''#'' \<in> set l \<longrightarrow> l = ''#'' \<and> Suc i = n) \<and> (CHR ''+'' \<in> set l \<longrightarrow> l = ''+'')"
  by (auto simp: mq_filter_level_def)

lemma levels_valid:
  assumes "ls \<noteq> []"
  shows "for_r (mq_filter_level (length ls)) (enumerate 0 ls) = Inr () \<longleftrightarrow> filter_shape ls"
proof -
  obtain ms m where ls: "ls = ms @ [m]" using assms by (metis append_butlast_last_id)
  have "for_r (mq_filter_level (length ls)) (enumerate 0 ls) = Inr () \<longleftrightarrow>
      (\<forall>i<length ls. mq_filter_level (length ls) (i, ls ! i) = Inr ())"
    by (auto simp: in_set_enumerate_eq)
  also have "\<dots> \<longleftrightarrow> (\<forall>i<length ms. mq_filter_level (length ls) (i, ms ! i) = Inr ())
      \<and> mq_filter_level (length ls) (length ms, m) = Inr ()"
    by (auto simp: ls nth_append less_Suc_eq)
  also have "\<dots> \<longleftrightarrow> filter_shape ls"
    by (auto simp: ls filter_shape_def mq_filter_level_ok all_set_conv_all_nth)
  finally show ?thesis .
qed

lemma filter_covers_Cons:
  assumes "fs \<noteq> []"
  shows "filter_covers (f # fs) ts \<longleftrightarrow>
    (case ts of [] \<Rightarrow> False | t # u \<Rightarrow> level_fits f t \<and> filter_covers fs u)"
proof -
  obtain gs g where "fs = gs @ [g]" using assms by (metis append_butlast_last_id)
  then show ?thesis by (cases ts) (auto simp: filter_covers_def)
qed

lemma match_levels_shape:
  assumes "fs \<noteq> []" "\<forall>l\<in>set (butlast fs). CHR ''#'' \<notin> set l"
  shows "match_levels fs ts \<longleftrightarrow> filter_covers fs ts"
  using assms
proof (induction fs arbitrary: ts)
  case (Cons f fs)
  show ?case
  proof (cases "fs = []")
    case True
    then show ?thesis
      by (cases ts) (auto simp: filter_covers_def level_fits_def)
  next
    case False
    with Cons.prems have f: "f \<noteq> ''#''" and IH: "match_levels fs u \<longleftrightarrow> filter_covers fs u" for u
      using Cons.IH by (auto split: if_splits)
    then show ?thesis using f
      by (cases ts) (auto simp: IH filter_covers_Cons [OF False] level_fits_def)
  qed
qed simp

text \<open>Splitting loses nothing.\<close>

lemma split_slash_inject: "split_slash s = split_slash t \<longleftrightarrow> s = t"
proof
  show "split_slash s = split_slash t \<Longrightarrow> s = t"
  proof (induction s arbitrary: t)
    case Nil
    then show ?case by (cases t) (auto simp: split_slash_not_Nil [THEN not_sym] split: if_splits)
  next
    case (Cons c s)
    note eq = Cons.prems
    obtain d u where t: "t = d # u" using eq by (cases t) (auto split: if_splits)
    have "c = d \<and> split_slash s = split_slash u"
    proof (cases "c = CHR ''/''"; cases "d = CHR ''/''")
      assume "c \<noteq> CHR ''/''" "d \<noteq> CHR ''/''"
      then show ?thesis using eq unfolding t by (metis list.collapse list.inject split_slash.simps(2) split_slash_not_Nil)
    qed (use eq in \<open>auto simp: t\<close>)
    then show ?case using Cons.IH t by blast
  qed
qed simp

lemma name_levels_fit:
  assumes "\<forall>l\<in>set fs. l \<noteq> ''+''"
  shows "list_all2 level_fits fs ts \<longleftrightarrow> fs = ts"
proof -
  have "list_all2 level_fits fs ts \<longleftrightarrow> list_all2 (=) fs ts"
    using assms by (intro list.rel_cong_simp) (auto simp: level_fits_def simp_implies_def)
  then show ?thesis by (simp add: list.rel_eq)
qed

lemma split_slash_set: "x \<in> set (split_slash s) \<Longrightarrow> c \<in> set x \<Longrightarrow> c \<in> set s"
proof (induction s arbitrary: x)
  case (Cons d s)
  have hd: "hd (split_slash s) \<in> set (split_slash s)" by simp
  have tl: "set (tl (split_slash s)) \<subseteq> set (split_slash s)" by (cases "split_slash s") auto
  show ?case
  proof (cases "d = CHR ''/''")
    case False
    with Cons.prems consider "x = d # hd (split_slash s)" | "x \<in> set (tl (split_slash s))" by auto
    then show ?thesis
    proof cases
      case 1
      then show ?thesis using Cons.IH [OF hd] Cons.prems(2) by auto
    next
      case 2
      then show ?thesis using Cons.IH Cons.prems(2) tl by auto
    qed
  qed (use Cons in auto)
qed simp

text \<open>A text without wildcards is a filter for itself alone.\<close>

lemma plain_filter_matches:
  assumes "CHR ''+'' \<notin> set f" "CHR ''#'' \<notin> set f"
  shows "topic_filter_matches f t \<longleftrightarrow> f = t"
proof -
  have p: "l \<noteq> ''+''" "CHR ''#'' \<notin> set l" if "l \<in> set (split_slash f)" for l
    using that assms split_slash_set by fastforce+
  then have l: "last (split_slash f) \<noteq> ''#''" by (metis last_in_set list.set_intros(1) split_slash_not_Nil)
  have "topic_filter_matches f t \<longleftrightarrow> filter_covers (split_slash f) (split_slash t)"
    unfolding topic_filter_matches_def using p by (intro match_levels_shape) (auto dest: in_set_butlastD)
  also have "\<dots> \<longleftrightarrow> split_slash f = split_slash t"
    using l p by (simp add: filter_covers_def name_levels_fit)
  finally show ?thesis by (simp add: split_slash_inject)
qed

lemma validate_topic_name_ok:
  "validate_mqtt_topic_name t = Inr u \<longleftrightarrow>
     t \<noteq> [] \<and> length t \<le> MAX_MQTT_TOPIC_BYTES \<and> CHR 0x00 \<notin> set t
     \<and> CHR ''+'' \<notin> set t \<and> CHR ''#'' \<notin> set t"
  by (auto simp: validate_mqtt_topic_name_def mq_protocol_text_def split: if_splits)

lemma validate_filter_ok:
  "validate_mqtt_topic_filter f = Inr u \<longleftrightarrow>
     f \<noteq> [] \<and> length f \<le> MAX_MQTT_TOPIC_BYTES \<and> CHR 0x00 \<notin> set f
     \<and> (\<exists>g. mq_shared_filter f = Inr g \<and> filter_shape (split_slash g))"
  by (auto simp: validate_mqtt_topic_filter_def mq_protocol_text_def Let_def levels_valid
      simp del: for_r_ok split: if_splits)

end
