(* ===== verification/Mqtt_Message.thy ===== *)
theory Mqtt_Message
  imports Mqtt_Topics
begin

text \<open>
  Messages, the events and the snapshot of a broker
  (\<open>crates/ramag-domain/src/entities/mqtt_protocol.rs\<close>) with their validation.  A payload is the list
  of its bytes, a \<open>DateTime<Utc>\<close> the milliseconds since the epoch.
\<close>

type_synonym utc = int

section \<open>Limits\<close>

(* crates/ramag-domain/src/entities/mqtt_protocol.rs:16-16 MAX_MQTT_USER_PROPERTIES *)
definition MAX_MQTT_USER_PROPERTIES :: nat where
  [limits]: "MAX_MQTT_USER_PROPERTIES = 64"

(* crates/ramag-domain/src/entities/mqtt_protocol.rs:17-17 MAX_MQTT_USER_PROPERTY_BYTES *)
definition MAX_MQTT_USER_PROPERTY_BYTES :: nat where
  [limits]: "MAX_MQTT_USER_PROPERTY_BYTES = 8 * 1024"

(* crates/ramag-domain/src/entities/mqtt_protocol.rs:18-18 MAX_MQTT_TOPIC_OBSERVATIONS *)
definition MAX_MQTT_TOPIC_OBSERVATIONS :: nat where
  [limits]: "MAX_MQTT_TOPIC_OBSERVATIONS = 4096"

(* crates/ramag-domain/src/entities/mqtt_protocol.rs:19-19 MAX_MQTT_ONLINE_CLIENTS *)
definition MAX_MQTT_ONLINE_CLIENTS :: nat where
  [limits]: "MAX_MQTT_ONLINE_CLIENTS = 4096"

section \<open>Texts and payloads\<close>

(* crates/ramag-domain/src/entities/mqtt_protocol.rs:627-638 validate_text *)
definition mp_text :: "string \<Rightarrow> string \<Rightarrow> nat \<Rightarrow> string + unit" where
  "mp_text label v max_bytes =
     (if max_bytes < length v
      then Inl (label @ (utf8 [0x8FC7, 0x957F, 0xFF1A]) @ dec (length v) @ ('' bytes'' @ utf8 [0xFF0C, 0x6700, 0x591A] @ '' '') @ dec max_bytes @ '' bytes'')
      else if CHR 0x00 \<in> set v \<or> has_control v then Inl (label @ (utf8 [0x4E0D, 0x80FD, 0x5305, 0x542B, 0x63A7, 0x5236, 0x5B57, 0x7B26]))
      else Inr ())"

(* crates/ramag-domain/src/entities/mqtt_protocol.rs:616-625 validate_optional_text *)
definition mp_optional_text :: "string \<Rightarrow> string option \<Rightarrow> nat \<Rightarrow> string + unit" where
  "mp_optional_text label v max_bytes =
     (case v of None \<Rightarrow> Inr () | Some v \<Rightarrow> mp_text label v max_bytes)"

(* crates/ramag-domain/src/entities/mqtt_protocol.rs:595-602 validate_payload_len *)
definition validate_payload_len :: "nat \<Rightarrow> string + unit" where
  "validate_payload_len n =
     (if MAX_MQTT_PUBLISH_PAYLOAD_BYTES < n
      then Inl ((''MQTT '' @ utf8 [0x6D88, 0x606F, 0x8D1F, 0x8F7D, 0x4E0D, 0x80FD, 0x8D85, 0x8FC7] @ '' '') @ dec MAX_MQTT_PUBLISH_PAYLOAD_BYTES @ '' bytes'')
      else Inr ())"

(* crates/ramag-domain/src/entities/mqtt_protocol.rs:119-123 MqttUserProperty *)
record mqtt_user_property =
  up_name :: string
  up_value :: string

(* crates/ramag-domain/src/entities/mqtt_protocol.rs:126-137 MqttUserProperty::validate *)
definition validate_user_property :: "mqtt_user_property \<Rightarrow> string + unit" where
  "validate_user_property p =
     try_r (mp_text (''MQTT 5 User Property '' @ utf8 [0x540D, 0x79F0]) (up_name p) MAX_MQTT_USER_PROPERTY_BYTES) (\<lambda>_.
       mp_text (''MQTT 5 User Property '' @ utf8 [0x503C]) (up_value p) MAX_MQTT_USER_PROPERTY_BYTES)"

(* crates/ramag-domain/src/entities/mqtt_protocol.rs:604-614 validate_user_properties *)
definition validate_user_properties :: "mqtt_user_property list \<Rightarrow> string + unit" where
  "validate_user_properties ps =
     (if MAX_MQTT_USER_PROPERTIES < length ps
      then Inl ((''MQTT 5 User Property '' @ utf8 [0x6570, 0x91CF, 0x4E0D, 0x80FD, 0x8D85, 0x8FC7] @ '' '') @ dec MAX_MQTT_USER_PROPERTIES)
      else for_r validate_user_property ps)"

section \<open>Messages\<close>

(* crates/ramag-domain/src/entities/mqtt_protocol.rs:140-150 MqttPublishRequest *)
record mqtt_publish_request =
  pr_topic :: string
  pr_payload :: "u8 list"
  pr_qos :: mqtt_qos
  pr_retain :: bool
  pr_user_properties :: "mqtt_user_property list"

(* crates/ramag-domain/src/entities/mqtt_protocol.rs:166-170 MqttPublishRequest::validate *)
definition validate_publish_request :: "mqtt_publish_request \<Rightarrow> string + unit" where
  "validate_publish_request r =
     try_r (validate_mqtt_topic_name (pr_topic r)) (\<lambda>_.
     try_r (validate_payload_len (length (pr_payload r))) (\<lambda>_.
       validate_user_properties (pr_user_properties r)))"

(* crates/ramag-domain/src/entities/mqtt_protocol.rs:173-179 MqttPublishResult *)
record mqtt_publish_result =
  ps_topic :: string
  ps_packet_id :: "u16 option"
  ps_qos :: mqtt_qos

(* crates/ramag-domain/src/entities/mqtt_protocol.rs:182-184 MqttPublishResult::validate *)
definition validate_result :: "mqtt_publish_result \<Rightarrow> string + unit" where
  "validate_result r = validate_mqtt_topic_name (ps_topic r)"

(* crates/ramag-domain/src/entities/mqtt_protocol.rs:187-199 MqttMessage *)
record mqtt_message =
  mm_topic :: string
  mm_payload :: "u8 list"
  mm_qos :: mqtt_qos
  mm_retain :: bool
  mm_duplicate :: bool
  mm_received_at :: utc
  mm_user_properties :: "mqtt_user_property list"

(* crates/ramag-domain/src/entities/mqtt_protocol.rs:217-221 MqttMessage::validate *)
definition validate_message :: "mqtt_message \<Rightarrow> string + unit" where
  "validate_message m =
     try_r (validate_mqtt_topic_name (mm_topic m)) (\<lambda>_.
     try_r (validate_payload_len (length (mm_payload m))) (\<lambda>_.
       validate_user_properties (mm_user_properties m)))"

section \<open>Clients and events\<close>

(* crates/ramag-domain/src/entities/mqtt_protocol.rs:361-372 MqttOnlineClient *)
record mqtt_online_client =
  oc_client_id :: string
  oc_username :: "string option"
  oc_remote_address :: "string option"
  oc_connected_at :: "utc option"
  oc_subscriptions :: "mqtt_subscription list"

(* crates/ramag-domain/src/entities/mqtt_protocol.rs:375-400 MqttOnlineClient::validate *)
definition validate_online_client :: "mqtt_online_client \<Rightarrow> string + unit" where
  "validate_online_client c =
     try_r (mp_text (utf8 [0x5728, 0x7EBF, 0x5BA2, 0x6237, 0x7AEF] @ '' Client ID'') (oc_client_id c) MAX_MOSQUITTO_NAME_BYTES) (\<lambda>_.
     try_r (mp_optional_text (utf8 [0x5728, 0x7EBF, 0x5BA2, 0x6237, 0x7AEF, 0x7528, 0x6237, 0x540D]) (oc_username c) MAX_MOSQUITTO_NAME_BYTES) (\<lambda>_.
     try_r (mp_optional_text (utf8 [0x5728, 0x7EBF, 0x5BA2, 0x6237, 0x7AEF, 0x5730, 0x5740]) (oc_remote_address c) MAX_MOSQUITTO_NAME_BYTES) (\<lambda>_.
       if MAX_MQTT_SUBSCRIPTIONS < length (oc_subscriptions c)
       then Inl ((utf8 [0x5728, 0x7EBF, 0x5BA2, 0x6237, 0x7AEF, 0x8BA2, 0x9605, 0x6570, 0x91CF, 0x4E0D, 0x80FD, 0x8D85, 0x8FC7] @ '' '') @ dec MAX_MQTT_SUBSCRIPTIONS)
       else for_r validate_subscription (oc_subscriptions c))))"

(* crates/ramag-domain/src/entities/mqtt_protocol.rs:237-268 MqttLocalServerEvent *)
datatype mqtt_event =
    ClientConnected mqtt_online_client utc
  | ClientDisconnected string "string option" utc
  | ClientSubscribed string mqtt_subscription utc
  | ClientUnsubscribed string string utc
  | ClientPublished string mqtt_message utc
  | BrokerPublished mqtt_message utc

(* crates/ramag-domain/src/entities/mqtt_protocol.rs:271-318 MqttLocalServerEvent::validate *)
fun validate_event :: "mqtt_event \<Rightarrow> string + unit" where
  "validate_event (ClientConnected client _) = validate_online_client client"
| "validate_event (ClientDisconnected client_id reason _) =
     try_r (mp_text (utf8 [0x65AD, 0x5F00, 0x8FDE, 0x63A5, 0x4E8B, 0x4EF6] @ '' Client ID'') client_id MAX_MOSQUITTO_NAME_BYTES) (\<lambda>_.
       mp_optional_text (utf8 [0x65AD, 0x5F00, 0x8FDE, 0x63A5, 0x4E8B, 0x4EF6, 0x539F, 0x56E0]) reason MAX_MOSQUITTO_NAME_BYTES)"
| "validate_event (ClientSubscribed client_id s _) =
     try_r (mp_text (utf8 [0x8BA2, 0x9605, 0x4E8B, 0x4EF6] @ '' Client ID'') client_id MAX_MOSQUITTO_NAME_BYTES) (\<lambda>_.
       validate_subscription s)"
| "validate_event (ClientUnsubscribed client_id topic_filter _) =
     try_r (mp_text (utf8 [0x53D6, 0x6D88, 0x8BA2, 0x9605, 0x4E8B, 0x4EF6] @ '' Client ID'') client_id MAX_MOSQUITTO_NAME_BYTES) (\<lambda>_.
       validate_mqtt_topic_filter topic_filter)"
| "validate_event (ClientPublished client_id m _) =
     try_r (mp_text (utf8 [0x5BA2, 0x6237, 0x7AEF, 0x53D1, 0x5E03, 0x4E8B, 0x4EF6] @ '' Client ID'') client_id MAX_MOSQUITTO_NAME_BYTES) (\<lambda>_.
       validate_message m)"
| "validate_event (BrokerPublished m _) = validate_message m"

(* crates/ramag-domain/src/entities/mqtt_protocol.rs:321-326 MqttLocalServerEventSinkResult *)
datatype event_sink_result = SinkAccepted | SinkBackpressured | SinkClosed

section \<open>Snapshots\<close>

(* crates/ramag-domain/src/entities/mqtt_protocol.rs:331-337 MqttTopicSource *)
datatype mqtt_topic_source = SourceObserved | SourceRetained | SourceAcl | SourceSys

(* crates/ramag-domain/src/entities/mqtt_protocol.rs:339-353 MqttTopicObservation *)
record mqtt_topic_observation =
  to_name :: string
  to_source :: mqtt_topic_source
  to_retained :: bool
  to_observed_at :: "utc option"
  to_publish_count :: u64
  to_subscriber_count :: nat
  to_last_payload_bytes :: nat

(* crates/ramag-domain/src/entities/mqtt_protocol.rs:404-434 MqttBrokerMetrics *)
record mqtt_broker_metrics =
  bm_current_connections :: u64
  bm_max_connections :: u64
  bm_peak_connections :: u64
  bm_accepted_connections :: u64
  bm_closed_connections :: u64
  bm_active_subscriptions :: nat
  bm_published_messages :: u64
  bm_retained_messages :: nat
  bm_event_queue_depth :: nat
  bm_event_queue_capacity :: nat
  bm_command_queue_depth :: nat
  bm_command_queue_capacity :: nat
  bm_dropped_events :: u64
  bm_dropped_topics :: u64

(* crates/ramag-domain/src/entities/mqtt_protocol.rs:438-453 MqttBrokerMetrics::validate *)
definition validate_metrics :: "mqtt_broker_metrics \<Rightarrow> string + unit" where
  "validate_metrics m =
     (if 0 < bm_max_connections m \<and> bm_max_connections m < bm_current_connections m
      then Inl (''MQTT '' @ utf8 [0x5F53, 0x524D, 0x8FDE, 0x63A5, 0x6570, 0x4E0D, 0x80FD, 0x8D85, 0x8FC7, 0x8FDE, 0x63A5, 0x4E0A, 0x9650])
      else if bm_peak_connections m < bm_current_connections m
      then Inl (''MQTT '' @ utf8 [0x5CF0, 0x503C, 0x8FDE, 0x63A5, 0x6570, 0x4E0D, 0x80FD, 0x5C0F, 0x4E8E, 0x5F53, 0x524D, 0x8FDE, 0x63A5, 0x6570])
      else if 0 < bm_event_queue_capacity m \<and> bm_event_queue_capacity m < bm_event_queue_depth m
      then Inl (''MQTT '' @ utf8 [0x4E8B, 0x4EF6, 0x961F, 0x5217, 0x6DF1, 0x5EA6, 0x4E0D, 0x80FD, 0x8D85, 0x8FC7, 0x5BB9, 0x91CF])
      else if 0 < bm_command_queue_capacity m \<and> bm_command_queue_capacity m < bm_command_queue_depth m
      then Inl (''MQTT '' @ utf8 [0x63A7, 0x5236, 0x961F, 0x5217, 0x6DF1, 0x5EA6, 0x4E0D, 0x80FD, 0x8D85, 0x8FC7, 0x5BB9, 0x91CF])
      else Inr ())"

(* crates/ramag-domain/src/entities/mqtt_protocol.rs:456-468 MqttBrokerSnapshot *)
record mqtt_broker_snapshot =
  bs_topics :: "mqtt_topic_observation list"
  bs_online_clients :: "mqtt_online_client list"
  bs_topics_complete :: bool
  bs_online_clients_complete :: bool
  bs_metrics :: mqtt_broker_metrics

(* crates/ramag-domain/src/entities/mqtt_protocol.rs:471-488 MqttBrokerSnapshot::validate *)
definition validate_snapshot :: "mqtt_broker_snapshot \<Rightarrow> string + mqtt_broker_snapshot" where
  "validate_snapshot s =
     (if MAX_MQTT_TOPIC_OBSERVATIONS < length (bs_topics s)
      then Inl ((''MQTT Topic '' @ utf8 [0x89C2, 0x5BDF, 0x8BB0, 0x5F55, 0x4E0D, 0x80FD, 0x8D85, 0x8FC7] @ '' '') @ dec MAX_MQTT_TOPIC_OBSERVATIONS)
      else if MAX_MQTT_ONLINE_CLIENTS < length (bs_online_clients s)
      then Inl ((''MQTT '' @ utf8 [0x5728, 0x7EBF, 0x5BA2, 0x6237, 0x7AEF, 0x4E0D, 0x80FD, 0x8D85, 0x8FC7] @ '' '') @ dec MAX_MQTT_ONLINE_CLIENTS)
      else try_r (for_r (\<lambda>t. validate_mqtt_topic_name (to_name t)) (bs_topics s)) (\<lambda>_.
           try_r (for_r validate_online_client (bs_online_clients s)) (\<lambda>_.
           try_r (validate_metrics (bs_metrics s)) (\<lambda>_. Inr s))))"

section \<open>Laws\<close>

lemma mp_text_ok:
  "mp_text l v n = Inr u \<longleftrightarrow> length v \<le> n \<and> CHR 0x00 \<notin> set v \<and> \<not> has_control v"
  by (auto simp: mp_text_def)

lemma mp_optional_text_ok:
  "mp_optional_text l v n = Inr u \<longleftrightarrow>
     (\<forall>t. v = Some t \<longrightarrow> length t \<le> n \<and> CHR 0x00 \<notin> set t \<and> \<not> has_control t)"
  by (auto simp: mp_optional_text_def mp_text_ok split: option.splits)

lemma validate_message_topic:
  "validate_message m = Inr u \<Longrightarrow> validate_mqtt_topic_name (mm_topic m) = Inr ()"
  by (simp add: validate_message_def)

lemma validate_metrics_ok:
  "validate_metrics m = Inr u \<longleftrightarrow>
     (0 < bm_max_connections m \<longrightarrow> bm_current_connections m \<le> bm_max_connections m)
     \<and> bm_current_connections m \<le> bm_peak_connections m
     \<and> (0 < bm_event_queue_capacity m \<longrightarrow> bm_event_queue_depth m \<le> bm_event_queue_capacity m)
     \<and> (0 < bm_command_queue_capacity m \<longrightarrow> bm_command_queue_depth m \<le> bm_command_queue_capacity m)"
  unfolding validate_metrics_def if_Inl not_less [symmetric] by auto

lemma validate_snapshot_ok:
  "validate_snapshot s = Inr s' \<longleftrightarrow>
     s' = s \<and> length (bs_topics s) \<le> MAX_MQTT_TOPIC_OBSERVATIONS
     \<and> length (bs_online_clients s) \<le> MAX_MQTT_ONLINE_CLIENTS
     \<and> (\<forall>t\<in>set (bs_topics s). validate_mqtt_topic_name (to_name t) = Inr ())
     \<and> (\<forall>c\<in>set (bs_online_clients s). validate_online_client c = Inr ())
     \<and> validate_metrics (bs_metrics s) = Inr ()"
  by (auto simp: validate_snapshot_def)

end
