(* ===== verification/Mqtt_Management.thy ===== *)
theory Mqtt_Management
  imports Mqtt_Profile Mqtt_Message
begin

text \<open>
  The objects of Mosquitto's dynamic security
  (\<open>crates/ramag-domain/src/entities/mqtt/dynamic_security_entities.rs\<close>), the snapshot of them and the
  static configuration files (\<open>mqtt_protocol.rs\<close>).  An \<open>i32\<close> priority is a \<open>32 word\<close> read as signed.
\<close>

section \<open>Access control\<close>

(* crates/ramag-domain/src/entities/mqtt/dynamic_security_entities.rs:2-12 MosquittoAclType *)
datatype mosquitto_acl_type =
    PublishClientSend | PublishClientReceive | AclSubscribe | AclUnsubscribe
  | SubscribeLiteral | SubscribePattern | UnsubscribeLiteral | UnsubscribePattern

(* crates/ramag-domain/src/entities/mqtt/dynamic_security_entities.rs:14-25 MosquittoAclType::as_str *)
fun acl_type_as_str :: "mosquitto_acl_type \<Rightarrow> string" where
  "acl_type_as_str PublishClientSend = ''publishClientSend''"
| "acl_type_as_str PublishClientReceive = ''publishClientReceive''"
| "acl_type_as_str AclSubscribe = ''subscribe''"
| "acl_type_as_str AclUnsubscribe = ''unsubscribe''"
| "acl_type_as_str SubscribeLiteral = ''subscribeLiteral''"
| "acl_type_as_str SubscribePattern = ''subscribePattern''"
| "acl_type_as_str UnsubscribeLiteral = ''unsubscribeLiteral''"
| "acl_type_as_str UnsubscribePattern = ''unsubscribePattern''"

(* crates/ramag-domain/src/entities/mqtt/dynamic_security_entities.rs:28-32 MosquittoAclDecision *)
datatype mosquitto_acl_decision = AclAllow | AclDeny

(* crates/ramag-domain/src/entities/mqtt/dynamic_security_entities.rs:34-41 MosquittoAcl *)
record mosquitto_acl =
  ac_type :: mosquitto_acl_type
  ac_topic :: string
  ac_decision :: mosquitto_acl_decision
  ac_priority :: "32 word"

(* crates/ramag-domain/src/entities/mqtt/dynamic_security_entities.rs:44-58 MosquittoAcl::validate *)
definition validate_acl :: "mosquitto_acl \<Rightarrow> string + unit" where
  "validate_acl a =
     (if ac_type a = AclSubscribe \<or> ac_type a = AclUnsubscribe
      then Inl (''Mosquitto Dynamic Security '' @ utf8 [0x4E0D, 0x652F, 0x6301, 0x672A, 0x533A, 0x5206, 0x7C7B, 0x578B, 0x7684] @ '' subscribe '' @ utf8 [0x6216] @ '' unsubscribe ACL'')
      else try_r (validate_mqtt_topic_filter (ac_topic a)) (\<lambda>_.
        if sint (ac_priority a) < - 1 \<or> 100000 < sint (ac_priority a)
        then Inl (''Mosquitto ACL '' @ utf8 [0x4F18, 0x5148, 0x7EA7, 0x5FC5, 0x987B, 0x662F] @ '' -1 '' @ utf8 [0x5230] @ '' 100000'')
        else Inr ()))"

(* crates/ramag-domain/src/entities/mqtt/dynamic_security_entities.rs:61-63 default_acl_priority *)
definition default_acl_priority :: "32 word" where
  "default_acl_priority = - 1"

(* crates/ramag-domain/src/entities/mqtt/dynamic_security_entities.rs:65-70 MosquittoRoleBinding *)
record mosquitto_role_binding =
  rb_role_name :: string
  rb_priority :: "32 word"

(* crates/ramag-domain/src/entities/mqtt/dynamic_security_entities.rs:73-79 MosquittoRoleBinding::validate *)
definition validate_role_binding :: "mosquitto_role_binding \<Rightarrow> string + unit" where
  "validate_role_binding b =
     try_r (mq_required_text (''Role '' @ utf8 [0x540D, 0x79F0]) (rb_role_name b) MAX_MOSQUITTO_NAME_BYTES) (\<lambda>_.
       if sint (rb_priority b) < - 1 \<or> 100000 < sint (rb_priority b)
       then Inl (''Role '' @ utf8 [0x4F18, 0x5148, 0x7EA7, 0x5FC5, 0x987B, 0x662F] @ '' -1 '' @ utf8 [0x5230] @ '' 100000'') else Inr ())"

(* crates/ramag-domain/src/entities/mqtt/dynamic_security_entities.rs:82-87 MosquittoGroupBinding *)
record mosquitto_group_binding =
  gb_group_name :: string
  gb_priority :: "32 word"

(* crates/ramag-domain/src/entities/mqtt/dynamic_security_entities.rs:90-96 MosquittoGroupBinding::validate *)
definition validate_group_binding :: "mosquitto_group_binding \<Rightarrow> string + unit" where
  "validate_group_binding b =
     try_r (mq_required_text (''Group '' @ utf8 [0x540D, 0x79F0]) (gb_group_name b) MAX_MOSQUITTO_NAME_BYTES) (\<lambda>_.
       if sint (gb_priority b) < - 1 \<or> 100000 < sint (gb_priority b)
       then Inl (''Group '' @ utf8 [0x4F18, 0x5148, 0x7EA7, 0x5FC5, 0x987B, 0x662F] @ '' -1 '' @ utf8 [0x5230] @ '' 100000'') else Inr ())"

(* crates/ramag-domain/src/entities/mqtt/dynamic_security_entities.rs:99-119 MosquittoClient *)
record mosquitto_client =
  mc_username :: string
  mc_client_id :: "string option"
  mc_password_configured :: bool
  mc_password :: "string option"
  mc_disabled :: bool
  mc_text_name :: "string option"
  mc_text_description :: "string option"
  mc_groups :: "mosquitto_group_binding list"
  mc_roles :: "mosquitto_role_binding list"

(* crates/ramag-domain/src/entities/mqtt/dynamic_security_entities.rs:139-168 MosquittoClient::validate *)
definition validate_mosquitto_client :: "mosquitto_client \<Rightarrow> string + unit" where
  "validate_mosquitto_client c =
     try_r (mq_required_text (utf8 [0x5BA2, 0x6237, 0x7AEF, 0x7528, 0x6237, 0x540D]) (mc_username c) MAX_MOSQUITTO_NAME_BYTES) (\<lambda>_.
     try_r (mq_optional_protocol_text (utf8 [0x5BA2, 0x6237, 0x7AEF, 0x5BC6, 0x7801]) (mc_password c) MAX_MQTT_PASSWORD_BYTES) (\<lambda>_.
     try_r (mq_optional_single_line (utf8 [0x5BA2, 0x6237, 0x7AEF] @ '' Client ID'') (mc_client_id c) MAX_MQTT_CLIENT_ID_BYTES) (\<lambda>_.
     try_r (mq_optional_single_line (utf8 [0x5BA2, 0x6237, 0x7AEF, 0x663E, 0x793A, 0x540D, 0x79F0]) (mc_text_name c) MAX_MOSQUITTO_NAME_BYTES) (\<lambda>_.
     try_r (mq_optional_text (utf8 [0x5BA2, 0x6237, 0x7AEF, 0x63CF, 0x8FF0]) (mc_text_description c) MAX_MOSQUITTO_DESCRIPTION_BYTES) (\<lambda>_.
     try_r (for_r validate_group_binding (mc_groups c)) (\<lambda>_.
       for_r validate_role_binding (mc_roles c)))))))"

(* crates/ramag-domain/src/entities/mqtt/dynamic_security_entities.rs:171-180 MosquittoGroup *)
record mosquitto_group =
  gr_group_name :: string
  gr_text_name :: "string option"
  gr_text_description :: "string option"
  gr_roles :: "mosquitto_role_binding list"

(* crates/ramag-domain/src/entities/mqtt/dynamic_security_entities.rs:183-199 MosquittoGroup::validate *)
definition validate_mosquitto_group :: "mosquitto_group \<Rightarrow> string + unit" where
  "validate_mosquitto_group g =
     try_r (mq_required_text (''Group '' @ utf8 [0x540D, 0x79F0]) (gr_group_name g) MAX_MOSQUITTO_NAME_BYTES) (\<lambda>_.
     try_r (mq_optional_single_line (''Group '' @ utf8 [0x663E, 0x793A, 0x540D, 0x79F0]) (gr_text_name g) MAX_MOSQUITTO_NAME_BYTES) (\<lambda>_.
     try_r (mq_optional_text (''Group '' @ utf8 [0x63CF, 0x8FF0]) (gr_text_description g) MAX_MOSQUITTO_DESCRIPTION_BYTES) (\<lambda>_.
       for_r validate_role_binding (gr_roles g))))"

(* crates/ramag-domain/src/entities/mqtt/dynamic_security_entities.rs:202-214 MosquittoRole *)
record mosquitto_role =
  ro_role_name :: string
  ro_text_name :: "string option"
  ro_text_description :: "string option"
  ro_allow_wildcards :: bool
  ro_acls :: "mosquitto_acl list"

(* crates/ramag-domain/src/entities/mqtt/dynamic_security_entities.rs:217-236 MosquittoRole::validate *)
definition validate_mosquitto_role :: "mosquitto_role \<Rightarrow> string + unit" where
  "validate_mosquitto_role r =
     try_r (mq_required_text (''Role '' @ utf8 [0x540D, 0x79F0]) (ro_role_name r) MAX_MOSQUITTO_NAME_BYTES) (\<lambda>_.
     try_r (mq_optional_single_line (''Role '' @ utf8 [0x663E, 0x793A, 0x540D, 0x79F0]) (ro_text_name r) MAX_MOSQUITTO_NAME_BYTES) (\<lambda>_.
     try_r (mq_optional_text (''Role '' @ utf8 [0x63CF, 0x8FF0]) (ro_text_description r) MAX_MOSQUITTO_DESCRIPTION_BYTES) (\<lambda>_.
       if MAX_MOSQUITTO_ACLS < length (ro_acls r)
       then Inl ((''Role ACL '' @ utf8 [0x6570, 0x91CF, 0x4E0D, 0x80FD, 0x8D85, 0x8FC7] @ '' '') @ dec MAX_MOSQUITTO_ACLS)
       else for_r validate_acl (ro_acls r))))"

section \<open>The snapshot\<close>

(* crates/ramag-domain/src/entities/mqtt_protocol.rs:20-20 MAX_MOSQUITTO_CLIENTS *)
definition MAX_MOSQUITTO_CLIENTS :: nat where
  [limits]: "MAX_MOSQUITTO_CLIENTS = 4096"

(* crates/ramag-domain/src/entities/mqtt_protocol.rs:21-21 MAX_MOSQUITTO_GROUPS *)
definition MAX_MOSQUITTO_GROUPS :: nat where
  [limits]: "MAX_MOSQUITTO_GROUPS = 4096"

(* crates/ramag-domain/src/entities/mqtt_protocol.rs:22-22 MAX_MOSQUITTO_ROLES *)
definition MAX_MOSQUITTO_ROLES :: nat where
  [limits]: "MAX_MOSQUITTO_ROLES = 4096"

(* crates/ramag-domain/src/entities/mqtt_protocol.rs:491-499 MosquittoDynamicSecuritySnapshot *)
record dynamic_security_snapshot =
  ds_clients :: "mosquitto_client list"
  ds_groups :: "mosquitto_group list"
  ds_roles :: "mosquitto_role list"

(* crates/ramag-domain/src/entities/mqtt_protocol.rs:502-526 MosquittoDynamicSecuritySnapshot::validate *)
definition validate_security_snapshot ::
  "dynamic_security_snapshot \<Rightarrow> string + dynamic_security_snapshot" where
  "validate_security_snapshot s =
     (if MAX_MOSQUITTO_CLIENTS < length (ds_clients s)
      then Inl ((''Mosquitto '' @ utf8 [0x5BA2, 0x6237, 0x7AEF, 0x6570, 0x91CF, 0x4E0D, 0x80FD, 0x8D85, 0x8FC7] @ '' '') @ dec MAX_MOSQUITTO_CLIENTS)
      else if MAX_MOSQUITTO_GROUPS < length (ds_groups s)
      then Inl ((''Mosquitto Group '' @ utf8 [0x6570, 0x91CF, 0x4E0D, 0x80FD, 0x8D85, 0x8FC7] @ '' '') @ dec MAX_MOSQUITTO_GROUPS)
      else if MAX_MOSQUITTO_ROLES < length (ds_roles s)
      then Inl ((''Mosquitto Role '' @ utf8 [0x6570, 0x91CF, 0x4E0D, 0x80FD, 0x8D85, 0x8FC7] @ '' '') @ dec MAX_MOSQUITTO_ROLES)
      else try_r (for_r validate_mosquitto_client (ds_clients s)) (\<lambda>_.
           try_r (for_r validate_mosquitto_group (ds_groups s)) (\<lambda>_.
           try_r (for_r validate_mosquitto_role (ds_roles s)) (\<lambda>_. Inr s))))"

section \<open>Static files\<close>

(* crates/ramag-domain/src/entities/mqtt_protocol.rs:23-23 MAX_MOSQUITTO_STATIC_FILE_BYTES *)
definition MAX_MOSQUITTO_STATIC_FILE_BYTES :: nat where
  [limits]: "MAX_MOSQUITTO_STATIC_FILE_BYTES = 16 * 1024 * 1024"

(* crates/ramag-domain/src/entities/mqtt_protocol.rs:529-533 MosquittoStaticFileKind *)
datatype static_file_kind = PasswordFile | AclFile

(* crates/ramag-domain/src/entities/mqtt_protocol.rs:536-541 MosquittoStaticFileKind::label *)
fun static_file_label :: "static_file_kind \<Rightarrow> string" where
  "static_file_label PasswordFile = ''password_file''"
| "static_file_label AclFile = ''acl_file''"

(* crates/ramag-domain/src/entities/mqtt_protocol.rs:543-552 MosquittoStaticFileKind::configured_path *)
definition configured_path :: "static_file_kind \<Rightarrow> mqtt_profile \<Rightarrow> string option" where
  "configured_path kind profile =
     (case mg_static_config (mq_management profile) of
        None \<Rightarrow> None
      | Some config \<Rightarrow>
          (case kind of PasswordFile \<Rightarrow> sc_password_file config | AclFile \<Rightarrow> sc_acl_file config))"

(* crates/ramag-domain/src/entities/mqtt_protocol.rs:555-560 MosquittoStaticFile *)
record mosquitto_static_file =
  sf_kind :: static_file_kind
  sf_path :: string
  sf_content :: string

(* crates/ramag-domain/src/entities/mqtt_protocol.rs:574-592 MosquittoStaticFile::validate *)
definition validate_mosquitto_file :: "mosquitto_static_file \<Rightarrow> string + unit" where
  "validate_mosquitto_file f =
     (if trim (sf_path f) = []
      then Inl (''Mosquitto '' @ static_file_label (sf_kind f) @ ('' '' @ utf8 [0x8DEF, 0x5F84, 0x4E0D, 0x80FD, 0x4E3A, 0x7A7A]))
      else try_r (mp_text (''Mosquitto '' @ utf8 [0x9759, 0x6001, 0x914D, 0x7F6E, 0x8DEF, 0x5F84]) (sf_path f) MAX_MQTT_TLS_PATH_BYTES) (\<lambda>_.
        if MAX_MOSQUITTO_STATIC_FILE_BYTES < length (sf_content f)
        then Inl ((''Mosquitto '' @ utf8 [0x9759, 0x6001, 0x914D, 0x7F6E, 0x5185, 0x5BB9, 0x4E0D, 0x80FD, 0x8D85, 0x8FC7] @ '' '') @ dec MAX_MOSQUITTO_STATIC_FILE_BYTES @ '' bytes'')
        else if CHR 0x00 \<in> set (sf_content f) then Inl (''Mosquitto '' @ utf8 [0x9759, 0x6001, 0x914D, 0x7F6E, 0x4E0D, 0x80FD, 0x5305, 0x542B] @ '' NUL '' @ utf8 [0x5B57, 0x7B26])
        else Inr ()))"

end
