(* ===== verification/Rust_Ip.thy ===== *)
theory Rust_Ip
  imports Rust_Text
begin

text \<open>
  \<open>str::parse::<std::net::IpAddr>()\<close>: the recursive descent of the standard library over the bytes of
  the text.  Four decimal octets without leading zeros, or eight hexadecimal groups with one \<open>::\<close> for
  the zeros left out and an embedded IPv4 tail; the whole text must be consumed.
\<close>

section \<open>Definitions\<close>

datatype ip_addr = Ip_V4 "nat list" | Ip_V6 "nat list"

definition to_digit :: "nat \<Rightarrow> char \<Rightarrow> nat option" where
  "to_digit radix c =
     (let d = (if 48 \<le> byte c \<and> byte c \<le> 57 then byte c - 48
               else if 97 \<le> byte c \<and> byte c \<le> 122 then byte c - 87
               else if 65 \<le> byte c \<and> byte c \<le> 90 then byte c - 55 else radix)
      in if d < radix then Some d else None)"

text \<open>The digits are read greedily: one digit too many, no digit at all, a leading zero that is not
  allowed or a value out of range is a failure, which leaves the position where it was.\<close>

definition read_number :: "nat \<Rightarrow> nat \<Rightarrow> bool \<Rightarrow> nat \<Rightarrow> string \<Rightarrow> (nat \<times> string) option" where
  "read_number radix max_digits zero_prefix max_value s =
     (let ds = takeWhile (\<lambda>c. to_digit radix c \<noteq> None) s;
          n = foldl (\<lambda>n c. n * radix + the (to_digit radix c)) 0 ds
      in if ds = [] \<or> max_digits < length ds \<or> max_value < n
            \<or> (\<not> zero_prefix \<and> hd ds = CHR ''0'' \<and> 1 < length ds)
         then None else Some (n, dropWhile (\<lambda>c. to_digit radix c \<noteq> None) s))"

definition read_separator ::
  "char \<Rightarrow> nat \<Rightarrow> (string \<Rightarrow> ('a \<times> string) option) \<Rightarrow> string \<Rightarrow> ('a \<times> string) option" where
  "read_separator c index inner s =
     (if index = 0 then inner s
      else case s of [] \<Rightarrow> None | d # r \<Rightarrow> if d = c then inner r else None)"

fun read_v4_groups :: "nat \<Rightarrow> nat \<Rightarrow> string \<Rightarrow> (nat list \<times> string) option" where
  "read_v4_groups 0 index s = Some ([], s)"
| "read_v4_groups (Suc n) index s =
     (case read_separator CHR ''.'' index (read_number 10 3 False 255) s of
        None \<Rightarrow> None
      | Some (g, r) \<Rightarrow> map_option (\<lambda>(gs, r'). (g # gs, r')) (read_v4_groups n (Suc index) r))"

definition read_ipv4_addr :: "string \<Rightarrow> (nat list \<times> string) option" where
  "read_ipv4_addr s = read_v4_groups 4 0 s"

text \<open>\<open>read_groups\<close> with the slots that are left: the groups, whether an IPv4 tail ended them, and
  the text behind them.\<close>

fun read_v6_groups :: "nat \<Rightarrow> nat \<Rightarrow> string \<Rightarrow> nat list \<times> bool \<times> string" where
  "read_v6_groups 0 index s = ([], False, s)"
| "read_v6_groups (Suc n) index s =
     (case (if 0 < n then read_separator CHR '':'' index read_ipv4_addr s else None) of
        Some (v4, r) \<Rightarrow> ([v4 ! 0 * 256 + v4 ! 1, v4 ! 2 * 256 + v4 ! 3], True, r)
      | None \<Rightarrow>
          (case read_separator CHR '':'' index (read_number 16 4 True 65535) s of
             None \<Rightarrow> ([], False, s)
           | Some (g, r) \<Rightarrow>
               (let (gs, v4, r') = read_v6_groups n (Suc index) r in (g # gs, v4, r'))))"

definition read_ipv6_addr :: "string \<Rightarrow> (nat list \<times> string) option" where
  "read_ipv6_addr s =
     (let (front, v4, r) = read_v6_groups 8 0 s in
      if length front = 8 then Some (front, r)
      else if v4 then None
      else case strip_prefix ''::'' r of
             None \<Rightarrow> None
           | Some r' \<Rightarrow>
               (let (rear, _, r'') = read_v6_groups (8 - (length front + 1)) 0 r' in
                Some (front @ replicate (8 - length front - length rear) 0 @ rear, r'')))"

definition parse_ip_addr :: "string \<Rightarrow> ip_addr option" where
  "parse_ip_addr s =
     (case read_ipv4_addr s of
        Some (v4, r) \<Rightarrow> if r = [] then Some (Ip_V4 v4) else None
      | None \<Rightarrow>
          (case read_ipv6_addr s of
             Some (v6, r) \<Rightarrow> if r = [] then Some (Ip_V6 v6) else None
           | None \<Rightarrow> None))"

section \<open>Laws\<close>

lemma read_number_bounds:
  "read_number radix m z v s = Some (n, r) \<Longrightarrow> n \<le> v \<and> length r < length s"
proof -
  assume a: "read_number radix m z v s = Some (n, r)"
  then have ne: "takeWhile (\<lambda>c. to_digit radix c \<noteq> None) s \<noteq> []"
    and r: "r = dropWhile (\<lambda>c. to_digit radix c \<noteq> None) s" and n: "n \<le> v"
    by (auto simp: read_number_def Let_def split: if_splits)
  have "length s = length (takeWhile (\<lambda>c. to_digit radix c \<noteq> None) s) + length r"
    unfolding r by (metis length_append takeWhile_dropWhile_id)
  with ne n show ?thesis by simp
qed

lemma read_separator_Some:
  "read_separator c i f s = Some x \<Longrightarrow> \<exists>r. f r = Some x \<and> length r \<le> length s"
  by (cases s) (auto simp: read_separator_def split: if_splits)

lemma read_v4_groups_length: "read_v4_groups n i s = Some (gs, r) \<Longrightarrow> length gs = n \<and> (\<forall>g\<in>set gs. g \<le> 255)"
proof (induction n i s arbitrary: gs r rule: read_v4_groups.induct)
  case (2 n i s)
  then obtain g r1 gs1 where g: "read_separator CHR ''.'' i (read_number 10 3 False 255) s = Some (g, r1)"
    and gs: "read_v4_groups n (Suc i) r1 = Some (gs1, r)" "gs = g # gs1"
    by (auto split: option.splits prod.splits)
  obtain u where "read_number 10 3 False 255 u = Some (g, r1)" using read_separator_Some [OF g] by blast
  then have "g \<le> 255" using read_number_bounds by blast
  with "2.IH" [OF g refl gs(1)] gs(2) show ?case by auto
qed auto

text \<open>An address has four octets or eight groups.\<close>

lemma parse_ip_addr_V4: "parse_ip_addr s = Some (Ip_V4 gs) \<Longrightarrow> length gs = 4 \<and> (\<forall>g\<in>set gs. g \<le> 255)"
  by (auto simp: parse_ip_addr_def read_ipv4_addr_def split: option.splits if_splits
      dest: read_v4_groups_length)

lemma read_v6_groups_length: "read_v6_groups n i s = (gs, v4, r) \<Longrightarrow> length gs \<le> n"
proof (induction n i s arbitrary: gs v4 r rule: read_v6_groups.induct)
  case (2 n i s)
  then show ?case by (auto simp: Let_def split: option.splits prod.splits if_splits)
qed auto

lemma parse_ip_addr_V6: "parse_ip_addr s = Some (Ip_V6 gs) \<Longrightarrow> length gs = 8"
proof -
  assume "parse_ip_addr s = Some (Ip_V6 gs)"
  then obtain r where "read_ipv6_addr s = Some (gs, r)"
    by (auto simp: parse_ip_addr_def split: option.splits if_splits)
  then consider "length gs = 8"
    | front v4 r1 r2 rear b r3 where "read_v6_groups 8 0 s = (front, v4, r1)" "length front \<noteq> 8"
      "read_v6_groups (8 - (length front + 1)) 0 r2 = (rear, b, r3)"
      "gs = front @ replicate (8 - length front - length rear) 0 @ rear"
    by (auto simp: read_ipv6_addr_def Let_def split: option.splits if_splits prod.splits)
  then show ?thesis
  proof cases
    case 2
    have "length front \<le> 8" "length rear \<le> 8 - (length front + 1)"
      using read_v6_groups_length [OF 2(1)] read_v6_groups_length [OF 2(3)] by auto
    with 2(2,4) show ?thesis by simp
  qed
qed

lemma read_v4_groups_numeral:
  "read_v4_groups (numeral k) index s =
     (case read_separator CHR ''.'' index (read_number 10 3 False 255) s of
        None \<Rightarrow> None
      | Some (g, r) \<Rightarrow>
          map_option (\<lambda>(gs, r'). (g # gs, r')) (read_v4_groups (pred_numeral k) (Suc index) r))"
  by (simp add: numeral_eq_Suc)

lemma read_v6_groups_numeral:
  "read_v6_groups (numeral k) index s =
     (case (if 0 < pred_numeral k then read_separator CHR '':'' index read_ipv4_addr s else None) of
        Some (v4, r) \<Rightarrow> ([v4 ! 0 * 256 + v4 ! 1, v4 ! 2 * 256 + v4 ! 3], True, r)
      | None \<Rightarrow>
          (case read_separator CHR '':'' index (read_number 16 4 True 65535) s of
             None \<Rightarrow> ([], False, s)
           | Some (g, r) \<Rightarrow>
               (let (gs, v4, r') = read_v6_groups (pred_numeral k) (Suc index) r
                in (g # gs, v4, r'))))"
  by (simp add: numeral_eq_Suc)

lemmas ip_eval =
  parse_ip_addr_def read_ipv4_addr_def read_ipv6_addr_def read_separator_def read_number_def
  to_digit_def Let_def read_v4_groups_numeral read_v6_groups_numeral

lemma parse_loopback: "parse_ip_addr ''127.0.0.1'' = Some (Ip_V4 [127, 0, 0, 1])"
  by (simp add: ip_eval)

lemma parse_untrimmed: "parse_ip_addr '' 127.0.0.1'' = None"
  by (simp add: ip_eval)
end
