(* ===== verification/Mqtt_Local_Config.thy ===== *)
theory Mqtt_Local_Config
  imports Mqtt_Text Rust_Ip
begin

text \<open>
  The configuration and the reported status of the built-in broker
  (\<open>crates/ramag-domain/src/entities/mqtt/local_server.rs\<close>), and what a valid configuration is.
\<close>

section \<open>Data\<close>

(* crates/ramag-domain/src/entities/mqtt.rs:21-21 DEFAULT_MQTT_LOCAL_SERVER_HOST *)
definition DEFAULT_MQTT_LOCAL_SERVER_HOST :: string where
  "DEFAULT_MQTT_LOCAL_SERVER_HOST = ''127.0.0.1''"

(* crates/ramag-domain/src/entities/mqtt.rs:22-22 DEFAULT_MQTT_LOCAL_SERVER_MAX_CONNECTIONS *)
definition DEFAULT_MQTT_LOCAL_SERVER_MAX_CONNECTIONS :: u32 where
  "DEFAULT_MQTT_LOCAL_SERVER_MAX_CONNECTIONS = 1024"

(* crates/ramag-domain/src/entities/mqtt.rs:23-23 MAX_MQTT_LOCAL_SERVER_HOST_BYTES *)
definition MAX_MQTT_LOCAL_SERVER_HOST_BYTES :: nat where
  [limits]: "MAX_MQTT_LOCAL_SERVER_HOST_BYTES = 256"

(* crates/ramag-domain/src/entities/mqtt.rs:24-24 MAX_MQTT_LOCAL_SERVER_MAX_CONNECTIONS *)
definition MAX_MQTT_LOCAL_SERVER_MAX_CONNECTIONS :: u32 where
  [limits]: "MAX_MQTT_LOCAL_SERVER_MAX_CONNECTIONS = 16384"

(* crates/ramag-domain/src/entities/mqtt/local_server.rs:86-90 MqttLocalServerUser *)
record local_user =
  lu_username :: string
  lu_password :: string

(* crates/ramag-domain/src/entities/mqtt/local_server.rs:1-13 MqttLocalServerConfig *)
record local_config =
  lc_bind_host :: string
  lc_port :: u16
  lc_max_connections :: u32
  lc_allow_anonymous :: bool
  lc_users :: "local_user list"

(* crates/ramag-domain/src/entities/mqtt/local_server.rs:16-24 MqttLocalServerConfig::default *)
definition local_config_default :: local_config where
  "local_config_default =
     \<lparr>lc_bind_host = DEFAULT_MQTT_LOCAL_SERVER_HOST, lc_port = DEFAULT_MQTT_PORT,
      lc_max_connections = DEFAULT_MQTT_LOCAL_SERVER_MAX_CONNECTIONS, lc_allow_anonymous = True,
      lc_users = []\<rparr>"

(* crates/ramag-domain/src/entities/mqtt/local_server.rs:133-141 MqttLocalServerStatus *)
record local_status =
  st_running :: bool
  st_bind_host :: string
  st_port :: u16
  st_max_connections :: u32
  st_allow_anonymous :: bool

(* crates/ramag-domain/src/entities/mqtt/local_server.rs:144-152 MqttLocalServerStatus::stopped *)
definition status_stopped :: "local_config \<Rightarrow> local_status" where
  "status_stopped c =
     \<lparr>st_running = False, st_bind_host = lc_bind_host c, st_port = lc_port c,
      st_max_connections = lc_max_connections c, st_allow_anonymous = lc_allow_anonymous c\<rparr>"

(* crates/ramag-domain/src/entities/mqtt/local_server.rs:154-162 MqttLocalServerStatus::running *)
definition status_running :: "local_config \<Rightarrow> local_status" where
  "status_running c =
     \<lparr>st_running = True, st_bind_host = lc_bind_host c, st_port = lc_port c,
      st_max_connections = lc_max_connections c, st_allow_anonymous = lc_allow_anonymous c\<rparr>"

section \<open>Validation\<close>

(* crates/ramag-domain/src/entities/mqtt/local_server.rs:103-130 MqttLocalServerUser::validate *)
definition validate_local_user :: "nat \<times> local_user \<Rightarrow> string + unit" where
  "validate_local_user = (\<lambda>(index, u).
     if trim (lu_username u) = []
     then Inl ((utf8 [0x672C, 0x5730] @ '' MQTT Broker '' @ utf8 [0x7B2C] @ '' '') @ dec (index + 1) @ ('' '' @ utf8 [0x4E2A, 0x7528, 0x6237, 0x540D, 0x4E0D, 0x80FD, 0x4E3A, 0x7A7A]))
     else if MAX_MQTT_USERNAME_BYTES < length (lu_username u)
     then Inl ((utf8 [0x672C, 0x5730] @ '' MQTT Broker '' @ utf8 [0x7528, 0x6237, 0x540D, 0x4E0D, 0x80FD, 0x8D85, 0x8FC7] @ '' '') @ dec MAX_MQTT_USERNAME_BYTES @ ('' '' @ utf8 [0x5B57, 0x8282]))
     else if has_control (lu_username u)
     then Inl (utf8 [0x672C, 0x5730] @ '' MQTT Broker '' @ utf8 [0x7528, 0x6237, 0x540D, 0x4E0D, 0x80FD, 0x5305, 0x542B, 0x63A7, 0x5236, 0x5B57, 0x7B26])
     else if MAX_MQTT_PASSWORD_BYTES < length (lu_password u)
     then Inl ((utf8 [0x672C, 0x5730] @ '' MQTT Broker '' @ utf8 [0x7528, 0x6237, 0x5BC6, 0x7801, 0x4E0D, 0x80FD, 0x8D85, 0x8FC7] @ '' '') @ dec MAX_MQTT_PASSWORD_BYTES @ ('' '' @ utf8 [0x5B57, 0x8282]))
     else if lu_password u = []
     then Inl ((utf8 [0x672C, 0x5730] @ '' MQTT Broker '' @ utf8 [0x7B2C] @ '' '') @ dec (index + 1) @ ('' '' @ utf8 [0x4E2A, 0x7528, 0x6237, 0x5BC6, 0x7801, 0x4E0D, 0x80FD, 0x4E3A, 0x7A7A]))
     else if has_control (lu_password u)
     then Inl (utf8 [0x672C, 0x5730] @ '' MQTT Broker '' @ utf8 [0x7528, 0x6237, 0x5BC6, 0x7801, 0x4E0D, 0x80FD, 0x5305, 0x542B, 0x63A7, 0x5236, 0x5B57, 0x7B26])
     else Inr ())"

(* crates/ramag-domain/src/entities/mqtt/local_server.rs:73-81 MqttLocalServerConfig::validate *)
fun distinct_users :: "local_user list \<Rightarrow> string + unit" where
  "distinct_users [] = Inr ()"
| "distinct_users (u # us) =
     (if list_ex (\<lambda>other. lu_username other = lu_username u) us
      then Inl ((utf8 [0x672C, 0x5730] @ '' MQTT Broker '' @ utf8 [0x7528, 0x6237, 0x540D, 0x91CD, 0x590D, 0xFF1A]) @ lu_username u)
      else distinct_users us)"

(* crates/ramag-domain/src/entities/mqtt/local_server.rs:42-83 MqttLocalServerConfig::validate *)
definition validate_local_config :: "local_config \<Rightarrow> string + unit" where
  "validate_local_config c =
     (let host = trim (lc_bind_host c) in
      if host = [] then Inl (utf8 [0x672C, 0x5730] @ '' MQTT Broker '' @ utf8 [0x76D1, 0x542C, 0x5730, 0x5740, 0x4E0D, 0x80FD, 0x4E3A, 0x7A7A])
      else if MAX_MQTT_LOCAL_SERVER_HOST_BYTES < length host
      then Inl ((utf8 [0x672C, 0x5730] @ '' MQTT Broker '' @ utf8 [0x76D1, 0x542C, 0x5730, 0x5740, 0x4E0D, 0x80FD, 0x8D85, 0x8FC7] @ '' '') @ dec MAX_MQTT_LOCAL_SERVER_HOST_BYTES @ ('' '' @ utf8 [0x5B57, 0x8282]))
      else if parse_ip_addr host = None
      then Inl (utf8 [0x672C, 0x5730] @ '' MQTT Broker '' @ utf8 [0x76D1, 0x542C, 0x5730, 0x5740, 0x5FC5, 0x987B, 0x662F] @ '' IPv4 '' @ utf8 [0x6216] @ '' IPv6 '' @ utf8 [0x5730, 0x5740])
      else if lc_port c = 0 then Inl (utf8 [0x672C, 0x5730] @ '' MQTT Broker '' @ utf8 [0x7AEF, 0x53E3, 0x5FC5, 0x987B, 0x662F] @ '' 1 - 65535'')
      else if lc_max_connections c = 0 then Inl (utf8 [0x672C, 0x5730] @ '' MQTT Broker '' @ utf8 [0x8FDE, 0x63A5, 0x4E0A, 0x9650, 0x5FC5, 0x987B, 0x5927, 0x4E8E] @ '' 0'')
      else if MAX_MQTT_LOCAL_SERVER_MAX_CONNECTIONS < lc_max_connections c
      then Inl ((utf8 [0x672C, 0x5730] @ '' MQTT Broker '' @ utf8 [0x8FDE, 0x63A5, 0x4E0A, 0x9650, 0x4E0D, 0x80FD, 0x8D85, 0x8FC7] @ '' '') @ dec (unat MAX_MQTT_LOCAL_SERVER_MAX_CONNECTIONS))
      else if 128 < length (lc_users c) then Inl (utf8 [0x672C, 0x5730] @ '' MQTT Broker '' @ utf8 [0x7528, 0x6237, 0x6570, 0x91CF, 0x4E0D, 0x80FD, 0x8D85, 0x8FC7] @ '' 128'')
      else if \<not> lc_allow_anonymous c \<and> lc_users c = []
      then Inl (utf8 [0x5173, 0x95ED, 0x533F, 0x540D, 0x8FDE, 0x63A5, 0x65F6, 0x81F3, 0x5C11, 0x9700, 0x8981, 0x914D, 0x7F6E, 0x4E00, 0x4E2A, 0x56FA, 0x5B9A, 0x8D26, 0x53F7])
      else try_r (for_r validate_local_user (enumerate 0 (lc_users c))) (\<lambda>_.
        distinct_users (lc_users c)))"

section \<open>Laws\<close>

text \<open>What a valid account is.\<close>

definition local_user_wf :: "local_user \<Rightarrow> bool" where
  "local_user_wf u \<longleftrightarrow>
     trim (lu_username u) \<noteq> [] \<and> length (lu_username u) \<le> 1024 \<and> \<not> has_control (lu_username u)
     \<and> lu_password u \<noteq> [] \<and> length (lu_password u) \<le> 65536 \<and> \<not> has_control (lu_password u)"

lemma validate_local_user_ok: "validate_local_user (i, u) = Inr x \<longleftrightarrow> local_user_wf u"
  by (auto simp: validate_local_user_def local_user_wf_def limits)

lemma distinct_users_ok: "distinct_users us = Inr x \<longleftrightarrow> distinct (map lu_username us)"
proof (induction us)
  case (Cons u us)
  have "list_ex (\<lambda>other. lu_username other = lu_username u) us
      \<longleftrightarrow> lu_username u \<in> lu_username ` set us"
    unfolding list_ex_iff image_iff by (rule bex_cong) auto
  with Cons show ?case by simp
qed simp

lemma users_valid:
  "for_r validate_local_user (enumerate 0 us) = Inr x \<longleftrightarrow> (\<forall>u\<in>set us. local_user_wf u)"
proof -
  have "for_r validate_local_user (enumerate 0 us) = Inr x \<longleftrightarrow>
      (\<forall>i<length us. validate_local_user (i, us ! i) = Inr ())"
    by (auto simp: in_set_enumerate_eq)
  then show ?thesis by (simp add: validate_local_user_ok all_set_conv_all_nth)
qed

text \<open>A local configuration is accepted exactly when it is well formed.\<close>

definition local_config_wf :: "local_config \<Rightarrow> bool" where
  "local_config_wf c \<longleftrightarrow>
     (\<exists>ip. parse_ip_addr (trim (lc_bind_host c)) = Some ip)
     \<and> length (trim (lc_bind_host c)) \<le> 256
     \<and> lc_port c \<noteq> 0 \<and> 0 < lc_max_connections c \<and> lc_max_connections c \<le> 16384
     \<and> length (lc_users c) \<le> 128 \<and> (lc_allow_anonymous c \<or> lc_users c \<noteq> [])
     \<and> (\<forall>u\<in>set (lc_users c). local_user_wf u) \<and> distinct (map lu_username (lc_users c))"

lemma parse_ip_addr_Nil: "parse_ip_addr [] = None"
  by (simp add: ip_eval)

lemma validate_local_config_ok: "validate_local_config c = Inr x \<longleftrightarrow> local_config_wf c"
  unfolding validate_local_config_def Let_def if_Inl local_config_wf_def try_r_ok
    distinct_users_ok limits not_less [symmetric] users_valid
  by (auto simp: parse_ip_addr_Nil word_neq_0_conv)

end
