(* ===== verification/Mqtt_Telemetry.thy ===== *)
theory Mqtt_Telemetry
  imports Mqtt_Message Mqtt_Local_Config Btree_Map
begin

text \<open>
  The counters and the event queue of the built-in broker
  (\<open>crates/ramag-infra-mqtt/src/local_server.rs\<close>): \<open>LocalServerTelemetry\<close> behind its mutex, the
  bounded queue events are sent to, and the hooks that the embedded server calls for every client.
  A \<open>usize\<close> counter is a \<open>u64\<close>.  Sessions, subscriptions and publications come from the embedded
  server; what it answers about them is data here, and \<open>DateTime::from_timestamp_millis\<close> is the
  parameter \<open>from_millis\<close>.
\<close>

section \<open>Counters\<close>

definition sat_sub :: "u64 \<Rightarrow> u64 \<Rightarrow> u64" where
  "sat_sub a b = (if b \<le> a then a - b else 0)"

(* crates/ramag-infra-mqtt/src/local_server.rs:293-298 LocalTopicTelemetry *)
record topic_telemetry =
  tt_publish_count :: u64
  tt_last_payload_bytes :: nat
  tt_observed_at :: utc

(* crates/ramag-infra-mqtt/src/local_server.rs:281-291 LocalServerTelemetryState *)
record telemetry =
  tm_max_connections :: u64
  tm_current_connections :: u64
  tm_peak_connections :: u64
  tm_accepted_connections :: u64
  tm_closed_connections :: u64
  tm_published_messages :: u64
  tm_dropped_events :: u64
  tm_dropped_topics :: u64
  tm_topics :: "(string, topic_telemetry) bmap"

(* crates/ramag-infra-mqtt/src/local_server.rs:314-328 LocalServerTelemetry::new *)
definition telemetry_new :: "u64 \<Rightarrow> telemetry" where
  "telemetry_new max_connections =
     \<lparr>tm_max_connections = max_connections, tm_current_connections = 0, tm_peak_connections = 0,
      tm_accepted_connections = 0, tm_closed_connections = 0, tm_published_messages = 0,
      tm_dropped_events = 0, tm_dropped_topics = 0, tm_topics = []\<rparr>"

(* crates/ramag-infra-mqtt/src/local_server.rs:339-345 LocalServerTelemetry::record_connected *)
definition record_connected :: "telemetry \<Rightarrow> telemetry" where
  "record_connected t =
     (let current = sat_add (tm_current_connections t) 1 in
      t\<lparr>tm_current_connections := current,
        tm_peak_connections := max (tm_peak_connections t) current,
        tm_accepted_connections := sat_add (tm_accepted_connections t) 1\<rparr>)"

(* crates/ramag-infra-mqtt/src/local_server.rs:347-352 LocalServerTelemetry::record_disconnected *)
definition record_disconnected :: "telemetry \<Rightarrow> telemetry" where
  "record_disconnected t =
     t\<lparr>tm_current_connections := sat_sub (tm_current_connections t) 1,
       tm_closed_connections := sat_add (tm_closed_connections t) 1\<rparr>"

(* crates/ramag-infra-mqtt/src/local_server.rs:355-377 LocalServerTelemetry::record_published *)
definition record_published :: "mqtt_message \<Rightarrow> telemetry \<Rightarrow> telemetry" where
  "record_published m t0 =
     (let t = t0\<lparr>tm_published_messages := sat_add (tm_published_messages t0) 1\<rparr> in
      case bm_get (tm_topics t) (mm_topic m) of
        Some topic \<Rightarrow>
          t\<lparr>tm_topics := bm_insert (mm_topic m)
              \<lparr>tt_publish_count = sat_add (tt_publish_count topic) 1,
               tt_last_payload_bytes = length (mm_payload m),
               tt_observed_at = mm_received_at m\<rparr> (tm_topics t)\<rparr>
      | None \<Rightarrow>
          if MAX_MQTT_TOPIC_OBSERVATIONS \<le> length (tm_topics t)
          then t\<lparr>tm_dropped_topics := sat_add (tm_dropped_topics t) 1\<rparr>
          else t\<lparr>tm_topics := bm_insert (mm_topic m)
              \<lparr>tt_publish_count = 1, tt_last_payload_bytes = length (mm_payload m),
               tt_observed_at = mm_received_at m\<rparr> (tm_topics t)\<rparr>)"

(* crates/ramag-infra-mqtt/src/local_server.rs:379-383 LocalServerTelemetry::record_dropped_event *)
definition record_dropped_event :: "telemetry \<Rightarrow> telemetry" where
  "record_dropped_event t = t\<lparr>tm_dropped_events := sat_add (tm_dropped_events t) 1\<rparr>"

text \<open>The copy that \<open>snapshot\<close> returns has the fields of the state itself.\<close>

(* crates/ramag-infra-mqtt/src/local_server.rs:386-402 LocalServerTelemetry::snapshot *)
definition telemetry_snapshot :: "u64 \<Rightarrow> telemetry \<Rightarrow> telemetry \<times> telemetry" where
  "telemetry_snapshot current_connections t =
     (let t' = t\<lparr>tm_current_connections := current_connections,
                tm_peak_connections := max (tm_peak_connections t) current_connections\<rparr>
      in (t', t'))"

section \<open>The event queue\<close>

(* crates/ramag-infra-mqtt/src/local_server.rs:37-37 LOCAL_SERVER_EVENT_QUEUE *)
definition LOCAL_SERVER_EVENT_QUEUE :: nat where
  [limits]: "LOCAL_SERVER_EVENT_QUEUE = 256"

text \<open>The part of the broker thread the hooks and the commands share: the counters, the events that
  wait in the channel, and whether a receiver of them is left.\<close>

record broker =
  br_telemetry :: telemetry
  br_events :: "mqtt_event list"
  br_receivers :: bool

definition broker_new :: "u64 \<Rightarrow> broker" where
  "broker_new max_connections =
     \<lparr>br_telemetry = telemetry_new max_connections, br_events = [], br_receivers = True\<rparr>"

(* crates/ramag-infra-mqtt/src/local_server.rs:987-1011 emit_local_event *)
definition emit_local_event :: "mqtt_event \<Rightarrow> broker \<Rightarrow> broker" where
  "emit_local_event event b =
     (case validate_event event of
        Inl _ \<Rightarrow> b
      | Inr _ \<Rightarrow>
          if \<not> br_receivers b then b
          else if length (br_events b) < LOCAL_SERVER_EVENT_QUEUE
          then b\<lparr>br_events := br_events b @ [event]\<rparr>
          else b\<lparr>br_telemetry := record_dropped_event (br_telemetry b)\<rparr>)"

section \<open>What the embedded server reports\<close>

record oxi_connect_info =
  ci_username :: "string option"
  ci_ipaddress :: "string option"

record oxi_session =
  se_client_id :: string
  se_connect_info :: "oxi_connect_info option"
  se_connected_at :: "int option"

record oxi_subscribe =
  os_topic_filter :: string
  os_qos_value :: u8
  os_no_local :: "bool option"

record oxi_publish =
  op_dup :: bool
  op_retain :: bool
  op_qos :: u8
  op_topic :: string
  op_payload :: "u8 list"
  op_user_properties :: "(string \<times> string) list option"

datatype hook_parameter =
    HookConnected oxi_session
  | HookDisconnected oxi_session string
  | HookSubscribed oxi_session oxi_subscribe
  | HookUnsubscribed oxi_session string
  | HookPublish "oxi_session option" oxi_publish
  | HookOther

section \<open>Hooks\<close>

(* crates/ramag-infra-mqtt/src/local_server.rs:919-938 online_client_from_session *)
definition client_of_session ::
  "(int \<Rightarrow> utc option) \<Rightarrow> oxi_session \<Rightarrow> mqtt_subscription list \<Rightarrow> mqtt_online_client" where
  "client_of_session from_millis s subscriptions =
     \<lparr>oc_client_id = se_client_id s,
      oc_username = Option.bind (se_connect_info s) ci_username,
      oc_remote_address = Option.bind (se_connect_info s) ci_ipaddress,
      oc_connected_at = Option.bind (se_connected_at s) from_millis,
      oc_subscriptions = subscriptions\<rparr>"

(* crates/ramag-infra-mqtt/src/local_server.rs:919-940 online_client_from_session *)
definition online_client_from_session ::
  "(int \<Rightarrow> utc option) \<Rightarrow> oxi_session \<Rightarrow> mqtt_online_client option" where
  "online_client_from_session from_millis s =
     (let client = client_of_session from_millis s [] in
      case validate_online_client client of Inl _ \<Rightarrow> None | Inr _ \<Rightarrow> Some client)"

(* crates/ramag-infra-mqtt/src/local_server.rs:942-949 subscription_from_oximqtt *)
definition subscription_from_oximqtt :: "oxi_subscribe \<Rightarrow> mqtt_subscription option" where
  "subscription_from_oximqtt s =
     (let subscription =
        \<lparr>su_filter = os_topic_filter s, su_qos = qos_from_oximqtt (os_qos_value s),
         su_no_local = (case os_no_local s of Some b \<Rightarrow> b | None \<Rightarrow> False)\<rparr> in
      case validate_subscription subscription of Inl _ \<Rightarrow> None | Inr _ \<Rightarrow> Some subscription)"

(* crates/ramag-infra-mqtt/src/local_server.rs:951-977 message_from_oximqtt *)
definition message_from_oximqtt :: "utc \<Rightarrow> oxi_publish \<Rightarrow> mqtt_message option" where
  "message_from_oximqtt now p =
     (let m = \<lparr>mm_topic = op_topic p, mm_payload = op_payload p, mm_qos = qos_from_oximqtt (op_qos p),
               mm_retain = op_retain p, mm_duplicate = op_dup p, mm_received_at = now,
               mm_user_properties =
                 (case op_user_properties p of
                    None \<Rightarrow> []
                  | Some ps \<Rightarrow> map (\<lambda>(n, v). \<lparr>up_name = n, up_value = v\<rparr>) ps)\<rparr> in
      case validate_message m of Inl _ \<Rightarrow> None | Inr _ \<Rightarrow> Some m)"

text \<open>\<open>now\<close> is the clock when a message is decoded, \<open>at\<close> when its event is built.\<close>

(* crates/ramag-infra-mqtt/src/local_server.rs:848-916 LocalEventHandler::hook *)
fun event_hook ::
  "(int \<Rightarrow> utc option) \<Rightarrow> utc \<Rightarrow> utc \<Rightarrow> hook_parameter \<Rightarrow> broker \<Rightarrow> broker" where
  "event_hook from_millis now at (HookConnected session) b =
     (case online_client_from_session from_millis session of
        None \<Rightarrow> b
      | Some client \<Rightarrow>
          emit_local_event (ClientConnected client at)
            (b\<lparr>br_telemetry := record_connected (br_telemetry b)\<rparr>))"
| "event_hook from_millis now at (HookDisconnected session reason) b =
     emit_local_event (ClientDisconnected (se_client_id session) (Some reason) at)
       (b\<lparr>br_telemetry := record_disconnected (br_telemetry b)\<rparr>)"
| "event_hook from_millis now at (HookSubscribed session subscribe) b =
     (case subscription_from_oximqtt subscribe of
        None \<Rightarrow> b
      | Some s \<Rightarrow> emit_local_event (ClientSubscribed (se_client_id session) s at) b)"
| "event_hook from_millis now at (HookUnsubscribed session topic_filter) b =
     emit_local_event (ClientUnsubscribed (se_client_id session) topic_filter at) b"
| "event_hook from_millis now at (HookPublish session publish) b =
     (case session of
        None \<Rightarrow> b
      | Some session \<Rightarrow>
          (case message_from_oximqtt now publish of
             None \<Rightarrow> b
           | Some m \<Rightarrow>
               emit_local_event (ClientPublished (se_client_id session) m at)
                 (b\<lparr>br_telemetry := record_published m (br_telemetry b)\<rparr>)))"
| "event_hook from_millis now at HookOther b = b"

section \<open>Authentication\<close>

datatype auth_result = AuthAllow | AuthBadUsernameOrPassword

(* crates/ramag-infra-mqtt/src/local_server.rs:1029-1048 LocalAuthHandler::hook *)
definition auth_hook :: "bool \<Rightarrow> local_user list \<Rightarrow> string option \<Rightarrow> string option \<Rightarrow> auth_result" where
  "auth_hook allow_anonymous users username password =
     (let anonymous = (username = None \<and> password = None);
          authenticated = ((allow_anonymous \<and> anonymous)
            \<or> (case username of
                 None \<Rightarrow> False
               | Some name \<Rightarrow>
                   list_ex (\<lambda>u. lu_username u = name \<and> password = Some (lu_password u)) users))
      in if authenticated then AuthAllow else AuthBadUsernameOrPassword)"

text \<open>The handler is registered only when there is something to check; otherwise the embedded server
  decides by itself (\<open>server_default\<close>).\<close>

(* crates/ramag-infra-mqtt/src/local_server.rs:472-479 run_local_server *)
definition authenticate ::
  "(string option \<Rightarrow> string option \<Rightarrow> auth_result) \<Rightarrow> bool \<Rightarrow> local_user list
     \<Rightarrow> string option \<Rightarrow> string option \<Rightarrow> auth_result" where
  "authenticate server_default allow_anonymous users username password =
     (if \<not> allow_anonymous \<or> users \<noteq> [] then auth_hook allow_anonymous users username password
      else server_default username password)"

end
