(* ===== verification/Mqtt_Broker.thy ===== *)
theory Mqtt_Broker
  imports Mqtt_Telemetry Domain_Error
begin

text \<open>
  The two commands the thread of the built-in broker executes
  (\<open>crates/ramag-infra-mqtt/src/local_server.rs\<close>): publishing a message and taking a snapshot.  What the
  embedded server answers (its sessions, the retained messages, the outcome of a delivery) is a
  parameter; what the command asks of it is the list of its effects, in order.
\<close>

(* crates/ramag-infra-mqtt/src/local_server.rs:405-411 local_server_error *)
definition local_server_error :: "string \<Rightarrow> string \<Rightarrow> domain_error" where
  "local_server_error operation error =
     DeMqtt (mqtt_error_new MqNetwork operation (operation @ (utf8 [0x5931, 0x8D25, 0xFF1A]) @ error))"

section \<open>Publishing\<close>

datatype 'd broker_effect =
    EfRetain string oxi_publish
  | EfForward oxi_publish
  | EfNonsubscribed
  | EfDropped 'd

(* crates/ramag-infra-mqtt/src/local_server.rs:1084-1086 LocalRetainStorage::enable *)
definition retain_enabled :: bool where
  "retain_enabled \<longleftrightarrow> True"

text \<open>\<open>QoS\<close> of the codec, by its number on the wire.\<close>

(* crates/ramag-infra-mqtt/src/local_server.rs:741-767 publish_to_local_server *)
definition oxi_publish_of :: "mqtt_publish_request \<Rightarrow> oxi_publish" where
  "oxi_publish_of r =
     \<lparr>op_dup = False, op_retain = pr_retain r,
      op_qos = (case pr_qos r of AtMostOnce \<Rightarrow> 0 | AtLeastOnce \<Rightarrow> 1 | ExactlyOnce \<Rightarrow> 2),
      op_topic = pr_topic r, op_payload = pr_payload r,
      op_user_properties = Some (map (\<lambda>p. (up_name p, up_value p)) (pr_user_properties r))\<rparr>"

(* crates/ramag-infra-mqtt/src/local_server.rs:808-816 publish_to_local_server *)
definition message_of_request :: "utc \<Rightarrow> mqtt_publish_request \<Rightarrow> mqtt_message" where
  "message_of_request now r =
     \<lparr>mm_topic = pr_topic r, mm_payload = pr_payload r, mm_qos = pr_qos r, mm_retain = pr_retain r,
      mm_duplicate = False, mm_received_at = now, mm_user_properties = pr_user_properties r\<rparr>"

text \<open>\<open>retain_set\<close> is the answer of the retained-message store, \<open>forwarded\<close> that of the delivery: the
  number of receivers, or the deliveries that failed.\<close>

(* crates/ramag-infra-mqtt/src/local_server.rs:735-832 publish_to_local_server *)
definition publish_to_local_server ::
  "string + unit \<Rightarrow> 'd list + nat \<Rightarrow> utc \<Rightarrow> utc \<Rightarrow> mqtt_publish_request \<Rightarrow> broker
     \<Rightarrow> (domain_error + mqtt_publish_result) \<times> 'd broker_effect list \<times> broker" where
  "publish_to_local_server retain_set forwarded now at r b =
     (let publish = oxi_publish_of r;
          store = pr_retain r \<and> retain_enabled;
          stored = (if store then [EfRetain (op_topic publish) publish] else [])
      in case (if store then retain_set else Inr ()) of
           Inl error \<Rightarrow> (Inl (local_server_error (utf8 [0x4FDD, 0x5B58, 0x672C, 0x5730] @ '' MQTT '' @ utf8 [0x4FDD, 0x7559, 0x6D88, 0x606F]) error), stored, b)
         | Inr _ \<Rightarrow>
             (let reported = (case forwarded of
                  Inr n \<Rightarrow> if n = 0 then [EfNonsubscribed] else []
                | Inl errors \<Rightarrow> map EfDropped errors);
                  m = message_of_request now r;
                  b1 = b\<lparr>br_telemetry := record_published m (br_telemetry b)\<rparr>;
                  b2 = emit_local_event (BrokerPublished m at) b1
              in (Inr \<lparr>ps_topic = pr_topic r, ps_packet_id = None, ps_qos = pr_qos r\<rparr>,
                  stored @ [EfForward publish] @ reported, b2)))"

section \<open>Snapshots\<close>

text \<open>What the embedded server holds about a client: whether it is online, its session, and its
  subscriptions (topic, quality of service, the MQTT 5 option).\<close>

record oxi_entry =
  en_online :: bool
  en_session :: "oxi_session option"
  en_subscriptions :: "(string \<times> u8 \<times> bool option) list option"

(* crates/ramag-infra-mqtt/src/local_server.rs:599-607 snapshot_local_server *)
definition listed_subscription :: "string \<times> u8 \<times> bool option \<Rightarrow> mqtt_subscription" where
  "listed_subscription = (\<lambda>(topic, qos, no_local).
     \<lparr>su_filter = topic,
      su_qos = (if qos = 0 then AtMostOnce else if qos = 1 then AtLeastOnce else ExactlyOnce),
      su_no_local = (case no_local of Some b \<Rightarrow> b | None \<Rightarrow> False)\<rparr>)"

(* crates/ramag-infra-mqtt/src/local_server.rs:588-627 snapshot_local_server *)
definition listed_client :: "(int \<Rightarrow> utc option) \<Rightarrow> oxi_entry \<Rightarrow> mqtt_online_client option" where
  "listed_client from_millis e =
     (if \<not> en_online e then None
      else case en_session e of
        None \<Rightarrow> None
      | Some session \<Rightarrow>
          Some (client_of_session from_millis session
            (map listed_subscription (case en_subscriptions e of Some ss \<Rightarrow> ss | None \<Rightarrow> []))))"

(* crates/ramag-infra-mqtt/src/local_server.rs:586-627 snapshot_local_server *)
definition online_clients :: "(int \<Rightarrow> utc option) \<Rightarrow> oxi_entry list \<Rightarrow> mqtt_online_client list" where
  "online_clients from_millis entries = List.map_filter (listed_client from_millis) entries"

(* crates/ramag-infra-mqtt/src/local_server.rs:648-655 snapshot_local_server *)
definition subscriber_count :: "mqtt_online_client list \<Rightarrow> string \<Rightarrow> nat" where
  "subscriber_count clients name =
     length (filter (\<lambda>c. list_ex (\<lambda>s. topic_filter_matches (su_filter s) name) (oc_subscriptions c))
       clients)"

(* crates/ramag-infra-mqtt/src/local_server.rs:639-659 snapshot_local_server *)
definition observed_topic ::
  "mqtt_online_client list \<Rightarrow> string \<times> topic_telemetry \<Rightarrow> string \<times> mqtt_topic_observation" where
  "observed_topic clients = (\<lambda>(name, topic).
     (name,
      \<lparr>to_name = name, to_source = SourceObserved, to_retained = False,
       to_observed_at = Some (tt_observed_at topic), to_publish_count = tt_publish_count topic,
       to_subscriber_count = subscriber_count clients name,
       to_last_payload_bytes = tt_last_payload_bytes topic\<rparr>))"

(* crates/ramag-infra-mqtt/src/local_server.rs:668-676 snapshot_local_server *)
definition retained_topic :: "string \<Rightarrow> nat \<Rightarrow> mqtt_topic_observation" where
  "retained_topic name payload_bytes =
     \<lparr>to_name = name, to_source = SourceRetained, to_retained = True, to_observed_at = None,
      to_publish_count = 0, to_subscriber_count = 0, to_last_payload_bytes = payload_bytes\<rparr>"

(* crates/ramag-infra-mqtt/src/local_server.rs:661-681 snapshot_local_server *)
definition add_retained ::
  "string \<times> nat \<Rightarrow> (string, mqtt_topic_observation) bmap \<times> bool
     \<Rightarrow> (string, mqtt_topic_observation) bmap \<times> bool" where
  "add_retained = (\<lambda>(name, payload_bytes) (topics, incomplete).
     if bm_get topics name = None \<and> MAX_MQTT_TOPIC_OBSERVATIONS \<le> length topics
     then (topics, True)
     else
       (let topic = (case bm_get topics name of
              Some t \<Rightarrow> t
            | None \<Rightarrow> retained_topic name payload_bytes);
            topic = topic\<lparr>to_retained := True\<rparr>;
            topic = (if to_publish_count topic = 0
                     then topic\<lparr>to_last_payload_bytes := payload_bytes\<rparr> else topic)
        in (bm_insert name topic topics, incomplete)))"

(* crates/ramag-infra-mqtt/src/local_server.rs:36-36 LOCAL_SERVER_COMMAND_QUEUE *)
definition LOCAL_SERVER_COMMAND_QUEUE :: nat where
  [limits]: "LOCAL_SERVER_COMMAND_QUEUE = 32"

text \<open>\<open>pages offset limit\<close> is the answer of the retained-message store: the messages, and whether there
  are more.\<close>

(* crates/ramag-infra-mqtt/src/local_server.rs:1063-1075 LocalRetainStorage::retained_topics *)
definition retained_topics ::
  "(nat \<Rightarrow> nat \<Rightarrow> string + (string \<times> oxi_publish) list \<times> bool)
     \<Rightarrow> string + (string \<times> nat) list \<times> bool" where
  "retained_topics pages =
     try_r (pages 0 MAX_MQTT_TOPIC_OBSERVATIONS) (\<lambda>(retains, has_more).
       Inr (map (\<lambda>(topic, p). (topic, length (op_payload p))) retains, has_more))"

(* crates/ramag-infra-mqtt/src/local_server.rs:1077-1079 LocalRetainStorage::retained_count *)
definition retained_count :: "int \<Rightarrow> nat" where
  "retained_count n = nat (max n 0)"

text \<open>What a snapshot reads from the embedded server and from the command channel.\<close>

record snapshot_view =
  sw_entries :: "oxi_entry list"
  sw_pages :: "nat \<Rightarrow> nat \<Rightarrow> string + (string \<times> oxi_publish) list \<times> bool"
  sw_retained_count :: int
  sw_command_depth :: nat

(* crates/ramag-infra-mqtt/src/local_server.rs:578-710 snapshot_local_server *)
definition snapshot_local_server ::
  "(int \<Rightarrow> utc option) \<Rightarrow> snapshot_view \<Rightarrow> broker \<Rightarrow> (domain_error + mqtt_broker_snapshot) \<times> broker" where
  "snapshot_local_server from_millis w b =
     (let clients = online_clients from_millis (sw_entries w);
          (t, t') = telemetry_snapshot (of_nat (length clients)) (br_telemetry b);
          b' = b\<lparr>br_telemetry := t'\<rparr>
      in case retained_topics (sw_pages w) of
           Inl error \<Rightarrow> (Inl (local_server_error (utf8 [0x8BFB, 0x53D6, 0x672C, 0x5730] @ '' MQTT '' @ utf8 [0x4FDD, 0x7559, 0x4E3B, 0x9898]) error), b')
         | Inr (retained, truncated) \<Rightarrow>
             (let incomplete = (0 < tm_dropped_topics t \<or> truncated);
                  observed = bm_collect (map (observed_topic clients) (tm_topics t));
                  (topics, incomplete) = fold add_retained retained (observed, incomplete)
              in (Inr \<lparr>bs_topics = bm_values topics, bs_online_clients = clients,
                       bs_topics_complete = (\<not> incomplete), bs_online_clients_complete = True,
                       bs_metrics =
                         \<lparr>bm_current_connections = tm_current_connections t,
                          bm_max_connections = tm_max_connections t,
                          bm_peak_connections = tm_peak_connections t,
                          bm_accepted_connections = tm_accepted_connections t,
                          bm_closed_connections = tm_closed_connections t,
                          bm_active_subscriptions =
                            sum_list (map (\<lambda>c. length (oc_subscriptions c)) clients),
                          bm_published_messages = tm_published_messages t,
                          bm_retained_messages = retained_count (sw_retained_count w),
                          bm_event_queue_depth = length (br_events b),
                          bm_event_queue_capacity = LOCAL_SERVER_EVENT_QUEUE,
                          bm_command_queue_depth = sw_command_depth w,
                          bm_command_queue_capacity = LOCAL_SERVER_COMMAND_QUEUE,
                          bm_dropped_events = tm_dropped_events t,
                          bm_dropped_topics = tm_dropped_topics t\<rparr>\<rparr>, b')))"

end
