(* ===== verification/Mqtt_Server.thy ===== *)
theory Mqtt_Server
  imports Mqtt_Broker
begin

text \<open>
  The life of the built-in broker (\<open>crates/ramag-infra-mqtt/src/local_server.rs\<close>):
  \<open>NativeMqttLocalServer\<close> behind its mutex, and the thread it starts.  Every method holds the lock for
  its whole body or touches the state once, so it is one step.  Each broker that is started gets a
  number; the ends of its channels (\<open>stop\<close>, \<open>commands\<close>, \<open>events\<close>) carry it.  How a launch turns out,
  how a thread ends and whether it answers a command are parameters of the steps.
\<close>

section \<open>State\<close>

text \<open>The thread behind a \<open>JoinHandle\<close>: running its broker, returned, or panicked.\<close>

datatype thread = Alive broker | Exited | Crashed

(* crates/ramag-infra-mqtt/src/local_server.rs:44-51 LocalServerState *)
record server =
  sv_status :: local_status
  sv_config :: "local_config option"
  sv_stop :: "nat option"
  sv_commands :: "nat option"
  sv_events :: "nat option"
  sv_task :: "(nat \<times> thread) option"
  sv_next :: nat

(* crates/ramag-infra-mqtt/src/local_server.rs:54-66 NativeMqttLocalServer::new *)
definition server_new :: server where
  "server_new =
     \<lparr>sv_status = status_stopped local_config_default, sv_config = None, sv_stop = None,
      sv_commands = None, sv_events = None, sv_task = None, sv_next = 0\<rparr>"

definition finished :: "thread \<Rightarrow> bool" where
  "finished t \<longleftrightarrow> (case t of Alive _ \<Rightarrow> False | _ \<Rightarrow> True)"

section \<open>Start, stop, status\<close>

text \<open>The thread cannot be spawned, it ends without a word, it reports a failure, or it is ready.\<close>

datatype launch = LaunchSpawnFailed string | LaunchLost string | LaunchFailed string | LaunchReady

(* crates/ramag-infra-mqtt/src/local_server.rs:98-103 start *)
definition forget_task :: "server \<Rightarrow> server" where
  "forget_task s =
     s\<lparr>sv_task := None, sv_config := None, sv_stop := None, sv_commands := None, sv_events := None\<rparr>"

(* crates/ramag-infra-mqtt/src/local_server.rs:106-146 start *)
definition launch_server ::
  "local_config \<Rightarrow> launch \<Rightarrow> server \<Rightarrow> (domain_error + local_status) \<times> server" where
  "launch_server config outcome s =
     (case outcome of
        LaunchSpawnFailed e \<Rightarrow> (Inl (local_server_error (utf8 [0x542F, 0x52A8, 0x672C, 0x5730] @ '' MQTT Broker '' @ utf8 [0x7EBF, 0x7A0B]) e), s)
      | LaunchLost e \<Rightarrow> (Inl (local_server_error (utf8 [0x542F, 0x52A8, 0x672C, 0x5730] @ '' MQTT Broker'') e), s)
      | LaunchFailed e \<Rightarrow> (Inl (local_server_error (utf8 [0x542F, 0x52A8, 0x672C, 0x5730] @ '' MQTT Broker'') e), s)
      | LaunchReady \<Rightarrow>
          (let status = status_running config; g = sv_next s in
           (Inr status,
            s\<lparr>sv_status := status, sv_config := Some config, sv_stop := Some g,
              sv_commands := Some g, sv_events := Some g,
              sv_task := Some (g, Alive (broker_new (ucast (lc_max_connections config)))),
              sv_next := Suc g\<rparr>)))"

(* crates/ramag-infra-mqtt/src/local_server.rs:78-146 start *)
definition start_server ::
  "local_config \<Rightarrow> launch \<Rightarrow> server \<Rightarrow> (domain_error + local_status) \<times> server" where
  "start_server config outcome s =
     (case validate_local_config config of
        Inl e \<Rightarrow> (Inl (DeInvalidConfig e), s)
      | Inr _ \<Rightarrow>
          if parse_ip_addr (lc_bind_host config) = None
          then (Inl (DeInvalidConfig (utf8 [0x672C, 0x5730] @ '' MQTT Broker '' @ utf8 [0x76D1, 0x542C, 0x5730, 0x5740, 0x65E0, 0x6548])), s)
          else case sv_task s of
            None \<Rightarrow> launch_server config outcome s
          | Some (g, t) \<Rightarrow>
              if \<not> finished t
              then if (case sv_config s of None \<Rightarrow> False | Some current \<Rightarrow> current \<noteq> config)
                   then (Inl (DeInvalidConfig (utf8 [0x672C, 0x5730] @ '' MQTT Broker '' @ utf8 [0x5DF2, 0x8FD0, 0x884C, 0xFF0C, 0x8BF7, 0x5148, 0x505C, 0x6B62, 0x540E, 0x518D, 0x4FEE, 0x6539, 0x914D, 0x7F6E])), s)
                   else (Inr (sv_status s), s)
              else launch_server config outcome (forget_task s))"

text \<open>\<open>crashes\<close>: whether a thread that is still alive panics on its way out.\<close>

(* crates/ramag-infra-mqtt/src/local_server.rs:148-163 stop *)
definition stop_server :: "bool \<Rightarrow> server \<Rightarrow> (domain_error + local_status) \<times> server" where
  "stop_server crashes s =
     (let s = s\<lparr>sv_stop := None, sv_commands := None, sv_events := None\<rparr>;
          joined = (case sv_task s of
            None \<Rightarrow> True
          | Some (g, t) \<Rightarrow> (case t of Alive _ \<Rightarrow> \<not> crashes | Exited \<Rightarrow> True | Crashed \<Rightarrow> False));
          s = s\<lparr>sv_task := None\<rparr>
      in if \<not> joined
         then (Inl (local_server_error (utf8 [0x7B49, 0x5F85, 0x672C, 0x5730] @ '' MQTT Broker '' @ utf8 [0x505C, 0x6B62]) (''Broker '' @ utf8 [0x7EBF, 0x7A0B, 0x5F02, 0x5E38, 0x9000, 0x51FA])), s)
         else (let s = s\<lparr>sv_config := None, sv_status := (sv_status s)\<lparr>st_running := False\<rparr>\<rparr>
               in (Inr (sv_status s), s)))"

(* crates/ramag-infra-mqtt/src/local_server.rs:165-181 status *)
definition server_status :: "server \<Rightarrow> (domain_error + local_status) \<times> server" where
  "server_status s =
     (let s = (case sv_task s of
          None \<Rightarrow> s
        | Some (g, t) \<Rightarrow>
            if finished t
            then (forget_task s)\<lparr>sv_status := (sv_status s)\<lparr>st_running := False\<rparr>\<rparr>
            else s)
      in (Inr (sv_status s), s))"

section \<open>Commands\<close>

text \<open>The sender of the running broker, or the error of an operation that needs one.\<close>

(* crates/ramag-infra-mqtt/src/local_server.rs:186-194 publish *)
definition command_sender :: "string \<Rightarrow> server \<Rightarrow> domain_error + nat" where
  "command_sender operation s =
     ok_or (case sv_commands s of None \<Rightarrow> None
            | Some g \<Rightarrow> if st_running (sv_status s) then Some g else None)
       (local_server_error operation (''Broker '' @ utf8 [0x5F53, 0x524D, 0x672A, 0x8FD0, 0x884C]))"

text \<open>Sending a command to the thread behind channel \<open>g\<close> and waiting for its answer.  The send fails when
  the thread has ended; \<open>answers\<close> is false when it ends before it answers.\<close>

(* crates/ramag-infra-mqtt/src/local_server.rs:195-204 publish *)
definition on_broker ::
  "string \<Rightarrow> string \<Rightarrow> nat \<Rightarrow> bool \<Rightarrow> (broker \<Rightarrow> (domain_error + 'a) \<times> 'e list \<times> broker)
     \<Rightarrow> server \<Rightarrow> (domain_error + 'a) \<times> 'e list \<times> server" where
  "on_broker operation lost g answers run s =
     (case sv_task s of
        Some (h, Alive b) \<Rightarrow>
          if h \<noteq> g then (Inl (local_server_error operation (''Broker '' @ utf8 [0x8FD0, 0x884C, 0x7EBF, 0x7A0B, 0x5DF2, 0x9000, 0x51FA])), [], s)
          else if \<not> answers
          then (Inl (local_server_error operation lost), [], s\<lparr>sv_task := Some (h, Crashed)\<rparr>)
          else (let (result, effects, b') = run b in
                (result, effects, s\<lparr>sv_task := Some (h, Alive b')\<rparr>))
      | _ \<Rightarrow> (Inl (local_server_error operation (''Broker '' @ utf8 [0x8FD0, 0x884C, 0x7EBF, 0x7A0B, 0x5DF2, 0x9000, 0x51FA])), [], s))"

(* crates/ramag-infra-mqtt/src/local_server.rs:183-205 publish *)
definition publish_server ::
  "string + unit \<Rightarrow> 'd list + nat \<Rightarrow> utc \<Rightarrow> utc \<Rightarrow> bool \<Rightarrow> mqtt_publish_request \<Rightarrow> server
     \<Rightarrow> (domain_error + mqtt_publish_result) \<times> 'd broker_effect list \<times> server" where
  "publish_server retain_set forwarded now at answers r s =
     (case validate_publish_request r of
        Inl e \<Rightarrow> (Inl (DeInvalidConfig e), [], s)
      | Inr _ \<Rightarrow>
          (case command_sender (utf8 [0x53D1, 0x5E03, 0x5230, 0x672C, 0x5730] @ '' MQTT Broker'') s of
             Inl e \<Rightarrow> (Inl e, [], s)
           | Inr g \<Rightarrow>
               on_broker (utf8 [0x53D1, 0x5E03, 0x5230, 0x672C, 0x5730] @ '' MQTT Broker'') (''Broker '' @ utf8 [0x672A, 0x8FD4, 0x56DE, 0x53D1, 0x5E03, 0x7ED3, 0x679C]) g answers
                 (publish_to_local_server retain_set forwarded now at r) s))"

(* crates/ramag-infra-mqtt/src/local_server.rs:207-231 snapshot *)
definition snapshot_server ::
  "(int \<Rightarrow> utc option) \<Rightarrow> snapshot_view \<Rightarrow> bool \<Rightarrow> server
     \<Rightarrow> (domain_error + mqtt_broker_snapshot) \<times> server" where
  "snapshot_server from_millis w answers s =
     (case command_sender (utf8 [0x8BFB, 0x53D6, 0x672C, 0x5730] @ '' MQTT Broker '' @ utf8 [0x5FEB, 0x7167]) s of
        Inl e \<Rightarrow> (Inl e, s)
      | Inr g \<Rightarrow>
          (let (result, _, s') =
             on_broker (utf8 [0x8BFB, 0x53D6, 0x672C, 0x5730] @ '' MQTT Broker '' @ utf8 [0x5FEB, 0x7167]) (''Broker '' @ utf8 [0x672A, 0x8FD4, 0x56DE, 0x5FEB, 0x7167, 0x7ED3, 0x679C]) g answers
               (\<lambda>b. let (r, b') = snapshot_local_server from_millis w b in (r, [] :: unit list, b')) s
           in (result, s')))"

section \<open>Following the events\<close>

datatype poll = PollEvent mqtt_event | PollEmpty | PollClosed

text \<open>The loop of a subscriber over what it observes in each round: whether it was cancelled, and what
  the channel held.  The events it hands to its sink, in order.\<close>

(* crates/ramag-infra-mqtt/src/local_server.rs:244-261 subscribe_events *)
fun follow_events ::
  "(mqtt_event \<Rightarrow> 's \<Rightarrow> event_sink_result \<times> 's) \<Rightarrow> (bool \<times> poll) list \<Rightarrow> 's \<Rightarrow> mqtt_event list \<times> 's" where
  "follow_events sink [] st = ([], st)"
| "follow_events sink ((cancelled, p) # ps) st =
     (if cancelled then ([], st)
      else case p of
        PollEvent e \<Rightarrow>
          (let (result, st') = sink e st in
           case result of
             SinkClosed \<Rightarrow> ([e], st')
           | _ \<Rightarrow> (let (es, st'') = follow_events sink ps st' in (e # es, st'')))
      | PollEmpty \<Rightarrow> follow_events sink ps st
      | PollClosed \<Rightarrow> ([], st))"

(* crates/ramag-infra-mqtt/src/local_server.rs:233-263 subscribe_events *)
definition subscribe_events ::
  "(mqtt_event \<Rightarrow> 's \<Rightarrow> event_sink_result \<times> 's) \<Rightarrow> (bool \<times> poll) list \<Rightarrow> 's \<Rightarrow> server
     \<Rightarrow> domain_error + mqtt_event list \<times> 's" where
  "subscribe_events sink polls st s =
     try_r (ok_or (sv_events s) (DeNotImplemented ''mqtt_local_server_events_not_running''))
       (\<lambda>_. Inr (follow_events sink polls st))"

section \<open>Steps\<close>

text \<open>What can happen to the server: the calls of the application, the hooks of the embedded server,
  a thread that ends by itself, a subscriber that takes an event from the channel.\<close>

datatype 'd server_op =
    OpStart local_config launch
  | OpStop bool
  | OpStatus
  | OpPublish mqtt_publish_request "string + unit" "'d list + nat" utc utc bool
  | OpSnapshot snapshot_view bool
  | OpHook hook_parameter utc utc
  | OpThreadEnds bool
  | OpTakeEvent

definition on_alive :: "(broker \<Rightarrow> broker) \<Rightarrow> server \<Rightarrow> server" where
  "on_alive f s =
     (case sv_task s of Some (g, Alive b) \<Rightarrow> s\<lparr>sv_task := Some (g, Alive (f b))\<rparr> | _ \<Rightarrow> s)"

fun server_step :: "(int \<Rightarrow> utc option) \<Rightarrow> 'd server_op \<Rightarrow> server \<Rightarrow> server" where
  "server_step fm (OpStart config outcome) s = snd (start_server config outcome s)"
| "server_step fm (OpStop crashes) s = snd (stop_server crashes s)"
| "server_step fm OpStatus s = snd (server_status s)"
| "server_step fm (OpPublish r retain_set forwarded now at answers) s =
     snd (snd (publish_server retain_set forwarded now at answers r s))"
| "server_step fm (OpSnapshot w answers) s = snd (snapshot_server fm w answers s)"
| "server_step fm (OpHook p now at) s = on_alive (event_hook fm now at p) s"
| "server_step fm (OpThreadEnds crashed) s =
     (case sv_task s of
        Some (g, Alive _) \<Rightarrow> s\<lparr>sv_task := Some (g, if crashed then Crashed else Exited)\<rparr>
      | _ \<Rightarrow> s)"
| "server_step fm OpTakeEvent s = on_alive (\<lambda>b. b\<lparr>br_events := tl (br_events b)\<rparr>) s"

definition server_run :: "(int \<Rightarrow> utc option) \<Rightarrow> 'd server_op list \<Rightarrow> server \<Rightarrow> server" where
  "server_run fm ops s = fold (server_step fm) ops s"

end
