(* ===== verification/Mqtt_Service.thy ===== *)
theory Mqtt_Service
  imports Mqtt_Management Mqtt_Server
begin

text \<open>
  The MQTT use cases (\<open>crates/ramag-app/src/usecases/mqtt_service.rs\<close>): what is checked before a driver
  or the storage is called, and what is checked of its answer.  A driver is a step on a state of its own
  (the network, a file, the database); every guard that refuses leaves that state alone.  Logging is left
  out.
\<close>

type_synonym ('d, 'a) driver_call = "'d \<Rightarrow> (domain_error + 'a) \<times> 'd"

section \<open>Guards\<close>

(* crates/ramag-app/src/usecases/mqtt_service.rs:369-371 validate_profile *)
definition check_profile :: "mqtt_profile \<Rightarrow> domain_error + unit" where
  "check_profile p = map_err DeInvalidConfig (validate_mqtt_profile p)"

(* crates/ramag-app/src/usecases/mqtt_service.rs:373-382 ensure_management_enabled *)
definition ensure_management_enabled :: "mqtt_profile \<Rightarrow> domain_error + unit" where
  "ensure_management_enabled p =
     try_r (check_profile p) (\<lambda>_.
       if mg_enabled (mq_management p) then Inr () else Inl (DeInvalidConfig (utf8 [0x672A, 0x542F, 0x7528] @ '' Mosquitto '' @ utf8 [0x7BA1, 0x7406, 0x80FD, 0x529B])))"

(* crates/ramag-app/src/usecases/mqtt_service.rs:384-397 ensure_static_file_configured *)
definition ensure_static_file_configured ::
  "mqtt_profile \<Rightarrow> static_file_kind \<Rightarrow> domain_error + unit" where
  "ensure_static_file_configured p kind =
     try_r (ensure_management_enabled p) (\<lambda>_.
       if configured_path kind p \<noteq> None then Inr ()
       else Inl (DeInvalidConfig ((utf8 [0x672A, 0x914D, 0x7F6E] @ '' Mosquitto '') @ static_file_label kind @ ('' '' @ utf8 [0x8DEF, 0x5F84]))))"

(* crates/ramag-app/src/usecases/mqtt_service.rs:399-413 validate_static_file *)
definition check_static_file ::
  "mqtt_profile \<Rightarrow> mosquitto_static_file \<Rightarrow> domain_error + mosquitto_static_file" where
  "check_static_file p f =
     try_r (map_err DeInvalidConfig (validate_mosquitto_file f)) (\<lambda>_.
     try_r (ok_or (configured_path (sf_kind f) p)
         (DeInvalidConfig ((utf8 [0x672A, 0x914D, 0x7F6E] @ '' Mosquitto '') @ static_file_label (sf_kind f) @ ('' '' @ utf8 [0x8DEF, 0x5F84])))) (\<lambda>expected.
       if sf_path f \<noteq> expected
       then Inl (DeInvalidConfig (''Mosquitto '' @ utf8 [0x9759, 0x6001, 0x914D, 0x7F6E, 0x8FD4, 0x56DE, 0x8DEF, 0x5F84, 0x4E0E, 0x5DF2, 0x4FDD, 0x5B58, 0x914D, 0x7F6E, 0x4E0D, 0x4E00, 0x81F4]))
       else Inr f))"

(* crates/ramag-app/src/usecases/mqtt_service.rs:415-430 validate_management_name *)
definition check_management_name :: "string \<Rightarrow> string \<Rightarrow> domain_error + unit" where
  "check_management_name label v =
     (if trim v = [] then Inl (DeInvalidConfig (label @ (utf8 [0x4E0D, 0x80FD, 0x4E3A, 0x7A7A])))
      else if MAX_MOSQUITTO_NAME_BYTES < length v
      then Inl (DeInvalidConfig (label @ (utf8 [0x8FC7, 0x957F, 0xFF1A, 0x6700, 0x591A] @ '' '') @ dec MAX_MOSQUITTO_NAME_BYTES @ '' bytes''))
      else if has_control v then Inl (DeInvalidConfig (label @ (utf8 [0x4E0D, 0x80FD, 0x5305, 0x542B, 0x63A7, 0x5236, 0x5B57, 0x7B26])))
      else Inr ())"

(* crates/ramag-app/src/usecases/mqtt_service.rs:432-443 validate_publish_result *)
definition check_publish_result ::
  "mqtt_publish_request \<Rightarrow> mqtt_publish_result \<Rightarrow> domain_error + mqtt_publish_result" where
  "check_publish_result request r =
     try_r (map_err DeInvalidConfig (validate_result r)) (\<lambda>_.
       if ps_topic r \<noteq> pr_topic request \<or> ps_qos r \<noteq> pr_qos request
       then Inl (DeInvalidConfig (''MQTT '' @ utf8 [0x53D1, 0x5E03, 0x7ED3, 0x679C, 0x4E0E, 0x8BF7, 0x6C42, 0x4E0D, 0x4E00, 0x81F4]))
       else Inr r)"

section \<open>The built-in broker\<close>

(* crates/ramag-app/src/usecases/mqtt_service.rs:63-77 start_local_server *)
definition start_local_server ::
  "(local_config \<Rightarrow> ('d, local_status) driver_call) \<Rightarrow> local_config \<Rightarrow> ('d, local_status) driver_call" where
  "start_local_server driver c =
     bind_s (lift_r (map_err DeInvalidConfig (validate_local_config c))) (\<lambda>_. driver c)"

(* crates/ramag-app/src/usecases/mqtt_service.rs:93-119 publish_local_server *)
definition publish_local_server ::
  "(mqtt_publish_request \<Rightarrow> ('d, mqtt_publish_result) driver_call) \<Rightarrow> mqtt_publish_request
     \<Rightarrow> ('d, mqtt_publish_result) driver_call" where
  "publish_local_server driver r =
     bind_s (lift_r (map_err DeInvalidConfig (validate_publish_request r))) (\<lambda>_. driver r)"

(* crates/ramag-app/src/usecases/mqtt_service.rs:121-141 local_server_snapshot *)
definition local_server_snapshot ::
  "('d, mqtt_broker_snapshot) driver_call \<Rightarrow> ('d, mqtt_broker_snapshot) driver_call" where
  "local_server_snapshot driver =
     bind_s driver (\<lambda>s. lift_r (map_err DeInvalidConfig (validate_snapshot s)))"

section \<open>Profiles and connections\<close>

(* crates/ramag-app/src/usecases/mqtt_service.rs:165-170 save_profile *)
definition save_profile ::
  "(mqtt_profile \<Rightarrow> ('d, unit) driver_call) \<Rightarrow> mqtt_profile \<Rightarrow> ('d, unit) driver_call" where
  "save_profile storage p =
     bind_s (lift_r (map_err DeInvalidConfig (validate_mqtt_profile p))) (\<lambda>_. storage p)"

(* crates/ramag-app/src/usecases/mqtt_service.rs:178-184 test_connection *)
definition test_connection ::
  "(mqtt_profile \<Rightarrow> ('d, unit) driver_call) \<Rightarrow> mqtt_profile \<Rightarrow> ('d, unit) driver_call" where
  "test_connection driver p = bind_s (lift_r (check_profile p)) (\<lambda>_. driver p)"

(* crates/ramag-app/src/usecases/mqtt_service.rs:186-212 publish *)
definition service_publish ::
  "(mqtt_profile \<Rightarrow> mqtt_publish_request \<Rightarrow> ('d, mqtt_publish_result) driver_call)
     \<Rightarrow> mqtt_profile \<Rightarrow> mqtt_publish_request \<Rightarrow> ('d, mqtt_publish_result) driver_call" where
  "service_publish driver p r =
     bind_s (lift_r (check_profile p)) (\<lambda>_.
     bind_s (lift_r (map_err DeInvalidConfig (validate_publish_request r))) (\<lambda>_.
     bind_s (driver p r) (\<lambda>result. lift_r (check_publish_result r result))))"

(* crates/ramag-app/src/usecases/mqtt_service.rs:214-232 subscribe *)
definition service_subscribe ::
  "(mqtt_profile \<Rightarrow> mqtt_subscription list \<Rightarrow> ('d, unit) driver_call)
     \<Rightarrow> mqtt_profile \<Rightarrow> mqtt_subscription list \<Rightarrow> ('d, unit) driver_call" where
  "service_subscribe driver p ss =
     bind_s (lift_r (check_profile p)) (\<lambda>_.
     bind_s (lift_r (map_err DeInvalidConfig (validate_subscribe_request ss))) (\<lambda>_. driver p ss))"

(* crates/ramag-app/src/usecases/mqtt_service.rs:234-254 broker_snapshot *)
definition service_broker_snapshot ::
  "(mqtt_profile \<Rightarrow> ('d, mqtt_broker_snapshot) driver_call) \<Rightarrow> mqtt_profile
     \<Rightarrow> ('d, mqtt_broker_snapshot) driver_call" where
  "service_broker_snapshot driver p =
     bind_s (lift_r (check_profile p)) (\<lambda>_.
     bind_s (driver p) (\<lambda>s. lift_r (map_err DeInvalidConfig (validate_snapshot s))))"

section \<open>Management\<close>

text \<open>What the application can ask of the dynamic security of a broker and of its static files.\<close>

datatype management_op =
    MgSaveClient mosquitto_client
  | MgDeleteClient string
  | MgSaveGroup mosquitto_group
  | MgDeleteGroup string
  | MgSaveRole mosquitto_role
  | MgDeleteRole string

(* crates/ramag-app/src/usecases/mqtt_service.rs:256-268 dynamic_security_snapshot *)
definition service_security_snapshot ::
  "(mqtt_profile \<Rightarrow> ('d, dynamic_security_snapshot) driver_call) \<Rightarrow> mqtt_profile
     \<Rightarrow> ('d, dynamic_security_snapshot) driver_call" where
  "service_security_snapshot driver p =
     bind_s (lift_r (ensure_management_enabled p)) (\<lambda>_.
     bind_s (driver p) (\<lambda>s. lift_r (map_err DeInvalidConfig (validate_security_snapshot s))))"

text \<open>The check each operation makes of its argument, once management is known to be enabled.\<close>

(* crates/ramag-app/src/usecases/mqtt_service.rs:270-331 save_client .. delete_role *)
fun check_management_op :: "management_op \<Rightarrow> domain_error + unit" where
  "check_management_op (MgSaveClient c) = map_err DeInvalidConfig (validate_mosquitto_client c)"
| "check_management_op (MgDeleteClient name) = check_management_name (utf8 [0x5BA2, 0x6237, 0x7AEF, 0x7528, 0x6237, 0x540D]) name"
| "check_management_op (MgSaveGroup g) = map_err DeInvalidConfig (validate_mosquitto_group g)"
| "check_management_op (MgDeleteGroup name) = check_management_name (''Group '' @ utf8 [0x540D, 0x79F0]) name"
| "check_management_op (MgSaveRole r) = map_err DeInvalidConfig (validate_mosquitto_role r)"
| "check_management_op (MgDeleteRole name) = check_management_name (''Role '' @ utf8 [0x540D, 0x79F0]) name"

(* crates/ramag-app/src/usecases/mqtt_service.rs:270-331 save_client .. delete_role *)
definition service_manage ::
  "(mqtt_profile \<Rightarrow> management_op \<Rightarrow> ('d, unit) driver_call) \<Rightarrow> mqtt_profile \<Rightarrow> management_op
     \<Rightarrow> ('d, unit) driver_call" where
  "service_manage driver p op =
     bind_s (lift_r (ensure_management_enabled p)) (\<lambda>_.
     bind_s (lift_r (check_management_op op)) (\<lambda>_. driver p op))"

(* crates/ramag-app/src/usecases/mqtt_service.rs:333-346 read_static_file *)
definition read_static_file ::
  "(mqtt_profile \<Rightarrow> static_file_kind \<Rightarrow> ('d, mosquitto_static_file) driver_call)
     \<Rightarrow> mqtt_profile \<Rightarrow> static_file_kind \<Rightarrow> ('d, mosquitto_static_file) driver_call" where
  "read_static_file driver p kind =
     bind_s (lift_r (ensure_static_file_configured p kind)) (\<lambda>_.
     bind_s (driver p kind) (\<lambda>f. lift_r (check_static_file p f)))"

(* crates/ramag-app/src/usecases/mqtt_service.rs:348-366 write_static_file *)
definition write_static_file ::
  "(mqtt_profile \<Rightarrow> mosquitto_static_file \<Rightarrow> ('d, unit) driver_call)
     \<Rightarrow> mqtt_profile \<Rightarrow> mosquitto_static_file \<Rightarrow> ('d, unit) driver_call" where
  "write_static_file driver p f =
     bind_s (lift_r (ensure_static_file_configured p (sf_kind f))) (\<lambda>_.
     bind_s (lift_r (map_err DeInvalidConfig (validate_mosquitto_file f))) (\<lambda>_.
     bind_s (lift_r (ok_or (configured_path (sf_kind f) p)
         (DeInvalidConfig ((utf8 [0x672A, 0x914D, 0x7F6E] @ '' Mosquitto '') @ static_file_label (sf_kind f) @ ('' '' @ utf8 [0x8DEF, 0x5F84]))))) (\<lambda>expected.
     bind_s (lift_r (if sf_path f \<noteq> expected
         then Inl (DeInvalidConfig (''Mosquitto '' @ utf8 [0x9759, 0x6001, 0x914D, 0x7F6E, 0x8DEF, 0x5F84, 0x4E0E, 0x5DF2, 0x4FDD, 0x5B58, 0x914D, 0x7F6E, 0x4E0D, 0x4E00, 0x81F4])) else Inr ())) (\<lambda>_.
       driver p f))))"

end
