(* ===== verification/Mqtt_Telemetry_Laws.thy ===== *)
theory Mqtt_Telemetry_Laws
  imports Mqtt_Telemetry
begin

text \<open>
  What the counters of the broker mean: after any messages the topic directory holds the first topics
  seen, with the exact number of messages of each, and the invariant that every hook keeps.
\<close>

section \<open>The first topics seen\<close>

definition first_seen :: "'a list \<Rightarrow> 'a list" where
  "first_seen xs = rev (remdups (rev xs))"

lemma first_seen_Nil [simp]: "first_seen [] = []"
  by (simp add: first_seen_def)

lemma first_seen_snoc:
  "first_seen (xs @ [x]) = (if x \<in> set xs then first_seen xs else first_seen xs @ [x])"
  by (simp add: first_seen_def)

lemma set_first_seen [simp]: "set (first_seen xs) = set xs"
  by (simp add: first_seen_def)

lemma distinct_first_seen [simp]: "distinct (first_seen xs)"
  by (simp add: first_seen_def)

section \<open>The directory\<close>

text \<open>The counters after the messages with the topics \<open>ts\<close>, while no counter has saturated.\<close>

definition directory_of :: "string list \<Rightarrow> telemetry \<Rightarrow> bool" where
  "directory_of ts t \<longleftrightarrow>
     bm_wf (tm_topics t)
     \<and> set (map fst (tm_topics t)) = set (take MAX_MQTT_TOPIC_OBSERVATIONS (first_seen ts))
     \<and> (\<forall>name x. bm_get (tm_topics t) name = Some x \<longrightarrow>
          unat (tt_publish_count x) = count_list ts name)
     \<and> unat (tm_published_messages t) = length ts
     \<and> unat (tm_dropped_topics t) =
         length (filter (\<lambda>x. x \<notin> set (take MAX_MQTT_TOPIC_OBSERVATIONS (first_seen ts))) ts)"

lemma directory_of_new: "directory_of [] (telemetry_new n)"
  by (simp add: directory_of_def telemetry_new_def bm_get_def)

lemma length_topics:
  assumes "directory_of ts t"
  shows "length (tm_topics t) = min MAX_MQTT_TOPIC_OBSERVATIONS (length (first_seen ts))"
proof -
  have "distinct (map fst (tm_topics t))" using assms bm_wf_distinct directory_of_def by blast
  then have "length (tm_topics t) = card (set (map fst (tm_topics t)))"
    by (metis distinct_card length_map)
  also have "\<dots> = card (set (take MAX_MQTT_TOPIC_OBSERVATIONS (first_seen ts)))"
    using assms by (simp add: directory_of_def)
  also have "\<dots> = length (take MAX_MQTT_TOPIC_OBSERVATIONS (first_seen ts))"
    by (rule distinct_card) simp
  finally show ?thesis by simp
qed

lemma unat_sat_add_one: "unat (a :: u64) + 1 < 2 ^ 64 \<Longrightarrow> unat (sat_add a 1) = unat a + 1"
  by (simp add: unat_sat_add)

lemma count_list_snoc: "count_list (xs @ [x]) y = count_list xs y + (if x = y then 1 else 0)"
  by (induction xs) auto

text \<open>The three branches of a recorded message.\<close>

lemma record_known:
  assumes "directory_of ts t" "bm_get (tm_topics t) (mm_topic m) = Some x" "length ts + 1 < 2 ^ 64"
  shows "directory_of (ts @ [mm_topic m]) (record_published m t)"
proof -
  let ?n = "mm_topic m" and ?K = "set (take MAX_MQTT_TOPIC_OBSERVATIONS (first_seen ts))"
  note d = assms(1) [unfolded directory_of_def]
  have wf: "bm_wf (tm_topics t)" using d by blast
  have "?n \<in> set (map fst (tm_topics t))" using assms(2) unfolding bm_keys_eq by simp
  then have K: "?n \<in> ?K" using d by simp
  then have seen: "?n \<in> set ts" using set_take_subset [of _ "first_seen ts"] by auto
  have c: "unat (tt_publish_count x) = count_list ts ?n" using d assms(2) by blast
  have "count_list ts ?n \<le> length ts" by (rule count_le_length)
  then have one: "unat (sat_add (tt_publish_count x) 1) = count_list ts ?n + 1"
    using c assms(3) unat_sat_add_one [of "tt_publish_count x"] by simp
  let ?x = "\<lparr>tt_publish_count = sat_add (tt_publish_count x) 1,
    tt_last_payload_bytes = length (mm_payload m), tt_observed_at = mm_received_at m\<rparr>"
  have e: "record_published m t = t\<lparr>tm_published_messages := sat_add (tm_published_messages t) 1,
      tm_topics := bm_insert ?n ?x (tm_topics t)\<rparr>"
    using assms(2) by (simp add: record_published_def Let_def)
  have counts: "unat (tt_publish_count y) = count_list (ts @ [?n]) name"
    if "bm_get (bm_insert ?n ?x (tm_topics t)) name = Some y" for name y
  proof (cases "name = ?n")
    case True
    with that have "y = ?x" by (simp add: bm_get_insert)
    with True show ?thesis using c one by (simp add: count_list_snoc)
  next
    case False
    with that have "bm_get (tm_topics t) name = Some y" by (simp add: bm_get_insert)
    with False show ?thesis using d by (simp add: count_list_snoc)
  qed
  have pub: "unat (sat_add (tm_published_messages t) 1) = length ts + 1"
    using d assms(3) unat_sat_add_one [of "tm_published_messages t"] by simp
  show ?thesis unfolding directory_of_def e
    using d K seen counts pub
    by (simp add: bm_insert_wf bm_insert_keys first_seen_snoc insert_absorb del: set_map)
qed

lemma record_dropped:
  assumes "directory_of ts t" "bm_get (tm_topics t) (mm_topic m) = None" "length ts + 1 < 2 ^ 64"
    and full: "MAX_MQTT_TOPIC_OBSERVATIONS \<le> length (tm_topics t)"
  shows "directory_of (ts @ [mm_topic m]) (record_published m t)"
proof -
  let ?n = "mm_topic m" and ?K = "set (take MAX_MQTT_TOPIC_OBSERVATIONS (first_seen ts))"
  note d = assms(1) [unfolded directory_of_def]
  have len: "MAX_MQTT_TOPIC_OBSERVATIONS \<le> length (first_seen ts)"
    using full length_topics [OF assms(1)] by simp
  have keys: "set (map fst (tm_topics t)) = ?K" using d by blast
  have K: "?n \<notin> ?K"
    using assms(2) unfolding keys [symmetric] bm_keys_eq by simp
  have K': "set (take MAX_MQTT_TOPIC_OBSERVATIONS (first_seen (ts @ [?n]))) = ?K"
    using len by (simp add: first_seen_snoc)
  have e: "record_published m t = t\<lparr>tm_published_messages := sat_add (tm_published_messages t) 1,
      tm_dropped_topics := sat_add (tm_dropped_topics t) 1\<rparr>"
    using assms(2) full by (simp add: record_published_def Let_def)
  have "unat (tm_dropped_topics t) \<le> length ts" using d length_filter_le by metis
  then have dropped: "unat (sat_add (tm_dropped_topics t) 1) = unat (tm_dropped_topics t) + 1"
    using assms(3) unat_sat_add_one [of "tm_dropped_topics t"] by simp
  have counts: "unat (tt_publish_count y) = count_list (ts @ [?n]) name"
    if "bm_get (tm_topics t) name = Some y" for name y
  proof -
    have "name \<noteq> ?n" using that assms(2) by auto
    then show ?thesis using that d by (simp add: count_list_snoc)
  qed
  have pub: "unat (sat_add (tm_published_messages t) 1) = length ts + 1"
    using d assms(3) unat_sat_add_one [of "tm_published_messages t"] by simp
  show ?thesis unfolding directory_of_def e K'
    using d K counts pub dropped by auto
qed

lemma record_new:
  assumes "directory_of ts t" "bm_get (tm_topics t) (mm_topic m) = None" "length ts + 1 < 2 ^ 64"
    and space: "length (tm_topics t) < MAX_MQTT_TOPIC_OBSERVATIONS"
  shows "directory_of (ts @ [mm_topic m]) (record_published m t)"
proof -
  let ?n = "mm_topic m"
  note d = assms(1) [unfolded directory_of_def]
  have wf: "bm_wf (tm_topics t)" using d by blast
  have len: "length (first_seen ts) < MAX_MQTT_TOPIC_OBSERVATIONS"
    using space length_topics [OF assms(1)] by simp
  have keys: "set (map fst (tm_topics t)) = set ts" using d len by simp
  have new: "?n \<notin> set ts"
    using assms(2) unfolding keys [symmetric] bm_keys_eq by simp
  let ?x = "\<lparr>tt_publish_count = 1,
    tt_last_payload_bytes = length (mm_payload m), tt_observed_at = mm_received_at m\<rparr>"
  have e: "record_published m t = t\<lparr>tm_published_messages := sat_add (tm_published_messages t) 1,
      tm_topics := bm_insert ?n ?x (tm_topics t)\<rparr>"
    using assms(2) space by (simp add: record_published_def Let_def)
  have K': "set (take MAX_MQTT_TOPIC_OBSERVATIONS (first_seen (ts @ [?n]))) = insert ?n (set ts)"
    using len new by (simp add: first_seen_snoc)
  have counts: "unat (tt_publish_count y) = count_list (ts @ [?n]) name"
    if "bm_get (bm_insert ?n ?x (tm_topics t)) name = Some y" for name y
  proof (cases "name = ?n")
    case True
    with that have "y = ?x" by (simp add: bm_get_insert)
    with True show ?thesis using new by (simp add: count_list_snoc count_list_0_iff)
  next
    case False
    with that have "bm_get (tm_topics t) name = Some y" by (simp add: bm_get_insert)
    with False show ?thesis using d by (simp add: count_list_snoc)
  qed
  have pub: "unat (sat_add (tm_published_messages t) 1) = length ts + 1"
    using d assms(3) unat_sat_add_one [of "tm_published_messages t"] by simp
  have "unat (tm_dropped_topics t) = 0" using d len by (simp add: filter_empty_conv)
  then show ?thesis unfolding directory_of_def e K'
    using d counts pub keys
    by (simp add: bm_insert_wf bm_insert_keys filter_empty_conv del: set_map)
qed

lemma record_published_directory:
  assumes "directory_of ts t" "length ts + 1 < 2 ^ 64"
  shows "directory_of (ts @ [mm_topic m]) (record_published m t)"
  using record_known record_dropped record_new assms
  by (metis not_le option.exhaust)

section \<open>What the hooks keep\<close>

text \<open>\<open>emit_local_event\<close> leaves the directory alone.\<close>

lemma directory_of_cong:
  "tm_topics t' = tm_topics t \<Longrightarrow> tm_published_messages t' = tm_published_messages t \<Longrightarrow>
   tm_dropped_topics t' = tm_dropped_topics t \<Longrightarrow> directory_of ts t' = directory_of ts t"
  by (simp add: directory_of_def)

lemma emit_directory [simp]:
  "directory_of ts (br_telemetry (emit_local_event e b)) = directory_of ts (br_telemetry b)"
  by (auto simp: emit_local_event_def record_dropped_event_def directory_of_def split: sum.splits)

lemma record_connection_directory [simp]:
  "directory_of ts (record_connected t) = directory_of ts t"
  "directory_of ts (record_disconnected t) = directory_of ts t"
  by (auto simp: record_connected_def record_disconnected_def Let_def directory_of_def)

text \<open>The message a hook records.\<close>

fun hook_messages :: "utc \<Rightarrow> hook_parameter \<Rightarrow> mqtt_message list" where
  "hook_messages now (HookPublish (Some session) p) =
     (case message_from_oximqtt now p of Some m \<Rightarrow> [m] | None \<Rightarrow> [])"
| "hook_messages now _ = []"

lemma hook_messages_length: "length (hook_messages now p) \<le> 1"
  by (cases "(now, p)" rule: hook_messages.cases) (auto split: option.splits)

lemma event_hook_directory:
  assumes "directory_of ts (br_telemetry b)" "length ts + 1 < 2 ^ 64"
  shows "directory_of (ts @ map mm_topic (hook_messages now p))
           (br_telemetry (event_hook from_millis now at p b))"
proof (cases p)
  case (HookPublish session publish)
  then show ?thesis
    using assms record_published_directory [OF assms]
    by (cases session) (auto split: option.splits)
qed (use assms in \<open>auto split: option.splits\<close>)

section \<open>The invariant of the broker\<close>

definition broker_wf :: "broker \<Rightarrow> bool" where
  "broker_wf b \<longleftrightarrow>
     bm_wf (tm_topics (br_telemetry b))
     \<and> length (tm_topics (br_telemetry b)) \<le> MAX_MQTT_TOPIC_OBSERVATIONS
     \<and> (\<forall>n\<in>set (map fst (tm_topics (br_telemetry b))). validate_mqtt_topic_name n = Inr ())
     \<and> tm_current_connections (br_telemetry b) \<le> tm_peak_connections (br_telemetry b)
     \<and> length (br_events b) \<le> LOCAL_SERVER_EVENT_QUEUE
     \<and> (\<forall>e\<in>set (br_events b). validate_event e = Inr ())"

lemma broker_new_wf: "broker_wf (broker_new n)"
  by (simp add: broker_wf_def broker_new_def telemetry_new_def)

lemma emit_wf: "broker_wf b \<Longrightarrow> broker_wf (emit_local_event e b)"
  by (auto simp: broker_wf_def emit_local_event_def record_dropped_event_def split: sum.splits)

lemma record_published_wf:
  assumes "broker_wf b" "validate_message m = Inr ()"
  shows "broker_wf (b\<lparr>br_telemetry := record_published m (br_telemetry b)\<rparr>)"
proof -
  let ?t = "br_telemetry b"
  have n: "validate_mqtt_topic_name (mm_topic m) = Inr ()"
    using validate_message_topic [OF assms(2)] .
  note b = assms(1) [unfolded broker_wf_def]
  have wf0: "bm_wf (tm_topics ?t)" using b by (rule conjunct1)
  have wf: "bm_wf (bm_insert k v (tm_topics ?t))" for k v
    by (rule bm_insert_wf [OF wf0])
  have keep: "length (bm_insert (mm_topic m) v (tm_topics ?t)) = length (tm_topics ?t)"
    if "bm_get (tm_topics ?t) (mm_topic m) = Some x" for v x
  proof -
    have "mm_topic m \<in> set (map fst (tm_topics ?t))" using that unfolding bm_keys_eq by simp
    then have "set (map fst (bm_insert (mm_topic m) v (tm_topics ?t))) = set (map fst (tm_topics ?t))"
      by (simp add: bm_insert_keys insert_absorb del: set_map)
    then show ?thesis
      using bm_wf_distinct [OF wf] bm_wf_distinct [OF wf0] by (metis distinct_card length_map)
  qed
  have max: "length (tm_topics ?t) \<le> MAX_MQTT_TOPIC_OBSERVATIONS"
    using b by (simp del: set_map)
  have same: "tm_current_connections (record_published m ?t) = tm_current_connections ?t"
    "tm_peak_connections (record_published m ?t) = tm_peak_connections ?t"
    by (simp_all add: record_published_def Let_def split: option.splits)
  consider "tm_topics (record_published m ?t) = tm_topics ?t"
    | v where "tm_topics (record_published m ?t) = bm_insert (mm_topic m) v (tm_topics ?t)"
      "length (bm_insert (mm_topic m) v (tm_topics ?t)) \<le> MAX_MQTT_TOPIC_OBSERVATIONS"
  proof (cases "bm_get (tm_topics ?t) (mm_topic m)")
    case (Some x)
    then show ?thesis using that(2) keep [OF Some] max by (simp add: record_published_def Let_def)
  next
    case None
    show ?thesis
    proof (cases "MAX_MQTT_TOPIC_OBSERVATIONS \<le> length (tm_topics ?t)")
      case True
      with None show ?thesis using that(1) by (simp add: record_published_def Let_def)
    next
      case False
      then have "length (bm_insert (mm_topic m) v (tm_topics ?t)) \<le> MAX_MQTT_TOPIC_OBSERVATIONS" for v
        using length_bm_insert_le [of "mm_topic m" v "tm_topics ?t"] by linarith
      then show ?thesis using that(2) None False by (simp add: record_published_def Let_def)
    qed
  qed
  then show ?thesis
  proof cases
    case 1
    then show ?thesis using assms(1) same by (simp add: broker_wf_def)
  next
    case 2
    have "validate_mqtt_topic_name k = Inr ()"
      if "k \<in> set (map fst (bm_insert (mm_topic m) v (tm_topics ?t)))" for k
    proof -
      have "k = mm_topic m \<or> k \<in> set (map fst (tm_topics ?t))"
        using that unfolding bm_insert_keys by blast
      then show ?thesis using n b by blast
    qed
    then show ?thesis using 2 b same wf unfolding broker_wf_def by (simp del: set_map)
  qed
qed

lemma sat_sub_le: "sat_sub a b \<le> a"
  by (auto simp: sat_sub_def word_le_nat_alt unat_sub)

lemma record_connected_wf:
  "broker_wf b \<Longrightarrow> broker_wf (b\<lparr>br_telemetry := record_connected (br_telemetry b)\<rparr>)"
  by (simp add: broker_wf_def record_connected_def Let_def)

lemma record_disconnected_wf:
  "broker_wf b \<Longrightarrow> broker_wf (b\<lparr>br_telemetry := record_disconnected (br_telemetry b)\<rparr>)"
  by (auto simp: broker_wf_def record_disconnected_def intro: order_trans [OF sat_sub_le])

lemma message_from_oximqtt_valid:
  "message_from_oximqtt now p = Some m \<Longrightarrow> validate_message m = Inr ()"
  by (auto simp: message_from_oximqtt_def Let_def split: sum.splits)

lemma event_hook_wf: "broker_wf b \<Longrightarrow> broker_wf (event_hook from_millis now at p b)"
  by (cases p)
    (auto intro!: emit_wf record_connected_wf record_disconnected_wf record_published_wf
      message_from_oximqtt_valid split: option.splits)

lemma telemetry_snapshot_wf:
  "broker_wf b \<Longrightarrow> broker_wf (b\<lparr>br_telemetry := snd (telemetry_snapshot n (br_telemetry b))\<rparr>)"
  by (simp add: broker_wf_def telemetry_snapshot_def Let_def)

lemma take_event_wf: "broker_wf b \<Longrightarrow> broker_wf (b\<lparr>br_events := tl (br_events b)\<rparr>)"
  by (cases "br_events b") (auto simp: broker_wf_def)

end
