(* ===== verification/Mqtt_Broker_Laws.thy ===== *)
theory Mqtt_Broker_Laws
  imports Mqtt_Broker Mqtt_Telemetry_Laws
begin

text \<open>
  What publishing and snapshots do: a published request is recorded once and read back unchanged, and a
  snapshot merges the observed and the retained topics without losing one unless it says so.
\<close>

section \<open>Publishing\<close>

lemma message_of_request_valid:
  "validate_publish_request r = Inr () \<Longrightarrow> validate_message (message_of_request now r) = Inr ()"
  by (simp add: validate_publish_request_def validate_message_def message_of_request_def)

text \<open>What the embedded server delivers to its hooks is the message of the request.\<close>

lemma message_from_request:
  assumes "validate_publish_request r = Inr ()"
  shows "message_from_oximqtt now (oxi_publish_of r) = Some (message_of_request now r)"
proof -
  have ps: "map (\<lambda>(n, v). \<lparr>up_name = n, up_value = v\<rparr>) (map (\<lambda>p. (up_name p, up_value p)) ps) = ps"
    for ps :: "mqtt_user_property list"
    by (induction ps) simp_all
  have q: "qos_from_oximqtt (case q of AtMostOnce \<Rightarrow> 0 | AtLeastOnce \<Rightarrow> 1 | ExactlyOnce \<Rightarrow> 2) = q" for q
    by (cases q) (simp_all add: qos_from_oximqtt_def)
  show ?thesis
    using message_of_request_valid [OF assms, of now]
    by (simp add: message_from_oximqtt_def oxi_publish_of_def message_of_request_def ps q
        split: sum.splits del: map_map)
qed

text \<open>The message a publish command records.\<close>

definition publish_messages :: "string + unit \<Rightarrow> utc \<Rightarrow> mqtt_publish_request \<Rightarrow> mqtt_message list" where
  "publish_messages retain_set now r =
     (if pr_retain r \<and> retain_set \<noteq> Inr () then [] else [message_of_request now r])"

lemma publish_directory:
  assumes "directory_of ts (br_telemetry b)" "length ts + 1 < 2 ^ 64"
    and "publish_to_local_server retain_set forwarded now at r b = (res, effects, b')"
  shows "directory_of (ts @ map mm_topic (publish_messages retain_set now r)) (br_telemetry b')"
  using assms record_published_directory [OF assms(1,2), of "message_of_request now r"]
  by (auto simp: publish_to_local_server_def publish_messages_def Let_def retain_enabled_def
      split: if_splits sum.splits)

lemma publish_wf:
  assumes "broker_wf b" "validate_publish_request r = Inr ()"
    and "publish_to_local_server retain_set forwarded now at r b = (res, effects, b')"
  shows "broker_wf b'"
  using assms emit_wf record_published_wf message_of_request_valid
  by (auto simp: publish_to_local_server_def Let_def split: if_splits sum.splits)

section \<open>Merging retained topics\<close>

definition merged ::
  "(string, mqtt_topic_observation) bmap \<Rightarrow> string list
     \<Rightarrow> (string, mqtt_topic_observation) bmap \<times> bool \<Rightarrow> bool" where
  "merged observed names = (\<lambda>(topics, incomplete).
     bm_wf topics \<and> length topics \<le> MAX_MQTT_TOPIC_OBSERVATIONS
     \<and> (\<forall>n t. bm_get topics n = Some t \<longrightarrow>
          to_name t = n \<and> (bm_get observed n \<noteq> None \<or> n \<in> set names))
     \<and> (\<forall>n t. bm_get observed n = Some t \<longrightarrow>
          (\<exists>u. bm_get topics n = Some u \<and> to_source u = to_source t
             \<and> to_publish_count u = to_publish_count t
             \<and> to_subscriber_count u = to_subscriber_count t))
     \<and> (\<not> incomplete \<longrightarrow> (\<forall>n\<in>set names. \<exists>u. bm_get topics n = Some u \<and> to_retained u)))"

lemma length_bm_insert_known:
  assumes "bm_wf m" "bm_get m k \<noteq> None"
  shows "length (bm_insert k v m) = length m"
proof -
  have "k \<in> set (map fst m)" using assms(2) unfolding bm_keys_eq by simp
  then have "set (map fst (bm_insert k v m)) = set (map fst m)"
    by (simp add: bm_insert_keys insert_absorb del: set_map)
  then show ?thesis
    using bm_wf_distinct [OF bm_insert_wf [OF assms(1)]] bm_wf_distinct [OF assms(1)]
    by (metis distinct_card length_map)
qed

lemma merged_step:
  assumes "merged observed names (topics, incomplete)"
  shows "merged observed (names @ [n]) (add_retained (n, payload_bytes) (topics, incomplete))"
proof (cases "bm_get topics n = None \<and> MAX_MQTT_TOPIC_OBSERVATIONS \<le> length topics")
  case True
  with assms show ?thesis unfolding merged_def add_retained_def by auto
next
  case False
  have wf: "bm_wf topics" and max: "length topics \<le> MAX_MQTT_TOPIC_OBSERVATIONS"
    and names: "\<And>k t. bm_get topics k = Some t \<Longrightarrow>
      to_name t = k \<and> (bm_get observed k \<noteq> None \<or> k \<in> set names)"
    and obs: "\<And>k t. bm_get observed k = Some t \<Longrightarrow> \<exists>u. bm_get topics k = Some u
      \<and> to_source u = to_source t \<and> to_publish_count u = to_publish_count t
      \<and> to_subscriber_count u = to_subscriber_count t"
    and full: "\<And>k. \<not> incomplete \<Longrightarrow> k \<in> set names \<Longrightarrow>
      \<exists>u. bm_get topics k = Some u \<and> to_retained u"
    using assms unfolding merged_def by simp_all
  let ?u = "(case bm_get topics n of Some t \<Rightarrow> t | None \<Rightarrow> retained_topic n payload_bytes)\<lparr>to_retained := True\<rparr>"
  let ?v = "if to_publish_count ?u = 0 then ?u\<lparr>to_last_payload_bytes := payload_bytes\<rparr> else ?u"
  have e: "add_retained (n, payload_bytes) (topics, incomplete) = (bm_insert n ?v topics, incomplete)"
    unfolding add_retained_def prod.case Let_def by (rule if_not_P [OF False])
  have len: "length (bm_insert n ?v topics) \<le> MAX_MQTT_TOPIC_OBSERVATIONS"
  proof (cases "bm_get topics n = None")
    case True
    then show ?thesis using False length_bm_insert_le [of n ?v topics] by linarith
  next
    case False
    from length_bm_insert_known [OF wf False] show ?thesis using max by simp
  qed
  have v: "to_name ?v = n" "to_retained ?v"
    "bm_get topics n = Some t \<Longrightarrow> to_source ?v = to_source t
       \<and> to_publish_count ?v = to_publish_count t \<and> to_subscriber_count ?v = to_subscriber_count t" for t
    using names by (auto simp: retained_topic_def split: option.splits)
  show ?thesis unfolding e merged_def prod.case
  proof (intro conjI allI impI ballI)
    show "bm_wf (bm_insert n ?v topics)" by (rule bm_insert_wf [OF wf])
    show "length (bm_insert n ?v topics) \<le> MAX_MQTT_TOPIC_OBSERVATIONS" by (rule len)
  next
    fix k t
    assume "bm_get (bm_insert n ?v topics) k = Some t"
    then have "(k = n \<and> t = ?v) \<or> (k \<noteq> n \<and> bm_get topics k = Some t)"
      unfolding bm_get_insert by (cases "k = n") simp_all
    then show "to_name t = k" "bm_get observed k \<noteq> None \<or> k \<in> set (names @ [n])"
      using v(1) names by auto
  next
    fix k t
    assume "bm_get observed k = Some t"
    then obtain u where "bm_get topics k = Some u" "to_source u = to_source t"
      "to_publish_count u = to_publish_count t" "to_subscriber_count u = to_subscriber_count t"
      using obs by blast
    then show "\<exists>u. bm_get (bm_insert n ?v topics) k = Some u \<and> to_source u = to_source t
        \<and> to_publish_count u = to_publish_count t \<and> to_subscriber_count u = to_subscriber_count t"
      unfolding bm_get_insert using v(3) by (cases "k = n") auto
  next
    fix k
    assume "\<not> incomplete" "k \<in> set (names @ [n])"
    then show "\<exists>u. bm_get (bm_insert n ?v topics) k = Some u \<and> to_retained u"
      unfolding bm_get_insert using v(2) full by (cases "k = n") auto
  qed
qed

lemma merged_fold:
  assumes "merged observed names acc"
  shows "merged observed (names @ map fst retained) (fold add_retained retained acc)"
  using assms
proof (induction retained arbitrary: names acc)
  case (Cons r retained)
  obtain n k where r: "r = (n, k)" by (cases r)
  obtain topics incomplete where acc: "acc = (topics, incomplete)" by (cases acc)
  have "merged observed (names @ [n]) (add_retained r acc)"
    using merged_step Cons.prems unfolding r acc by blast
  from Cons.IH [OF this] show ?case by (simp add: r)
qed simp

lemma add_retained_incomplete: "snd (add_retained r (topics, True))"
  by (cases r) (simp add: add_retained_def Let_def)

lemma incomplete_fold: "incomplete \<Longrightarrow> snd (fold add_retained retained (topics, incomplete))"
proof (induction retained arbitrary: topics)
  case (Cons r retained)
  obtain t i where t: "add_retained r (topics, incomplete) = (t, i)" by fastforce
  with Cons.prems add_retained_incomplete [of r topics] have i: "i = incomplete" by simp
  show ?case using Cons.IH [OF Cons.prems, of t] by (simp add: t i)
qed simp

section \<open>Snapshots\<close>

lemma observed_names: "map fst (map (observed_topic clients) ts) = map fst ts"
  by (simp add: observed_topic_def comp_def case_prod_unfold)

lemma observed_name: "to_name (snd (observed_topic clients (n, x))) = n"
  by (simp add: observed_topic_def)

lemma observed_get:
  assumes "bm_wf ts"
  shows "bm_get (bm_collect (map (observed_topic clients) ts)) n =
    map_option (\<lambda>x. snd (observed_topic clients (n, x))) (bm_get ts n)"
proof -
  have "distinct (map fst (map (observed_topic clients) ts))"
    unfolding observed_names by (rule bm_wf_distinct [OF assms])
  then have "bm_get (bm_collect (map (observed_topic clients) ts)) n =
      map_of (map (observed_topic clients) ts) n"
    by (rule bm_get_collect_distinct)
  also have "\<dots> = map_option (\<lambda>x. snd (observed_topic clients (n, x))) (map_of ts n)"
    by (induction ts) (auto simp: observed_topic_def)
  finally show ?thesis by (simp add: bm_get_def)
qed

lemma length_observed:
  assumes "bm_wf ts"
  shows "length (bm_collect (map (observed_topic clients) ts)) = length ts"
proof -
  let ?o = "map (observed_topic clients) ts"
  have "bm_wf ?o" using assms unfolding bm_wf_def observed_names .
  then show ?thesis by (simp add: bm_collect_id)
qed

text \<open>A snapshot that was taken: what it lists, and when it claims to be complete.\<close>

lemma snapshot_topics:
  assumes "broker_wf b" "snapshot_local_server fm w b = (Inr s, b')"
    and "retained_topics (sw_pages w) = Inr (retained, truncated)"
  shows "\<exists>topics incomplete. bs_topics s = bm_values topics
    \<and> merged (bm_collect (map (observed_topic (online_clients fm (sw_entries w)))
        (tm_topics (br_telemetry b)))) (map fst retained) (topics, incomplete)
    \<and> bs_topics_complete s = (\<not> incomplete)
    \<and> (bs_topics_complete s \<longrightarrow> tm_dropped_topics (br_telemetry b) = 0 \<and> \<not> truncated)"
proof -
  let ?t = "br_telemetry b"
  let ?o = "bm_collect (map (observed_topic (online_clients fm (sw_entries w))) (tm_topics ?t))"
  let ?i = "0 < tm_dropped_topics ?t \<or> truncated"
  have wf: "bm_wf (tm_topics ?t)" and len: "length (tm_topics ?t) \<le> MAX_MQTT_TOPIC_OBSERVATIONS"
    using assms(1) by (simp_all add: broker_wf_def)
  obtain topics incomplete where f: "fold add_retained retained (?o, ?i) = (topics, incomplete)"
    by (cases "fold add_retained retained (?o, ?i)")
  have "merged ?o [] (?o, ?i)"
    using len by (auto simp: merged_def length_observed [OF wf] observed_get [OF wf] observed_name)
  from merged_fold [OF this, of retained] have m: "merged ?o (map fst retained) (topics, incomplete)"
    unfolding f by simp
  have s: "bs_topics s = bm_values topics" "bs_topics_complete s = (\<not> incomplete)"
    using assms(2) f
    by (auto simp: snapshot_local_server_def assms(3) telemetry_snapshot_def Let_def split: prod.splits)
  have "incomplete" if "?i" using incomplete_fold [OF that, of retained ?o] unfolding f using that by auto
  then show ?thesis using s m by (auto simp: word_gt_0)
qed

lemma snapshot_rest:
  assumes "snapshot_local_server fm w b = (Inr s, b')"
  shows "bs_online_clients s = online_clients fm (sw_entries w)"
    and "bm_current_connections (bs_metrics s) = of_nat (length (online_clients fm (sw_entries w)))"
    and "bm_max_connections (bs_metrics s) = tm_max_connections (br_telemetry b)"
    and "bm_current_connections (bs_metrics s) \<le> bm_peak_connections (bs_metrics s)"
    and "bm_event_queue_depth (bs_metrics s) = length (br_events b)"
    and "bm_event_queue_capacity (bs_metrics s) = LOCAL_SERVER_EVENT_QUEUE"
    and "bm_command_queue_depth (bs_metrics s) = sw_command_depth w"
    and "bm_command_queue_capacity (bs_metrics s) = LOCAL_SERVER_COMMAND_QUEUE"
  using assms
  by (auto simp: snapshot_local_server_def telemetry_snapshot_def Let_def split: sum.splits prod.splits)

lemma snapshot_broker:
  assumes "snapshot_local_server fm w b = (res, b')"
  shows "b' = b\<lparr>br_telemetry := snd (telemetry_snapshot
    (of_nat (length (online_clients fm (sw_entries w)))) (br_telemetry b))\<rparr>"
  using assms
  by (auto simp: snapshot_local_server_def telemetry_snapshot_def Let_def split: sum.splits prod.splits)

lemma snapshot_wf: "broker_wf b \<Longrightarrow> snapshot_local_server fm w b = (res, b') \<Longrightarrow> broker_wf b'"
  using snapshot_broker telemetry_snapshot_wf by blast

lemma snapshot_directory:
  "snapshot_local_server fm w b = (res, b') \<Longrightarrow>
   directory_of ts (br_telemetry b') = directory_of ts (br_telemetry b)"
  by (drule snapshot_broker) (simp add: telemetry_snapshot_def Let_def directory_of_def)

lemma snapshot_retained_ok:
  "snapshot_local_server fm w b = (Inr s, b') \<Longrightarrow>
   \<exists>retained truncated. retained_topics (sw_pages w) = Inr (retained, truncated)"
  by (auto simp: snapshot_local_server_def telemetry_snapshot_def Let_def split: sum.splits prod.splits)

lemma bm_values_get:
  "bm_wf m \<Longrightarrow> v \<in> set (bm_values m) \<longleftrightarrow> (\<exists>k. bm_get m k = Some v)"
  by (force simp: bm_values_def bm_get_in_set)

lemma snapshot_topics_valid:
  assumes "broker_wf b" "snapshot_local_server fm w b = (Inr s, b')"
    and "retained_topics (sw_pages w) = Inr (retained, truncated)"
    and "\<forall>(n, size)\<in>set retained. validate_mqtt_topic_name n = Inr ()"
  shows "length (bs_topics s) \<le> MAX_MQTT_TOPIC_OBSERVATIONS
    \<and> (\<forall>t\<in>set (bs_topics s). validate_mqtt_topic_name (to_name t) = Inr ())"
proof -
  let ?tm = "tm_topics (br_telemetry b)"
  let ?o = "bm_collect (map (observed_topic (online_clients fm (sw_entries w))) ?tm)"
  from snapshot_topics [OF assms(1-3)]
  obtain topics incomplete where topics: "bs_topics s = bm_values topics"
    and m: "merged ?o (map fst retained) (topics, incomplete)" by blast
  have wf: "bm_wf ?tm" "bm_wf topics" using assms(1) m by (simp_all add: broker_wf_def merged_def)
  have valid: "validate_mqtt_topic_name k = Inr ()" if "k \<in> set (map fst ?tm)" for k
    using assms(1) that unfolding broker_wf_def by blast
  have "validate_mqtt_topic_name (to_name t) = Inr ()" if t: "t \<in> set (bs_topics s)" for t
  proof -
    obtain k where k: "bm_get topics k = Some t"
      using t unfolding topics bm_values_get [OF wf(2)] by blast
    then have n: "to_name t = k" "bm_get ?o k \<noteq> None \<or> k \<in> set (map fst retained)"
      using m unfolding merged_def by blast+
    show ?thesis
    proof (cases "k \<in> set (map fst retained)")
      case True
      then show ?thesis using assms(4) n(1) by fastforce
    next
      case False
      with n(2) have "bm_get ?tm k \<noteq> None" unfolding observed_get [OF wf(1)] by simp
      then have "k \<in> set (map fst ?tm)" unfolding bm_keys_eq by simp
      then show ?thesis using valid n(1) by blast
    qed
  qed
  moreover have "length (bs_topics s) \<le> MAX_MQTT_TOPIC_OBSERVATIONS"
    using m by (simp add: topics bm_values_def merged_def)
  ultimately show ?thesis by blast
qed

lemma unat_u32_u64: "unat (ucast (w :: u32) :: u64) = unat w"
proof -
  have "unat w < 2 ^ 32" using unsigned_less [of w] by simp
  then have "unat w < 2 ^ 64" by simp
  then show ?thesis by (simp add: unsigned_ucast_eq take_bit_nat_eq_self_iff)
qed

end
