(* ===== verification/Mqtt_Server_Laws.thy ===== *)
theory Mqtt_Server_Laws
  imports Mqtt_Server Mqtt_Broker_Laws
begin

text \<open>
  The invariant of the built-in broker over every history of calls, hooks and failures, and the traffic
  a running broker records.
\<close>

section \<open>The connection limit never changes\<close>

lemma max_connections_kept [simp]:
  "tm_max_connections (record_connected t) = tm_max_connections t"
  "tm_max_connections (record_disconnected t) = tm_max_connections t"
  "tm_max_connections (record_dropped_event t) = tm_max_connections t"
  "tm_max_connections (record_published m t) = tm_max_connections t"
  by (auto simp: record_connected_def record_disconnected_def record_dropped_event_def
      record_published_def Let_def split: option.splits)

lemma emit_max [simp]:
  "tm_max_connections (br_telemetry (emit_local_event e b)) = tm_max_connections (br_telemetry b)"
  by (auto simp: emit_local_event_def split: sum.splits)

lemma hook_max [simp]:
  "tm_max_connections (br_telemetry (event_hook fm now at p b)) = tm_max_connections (br_telemetry b)"
  by (cases p) (auto split: option.splits)

lemma publish_max:
  "publish_to_local_server rs fw now at r b = (res, effects, b') \<Longrightarrow>
   tm_max_connections (br_telemetry b') = tm_max_connections (br_telemetry b)"
  by (auto simp: publish_to_local_server_def Let_def split: if_splits sum.splits)

lemma snapshot_max:
  "snapshot_local_server fm w b = (res, b') \<Longrightarrow>
   tm_max_connections (br_telemetry b') = tm_max_connections (br_telemetry b)"
  by (drule snapshot_broker) (simp add: telemetry_snapshot_def Let_def)

section \<open>The invariant\<close>

text \<open>A broker as its configuration wants it.\<close>

definition thread_wf :: "local_config \<Rightarrow> thread \<Rightarrow> bool" where
  "thread_wf c t \<longleftrightarrow>
     (case t of Alive b \<Rightarrow>
        broker_wf b \<and> tm_max_connections (br_telemetry b) = ucast (lc_max_connections c)
      | _ \<Rightarrow> True)"

text \<open>Without a thread there is no channel to one; with a thread, every channel is its own, and the
  reported status is that of the configuration it runs.\<close>

definition server_wf :: "server \<Rightarrow> bool" where
  "server_wf s \<longleftrightarrow>
     (case sv_task s of
        None \<Rightarrow> sv_stop s = None \<and> sv_commands s = None \<and> sv_events s = None
      | Some (g, t) \<Rightarrow>
          g < sv_next s \<and> sv_stop s = Some g \<and> sv_commands s = Some g \<and> sv_events s = Some g
          \<and> (\<exists>c. sv_config s = Some c \<and> sv_status s = status_running c \<and> local_config_wf c
               \<and> parse_ip_addr (lc_bind_host c) \<noteq> None \<and> thread_wf c t))"

lemma server_new_wf: "server_wf server_new"
  by (simp add: server_wf_def server_new_def)

lemma server_wf_update:
  assumes "server_wf s" "sv_task s = Some (g, t)" "\<And>c. thread_wf c t \<Longrightarrow> thread_wf c t'"
  shows "server_wf (s\<lparr>sv_task := Some (g, t')\<rparr>)"
  using assms by (fastforce simp: server_wf_def)

lemma forget_task_wf: "server_wf (forget_task s)"
  by (simp add: server_wf_def forget_task_def)

lemma launch_wf:
  assumes "server_wf s" "sv_task s = None" "local_config_wf c" "parse_ip_addr (lc_bind_host c) \<noteq> None"
  shows "server_wf (snd (launch_server c outcome s))"
  using assms broker_new_wf
  by (auto simp: launch_server_def server_wf_def thread_wf_def broker_new_def telemetry_new_def Let_def
      split: launch.splits)

lemma start_wf:
  assumes "server_wf s"
  shows "server_wf (snd (start_server c outcome s))"
proof -
  have "sv_task (forget_task s) = None" by (simp add: forget_task_def)
  then have "server_wf (snd (launch_server c outcome (forget_task s)))"
    if "local_config_wf c" "parse_ip_addr (lc_bind_host c) \<noteq> None"
    using launch_wf [OF forget_task_wf _ that] by blast
  then show ?thesis
    using assms launch_wf [OF assms] validate_local_config_ok [of c]
    by (auto simp: start_server_def split: sum.splits option.splits)
qed

lemma stop_wf: "server_wf (snd (stop_server crashes s))"
  by (simp add: stop_server_def Let_def server_wf_def)

lemma status_wf: "server_wf s \<Longrightarrow> server_wf (snd (server_status s))"
  by (auto simp: server_status_def Let_def server_wf_def forget_task_def split: option.splits)

lemma on_alive_wf:
  assumes "server_wf s"
    and "\<And>b. broker_wf b \<Longrightarrow> broker_wf (f b) \<and>
      tm_max_connections (br_telemetry (f b)) = tm_max_connections (br_telemetry b)"
  shows "server_wf (on_alive f s)"
proof (cases "sv_task s")
  case (Some p)
  obtain g t where p: "p = (g, t)" by (cases p)
  show ?thesis
  proof (cases t)
    case (Alive b)
    have "thread_wf c (Alive (f b))" if "thread_wf c (Alive b)" for c
      using that assms(2) by (simp add: thread_wf_def)
    then show ?thesis
      using server_wf_update [OF assms(1)] Some p Alive by (simp add: on_alive_def)
  qed (use assms Some p in \<open>simp_all add: on_alive_def\<close>)
qed (use assms in \<open>simp add: on_alive_def\<close>)

lemma on_broker_wf:
  assumes "server_wf s"
    and "\<And>b res effects b'. broker_wf b \<Longrightarrow> run b = (res, effects, b') \<Longrightarrow>
      broker_wf b' \<and> tm_max_connections (br_telemetry b') = tm_max_connections (br_telemetry b)"
  shows "server_wf (snd (snd (on_broker operation lost g answers run s)))"
proof (cases "sv_task s")
  case (Some p)
  obtain h t where p: "p = (h, t)" by (cases p)
  show ?thesis
  proof (cases t)
    case (Alive b)
    obtain res effects b' where r: "run b = (res, effects, b')" by (cases "run b") auto
    have "thread_wf c (Alive b')" if "thread_wf c (Alive b)" for c
      using that assms(2) [OF _ r] by (simp add: thread_wf_def)
    moreover have "thread_wf c Crashed" for c by (simp add: thread_wf_def)
    ultimately show ?thesis
      using server_wf_update [OF assms(1)] Some p Alive assms(1) by (simp add: on_broker_def r)
  qed (use assms Some p in \<open>simp_all add: on_broker_def\<close>)
qed (use assms in \<open>simp add: on_broker_def\<close>)

lemma publish_server_wf:
  assumes "server_wf s"
  shows "server_wf (snd (snd (publish_server rs fw now at answers r s)))"
proof (cases "validate_publish_request r = Inr ()")
  case True
  have "broker_wf b' \<and> tm_max_connections (br_telemetry b') = tm_max_connections (br_telemetry b)"
    if "broker_wf b" "publish_to_local_server rs fw now at r b = (res, effects, b')" for b res effects b'
    using publish_wf [OF that(1) True that(2)] publish_max [OF that(2)] by blast
  then have "server_wf (snd (snd (on_broker op lost g answers (publish_to_local_server rs fw now at r) s)))"
    for op lost g by (rule on_broker_wf [OF assms])
  then show ?thesis using assms by (simp add: publish_server_def True split: sum.splits)
qed (use assms in \<open>auto simp: publish_server_def split: sum.splits\<close>)

lemma snapshot_server_wf:
  assumes "server_wf s"
  shows "server_wf (snd (snapshot_server fm w answers s))"
proof -
  let ?run = "\<lambda>b. let (r, b') = snapshot_local_server fm w b in (r, [] :: unit list, b')"
  have "broker_wf b' \<and> tm_max_connections (br_telemetry b') = tm_max_connections (br_telemetry b)"
    if "broker_wf b" "?run b = (res, effects, b')" for b res effects b'
    using that snapshot_wf snapshot_max by (auto split: prod.splits)
  then have "server_wf (snd (snd (on_broker op lost g answers ?run s)))" for op lost g
    by (rule on_broker_wf [OF assms])
  then show ?thesis
    using assms by (auto simp: snapshot_server_def Let_def case_prod_unfold split: sum.splits)
qed

lemma server_step_wf: "server_wf s \<Longrightarrow> server_wf (server_step fm op s)"
proof (cases op)
  case (OpHook p now at)
  then show "server_wf s \<Longrightarrow> ?thesis" by (simp add: on_alive_wf event_hook_wf)
next
  case OpTakeEvent
  then show "server_wf s \<Longrightarrow> ?thesis" by (simp add: on_alive_wf take_event_wf)
next
  case (OpThreadEnds crashed)
  have "thread_wf c Crashed" "thread_wf c Exited" for c by (simp_all add: thread_wf_def)
  then show "server_wf s \<Longrightarrow> ?thesis"
    using OpThreadEnds server_wf_update by (auto split: option.splits prod.splits thread.splits)
qed (simp_all add: start_wf stop_wf status_wf publish_server_wf snapshot_server_wf)

lemma server_run_wf: "server_wf s \<Longrightarrow> server_wf (server_run fm ops s)"
  unfolding server_run_def by (induction ops arbitrary: s) (simp_all add: server_step_wf)

section \<open>Traffic\<close>

text \<open>Steps that neither start nor end a broker, and the messages they record.\<close>

fun traffic :: "'d server_op \<Rightarrow> bool" where
  "traffic (OpPublish _ _ _ _ _ answers) = answers"
| "traffic (OpSnapshot _ answers) = answers"
| "traffic OpStatus = True"
| "traffic (OpHook _ _ _) = True"
| "traffic OpTakeEvent = True"
| "traffic _ = False"

fun recorded :: "'d server_op \<Rightarrow> mqtt_message list" where
  "recorded (OpPublish r retain_set _ now _ _) =
     (if validate_publish_request r = Inr () then publish_messages retain_set now r else [])"
| "recorded (OpHook p now _) = hook_messages now p"
| "recorded _ = []"

lemma recorded_length: "length (recorded op) \<le> 1"
  by (cases op) (simp_all add: publish_messages_def hook_messages_length [simplified])

lemma command_sender_running:
  "server_wf s \<Longrightarrow> sv_task s = Some (g, t) \<Longrightarrow> command_sender operation s = Inr g"
  by (auto simp: server_wf_def command_sender_def status_running_def)

lemma command_sender_none:
  "server_wf s \<Longrightarrow> sv_task s = None \<Longrightarrow> command_sender operation s \<noteq> Inr g"
  by (simp add: server_wf_def command_sender_def)

lemma traffic_step:
  assumes "server_wf s" "sv_task s = Some (g, Alive b)" "traffic op"
    and d: "directory_of ts (br_telemetry b)" "length ts + 1 < 2 ^ 64"
  shows "\<exists>b'. sv_task (server_step fm op s) = Some (g, Alive b')
    \<and> directory_of (ts @ map mm_topic (recorded op)) (br_telemetry b')"
proof (cases op)
  case (OpPublish r rs fw now at answers)
  note sender = command_sender_running [OF assms(1,2)]
  obtain res effects b' where r: "publish_to_local_server rs fw now at r b = (res, effects, b')"
    by (cases "publish_to_local_server rs fw now at r b") auto
  show ?thesis
    using OpPublish assms publish_directory [OF d r] r
    by (auto simp: publish_server_def sender on_broker_def split: sum.splits)
next
  case (OpSnapshot w answers)
  note sender = command_sender_running [OF assms(1,2)]
  obtain res b' where r: "snapshot_local_server fm w b = (res, b')" by fastforce
  show ?thesis
    using OpSnapshot assms snapshot_directory [OF r] r
    by (auto simp: snapshot_server_def sender on_broker_def)
next
  case (OpHook p now at)
  then show ?thesis using assms event_hook_directory [OF d] by (simp add: on_alive_def)
next
  case OpTakeEvent
  then show ?thesis using assms by (simp add: on_alive_def)
next
  case OpStatus
  then show ?thesis using assms by (simp add: server_status_def finished_def)
qed (use assms in simp_all)

lemma traffic_run:
  assumes "server_wf s" "sv_task s = Some (g, Alive b)" "\<forall>op\<in>set ops. traffic op"
    and "directory_of ts (br_telemetry b)" "length ts + length ops < 2 ^ 64"
  shows "\<exists>b'. sv_task (server_run fm ops s) = Some (g, Alive b')
    \<and> directory_of (ts @ map mm_topic (concat (map recorded ops))) (br_telemetry b')"
  using assms
proof (induction ops arbitrary: s b ts)
  case (Cons op ops)
  have "length ts + 1 < 2 ^ 64" using Cons.prems(5) by simp
  then obtain b1 where b1: "sv_task (server_step fm op s) = Some (g, Alive b1)"
    "directory_of (ts @ map mm_topic (recorded op)) (br_telemetry b1)"
    using traffic_step [OF Cons.prems(1,2) _ Cons.prems(4)] Cons.prems(3) by (meson list.set_intros(1))
  have "length (ts @ map mm_topic (recorded op)) + length ops < 2 ^ 64"
    using Cons.prems(5) recorded_length [of op] by simp
  from Cons.IH [OF server_step_wf [OF Cons.prems(1)] b1(1) _ b1(2) this] Cons.prems(3)
  show ?case by (simp add: server_run_def)
qed (simp add: server_run_def)

text \<open>A start that succeeds without a thread begins with empty counters.\<close>

lemma start_ready_task:
  assumes "sv_task s = None" "start_server c LaunchReady s = (Inr st, s1)"
  shows "\<exists>g b. sv_task s1 = Some (g, Alive b) \<and> directory_of [] (br_telemetry b)"
  using assms directory_of_new
  by (auto simp: start_server_def launch_server_def broker_new_def Let_def
      split: sum.splits if_splits)

section \<open>Snapshots of a running broker\<close>

lemma snapshot_of_running:
  assumes "server_wf s" "sv_task s = Some (g, Alive b)"
    and "fst (snapshot_server fm w answers s) = Inr snap"
  shows "\<exists>b'. snapshot_local_server fm w b = (Inr snap, b')"
proof -
  note sender = command_sender_running [OF assms(1,2)]
  show ?thesis
    using assms(2,3)
    by (cases "snapshot_local_server fm w b")
      (simp add: snapshot_server_def sender on_broker_def split: if_splits)
qed

lemma running_broker_wf:
  "server_wf s \<Longrightarrow> sv_task s = Some (g, Alive b) \<Longrightarrow> broker_wf b"
  by (auto simp: server_wf_def thread_wf_def)

lemma directory_complete:
  assumes "directory_of ts t" "tm_dropped_topics t = 0" "n \<in> set ts"
  shows "\<exists>x. bm_get (tm_topics t) n = Some x \<and> unat (tt_publish_count x) = count_list ts n"
proof -
  let ?K = "set (take MAX_MQTT_TOPIC_OBSERVATIONS (first_seen ts))"
  have "filter (\<lambda>x. x \<notin> ?K) ts = []" using assms(1,2) by (simp add: directory_of_def)
  then have "n \<in> ?K" using assms(3) unfolding filter_empty_conv by blast
  then have "n \<in> set (map fst (tm_topics t))" using assms(1) by (simp add: directory_of_def)
  then obtain x where x: "bm_get (tm_topics t) n = Some x" unfolding bm_keys_eq by blast
  with assms(1) show ?thesis by (simp add: directory_of_def)
qed

lemma directory_names:
  "directory_of ts t \<Longrightarrow> bm_get (tm_topics t) n = Some x \<Longrightarrow> n \<in> set ts"
proof -
  assume d: "directory_of ts t" and x: "bm_get (tm_topics t) n = Some x"
  have "n \<in> set (map fst (tm_topics t))" using x unfolding bm_keys_eq by simp
  then have "n \<in> set (take MAX_MQTT_TOPIC_OBSERVATIONS (first_seen ts))"
    using d by (simp add: directory_of_def)
  then show "n \<in> set ts" using set_take_subset [of _ "first_seen ts"] by auto
qed

lemma complete_snapshot:
  assumes "server_wf s" "sv_task s = Some (g, Alive b)" "directory_of ts (br_telemetry b)"
    and "fst (snapshot_server fm w answers s) = Inr snap"
    and "retained_topics (sw_pages w) = Inr (retained, truncated)"
    and "bs_topics_complete snap"
  shows "\<forall>n\<in>set ts. \<exists>t\<in>set (bs_topics snap). to_name t = n \<and> unat (to_publish_count t) = count_list ts n"
    and "\<forall>(n, size)\<in>set retained. \<exists>t\<in>set (bs_topics snap). to_name t = n \<and> to_retained t"
    and "to_name ` set (bs_topics snap) = set ts \<union> fst ` set retained"
proof -
  let ?tm = "tm_topics (br_telemetry b)"
  let ?o = "bm_collect (map (observed_topic (online_clients fm (sw_entries w))) ?tm)"
  obtain b' where "snapshot_local_server fm w b = (Inr snap, b')"
    using snapshot_of_running [OF assms(1,2,4)] by blast
  from snapshot_topics [OF running_broker_wf [OF assms(1,2)] this assms(5)] assms(6)
  obtain topics where topics: "bs_topics snap = bm_values topics"
    and m: "merged ?o (map fst retained) (topics, False)"
    and none: "tm_dropped_topics (br_telemetry b) = 0"
    by auto
  have wf: "bm_wf ?tm" using running_broker_wf [OF assms(1,2)] by (simp add: broker_wf_def)
  have vals: "t \<in> set (bs_topics snap) \<longleftrightarrow> (\<exists>k. bm_get topics k = Some t)" for t
    using m unfolding topics by (simp add: bm_values_get merged_def)
  have names: "to_name t = k \<and> (bm_get ?o k \<noteq> None \<or> k \<in> set (map fst retained))"
    if "bm_get topics k = Some t" for k t
    using m that unfolding merged_def by blast
  have obs: "\<exists>u. bm_get topics k = Some u \<and> to_publish_count u = tt_publish_count x"
    if x: "bm_get ?tm k = Some x" for k x
  proof -
    have "bm_get ?o k = Some (snd (observed_topic (online_clients fm (sw_entries w)) (k, x)))"
      unfolding observed_get [OF wf] x by simp
    then obtain u where "bm_get topics k = Some u" "to_publish_count u =
        to_publish_count (snd (observed_topic (online_clients fm (sw_entries w)) (k, x)))"
      using m unfolding merged_def by blast
    then show ?thesis by (simp add: observed_topic_def)
  qed
  have ret: "\<exists>u. bm_get topics k = Some u \<and> to_retained u" if "k \<in> set (map fst retained)" for k
    using m that unfolding merged_def by blast
  have listed: "\<exists>t\<in>set (bs_topics snap). to_name t = n \<and> unat (to_publish_count t) = count_list ts n"
    if n: "n \<in> set ts" for n
  proof -
    obtain x where x: "bm_get ?tm n = Some x" "unat (tt_publish_count x) = count_list ts n"
      using directory_complete [OF assms(3) none n] by blast
    obtain u where u: "bm_get topics n = Some u" "to_publish_count u = tt_publish_count x"
      using obs [OF x(1)] by blast
    have "u \<in> set (bs_topics snap)" using u(1) vals by blast
    then show ?thesis using x(2) u(2) names [OF u(1)] by (intro bexI [of _ u]) simp_all
  qed
  have kept: "\<exists>t\<in>set (bs_topics snap). to_name t = n \<and> to_retained t" if n: "n \<in> fst ` set retained" for n
  proof -
    obtain u where u: "bm_get topics n = Some u" "to_retained u" using ret [of n] n by auto
    have "u \<in> set (bs_topics snap)" using u(1) vals by blast
    then show ?thesis using u(2) names [OF u(1)] by (intro bexI [of _ u]) simp_all
  qed
  have only: "to_name t \<in> set ts \<union> fst ` set retained" if t: "t \<in> set (bs_topics snap)" for t
  proof -
    obtain k where k: "bm_get topics k = Some t" using t vals by blast
    then consider "bm_get ?o k \<noteq> None" | "k \<in> fst ` set retained" using names by fastforce
    then show ?thesis
    proof cases
      case 1
      then obtain x where "bm_get ?tm k = Some x" unfolding observed_get [OF wf] by auto
      then show ?thesis using directory_names [OF assms(3)] names [OF k] by blast
    next
      case 2
      then show ?thesis using names [OF k] by blast
    qed
  qed
  show "\<forall>n\<in>set ts. \<exists>t\<in>set (bs_topics snap). to_name t = n \<and> unat (to_publish_count t) = count_list ts n"
    using listed by blast
  show "\<forall>(n, size)\<in>set retained. \<exists>t\<in>set (bs_topics snap). to_name t = n \<and> to_retained t"
    using kept by force
  show "to_name ` set (bs_topics snap) = set ts \<union> fst ` set retained"
  proof (rule equalityI)
    show "to_name ` set (bs_topics snap) \<subseteq> set ts \<union> fst ` set retained"
      by (rule image_subsetI) (rule only)
    show "set ts \<union> fst ` set retained \<subseteq> to_name ` set (bs_topics snap)"
    proof
      fix n
      assume "n \<in> set ts \<union> fst ` set retained"
      then obtain t where "t \<in> set (bs_topics snap)" "to_name t = n"
        using listed [of n] kept [of n] by blast
      then show "n \<in> to_name ` set (bs_topics snap)" by blast
    qed
  qed
qed

end
