(* ===== verification/Mqtt_Properties.thy ===== *)
theory Mqtt_Properties
  imports Mqtt_Service Mqtt_Server_Laws
begin

text \<open>
  The properties of the MQTT part: topic matching, the counters and snapshots of the built-in broker,
  its life and its accounts, and the guards of the management operations.
\<close>

section \<open>Topics\<close>


lemmas topic_eval = validate_mqtt_topic_filter_def mq_protocol_text_def limits mq_shared_filter_def
  mq_filter_level_def validate_mqtt_topic_name_def Let_def



section \<open>The life of the broker\<close>

text \<open>C28. Over every history of starts, stops, status calls, commands, hooks and failures of the thread:
  without a thread no channel is kept; with one, all three channels belong to it, its configuration is
  valid and is the one the status reports, its topic directory is sorted, bounded and holds valid names,
  the peak covers the current connections, and the event queue is bounded and holds valid events.\<close>

theorem server_stays_consistent:
  "server_wf (server_run from_millis ops server_new)"
  by (rule server_run_wf [OF server_new_wf])

text \<open>A start against a running broker never touches it: the same configuration reports the status of
  the running broker, another valid one is refused, and the state is unchanged either way.\<close>

theorem start_leaves_running_broker:
  assumes "s = server_run from_millis ops server_new"
    and "sv_task s = Some (g, Alive b)" and "sv_config s = Some current"
    and "local_config_wf c" and "parse_ip_addr (lc_bind_host c) \<noteq> None"
  shows "snd (start_server c outcome s) = s"
    and "fst (start_server c outcome s) = Inr (status_running c) \<longleftrightarrow> c = current"
    and "(\<exists>st. fst (start_server c outcome s) = Inr st) \<longleftrightarrow> c = current"
proof -
  have "validate_local_config c = Inr ()" using assms(4) validate_local_config_ok by blast
  moreover have "sv_status s = status_running current"
    using server_run_wf [OF server_new_wf, of from_millis ops] assms(1-3) by (auto simp: server_wf_def)
  ultimately show "snd (start_server c outcome s) = s"
    and "fst (start_server c outcome s) = Inr (status_running c) \<longleftrightarrow> c = current"
    and "(\<exists>st. fst (start_server c outcome s) = Inr st) \<longleftrightarrow> c = current"
    using assms(2,3,5) by (auto simp: start_server_def finished_def)
qed

text \<open>In every reachable state a publication succeeds exactly when the request is valid, the broker
  thread is alive and answers, and a retained message could be stored; otherwise it is an error.\<close>

theorem publish_succeeds_iff:
  assumes "s = server_run from_millis ops server_new"
  shows "(\<exists>res. fst (publish_server retain_set forwarded now at answers r s) = Inr res) \<longleftrightarrow>
    validate_publish_request r = Inr () \<and> (\<exists>g b. sv_task s = Some (g, Alive b)) \<and> answers
    \<and> (pr_retain r \<longrightarrow> retain_set = Inr ())"
proof -
  have wf: "server_wf s" using server_run_wf [OF server_new_wf] assms by simp
  show ?thesis
  proof (cases "sv_task s")
    case None
    then show ?thesis
      using command_sender_none [OF wf] by (auto simp: publish_server_def split: sum.splits)
  next
    case (Some p)
    obtain g t where p: "p = (g, t)" by (cases p)
    note sender = command_sender_running [OF wf Some [unfolded p]]
    show ?thesis
      using Some p
      by (cases t; cases retain_set)
        (auto simp: publish_server_def sender on_broker_def publish_to_local_server_def Let_def
          retain_enabled_def split: sum.splits)
  qed
qed

text \<open>A history to apply the properties to: the default configuration, a client that publishes, and a
  message the application publishes.\<close>

definition sample_request :: mqtt_publish_request where
  "sample_request = \<lparr>pr_topic = ''t'', pr_payload = [1, 2], pr_qos = AtMostOnce, pr_retain = False,
     pr_user_properties = []\<rparr>"

definition sample_ops :: "nat server_op list" where
  "sample_ops = [OpPublish sample_request (Inr ()) (Inr 0) 5 6 True, OpStatus,
     OpPublish sample_request (Inr ()) (Inr 1) 7 8 True]"

lemma sample_request_valid: "validate_publish_request sample_request = Inr ()"
  by (simp add: sample_request_def validate_publish_request_def topic_eval validate_payload_len_def
      validate_user_properties_def)

lemma default_trimmed: "trim ''127.0.0.1'' = ''127.0.0.1''"
  by (rule trim_ascii) simp_all

lemma default_config_wf: "local_config_wf local_config_default"
  by (simp add: local_config_wf_def local_config_default_def DEFAULT_MQTT_LOCAL_SERVER_HOST_def
      default_trimmed parse_loopback DEFAULT_MQTT_PORT_def DEFAULT_MQTT_LOCAL_SERVER_MAX_CONNECTIONS_def
      word_less_nat_alt word_le_nat_alt)

lemma default_host: "parse_ip_addr (lc_bind_host local_config_default) = Some (Ip_V4 [127, 0, 0, 1])"
  by (simp add: local_config_default_def DEFAULT_MQTT_LOCAL_SERVER_HOST_def parse_loopback)

lemma start_fresh:
  assumes "local_config_wf c" "parse_ip_addr (lc_bind_host c) \<noteq> None" "sv_task s = None"
  shows "start_server c outcome s = launch_server c outcome s"
proof -
  have "validate_local_config c = Inr ()" using assms(1) validate_local_config_ok by blast
  then show ?thesis using assms by (auto simp: start_server_def)
qed

theorem start_leaves_running_broker_witness:
  "let s = server_run Some [OpStart local_config_default LaunchReady :: nat server_op] server_new;
       c = local_config_default\<lparr>lc_port := 1884\<rparr> in
   snd (start_server c LaunchReady s) = s \<and> fst (start_server c LaunchReady s) \<noteq> Inr (status_running c)"
proof -
  let ?s = "server_run Some [OpStart local_config_default LaunchReady :: nat server_op] server_new"
  let ?c = "local_config_default\<lparr>lc_port := 1884\<rparr>"
  have s: "sv_task ?s = Some (0, Alive (broker_new (ucast (lc_max_connections local_config_default))))"
    "sv_config ?s = Some local_config_default"
    using default_config_wf default_host
    by (simp_all add: server_run_def start_fresh server_new_def launch_server_def Let_def)
  have c: "local_config_wf ?c" "parse_ip_addr (lc_bind_host ?c) \<noteq> None"
    using default_config_wf default_host by (simp_all add: local_config_wf_def)
  have "?c \<noteq> local_config_default" by (simp add: local_config_default_def DEFAULT_MQTT_PORT_def)
  then show ?thesis
    using start_leaves_running_broker(1,2) [OF refl s c, of LaunchReady] by (simp add: Let_def)
qed

theorem publish_succeeds_iff_witness:
  "\<nexists>res. fst (publish_server (Inr ()) (Inr (0 :: nat) :: unit list + nat) 5 6 True sample_request
     (server_run Some ([] :: unit server_op list) server_new)) = Inr res"
  unfolding publish_succeeds_iff [OF refl]
  by (simp add: server_run_def server_new_def)

section \<open>Counters and snapshots\<close>

text \<open>C29. After a start and any traffic of fewer than \<open>2 ^ 64\<close> steps the broker runs, and its directory is
  exact: it holds the first 4096 topics that were published, each with the number of its messages, the
  total is the number of messages, and the dropped count is the number of messages on other topics.\<close>

theorem topic_directory_exact:
  assumes "server_wf s" "sv_task s = None" "start_server c LaunchReady s = (Inr st, s1)"
    and "\<forall>op\<in>set ops. traffic op" "length ops < 2 ^ 64"
    and "ts = map mm_topic (concat (map recorded ops))"
    and "keys = set (take 4096 (first_seen ts))"
  shows "\<exists>g b. sv_task (server_run from_millis ops s1) = Some (g, Alive b)
    \<and> set (bm_keys (tm_topics (br_telemetry b))) = keys
    \<and> (\<forall>n x. bm_get (tm_topics (br_telemetry b)) n = Some x
         \<longrightarrow> unat (tt_publish_count x) = count_list ts n)
    \<and> unat (tm_published_messages (br_telemetry b)) = length ts
    \<and> unat (tm_dropped_topics (br_telemetry b)) = length (filter (\<lambda>t. t \<notin> keys) ts)"
proof -
  obtain g b where t: "sv_task s1 = Some (g, Alive b)" and d: "directory_of [] (br_telemetry b)"
    using start_ready_task [OF assms(2,3)] by blast
  have wf: "server_wf s1" using start_wf [OF assms(1), of c LaunchReady] assms(3) by simp
  obtain b' where "sv_task (server_run from_millis ops s1) = Some (g, Alive b')"
    and d': "directory_of ts (br_telemetry b')"
    using traffic_run [OF wf t assms(4) d] assms(5,6) by auto
  then show ?thesis
    using d' assms(7) by (auto simp: directory_of_def bm_keys_def limits)
qed

theorem topic_directory_exact_witness:
  "\<exists>g b. sv_task (server_run Some sample_ops (snd (start_server local_config_default LaunchReady server_new)))
     = Some (g, Alive b) \<and> unat (tm_published_messages (br_telemetry b)) = 2"
proof -
  have s: "start_server local_config_default LaunchReady server_new =
      (Inr (status_running local_config_default),
       snd (start_server local_config_default LaunchReady server_new))"
    using default_config_wf default_host
    by (simp add: start_fresh server_new_def launch_server_def Let_def)
  have n: "sv_task server_new = None" by (simp add: server_new_def)
  have ops: "\<forall>op\<in>set sample_ops. traffic op" "length sample_ops < 2 ^ 64"
    by (simp_all add: sample_ops_def)
  have r: "map mm_topic (concat (map recorded sample_ops)) = [''t'', ''t'']"
    by (simp add: sample_ops_def sample_request_valid publish_messages_def message_of_request_def)
      (simp add: sample_request_def)
  have "length [''t'', ''t''] = (2 :: nat)" by simp
  then show ?thesis
    using topic_directory_exact [OF server_new_wf n s ops refl refl, of Some] unfolding r by metis
qed

text \<open>C30. A snapshot of a reachable broker that claims to be complete loses no topic: every topic of a
  message recorded since the start is listed with its exact count, every retained topic the embedded
  server returned is listed as retained, and nothing else is listed.\<close>

theorem complete_snapshot_lists_all:
  assumes "server_wf s" "sv_task s = None" "start_server c LaunchReady s = (Inr st, s1)"
    and "\<forall>op\<in>set ops. traffic op" "length ops < 2 ^ 64"
    and "ts = map mm_topic (concat (map recorded ops))"
    and "fst (snapshot_server from_millis w True (server_run from_millis ops s1)) = Inr snap"
    and "retained_topics (sw_pages w) = Inr (retained, truncated)"
    and "bs_topics_complete snap"
  shows "(\<forall>n\<in>set ts. \<exists>t\<in>set (bs_topics snap). to_name t = n \<and> unat (to_publish_count t) = count_list ts n)
    \<and> (\<forall>(n, size)\<in>set retained. \<exists>t\<in>set (bs_topics snap). to_name t = n \<and> to_retained t)
    \<and> to_name ` set (bs_topics snap) = set ts \<union> fst ` set retained"
proof -
  obtain g b where t: "sv_task s1 = Some (g, Alive b)" and d: "directory_of [] (br_telemetry b)"
    using start_ready_task [OF assms(2,3)] by blast
  have wf: "server_wf s1" using start_wf [OF assms(1), of c LaunchReady] assms(3) by simp
  obtain b' where b': "sv_task (server_run from_millis ops s1) = Some (g, Alive b')"
    "directory_of ts (br_telemetry b')"
    using traffic_run [OF wf t assms(4) d] assms(5,6) by auto
  note lists = complete_snapshot [OF server_run_wf [OF wf] b' assms(7,8,9)]
  from lists show ?thesis by (intro conjI)
qed

definition sample_view :: snapshot_view where
  "sample_view = \<lparr>sw_entries = [], sw_pages = (\<lambda>_ _. Inr ([], False)), sw_retained_count = 0,
     sw_command_depth = 0\<rparr>"

lemma sample_broker_start:
  "start_server local_config_default LaunchReady server_new =
     (Inr (status_running local_config_default),
      snd (start_server local_config_default LaunchReady server_new))"
  using default_config_wf default_host
  by (simp add: start_fresh server_new_def launch_server_def Let_def)

lemma sample_snapshot:
  "\<exists>snap. fst (snapshot_server Some sample_view True
     (server_run Some [OpPublish sample_request (Inr ()) (Inr 0 :: unit list + nat) 5 6 True]
       (snd (start_server local_config_default LaunchReady server_new)))) = Inr snap
     \<and> bs_topics_complete snap"
  using default_config_wf default_host sample_request_valid
    message_of_request_valid [OF sample_request_valid, of 5]
  by (simp add: start_fresh server_new_def launch_server_def Let_def server_run_def publish_server_def
      command_sender_def status_running_def on_broker_def publish_to_local_server_def
      snapshot_server_def snapshot_local_server_def telemetry_snapshot_def retained_topics_def
      sample_view_def online_clients_def map_filter_simps broker_new_def telemetry_new_def
      record_published_def bm_get_def emit_local_event_def limits)

theorem complete_snapshot_lists_all_witness:
  "\<exists>snap :: mqtt_broker_snapshot. to_name ` set (bs_topics snap) = {''t''}"
proof -
  let ?ops = "[OpPublish sample_request (Inr ()) (Inr 0 :: unit list + nat) 5 6 True]"
  have n: "sv_task server_new = None" by (simp add: server_new_def)
  have ops: "\<forall>op\<in>set ?ops. traffic op" "length ?ops < 2 ^ 64" by simp_all
  have r: "retained_topics (sw_pages sample_view) = Inr ([], False)"
    by (simp add: retained_topics_def sample_view_def)
  have t: "map mm_topic (concat (map recorded ?ops)) = [''t'']"
    by (simp add: sample_request_valid publish_messages_def message_of_request_def)
      (simp add: sample_request_def)
  obtain snap where snap: "fst (snapshot_server Some sample_view True
     (server_run Some ?ops (snd (start_server local_config_default LaunchReady server_new)))) = Inr snap
     \<and> bs_topics_complete snap"
    using sample_snapshot by (rule exE)
  from complete_snapshot_lists_all
    [OF server_new_wf n sample_broker_start ops refl conjunct1 [OF snap] r conjunct2 [OF snap],
      THEN conjunct2, THEN conjunct2]
  show ?thesis unfolding t list.set image_empty Un_empty_right by (rule exI)
qed

text \<open>The snapshot of a reachable running broker passes the validation that the application applies to
  it exactly when at most 4096 clients are online, no more than the configured limit, and every one of
  them is valid: the topics, the counters and the queues of the broker never make it fail.\<close>

theorem snapshot_accepted_iff:
  assumes "s = server_run from_millis ops server_new"
    and "sv_task s = Some (g, Alive b)" and "sv_config s = Some c"
    and "fst (snapshot_server from_millis w True s) = Inr snap"
    and "retained_topics (sw_pages w) = Inr (retained, truncated)"
    and "\<forall>(n, size)\<in>set retained. validate_mqtt_topic_name n = Inr ()"
    and "sw_command_depth w \<le> LOCAL_SERVER_COMMAND_QUEUE"
    and "clients = online_clients from_millis (sw_entries w)"
  shows "validate_snapshot snap = Inr snap \<longleftrightarrow>
    length clients \<le> 4096 \<and> length clients \<le> unat (lc_max_connections c)
    \<and> (\<forall>cl\<in>set clients. validate_online_client cl = Inr ())"
proof -
  have wf: "server_wf s" unfolding assms(1) by (rule server_run_wf [OF server_new_wf])
  obtain b' where r: "snapshot_local_server from_millis w b = (Inr snap, b')"
    using snapshot_of_running [OF wf assms(2,4)] by blast
  note rest = snapshot_rest [OF r]
  have b: "broker_wf b" by (rule running_broker_wf [OF wf assms(2)])
  have topics: "length (bs_topics snap) \<le> MAX_MQTT_TOPIC_OBSERVATIONS"
    "\<forall>t\<in>set (bs_topics snap). validate_mqtt_topic_name (to_name t) = Inr ()"
    using snapshot_topics_valid [OF b r assms(5,6)] by blast+
  have limit: "tm_max_connections (br_telemetry b) = ucast (lc_max_connections c)"
    "0 < lc_max_connections c"
    using wf assms(2,3) by (auto simp: server_wf_def thread_wf_def local_config_wf_def)
  have m: "0 < tm_max_connections (br_telemetry b)"
    using limit by (simp add: word_less_nat_alt unat_u32_u64)
  have n: "(of_nat (length clients) :: u64) \<le> ucast (lc_max_connections c) \<longleftrightarrow>
      length clients \<le> unat (lc_max_connections c)" if "length clients \<le> 4096"
    using that by (simp add: word_le_nat_alt unat_u32_u64 unat_of_nat)
  have q: "length (br_events b) \<le> LOCAL_SERVER_EVENT_QUEUE" using b by (simp add: broker_wf_def)
  show ?thesis
    unfolding validate_snapshot_ok validate_metrics_ok rest(1-3,5-8)
    using topics rest(4) n m q assms(7,8) limit(1) rest(2)
    by (auto simp: limits)
qed

definition sample_client_entry :: oxi_entry where
  "sample_client_entry = \<lparr>en_online = True,
     en_session = Some \<lparr>se_client_id = ''c'', se_connect_info = None, se_connected_at = Some 3\<rparr>,
     en_subscriptions = Some [(''a/+'', 1, None)]\<rparr>"

definition sample_client_view :: snapshot_view where
  "sample_client_view = sample_view\<lparr>sw_entries := [sample_client_entry]\<rparr>"

lemma sample_client_listed:
  "online_clients Some [sample_client_entry] =
    [\<lparr>oc_client_id = ''c'', oc_username = None, oc_remote_address = None, oc_connected_at = Some 3,
      oc_subscriptions = [\<lparr>su_filter = ''a/+'', su_qos = AtLeastOnce, su_no_local = False\<rparr>]\<rparr>]"
  by (simp add: online_clients_def map_filter_simps listed_client_def sample_client_entry_def
      client_of_session_def listed_subscription_def)

text \<open>The state after a first start, and a snapshot of it.\<close>

lemma started_server:
  assumes "local_config_wf c" "parse_ip_addr (lc_bind_host c) \<noteq> None"
  defines "s \<equiv> server_run Some [OpStart c LaunchReady :: unit server_op] server_new"
  shows "sv_task s = Some (0, Alive (broker_new (ucast (lc_max_connections c))))" "sv_config s = Some c"
    "sv_commands s = Some 0" "st_running (sv_status s)"
  using assms by (simp_all add: server_run_def start_fresh server_new_def launch_server_def Let_def
    status_running_def)

lemma started_snapshot:
  assumes "local_config_wf c" "parse_ip_addr (lc_bind_host c) \<noteq> None"
    and "retained_topics (sw_pages w) = Inr ([], truncated)"
  shows "\<exists>snap. fst (snapshot_server Some w True
    (server_run Some [OpStart c LaunchReady :: unit server_op] server_new)) = Inr snap"
  using started_server [OF assms(1,2)] assms(3)
  by (simp add: snapshot_server_def command_sender_def on_broker_def snapshot_local_server_def
      telemetry_snapshot_def Let_def broker_new_def telemetry_new_def)

lemma default_host_ok: "parse_ip_addr (lc_bind_host local_config_default) \<noteq> None"
  by (simp add: default_host)

theorem snapshot_accepted_iff_witness:
  "\<exists>snap. fst (snapshot_server Some sample_client_view True
     (server_run Some [OpStart local_config_default LaunchReady :: unit server_op] server_new)) = Inr snap
     \<and> validate_snapshot snap = Inr snap"
proof -
  let ?s = "server_run Some [OpStart local_config_default LaunchReady :: unit server_op] server_new"
  note st = started_server [OF default_config_wf default_host_ok]
  have r: "retained_topics (sw_pages sample_client_view) = Inr ([], False)"
    by (simp add: retained_topics_def sample_client_view_def sample_view_def)
  obtain snap where snap: "fst (snapshot_server Some sample_client_view True ?s) = Inr snap"
    using started_snapshot [OF default_config_wf default_host_ok r] by (rule exE)
  have v: "\<forall>(n, size)\<in>set []. validate_mqtt_topic_name n = Inr ()" by simp
  have d: "sw_command_depth sample_client_view \<le> LOCAL_SERVER_COMMAND_QUEUE"
    by (simp add: sample_client_view_def sample_view_def)
  have "length (online_clients Some (sw_entries sample_client_view)) = 1"
    "\<forall>cl\<in>set (online_clients Some (sw_entries sample_client_view)). validate_online_client cl = Inr ()"
    by (simp_all add: sample_client_view_def sample_client_listed validate_online_client_def mp_text_def
        mp_optional_text_def limits validate_subscription_def topic_eval)
  moreover have "unat (lc_max_connections local_config_default) = 1024"
    by (simp add: local_config_default_def DEFAULT_MQTT_LOCAL_SERVER_MAX_CONNECTIONS_def)
  ultimately have "validate_snapshot snap = Inr snap"
    using snapshot_accepted_iff [OF refl st(1,2) snap r v d refl] by simp
  with snap show ?thesis by blast
qed

text \<open>The configuration accepts accounts that its own snapshots refuse: user names may have 1024 bytes,
  those of a listed client 256.  A client that logs in with a longer account name is admitted, and while
  it is online every snapshot the application asks for is an error.\<close>

theorem long_account_hides_snapshots:
  assumes "s = server_run from_millis ops server_new" and "sv_task s = Some (g, Alive b)"
    and "sv_config s = Some c" and "u \<in> set (lc_users c)" and "256 < length (lu_username u)"
    and "cl \<in> set (online_clients from_millis (sw_entries w))" and "oc_username cl = Some (lu_username u)"
  shows "authenticate server_default (lc_allow_anonymous c) (lc_users c)
      (Some (lu_username u)) (Some (lu_password u)) = AuthAllow
    \<and> (\<nexists>snap. fst (local_server_snapshot (snapshot_server from_millis w True) s) = Inr snap)"
proof (rule conjI)
  have wf: "server_wf s" unfolding assms(1) by (rule server_run_wf [OF server_new_wf])
  show "authenticate server_default (lc_allow_anonymous c) (lc_users c)
      (Some (lu_username u)) (Some (lu_password u)) = AuthAllow"
    using assms(4) by (auto simp: authenticate_def auth_hook_def list_ex_iff)
  have bad: "validate_online_client cl \<noteq> Inr ()"
    using assms(5,7) by (simp add: validate_online_client_def mp_optional_text_def mp_text_def limits)
  show "\<nexists>snap. fst (local_server_snapshot (snapshot_server from_millis w True) s) = Inr snap"
  proof
    assume "\<exists>snap. fst (local_server_snapshot (snapshot_server from_millis w True) s) = Inr snap"
    then obtain snap where snap: "fst (snapshot_server from_millis w True s) = Inr snap"
      and ok: "validate_snapshot snap = Inr snap"
      by (auto simp: local_server_snapshot_def bind_s_def lift_r_def validate_snapshot_ok
          split: prod.splits sum.splits)
    obtain b' where "snapshot_local_server from_millis w b = (Inr snap, b')"
      using snapshot_of_running [OF wf assms(2) snap] by blast
    from snapshot_rest(1) [OF this] ok bad assms(6) show False by (auto simp: validate_snapshot_ok)
  qed
qed

definition long_user :: local_user where
  "long_user = \<lparr>lu_username = replicate 300 CHR ''a'', lu_password = ''p''\<rparr>"

definition long_config :: local_config where
  "long_config = local_config_default\<lparr>lc_users := [long_user]\<rparr>"

definition long_view :: snapshot_view where
  "long_view = sample_view\<lparr>sw_entries := [\<lparr>en_online = True,
     en_session = Some \<lparr>se_client_id = ''c'',
       se_connect_info = Some \<lparr>ci_username = Some (lu_username long_user), ci_ipaddress = None\<rparr>,
       se_connected_at = None\<rparr>,
     en_subscriptions = None\<rparr>]\<rparr>"

lemma long_config_wf: "local_config_wf long_config" "parse_ip_addr (lc_bind_host long_config) \<noteq> None"
proof -
  have t: "trim (replicate 300 CHR ''a'') = replicate 300 CHR ''a''"
    by (rule trim_ascii) simp_all
  have c: "\<not> has_control (replicate 300 CHR ''a'')"
    by (rule has_control_ascii) (simp add: list_all_iff)
  have "local_user_wf long_user"
    unfolding local_user_wf_def long_user_def local_user.simps t using c by simp
  then show "local_config_wf long_config"
    using default_config_wf by (simp add: local_config_wf_def long_config_def)
  show "parse_ip_addr (lc_bind_host long_config) \<noteq> None"
    using default_host_ok by (simp add: long_config_def)
qed

theorem long_account_hides_snapshots_witness:
  "\<nexists>snap. fst (local_server_snapshot (snapshot_server Some long_view True)
     (server_run Some [OpStart long_config LaunchReady :: unit server_op] server_new)) = Inr snap"
proof -
  note st = started_server [OF long_config_wf]
  have u: "long_user \<in> set (lc_users long_config)" by (simp add: long_config_def)
  have n: "256 < length (lu_username long_user)" by (simp add: long_user_def)
  let ?cl = "\<lparr>oc_client_id = ''c'', oc_username = Some (lu_username long_user),
    oc_remote_address = None, oc_connected_at = None, oc_subscriptions = []\<rparr>"
  have cl: "?cl \<in> set (online_clients Some (sw_entries long_view))"
    by (simp add: long_view_def online_clients_def map_filter_simps listed_client_def
        client_of_session_def)
  have name: "oc_username ?cl = Some (lu_username long_user)" by simp
  show ?thesis
    using long_account_hides_snapshots [OF refl st(1,2) u n cl name] by (rule conjunct2)
qed

section \<open>Failures of the thread\<close>



text \<open>Two more differences between what is accepted and what works: an address with blanks around it is
  valid but never starts, and a client that fails validation is counted only when it leaves.\<close>

lemma blank_host_never_starts:
  "local_config_wf (local_config_default\<lparr>lc_bind_host := '' 127.0.0.1''\<rparr>)"
  "\<nexists>st. fst (start_server (local_config_default\<lparr>lc_bind_host := '' 127.0.0.1''\<rparr>) outcome s) = Inr st"
proof -
  have "first_space '' 127.0.0.1'' = 1"
    by (simp add: first_space_def WHITE_SPACE_def utf8_enc_def char_of_eq_iff prefix_Cons)
  moreover have "first_space ''127.0.0.1'' = 0"
    by (rule first_space_ascii) simp_all
  ultimately have "trim_start '' 127.0.0.1'' = ''127.0.0.1''"
    by (subst trim_start.simps) (simp, subst trim_start.simps, simp)
  moreover have "trim_end ''127.0.0.1'' = ''127.0.0.1''"
    using default_trimmed \<open>first_space ''127.0.0.1'' = 0\<close> by (simp add: trim_def trim_start.simps)
  ultimately have t: "trim '' 127.0.0.1'' = ''127.0.0.1''" by (simp add: trim_def)
  show "local_config_wf (local_config_default\<lparr>lc_bind_host := '' 127.0.0.1''\<rparr>)"
    using default_config_wf default_host by (simp add: local_config_wf_def t parse_loopback)
  show "\<nexists>st. fst (start_server (local_config_default\<lparr>lc_bind_host := '' 127.0.0.1''\<rparr>) outcome s) = Inr st"
    by (simp add: start_server_def parse_untrimmed split: sum.splits)
qed

lemma oversized_client_counts:
  assumes "256 < length (se_client_id session)"
  shows "br_telemetry (event_hook from_millis now at (HookDisconnected session reason)
      (event_hook from_millis now at (HookConnected session) b)) =
    record_disconnected (br_telemetry b)"
  using assms
  by (simp add: online_client_from_session_def client_of_session_def validate_online_client_def
      mp_text_def emit_local_event_def limits Let_def)

section \<open>Accounts and messages\<close>

text \<open>With a valid configuration the registered handler admits a client exactly when anonymous access
  is allowed and it sends neither name nor password, or when exactly one account has its name and its
  password; and without anonymous access a client is admitted only with a name and a password that are
  not empty, whatever the embedded server would decide.\<close>

theorem admission_iff:
  assumes "local_config_wf c"
  shows "(auth_hook (lc_allow_anonymous c) (lc_users c) username password = AuthAllow \<longleftrightarrow>
      lc_allow_anonymous c \<and> username = None \<and> password = None
      \<or> (\<exists>!u. u \<in> set (lc_users c) \<and> username = Some (lu_username u) \<and> password = Some (lu_password u)))
    \<and> (\<not> lc_allow_anonymous c
      \<and> authenticate server_default (lc_allow_anonymous c) (lc_users c) username password = AuthAllow
      \<longrightarrow> (\<exists>n p. username = Some n \<and> password = Some p \<and> n \<noteq> [] \<and> p \<noteq> []))"
proof (intro conjI impI)
  have d: "distinct (map lu_username (lc_users c))" and w: "\<forall>u\<in>set (lc_users c). local_user_wf u"
    using assms by (simp_all add: local_config_wf_def)
  have one: "u = v" if "u \<in> set (lc_users c)" "v \<in> set (lc_users c)" "lu_username u = lu_username v" for u v
    using that d by (simp add: distinct_map inj_on_def)
  have listed: "(case username of None \<Rightarrow> False
        | Some name \<Rightarrow> list_ex (\<lambda>u. lu_username u = name \<and> password = Some (lu_password u)) (lc_users c))
      \<longleftrightarrow> (\<exists>u\<in>set (lc_users c). username = Some (lu_username u) \<and> password = Some (lu_password u))"
    by (auto simp: list_ex_iff split: option.splits)
  have unique: "(\<exists>u\<in>set (lc_users c). username = Some (lu_username u) \<and> password = Some (lu_password u))
      \<longleftrightarrow> (\<exists>!u. u \<in> set (lc_users c) \<and> username = Some (lu_username u) \<and> password = Some (lu_password u))"
    using one by auto
  show "auth_hook (lc_allow_anonymous c) (lc_users c) username password = AuthAllow \<longleftrightarrow>
      lc_allow_anonymous c \<and> username = None \<and> password = None
      \<or> (\<exists>!u. u \<in> set (lc_users c) \<and> username = Some (lu_username u) \<and> password = Some (lu_password u))"
    unfolding auth_hook_def Let_def listed unique by simp
  assume strict: "\<not> lc_allow_anonymous c
    \<and> authenticate server_default (lc_allow_anonymous c) (lc_users c) username password = AuthAllow"
  show "\<exists>n p. username = Some n \<and> password = Some p \<and> n \<noteq> [] \<and> p \<noteq> []"
  proof -
    have "\<exists>u\<in>set (lc_users c). username = Some (lu_username u) \<and> password = Some (lu_password u)"
      using strict by (auto simp: authenticate_def auth_hook_def Let_def listed split: if_splits)
    then obtain u where u: "u \<in> set (lc_users c)" "username = Some (lu_username u)"
      "password = Some (lu_password u)" by blast
    have "trim (lu_username u) \<noteq> []" "lu_password u \<noteq> []" using w u(1) by (simp_all add: local_user_wf_def)
    moreover from this(1) have "lu_username u \<noteq> []" by auto
    ultimately show ?thesis using u by blast
  qed
qed

theorem admission_iff_witness:
  "auth_hook True [long_user] (Some (lu_username long_user)) (Some ''q'') = AuthBadUsernameOrPassword"
proof -
  have "lc_allow_anonymous long_config" "lc_users long_config = [long_user]"
    by (simp_all add: long_config_def local_config_default_def)
  moreover have "lu_password long_user = ''p''" by (simp add: long_user_def)
  ultimately show ?thesis
    using conjunct1 [OF admission_iff [OF long_config_wf(1), of "Some (lu_username long_user)" "Some ''q''"]]
    by (cases "auth_hook True [long_user] (Some (lu_username long_user)) (Some ''q'')") auto
qed

text \<open>What the application publishes is what the hooks of the embedded server read back: for a valid
  request the publication that is forwarded decodes to the message of the request, with its topic,
  payload, quality of service, retain flag and user properties.\<close>

theorem published_message_reads_back:
  assumes "validate_publish_request r = Inr ()"
    and "publish_to_local_server (Inr ()) forwarded now at r b = (res, effects, b')"
  shows "\<exists>p. EfForward p \<in> set effects \<and>
    message_from_oximqtt now' p = Some
      \<lparr>mm_topic = pr_topic r, mm_payload = pr_payload r, mm_qos = pr_qos r, mm_retain = pr_retain r,
       mm_duplicate = False, mm_received_at = now', mm_user_properties = pr_user_properties r\<rparr>"
proof -
  have "EfForward (oxi_publish_of r) \<in> set effects"
    using assms(2) by (auto simp: publish_to_local_server_def Let_def split: if_splits)
  then show ?thesis
    using message_from_request [OF assms(1), of now'] unfolding message_of_request_def by blast
qed

theorem published_message_reads_back_witness:
  "\<exists>p m. message_from_oximqtt 9 p = Some m \<and> mm_topic m = ''t'' \<and> mm_payload m = [1, 2]"
proof -
  obtain res and effects :: "unit broker_effect list" and b'
    where e: "publish_to_local_server (Inr ()) (Inr 0) 5 6 sample_request (broker_new 1) = (res, effects, b')"
    by (rule prod_cases3)
  from published_message_reads_back [OF sample_request_valid e, of 9]
  obtain p where "message_from_oximqtt 9 p = Some
      \<lparr>mm_topic = pr_topic sample_request, mm_payload = pr_payload sample_request,
       mm_qos = pr_qos sample_request, mm_retain = pr_retain sample_request, mm_duplicate = False,
       mm_received_at = 9, mm_user_properties = pr_user_properties sample_request\<rparr>"
    by blast
  then show ?thesis by (intro exI conjI) (assumption, simp_all add: sample_request_def)
qed

section \<open>Management\<close>










end
