(* ===== verification/Object_Errors.thy ===== *)
theory Object_Errors
  imports Domain_Error Rust_Split
begin

text \<open>
  The errors of the object storage connector (\<open>crates/ramag-infra-object-storage/src/errors.rs\<close>): the
  three constructors, the mapping of OpenDAL and local file errors and the fields that are taken out
  of a provider's message.  An OpenDAL error is third-party data: its kind, message and temporary flag
  and the chain of its sources, of which only reqwest errors are looked at.
\<close>

section \<open>Third-party errors\<close>

datatype opendal_kind =
  OdUnexpected | OdNotFound | OdPermissionDenied | OdAlreadyExists | OdConditionNotMatch
  | OdRateLimited | OdOther

record reqwest_error =
  rq_is_timeout :: bool
  rq_is_connect :: bool
  rq_is_request :: bool
  rq_text :: string

text \<open>A source of the chain that is not a reqwest error is \<open>None\<close>.\<close>

record opendal_error =
  od_kind :: opendal_kind
  od_message :: string
  od_temporary :: bool
  od_sources :: "reqwest_error option list"

datatype io_kind = IoNotFound | IoPermissionDenied | IoAlreadyExists | IoOther

section \<open>Constructors\<close>

(* crates/ramag-infra-object-storage/src/errors.rs:8-14 invalid *)
definition os_invalid :: "string \<Rightarrow> string \<Rightarrow> object_storage_error" where
  "os_invalid operation message = object_storage_error_new OsInvalidConfig operation message"

(* crates/ramag-infra-object-storage/src/errors.rs:16-22 cancelled *)
definition os_cancelled :: "string \<Rightarrow> object_storage_error" where
  "os_cancelled operation = object_storage_error_new OsCancelled operation ((utf8 [0x64CD, 0x4F5C, 0x5DF2, 0x53D6, 0x6D88]))"

(* crates/ramag-infra-object-storage/src/errors.rs:24-26 conflict *)
definition os_conflict :: "string \<Rightarrow> string \<Rightarrow> object_storage_error" where
  "os_conflict operation message = object_storage_error_new OsConflict operation message"

section \<open>Provider fields\<close>

(* crates/ramag-infra-object-storage/src/errors.rs:142-153 to_pascal_case *)
definition to_pascal_case :: "string \<Rightarrow> string" where
  "to_pascal_case field =
     concat (map (\<lambda>part. case part of [] \<Rightarrow> [] | c # rest \<Rightarrow> ascii_upper c # rest)
       (split_on CHR ''_'' field))"

(* crates/ramag-infra-object-storage/src/errors.rs:123-140 extract_provider_field *)
definition extract_provider_field :: "string \<Rightarrow> string \<Rightarrow> string option" where
  "extract_provider_field message field =
     (let debug_prefix = field @ [CHR '':'', CHR '' '', CHR 0x22];
          xml_prefix = ''<'' @ to_pascal_case field @ ''>'';
          xml_suffix = ''</'' @ to_pascal_case field @ ''>'';
          debug = (case split_once debug_prefix message of
              None \<Rightarrow> None
            | Some (_, tail) \<Rightarrow> map_option fst (split_once [CHR 0x22] tail));
          v = (case debug of
              Some v \<Rightarrow> Some v
            | None \<Rightarrow>
                (case split_once xml_prefix message of
                   None \<Rightarrow> None
                 | Some (_, tail) \<Rightarrow> map_option fst (split_once xml_suffix tail)))
      in case v of
           None \<Rightarrow> None
         | Some v \<Rightarrow>
             if v \<noteq> [] \<and> length v \<le> 256 \<and> list_all (\<lambda>b. byte b < 128) v \<and> \<not> has_control v
             then Some v else None)"

section \<open>Mapping\<close>

text \<open>One source of the chain: the category it decides, if any.\<close>

(* crates/ramag-infra-object-storage/src/errors.rs:103-118 classify_transport_error *)
definition transport_category :: "reqwest_error \<Rightarrow> object_storage_error_category option" where
  "transport_category e =
     (if rq_is_timeout e then Some OsTimeout
      else
        let detail = to_ascii_lowercase (rq_text e)
        in if str_contains ''tls'' detail \<or> str_contains ''certificate'' detail
              \<or> str_contains ''cert '' detail \<or> str_contains ''rustls'' detail
           then Some OsTls
           else if rq_is_connect e \<or> rq_is_request e then Some OsNetwork else None)"

(* crates/ramag-infra-object-storage/src/errors.rs:99-121 classify_transport_error *)
fun classify_transport :: "reqwest_error option list \<Rightarrow> object_storage_error_category option" where
  "classify_transport [] = None"
| "classify_transport (None # rest) = classify_transport rest"
| "classify_transport (Some e # rest) =
     (case transport_category e of Some c \<Rightarrow> Some c | None \<Rightarrow> classify_transport rest)"

(* crates/ramag-infra-object-storage/src/errors.rs:33-44 map_opendal *)
definition provider_category :: "string \<Rightarrow> object_storage_error_category option" where
  "provider_category code =
     (if code = ''invalidaccesskeyid'' \<or> code = ''signaturedoesnotmatch'' \<or> code = ''authfailure''
      then Some OsInvalidCredentials
      else if code = ''invalidobjectstate'' \<or> code = ''objectnotappendable''
              \<or> code = ''operationnotpermitted''
      then Some OsArchived
      else if code = ''requesttimetoolskewed'' \<or> code = ''requesttimetooskewed''
              \<or> code = ''requesthasexpired''
      then Some OsClockSkew
      else None)"

(* crates/ramag-infra-object-storage/src/errors.rs:45-76 map_opendal *)
definition kind_category ::
  "opendal_kind \<Rightarrow> bool \<Rightarrow> object_storage_error_category \<times> string \<times> bool" where
  "kind_category kind temporary =
     (case kind of
        OdNotFound \<Rightarrow> (OsNotFound, (utf8 [0x5BF9, 0x8C61, 0x4E0D, 0x5B58, 0x5728, 0x6216, 0x5DF2, 0x88AB, 0x5220, 0x9664]), False)
      | OdPermissionDenied \<Rightarrow> (OsPermissionDenied, (utf8 [0x5F53, 0x524D, 0x51ED, 0x636E, 0x6CA1, 0x6709, 0x6267, 0x884C, 0x6B64, 0x64CD, 0x4F5C, 0x7684, 0x6743, 0x9650]), False)
      | OdAlreadyExists \<Rightarrow> (OsConflict, (utf8 [0x76EE, 0x6807, 0x5DF2, 0x5B58, 0x5728, 0x6216, 0x5DF2, 0x88AB, 0x5176, 0x4ED6, 0x64CD, 0x4F5C, 0x4FEE, 0x6539]), False)
      | OdConditionNotMatch \<Rightarrow> (OsConflict, (utf8 [0x76EE, 0x6807, 0x5DF2, 0x5B58, 0x5728, 0x6216, 0x5DF2, 0x88AB, 0x5176, 0x4ED6, 0x64CD, 0x4F5C, 0x4FEE, 0x6539]), False)
      | OdRateLimited \<Rightarrow> (OsRateLimited, (utf8 [0x4E91, 0x670D, 0x52A1, 0x8BF7, 0x6C42, 0x8FC7, 0x4E8E, 0x9891, 0x7E41, 0xFF0C, 0x8BF7, 0x7A0D, 0x540E, 0x91CD, 0x8BD5]), True)
      | OdUnexpected \<Rightarrow> (OsProvider, (utf8 [0x4E91, 0x670D, 0x52A1, 0x6682, 0x65F6, 0x65E0, 0x6CD5, 0x5B8C, 0x6210, 0x8BE5, 0x64CD, 0x4F5C]), temporary)
      | OdOther \<Rightarrow> (OsProvider, (utf8 [0x4E91, 0x670D, 0x52A1, 0x8FD4, 0x56DE, 0x4E86, 0x65E0, 0x6CD5, 0x5904, 0x7406, 0x7684, 0x7ED3, 0x679C]), temporary))"

(* crates/ramag-infra-object-storage/src/errors.rs:28-97 map_opendal *)
definition map_opendal :: "string \<Rightarrow> opendal_error \<Rightarrow> object_storage_error" where
  "map_opendal operation e =
     (let transport = classify_transport (od_sources e);
          code = extract_provider_field (od_message e) ''code'';
          request_id = extract_provider_field (od_message e) ''request_id'';
          provider = provider_category
            (to_ascii_lowercase (case code of None \<Rightarrow> [] | Some c \<Rightarrow> c));
          (category, message, again) = kind_category (od_kind e) (od_temporary e);
          (category', message') =
            (case provider of
               Some c \<Rightarrow>
                 (c, case c of
                       OsInvalidCredentials \<Rightarrow> (utf8 [0x8BBF, 0x95EE, 0x51ED, 0x636E, 0x65E0, 0x6548, 0x6216, 0x7B7E, 0x540D, 0x4E0D, 0x5339, 0x914D])
                     | OsArchived \<Rightarrow> (utf8 [0x5BF9, 0x8C61, 0x5904, 0x4E8E, 0x5F52, 0x6863, 0x72B6, 0x6001, 0xFF0C, 0x9700, 0x8981, 0x5148, 0x6062, 0x590D])
                     | OsClockSkew \<Rightarrow> (utf8 [0x672C, 0x673A, 0x65F6, 0x95F4, 0x4E0E, 0x4E91, 0x670D, 0x52A1, 0x504F, 0x5DEE, 0x8FC7, 0x5927])
                     | _ \<Rightarrow> message)
             | None \<Rightarrow>
                 (case transport of
                    Some c \<Rightarrow>
                      (c, case c of
                            OsTimeout \<Rightarrow> (utf8 [0x8FDE, 0x63A5, 0x4E91, 0x670D, 0x52A1, 0x8D85, 0x65F6])
                          | OsTls \<Rightarrow> (utf8 [0x4E91, 0x670D, 0x52A1] @ '' TLS '' @ utf8 [0x8BC1, 0x4E66, 0x6821, 0x9A8C, 0x5931, 0x8D25])
                          | OsNetwork \<Rightarrow> (utf8 [0x65E0, 0x6CD5, 0x8FDE, 0x63A5, 0x4E91, 0x670D, 0x52A1])
                          | _ \<Rightarrow> message)
                  | None \<Rightarrow> (category, message)))
      in object_storage_retryable again
           (with_provider_details code request_id
              (object_storage_error_new category' operation message')))"

(* crates/ramag-infra-object-storage/src/errors.rs:155-168 map_io *)
definition os_map_io :: "string \<Rightarrow> io_kind \<Rightarrow> object_storage_error" where
  "os_map_io operation kind =
     (case kind of
        IoNotFound \<Rightarrow> object_storage_error_new OsNotFound operation ((utf8 [0x672C, 0x5730, 0x6587, 0x4EF6, 0x4E0D, 0x5B58, 0x5728]))
      | IoPermissionDenied \<Rightarrow>
          object_storage_error_new OsPermissionDenied operation ((utf8 [0x6CA1, 0x6709, 0x8BBF, 0x95EE, 0x672C, 0x5730, 0x6587, 0x4EF6, 0x7684, 0x6743, 0x9650]))
      | IoAlreadyExists \<Rightarrow> object_storage_error_new OsConflict operation ((utf8 [0x672C, 0x5730, 0x76EE, 0x6807, 0x6587, 0x4EF6, 0x5DF2, 0x5B58, 0x5728]))
      | IoOther \<Rightarrow> object_storage_error_new OsProvider operation ((utf8 [0x672C, 0x5730, 0x6587, 0x4EF6, 0x64CD, 0x4F5C, 0x5931, 0x8D25])))"

end
