(* ===== verification/Object_Entities.thy ===== *)
theory Object_Entities
  imports Rust_Trim Remote_Path
begin

text \<open>
  The object storage entities (\<open>crates/ramag-domain/src/entities/object_storage.rs\<close> and
  \<open>object_storage/validation.rs\<close>): providers, buckets, accounts, endpoints, mounts, list queries and
  the checks of names, keys and prefixes.  The \<open>url\<close> crate is third-party: \<open>parse_url\<close> is a parameter
  that answers the parsed URL, if the text is one.  The text of a UUID is a parameter too.
\<close>

section \<open>Limits\<close>

(* crates/ramag-domain/src/entities/object_storage.rs:28-28 OBJECT_STORAGE_ACCOUNT_SCHEMA_VERSION *)
definition OBJECT_STORAGE_ACCOUNT_SCHEMA_VERSION :: u16 where
  "OBJECT_STORAGE_ACCOUNT_SCHEMA_VERSION = 1"

(* crates/ramag-domain/src/entities/object_storage.rs:29-29 MAX_OBJECT_STORAGE_ACCOUNTS *)
definition MAX_OBJECT_STORAGE_ACCOUNTS :: nat where
  [limits]: "MAX_OBJECT_STORAGE_ACCOUNTS = 64"

(* crates/ramag-domain/src/entities/object_storage.rs:30-30 MAX_OBJECT_STORAGE_ACCOUNT_NAME_BYTES *)
definition MAX_OBJECT_STORAGE_ACCOUNT_NAME_BYTES :: nat where
  [limits]: "MAX_OBJECT_STORAGE_ACCOUNT_NAME_BYTES = 128"

(* crates/ramag-domain/src/entities/object_storage.rs:31-31 MAX_OBJECT_STORAGE_ACCESS_KEY_ID_BYTES *)
definition MAX_OBJECT_STORAGE_ACCESS_KEY_ID_BYTES :: nat where
  [limits]: "MAX_OBJECT_STORAGE_ACCESS_KEY_ID_BYTES = 256"

(* crates/ramag-domain/src/entities/object_storage.rs:32-32 MAX_OBJECT_STORAGE_ACCESS_KEY_SECRET_BYTES *)
definition MAX_OBJECT_STORAGE_ACCESS_KEY_SECRET_BYTES :: nat where
  [limits]: "MAX_OBJECT_STORAGE_ACCESS_KEY_SECRET_BYTES = 512"

(* crates/ramag-domain/src/entities/object_storage.rs:33-33 MAX_MANUAL_BUCKETS_PER_ACCOUNT *)
definition MAX_MANUAL_BUCKETS_PER_ACCOUNT :: nat where
  [limits]: "MAX_MANUAL_BUCKETS_PER_ACCOUNT = 128"

(* crates/ramag-domain/src/entities/object_storage.rs:34-34 MAX_OBJECT_STORAGE_BUCKET_NAME_BYTES *)
definition MAX_OBJECT_STORAGE_BUCKET_NAME_BYTES :: nat where
  [limits]: "MAX_OBJECT_STORAGE_BUCKET_NAME_BYTES = 255"

(* crates/ramag-domain/src/entities/object_storage.rs:35-35 MAX_OBJECT_STORAGE_REGION_BYTES *)
definition MAX_OBJECT_STORAGE_REGION_BYTES :: nat where
  [limits]: "MAX_OBJECT_STORAGE_REGION_BYTES = 128"

(* crates/ramag-domain/src/entities/object_storage.rs:36-36 MAX_OBJECT_STORAGE_ENDPOINT_BYTES *)
definition MAX_OBJECT_STORAGE_ENDPOINT_BYTES :: nat where
  [limits]: "MAX_OBJECT_STORAGE_ENDPOINT_BYTES = 2 * 1024"

(* crates/ramag-domain/src/entities/object_storage.rs:37-37 MAX_OBJECT_STORAGE_KEY_BYTES *)
definition MAX_OBJECT_STORAGE_KEY_BYTES :: nat where
  [limits]: "MAX_OBJECT_STORAGE_KEY_BYTES = 4 * 1024"

(* crates/ramag-domain/src/entities/object_storage.rs:38-38 MAX_OBJECT_STORAGE_PAGE_ENTRIES *)
definition MAX_OBJECT_STORAGE_PAGE_ENTRIES :: nat where
  [limits]: "MAX_OBJECT_STORAGE_PAGE_ENTRIES = 500"

(* crates/ramag-domain/src/entities/object_storage.rs:39-39 MAX_OBJECT_STORAGE_WORKSPACE_ENTRIES *)
definition MAX_OBJECT_STORAGE_WORKSPACE_ENTRIES :: nat where
  [limits]: "MAX_OBJECT_STORAGE_WORKSPACE_ENTRIES = 20000"

(* crates/ramag-domain/src/entities/object_storage.rs:45-45 MAX_OBJECT_STORAGE_TEXT_PREVIEW_BYTES *)
definition MAX_OBJECT_STORAGE_TEXT_PREVIEW_BYTES :: nat where
  [limits]: "MAX_OBJECT_STORAGE_TEXT_PREVIEW_BYTES = 50 * 1024 * 1024"

section \<open>Text checks\<close>

(* crates/ramag-domain/src/entities/object_storage.rs:580-591 validate_protocol_text *)
definition os_protocol_text :: "string \<Rightarrow> string \<Rightarrow> nat \<Rightarrow> string + unit" where
  "os_protocol_text label v max_bytes =
     (if max_bytes < length v
      then Inl (label @ (utf8 [0x8FC7, 0x957F, 0xFF1A]) @ dec (length v) @ ('' bytes'' @ utf8 [0xFF0C, 0x6700, 0x591A] @ '' '') @ dec max_bytes @ '' bytes'')
      else if CHR 0x00 \<in> set v then Inl (label @ (utf8 [0x4E0D, 0x80FD, 0x5305, 0x542B] @ '' NUL '' @ utf8 [0x5B57, 0x7B26]))
      else Inr ())"

(* crates/ramag-domain/src/entities/object_storage.rs:569-578 validate_required_single_line *)
definition os_required_single_line :: "string \<Rightarrow> string \<Rightarrow> nat \<Rightarrow> string + unit" where
  "os_required_single_line label v max_bytes =
     (if trim v = [] then Inl (label @ (utf8 [0x4E0D, 0x80FD, 0x4E3A, 0x7A7A]))
      else try_r (os_protocol_text label v max_bytes) (\<lambda>_.
        if has_control v then Inl (label @ (utf8 [0x4E0D, 0x80FD, 0x5305, 0x542B, 0x63A7, 0x5236, 0x5B57, 0x7B26])) else Inr ()))"

(* crates/ramag-domain/src/entities/object_storage.rs:557-567 validate_credential *)
definition os_credential :: "string \<Rightarrow> string \<Rightarrow> nat \<Rightarrow> string + unit" where
  "os_credential label v max_bytes =
     (if v = [] then Inl (label @ (utf8 [0x4E0D, 0x80FD, 0x4E3A, 0x7A7A]))
      else try_r (os_protocol_text label v max_bytes) (\<lambda>_.
        if has_control v then Inl (label @ (utf8 [0x4E0D, 0x80FD, 0x5305, 0x542B, 0x63A7, 0x5236, 0x5B57, 0x7B26])) else Inr ()))"

text \<open>The lower case letters, digits and hyphens of a bucket name or a region, with a letter or a
  digit at both ends; the bytes are looked at one by one.\<close>

definition host_label :: "string \<Rightarrow> bool" where
  "host_label v \<longleftrightarrow>
     list_all (\<lambda>b. byte b < 128) v
     \<and> list_all (\<lambda>b. is_ascii_lowercase b \<or> is_ascii_digit b \<or> b = CHR ''-'') v
     \<and> v \<noteq> [] \<and> is_ascii_alphanumeric (hd v) \<and> is_ascii_alphanumeric (last v)"

(* crates/ramag-domain/src/entities/object_storage.rs:90-96 CloudProvider *)
datatype cloud_provider = TencentCos | AliyunOss | S3Compatible

(* crates/ramag-domain/src/entities/object_storage.rs:98-106 CloudProvider::display_name *)
fun provider_display_name :: "cloud_provider \<Rightarrow> string" where
  "provider_display_name TencentCos = (utf8 [0x817E, 0x8BAF, 0x4E91] @ '' COS'')"
| "provider_display_name AliyunOss = (utf8 [0x963F, 0x91CC, 0x4E91] @ '' OSS'')"
| "provider_display_name S3Compatible = (''S3 '' @ utf8 [0x517C, 0x5BB9, 0x5B58, 0x50A8])"

(* crates/ramag-domain/src/entities/object_storage/validation.rs:17-39 validate_bucket_name *)
definition validate_bucket_name :: "string \<Rightarrow> string + unit" where
  "validate_bucket_name v =
     try_r (os_required_single_line ((''Bucket '' @ utf8 [0x540D, 0x79F0])) v MAX_OBJECT_STORAGE_BUCKET_NAME_BYTES) (\<lambda>_.
       ensure (3 \<le> length v \<and> host_label v)
         ((''Bucket '' @ utf8 [0x540D, 0x79F0, 0x81F3, 0x5C11] @ '' 3 '' @ utf8 [0x4E2A, 0x5B57, 0x7B26, 0xFF0C, 0x53EA, 0x80FD, 0x5305, 0x542B, 0x5C0F, 0x5199, 0x5B57, 0x6BCD, 0x3001, 0x6570, 0x5B57, 0x548C, 0x8FDE, 0x5B57, 0x7B26, 0xFF0C, 0x4E14, 0x9996, 0x5C3E, 0x5FC5, 0x987B, 0x662F, 0x5B57, 0x6BCD, 0x6216, 0x6570, 0x5B57])))"

(* crates/ramag-domain/src/entities/object_storage/validation.rs:6-15 validate_bucket_name_for_provider *)
definition validate_bucket_name_for_provider :: "cloud_provider \<Rightarrow> string \<Rightarrow> string + unit" where
  "validate_bucket_name_for_provider provider v =
     try_r (validate_bucket_name v) (\<lambda>_.
       if provider = AliyunOss \<and> 63 < length v
       then Inl ((utf8 [0x963F, 0x91CC, 0x4E91] @ '' OSS Bucket '' @ utf8 [0x540D, 0x79F0, 0x4E0D, 0x80FD, 0x8D85, 0x8FC7] @ '' 63 '' @ utf8 [0x4E2A] @ '' ASCII '' @ utf8 [0x5B57, 0x7B26])) else Inr ())"

(* crates/ramag-domain/src/entities/object_storage/validation.rs:41-59 validate_region *)
definition validate_region :: "string \<Rightarrow> string + unit" where
  "validate_region v =
     try_r (os_required_single_line ''Region'' v MAX_OBJECT_STORAGE_REGION_BYTES) (\<lambda>_.
       ensure (host_label v) ((''Region '' @ utf8 [0x53EA, 0x80FD, 0x5305, 0x542B, 0x5C0F, 0x5199, 0x5B57, 0x6BCD, 0x3001, 0x6570, 0x5B57, 0x548C, 0x8FDE, 0x5B57, 0x7B26, 0xFF0C, 0x4E14, 0x9996, 0x5C3E, 0x5FC5, 0x987B, 0x662F, 0x5B57, 0x6BCD, 0x6216, 0x6570, 0x5B57])))"

section \<open>Keys and prefixes\<close>

(* crates/ramag-domain/src/entities/object_storage/validation.rs:61-66 validate_object_key *)
definition validate_object_key :: "string \<Rightarrow> string + unit" where
  "validate_object_key v =
     (if v = [] then Inl ((''Object Key '' @ utf8 [0x4E0D, 0x80FD, 0x4E3A, 0x7A7A]))
      else os_protocol_text ''Object Key'' v MAX_OBJECT_STORAGE_KEY_BYTES)"

(* crates/ramag-domain/src/entities/object_storage/validation.rs:68-70 validate_prefix *)
definition validate_prefix :: "string \<Rightarrow> string + unit" where
  "validate_prefix v = os_protocol_text ''Prefix'' v MAX_OBJECT_STORAGE_KEY_BYTES"

text \<open>The bidirectional control characters, encoded: U+061C, U+200E, U+200F, U+202A to U+202E and
  U+2066 to U+2069.  No encoding starts inside another character, so a text holds one of them exactly
  when its bytes hold the encoding.\<close>

(* crates/ramag-domain/src/entities/object_storage/validation.rs:122-129 is_unsafe_key_character *)
definition BIDI_CONTROLS :: "string list" where
  "BIDI_CONTROLS = map utf8_enc [0x061C, 0x200E, 0x200F, 0x202A, 0x202B, 0x202C, 0x202D, 0x202E,
     0x2066, 0x2067, 0x2068, 0x2069]"

(* crates/ramag-domain/src/entities/object_storage/validation.rs:120-130 is_unsafe_key_character *)
definition has_unsafe_character :: "string \<Rightarrow> bool" where
  "has_unsafe_character s \<longleftrightarrow> has_control s \<or> list_ex (\<lambda>w. str_contains w s) BIDI_CONTROLS"

(* crates/ramag-domain/src/entities/object_storage/validation.rs:107-118 is_opendal_safe_path *)
definition is_opendal_safe_path :: "string \<Rightarrow> bool \<Rightarrow> bool" where
  "is_opendal_safe_path v allow_empty \<longleftrightarrow>
     (if (\<not> allow_empty \<and> v = []) \<or> starts_with v ''/'' \<or> suffix ''/'' v \<or> trim v \<noteq> v
         \<or> str_contains ''//'' v \<or> has_unsafe_character v
      then False
      else \<not> list_ex (\<lambda>part. part = ''.'' \<or> part = ''..'') (split_slash v))"

(* crates/ramag-domain/src/entities/object_storage/validation.rs:72-81 validate_root_prefix *)
definition validate_root_prefix :: "string \<Rightarrow> string + unit" where
  "validate_root_prefix v =
     try_r (validate_prefix v) (\<lambda>_.
       if v = [] \<or> starts_with v ''/'' \<or> \<not> suffix ''/'' v
       then Inl ((''Root Prefix '' @ utf8 [0x5FC5, 0x987B, 0x662F, 0x975E, 0x7A7A, 0x3001, 0x76F8, 0x5BF9, 0x4E14, 0x4EE5] @ '' / '' @ utf8 [0x7ED3, 0x5C3E, 0x7684, 0x524D, 0x7F00]))
       else ensure (is_opendal_safe_path (trim_end_slash v) False)
         ((''Root Prefix '' @ utf8 [0x542B] @ '' OpenDAL '' @ utf8 [0x65E0, 0x6CD5, 0x65E0, 0x635F, 0x5904, 0x7406, 0x7684, 0x5B57, 0x7B26, 0x6216, 0x8DEF, 0x5F84, 0x6BB5])))"

(* crates/ramag-domain/src/entities/object_storage/validation.rs:83-85 is_opendal_safe_key *)
definition is_opendal_safe_key :: "string \<Rightarrow> bool" where
  "is_opendal_safe_key v \<longleftrightarrow> validate_object_key v = Inr () \<and> is_opendal_safe_path v False"

(* crates/ramag-domain/src/entities/object_storage/validation.rs:87-91 is_opendal_safe_prefix *)
definition is_opendal_safe_prefix :: "string \<Rightarrow> bool" where
  "is_opendal_safe_prefix v \<longleftrightarrow>
     validate_prefix v = Inr ()
     \<and> (v = [] \<or> (suffix ''/'' v \<and> is_opendal_safe_path (trim_end_slash v) True))"

text \<open>\<open>value.strip_suffix('/').unwrap_or(value)\<close>.\<close>

definition drop_one_slash :: "string \<Rightarrow> string" where
  "drop_one_slash v = (if suffix ''/'' v then butlast v else v)"

(* crates/ramag-domain/src/entities/object_storage/validation.rs:93-97 is_opendal_safe_list_prefix *)
definition is_opendal_safe_list_prefix :: "string \<Rightarrow> bool" where
  "is_opendal_safe_list_prefix v \<longleftrightarrow>
     validate_prefix v = Inr () \<and> (v = [] \<or> is_opendal_safe_path (drop_one_slash v) True)"

(* crates/ramag-domain/src/entities/object_storage/validation.rs:99-105 validate_object_name_prefix *)
definition validate_object_name_prefix :: "string \<Rightarrow> string + unit" where
  "validate_object_name_prefix v =
     try_r (validate_prefix v) (\<lambda>_.
       if CHR ''/'' \<in> set v \<or> trim v \<noteq> v \<or> has_unsafe_character v
       then Inl ((utf8 [0x540D, 0x79F0, 0x524D, 0x7F00, 0x4E0D, 0x80FD, 0x5305, 0x542B] @ '' /'' @ utf8 [0x3001, 0x9996, 0x5C3E, 0x7A7A, 0x767D, 0x3001, 0x63A7, 0x5236, 0x5B57, 0x7B26, 0x6216, 0x53CC, 0x5411, 0x6587, 0x672C, 0x63A7, 0x5236, 0x7B26])) else Inr ())"

section \<open>Identifiers\<close>

(* crates/ramag-domain/src/entities/object_storage.rs:48-49 ObjectStorageAccountId *)
datatype object_account_id = ObjectAccountId "128 word"

(* crates/ramag-domain/src/entities/object_storage.rs:69-70 ObjectStorageMountId *)
datatype object_mount_id = ObjectMountId "128 word"

text \<open>\<open>Display\<close> of the identifiers, with the text of a UUID as parameter.\<close>

(* crates/ramag-domain/src/entities/object_storage.rs:63-67 ObjectStorageAccountId::fmt *)
fun account_text :: "(128 word \<Rightarrow> string) \<Rightarrow> object_account_id \<Rightarrow> string" where
  "account_text ut (ObjectAccountId w) = ut w"

(* crates/ramag-domain/src/entities/object_storage.rs:84-88 ObjectStorageMountId::fmt *)
fun mount_text :: "(128 word \<Rightarrow> string) \<Rightarrow> object_mount_id \<Rightarrow> string" where
  "mount_text ut (ObjectMountId w) = ut w"

section \<open>Endpoints\<close>

datatype url_host = HostDomain string | HostIpv4 "nat list" | HostIpv6 "nat list"

record parsed_url =
  url_scheme :: string
  url_username :: string
  url_password :: "string option"
  url_host :: "url_host option"
  url_path :: string
  url_query :: "string option"
  url_fragment :: "string option"
  url_text :: string

text \<open>\<open>Ipv4Addr::is_loopback\<close> and \<open>Ipv6Addr::is_loopback\<close> on octets and groups.\<close>

fun host_is_loopback :: "url_host option \<Rightarrow> bool" where
  "host_is_loopback (Some (HostDomain host)) = eq_ignore_ascii_case host ''localhost''"
| "host_is_loopback (Some (HostIpv4 octets)) = (octets \<noteq> [] \<and> hd octets = 127)"
| "host_is_loopback (Some (HostIpv6 groups)) = (groups = [0, 0, 0, 0, 0, 0, 0, 1])"
| "host_is_loopback None = False"

text \<open>\<open>strip_suffix\<close> of a text.\<close>

definition cut_suffix :: "string \<Rightarrow> string \<Rightarrow> string option" where
  "cut_suffix x s = (if suffix x s then Some (take (length s - length x) s) else None)"

definition region_host :: "string \<Rightarrow> string \<Rightarrow> string \<Rightarrow> bool" where
  "region_host front back host =
     (case strip_prefix front host of
        None \<Rightarrow> False
      | Some v \<Rightarrow>
          (case cut_suffix back v of
             None \<Rightarrow> False
           | Some region \<Rightarrow> CHR ''.'' \<notin> set region \<and> validate_region region = Inr ()))"

(* crates/ramag-domain/src/entities/object_storage.rs:329-362 ObjectStorageEndpoint::parse_official *)
definition parse_official :: "cloud_provider \<Rightarrow> string \<Rightarrow> string + string" where
  "parse_official provider v =
     (let normalized = trim_end_slash v in
      if MAX_OBJECT_STORAGE_ENDPOINT_BYTES < length normalized then Inl ((''Endpoint '' @ utf8 [0x8D85, 0x8FC7] @ '' 2 KiB '' @ utf8 [0x4E0A, 0x9650]))
      else try_r (ok_or (strip_prefix ''https://'' normalized) ((''Endpoint '' @ utf8 [0x5FC5, 0x987B, 0x4F7F, 0x7528] @ '' HTTPS''))) (\<lambda>host.
        if host = [] \<or> list_ex (\<lambda>c. c \<in> set ''/?#@:'') host
           \<or> \<not> list_all (\<lambda>b. byte b < 128) host \<or> host \<noteq> to_ascii_lowercase host
        then Inl ((''Endpoint '' @ utf8 [0x5FC5, 0x987B, 0x662F, 0x65E0, 0x8DEF, 0x5F84, 0x3001, 0x7AEF, 0x53E3, 0x548C, 0x7528, 0x6237, 0x4FE1, 0x606F, 0x7684, 0x5B98, 0x65B9] @ '' HTTPS '' @ utf8 [0x4E3B, 0x673A]))
        else
          (let ok = (case provider of
                TencentCos \<Rightarrow> region_host ''cos.'' ''.myqcloud.com'' host
              | AliyunOss \<Rightarrow> region_host ''oss-'' ''.aliyuncs.com'' host
              | S3Compatible \<Rightarrow> False)
           in if \<not> ok
              then Inl ((''Endpoint '' @ utf8 [0x4E0D, 0x662F] @ '' '') @ provider_display_name provider @ ('' '' @ utf8 [0x5B98, 0x65B9, 0x4E3B, 0x673A]))
              else Inr normalized)))"

fun split_once_scheme :: "string \<Rightarrow> string option" where
  "split_once_scheme [] = None"
| "split_once_scheme (c # s) =
     (case strip_prefix ''://'' (c # s) of Some r \<Rightarrow> Some r | None \<Rightarrow> split_once_scheme s)"

text \<open>The text between \<open>://\<close> and the first \<open>/\<close>, \<open>?\<close> or \<open>#\<close>; empty without \<open>://\<close>.\<close>

definition url_authority :: "string \<Rightarrow> string" where
  "url_authority v =
     (case split_once_scheme v of
        None \<Rightarrow> []
      | Some tail \<Rightarrow> takeWhile (\<lambda>c. c \<notin> set ''/?#'') tail)"

(* crates/ramag-domain/src/entities/object_storage.rs:365-397 ObjectStorageEndpoint::parse_s3_compatible *)
definition parse_s3_compatible ::
  "(string \<Rightarrow> parsed_url option) \<Rightarrow> string \<Rightarrow> string + string" where
  "parse_s3_compatible parse_url v =
     (let normalized = trim v in
      if normalized = [] \<or> MAX_OBJECT_STORAGE_ENDPOINT_BYTES < length normalized
      then Inl ((''Endpoint '' @ utf8 [0x4E0D, 0x80FD, 0x4E3A, 0x7A7A, 0x4E14, 0x4E0D, 0x80FD, 0x8D85, 0x8FC7] @ '' 2 KiB''))
      else try_r (ok_or (parse_url normalized) ((''Endpoint '' @ utf8 [0x683C, 0x5F0F, 0x65E0, 0x6548]))) (\<lambda>endpoint.
        if url_scheme endpoint \<noteq> ''https'' \<and> url_scheme endpoint \<noteq> ''http''
        then Inl ((''Endpoint '' @ utf8 [0x5FC5, 0x987B, 0x4F7F, 0x7528] @ '' HTTPS'' @ utf8 [0xFF1B, 0x672C, 0x5730, 0x56DE, 0x73AF, 0x5730, 0x5740, 0x53EF, 0x4EE5, 0x4F7F, 0x7528] @ '' HTTP''))
        else if CHR ''@'' \<in> set (url_authority normalized) \<or> url_username endpoint \<noteq> []
                \<or> url_password endpoint \<noteq> None \<or> url_path endpoint \<noteq> ''/''
                \<or> url_query endpoint \<noteq> None \<or> url_fragment endpoint \<noteq> None
        then Inl ((''Endpoint '' @ utf8 [0x4E0D, 0x80FD, 0x5305, 0x542B, 0x7528, 0x6237, 0x4FE1, 0x606F, 0x3001, 0x8DEF, 0x5F84, 0x3001, 0x67E5, 0x8BE2, 0x53C2, 0x6570, 0x6216, 0x7247, 0x6BB5]))
        else if url_scheme endpoint = ''http'' \<and> \<not> host_is_loopback (url_host endpoint)
        then Inl ((''HTTP Endpoint '' @ utf8 [0x53EA, 0x5141, 0x8BB8] @ '' localhost '' @ utf8 [0x6216, 0x56DE, 0x73AF] @ '' IP''))
        else Inr (trim_end_slash (url_text endpoint))))"

section \<open>Accounts\<close>

(* crates/ramag-domain/src/entities/object_storage.rs:138-145 ManualBucket *)
record manual_bucket =
  mb_id :: object_mount_id
  mb_name :: string
  mb_region :: string
  mb_root_prefix :: "string option"

(* crates/ramag-domain/src/entities/object_storage.rs:157-164 ManualBucket::validate *)
definition validate_bucket :: "manual_bucket \<Rightarrow> string + unit" where
  "validate_bucket b =
     try_r (validate_bucket_name (mb_name b)) (\<lambda>_.
     try_r (validate_region (mb_region b)) (\<lambda>_.
       case mb_root_prefix b of None \<Rightarrow> Inr () | Some p \<Rightarrow> validate_root_prefix p))"

(* crates/ramag-domain/src/entities/object_storage.rs:166-169 ManualBucket::validate_for_provider *)
definition validate_bucket_for_provider :: "cloud_provider \<Rightarrow> manual_bucket \<Rightarrow> string + unit" where
  "validate_bucket_for_provider provider b =
     try_r (validate_bucket b) (\<lambda>_. validate_bucket_name_for_provider provider (mb_name b))"

(* crates/ramag-domain/src/entities/object_storage.rs:172-186 ObjectStorageAccount *)
record object_account =
  oa_schema_version :: u16
  oa_id :: object_account_id
  oa_revision :: u64
  oa_name :: string
  oa_provider :: cloud_provider
  oa_access_key_id :: string
  oa_access_key_secret :: string
  oa_s3_endpoint :: "string option"
  oa_read_only :: bool
  oa_manual_buckets :: "manual_bucket list"

(* crates/ramag-domain/src/entities/object_storage.rs:205-218 ObjectStorageAccount::new *)
definition object_account_new :: "object_account_id \<Rightarrow> string \<Rightarrow> cloud_provider \<Rightarrow> object_account" where
  "object_account_new fresh name provider =
     \<lparr>oa_schema_version = OBJECT_STORAGE_ACCOUNT_SCHEMA_VERSION, oa_id = fresh, oa_revision = 1,
      oa_name = name, oa_provider = provider, oa_access_key_id = [], oa_access_key_secret = [],
      oa_s3_endpoint = None, oa_read_only = False, oa_manual_buckets = []\<rparr>"

text \<open>The bucket, region and root prefix of a mount, the prefix empty when there is none.\<close>

definition bucket_location :: "manual_bucket \<Rightarrow> string \<times> string \<times> string" where
  "bucket_location b =
     (mb_name b, mb_region b, case mb_root_prefix b of None \<Rightarrow> [] | Some p \<Rightarrow> p)"

text \<open>The loop over the buckets with the identifiers and the locations inserted so far.\<close>

(* crates/ramag-domain/src/entities/object_storage.rs:265-279 ObjectStorageAccount::validate *)
fun check_duplicates ::
  "object_mount_id list \<Rightarrow> (string \<times> string \<times> string) list \<Rightarrow> manual_bucket list \<Rightarrow> string + unit" where
  "check_duplicates ids mounts [] = Inr ()"
| "check_duplicates ids mounts (b # bs) =
     (if mb_id b \<in> set ids then Inl ((''Bucket '' @ utf8 [0x6302, 0x8F7D, 0x70B9] @ '' ID '' @ utf8 [0x91CD, 0x590D]))
      else if bucket_location b \<in> set mounts
      then Inl ((utf8 [0x540C, 0x4E00] @ '' Bucket'' @ utf8 [0x3001, 0x5730, 0x57DF, 0x548C] @ '' Root Prefix '' @ utf8 [0x4E0D, 0x80FD, 0x91CD, 0x590D, 0x6302, 0x8F7D]))
      else check_duplicates (mb_id b # ids) (bucket_location b # mounts) bs)"

(* crates/ramag-domain/src/entities/object_storage.rs:242-253 ObjectStorageAccount::validate *)
definition check_endpoint ::
  "(string \<Rightarrow> parsed_url option) \<Rightarrow> cloud_provider \<Rightarrow> string option \<Rightarrow> string + unit" where
  "check_endpoint parse_url provider s3_endpoint =
     (case s3_endpoint of
        Some endpoint \<Rightarrow>
          if provider = S3Compatible then map_ok (\<lambda>_. ()) (parse_s3_compatible parse_url endpoint)
          else Inl ((utf8 [0x53EA, 0x6709] @ '' S3 '' @ utf8 [0x517C, 0x5BB9, 0x5B58, 0x50A8, 0x8D26, 0x53F7, 0x53EF, 0x4EE5, 0x8BBE, 0x7F6E, 0x81EA, 0x5B9A, 0x4E49] @ '' Endpoint''))
      | None \<Rightarrow>
          if provider = S3Compatible then Inl ((''S3 '' @ utf8 [0x517C, 0x5BB9, 0x5B58, 0x50A8, 0x5FC5, 0x987B, 0x8BBE, 0x7F6E] @ '' Endpoint'')) else Inr ())"

(* crates/ramag-domain/src/entities/object_storage.rs:220-281 ObjectStorageAccount::validate *)
definition validate_account :: "(string \<Rightarrow> parsed_url option) \<Rightarrow> object_account \<Rightarrow> string + unit" where
  "validate_account parse_url a =
     (if oa_schema_version a \<noteq> OBJECT_STORAGE_ACCOUNT_SCHEMA_VERSION
      then Inl ((utf8 [0x4E0D, 0x652F, 0x6301, 0x7684, 0x4E91, 0x5B58, 0x50A8, 0x8D26, 0x53F7, 0x7248, 0x672C, 0xFF1A]) @ dec (unat (oa_schema_version a)))
      else if oa_revision a = 0 then Inl ((utf8 [0x4E91, 0x5B58, 0x50A8, 0x8D26, 0x53F7] @ '' revision '' @ utf8 [0x4E0D, 0x80FD, 0x4E3A] @ '' 0''))
      else
        try_r (os_required_single_line ((utf8 [0x8D26, 0x53F7, 0x540D, 0x79F0])) (oa_name a) MAX_OBJECT_STORAGE_ACCOUNT_NAME_BYTES) (\<lambda>_.
        try_r (os_credential ''AccessKey ID / SecretId'' (oa_access_key_id a)
                 MAX_OBJECT_STORAGE_ACCESS_KEY_ID_BYTES) (\<lambda>_.
        try_r (os_credential ''AccessKey Secret / SecretKey'' (oa_access_key_secret a)
                 MAX_OBJECT_STORAGE_ACCESS_KEY_SECRET_BYTES) (\<lambda>_.
        try_r (check_endpoint parse_url (oa_provider a) (oa_s3_endpoint a)) (\<lambda>_.
          if oa_manual_buckets a = [] then Inl ((utf8 [0x8BF7, 0x81F3, 0x5C11, 0x6DFB, 0x52A0, 0x4E00, 0x4E2A] @ '' Bucket''))
          else if MAX_MANUAL_BUCKETS_PER_ACCOUNT < length (oa_manual_buckets a)
          then Inl ((''Bucket '' @ utf8 [0x6302, 0x8F7D, 0x6570, 0x91CF, 0x8D85, 0x8FC7] @ '' '') @ dec MAX_MANUAL_BUCKETS_PER_ACCOUNT @ ('' '' @ utf8 [0x4E2A, 0x4E0A, 0x9650]))
          else
            try_r (for_r (validate_bucket_for_provider (oa_provider a)) (oa_manual_buckets a)) (\<lambda>_.
            check_duplicates [] [] (oa_manual_buckets a)))))))"

(* crates/ramag-domain/src/entities/object_storage.rs:283-285 ObjectStorageAccount::next_revision *)
definition next_revision :: "object_account \<Rightarrow> u64" where
  "next_revision a = sat_add (oa_revision a) 1"

(* crates/ramag-domain/src/entities/object_storage.rs:299-307 ObjectStorageAccountSnapshot *)
record account_snapshot =
  as_id :: object_account_id
  as_revision :: u64
  as_provider :: cloud_provider
  as_access_key_id :: string
  as_access_key_secret :: string
  as_read_only :: bool

(* crates/ramag-domain/src/entities/object_storage.rs:287-296 ObjectStorageAccount::snapshot *)
definition snapshot_of :: "object_account \<Rightarrow> account_snapshot" where
  "snapshot_of a =
     \<lparr>as_id = oa_id a, as_revision = oa_revision a, as_provider = oa_provider a,
      as_access_key_id = oa_access_key_id a, as_access_key_secret = oa_access_key_secret a,
      as_read_only = oa_read_only a\<rparr>"

section \<open>Mounts\<close>

(* crates/ramag-domain/src/entities/object_storage.rs:404-414 ObjectStorageMount *)
record object_mount =
  om_id :: object_mount_id
  om_account_id :: object_account_id
  om_bucket :: string
  om_region :: string
  om_endpoint :: string
  om_root_prefix :: "string option"
  om_created_at :: "int option"
  om_storage_class :: "string option"

(* crates/ramag-domain/src/entities/object_storage.rs:417-426 ObjectStorageMount::operator_identity *)
definition operator_identity :: "(128 word \<Rightarrow> string) \<Rightarrow> object_mount \<Rightarrow> u64 \<Rightarrow> string" where
  "operator_identity ut m revision =
     account_text ut (om_account_id m) @ '':'' @ dec (unat revision) @ '':'' @ om_bucket m @ '':''
     @ om_region m @ '':'' @ om_endpoint m @ '':''
     @ (case om_root_prefix m of None \<Rightarrow> [] | Some p \<Rightarrow> p)"

(* crates/ramag-domain/src/entities/object_storage.rs:428-443 ObjectStorageMount::validate_for_provider *)
definition validate_mount ::
  "(string \<Rightarrow> parsed_url option) \<Rightarrow> cloud_provider \<Rightarrow> object_mount \<Rightarrow> string + unit" where
  "validate_mount parse_url provider m =
     try_r (validate_bucket_name_for_provider provider (om_bucket m)) (\<lambda>_.
     try_r (validate_region (om_region m)) (\<lambda>_.
     try_r (if provider = S3Compatible then parse_s3_compatible parse_url (om_endpoint m)
            else parse_official provider (om_endpoint m)) (\<lambda>_.
       case om_root_prefix m of None \<Rightarrow> Inr () | Some p \<Rightarrow> validate_root_prefix p)))"

section \<open>Listing\<close>

(* crates/ramag-domain/src/entities/object_storage.rs:446-450 ObjectEntryKind *)
datatype object_entry_kind = EntryPrefix | EntryObject

(* crates/ramag-domain/src/entities/object_storage.rs:452-463 ObjectEntry *)
record object_entry =
  ob_key :: string
  ob_display_name :: string
  ob_kind :: object_entry_kind
  ob_operable :: bool
  ob_size :: "u64 option"
  ob_last_modified :: "int option"
  ob_etag :: "string option"
  ob_content_type :: "string option"
  ob_storage_class :: "string option"

(* crates/ramag-domain/src/entities/object_storage.rs:484-489 ObjectPage *)
record object_page =
  pg_entries :: "object_entry list"
  pg_next_cursor :: "string option"
  pg_capped :: bool

(* crates/ramag-domain/src/entities/object_storage.rs:491-496 ObjectListQuery *)
record object_list_query =
  lq_directory_prefix :: string
  lq_name_prefix :: string
  lq_list_prefix :: string

(* crates/ramag-domain/src/entities/object_storage.rs:499-513 ObjectListQuery::new *)
definition object_list_query_new :: "string \<Rightarrow> string \<Rightarrow> string + object_list_query" where
  "object_list_query_new directory_prefix name_prefix =
     (if \<not> is_opendal_safe_prefix directory_prefix then Inl ((utf8 [0x5F53, 0x524D, 0x76EE, 0x5F55, 0x524D, 0x7F00, 0x65E0, 0x6CD5, 0x7531] @ '' OpenDAL '' @ utf8 [0x5B89, 0x5168, 0x8868, 0x793A]))
      else try_r (validate_object_name_prefix name_prefix) (\<lambda>_.
        let list_prefix = directory_prefix @ name_prefix in
        if \<not> is_opendal_safe_list_prefix list_prefix
        then Inl ((utf8 [0x5BF9, 0x8C61, 0x540D, 0x79F0, 0x524D, 0x7F00, 0x65E0, 0x6CD5, 0x7531] @ '' OpenDAL '' @ utf8 [0x5B89, 0x5168, 0x8868, 0x793A]))
        else Inr \<lparr>lq_directory_prefix = directory_prefix, lq_name_prefix = name_prefix,
                  lq_list_prefix = list_prefix\<rparr>))"

(* crates/ramag-domain/src/entities/object_storage.rs:528-538 ObjectMetadata *)
record object_metadata =
  md_key :: string
  md_size :: u64
  md_last_modified :: "int option"
  md_etag :: "string option"
  md_version :: "string option"
  md_content_type :: "string option"
  md_user_metadata :: "(string \<times> string) list"
  md_storage_class :: "string option"

(* crates/ramag-domain/src/entities/object_storage.rs:540-545 ObjectTextPreview *)
record object_text_preview =
  tp_content :: string
  tp_total_bytes :: u64
  tp_truncated :: bool

(* crates/ramag-domain/src/entities/object_storage.rs:547-555 ObjectCapabilities *)
record object_capabilities =
  oc_stat :: bool
  oc_read :: bool
  oc_write :: bool
  oc_delete :: bool
  oc_list :: bool
  oc_atomic_create :: bool

end
