(* ===== verification/Object_Store.thy ===== *)
theory Object_Store
  imports Object_Errors Object_Entities Btree_Map
begin

text \<open>
  The two caches of the object storage connector: the operators
  (\<open>crates/ramag-infra-object-storage/src/operator_cache.rs\<close>, \<open>transport.rs\<close>) and the paging cursors
  (\<open>cursor_store.rs\<close>).  OpenDAL is third-party code.  An operator is modelled by what the code builds
  it from; \<open>od_world\<close> holds what OpenDAL and the cloud answer at the time of a call: whether a builder
  is accepted, what an operator lists, reads or deletes.  A lister is the list of the items that it
  will deliver; a time is a number of nanoseconds.  A \<open>HashMap\<close> is kept sorted by its keys, which
  matters only where entries have equal times.
\<close>

section \<open>Operators\<close>

datatype service_builder =
    CosBuilder (cos_bucket: string) (cos_endpoint: string) (cos_id: string) (cos_key: string)
      (cos_root: string)
  | OssBuilder (oss_bucket: string) (oss_endpoint: string) (oss_id: string) (oss_key: string)
      (oss_root: string)
  | S3Builder (s3_bucket: string) (s3_region: string) (s3_endpoint: string) (s3_id: string)
      (s3_key: string)

datatype http_transport = PlainTransport | OssV4Transport string string string string

record operator =
  op_builder :: service_builder
  op_transport :: http_transport

record capability =
  cp_stat :: bool
  cp_read :: bool
  cp_write :: bool
  cp_delete :: bool
  cp_list :: bool
  cp_write_with_if_not_exists :: bool

record raw_metadata =
  rm_is_dir :: bool
  rm_content_length :: u64
  rm_last_modified :: "string option"
  rm_etag :: "string option"
  rm_version :: "string option"
  rm_content_type :: "string option"
  rm_user_metadata :: "(string \<times> string) list option"

type_synonym raw_entry = "string \<times> raw_metadata"

record od_world =
  wd_builder_error :: "service_builder \<Rightarrow> opendal_error option"
  wd_tls_provider :: bool
  wd_http_client :: bool
  wd_capability :: "operator \<Rightarrow> capability"
  wd_lister :: "operator \<Rightarrow> string \<Rightarrow> opendal_error + (opendal_error + raw_entry) list"
  wd_stat :: "operator \<Rightarrow> string \<Rightarrow> opendal_error + raw_metadata"
  wd_read :: "operator \<Rightarrow> string \<Rightarrow> nat \<Rightarrow> opendal_error + string"
  wd_delete :: "operator \<Rightarrow> string \<Rightarrow> opendal_error + unit"
  wd_parse_rfc3339 :: "string \<Rightarrow> int option"

(* crates/ramag-infra-object-storage/src/transport.rs:47-77 apply_transport *)
definition apply_transport ::
  "od_world \<Rightarrow> service_builder \<Rightarrow> account_snapshot \<Rightarrow> object_mount \<Rightarrow> object_storage_error + operator" where
  "apply_transport world builder a m =
     try_r (ensure (wd_tls_provider world) (os_invalid ''operator'' ((utf8 [0x65E0, 0x6CD5, 0x5B89, 0x88C5] @ '' TLS '' @ utf8 [0x52A0, 0x5BC6] @ '' Provider'')))) (\<lambda>_.
     try_r (ensure (wd_http_client world) (os_invalid ''operator'' ((utf8 [0x65E0, 0x6CD5, 0x521B, 0x5EFA, 0x5BF9, 0x8C61, 0x5B58, 0x50A8] @ '' HTTP transport'')))) (\<lambda>_.
       Inr \<lparr>op_builder = builder,
            op_transport = (case as_provider a of
                AliyunOss \<Rightarrow> OssV4Transport (as_access_key_id a) (as_access_key_secret a)
                               (om_bucket m) (om_region m)
              | _ \<Rightarrow> PlainTransport)\<rparr>))"

(* crates/ramag-infra-object-storage/src/operator_cache.rs:110-150 build_operator *)
definition service_builder_for :: "account_snapshot \<Rightarrow> object_mount \<Rightarrow> service_builder" where
  "service_builder_for a m =
     (let root = (case om_root_prefix m of None \<Rightarrow> [] | Some p \<Rightarrow> p) in
      case as_provider a of
        TencentCos \<Rightarrow>
          CosBuilder (om_bucket m) (om_endpoint m) (as_access_key_id a) (as_access_key_secret a) root
      | AliyunOss \<Rightarrow>
          OssBuilder (om_bucket m) (om_endpoint m) (as_access_key_id a) (as_access_key_secret a) root
      | S3Compatible \<Rightarrow>
          S3Builder (om_bucket m) (om_region m) (om_endpoint m) (as_access_key_id a)
            (as_access_key_secret a))"

(* crates/ramag-infra-object-storage/src/operator_cache.rs:110-153 build_operator *)
definition build_operator ::
  "od_world \<Rightarrow> account_snapshot \<Rightarrow> object_mount \<Rightarrow> object_storage_error + operator" where
  "build_operator world a m =
     (let builder = service_builder_for a m in
      case wd_builder_error world builder of
        Some e \<Rightarrow> Inl (map_opendal ''operator'' e)
      | None \<Rightarrow> apply_transport world builder a m)"

section \<open>The operator cache\<close>

(* crates/ramag-infra-object-storage/src/operator_cache.rs:17-17 MAX_CACHED_OPERATORS *)
definition MAX_CACHED_OPERATORS :: nat where
  [limits]: "MAX_CACHED_OPERATORS = 32"

(* crates/ramag-infra-object-storage/src/operator_cache.rs:19-24 CacheState *)
record operator_cache =
  ca_operators :: "(string, operator) bmap"
  ca_lru :: "string list"
  ca_minimum :: "object_account_id \<Rightarrow> u64 option"

definition cache_new :: operator_cache where
  "cache_new = \<lparr>ca_operators = [], ca_lru = [], ca_minimum = (\<lambda>_. None)\<rparr>"

(* crates/ramag-infra-object-storage/src/operator_cache.rs:105-108 touch *)
definition touch_lru :: "string \<Rightarrow> string list \<Rightarrow> string list" where
  "touch_lru identity lru = filter (\<lambda>c. c \<noteq> identity) lru @ [identity]"

text \<open>The loop that evicts, as it stands: with too many operators and nothing left in the list it
  never ends.\<close>

(* crates/ramag-infra-object-storage/src/operator_cache.rs:61-65 OperatorCache::get *)
partial_function (option) evict_loop ::
  "(string, operator) bmap \<Rightarrow> string list \<Rightarrow> ((string, operator) bmap \<times> string list) option" where
  "evict_loop ops lru =
     (if MAX_CACHED_OPERATORS < length ops
      then (case lru of
              [] \<Rightarrow> evict_loop ops []
            | oldest # lru' \<Rightarrow> evict_loop (bm_remove oldest ops) lru')
      else Some (ops, lru))"

text \<open>What the loop computes where it ends (see \<open>evict_loop_ends\<close>).\<close>

(* crates/ramag-infra-object-storage/src/operator_cache.rs:61-65 OperatorCache::get *)
fun evict :: "(string, operator) bmap \<Rightarrow> string list \<Rightarrow> (string, operator) bmap \<times> string list" where
  "evict ops [] = (ops, [])"
| "evict ops (oldest # lru) =
     (if MAX_CACHED_OPERATORS < length ops then evict (bm_remove oldest ops) lru
      else (ops, oldest # lru))"

(* crates/ramag-infra-object-storage/src/operator_cache.rs:32-67 OperatorCache::get *)
definition cache_get ::
  "(128 word \<Rightarrow> string) \<Rightarrow> (string \<Rightarrow> parsed_url option) \<Rightarrow> od_world \<Rightarrow> account_snapshot \<Rightarrow> object_mount \<Rightarrow>
     operator_cache \<Rightarrow> (object_storage_error + operator) \<times> operator_cache" where
  "cache_get ut parse_url world a m cache =
     (if as_id a \<noteq> om_account_id m then (Inl (os_invalid ''operator'' ((utf8 [0x6302, 0x8F7D, 0x70B9, 0x4E0D, 0x5C5E, 0x4E8E, 0x5F53, 0x524D, 0x8D26, 0x53F7]))), cache)
      else case validate_mount parse_url (as_provider a) m of
        Inl e \<Rightarrow> (Inl (os_invalid ''operator'' e), cache)
      | Inr _ \<Rightarrow>
          (let identity = operator_identity ut m (as_revision a);
               minimum = (case ca_minimum cache (as_id a) of None \<Rightarrow> 0 | Some r \<Rightarrow> r)
           in if as_revision a < minimum
              then (Inl (os_invalid ''operator'' ((utf8 [0x8D26, 0x53F7, 0x914D, 0x7F6E, 0x5DF2, 0x66F4, 0x65B0, 0xFF0C, 0x8BF7, 0x5237, 0x65B0, 0x540E, 0x91CD, 0x8BD5]))), cache)
              else case bm_get (ca_operators cache) identity of
                Some op \<Rightarrow> (Inr op, cache\<lparr>ca_lru := touch_lru identity (ca_lru cache)\<rparr>)
              | None \<Rightarrow>
                  (case build_operator world a m of
                     Inl e \<Rightarrow> (Inl e, cache)
                   | Inr op \<Rightarrow>
                       (let (ops, lru) = evict (bm_insert identity op (ca_operators cache))
                              (touch_lru identity (ca_lru cache))
                        in (Inr op, cache\<lparr>ca_operators := ops, ca_lru := lru\<rparr>)))))"

(* crates/ramag-infra-object-storage/src/operator_cache.rs:69-84 OperatorCache::capabilities *)
definition cache_capabilities ::
  "(128 word \<Rightarrow> string) \<Rightarrow> (string \<Rightarrow> parsed_url option) \<Rightarrow> od_world \<Rightarrow> account_snapshot \<Rightarrow> object_mount \<Rightarrow>
     operator_cache \<Rightarrow> (object_storage_error + object_capabilities) \<times> operator_cache" where
  "cache_capabilities ut parse_url world a m =
     bind_s (cache_get ut parse_url world a m) (\<lambda>op.
       let c = wd_capability world op in
       lift_r (Inr \<lparr>oc_stat = cp_stat c, oc_read = cp_read c,
                    oc_write = (cp_write c \<and> \<not> as_read_only a),
                    oc_delete = (cp_delete c \<and> \<not> as_read_only a),
                    oc_list = cp_list c, oc_atomic_create = cp_write_with_if_not_exists c\<rparr>))"

(* crates/ramag-infra-object-storage/src/operator_cache.rs:86-96 OperatorCache::invalidate *)
definition cache_invalidate ::
  "(128 word \<Rightarrow> string) \<Rightarrow> object_account_id \<Rightarrow> u64 \<Rightarrow> operator_cache \<Rightarrow> operator_cache" where
  "cache_invalidate ut account minimum_revision cache =
     (let minimum = (case ca_minimum cache account of
            Some current \<Rightarrow> max current minimum_revision
          | None \<Rightarrow> minimum_revision);
          front = account_text ut account @ '':''
      in \<lparr>ca_operators = filter (\<lambda>(key, _). \<not> starts_with key front) (ca_operators cache),
          ca_lru = filter (\<lambda>key. \<not> starts_with key front) (ca_lru cache),
          ca_minimum = (ca_minimum cache)(account \<mapsto> minimum)\<rparr>)"

(* crates/ramag-infra-object-storage/src/operator_cache.rs:98-102 OperatorCache::clear *)
definition cache_clear :: "operator_cache \<Rightarrow> operator_cache" where
  "cache_clear cache = cache\<lparr>ca_operators := [], ca_lru := []\<rparr>"

section \<open>Entries\<close>

(* crates/ramag-infra-object-storage/src/cursor_store.rs:209-218 relative_display_name *)
definition relative_display_name :: "string \<Rightarrow> string \<Rightarrow> string option" where
  "relative_display_name key front =
     (let name = last (split_slash (trim_end_slash
            (case strip_prefix front key of Some r \<Rightarrow> r | None \<Rightarrow> key)))
      in if name \<noteq> [] then Some name else None)"

(* crates/ramag-infra-object-storage/src/cursor_store.rs:179-207 to_entry *)
definition to_entry :: "od_world \<Rightarrow> string \<Rightarrow> raw_entry \<Rightarrow> object_entry option" where
  "to_entry world front raw =
     (let (key, metadata) = raw;
          kind = (if rm_is_dir metadata then EntryPrefix else EntryObject)
      in case relative_display_name key front of
           None \<Rightarrow> None
         | Some name \<Rightarrow>
             Some \<lparr>ob_key = key, ob_display_name = name, ob_kind = kind,
                   ob_operable = (case kind of EntryPrefix \<Rightarrow> is_opendal_safe_prefix key
                                  | EntryObject \<Rightarrow> is_opendal_safe_key key),
                   ob_size = Some (rm_content_length metadata),
                   ob_last_modified = Option.bind (rm_last_modified metadata) (wd_parse_rfc3339 world),
                   ob_etag = rm_etag metadata, ob_content_type = rm_content_type metadata,
                   ob_storage_class = None\<rparr>)"

section \<open>The cursor store\<close>

(* crates/ramag-infra-object-storage/src/cursor_store.rs:20-20 CURSOR_TTL *)
definition CURSOR_TTL :: nat where
  [limits]: "CURSOR_TTL = 10 * 60 * 1000000000"

(* crates/ramag-infra-object-storage/src/cursor_store.rs:21-21 MAX_CURSORS *)
definition MAX_CURSORS :: nat where
  [limits]: "MAX_CURSORS = 128"

(* crates/ramag-infra-object-storage/src/cursor_store.rs:23-33 CursorState *)
record cursor_state =
  cu_account_id :: string
  cu_revision :: u64
  cu_mount_id :: string
  cu_prefix :: string
  cu_generation :: u64
  cu_lister :: "(opendal_error + raw_entry) list"
  cu_pending :: "object_entry option"
  cu_emitted :: nat
  cu_last_used :: nat

type_synonym cursor_store = "(string, cursor_state) bmap"

(* crates/ramag-infra-object-storage/src/cursor_store.rs:134-138 CursorStore::invalidate_mount *)
definition invalidate_mount :: "string \<Rightarrow> string \<Rightarrow> cursor_store \<Rightarrow> cursor_store" where
  "invalidate_mount account mount =
     filter (\<lambda>(_, s). cu_account_id s \<noteq> account \<or> cu_mount_id s \<noteq> mount)"

(* crates/ramag-infra-object-storage/src/cursor_store.rs:124-128 CursorStore::invalidate_account *)
definition invalidate_cursors :: "string \<Rightarrow> cursor_store \<Rightarrow> cursor_store" where
  "invalidate_cursors account = filter (\<lambda>(_, s). cu_account_id s \<noteq> account)"

text \<open>\<open>now.duration_since(t)\<close> is zero for a later \<open>t\<close>, as the subtraction of naturals.\<close>

(* crates/ramag-infra-object-storage/src/cursor_store.rs:140-163 CursorStore::take_bound *)
definition take_bound ::
  "(128 word \<Rightarrow> string) \<Rightarrow> nat \<Rightarrow> string \<Rightarrow> account_snapshot \<Rightarrow> object_mount \<Rightarrow> string \<Rightarrow> u64 \<Rightarrow>
     cursor_store \<Rightarrow> (object_storage_error + cursor_state) \<times> cursor_store" where
  "take_bound ut now cursor a m front generation store =
     (let live = filter (\<lambda>(_, s). now - cu_last_used s \<le> CURSOR_TTL) store
      in case bm_get live cursor of
           None \<Rightarrow> (Inl (os_invalid ''list'' ((utf8 [0x5206, 0x9875, 0x6E38, 0x6807, 0x5DF2, 0x8FC7, 0x671F, 0xFF0C, 0x8BF7, 0x91CD, 0x65B0, 0x52A0, 0x8F7D]))), live)
         | Some s \<Rightarrow>
             (if cu_account_id s = account_text ut (as_id a) \<and> cu_revision s = as_revision a
                 \<and> cu_mount_id s = mount_text ut (om_id m) \<and> cu_prefix s = front
                 \<and> cu_generation s = generation
              then Inr s else Inl (os_invalid ''list'' ((utf8 [0x5206, 0x9875, 0x4E0A, 0x4E0B, 0x6587, 0x5DF2, 0x53D8, 0x5316, 0xFF0C, 0x8BF7, 0x91CD, 0x65B0, 0x52A0, 0x8F7D]))),
              bm_remove cursor live))"

text \<open>\<open>Iterator::min_by_key\<close>: the first of the smallest.\<close>

fun min_by_key :: "('a \<Rightarrow> nat) \<Rightarrow> 'a list \<Rightarrow> 'a option" where
  "min_by_key f [] = None"
| "min_by_key f (x # xs) =
     (case min_by_key f xs of None \<Rightarrow> Some x | Some y \<Rightarrow> if f x \<le> f y then Some x else Some y)"

(* crates/ramag-infra-object-storage/src/cursor_store.rs:165-176 CursorStore::insert *)
definition insert_cursor :: "string \<Rightarrow> cursor_state \<Rightarrow> cursor_store \<Rightarrow> cursor_store" where
  "insert_cursor cursor s store =
     bm_insert cursor s
       (if MAX_CURSORS \<le> length store
        then (case min_by_key (\<lambda>(_, s). cu_last_used s) store of
                None \<Rightarrow> store | Some (oldest, _) \<Rightarrow> bm_remove oldest store)
        else store)"

text \<open>The loop that fills a page: one entry more than a page is read, to know whether there is a
  next page, and never more than one above the limit of a listing.\<close>

(* crates/ramag-infra-object-storage/src/cursor_store.rs:82-94 CursorStore::list_page *)
fun fill_page ::
  "od_world \<Rightarrow> string \<Rightarrow> nat \<Rightarrow> object_entry list \<Rightarrow> (opendal_error + raw_entry) list \<Rightarrow>
     object_storage_error + object_entry list \<times> (opendal_error + raw_entry) list" where
  "fill_page world front emitted entries [] = Inr (entries, [])"
| "fill_page world front emitted entries (item # items) =
     (if length entries \<le> MAX_OBJECT_STORAGE_PAGE_ENTRIES
         \<and> emitted + length entries < MAX_OBJECT_STORAGE_WORKSPACE_ENTRIES + 1
      then (case item of
              Inl e \<Rightarrow> Inl (map_opendal ''list'' e)
            | Inr raw \<Rightarrow>
                (case to_entry world front raw of
                   Some entry \<Rightarrow> fill_page world front emitted (entries @ [entry]) items
                 | None \<Rightarrow> fill_page world front emitted entries items))
      else Inr (entries, item # items))"

text \<open>What follows the loop: the page, and the state of the cursor for the next page.\<close>

(* crates/ramag-infra-object-storage/src/cursor_store.rs:96-122 CursorStore::list_page *)
definition cut_page ::
  "nat \<Rightarrow> string \<Rightarrow> cursor_state \<Rightarrow> object_entry list \<Rightarrow> cursor_store \<Rightarrow>
     (object_storage_error + object_page) \<times> cursor_store" where
  "cut_page now fresh s entries store =
     (let capped = MAX_OBJECT_STORAGE_WORKSPACE_ENTRIES < cu_emitted s + length entries;
          entries = (if capped then take (MAX_OBJECT_STORAGE_WORKSPACE_ENTRIES - cu_emitted s) entries
                     else entries);
          has_more = MAX_OBJECT_STORAGE_PAGE_ENTRIES < length entries;
          (entries, pending) = (if has_more then (butlast entries, Some (last entries))
                                else (entries, cu_pending s));
          s = s\<lparr>cu_pending := pending, cu_emitted := cu_emitted s + length entries,
                cu_last_used := now\<rparr>
      in if has_more \<and> \<not> capped
         then (Inr \<lparr>pg_entries = entries, pg_next_cursor = Some fresh, pg_capped = capped\<rparr>,
               insert_cursor fresh s store)
         else (Inr \<lparr>pg_entries = entries, pg_next_cursor = None, pg_capped = capped\<rparr>, store))"

(* crates/ramag-infra-object-storage/src/cursor_store.rs:53-76 CursorStore::list_page *)
definition open_cursor ::
  "(128 word \<Rightarrow> string) \<Rightarrow> od_world \<Rightarrow> nat \<Rightarrow> operator \<Rightarrow> account_snapshot \<Rightarrow> object_mount \<Rightarrow> string \<Rightarrow>
     string option \<Rightarrow> u64 \<Rightarrow> cursor_store \<Rightarrow> (object_storage_error + cursor_state) \<times> cursor_store" where
  "open_cursor ut world now op a m front cursor generation store =
     (case cursor of
        Some cursor \<Rightarrow> take_bound ut now cursor a m front generation store
      | None \<Rightarrow>
          ((case wd_lister world op front of
              Inl e \<Rightarrow> Inl (map_opendal ''list'' e)
            | Inr lister \<Rightarrow>
                Inr \<lparr>cu_account_id = account_text ut (as_id a), cu_revision = as_revision a,
                     cu_mount_id = mount_text ut (om_id m), cu_prefix = front,
                     cu_generation = generation, cu_lister = lister, cu_pending = None,
                     cu_emitted = 0, cu_last_used = now\<rparr>),
           invalidate_mount (account_text ut (as_id a)) (mount_text ut (om_id m)) store))"

text \<open>\<open>now\<close> is the time at the start, \<open>later\<close> the time when the page is complete, \<open>fresh\<close> the new
  random identifier of a cursor.\<close>

(* crates/ramag-infra-object-storage/src/cursor_store.rs:41-122 CursorStore::list_page *)
definition list_page ::
  "(128 word \<Rightarrow> string) \<Rightarrow> od_world \<Rightarrow> nat \<Rightarrow> nat \<Rightarrow> string \<Rightarrow> operator \<Rightarrow> account_snapshot \<Rightarrow> object_mount \<Rightarrow>
     object_list_query \<Rightarrow> string option \<Rightarrow> u64 \<Rightarrow> cursor_store \<Rightarrow>
     (object_storage_error + object_page) \<times> cursor_store" where
  "list_page ut world now later fresh op a m query cursor generation =
     bind_s (lift_r (ensure (is_opendal_safe_list_prefix (lq_list_prefix query))
         (os_invalid ''list'' ((utf8 [0x5F53, 0x524D, 0x524D, 0x7F00, 0x65E0, 0x6CD5, 0x7531] @ '' OpenDAL '' @ utf8 [0x5B89, 0x5168, 0x8868, 0x793A]))))) (\<lambda>_.
     bind_s (open_cursor ut world now op a m (lq_list_prefix query) cursor generation) (\<lambda>s.
     bind_s (lift_r (fill_page world (lq_directory_prefix query) (cu_emitted s)
         (case cu_pending s of Some entry \<Rightarrow> [entry] | None \<Rightarrow> []) (cu_lister s)))
       (\<lambda>(entries, lister).
         cut_page later fresh (s\<lparr>cu_pending := None, cu_lister := lister\<rparr>) entries)))"

end
