(* ===== verification/Object_Transfer.thy ===== *)
theory Object_Transfer
  imports Object_Store "HOL-Library.Product_Lexorder"
begin

text \<open>
  The data operations of the object storage connector
  (\<open>crates/ramag-infra-object-storage/src/objects/\<close>): metadata, text previews, uploads and downloads.
  The local file system is a map from paths to nodes.  Each call takes its turn from a script: what
  other processes changed before it, and whether the operating system refuses it; without a turn the
  call meets the file system as it is.  The Unix variant of the code is modelled.
\<close>

section \<open>The local file system\<close>

text \<open>A path as \<open>std::path\<close> compares it: whether it starts at the root, and its components.\<close>

record fs_path =
  pa_absolute :: bool
  pa_parts :: "string list"

definition path_parent :: "fs_path \<Rightarrow> fs_path option" where
  "path_parent p = (if pa_parts p = [] then None else Some (p\<lparr>pa_parts := butlast (pa_parts p)\<rparr>))"

definition path_join :: "fs_path \<Rightarrow> string \<Rightarrow> fs_path" where
  "path_join p name = p\<lparr>pa_parts := pa_parts p @ [name]\<rparr>"

datatype fs_node = FileNode string | LinkNode | DirNode

type_synonym fs_nodes = "fs_path \<Rightarrow> fs_node option"

record fs_turn =
  tu_changes :: "(fs_path \<times> fs_node option) list"
  tu_failure :: "io_kind option"

record local_fs =
  lf_nodes :: fs_nodes
  lf_turns :: "fs_turn list"

definition apply_changes :: "(fs_path \<times> fs_node option) list \<Rightarrow> fs_nodes \<Rightarrow> fs_nodes" where
  "apply_changes = fold (\<lambda>(p, n) nodes. nodes(p := n))"

text \<open>A call is refused by the operating system without effect, or acts on the nodes.\<close>

definition fs_call :: "(fs_nodes \<Rightarrow> (io_kind + 'a) \<times> fs_nodes) \<Rightarrow> local_fs \<Rightarrow> (io_kind + 'a) \<times> local_fs" where
  "fs_call act fs =
     (case lf_turns fs of
        [] \<Rightarrow> (let (r, nodes) = act (lf_nodes fs) in (r, fs\<lparr>lf_nodes := nodes\<rparr>))
      | t # ts \<Rightarrow>
          (let nodes = apply_changes (tu_changes t) (lf_nodes fs) in
           case tu_failure t of
             Some e \<Rightarrow> (Inl e, \<lparr>lf_nodes = nodes, lf_turns = ts\<rparr>)
           | None \<Rightarrow> (let (r, nodes') = act nodes in (r, \<lparr>lf_nodes = nodes', lf_turns = ts\<rparr>))))"

definition fs_metadata :: "fs_path \<Rightarrow> fs_nodes \<Rightarrow> (io_kind + fs_node) \<times> fs_nodes" where
  "fs_metadata p nodes = (ok_or (nodes p) IoNotFound, nodes)"

definition fs_create_new :: "fs_path \<Rightarrow> fs_nodes \<Rightarrow> (io_kind + unit) \<times> fs_nodes" where
  "fs_create_new p nodes =
     (if nodes p \<noteq> None then (Inl IoAlreadyExists, nodes) else (Inr (), nodes(p \<mapsto> FileNode [])))"

definition fs_append :: "fs_path \<Rightarrow> string \<Rightarrow> fs_nodes \<Rightarrow> (io_kind + unit) \<times> fs_nodes" where
  "fs_append p bytes nodes =
     (Inr (), case nodes p of Some (FileNode old) \<Rightarrow> nodes(p \<mapsto> FileNode (old @ bytes)) | _ \<Rightarrow> nodes)"

definition fs_sync :: "fs_nodes \<Rightarrow> (io_kind + unit) \<times> fs_nodes" where
  "fs_sync nodes = (Inr (), nodes)"

definition fs_hard_link :: "fs_path \<Rightarrow> fs_path \<Rightarrow> fs_nodes \<Rightarrow> (io_kind + unit) \<times> fs_nodes" where
  "fs_hard_link source target nodes =
     (if nodes source = None then (Inl IoNotFound, nodes)
      else if nodes target \<noteq> None then (Inl IoAlreadyExists, nodes)
      else (Inr (), nodes(target := nodes source)))"

definition fs_rename :: "fs_path \<Rightarrow> fs_path \<Rightarrow> fs_nodes \<Rightarrow> (io_kind + unit) \<times> fs_nodes" where
  "fs_rename source target nodes =
     (if nodes source = None then (Inl IoNotFound, nodes)
      else if nodes target = Some DirNode then (Inl IoOther, nodes)
      else if source = target then (Inr (), nodes)
      else (Inr (), nodes(target := nodes source, source := None)))"

definition fs_remove :: "fs_path \<Rightarrow> fs_nodes \<Rightarrow> (io_kind + unit) \<times> fs_nodes" where
  "fs_remove p nodes =
     (if nodes p = None then (Inl IoNotFound, nodes)
      else if nodes p = Some DirNode then (Inl IoOther, nodes)
      else (Inr (), nodes(p := None)))"

section \<open>Metadata and previews\<close>

(* crates/ramag-infra-object-storage/src/objects/metadata_preview.rs:14-14 MAX_USER_METADATA_ENTRIES *)
definition MAX_USER_METADATA_ENTRIES :: nat where
  [limits]: "MAX_USER_METADATA_ENTRIES = 256"

(* crates/ramag-infra-object-storage/src/objects/metadata_preview.rs:15-15 MAX_USER_METADATA_FIELD_BYTES *)
definition MAX_USER_METADATA_FIELD_BYTES :: nat where
  [limits]: "MAX_USER_METADATA_FIELD_BYTES = 4 * 1024"

(* crates/ramag-infra-object-storage/src/objects/metadata_preview.rs:173-179 ensure_safe_key *)
definition ensure_safe_key :: "string \<Rightarrow> string \<Rightarrow> object_storage_error + unit" where
  "ensure_safe_key key operation =
     ensure (is_opendal_safe_key key) (os_invalid operation ((utf8 [0x5F53, 0x524D, 0x5BF9, 0x8C61, 0x952E, 0x65E0, 0x6CD5, 0x7531] @ '' OpenDAL '' @ utf8 [0x5B89, 0x5168, 0x8868, 0x793A])))"

(* crates/ramag-infra-object-storage/src/objects/metadata_preview.rs:158-171 is_safe_metadata_field *)
definition is_safe_metadata_field :: "string \<Rightarrow> bool" where
  "is_safe_metadata_field v \<longleftrightarrow> length v \<le> MAX_USER_METADATA_FIELD_BYTES \<and> \<not> has_unsafe_character v"

(* crates/ramag-infra-object-storage/src/objects/metadata_preview.rs:124-156 to_metadata *)
definition to_metadata :: "od_world \<Rightarrow> string \<Rightarrow> raw_metadata \<Rightarrow> object_storage_error + object_metadata" where
  "to_metadata world key raw =
     (let user = (case rm_user_metadata raw of None \<Rightarrow> [] | Some kvs \<Rightarrow> kvs) in
      if MAX_USER_METADATA_ENTRIES < length user
         \<or> list_ex (\<lambda>(k, v). \<not> is_safe_metadata_field k \<or> \<not> is_safe_metadata_field v) user
         \<or> list_ex (\<lambda>x. case x of None \<Rightarrow> False | Some v \<Rightarrow> \<not> is_safe_metadata_field v)
             [rm_etag raw, rm_version raw, rm_content_type raw]
      then Inl (os_invalid ''stat'' ((utf8 [0x5BF9, 0x8C61, 0x81EA, 0x5B9A, 0x4E49, 0x5143, 0x6570, 0x636E, 0x8D85, 0x8FC7, 0x5B89, 0x5168, 0x4E0A, 0x9650])))
      else Inr \<lparr>md_key = key, md_size = rm_content_length raw,
                md_last_modified = Option.bind (rm_last_modified raw) (wd_parse_rfc3339 world),
                md_etag = rm_etag raw, md_version = rm_version raw,
                md_content_type = rm_content_type raw, md_user_metadata = sort user,
                md_storage_class = None\<rparr>)"

(* crates/ramag-infra-object-storage/src/objects/metadata_preview.rs:17-24 stat *)
definition object_stat :: "od_world \<Rightarrow> operator \<Rightarrow> string \<Rightarrow> object_storage_error + object_metadata" where
  "object_stat world op key =
     try_r (ensure_safe_key key ''stat'') (\<lambda>_.
     try_r (map_err (map_opendal ''stat'') (wd_stat world op key)) (\<lambda>raw.
       to_metadata world key raw))"

text \<open>\<open>rsplit_once('.')\<close>: what follows the last dot.\<close>

definition last_extension :: "string \<Rightarrow> string option" where
  "last_extension key =
     (if CHR ''.'' \<in> set key then Some (rev (takeWhile (\<lambda>c. c \<noteq> CHR ''.'') (rev key))) else None)"

definition TEXT_EXTENSIONS :: "string list" where
  "TEXT_EXTENSIONS = [''txt'', ''log'', ''json'', ''jsonl'', ''md'', ''csv'', ''xml'', ''yaml'', ''yml'', ''toml'',
     ''ini'', ''conf'', ''cfg'', ''rs'', ''py'', ''js'', ''jsx'', ''ts'', ''tsx'', ''css'', ''html'', ''htm'', ''sql'',
     ''sh'', ''zsh'', ''bash'', ''go'', ''java'', ''c'', ''h'', ''cpp'', ''hpp'', ''step'', ''stp'']"

(* crates/ramag-infra-object-storage/src/objects/metadata_preview.rs:70-122 supports_text_preview *)
definition supports_text_preview :: "string \<Rightarrow> string option \<Rightarrow> bool" where
  "supports_text_preview key content_type \<longleftrightarrow>
     (case content_type of
        None \<Rightarrow> False
      | Some v \<Rightarrow>
          (let v = to_ascii_lowercase v in
           starts_with v ''text/'' \<or> str_contains ''json'' v \<or> str_contains ''xml'' v \<or> str_contains ''yaml'' v))
     \<or> (case last_extension key of
          None \<Rightarrow> False | Some e \<Rightarrow> to_ascii_lowercase e \<in> set TEXT_EXTENSIONS)"

(* crates/ramag-infra-object-storage/src/objects/metadata_preview.rs:26-68 read_text_preview *)
definition read_text_preview :: "od_world \<Rightarrow> operator \<Rightarrow> string \<Rightarrow> object_storage_error + object_text_preview" where
  "read_text_preview world op key =
     try_r (ensure_safe_key key ''preview'') (\<lambda>_.
     try_r (map_err (map_opendal ''preview'') (wd_stat world op key)) (\<lambda>raw.
     try_r (ensure (supports_text_preview key (rm_content_type raw))
              (os_invalid ''preview'' ((utf8 [0x5F53, 0x524D, 0x6587, 0x4EF6, 0x683C, 0x5F0F, 0x4E0D, 0x652F, 0x6301, 0x5185, 0x5BB9, 0x67E5, 0x770B, 0xFF0C, 0x8BF7, 0x4E0B, 0x8F7D, 0x540E, 0x6253, 0x5F00])))) (\<lambda>_.
       let total_bytes = rm_content_length raw;
           read_bytes = min (unat total_bytes) (MAX_OBJECT_STORAGE_TEXT_PREVIEW_BYTES + 1) in
       try_r (if read_bytes = 0 then Inr []
              else map_err (map_opendal ''preview'') (wd_read world op key read_bytes)) (\<lambda>bytes.
         let visible = take (min (length bytes) MAX_OBJECT_STORAGE_TEXT_PREVIEW_BYTES) bytes in
         if CHR 0x00 \<in> set visible
         then Inl (os_invalid ''preview'' ((utf8 [0x5F53, 0x524D, 0x6587, 0x4EF6, 0x4E0D, 0x662F, 0x53EF, 0x9884, 0x89C8, 0x7684, 0x6587, 0x672C, 0xFF0C, 0x8BF7, 0x4E0B, 0x8F7D, 0x540E, 0x6253, 0x5F00])))
         else if \<not> is_utf8 visible
         then Inl (os_invalid ''preview'' ((utf8 [0x5F53, 0x524D, 0x6587, 0x4EF6, 0x4E0D, 0x662F] @ '' UTF-8 '' @ utf8 [0x6587, 0x672C, 0xFF0C, 0x8BF7, 0x4E0B, 0x8F7D, 0x540E, 0x6253, 0x5F00])))
         else Inr \<lparr>tp_content = visible, tp_total_bytes = total_bytes,
                   tp_truncated = (MAX_OBJECT_STORAGE_TEXT_PREVIEW_BYTES < unat total_bytes)\<rparr>))))"

section \<open>Transfers\<close>

(* crates/ramag-domain/src/entities/ssh.rs:371-374 OverwritePolicy *)
datatype overwrite_policy = Refuse | Overwrite

text \<open>What a transfer reads and writes: the local files, the objects of the operator and the progress
  reported so far.\<close>

record transfer =
  tr_fs :: local_fs
  tr_objects :: "string \<Rightarrow> string option"
  tr_progress :: "(u64 \<times> u64) list"

definition io_step ::
  "string \<Rightarrow> (fs_nodes \<Rightarrow> (io_kind + 'a) \<times> fs_nodes) \<Rightarrow> transfer \<Rightarrow> (object_storage_error + 'a) \<times> transfer" where
  "io_step operation act t =
     (let (r, fs) = fs_call act (tr_fs t) in (map_err (os_map_io operation) r, t\<lparr>tr_fs := fs\<rparr>))"

(* crates/ramag-domain/src/entities/object_storage/transfer.rs:10-16 ObjectTransferProgress *)
definition report_progress :: "u64 \<Rightarrow> u64 \<Rightarrow> transfer \<Rightarrow> transfer" where
  "report_progress transferred overall t = t\<lparr>tr_progress := tr_progress t @ [(transferred, overall)]\<rparr>"

(* crates/ramag-domain/src/entities/object_storage/transfer.rs:18-38 ObjectUploadRequest *)
record transfer_request =
  rq_account :: account_snapshot
  rq_mount :: object_mount
  rq_key :: string
  rq_local_path :: fs_path
  rq_overwrite :: overwrite_policy

(* crates/ramag-infra-object-storage/src/objects/transfer.rs:232-241 ensure_write_allowed *)
definition ensure_write_allowed :: "bool \<Rightarrow> string \<Rightarrow> string \<Rightarrow> object_storage_error + unit" where
  "ensure_write_allowed read_only key operation =
     (if read_only then Inl (os_invalid operation ((utf8 [0x751F, 0x4EA7, 0x6A21, 0x5F0F, 0x4E0B, 0x4E0D, 0x80FD, 0x6267, 0x884C, 0x5199, 0x64CD, 0x4F5C])))
      else ensure_safe_key key operation)"

(* crates/ramag-infra-object-storage/src/objects/transfer.rs:251-257 ensure_absolute *)
definition ensure_absolute :: "fs_path \<Rightarrow> string \<Rightarrow> object_storage_error + unit" where
  "ensure_absolute p operation = ensure (pa_absolute p) (os_invalid operation ((utf8 [0x672C, 0x5730, 0x6587, 0x4EF6, 0x8DEF, 0x5F84, 0x5FC5, 0x987B, 0x662F, 0x7EDD, 0x5BF9, 0x8DEF, 0x5F84])))"

subsection \<open>Upload\<close>

text \<open>What happens in a round of the upload loop: whether the cancellation is set, what is read from
  the file and whether OpenDAL takes the bytes; and at the ends of it.\<close>

record upload_round =
  ur_cancelled :: bool
  ur_read :: "io_kind + string"
  ur_write_error :: "opendal_error option"

record upload_events =
  ue_open_error :: "opendal_error option"
  ue_rounds :: "upload_round list"
  ue_cancelled :: bool
  ue_close_error :: "opendal_error option"

(* crates/ramag-infra-object-storage/src/objects/transfer.rs:39-62 upload *)
fun upload_loop ::
  "upload_round list \<Rightarrow> u64 \<Rightarrow> u64 \<Rightarrow> string \<Rightarrow> transfer \<Rightarrow> (object_storage_error + string) \<times> transfer" where
  "upload_loop [] overall transferred parts t = (Inr parts, t)"
| "upload_loop (r # rs) overall transferred parts t =
     (if ur_cancelled r then (Inl (os_cancelled ''upload''), t)
      else case ur_read r of
        Inl e \<Rightarrow> (Inl (os_map_io ''upload'' e), t)
      | Inr chunk \<Rightarrow>
          if chunk = [] then (Inr parts, t)
          else case ur_write_error r of
            Some e \<Rightarrow> (Inl (map_opendal ''upload'' e), t)
          | None \<Rightarrow>
              (let transferred = sat_add transferred (of_nat (length chunk)) in
               upload_loop rs overall transferred (parts @ chunk)
                 (report_progress transferred overall t)))"

(* crates/ramag-infra-object-storage/src/objects/transfer.rs:18-72 upload *)
definition upload :: "upload_events \<Rightarrow> transfer_request \<Rightarrow> transfer \<Rightarrow> (object_storage_error + unit) \<times> transfer" where
  "upload ev rq =
     bind_s (lift_r (ensure_write_allowed (as_read_only (rq_account rq)) (rq_key rq) ''upload'')) (\<lambda>_.
     bind_s (lift_r (ensure_absolute (rq_local_path rq) ''upload'')) (\<lambda>_.
     bind_s (io_step ''upload'' (fs_metadata (rq_local_path rq))) (\<lambda>node.
     bind_s (lift_r (case node of
         FileNode content \<Rightarrow> Inr (of_nat (length content) :: u64)
       | _ \<Rightarrow> Inl (os_invalid ''upload'' ((utf8 [0x4E0A, 0x4F20, 0x6E90, 0x5FC5, 0x987B, 0x662F, 0x666E, 0x901A, 0x6587, 0x4EF6, 0xFF0C, 0x4E0D, 0x80FD, 0x662F, 0x7B26, 0x53F7, 0x94FE, 0x63A5]))))) (\<lambda>overall.
     bind_s (io_step ''upload'' (fs_metadata (rq_local_path rq))) (\<lambda>_.
     bind_s (lift_r (case ue_open_error ev of
         Some e \<Rightarrow> Inl (map_opendal ''upload'' e) | None \<Rightarrow> Inr ())) (\<lambda>_.
     bind_s (upload_loop (ue_rounds ev) overall 0 []) (\<lambda>parts.
     bind_s (lift_r (if ue_cancelled ev then Inl (os_cancelled ''upload'') else Inr ())) (\<lambda>_ t.
       case ue_close_error ev of
         Some e \<Rightarrow> (Inl (map_opendal ''upload'' e), t)
       | None \<Rightarrow> (Inr (), t\<lparr>tr_objects := (tr_objects t)(rq_key rq \<mapsto> parts)\<rparr>)))))))))"

subsection \<open>Download\<close>

text \<open>The items of the download stream, each with the cancellation flag that is read behind it.\<close>

record download_events =
  de_stat :: "opendal_error + raw_metadata"
  de_reader_error :: "opendal_error option"
  de_stream :: "(bool \<times> (io_kind + string)) list"
  de_fresh :: string

(* crates/ramag-infra-object-storage/src/objects/transfer.rs:222-230 temporary_path *)
definition temporary_path :: "string \<Rightarrow> fs_path \<Rightarrow> object_storage_error + fs_path" where
  "temporary_path fresh target =
     (case path_parent target of
        None \<Rightarrow> Inl (os_invalid ''download'' ((utf8 [0x4E0B, 0x8F7D, 0x76EE, 0x6807, 0x7F3A, 0x5C11, 0x7236, 0x76EE, 0x5F55])))
      | Some parent \<Rightarrow> Inr (path_join parent (''.ramag-download-'' @ fresh @ ''.part'')))"

(* crates/ramag-infra-object-storage/src/objects/transfer.rs:204-220 validate_download_target *)
definition validate_download_target ::
  "fs_path \<Rightarrow> overwrite_policy \<Rightarrow> transfer \<Rightarrow> (object_storage_error + unit) \<times> transfer" where
  "validate_download_target target overwrite t =
     (let (r, fs) = fs_call (fs_metadata target) (tr_fs t) in
      (case r of
         Inr LinkNode \<Rightarrow> Inl (os_invalid ''download'' ((utf8 [0x4E0B, 0x8F7D, 0x76EE, 0x6807, 0x4E0D, 0x80FD, 0x662F, 0x7B26, 0x53F7, 0x94FE, 0x63A5])))
       | Inr DirNode \<Rightarrow> Inl (os_invalid ''download'' ((utf8 [0x4E0B, 0x8F7D, 0x76EE, 0x6807, 0x4E0D, 0x662F, 0x666E, 0x901A, 0x6587, 0x4EF6])))
       | Inr (FileNode _) \<Rightarrow>
           if overwrite = Refuse then Inl (os_conflict ''download'' ((utf8 [0x4E0B, 0x8F7D, 0x76EE, 0x6807, 0x5DF2, 0x5B58, 0x5728]))) else Inr ()
       | Inl IoNotFound \<Rightarrow> Inr ()
       | Inl e \<Rightarrow> Inl (os_map_io ''download'' e),
       t\<lparr>tr_fs := fs\<rparr>))"

(* crates/ramag-infra-object-storage/src/objects/transfer.rs:99-109 cleanup_temporary_download *)
definition cleanup_temporary_download :: "fs_path \<Rightarrow> transfer \<Rightarrow> transfer" where
  "cleanup_temporary_download temporary t = snd (io_step ''download'' (fs_remove temporary) t)"

(* crates/ramag-infra-object-storage/src/objects/transfer.rs:131-142 download_to_temp *)
fun download_loop ::
  "(bool \<times> (io_kind + string)) list \<Rightarrow> fs_path \<Rightarrow> u64 \<Rightarrow> u64 \<Rightarrow> transfer \<Rightarrow>
     (object_storage_error + unit) \<times> transfer" where
  "download_loop [] temporary overall transferred t = (Inr (), t)"
| "download_loop ((cancel, item) # items) temporary overall transferred t =
     (if cancel then (Inl (os_cancelled ''download''), t)
      else case item of
        Inl e \<Rightarrow> (Inl (os_map_io ''download'' e), t)
      | Inr chunk \<Rightarrow>
          bind_s (io_step ''download'' (fs_append temporary chunk)) (\<lambda>_ t.
            let transferred = sat_add transferred (of_nat (length chunk)) in
            download_loop items temporary overall transferred (report_progress transferred overall t)) t)"

(* crates/ramag-infra-object-storage/src/objects/transfer.rs:111-149 download_to_temp *)
definition download_to_temp ::
  "download_events \<Rightarrow> fs_path \<Rightarrow> u64 \<Rightarrow> transfer \<Rightarrow> (object_storage_error + unit) \<times> transfer" where
  "download_to_temp ev temporary overall =
     bind_s (io_step ''download'' (fs_create_new temporary)) (\<lambda>_.
     bind_s (lift_r (case de_reader_error ev of
         Some e \<Rightarrow> Inl (map_opendal ''download'' e) | None \<Rightarrow> Inr ())) (\<lambda>_.
     bind_s (download_loop (de_stream ev) temporary overall 0) (\<lambda>_.
     bind_s (io_step ''download'' fs_sync) (\<lambda>_.
       io_step ''download'' fs_sync))))"

(* crates/ramag-infra-object-storage/src/objects/transfer.rs:151-173 commit_download *)
definition commit_download ::
  "fs_path \<Rightarrow> fs_path \<Rightarrow> overwrite_policy \<Rightarrow> transfer \<Rightarrow> (object_storage_error + unit) \<times> transfer" where
  "commit_download temporary target overwrite =
     (if overwrite = Refuse
      then bind_s (io_step ''download'' (fs_hard_link temporary target)) (\<lambda>_.
             io_step ''download'' (fs_remove temporary))
      else io_step ''download'' (fs_rename temporary target))"

(* crates/ramag-infra-object-storage/src/objects/transfer.rs:87-96 download *)
definition fetch_and_commit ::
  "download_events \<Rightarrow> transfer_request \<Rightarrow> fs_path \<Rightarrow> u64 \<Rightarrow> transfer \<Rightarrow> (object_storage_error + unit) \<times> transfer" where
  "fetch_and_commit ev rq temporary overall t =
     (let (r, t1) = download_to_temp ev temporary overall t in
      case r of
        Inl e \<Rightarrow> (Inl e, cleanup_temporary_download temporary t1)
      | Inr _ \<Rightarrow>
          (let (r, t2) = commit_download temporary (rq_local_path rq) (rq_overwrite rq) t1 in
           (r, case r of Inl _ \<Rightarrow> cleanup_temporary_download temporary t2 | Inr _ \<Rightarrow> t2)))"

(* crates/ramag-infra-object-storage/src/objects/transfer.rs:74-97 download *)
definition download :: "download_events \<Rightarrow> transfer_request \<Rightarrow> transfer \<Rightarrow> (object_storage_error + unit) \<times> transfer" where
  "download ev rq =
     bind_s (lift_r (ensure_safe_key (rq_key rq) ''download'')) (\<lambda>_.
     bind_s (lift_r (ensure_absolute (rq_local_path rq) ''download'')) (\<lambda>_.
     bind_s (validate_download_target (rq_local_path rq) (rq_overwrite rq)) (\<lambda>_.
     bind_s (lift_r (map_err (map_opendal ''download'') (de_stat ev))) (\<lambda>raw.
     bind_s (lift_r (temporary_path (de_fresh ev) (rq_local_path rq))) (\<lambda>temporary.
       fetch_and_commit ev rq temporary (rm_content_length raw))))))"

end
