(* ===== verification/Object_Queue.thy ===== *)
theory Object_Queue
  imports Object_Transfer "HOL-Library.Multiset"
begin

text \<open>
  The transfer queue of the object storage service
  (\<open>crates/ramag-app/src/usecases/object_storage_service/mod.rs\<close>, \<open>operations.rs\<close>): the registered
  transfers, the counter of those that wait and the semaphore with the slots.  \<open>pool_step\<close> interleaves
  the calls that upload and download: each call registers, waits, runs and unregisters, and any other
  call may take a step in between.
\<close>

section \<open>Operations\<close>

(* crates/ramag-domain/src/entities/object_storage.rs:42-42 MAX_OBJECT_STORAGE_CONCURRENT_TRANSFERS *)
definition MAX_OBJECT_STORAGE_CONCURRENT_TRANSFERS :: nat where
  [limits]: "MAX_OBJECT_STORAGE_CONCURRENT_TRANSFERS = 3"

(* crates/ramag-domain/src/entities/object_storage.rs:43-43 MAX_OBJECT_STORAGE_QUEUED_TRANSFERS *)
definition MAX_OBJECT_STORAGE_QUEUED_TRANSFERS :: nat where
  [limits]: "MAX_OBJECT_STORAGE_QUEUED_TRANSFERS = 64"

text \<open>A registered transfer: its account, its number and whether it has been cancelled.\<close>

record active_transfer =
  at_account :: object_account_id
  at_id :: u64
  at_cancelled :: bool

(* crates/ramag-app/src/usecases/object_storage_service/mod.rs:59-64 ObjectStorageService *)
record transfer_pool =
  tp_slots :: nat
  tp_queued :: nat
  tp_active :: "active_transfer list"
  tp_next_id :: u64

(* crates/ramag-app/src/usecases/object_storage_service/mod.rs:74-79 ObjectStorageService::new *)
definition pool_new :: transfer_pool where
  "pool_new = \<lparr>tp_slots = MAX_OBJECT_STORAGE_CONCURRENT_TRANSFERS, tp_queued = 0, tp_active = [],
     tp_next_id = 1\<rparr>"

definition same_transfer :: "object_account_id \<Rightarrow> u64 \<Rightarrow> active_transfer \<Rightarrow> bool" where
  "same_transfer account nr t \<longleftrightarrow> at_account t = account \<and> at_id t = nr"

(* crates/ramag-app/src/usecases/object_storage_service/mod.rs:271-283 ObjectStorageService::register_transfer *)
definition register_transfer :: "object_account_id \<Rightarrow> bool \<Rightarrow> transfer_pool \<Rightarrow> u64 \<times> transfer_pool" where
  "register_transfer account cancelled p =
     (let nr = tp_next_id p in
      (nr, p\<lparr>tp_next_id := nr + 1,
             tp_active := filter (\<lambda>t. \<not> same_transfer account nr t) (tp_active p)
               @ [\<lparr>at_account = account, at_id = nr, at_cancelled = cancelled\<rparr>]\<rparr>))"

(* crates/ramag-app/src/usecases/object_storage_service/mod.rs:285-293 ObjectStorageService::unregister_transfer *)
definition unregister_transfer :: "object_account_id \<Rightarrow> u64 \<Rightarrow> transfer_pool \<Rightarrow> transfer_pool" where
  "unregister_transfer account nr p =
     p\<lparr>tp_active := filter (\<lambda>t. \<not> same_transfer account nr t) (tp_active p)\<rparr>"

(* crates/ramag-app/src/usecases/object_storage_service/mod.rs:295-301 ObjectStorageService::cancel_account_transfers *)
definition cancel_transfers :: "object_account_id \<Rightarrow> transfer_pool \<Rightarrow> transfer_pool" where
  "cancel_transfers account p =
     p\<lparr>tp_active := map (\<lambda>t. if at_account t = account then t\<lparr>at_cancelled := True\<rparr> else t) (tp_active p)\<rparr>"

(* crates/ramag-app/src/usecases/object_storage_service/operations.rs:340-346 transfer_cancelled *)
definition transfer_cancelled :: domain_error where
  "transfer_cancelled =
     DeObjectStorage (object_storage_error_new OsCancelled ''transfer_queue'' ((utf8 [0x64CD, 0x4F5C, 0x5DF2, 0x53D6, 0x6D88])))"

text \<open>The compare and exchange loop: the counter grows by one, or it is at its limit.\<close>

(* crates/ramag-app/src/usecases/object_storage_service/operations.rs:304-320 ObjectStorageService::acquire_transfer_slot *)
definition enter_queue :: "transfer_pool \<Rightarrow> (domain_error + unit) \<times> transfer_pool" where
  "enter_queue p =
     (if MAX_OBJECT_STORAGE_QUEUED_TRANSFERS \<le> tp_queued p
      then (Inl (DeOther ((utf8 [0x7B49, 0x5F85, 0x4F20, 0x8F93, 0x5DF2, 0x8FBE] @ '' '') @ dec MAX_OBJECT_STORAGE_QUEUED_TRANSFERS @ ('' '' @ utf8 [0x4E2A, 0x4E0A, 0x9650]))), p)
      else (Inr (), p\<lparr>tp_queued := tp_queued p + 1\<rparr>))"

text \<open>The semaphore gives a permit, or the cancellation is seen first.\<close>

(* crates/ramag-app/src/usecases/object_storage_service/operations.rs:321-336 ObjectStorageService::acquire_transfer_slot *)
definition take_slot :: "transfer_pool \<Rightarrow> transfer_pool" where
  "take_slot p = p\<lparr>tp_queued := tp_queued p - 1, tp_slots := tp_slots p - 1\<rparr>"

(* crates/ramag-app/src/usecases/object_storage_service/operations.rs:328-334 ObjectStorageService::acquire_transfer_slot *)
definition give_up_slot :: "transfer_pool \<Rightarrow> transfer_pool" where
  "give_up_slot p = p\<lparr>tp_queued := tp_queued p - 1\<rparr>"

text \<open>Dropping the permit.\<close>

definition release_slot :: "transfer_pool \<Rightarrow> transfer_pool" where
  "release_slot p = p\<lparr>tp_slots := tp_slots p + 1\<rparr>"

section \<open>Interleaved calls\<close>

text \<open>Where a call of \<open>upload_object\<close> or \<open>download_object\<close> stands.\<close>

datatype transfer_phase = Registered | Waiting | Running

type_synonym transfer_call = "object_account_id \<times> u64 \<times> transfer_phase"

definition transfer_is_cancelled :: "object_account_id \<Rightarrow> u64 \<Rightarrow> transfer_pool \<Rightarrow> bool" where
  "transfer_is_cancelled account nr p \<longleftrightarrow>
     (\<exists>t\<in>set (tp_active p). same_transfer account nr t \<and> at_cancelled t)"

(* crates/ramag-app/src/usecases/object_storage_service/operations.rs:118-220 ObjectStorageService::upload_object, download_object *)
inductive pool_step ::
  "transfer_pool \<times> transfer_call multiset \<Rightarrow> transfer_pool \<times> transfer_call multiset \<Rightarrow> bool" where
  Call: "register_transfer account cancelled p = (nr, p') \<Longrightarrow>
     pool_step (p, calls) (p', add_mset (account, nr, Registered) calls)"
| Refused: "enter_queue p = (Inl e, p') \<Longrightarrow>
     pool_step (p, add_mset (account, nr, Registered) calls)
       (unregister_transfer account nr p', calls)"
| Queued: "enter_queue p = (Inr (), p') \<Longrightarrow>
     pool_step (p, add_mset (account, nr, Registered) calls) (p', add_mset (account, nr, Waiting) calls)"
| Granted: "0 < tp_slots p \<Longrightarrow>
     pool_step (p, add_mset (account, nr, Waiting) calls)
       (take_slot p, add_mset (account, nr, Running) calls)"
| Gave_up: "transfer_is_cancelled account nr p \<Longrightarrow>
     pool_step (p, add_mset (account, nr, Waiting) calls)
       (unregister_transfer account nr (give_up_slot p), calls)"
| Finished: "pool_step (p, add_mset (account, nr, Running) calls)
     (release_slot (unregister_transfer account nr p), calls)"
| Cancel: "pool_step (p, calls) (cancel_transfers account p, calls)"

text \<open>What holds at every moment: the counter and the slots agree with the calls, and only calls in
  progress are registered.\<close>

definition in_phase :: "transfer_phase \<Rightarrow> transfer_call multiset \<Rightarrow> nat" where
  "in_phase ph calls = size {#c \<in># calls. snd (snd c) = ph#}"

definition pool_wf :: "transfer_pool \<times> transfer_call multiset \<Rightarrow> bool" where
  "pool_wf = (\<lambda>(p, calls).
     tp_queued p = in_phase Waiting calls \<and> tp_queued p \<le> MAX_OBJECT_STORAGE_QUEUED_TRANSFERS
     \<and> tp_slots p + in_phase Running calls = MAX_OBJECT_STORAGE_CONCURRENT_TRANSFERS
     \<and> (\<forall>t\<in>set (tp_active p). \<exists>ph. (at_account t, at_id t, ph) \<in># calls))"

lemma in_phase_simps [simp]:
  "in_phase ph {#} = 0"
  "in_phase ph (add_mset (a, n, q) calls) = (if q = ph then Suc (in_phase ph calls) else in_phase ph calls)"
  by (simp_all add: in_phase_def)

lemmas pool_ops = register_transfer_def unregister_transfer_def cancel_transfers_def enter_queue_def
  take_slot_def give_up_slot_def release_slot_def same_transfer_def

lemma pool_step_wf: "pool_step s s' \<Longrightarrow> pool_wf s \<Longrightarrow> pool_wf s'"
proof (induction rule: pool_step.induct)
  case (Call account cancelled p nr p' calls)
  then show ?case by (fastforce simp: pool_wf_def pool_ops Let_def)
next
  case (Refused p e p' account nr calls)
  then show ?case by (fastforce simp: pool_wf_def pool_ops split: if_splits)
next
  case (Queued p p' account nr calls)
  then show ?case by (fastforce simp: pool_wf_def pool_ops split: if_splits)
next
  case (Granted p account nr calls)
  then show ?case by (fastforce simp: pool_wf_def pool_ops)
next
  case (Gave_up account nr p calls)
  then show ?case by (fastforce simp: pool_wf_def pool_ops)
next
  case (Finished p account nr calls)
  then show ?case by (fastforce simp: pool_wf_def pool_ops)
next
  case (Cancel p calls account)
  then show ?case by (auto simp: pool_wf_def pool_ops)
qed

lemma pool_reachable_wf: "pool_step\<^sup>*\<^sup>* s s' \<Longrightarrow> pool_wf s \<Longrightarrow> pool_wf s'"
  by (induction rule: rtranclp_induct) (auto intro: pool_step_wf)

lemma pool_new_wf: "pool_wf (pool_new, {#})"
  by (simp add: pool_wf_def pool_new_def limits)

text \<open>A pool without calls is as new, but for the numbers it has given out.\<close>

lemma pool_idle:
  assumes "pool_wf (p, {#})"
  shows "p = pool_new\<lparr>tp_next_id := tp_next_id p\<rparr>"
  using assms by (cases p) (auto simp: pool_wf_def pool_new_def)

text \<open>Every call in progress can go on: wait for a slot that some running call will release, or leave.\<close>

lemma pool_progress:
  assumes "pool_wf (p, calls)" and "calls \<noteq> {#}"
  shows "\<exists>p' calls'. pool_step (p, calls) (p', calls') \<and>
     (size calls' < size calls \<or> size calls' = size calls \<and>
        2 * in_phase Registered calls' + in_phase Waiting calls'
          < 2 * in_phase Registered calls + in_phase Waiting calls)"
proof -
  consider (registered) a n c where "calls = add_mset (a, n, Registered) c"
    | (running) a n c where "calls = add_mset (a, n, Running) c"
    | (waiting) a n c where "calls = add_mset (a, n, Waiting) c" "in_phase Running calls = 0"
  proof -
    obtain a n ph where c: "(a, n, ph) \<in># calls" using assms(2) by (metis multiset_nonemptyE prod_cases3)
    show thesis
    proof (cases "in_phase Running calls = 0")
      case True
      then have "ph \<noteq> Running" using c by (auto simp: in_phase_def)
      with c True show thesis using registered waiting by (cases ph) (auto dest!: multi_member_split)
    next
      case False
      then have "{#c \<in># calls. snd (snd c) = Running#} \<noteq> {#}" unfolding in_phase_def by force
      then obtain x where "x \<in># calls" "snd (snd x) = Running"
        by (metis (mono_tags, lifting) multiset_nonemptyE set_mset_filter mem_Collect_eq)
      then show thesis using running by (cases x) (auto dest!: multi_member_split)
    qed
  qed
  then show ?thesis
  proof cases
    case registered
    show ?thesis
    proof (cases "MAX_OBJECT_STORAGE_QUEUED_TRANSFERS \<le> tp_queued p")
      case True
      then have "pool_step (p, calls) (unregister_transfer a n p, c)"
        unfolding registered by (intro Refused) (auto simp: enter_queue_def)
      then show ?thesis using registered by auto
    next
      case False
      then have "pool_step (p, calls) (p\<lparr>tp_queued := tp_queued p + 1\<rparr>, add_mset (a, n, Waiting) c)"
        unfolding registered by (intro Queued) (auto simp: enter_queue_def)
      then show ?thesis using registered by fastforce
    qed
  next
    case running
    then show ?thesis using Finished [of p a n c] by auto
  next
    case waiting
    then have "0 < tp_slots p" using assms(1) by (simp add: pool_wf_def limits)
    from Granted [OF this, of a n c] waiting show ?thesis by fastforce
  qed
qed

end
