(* ===== verification/Object_Service.thy ===== *)
theory Object_Service
  imports Object_Queue "HOL-Library.Option_ord"
begin

text \<open>
  The object storage driver (\<open>crates/ramag-infra-object-storage/src/lib.rs\<close>, \<open>runtime.rs\<close>) and the
  service above it (\<open>crates/ramag-app/src/usecases/object_storage_service/\<close>): accounts, mounts, listings
  and object operations.  Each operation is one step, as the account gates serialise it against the
  operations that write the account.  The account storage is a map with a script of its failures.
\<close>

section \<open>The driver\<close>

(* crates/ramag-infra-object-storage/src/lib.rs:28-32 ObjectStorageInfra *)
record object_infra =
  in_runtime :: bool
  in_accepting :: bool
  in_operators :: operator_cache
  in_cursors :: cursor_store

(* crates/ramag-infra-object-storage/src/lib.rs:34-42 ObjectStorageInfra::new *)
definition infra_new :: object_infra where
  "infra_new = \<lparr>in_runtime = True, in_accepting = True, in_operators = cache_new, in_cursors = []\<rparr>"

(* crates/ramag-infra-object-storage/src/runtime.rs:66-68 runtime_error *)
definition runtime_error :: "string \<Rightarrow> object_storage_error" where
  "runtime_error message = object_storage_error_new OsProvider ''runtime'' message"

text \<open>What a call finds outside the program: OpenDAL and the cloud, the time at its start and at its
  end, the identifiers of new cursors and whether the account gate was free in time.\<close>

record call_env =
  ce_world :: od_world
  ce_now :: nat
  ce_later :: nat
  ce_fresh :: "nat \<Rightarrow> string"
  ce_gate :: bool

definition on_operators ::
  "(operator_cache \<Rightarrow> ('e + 'a) \<times> operator_cache) \<Rightarrow> object_infra \<Rightarrow> ('e + 'a) \<times> object_infra" where
  "on_operators f i = (let (r, c) = f (in_operators i) in (r, i\<lparr>in_operators := c\<rparr>))"

definition on_cursors ::
  "(cursor_store \<Rightarrow> ('e + 'a) \<times> cursor_store) \<Rightarrow> object_infra \<Rightarrow> ('e + 'a) \<times> object_infra" where
  "on_cursors f i = (let (r, c) = f (in_cursors i) in (r, i\<lparr>in_cursors := c\<rparr>))"

text \<open>A task on the runtime; it is refused once the runtime has been stopped.  That the task panics
  is left out.\<close>

(* crates/ramag-infra-object-storage/src/runtime.rs:33-45 RuntimeHost::run *)
definition runtime_run ::
  "(object_infra \<Rightarrow> (object_storage_error + 'a) \<times> object_infra) \<Rightarrow> object_infra \<Rightarrow>
     (object_storage_error + 'a) \<times> object_infra" where
  "runtime_run task i =
     (if \<not> in_accepting i then (Inl (runtime_error ((utf8 [0x5BF9, 0x8C61, 0x5B58, 0x50A8, 0x670D, 0x52A1, 0x5DF2, 0x505C, 0x6B62]))), i) else task i)"

(* crates/ramag-infra-object-storage/src/lib.rs:46-52 ObjectStorageInfra::capabilities *)
definition driver_capabilities ::
  "(128 word \<Rightarrow> string) \<Rightarrow> (string \<Rightarrow> parsed_url option) \<Rightarrow> call_env \<Rightarrow> account_snapshot \<Rightarrow>
     object_mount \<Rightarrow> object_infra \<Rightarrow> (object_storage_error + object_capabilities) \<times> object_infra" where
  "driver_capabilities ut parse_url env a m =
     on_operators (cache_capabilities ut parse_url (ce_world env) a m)"

(* crates/ramag-infra-object-storage/src/lib.rs:54-82 ObjectStorageInfra::list_page *)
definition driver_list_page ::
  "(128 word \<Rightarrow> string) \<Rightarrow> (string \<Rightarrow> parsed_url option) \<Rightarrow> call_env \<Rightarrow> nat \<Rightarrow> account_snapshot \<Rightarrow>
     object_mount \<Rightarrow> object_list_query \<Rightarrow> string option \<Rightarrow> u64 \<Rightarrow> object_infra \<Rightarrow>
     (object_storage_error + object_page) \<times> object_infra" where
  "driver_list_page ut parse_url env nr a m query cursor generation =
     bind_s (on_operators (cache_get ut parse_url (ce_world env) a m)) (\<lambda>op.
       runtime_run (on_cursors
         (list_page ut (ce_world env) (ce_now env) (ce_later env) (ce_fresh env nr) op a m query cursor
            generation)))"

(* crates/ramag-infra-object-storage/src/lib.rs:84-95 ObjectStorageInfra::stat *)
definition driver_stat ::
  "(128 word \<Rightarrow> string) \<Rightarrow> (string \<Rightarrow> parsed_url option) \<Rightarrow> call_env \<Rightarrow> account_snapshot \<Rightarrow>
     object_mount \<Rightarrow> string \<Rightarrow> object_infra \<Rightarrow> (object_storage_error + object_metadata) \<times> object_infra" where
  "driver_stat ut parse_url env a m key =
     bind_s (on_operators (cache_get ut parse_url (ce_world env) a m)) (\<lambda>op.
       runtime_run (lift_r (object_stat (ce_world env) op key)))"

(* crates/ramag-infra-object-storage/src/lib.rs:97-108 ObjectStorageInfra::read_text_preview *)
definition driver_preview ::
  "(128 word \<Rightarrow> string) \<Rightarrow> (string \<Rightarrow> parsed_url option) \<Rightarrow> call_env \<Rightarrow> account_snapshot \<Rightarrow>
     object_mount \<Rightarrow> string \<Rightarrow> object_infra \<Rightarrow> (object_storage_error + object_text_preview) \<times> object_infra" where
  "driver_preview ut parse_url env a m key =
     bind_s (on_operators (cache_get ut parse_url (ce_world env) a m)) (\<lambda>op.
       runtime_run (lift_r (read_text_preview (ce_world env) op key)))"

text \<open>An upload or a download runs on the local files and the objects behind the operator.\<close>

(* crates/ramag-infra-object-storage/src/lib.rs:110-122 ObjectStorageInfra::upload, download *)
definition driver_transfer ::
  "(128 word \<Rightarrow> string) \<Rightarrow> (string \<Rightarrow> parsed_url option) \<Rightarrow> call_env \<Rightarrow>
     (transfer_request \<Rightarrow> transfer \<Rightarrow> (object_storage_error + unit) \<times> transfer) \<Rightarrow> transfer_request \<Rightarrow>
     object_infra \<times> transfer \<Rightarrow> (object_storage_error + unit) \<times> object_infra \<times> transfer" where
  "driver_transfer ut parse_url env run rq = (\<lambda>(i, t).
     case on_operators (cache_get ut parse_url (ce_world env) (rq_account rq) (rq_mount rq)) i of
       (Inl e, i') \<Rightarrow> (Inl e, i', t)
     | (Inr op, i') \<Rightarrow>
         if \<not> in_accepting i' then (Inl (runtime_error ((utf8 [0x5BF9, 0x8C61, 0x5B58, 0x50A8, 0x670D, 0x52A1, 0x5DF2, 0x505C, 0x6B62]))), i', t)
         else (let (r, t') = run rq t in (r, i', t')))"

(* crates/ramag-infra-object-storage/src/lib.rs:124-146 ObjectStorageInfra::delete *)
definition driver_delete ::
  "(128 word \<Rightarrow> string) \<Rightarrow> (string \<Rightarrow> parsed_url option) \<Rightarrow> call_env \<Rightarrow> account_snapshot \<Rightarrow>
     object_mount \<Rightarrow> string \<Rightarrow> object_infra \<Rightarrow> (object_storage_error + unit) \<times> object_infra" where
  "driver_delete ut parse_url env a m key =
     bind_s (lift_r (ensure (\<not> as_read_only a) (os_invalid ''delete'' ((utf8 [0x751F, 0x4EA7, 0x6A21, 0x5F0F, 0x4E0B, 0x4E0D, 0x80FD, 0x5220, 0x9664, 0x5BF9, 0x8C61]))))) (\<lambda>_.
     bind_s (lift_r (ensure (is_opendal_safe_key key)
               (os_invalid ''delete'' ((utf8 [0x5F53, 0x524D, 0x5BF9, 0x8C61, 0x952E, 0x65E0, 0x6CD5, 0x7531] @ '' OpenDAL '' @ utf8 [0x5B89, 0x5168, 0x8868, 0x793A]))))) (\<lambda>_.
     bind_s (on_operators (cache_get ut parse_url (ce_world env) a m)) (\<lambda>op.
       runtime_run (lift_r (map_err (map_opendal ''delete'') (wd_delete (ce_world env) op key))))))"

(* crates/ramag-infra-object-storage/src/lib.rs:148-156 ObjectStorageInfra::invalidate_account *)
definition driver_invalidate :: "(128 word \<Rightarrow> string) \<Rightarrow> object_account_id \<Rightarrow> u64 \<Rightarrow> object_infra \<Rightarrow> object_infra" where
  "driver_invalidate ut account minimum_revision i =
     i\<lparr>in_operators := cache_invalidate ut account minimum_revision (in_operators i),
       in_cursors := invalidate_cursors (account_text ut account) (in_cursors i)\<rparr>"

text \<open>\<open>stop_error\<close> is the failure to start the stopping thread or to hear from it.\<close>

(* crates/ramag-infra-object-storage/src/runtime.rs:47-63 RuntimeHost::shutdown *)
definition runtime_shutdown ::
  "string option \<Rightarrow> object_infra \<Rightarrow> (object_storage_error + unit) \<times> object_infra" where
  "runtime_shutdown stop_error i =
     (let stopped = i\<lparr>in_accepting := False, in_runtime := False\<rparr> in
      if \<not> in_runtime i then (Inr (), stopped)
      else (case stop_error of Some e \<Rightarrow> Inl (runtime_error e) | None \<Rightarrow> Inr (), stopped))"

(* crates/ramag-infra-object-storage/src/lib.rs:158-162 ObjectStorageInfra::shutdown *)
definition driver_shutdown ::
  "string option \<Rightarrow> object_infra \<Rightarrow> (object_storage_error + unit) \<times> object_infra" where
  "driver_shutdown stop_error i =
     runtime_shutdown stop_error
       (i\<lparr>in_cursors := [], in_operators := cache_clear (in_operators i)\<rparr>)"

section \<open>Mounts\<close>

(* crates/ramag-app/src/usecases/object_storage_service/mounts.rs:57-69 official_endpoint *)
definition official_endpoint :: "cloud_provider \<Rightarrow> string \<Rightarrow> domain_error + string" where
  "official_endpoint provider region =
     (case provider of
        TencentCos \<Rightarrow>
          map_err DeInvalidConfig (parse_official provider (''https://cos.'' @ region @ ''.myqcloud.com''))
      | AliyunOss \<Rightarrow>
          map_err DeInvalidConfig (parse_official provider (''https://oss-'' @ region @ ''.aliyuncs.com''))
      | S3Compatible \<Rightarrow> Inl (DeInvalidConfig ((''S3 '' @ utf8 [0x517C, 0x5BB9, 0x8D26, 0x53F7, 0x5FC5, 0x987B, 0x8BBE, 0x7F6E] @ '' Endpoint''))))"

(* crates/ramag-app/src/usecases/object_storage_service/mounts.rs:71-81 endpoint_for_account *)
definition endpoint_for_account :: "object_account \<Rightarrow> string \<Rightarrow> domain_error + string" where
  "endpoint_for_account a region =
     (if oa_provider a = S3Compatible
      then ok_or (oa_s3_endpoint a) (DeInvalidConfig ((''S3 '' @ utf8 [0x517C, 0x5BB9, 0x8D26, 0x53F7, 0x5FC5, 0x987B, 0x8BBE, 0x7F6E] @ '' Endpoint'')))
      else official_endpoint (oa_provider a) region)"

(* crates/ramag-app/src/usecases/object_storage_service/mounts.rs:36-45 configured_mounts *)
definition mount_of_bucket :: "object_account \<Rightarrow> manual_bucket \<Rightarrow> domain_error + object_mount" where
  "mount_of_bucket a b =
     try_r (endpoint_for_account a (mb_region b)) (\<lambda>endpoint.
       Inr \<lparr>om_id = mb_id b, om_account_id = oa_id a, om_bucket = mb_name b, om_region = mb_region b,
            om_endpoint = endpoint, om_root_prefix = mb_root_prefix b, om_created_at = None,
            om_storage_class = None\<rparr>)"

(* crates/ramag-app/src/usecases/object_storage_service/mounts.rs:33-55 configured_mounts *)
definition configured_mounts :: "object_account \<Rightarrow> domain_error + object_mount list" where
  "configured_mounts a =
     map_ok (sort_key (\<lambda>m. (om_bucket m, om_region m, om_root_prefix m)))
       (fold_r (\<lambda>mounts b. map_ok (\<lambda>m. mounts @ [m]) (mount_of_bucket a b)) [] (oa_manual_buckets a))"

section \<open>The service\<close>

(* crates/ramag-app/src/usecases/object_storage_service/mod.rs:54-65 ObjectStorageService *)
record object_service =
  se_infra :: object_infra
  se_accounts :: "object_account_id \<Rightarrow> object_account option"
  se_faults :: "domain_error option list"
  se_generations :: "(string, u64) bmap"
  se_pool :: transfer_pool

(* crates/ramag-app/src/usecases/object_storage_service/mod.rs:68-81 ObjectStorageService::new *)
definition object_service_new :: object_service where
  "object_service_new =
     \<lparr>se_infra = infra_new, se_accounts = (\<lambda>_. None), se_faults = [], se_generations = [],
      se_pool = pool_new\<rparr>"

(* crates/ramag-app/src/usecases/object_storage_service/mod.rs:31-35 AccountVerification *)
datatype account_verification = Verified | Unverified string

text \<open>A call of the account storage, which fails as its script says.\<close>

definition storage_call ::
  "(object_service \<Rightarrow> 'a \<times> object_service) \<Rightarrow> object_service \<Rightarrow> (domain_error + 'a) \<times> object_service" where
  "storage_call act s =
     (case se_faults s of
        Some e # fs \<Rightarrow> (Inl e, s\<lparr>se_faults := fs\<rparr>)
      | None # fs \<Rightarrow> (let (r, s') = act (s\<lparr>se_faults := fs\<rparr>) in (Inr r, s'))
      | [] \<Rightarrow> (let (r, s') = act s in (Inr r, s')))"

definition stored_account ::
  "object_account_id \<Rightarrow> object_service \<Rightarrow> (domain_error + object_account option) \<times> object_service" where
  "stored_account account = storage_call (\<lambda>s. (se_accounts s account, s))"

definition on_infra ::
  "(object_infra \<Rightarrow> (object_storage_error + 'a) \<times> object_infra) \<Rightarrow> object_service \<Rightarrow>
     (domain_error + 'a) \<times> object_service" where
  "on_infra f s = (let (r, i) = f (se_infra s) in (map_err DeObjectStorage r, s\<lparr>se_infra := i\<rparr>))"

(* crates/ramag-app/src/usecases/object_storage_service/mod.rs:95-104 ObjectStorageService::load_account *)
definition load_account ::
  "(128 word \<Rightarrow> string) \<Rightarrow> object_account_id \<Rightarrow> object_service \<Rightarrow>
     (domain_error + object_account) \<times> object_service" where
  "load_account ut account =
     bind_s (stored_account account) (\<lambda>found.
       lift_r (ok_or found (DeNotFound ((utf8 [0x5BF9, 0x8C61, 0x5B58, 0x50A8, 0x8D26, 0x53F7] @ '' '') @ account_text ut account))))"

(* crates/ramag-app/src/usecases/object_storage_service/mod.rs:343-354 verification_from_error *)
definition verification_from_error :: "object_storage_error \<Rightarrow> domain_error + account_verification" where
  "verification_from_error e =
     (if oe_category e \<in> {OsNetwork, OsTls, OsTimeout, OsRateLimited, OsProvider}
      then Inr (Unverified (oe_safe_message e)) else Inl (DeObjectStorage e))"

text \<open>The first mount that cannot be listed decides.\<close>

(* crates/ramag-app/src/usecases/object_storage_service/mod.rs:246-267 ObjectStorageService::verify_configured_mounts *)
fun verify_mounts ::
  "(128 word \<Rightarrow> string) \<Rightarrow> (string \<Rightarrow> parsed_url option) \<Rightarrow> call_env \<Rightarrow> nat \<Rightarrow> account_snapshot \<Rightarrow>
     object_list_query \<Rightarrow> object_mount list \<Rightarrow> object_infra \<Rightarrow>
     (domain_error + account_verification) \<times> object_infra" where
  "verify_mounts ut parse_url env index a query [] i = (Inr Verified, i)"
| "verify_mounts ut parse_url env index a query (m # ms) i =
     (case driver_list_page ut parse_url env index a m query None (of_nat index + 1) i of
        (Inr _, i') \<Rightarrow> verify_mounts ut parse_url env (Suc index) a query ms i'
      | (Inl e, i') \<Rightarrow> (verification_from_error e, i'))"

(* crates/ramag-app/src/usecases/object_storage_service/mod.rs:235-269 ObjectStorageService::verify_configured_mounts *)
definition verify_configured_mounts ::
  "(128 word \<Rightarrow> string) \<Rightarrow> (string \<Rightarrow> parsed_url option) \<Rightarrow> call_env \<Rightarrow> object_account \<Rightarrow>
     object_service \<Rightarrow> (domain_error + account_verification) \<times> object_service" where
  "verify_configured_mounts ut parse_url env a =
     bind_s (lift_r (configured_mounts a)) (\<lambda>mounts.
     bind_s (lift_r (ensure (mounts \<noteq> []) (DeInvalidConfig ((utf8 [0x8BF7, 0x81F3, 0x5C11, 0x6DFB, 0x52A0, 0x4E00, 0x4E2A] @ '' Bucket '' @ utf8 [0x6302, 0x8F7D]))))) (\<lambda>_.
     bind_s (lift_r (map_err DeInvalidConfig (object_list_query_new [] []))) (\<lambda>query s.
       let (r, i) = verify_mounts ut parse_url env 0 (snapshot_of a) query mounts (se_infra s)
       in (r, s\<lparr>se_infra := i\<rparr>))))"

(* crates/ramag-app/src/usecases/object_storage_service/mod.rs:106-117 ObjectStorageService::verify_account *)
definition verify_account ::
  "(128 word \<Rightarrow> string) \<Rightarrow> (string \<Rightarrow> parsed_url option) \<Rightarrow> call_env \<Rightarrow> object_account \<Rightarrow>
     object_service \<Rightarrow> (domain_error + account_verification) \<times> object_service" where
  "verify_account ut parse_url env a =
     bind_s (lift_r (map_err DeInvalidConfig (validate_account parse_url a))) (\<lambda>_.
       verify_configured_mounts ut parse_url env a)"

(* crates/ramag-app/src/usecases/object_storage_service/mod.rs:356-366 normalize_manual_mounts *)
definition normalize_manual_mounts :: "object_account \<Rightarrow> object_account" where
  "normalize_manual_mounts a =
     a\<lparr>oa_manual_buckets := map (\<lambda>b.
         if oa_provider a = AliyunOss
         then b\<lparr>mb_region := (case strip_prefix ''oss-'' (mb_region b) of
                  Some r \<Rightarrow> r | None \<Rightarrow> mb_region b)\<rparr>
         else b) (oa_manual_buckets a)\<rparr>"

definition cancel_account_transfers :: "object_account_id \<Rightarrow> object_service \<Rightarrow> object_service" where
  "cancel_account_transfers account s = s\<lparr>se_pool := cancel_transfers account (se_pool s)\<rparr>"

(* crates/ramag-app/src/usecases/object_storage_service/mod.rs:214-226 ObjectStorageService::acquire_account_write_guard *)
definition acquire_write_guard :: "call_env \<Rightarrow> object_service \<Rightarrow> (domain_error + unit) \<times> object_service" where
  "acquire_write_guard env =
     lift_r (ensure (ce_gate env) (DeOther ((utf8 [0x7B49, 0x5F85, 0x8BE5, 0x8D26, 0x53F7, 0x7684, 0x5BF9, 0x8C61, 0x5B58, 0x50A8, 0x64CD, 0x4F5C, 0x505C, 0x6B62, 0x8D85, 0x65F6, 0xFF0C, 0x8BF7, 0x7A0D, 0x540E, 0x91CD, 0x8BD5]))))"

(* crates/ramag-app/src/usecases/object_storage_service/mod.rs:228-233 ObjectStorageService::clear_account_state *)
definition clear_account_state :: "(128 word \<Rightarrow> string) \<Rightarrow> object_account_id \<Rightarrow> object_service \<Rightarrow> object_service" where
  "clear_account_state ut account s =
     s\<lparr>se_generations := filter (\<lambda>(key, _). \<not> starts_with key (account_text ut account @ '':''))
          (se_generations s)\<rparr>"

definition drop_account_caches ::
  "(128 word \<Rightarrow> string) \<Rightarrow> object_account_id \<Rightarrow> u64 \<Rightarrow> object_service \<Rightarrow> object_service" where
  "drop_account_caches ut account revision s =
     clear_account_state ut account
       (s\<lparr>se_infra := driver_invalidate ut account revision (se_infra s)\<rparr>)"

text \<open>The revision that is written over what is stored.\<close>

(* crates/ramag-app/src/usecases/object_storage_service/mod.rs:130-148 ObjectStorageService::save_account *)
definition revision_to_save :: "object_account option \<Rightarrow> object_account \<Rightarrow> domain_error + u64" where
  "revision_to_save stored a =
     (case stored of
        Some existing \<Rightarrow>
          if oa_revision existing \<noteq> oa_revision a
          then Inl (DeInvalidConfig ((utf8 [0x8D26, 0x53F7, 0x5DF2, 0x88AB, 0x5176, 0x4ED6, 0x64CD, 0x4F5C, 0x66F4, 0x65B0, 0xFF0C, 0x8BF7, 0x5237, 0x65B0, 0x540E, 0x91CD, 0x8BD5])))
          else if oa_revision existing = - 1
          then Inl (DeInvalidConfig ((utf8 [0x8D26, 0x53F7] @ '' revision '' @ utf8 [0x5DF2, 0x8017, 0x5C3D, 0xFF0C, 0x8BF7, 0x65B0, 0x5EFA, 0x8D26, 0x53F7, 0x540E, 0x8FC1, 0x79FB, 0x914D, 0x7F6E])))
          else Inr (next_revision existing)
      | None \<Rightarrow>
          if oa_revision a \<noteq> 1 then Inl (DeInvalidConfig ((utf8 [0x65B0, 0x8D26, 0x53F7] @ '' revision '' @ utf8 [0x5FC5, 0x987B, 0x4E3A] @ '' 1'')))
          else Inr (oa_revision a))"

(* crates/ramag-app/src/usecases/object_storage_service/mod.rs:119-163 ObjectStorageService::save_account *)
definition save_account ::
  "(128 word \<Rightarrow> string) \<Rightarrow> (string \<Rightarrow> parsed_url option) \<Rightarrow> call_env \<Rightarrow> object_account \<Rightarrow>
     object_service \<Rightarrow> (domain_error + object_account \<times> account_verification) \<times> object_service" where
  "save_account ut parse_url env account =
     (let a = normalize_manual_mounts account in
      bind_s (lift_r (map_err DeInvalidConfig (validate_account parse_url a))) (\<lambda>_ s.
        bind_s (acquire_write_guard env) (\<lambda>_.
        bind_s (stored_account (oa_id a)) (\<lambda>stored.
        bind_s (lift_r (revision_to_save stored a)) (\<lambda>revision.
          let a = a\<lparr>oa_revision := revision\<rparr> in
          bind_s (verify_configured_mounts ut parse_url env a) (\<lambda>verification.
          bind_s (storage_call (\<lambda>s. ((), s\<lparr>se_accounts := (se_accounts s)(oa_id a \<mapsto> a)\<rparr>))) (\<lambda>_ s.
            (Inr (a, verification), drop_account_caches ut (oa_id a) revision s))))))
        (cancel_account_transfers (oa_id a) s)))"

(* crates/ramag-app/src/usecases/object_storage_service/mod.rs:165-179 ObjectStorageService::delete_account *)
definition delete_account ::
  "(128 word \<Rightarrow> string) \<Rightarrow> call_env \<Rightarrow> object_account_id \<Rightarrow> object_service \<Rightarrow>
     (domain_error + unit) \<times> object_service" where
  "delete_account ut env account s =
     bind_s (acquire_write_guard env) (\<lambda>_.
     bind_s (storage_call (\<lambda>s. ((), s\<lparr>se_accounts := (se_accounts s)(account := None)\<rparr>))) (\<lambda>_ s.
       (Inr (), drop_account_caches ut account (- 1) s)))
     (cancel_account_transfers account s)"

(* crates/ramag-app/src/usecases/object_storage_service/mod.rs:181-198 ObjectStorageService::close_account_session *)
definition close_account_session ::
  "(128 word \<Rightarrow> string) \<Rightarrow> call_env \<Rightarrow> object_account_id \<Rightarrow> object_service \<Rightarrow>
     (domain_error + unit) \<times> object_service" where
  "close_account_session ut env account s =
     bind_s (acquire_write_guard env) (\<lambda>_.
     bind_s (stored_account account) (\<lambda>stored s.
       (Inr (), drop_account_caches ut account
          (case stored of Some a \<Rightarrow> oa_revision a | None \<Rightarrow> 1) s)))
     (cancel_account_transfers account s)"

(* crates/ramag-app/src/usecases/object_storage_service/mounts.rs:11-30 ObjectStorageService::list_mounts *)
definition list_mounts ::
  "(128 word \<Rightarrow> string) \<Rightarrow> object_account_id \<Rightarrow> object_service \<Rightarrow>
     (domain_error + object_mount list) \<times> object_service" where
  "list_mounts ut account =
     bind_s (load_account ut account) (\<lambda>a.
     bind_s (lift_r (configured_mounts a)) (\<lambda>mounts.
       lift_r (if mounts = []
         then Inl (DeInvalidConfig ((utf8 [0x6B64, 0x8D26, 0x53F7, 0x672A, 0x914D, 0x7F6E] @ '' Bucket'' @ utf8 [0xFF0C, 0x8BF7, 0x7F16, 0x8F91, 0x8D26, 0x53F7, 0x540E, 0x81F3, 0x5C11, 0x6DFB, 0x52A0, 0x4E00, 0x4E2A, 0x6302, 0x8F7D])))
         else Inr mounts)))"

section \<open>Operations on objects\<close>

(* crates/ramag-app/src/usecases/object_storage_service/operations.rs:259-275 ObjectStorageService::lock_account_for_mount *)
definition lock_account_for_mount ::
  "(128 word \<Rightarrow> string) \<Rightarrow> object_account_id \<Rightarrow> object_mount \<Rightarrow> object_service \<Rightarrow>
     (domain_error + object_account) \<times> object_service" where
  "lock_account_for_mount ut account m =
     bind_s (lift_r (ensure (om_account_id m = account)
         (DeInvalidConfig ((utf8 [0x6302, 0x8F7D, 0x70B9, 0x4E0D, 0x5C5E, 0x4E8E, 0x5F53, 0x524D, 0x5BF9, 0x8C61, 0x5B58, 0x50A8, 0x8D26, 0x53F7]))))) (\<lambda>_. load_account ut account)"

(* crates/ramag-app/src/usecases/object_storage_service/operations.rs:348-350 listing_key *)
definition listing_key :: "(128 word \<Rightarrow> string) \<Rightarrow> object_account_id \<Rightarrow> object_mount \<Rightarrow> string" where
  "listing_key ut account m = account_text ut account @ '':'' @ mount_text ut (om_id m)"

(* crates/ramag-app/src/usecases/object_storage_service/operations.rs:277-287 ObjectStorageService::advance_listing_generation *)
definition advance_listing_generation ::
  "(128 word \<Rightarrow> string) \<Rightarrow> object_account_id \<Rightarrow> object_mount \<Rightarrow> object_service \<Rightarrow> u64 \<times> object_service" where
  "advance_listing_generation ut account m s =
     (let key = listing_key ut account m;
          current = (case bm_get (se_generations s) key of None \<Rightarrow> 0 | Some g \<Rightarrow> g);
          generation = max (current + 1) 1
      in (generation, s\<lparr>se_generations := bm_insert key generation (se_generations s)\<rparr>))"

(* crates/ramag-app/src/usecases/object_storage_service/operations.rs:243-257 ObjectStorageService::list_page *)
definition service_list_page ::
  "(128 word \<Rightarrow> string) \<Rightarrow> (string \<Rightarrow> parsed_url option) \<Rightarrow> call_env \<Rightarrow> object_account_id \<Rightarrow>
     object_mount \<Rightarrow> object_list_query \<Rightarrow> string option \<Rightarrow> u64 \<Rightarrow> object_service \<Rightarrow>
     (domain_error + u64 \<times> object_page) \<times> object_service" where
  "service_list_page ut parse_url env account m query cursor generation =
     bind_s (lock_account_for_mount ut account m) (\<lambda>a.
     bind_s (on_infra (driver_list_page ut parse_url env 0 (snapshot_of a) m query cursor generation))
       (\<lambda>page. lift_r (Inr (generation, page))))"

(* crates/ramag-app/src/usecases/object_storage_service/operations.rs:36-53 ObjectStorageService::start_listing *)
definition start_listing ::
  "(128 word \<Rightarrow> string) \<Rightarrow> (string \<Rightarrow> parsed_url option) \<Rightarrow> call_env \<Rightarrow> object_account_id \<Rightarrow>
     object_mount \<Rightarrow> string \<Rightarrow> string \<Rightarrow> object_service \<Rightarrow>
     (domain_error + u64 \<times> object_page) \<times> object_service" where
  "start_listing ut parse_url env account m front name_prefix =
     bind_s (lift_r (map_err DeInvalidConfig (object_list_query_new front name_prefix))) (\<lambda>query s.
       let (generation, s) = advance_listing_generation ut account m s
       in service_list_page ut parse_url env account m query None generation s)"

(* crates/ramag-app/src/usecases/object_storage_service/operations.rs:55-79 ObjectStorageService::continue_listing *)
definition continue_listing ::
  "(128 word \<Rightarrow> string) \<Rightarrow> (string \<Rightarrow> parsed_url option) \<Rightarrow> call_env \<Rightarrow> object_account_id \<Rightarrow>
     object_mount \<Rightarrow> string \<Rightarrow> string \<Rightarrow> string \<Rightarrow> u64 \<Rightarrow> object_service \<Rightarrow>
     (domain_error + u64 \<times> object_page) \<times> object_service" where
  "continue_listing ut parse_url env account m front name_prefix cursor generation s =
     bind_s (lift_r (ensure (bm_get (se_generations s) (listing_key ut account m) = Some generation)
         (DeInvalidConfig ((utf8 [0x5BF9, 0x8C61, 0x5217, 0x8868, 0x4E0A, 0x4E0B, 0x6587, 0x5DF2, 0x53D8, 0x5316, 0xFF0C, 0x8BF7, 0x91CD, 0x65B0, 0x52A0, 0x8F7D]))))) (\<lambda>_.
     bind_s (lift_r (map_err DeInvalidConfig (object_list_query_new front name_prefix))) (\<lambda>query.
       service_list_page ut parse_url env account m query (Some cursor) generation)) s"

(* crates/ramag-app/src/usecases/object_storage_service/operations.rs:19-34 ObjectStorageService::capabilities *)
definition service_capabilities ::
  "(128 word \<Rightarrow> string) \<Rightarrow> (string \<Rightarrow> parsed_url option) \<Rightarrow> call_env \<Rightarrow> object_account_id \<Rightarrow>
     object_mount \<Rightarrow> object_service \<Rightarrow> (domain_error + object_capabilities) \<times> object_service" where
  "service_capabilities ut parse_url env account m =
     bind_s (lock_account_for_mount ut account m) (\<lambda>a.
       on_infra (driver_capabilities ut parse_url env (snapshot_of a) m))"

(* crates/ramag-app/src/usecases/object_storage_service/operations.rs:81-97 ObjectStorageService::stat_object *)
definition stat_object ::
  "(128 word \<Rightarrow> string) \<Rightarrow> (string \<Rightarrow> parsed_url option) \<Rightarrow> call_env \<Rightarrow> object_account_id \<Rightarrow>
     object_mount \<Rightarrow> string \<Rightarrow> object_service \<Rightarrow> (domain_error + object_metadata) \<times> object_service" where
  "stat_object ut parse_url env account m key =
     bind_s (lock_account_for_mount ut account m) (\<lambda>a.
       on_infra (driver_stat ut parse_url env (snapshot_of a) m key))"

(* crates/ramag-app/src/usecases/object_storage_service/operations.rs:99-115 ObjectStorageService::preview_text_object *)
definition preview_text_object ::
  "(128 word \<Rightarrow> string) \<Rightarrow> (string \<Rightarrow> parsed_url option) \<Rightarrow> call_env \<Rightarrow> object_account_id \<Rightarrow>
     object_mount \<Rightarrow> string \<Rightarrow> object_service \<Rightarrow> (domain_error + object_text_preview) \<times> object_service" where
  "preview_text_object ut parse_url env account m key =
     bind_s (lock_account_for_mount ut account m) (\<lambda>a.
       on_infra (driver_preview ut parse_url env (snapshot_of a) m key))"

(* crates/ramag-app/src/usecases/object_storage_service/operations.rs:222-241 ObjectStorageService::delete_object *)
definition delete_object ::
  "(128 word \<Rightarrow> string) \<Rightarrow> (string \<Rightarrow> parsed_url option) \<Rightarrow> call_env \<Rightarrow> object_account_id \<Rightarrow>
     object_mount \<Rightarrow> string \<Rightarrow> object_service \<Rightarrow> (domain_error + unit) \<times> object_service" where
  "delete_object ut parse_url env account m key =
     bind_s (lock_account_for_mount ut account m) (\<lambda>a.
       if oa_read_only a then lift_r (Inl (DeForbidden READ_ONLY_MESSAGE))
       else on_infra (driver_delete ut parse_url env (snapshot_of a) m key))"

text \<open>An upload or a download as one call, from the permit on: \<open>slot\<close> is what the wait for a slot
  answered (the steps of the wait are in \<open>pool_step\<close>), \<open>stopped\<close> and \<open>stopped_later\<close> are the
  cancellation flag before and after the account gate.  At the end the call is unregistered and its
  permit is dropped.\<close>

definition transfer_object ::
  "(128 word \<Rightarrow> string) \<Rightarrow> (string \<Rightarrow> parsed_url option) \<Rightarrow> call_env \<Rightarrow> bool \<Rightarrow>
     (transfer_request \<Rightarrow> transfer \<Rightarrow> (object_storage_error + unit) \<times> transfer) \<Rightarrow>
     domain_error + unit \<Rightarrow> bool \<Rightarrow> bool \<Rightarrow> object_account_id \<Rightarrow> object_mount \<Rightarrow> string \<Rightarrow> fs_path \<Rightarrow>
     overwrite_policy \<Rightarrow> object_service \<times> transfer \<Rightarrow> (domain_error + unit) \<times> object_service \<times> transfer" where
  "transfer_object ut parse_url env writes run slot stopped stopped_later account m key local_path overwrite =
     bind_s (lift_r slot) (\<lambda>_.
     bind_s (lift_r (ensure (\<not> stopped) transfer_cancelled)) (\<lambda>_ (s, t).
       case lock_account_for_mount ut account m s of
         (Inl e, s') \<Rightarrow> (Inl e, s', t)
       | (Inr a, s') \<Rightarrow>
           if stopped_later then (Inl transfer_cancelled, s', t)
           else if writes \<and> oa_read_only a then (Inl (DeForbidden READ_ONLY_MESSAGE), s', t)
           else
             (let (r, i, t') = driver_transfer ut parse_url env run
                    \<lparr>rq_account = snapshot_of a, rq_mount = m, rq_key = key, rq_local_path = local_path,
                     rq_overwrite = overwrite\<rparr> (se_infra s', t)
              in (map_err DeObjectStorage r, s'\<lparr>se_infra := i\<rparr>, t'))))"

(* crates/ramag-app/src/usecases/object_storage_service/operations.rs:118-169 ObjectStorageService::upload_object *)
definition upload_object ::
  "(128 word \<Rightarrow> string) \<Rightarrow> (string \<Rightarrow> parsed_url option) \<Rightarrow> call_env \<Rightarrow> upload_events \<Rightarrow>
     domain_error + unit \<Rightarrow> bool \<Rightarrow> bool \<Rightarrow> object_account_id \<Rightarrow> object_mount \<Rightarrow> string \<Rightarrow> fs_path \<Rightarrow>
     overwrite_policy \<Rightarrow> object_service \<times> transfer \<Rightarrow> (domain_error + unit) \<times> object_service \<times> transfer" where
  "upload_object ut parse_url env ev = transfer_object ut parse_url env True (upload ev)"

(* crates/ramag-app/src/usecases/object_storage_service/operations.rs:172-220 ObjectStorageService::download_object *)
definition download_object ::
  "(128 word \<Rightarrow> string) \<Rightarrow> (string \<Rightarrow> parsed_url option) \<Rightarrow> call_env \<Rightarrow> download_events \<Rightarrow>
     domain_error + unit \<Rightarrow> bool \<Rightarrow> bool \<Rightarrow> object_account_id \<Rightarrow> object_mount \<Rightarrow> string \<Rightarrow> fs_path \<Rightarrow>
     overwrite_policy \<Rightarrow> object_service \<times> transfer \<Rightarrow> (domain_error + unit) \<times> object_service \<times> transfer" where
  "download_object ut parse_url env ev = transfer_object ut parse_url env False (download ev)"

(* crates/ramag-app/src/usecases/object_storage_service/mod.rs:200-204 ObjectStorageService::shutdown *)
definition service_shutdown :: "string option \<Rightarrow> object_service \<Rightarrow> (domain_error + unit) \<times> object_service" where
  "service_shutdown stop_error = on_infra (driver_shutdown stop_error)"

end
