(* ===== verification/Object_Listing.thy ===== *)
theory Object_Listing
  imports Object_Store
begin

text \<open>
  Paging through a listing: what a page holds, what the cursor keeps for the next one, and the loop of
  a client that asks for page after page (\<open>drain\<close>), which ends within forty pages.
\<close>

section \<open>Definitions\<close>

text \<open>The entries that a lister still delivers, and those a cursor stands for.\<close>

definition listed :: "od_world \<Rightarrow> string \<Rightarrow> (opendal_error + raw_entry) list \<Rightarrow> object_entry list" where
  "listed world front items =
     List.map_filter (\<lambda>item. case item of Inl _ \<Rightarrow> None | Inr raw \<Rightarrow> to_entry world front raw) items"

definition remaining :: "od_world \<Rightarrow> string \<Rightarrow> cursor_state \<Rightarrow> object_entry list" where
  "remaining world front s =
     (case cu_pending s of Some entry \<Rightarrow> [entry] | None \<Rightarrow> []) @ listed world front (cu_lister s)"

definition error_free :: "(opendal_error + raw_entry) list \<Rightarrow> bool" where
  "error_free items \<longleftrightarrow> (\<forall>item\<in>set items. \<exists>raw. item = Inr raw)"

text \<open>A client that lists everything: it asks for the first page and then follows the cursors.  The
  times and the new cursors of the pages are functions of their number.\<close>

fun drain ::
  "nat \<Rightarrow> (128 word \<Rightarrow> string) \<Rightarrow> od_world \<Rightarrow> (nat \<Rightarrow> nat) \<Rightarrow> (nat \<Rightarrow> nat) \<Rightarrow> (nat \<Rightarrow> string) \<Rightarrow> operator \<Rightarrow>
     account_snapshot \<Rightarrow> object_mount \<Rightarrow> object_list_query \<Rightarrow> u64 \<Rightarrow> nat \<Rightarrow> string option \<Rightarrow>
     cursor_store \<Rightarrow> (object_storage_error + object_page list) option" where
  "drain 0 ut world start finish fresh op a m query generation k cursor store = None"
| "drain (Suc n) ut world start finish fresh op a m query generation k cursor store =
     (case list_page ut world (start k) (finish k) (fresh k) op a m query cursor generation store of
        (Inl e, _) \<Rightarrow> Some (Inl e)
      | (Inr page, store') \<Rightarrow>
          (case pg_next_cursor page of
             None \<Rightarrow> Some (Inr [page])
           | Some c \<Rightarrow>
               map_option (map_ok (\<lambda>pages. page # pages))
                 (drain n ut world start finish fresh op a m query generation (Suc k) (Some c) store')))"

section \<open>Maps\<close>

lemma bm_filter_wf: "bm_wf m \<Longrightarrow> bm_wf (filter P m)"
  unfolding bm_wf_def by (induction m) auto

lemma bm_get_filter:
  assumes "bm_wf m"
  shows "bm_get (filter P m) k = (case bm_get m k of None \<Rightarrow> None | Some v \<Rightarrow> if P (k, v) then Some v else None)"
proof (cases "bm_get (filter P m) k")
  case None
  then have "(k, v) \<notin> set (filter P m)" for v
    using bm_get_in_set [OF bm_filter_wf [OF assms]] by (metis option.distinct(1))
  then show ?thesis using None bm_get_in_set [OF assms] by (auto split: option.splits)
next
  case (Some v)
  then have "(k, v) \<in> set m" "P (k, v)"
    using bm_get_in_set [OF bm_filter_wf [OF assms]] by auto
  then have "bm_get m k = Some v" using bm_get_in_set [OF assms] by simp
  with Some \<open>P (k, v)\<close> show ?thesis by simp
qed

lemma insert_cursor_wf: "bm_wf store \<Longrightarrow> bm_wf (insert_cursor c s store)"
  by (auto simp: insert_cursor_def intro!: bm_insert_wf bm_remove_wf split: option.splits)

lemma insert_cursor_get [simp]: "bm_get (insert_cursor c s store) c = Some s"
  by (simp add: insert_cursor_def bm_get_insert)

lemma take_bound_wf: "take_bound ut now c a m front g store = (r, store') \<Longrightarrow> bm_wf store \<Longrightarrow> bm_wf store'"
  by (auto simp: take_bound_def Let_def bm_filter_wf intro!: bm_remove_wf split: option.splits)

lemma open_cursor_wf:
  "open_cursor ut world now op a m front cursor g store = (r, store') \<Longrightarrow> bm_wf store \<Longrightarrow> bm_wf store'"
  by (auto simp: open_cursor_def invalidate_mount_def bm_filter_wf dest: take_bound_wf split: option.splits)

section \<open>The loop that fills a page\<close>

lemma listed_simps [simp]:
  "listed world front [] = []"
  "listed world front (Inr raw # items) =
     (case to_entry world front raw of None \<Rightarrow> [] | Some e \<Rightarrow> [e]) @ listed world front items"
  by (simp_all add: listed_def map_filter_simps split: option.split)

lemma fill_page_bound:
  assumes "fill_page world front em es items = Inr (es', rest)"
    and "length es \<le> MAX_OBJECT_STORAGE_PAGE_ENTRIES + 1" "em + length es \<le> MAX_OBJECT_STORAGE_WORKSPACE_ENTRIES + 1"
  shows "length es' \<le> MAX_OBJECT_STORAGE_PAGE_ENTRIES + 1 \<and> em + length es' \<le> MAX_OBJECT_STORAGE_WORKSPACE_ENTRIES + 1"
  using assms
  by (induction world front em es items rule: fill_page.induct) (auto split: if_splits sum.splits option.splits)

definition page_bound :: "nat \<Rightarrow> nat" where
  "page_bound em = min (MAX_OBJECT_STORAGE_PAGE_ENTRIES + 1) (MAX_OBJECT_STORAGE_WORKSPACE_ENTRIES + 1 - em)"

lemma fill_page_takes:
  assumes "error_free items"
  shows "\<exists>rest. fill_page world front em es items
      = Inr (es @ take (page_bound em - length es) (listed world front items), rest)
    \<and> listed world front rest = drop (page_bound em - length es) (listed world front items)
    \<and> error_free rest"
  using assms
proof (induction items arbitrary: es)
  case Nil
  then show ?case by simp
next
  case (Cons item items)
  then obtain raw where item: "item = Inr raw" and rest: "error_free items"
    by (auto simp: error_free_def)
  show ?case
  proof (cases "length es < page_bound em")
    case False
    then have "\<not> (length es \<le> MAX_OBJECT_STORAGE_PAGE_ENTRIES
        \<and> em + length es < MAX_OBJECT_STORAGE_WORKSPACE_ENTRIES + 1)"
      by (auto simp: page_bound_def)
    then have "fill_page world front em es (item # items) = Inr (es, item # items)"
      by (simp only: fill_page.simps if_False)
    with False Cons.prems show ?thesis by simp
  next
    case True
    then have go: "length es \<le> MAX_OBJECT_STORAGE_PAGE_ENTRIES
        \<and> em + length es < MAX_OBJECT_STORAGE_WORKSPACE_ENTRIES + 1"
      by (auto simp: page_bound_def)
    show ?thesis
    proof (cases "to_entry world front raw")
      case None
      with Cons.IH [OF rest, of es] go item show ?thesis by simp
    next
      case (Some e)
      have less: "page_bound em - length es = Suc (page_bound em - length (es @ [e]))" using True by simp
      from Some Cons.IH [OF rest, of "es @ [e]"] go item show ?thesis unfolding less by simp
    qed
  qed
qed

section \<open>One page\<close>

text \<open>A page of a cursor whose lister does not fail, at a multiple of the page size.\<close>

lemma cut_page_cases:
  assumes "em = cu_emitted s" "em + MAX_OBJECT_STORAGE_PAGE_ENTRIES \<le> MAX_OBJECT_STORAGE_WORKSPACE_ENTRIES"
    and "length es \<le> MAX_OBJECT_STORAGE_PAGE_ENTRIES + 1"
  shows "cut_page now fresh s es store =
    (if length es \<le> MAX_OBJECT_STORAGE_PAGE_ENTRIES
     then (Inr \<lparr>pg_entries = es, pg_next_cursor = None, pg_capped = False\<rparr>, store)
     else if em + MAX_OBJECT_STORAGE_PAGE_ENTRIES = MAX_OBJECT_STORAGE_WORKSPACE_ENTRIES
     then (Inr \<lparr>pg_entries = butlast es, pg_next_cursor = None, pg_capped = True\<rparr>, store)
     else (Inr \<lparr>pg_entries = butlast es, pg_next_cursor = Some fresh, pg_capped = False\<rparr>,
       insert_cursor fresh
         (s\<lparr>cu_pending := Some (last es), cu_emitted := em + MAX_OBJECT_STORAGE_PAGE_ENTRIES,
            cu_last_used := now\<rparr>) store))"
proof (cases "length es \<le> MAX_OBJECT_STORAGE_PAGE_ENTRIES")
  case True
  with assms show ?thesis by (simp add: cut_page_def Let_def limits)
next
  case False
  then have n: "length es = 501" using assms(3) by (simp add: limits)
  show ?thesis
  proof (cases "em + MAX_OBJECT_STORAGE_PAGE_ENTRIES = MAX_OBJECT_STORAGE_WORKSPACE_ENTRIES")
    case True
    with n assms have "em = 19500" by (simp add: limits)
    with n assms(1) show ?thesis
      by (simp add: cut_page_def Let_def limits butlast_conv_take)
  next
    case False
    with n assms have "em + 501 \<le> 20000" by (simp add: limits)
    with n assms(1) False show ?thesis by (simp add: cut_page_def Let_def limits)
  qed
qed

text \<open>Whatever the lister answers: a cursor is only kept for a full page that is not the last one.\<close>

lemma cut_page_next:
  assumes "cut_page now fresh s es store = (Inr page, store')" "pg_next_cursor page = Some c"
    and "length es \<le> MAX_OBJECT_STORAGE_PAGE_ENTRIES + 1"
  shows "c = fresh \<and> cu_emitted s + MAX_OBJECT_STORAGE_PAGE_ENTRIES < MAX_OBJECT_STORAGE_WORKSPACE_ENTRIES
    \<and> (\<exists>s'. store' = insert_cursor fresh s' store
        \<and> cu_emitted s' = cu_emitted s + MAX_OBJECT_STORAGE_PAGE_ENTRIES)"
proof -
  have over: "\<not> MAX_OBJECT_STORAGE_WORKSPACE_ENTRIES < cu_emitted s + length es"
    and more: "MAX_OBJECT_STORAGE_PAGE_ENTRIES < length es"
    using assms(1,2) by (auto simp: cut_page_def Let_def split: if_splits)
  then have "length es = MAX_OBJECT_STORAGE_PAGE_ENTRIES + 1" using assms(3) by simp
  with over more assms(1,2) show ?thesis
    by (auto simp: cut_page_def Let_def)
qed

definition emitted_of :: "string option \<Rightarrow> cursor_store \<Rightarrow> nat" where
  "emitted_of cursor store =
     (case cursor of
        None \<Rightarrow> 0
      | Some c \<Rightarrow> (case bm_get store c of None \<Rightarrow> 0 | Some s \<Rightarrow> cu_emitted s))"

lemma take_bound_ok:
  assumes "take_bound ut now c a m front g store = (Inr s, store')" and "bm_wf store"
  shows "bm_get store c = Some s \<and> now - cu_last_used s \<le> CURSOR_TTL
    \<and> cu_account_id s = account_text ut (as_id a) \<and> cu_revision s = as_revision a
    \<and> cu_mount_id s = mount_text ut (om_id m) \<and> cu_prefix s = front \<and> cu_generation s = g
    \<and> store' = bm_remove c (filter (\<lambda>(_, s). now - cu_last_used s \<le> CURSOR_TTL) store)"
  using assms by (auto simp: take_bound_def Let_def bm_get_filter split: option.splits if_splits)

lemma open_cursor_emitted:
  assumes "open_cursor ut world now op a m front cursor g store = (Inr s, store')" and "bm_wf store"
  shows "cu_emitted s = emitted_of cursor store"
  using assms
  by (auto simp: open_cursor_def emitted_of_def dest!: take_bound_ok split: option.splits sum.splits)

lemma open_cursor_pending:
  "length (case cu_pending s of Some entry \<Rightarrow> [entry] | None \<Rightarrow> []) \<le> 1"
  by (simp split: option.split)

lemma list_page_next:
  assumes "list_page ut world now later fresh op a m query cursor g store = (Inr page, store')"
    and "pg_next_cursor page = Some c" and "bm_wf store"
    and "emitted_of cursor store \<le> MAX_OBJECT_STORAGE_WORKSPACE_ENTRIES"
  shows "c = fresh \<and> bm_wf store' \<and> emitted_of (Some c) store' = emitted_of cursor store + MAX_OBJECT_STORAGE_PAGE_ENTRIES
    \<and> emitted_of (Some c) store' < MAX_OBJECT_STORAGE_WORKSPACE_ENTRIES"
proof -
  from assms(1) obtain s store1 es rest where
    opened: "open_cursor ut world now op a m (lq_list_prefix query) cursor g store = (Inr s, store1)"
    and fill: "fill_page world (lq_directory_prefix query) (cu_emitted s)
         (case cu_pending s of Some entry \<Rightarrow> [entry] | None \<Rightarrow> []) (cu_lister s) = Inr (es, rest)"
    and cut: "cut_page later fresh (s\<lparr>cu_pending := None, cu_lister := rest\<rparr>) es store1 = (Inr page, store')"
    unfolding list_page_def bind_s_ok by auto
  note em = open_cursor_emitted [OF opened assms(3)]
  have "length es \<le> MAX_OBJECT_STORAGE_PAGE_ENTRIES + 1"
    using fill_page_bound [OF fill] open_cursor_pending [of s] assms(4) em by (simp add: limits)
  from cut_page_next [OF cut assms(2) this] obtain s' where
    "c = fresh" "cu_emitted s + MAX_OBJECT_STORAGE_PAGE_ENTRIES < MAX_OBJECT_STORAGE_WORKSPACE_ENTRIES"
    "store' = insert_cursor fresh s' store1" "cu_emitted s' = cu_emitted s + MAX_OBJECT_STORAGE_PAGE_ENTRIES"
    by auto
  with em open_cursor_wf [OF opened assms(3)] show ?thesis
    by (simp add: emitted_of_def insert_cursor_wf)
qed

section \<open>The loop of the client\<close>

lemma drain_ends:
  assumes "bm_wf store" "emitted_of cursor store < MAX_OBJECT_STORAGE_WORKSPACE_ENTRIES"
    and "MAX_OBJECT_STORAGE_WORKSPACE_ENTRIES \<le> emitted_of cursor store + n * MAX_OBJECT_STORAGE_PAGE_ENTRIES"
  shows "drain n ut world start finish fresh op a m query g k cursor store \<noteq> None"
  using assms
proof (induction n arbitrary: k cursor store)
  case 0
  then show ?case by simp
next
  case (Suc n)
  obtain r store' where page: "list_page ut world (start k) (finish k) (fresh k) op a m query cursor g store
      = (r, store')" by (cases "list_page ut world (start k) (finish k) (fresh k) op a m query cursor g store")
  show ?case
  proof (cases r)
    case (Inl e)
    with page show ?thesis by simp
  next
    case (Inr p)
    show ?thesis
    proof (cases "pg_next_cursor p")
      case None
      with page Inr show ?thesis by simp
    next
      case (Some c)
      have le: "emitted_of cursor store \<le> MAX_OBJECT_STORAGE_WORKSPACE_ENTRIES" using Suc.prems(2) by simp
      note step = list_page_next [OF page [unfolded Inr] Some Suc.prems(1) le]
      have "drain n ut world start finish fresh op a m query g (Suc k) (Some c) store' \<noteq> None"
        using step Suc.prems(3) by (intro Suc.IH) auto
      with page Inr Some show ?thesis by simp
    qed
  qed
qed

section \<open>A listing without errors\<close>

definition in_context ::
  "(128 word \<Rightarrow> string) \<Rightarrow> account_snapshot \<Rightarrow> object_mount \<Rightarrow> string \<Rightarrow> u64 \<Rightarrow> cursor_state \<Rightarrow> bool" where
  "in_context ut a m front g s \<longleftrightarrow>
     cu_account_id s = account_text ut (as_id a) \<and> cu_revision s = as_revision a
     \<and> cu_mount_id s = mount_text ut (om_id m) \<and> cu_prefix s = front \<and> cu_generation s = g"

lemma take_all_but_last:
  "length xs = Suc n \<Longrightarrow> butlast xs = take n xs"
  by (simp add: butlast_conv_take)

lemma filled_page:
  assumes "error_free (cu_lister s)"
    and "cu_emitted s + MAX_OBJECT_STORAGE_PAGE_ENTRIES \<le> MAX_OBJECT_STORAGE_WORKSPACE_ENTRIES"
  shows "\<exists>rest. fill_page world front (cu_emitted s)
      (case cu_pending s of Some entry \<Rightarrow> [entry] | None \<Rightarrow> []) (cu_lister s)
      = Inr (take (MAX_OBJECT_STORAGE_PAGE_ENTRIES + 1) (remaining world front s), rest)
    \<and> listed world front rest = drop (MAX_OBJECT_STORAGE_PAGE_ENTRIES + 1) (remaining world front s)
    \<and> error_free rest"
proof -
  let ?es = "case cu_pending s of Some entry \<Rightarrow> [entry] | None \<Rightarrow> []"
  have b: "page_bound (cu_emitted s) = MAX_OBJECT_STORAGE_PAGE_ENTRIES + 1"
    using assms(2) by (simp add: page_bound_def limits)
  have le: "length ?es \<le> MAX_OBJECT_STORAGE_PAGE_ENTRIES + 1"
    using open_cursor_pending [of s] by (simp add: limits)
  from fill_page_takes [OF assms(1), of world front "cu_emitted s" ?es]
  show ?thesis using le unfolding b remaining_def by (simp add: take_append drop_append)
qed

lemma next_remaining:
  assumes "MAX_OBJECT_STORAGE_PAGE_ENTRIES < length xs"
  shows "[last (take (MAX_OBJECT_STORAGE_PAGE_ENTRIES + 1) xs)] @ drop (MAX_OBJECT_STORAGE_PAGE_ENTRIES + 1) xs
    = drop MAX_OBJECT_STORAGE_PAGE_ENTRIES xs"
proof -
  have "take (MAX_OBJECT_STORAGE_PAGE_ENTRIES + 1) xs
      = take MAX_OBJECT_STORAGE_PAGE_ENTRIES xs @ [xs ! MAX_OBJECT_STORAGE_PAGE_ENTRIES]"
    using assms by (simp add: take_Suc_conv_app_nth)
  then show ?thesis using assms by (simp add: Cons_nth_drop_Suc)
qed

text \<open>One step of the client: the first five hundred of what remains, and a cursor for the rest.\<close>

lemma list_page_step:
  assumes "is_opendal_safe_list_prefix (lq_list_prefix query)"
    and "open_cursor ut world now op a m (lq_list_prefix query) cursor g store = (Inr s, store1)"
    and "error_free (cu_lister s)" "in_context ut a m (lq_list_prefix query) g s"
    and "cu_emitted s + MAX_OBJECT_STORAGE_PAGE_ENTRIES \<le> MAX_OBJECT_STORAGE_WORKSPACE_ENTRIES"
    and "R = remaining world (lq_directory_prefix query) s"
  shows "\<exists>s'. list_page ut world now later fresh op a m query cursor g store =
      (if length R \<le> MAX_OBJECT_STORAGE_PAGE_ENTRIES
       then (Inr \<lparr>pg_entries = R, pg_next_cursor = None, pg_capped = False\<rparr>, store1)
       else if cu_emitted s + MAX_OBJECT_STORAGE_PAGE_ENTRIES = MAX_OBJECT_STORAGE_WORKSPACE_ENTRIES
       then (Inr \<lparr>pg_entries = take MAX_OBJECT_STORAGE_PAGE_ENTRIES R, pg_next_cursor = None,
                  pg_capped = True\<rparr>, store1)
       else (Inr \<lparr>pg_entries = take MAX_OBJECT_STORAGE_PAGE_ENTRIES R, pg_next_cursor = Some fresh,
                  pg_capped = False\<rparr>, insert_cursor fresh s' store1))
    \<and> error_free (cu_lister s') \<and> in_context ut a m (lq_list_prefix query) g s'
    \<and> cu_emitted s' = cu_emitted s + MAX_OBJECT_STORAGE_PAGE_ENTRIES \<and> cu_last_used s' = later
    \<and> (MAX_OBJECT_STORAGE_PAGE_ENTRIES < length R \<longrightarrow>
         remaining world (lq_directory_prefix query) s' = drop MAX_OBJECT_STORAGE_PAGE_ENTRIES R)"
proof -
  let ?N = MAX_OBJECT_STORAGE_PAGE_ENTRIES
  obtain rest where fill: "fill_page world (lq_directory_prefix query) (cu_emitted s)
      (case cu_pending s of Some entry \<Rightarrow> [entry] | None \<Rightarrow> []) (cu_lister s) = Inr (take (?N + 1) R, rest)"
    and rest: "listed world (lq_directory_prefix query) rest = drop (?N + 1) R" "error_free rest"
    using filled_page [OF assms(3,5)] assms(6) by metis
  let ?s = "s\<lparr>cu_pending := None, cu_lister := rest\<rparr>"
  let ?s' = "?s\<lparr>cu_pending := Some (last (take (?N + 1) R)), cu_emitted := cu_emitted s + ?N,
    cu_last_used := later\<rparr>"
  have page: "list_page ut world now later fresh op a m query cursor g store
      = cut_page later fresh ?s (take (?N + 1) R) store1"
    using assms(1,2) fill by (simp add: list_page_def bind_s_def lift_r_def)
  have short: "length (take (?N + 1) R) \<le> ?N \<longleftrightarrow> length R \<le> ?N"
    "length R \<le> ?N \<Longrightarrow> take (?N + 1) R = R" by auto
  have long: "\<not> length R \<le> ?N \<Longrightarrow> butlast (take (?N + 1) R) = take ?N R"
    by (simp add: take_all_but_last [of _ ?N] min_def)
  have em: "cu_emitted s = cu_emitted ?s" by simp
  have "list_page ut world now later fresh op a m query cursor g store =
      (if length R \<le> ?N
       then (Inr \<lparr>pg_entries = R, pg_next_cursor = None, pg_capped = False\<rparr>, store1)
       else if cu_emitted s + ?N = MAX_OBJECT_STORAGE_WORKSPACE_ENTRIES
       then (Inr \<lparr>pg_entries = take ?N R, pg_next_cursor = None, pg_capped = True\<rparr>, store1)
       else (Inr \<lparr>pg_entries = take ?N R, pg_next_cursor = Some fresh, pg_capped = False\<rparr>,
             insert_cursor fresh ?s' store1))"
    unfolding page
    by (subst cut_page_cases [OF em assms(5)]) (use short long in auto)
  moreover have "error_free (cu_lister ?s')" "in_context ut a m (lq_list_prefix query) g ?s'"
    using rest assms(4) by (simp_all add: in_context_def)
  moreover have "?N < length R \<Longrightarrow> remaining world (lq_directory_prefix query) ?s' = drop ?N R"
    using next_remaining [of R] rest by (simp add: remaining_def)
  ultimately show ?thesis by (intro exI [of _ ?s']) simp
qed

lemma open_issued_cursor:
  assumes "bm_wf store" "in_context ut a m front g s" "now - cu_last_used s \<le> CURSOR_TTL"
  shows "\<exists>store2. open_cursor ut world now op a m front (Some c) g (insert_cursor c s store) = (Inr s, store2)
    \<and> bm_wf store2"
proof -
  have "bm_get (filter (\<lambda>(_, s). now - cu_last_used s \<le> CURSOR_TTL) (insert_cursor c s store)) c = Some s"
    using assms by (simp add: bm_get_filter insert_cursor_wf)
  then show ?thesis
    using assms by (simp add: open_cursor_def take_bound_def in_context_def bm_remove_wf bm_filter_wf
        insert_cursor_wf)
qed

text \<open>What the pages of a listing amount to, \<open>left\<close> entries below the limit.\<close>

definition pages_of :: "nat \<Rightarrow> object_entry list \<Rightarrow> object_page list \<Rightarrow> bool" where
  "pages_of left R pages \<longleftrightarrow>
     pages \<noteq> [] \<and> concat (map pg_entries pages) = take left R
     \<and> (\<forall>p\<in>set (butlast pages). length (pg_entries p) = MAX_OBJECT_STORAGE_PAGE_ENTRIES \<and> \<not> pg_capped p)
     \<and> length (pg_entries (last pages)) \<le> MAX_OBJECT_STORAGE_PAGE_ENTRIES
     \<and> (pg_capped (last pages) \<longleftrightarrow> left < length R)"

lemma pages_of_single:
  "length (pg_entries p) \<le> MAX_OBJECT_STORAGE_PAGE_ENTRIES \<Longrightarrow> pg_entries p = take left R \<Longrightarrow>
     (pg_capped p \<longleftrightarrow> left < length R) \<Longrightarrow> pages_of left R [p]"
  by (simp add: pages_of_def)

lemma pages_of_Cons:
  assumes "pages_of left (drop MAX_OBJECT_STORAGE_PAGE_ENTRIES R) pages"
    and "pg_entries p = take MAX_OBJECT_STORAGE_PAGE_ENTRIES R" "\<not> pg_capped p"
    and "MAX_OBJECT_STORAGE_PAGE_ENTRIES < length R"
  shows "pages_of (MAX_OBJECT_STORAGE_PAGE_ENTRIES + left) R (p # pages)"
  using assms by (auto simp: pages_of_def take_add)

lemma drain_complete:
  assumes "bm_wf store" "is_opendal_safe_list_prefix (lq_list_prefix query)"
    and "open_cursor ut world (start k) op a m (lq_list_prefix query) cursor g store = (Inr s, store1)"
    and "bm_wf store1" "error_free (cu_lister s)" "in_context ut a m (lq_list_prefix query) g s"
    and "cu_emitted s = e * MAX_OBJECT_STORAGE_PAGE_ENTRIES"
    and "(e + n) * MAX_OBJECT_STORAGE_PAGE_ENTRIES = MAX_OBJECT_STORAGE_WORKSPACE_ENTRIES" "0 < n"
    and "\<And>j. start (Suc j) - finish j \<le> CURSOR_TTL"
  shows "\<exists>pages. drain n ut world start finish fresh op a m query g k cursor store = Some (Inr pages)
    \<and> length pages \<le> n
    \<and> pages_of (n * MAX_OBJECT_STORAGE_PAGE_ENTRIES) (remaining world (lq_directory_prefix query) s) pages"
  using assms
proof (induction n arbitrary: k cursor store s store1 e)
  case 0
  then show ?case by simp
next
  case (Suc n)
  let ?N = MAX_OBJECT_STORAGE_PAGE_ENTRIES and ?W = MAX_OBJECT_STORAGE_WORKSPACE_ENTRIES
  define R where "R = remaining world (lq_directory_prefix query) s"
  have room: "cu_emitted s + ?N \<le> ?W" using Suc.prems(7,8) by (simp add: limits)
  obtain s' where page: "list_page ut world (start k) (finish k) (fresh k) op a m query cursor g store =
      (if length R \<le> ?N
       then (Inr \<lparr>pg_entries = R, pg_next_cursor = None, pg_capped = False\<rparr>, store1)
       else if cu_emitted s + ?N = ?W
       then (Inr \<lparr>pg_entries = take ?N R, pg_next_cursor = None, pg_capped = True\<rparr>, store1)
       else (Inr \<lparr>pg_entries = take ?N R, pg_next_cursor = Some (fresh k), pg_capped = False\<rparr>,
             insert_cursor (fresh k) s' store1))"
    and s': "error_free (cu_lister s')" "in_context ut a m (lq_list_prefix query) g s'"
      "cu_emitted s' = cu_emitted s + ?N" "cu_last_used s' = finish k"
      "?N < length R \<Longrightarrow> remaining world (lq_directory_prefix query) s' = drop ?N R"
    using list_page_step [OF Suc.prems(2,3,5,6) room R_def, of "finish k" "fresh k"] by blast
  consider (all) "length R \<le> ?N" | (cap) "?N < length R" "n = 0" | (more) "?N < length R" "0 < n" by linarith
  then show ?case
  proof cases
    case all
    with page show ?thesis unfolding R_def [symmetric] by (simp add: pages_of_single)
  next
    case cap
    then have "cu_emitted s + ?N = ?W" using Suc.prems(7,8) by (simp add: limits)
    with page cap show ?thesis unfolding R_def [symmetric] by (simp add: pages_of_single)
  next
    case more
    then have not_last: "cu_emitted s + ?N \<noteq> ?W" using Suc.prems(7,8) by (simp add: limits)
    have "start (Suc k) - cu_last_used s' \<le> CURSOR_TTL" using Suc.prems(10) s'(4) by simp
    from open_issued_cursor [OF Suc.prems(4) s'(2) this]
    obtain store2 where opened: "open_cursor ut world (start (Suc k)) op a m (lq_list_prefix query)
        (Some (fresh k)) g (insert_cursor (fresh k) s' store1) = (Inr s', store2)" "bm_wf store2" by blast
    have em: "cu_emitted s' = Suc e * ?N" using s'(3) Suc.prems(7) by simp
    have fuel: "(Suc e + n) * ?N = ?W" using Suc.prems(8) by simp
    obtain pages where pages: "drain n ut world start finish fresh op a m query g (Suc k) (Some (fresh k))
          (insert_cursor (fresh k) s' store1) = Some (Inr pages)"
      "length pages \<le> n" "pages_of (n * ?N) (drop ?N R) pages"
      using Suc.IH [OF insert_cursor_wf [OF Suc.prems(4)] Suc.prems(2) opened s'(1,2) em fuel more(2) Suc.prems(10)]
        s'(5) [OF more(1)] by auto
    let ?p = "\<lparr>pg_entries = take ?N R, pg_next_cursor = Some (fresh k), pg_capped = False\<rparr>"
    have "pages_of (?N + n * ?N) R (?p # pages)"
      by (rule pages_of_Cons [OF pages(3)]) (use more in auto)
    with page pages more not_last show ?thesis unfolding R_def [symmetric] by (intro exI [of _ "?p # pages"]) simp
  qed
qed

end
