(* ===== verification/Object_Cache.thy ===== *)
theory Object_Cache
  imports Object_Listing
begin

text \<open>
  The operator cache over any sequence of calls: the list of recent uses is the cached identities, no
  more than thirty-two, the eviction loop ends, and what a call hands out was built for the same
  account at the same revision, which no invalidation has overtaken.
\<close>

section \<open>The eviction loop\<close>

definition lru_of :: "(string, operator) bmap \<Rightarrow> string list \<Rightarrow> bool" where
  "lru_of ops lru \<longleftrightarrow> bm_wf ops \<and> distinct lru \<and> set lru = set (map fst ops)"

lemma bm_remove_keys: "set (map fst (bm_remove k m)) = set (map fst m) - {k}"
  by (auto simp: bm_remove_def)

lemma lru_of_remove: "lru_of ops (k # lru) \<Longrightarrow> lru_of (bm_remove k ops) lru"
  unfolding lru_of_def bm_remove_keys by (auto simp: bm_remove_wf simp del: set_map)

lemma lru_of_length: "lru_of ops lru \<Longrightarrow> length lru = length ops"
  by (metis lru_of_def bm_wf_distinct distinct_card length_map)

lemma evict_loop_ends: "lru_of ops lru \<Longrightarrow> evict_loop ops lru = Some (evict ops lru)"
proof (induction lru arbitrary: ops)
  case Nil
  then have "ops = []" by (simp add: lru_of_def)
  then show ?case by (simp add: evict_loop.simps)
next
  case (Cons k lru)
  show ?case
    by (subst evict_loop.simps) (simp add: Cons.IH [OF lru_of_remove [OF Cons.prems]])
qed

lemma evict_lru_of: "lru_of ops lru \<Longrightarrow> evict ops lru = (ops', lru') \<Longrightarrow>
    lru_of ops' lru' \<and> length ops' \<le> MAX_CACHED_OPERATORS"
proof (induction lru arbitrary: ops)
  case Nil
  then show ?case by (auto simp: lru_of_def)
next
  case (Cons k lru)
  then show ?case using lru_of_remove [OF Cons.prems(1)] by (auto split: if_splits)
qed

lemma evict_get: "evict ops lru = (ops', lru') \<Longrightarrow> bm_get ops' k = Some op \<Longrightarrow> bm_get ops k = Some op"
proof (induction lru arbitrary: ops)
  case (Cons j lru)
  show ?case
  proof (cases "MAX_CACHED_OPERATORS < length ops")
    case True
    then have "evict (bm_remove j ops) lru = (ops', lru')" using Cons.prems(1) by simp
    from Cons.IH [OF this Cons.prems(2)] show ?thesis by (simp add: bm_get_remove split: if_splits)
  next
    case False
    then show ?thesis using Cons.prems by simp
  qed
qed simp

lemma bm_remove_length: "bm_wf m \<Longrightarrow> k \<in> set (map fst m) \<Longrightarrow> Suc (length (bm_remove k m)) = length m"
proof (induction m)
  case (Cons e m)
  then have d: "fst e \<notin> set (map fst m)" using bm_wf_distinct [OF Cons.prems(1)] by simp
  show ?case
  proof (cases "fst e = k")
    case True
    with d have "\<forall>x\<in>set m. fst x \<noteq> k" by (metis image_eqI list.set_map)
    then have "bm_remove k m = m" by (simp add: bm_remove_def filter_id_conv)
    with True show ?thesis by (simp add: bm_remove_def)
  next
    case False
    with Cons show ?thesis by (auto simp: bm_remove_def bm_wf_def)
  qed
qed simp

lemma evict_one:
  assumes "lru_of ops (k # lru)" "length ops \<le> MAX_CACHED_OPERATORS + 1"
  shows "evict ops (k # lru) =
    (if length ops \<le> MAX_CACHED_OPERATORS then (ops, k # lru) else (bm_remove k ops, lru))"
proof -
  have "Suc (length (bm_remove k ops)) = length ops"
    using assms(1) by (intro bm_remove_length) (auto simp: lru_of_def)
  then have "evict (bm_remove k ops) lru = (bm_remove k ops, lru)" using assms(2) by (cases lru) auto
  then show ?thesis by simp
qed

section \<open>Calls\<close>

datatype cache_op =
    CacheGet od_world account_snapshot object_mount
  | CacheInvalidate object_account_id u64
  | CacheClear

fun cache_step :: "(128 word \<Rightarrow> string) \<Rightarrow> (string \<Rightarrow> parsed_url option) \<Rightarrow> cache_op \<Rightarrow> operator_cache \<Rightarrow> operator_cache" where
  "cache_step ut parse_url (CacheGet world a m) cache = snd (cache_get ut parse_url world a m cache)"
| "cache_step ut parse_url (CacheInvalidate account r) cache = cache_invalidate ut account r cache"
| "cache_step ut parse_url CacheClear cache = cache_clear cache"

definition cache_run ::
  "(128 word \<Rightarrow> string) \<Rightarrow> (string \<Rightarrow> parsed_url option) \<Rightarrow> cache_op list \<Rightarrow> operator_cache \<Rightarrow> operator_cache" where
  "cache_run ut parse_url ops = fold (cache_step ut parse_url) ops"

text \<open>Where a cached operator comes from: a call for the account of its identity, at a revision that is
  not below the minimum of that account.\<close>

definition cached_from ::
  "(128 word \<Rightarrow> string) \<Rightarrow> (string \<Rightarrow> parsed_url option) \<Rightarrow> cache_op list \<Rightarrow> operator_cache \<Rightarrow> string \<Rightarrow>
     operator \<Rightarrow> bool" where
  "cached_from ut parse_url ops cache key op \<longleftrightarrow>
     (\<exists>world a m. CacheGet world a m \<in> set ops \<and> build_operator world a m = Inr op
        \<and> as_id a = om_account_id m \<and> validate_mount parse_url (as_provider a) m = Inr ()
        \<and> key = operator_identity ut m (as_revision a))"

definition cache_wf ::
  "(128 word \<Rightarrow> string) \<Rightarrow> (string \<Rightarrow> parsed_url option) \<Rightarrow> cache_op list \<Rightarrow> operator_cache \<Rightarrow> bool" where
  "cache_wf ut parse_url ops cache \<longleftrightarrow>
     lru_of (ca_operators cache) (ca_lru cache) \<and> length (ca_operators cache) \<le> MAX_CACHED_OPERATORS
     \<and> (\<forall>key op. bm_get (ca_operators cache) key = Some op \<longrightarrow> cached_from ut parse_url ops cache key op)
     \<and> (\<forall>account r. CacheInvalidate account r \<in> set ops \<longrightarrow>
          (\<exists>r'. ca_minimum cache account = Some r' \<and> r \<le> r'))"

lemma cached_from_mono: "cached_from ut parse_url ops cache key op \<Longrightarrow>
    cached_from ut parse_url (ops @ [x]) cache' key op"
  unfolding cached_from_def by fastforce

lemma lru_of_touch:
  "lru_of ops lru \<Longrightarrow> k \<in> set (map fst ops) \<Longrightarrow> lru_of ops (touch_lru k lru)"
  by (auto simp: lru_of_def touch_lru_def)

lemma lru_of_insert: "lru_of ops lru \<Longrightarrow> lru_of (bm_insert k op ops) (touch_lru k lru)"
  unfolding lru_of_def touch_lru_def
  by (auto simp: bm_insert_wf bm_insert_keys simp del: set_map)

lemma lru_of_filter:
  "lru_of ops lru \<Longrightarrow> lru_of (filter (\<lambda>(k, _). P k) ops) (filter P lru)"
  unfolding lru_of_def by (auto simp: bm_filter_wf)

lemma cache_get_cases:
  assumes "cache_get ut parse_url world a m cache = (r, cache')"
  obtains e where "r = Inl e" "cache' = cache"
  | op where "r = Inr op" "as_id a = om_account_id m" "validate_mount parse_url (as_provider a) m = Inr ()"
      "\<forall>min. ca_minimum cache (as_id a) = Some min \<longrightarrow> min \<le> as_revision a"
      "bm_get (ca_operators cache) (operator_identity ut m (as_revision a)) = Some op"
      "cache' = cache\<lparr>ca_lru := touch_lru (operator_identity ut m (as_revision a)) (ca_lru cache)\<rparr>"
  | op ops lru where "r = Inr op" "as_id a = om_account_id m"
      "validate_mount parse_url (as_provider a) m = Inr ()"
      "\<forall>min. ca_minimum cache (as_id a) = Some min \<longrightarrow> min \<le> as_revision a"
      "bm_get (ca_operators cache) (operator_identity ut m (as_revision a)) = None"
      "build_operator world a m = Inr op"
      "evict (bm_insert (operator_identity ut m (as_revision a)) op (ca_operators cache))
         (touch_lru (operator_identity ut m (as_revision a)) (ca_lru cache)) = (ops, lru)"
      "cache' = cache\<lparr>ca_operators := ops, ca_lru := lru\<rparr>"
proof (cases r)
  case (Inl e)
  then have "cache' = cache"
    using assms by (auto simp: cache_get_def Let_def split: if_splits sum.splits option.splits prod.splits)
  with Inl show thesis by (rule that(1))
next
  case (Inr op)
  let ?k = "operator_identity ut m (as_revision a)"
  have ok: "as_id a = om_account_id m" "validate_mount parse_url (as_provider a) m = Inr ()"
    using assms Inr by (auto simp: cache_get_def split: if_splits sum.splits)
  have min: "\<forall>min. ca_minimum cache (as_id a) = Some min \<longrightarrow> min \<le> as_revision a"
    using assms Inr ok by (auto simp: cache_get_def Let_def not_less split: if_splits)
  then have "\<not> as_revision a < (case ca_minimum cache (as_id a) of None \<Rightarrow> 0 | Some r \<Rightarrow> r)"
    by (simp add: not_less split: option.split)
  with assms Inr ok have run: "(case bm_get (ca_operators cache) ?k of
      Some op \<Rightarrow> (Inr op, cache\<lparr>ca_lru := touch_lru ?k (ca_lru cache)\<rparr>)
    | None \<Rightarrow> (case build_operator world a m of
          Inl e \<Rightarrow> (Inl e, cache)
        | Inr op \<Rightarrow> (let (ops, lru) = evict (bm_insert ?k op (ca_operators cache)) (touch_lru ?k (ca_lru cache))
            in (Inr op, cache\<lparr>ca_operators := ops, ca_lru := lru\<rparr>)))) = (Inr op, cache')"
    by (simp add: cache_get_def Let_def)
  show thesis
  proof (cases "bm_get (ca_operators cache) ?k")
    case (Some op')
    with run that(2) [OF Inr ok min] show thesis by simp
  next
    case None
    obtain ops lru where e: "evict (bm_insert ?k op (ca_operators cache)) (touch_lru ?k (ca_lru cache)) = (ops, lru)"
      by (rule prod.exhaust)
    from None run have "build_operator world a m = Inr op" by (auto split: sum.splits prod.splits)
    with None run e that(3) [OF Inr ok min None _ e] show thesis by simp
  qed
qed

lemma cache_get_wf:
  assumes "cache_wf ut parse_url ops cache" "cache_get ut parse_url world a m cache = (r, cache')"
  shows "cache_wf ut parse_url (ops @ [CacheGet world a m]) cache'"
  using assms(2)
proof (cases rule: cache_get_cases)
  case 1
  then show ?thesis using assms(1) by (auto simp: cache_wf_def intro: cached_from_mono)
next
  case (2 op)
  have "operator_identity ut m (as_revision a) \<in> set (map fst (ca_operators cache))"
    using 2(5) unfolding bm_keys_eq by simp
  with assms(1) 2 show ?thesis by (auto simp: cache_wf_def intro: cached_from_mono intro!: lru_of_touch simp del: set_map)
next
  case (3 op ops' lru')
  let ?k = "operator_identity ut m (as_revision a)"
  have wf: "lru_of (ca_operators cache) (ca_lru cache)" using assms(1) by (simp add: cache_wf_def)
  note new = evict_lru_of [OF lru_of_insert [OF wf] 3(7)]
  have "cached_from ut parse_url (ops @ [CacheGet world a m]) cache' key op'"
    if "bm_get ops' key = Some op'" for key op'
  proof (cases "key = ?k")
    case True
    then have "op' = op" using evict_get [OF 3(7) that] by (simp add: bm_get_insert)
    with True 3 show ?thesis by (auto simp: cached_from_def)
  next
    case False
    then have "bm_get (ca_operators cache) key = Some op'"
      using evict_get [OF 3(7) that] by (simp add: bm_get_insert)
    with assms(1) show ?thesis by (auto simp: cache_wf_def intro: cached_from_mono)
  qed
  with new 3(8) assms(1) show ?thesis by (auto simp: cache_wf_def)
qed

lemma cache_invalidate_wf:
  assumes "cache_wf ut parse_url ops cache"
  shows "cache_wf ut parse_url (ops @ [CacheInvalidate account r]) (cache_invalidate ut account r cache)"
proof -
  let ?P = "\<lambda>key. \<not> starts_with key (account_text ut account @ '':'')"
  have wf: "lru_of (ca_operators cache) (ca_lru cache)" "bm_wf (ca_operators cache)"
    and len: "length (ca_operators cache) \<le> MAX_CACHED_OPERATORS"
    using assms by (simp_all add: cache_wf_def lru_of_def)
  have "lru_of (filter (\<lambda>(k, _). ?P k) (ca_operators cache)) (filter ?P (ca_lru cache))"
    by (rule lru_of_filter [OF wf(1)])
  moreover have "length (filter (\<lambda>(k, _). ?P k) (ca_operators cache)) \<le> MAX_CACHED_OPERATORS"
    using len by (meson dual_order.trans length_filter_le)
  moreover have "cached_from ut parse_url (ops @ [CacheInvalidate account r]) cache' key op"
    if "bm_get (filter (\<lambda>(k, _). ?P k) (ca_operators cache)) key = Some op" for key op cache'
    using that assms by (auto simp: bm_get_filter [OF wf(2)] cache_wf_def intro: cached_from_mono split: option.splits if_splits)
  moreover have "\<exists>r'. ((ca_minimum cache)(account \<mapsto> (case ca_minimum cache account of
        Some current \<Rightarrow> max current r | None \<Rightarrow> r))) account' = Some r' \<and> q \<le> r'"
    if "CacheInvalidate account' q \<in> set (ops @ [CacheInvalidate account r])" for account' q
    using that assms by (fastforce simp: cache_wf_def max_def split: option.splits)
  ultimately show ?thesis by (simp add: cache_wf_def cache_invalidate_def Let_def)
qed

lemma cache_run_snoc: "cache_run ut parse_url (ops @ [x]) cache = cache_step ut parse_url x (cache_run ut parse_url ops cache)"
  by (simp add: cache_run_def)

lemma cache_run_wf: "cache_wf ut parse_url ops (cache_run ut parse_url ops cache_new)"
proof (induction ops rule: rev_induct)
  case Nil
  then show ?case by (simp add: cache_run_def cache_new_def cache_wf_def lru_of_def bm_get_def)
next
  case (snoc x ops)
  show ?case
  proof (cases x)
    case (CacheGet world a m)
    then show ?thesis using cache_get_wf [OF snoc] by (simp add: cache_run_snoc) (metis prod.collapse)
  next
    case (CacheInvalidate account r)
    then show ?thesis using cache_invalidate_wf [OF snoc] by (simp add: cache_run_snoc)
  next
    case CacheClear
    with snoc show ?thesis by (auto simp: cache_run_snoc cache_wf_def cache_clear_def lru_of_def bm_get_def)
  qed
qed

section \<open>Identities\<close>

lemma no_colon_split:
  assumes "x @ '':'' @ y = x' @ '':'' @ y'" "CHR '':'' \<notin> set x" "CHR '':'' \<notin> set x'"
  shows "x = x' \<and> y = y'"
proof -
  have "takeWhile (\<lambda>c. c \<noteq> CHR '':'') (z @ '':'' @ w) = z" "dropWhile (\<lambda>c. c \<noteq> CHR '':'') (z @ '':'' @ w) = '':'' @ w"
    if "CHR '':'' \<notin> set z" for z w
    using that by (auto simp: takeWhile_append dropWhile_append)
  with assms show ?thesis by (metis append_Cons append_Nil list.inject)
qed

lemma dec_inj: "dec m = dec n \<Longrightarrow> m = n"
proof (induction m arbitrary: n rule: dec.induct)
  case (1 m)
  have len: "length (dec k) \<noteq> 0" for k by (subst dec.simps) simp
  have k: "char_of (48 + i mod 10) = (char_of (48 + j mod 10) :: char) \<longleftrightarrow> i mod 10 = j mod 10" for i j :: nat
  proof -
    have "i mod 10 < 10" "j mod 10 < 10" by simp_all
    then have "byte (char_of (48 + i mod 10)) = 48 + i mod 10" "byte (char_of (48 + j mod 10)) = 48 + j mod 10"
      by simp_all
    then show ?thesis by (metis add_left_cancel)
  qed
  have d: "dec i = (if i < 10 then [] else dec (i div 10)) @ [char_of (48 + i mod 10)]" for i
    by (subst dec.simps) simp
  have e: "(if m < 10 then [] else dec (m div 10)) = (if n < 10 then [] else dec (n div 10))"
    "m mod 10 = n mod 10"
    using "1.prems" d [of m] d [of n] k [of m n] by simp_all
  show ?case
  proof (cases "m < 10")
    case True
    with e(1) len have "n < 10" by (metis list.size(3))
    with True e(2) show ?thesis by simp
  next
    case False
    with e(1) len have "\<not> n < 10" "dec (m div 10) = dec (n div 10)" by (metis list.size(3))+
    with "1.IH" False have "m div 10 = n div 10" by simp
    with e(2) show ?thesis by (metis div_mult_mod_eq)
  qed
qed

lemma host_label_no_colon: "host_label v \<Longrightarrow> CHR '':'' \<notin> set v"
  by (auto simp: host_label_def list_all_iff is_ascii_lowercase_def is_ascii_digit_def)

lemma validate_region_label: "validate_region v = Inr () \<Longrightarrow> host_label v"
  by (auto simp: validate_region_def)

lemma validate_bucket_name_label: "validate_bucket_name_for_provider p v = Inr () \<Longrightarrow> host_label v"
  by (auto simp: validate_bucket_name_for_provider_def validate_bucket_name_def)

lemma operator_identity_split:
  assumes "operator_identity ut m r = operator_identity ut m' r'"
    and "\<And>w. CHR '':'' \<notin> set (ut w)" "inj ut"
    and "validate_mount parse_url p m = Inr ()" "validate_mount parse_url p' m' = Inr ()"
  shows "om_account_id m = om_account_id m' \<and> r = r' \<and> om_bucket m = om_bucket m' \<and> om_region m = om_region m'"
proof -
  have labels: "CHR '':'' \<notin> set (om_bucket x)" "CHR '':'' \<notin> set (om_region x)"
    if "validate_mount parse_url q x = Inr ()" for q x
    using that by (auto simp: validate_mount_def dest!: validate_bucket_name_label validate_region_label
        host_label_no_colon)
  have id_text: "CHR '':'' \<notin> set (account_text ut (om_account_id x))" for x :: object_mount
    using assms(2) by (cases "om_account_id x") simp
  have num: "CHR '':'' \<notin> set (dec n)" for n
    using dec_digits [of "CHR '':''" n] by (auto simp: is_ascii_digit_def)
  note s1 = no_colon_split [OF assms(1) [unfolded operator_identity_def] id_text id_text]
  note s2 = no_colon_split [OF s1 [THEN conjunct2] num num]
  note s3 = no_colon_split [OF s2 [THEN conjunct2] labels(1) [OF assms(4)] labels(1) [OF assms(5)]]
  note s4 = no_colon_split [OF s3 [THEN conjunct2] labels(2) [OF assms(4)] labels(2) [OF assms(5)]]
  have "om_account_id m = om_account_id m'"
    using s1 assms(3) by (cases "om_account_id m"; cases "om_account_id m'") (auto dest: injD)
  moreover have "r = r'" using dec_inj [of "unat r" "unat r'"] s2 by (simp add: word_unat_eq_iff)
  ultimately show ?thesis using s3 s4 by simp
qed

end
