(* ===== verification/Object_Mounts.thy ===== *)
theory Object_Mounts
  imports Object_Service Object_Cache
begin

text \<open>
  What an accepted account guarantees: every bucket of it becomes a mount that the connector accepts,
  the official endpoints are accepted by the check of official endpoints, and no two mounts share the
  identity under which their operator is cached.
\<close>

section \<open>Official endpoints\<close>

lemma host_label_char:
  assumes "host_label v" "c \<in> set v"
  shows "byte c < 128" "c \<notin> set ''/?#@:.''" "ascii_lower c = c"
proof -
  have c: "is_ascii_lowercase c \<or> is_ascii_digit c \<or> c = CHR ''-''" "byte c < 128"
    using assms by (auto simp: host_label_def list_all_iff)
  then show "byte c < 128" "c \<notin> set ''/?#@:.''" "ascii_lower c = c"
    by (auto simp: is_ascii_lowercase_def is_ascii_digit_def ascii_lower_def is_ascii_uppercase_def)
qed

lemma validate_region_length: "validate_region v = Inr () \<Longrightarrow> length v \<le> MAX_OBJECT_STORAGE_REGION_BYTES"
  by (auto simp: validate_region_def os_required_single_line_def os_protocol_text_def split: if_splits)

lemma region_host_id: "validate_region region = Inr () \<Longrightarrow> region_host front back (front @ region @ back)"
  using host_label_char(2) [OF validate_region_label]
  by (auto simp: region_host_def cut_suffix_def suffix_def)

lemma official_parses:
  assumes "validate_region region = Inr ()" "front \<in> {''cos.'', ''oss-''}" "back \<in> {''.myqcloud.com'', ''.aliyuncs.com''}"
    and "p = TencentCos \<and> front = ''cos.'' \<and> back = ''.myqcloud.com''
       \<or> p = AliyunOss \<and> front = ''oss-'' \<and> back = ''.aliyuncs.com''"
  shows "parse_official p (''https://'' @ front @ region @ back) = Inr (''https://'' @ front @ region @ back)"
proof -
  let ?host = "front @ region @ back"
  note char = host_label_char [OF validate_region_label [OF assms(1)]]
  have trim: "trim_end_slash (''https://'' @ ?host) = ''https://'' @ ?host"
    using assms(3) by (auto simp: trim_end_slash_def)
  have len: "length (''https://'' @ ?host) \<le> MAX_OBJECT_STORAGE_ENDPOINT_BYTES"
    using assms(2,3) validate_region_length [OF assms(1)] by (auto simp: limits)
  have plain: "\<not> list_ex (\<lambda>c. c \<in> set ''/?#@:'') ?host" "list_all (\<lambda>b. byte b < 128) ?host"
    using assms(2,3) char(1,2) by (auto simp: list_ex_iff list_all_iff)
  have lower: "to_ascii_lowercase ?host = ?host"
    using assms(2,3) char(3) map_idI [of region ascii_lower]
    by (auto simp: to_ascii_lowercase_def ascii_lower_def is_ascii_uppercase_def)
  have strip: "strip_prefix ''https://'' (''https://'' @ ?host) = Some ?host" by (rule strip_prefix_append)
  have ne: "?host \<noteq> []" using assms(2) by auto
  have ok: "region_host front back ?host" by (rule region_host_id [OF assms(1)])
  show ?thesis
    unfolding parse_official_def Let_def trim
    using len plain lower ne ok assms(4) by (auto simp: strip simp del: strip_prefix.simps append.simps)
qed

lemma official_endpoint_accepted:
  assumes "validate_region region = Inr ()" "p \<noteq> S3Compatible"
  shows "\<exists>e. official_endpoint p region = Inr e \<and> parse_official p e = Inr e"
proof (cases p)
  case TencentCos
  then show ?thesis
    using official_parses [OF assms(1), of "''cos.''" "''.myqcloud.com''" p] by (simp add: official_endpoint_def)
next
  case AliyunOss
  then show ?thesis
    using official_parses [OF assms(1), of "''oss-''" "''.aliyuncs.com''" p] by (simp add: official_endpoint_def)
next
  case S3Compatible
  then show ?thesis using assms(2) by simp
qed

section \<open>Mounts of an accepted account\<close>

lemma check_duplicates_ok:
  "check_duplicates ids mounts bs = Inr () \<longleftrightarrow>
     distinct (map mb_id bs) \<and> distinct (map bucket_location bs)
     \<and> set ids \<inter> set (map mb_id bs) = {} \<and> set mounts \<inter> set (map bucket_location bs) = {}"
  by (induction bs arbitrary: ids mounts) auto

definition account_wf :: "(string \<Rightarrow> parsed_url option) \<Rightarrow> object_account \<Rightarrow> bool" where
  "account_wf parse_url a \<longleftrightarrow>
     (oa_provider a = S3Compatible \<longrightarrow>
        (\<exists>e e'. oa_s3_endpoint a = Some e \<and> parse_s3_compatible parse_url e = Inr e'))
     \<and> oa_manual_buckets a \<noteq> []
     \<and> (\<forall>b\<in>set (oa_manual_buckets a). validate_bucket_for_provider (oa_provider a) b = Inr ())
     \<and> distinct (map mb_id (oa_manual_buckets a)) \<and> distinct (map bucket_location (oa_manual_buckets a))"

lemma validate_account_wf: "validate_account parse_url a = Inr () \<Longrightarrow> account_wf parse_url a"
  by (auto simp: validate_account_def account_wf_def check_duplicates_ok check_endpoint_def
      split: if_splits option.splits)

lemma mount_of_bucket_ok:
  assumes "account_wf parse_url a" "b \<in> set (oa_manual_buckets a)"
  shows "\<exists>m. mount_of_bucket a b = Inr m \<and> validate_mount parse_url (oa_provider a) m = Inr ()"
proof -
  have b: "validate_bucket_for_provider (oa_provider a) b = Inr ()" using assms by (simp add: account_wf_def)
  then have parts: "validate_bucket_name_for_provider (oa_provider a) (mb_name b) = Inr ()"
    "validate_region (mb_region b) = Inr ()"
    "(case mb_root_prefix b of None \<Rightarrow> Inr () | Some p \<Rightarrow> validate_root_prefix p) = Inr ()"
    by (auto simp: validate_bucket_for_provider_def validate_bucket_def)
  show ?thesis
  proof (cases "oa_provider a = S3Compatible")
    case True
    with assms(1) parts show ?thesis
      by (auto simp: account_wf_def mount_of_bucket_def endpoint_for_account_def validate_mount_def)
  next
    case False
    from official_endpoint_accepted [OF parts(2) False] parts False show ?thesis
      by (auto simp: mount_of_bucket_def endpoint_for_account_def validate_mount_def)
  qed
qed

lemma mounts_in_order:
  "\<forall>b\<in>set bs. \<exists>m. mount_of_bucket a b = Inr m \<Longrightarrow>
   \<exists>ms. fold_r (\<lambda>mounts b. map_ok (\<lambda>m. mounts @ [m]) (mount_of_bucket a b)) acc bs = Inr (acc @ ms)
     \<and> list_all2 (\<lambda>b m. mount_of_bucket a b = Inr m) bs ms"
proof (induction bs arbitrary: acc)
  case Nil
  then show ?case by simp
next
  case (Cons b bs)
  then obtain m where m: "mount_of_bucket a b = Inr m" by auto
  from Cons obtain ms where "fold_r (\<lambda>mounts b. map_ok (\<lambda>m. mounts @ [m]) (mount_of_bucket a b)) (acc @ [m]) bs
      = Inr ((acc @ [m]) @ ms)" "list_all2 (\<lambda>b m. mount_of_bucket a b = Inr m) bs ms" by (metis list.set_intros(2))
  with m show ?case by (intro exI [of _ "m # ms"]) simp
qed

lemma mount_of_bucket_fields:
  assumes "mount_of_bucket a b = Inr m"
  shows "om_id m = mb_id b" "om_account_id m = oa_id a" "om_bucket m = mb_name b" "om_region m = mb_region b"
    "om_root_prefix m = mb_root_prefix b" "endpoint_for_account a (mb_region b) = Inr (om_endpoint m)"
  using assms by (auto simp: mount_of_bucket_def)

lemma same_identity_same_location:
  assumes "mount_of_bucket a b = Inr m" "mount_of_bucket a b' = Inr m'"
    and "validate_mount parse_url p m = Inr ()" "validate_mount parse_url p m' = Inr ()"
    and "operator_identity ut m r = operator_identity ut m' r"
  shows "bucket_location b = bucket_location b'"
proof -
  note f = mount_of_bucket_fields [OF assms(1)] and f' = mount_of_bucket_fields [OF assms(2)]
  have labels: "CHR '':'' \<notin> set (om_bucket x)" "CHR '':'' \<notin> set (om_region x)"
    if "validate_mount parse_url p x = Inr ()" for x
    using that by (auto simp: validate_mount_def dest!: validate_bucket_name_label validate_region_label
        host_label_no_colon)
  have tail: "om_bucket m @ '':'' @ om_region m @ '':'' @ om_endpoint m @ '':'' @
      (case om_root_prefix m of None \<Rightarrow> [] | Some p \<Rightarrow> p)
    = om_bucket m' @ '':'' @ om_region m' @ '':'' @ om_endpoint m' @ '':'' @
      (case om_root_prefix m' of None \<Rightarrow> [] | Some p \<Rightarrow> p)"
    using assms(5) f(2) f'(2) by (simp add: operator_identity_def)
  note s1 = no_colon_split [OF tail labels(1) [OF assms(3)] labels(1) [OF assms(4)]]
  note s2 = no_colon_split [OF s1 [THEN conjunct2] labels(2) [OF assms(3)] labels(2) [OF assms(4)]]
  have "om_endpoint m = om_endpoint m'" using f(4,6) f'(4,6) s2 by simp
  with s1 s2 f f' show ?thesis by (simp add: bucket_location_def)
qed

lemma configured_mounts_ok:
  assumes "account_wf parse_url a"
  shows "\<exists>ms. configured_mounts a = Inr ms \<and> ms \<noteq> []
    \<and> (\<forall>m\<in>set ms. om_account_id m = oa_id a \<and> validate_mount parse_url (oa_provider a) m = Inr ())
    \<and> mset (map om_id ms) = mset (map mb_id (oa_manual_buckets a))
    \<and> distinct (map (\<lambda>m. operator_identity ut m r) ms)"
proof -
  let ?bs = "oa_manual_buckets a" and ?id = "\<lambda>m. operator_identity ut m r"
    and ?key = "\<lambda>m. (om_bucket m, om_region m, om_root_prefix m)"
  note each = mount_of_bucket_ok [OF assms]
  obtain ms where ms: "fold_r (\<lambda>mounts b. map_ok (\<lambda>m. mounts @ [m]) (mount_of_bucket a b)) [] ?bs = Inr ms"
    and all: "list_all2 (\<lambda>b m. mount_of_bucket a b = Inr m) ?bs ms"
    using mounts_in_order [of ?bs a "[]"] each by auto
  have len: "length ms = length ?bs" using all by (simp add: list_all2_lengthD)
  have nth: "mount_of_bucket a (?bs ! i) = Inr (ms ! i)" if "i < length ?bs" for i
    using all that by (simp add: list_all2_conv_all_nth)
  have ok: "validate_mount parse_url (oa_provider a) (ms ! i) = Inr ()" if "i < length ?bs" for i
    using each [of "?bs ! i"] nth [OF that] that by auto
  have "distinct (map ?id ms)"
  proof (rule distinct_conv_nth [THEN iffD2], intro allI impI)
    fix i j assume ij: "i < length (map ?id ms)" "j < length (map ?id ms)" "i \<noteq> j"
    have "bucket_location (?bs ! i) \<noteq> bucket_location (?bs ! j)"
      using assms ij len by (simp add: account_wf_def distinct_conv_nth)
    then show "map ?id ms ! i \<noteq> map ?id ms ! j"
      using same_identity_same_location [OF nth nth ok ok, of i j ut r] ij len by auto
  qed
  then have "distinct (map ?id (sort_key ?key ms))"
    by (simp add: distinct_map)
  moreover have "map om_id ms = map mb_id ?bs"
  proof (rule nth_equalityI)
    show "length (map om_id ms) = length (map mb_id ?bs)" using len by simp
    fix i assume "i < length (map om_id ms)"
    then have i: "i < length ?bs" "i < length ms" using len by simp_all
    show "map om_id ms ! i = map mb_id ?bs ! i"
      unfolding nth_map [OF i(1)] nth_map [OF i(2)] by (rule mount_of_bucket_fields(1) [OF nth [OF i(1)]])
  qed
  then have "mset (map om_id (sort_key ?key ms)) = mset (map mb_id ?bs)"
    unfolding mset_map mset_sort by (simp only: mset_map [symmetric])
  moreover have "om_account_id m = oa_id a \<and> validate_mount parse_url (oa_provider a) m = Inr ()"
    if "m \<in> set (sort_key ?key ms)" for m
  proof -
    have "m \<in> set ms" using that by (simp only: set_sort)
    then obtain i where i: "i < length ?bs" "m = ms ! i" unfolding in_set_conv_nth len by blast
    show ?thesis unfolding i(2)
      by (intro conjI mount_of_bucket_fields(2) [OF nth [OF i(1)]] ok [OF i(1)])
  qed
  moreover have "ms \<noteq> []" using assms len by (auto simp: account_wf_def)
  then have "sort_key ?key ms \<noteq> []" unfolding set_empty [symmetric] set_sort .
  moreover have "configured_mounts a = Inr (sort_key ?key ms)" by (simp add: configured_mounts_def ms)
  ultimately show ?thesis by blast
qed

end
