(* ===== verification/Object_Cursors.thy ===== *)
theory Object_Cursors
  imports Object_Listing
begin

text \<open>
  The cursor store over any sequence of calls: it never holds more than its limit, and a cursor that a
  call accepts was issued by an earlier call in the same context and has not been accepted since.
\<close>

section \<open>Calls\<close>

record list_call =
  lc_world :: od_world
  lc_now :: nat
  lc_later :: nat
  lc_fresh :: string
  lc_operator :: operator
  lc_account :: account_snapshot
  lc_mount :: object_mount
  lc_query :: object_list_query
  lc_cursor :: "string option"
  lc_generation :: u64

datatype cursor_op = ListPage list_call | DropAccount string | DropAll

fun cursor_step ::
  "(128 word \<Rightarrow> string) \<Rightarrow> cursor_op \<Rightarrow> cursor_store \<Rightarrow> (object_storage_error + object_page) option \<times> cursor_store" where
  "cursor_step ut (ListPage c) store =
     (let (r, store') = list_page ut (lc_world c) (lc_now c) (lc_later c) (lc_fresh c) (lc_operator c)
          (lc_account c) (lc_mount c) (lc_query c) (lc_cursor c) (lc_generation c) store
      in (Some r, store'))"
| "cursor_step ut (DropAccount account) store = (None, invalidate_cursors account store)"
| "cursor_step ut DropAll store = (None, [])"

text \<open>The calls with their answers, the latest first, and the store they leave.\<close>

type_synonym cursor_history = "(cursor_op \<times> (object_storage_error + object_page) option) list"

definition cursor_run :: "(128 word \<Rightarrow> string) \<Rightarrow> cursor_op list \<Rightarrow> cursor_history \<times> cursor_store" where
  "cursor_run ut ops =
     fold (\<lambda>x (h, store). let (r, store') = cursor_step ut x store in ((x, r) # h, store')) ops ([], [])"

text \<open>A call that issued a cursor, and a call that accepted one.\<close>

definition issued :: "string \<Rightarrow> list_call \<Rightarrow> cursor_op \<times> (object_storage_error + object_page) option \<Rightarrow> bool" where
  "issued cursor c e \<longleftrightarrow> (\<exists>page. e = (ListPage c, Some (Inr page)) \<and> pg_next_cursor page = Some cursor)"

definition accepted :: "string \<Rightarrow> cursor_op \<times> (object_storage_error + object_page) option \<Rightarrow> bool" where
  "accepted cursor e \<longleftrightarrow> (\<exists>c page. e = (ListPage c, Some (Inr page)) \<and> lc_cursor c = Some cursor)"

definition same_context :: "(128 word \<Rightarrow> string) \<Rightarrow> list_call \<Rightarrow> list_call \<Rightarrow> bool" where
  "same_context ut c d \<longleftrightarrow>
     account_text ut (as_id (lc_account c)) = account_text ut (as_id (lc_account d))
     \<and> as_revision (lc_account c) = as_revision (lc_account d)
     \<and> mount_text ut (om_id (lc_mount c)) = mount_text ut (om_id (lc_mount d))
     \<and> lq_list_prefix (lc_query c) = lq_list_prefix (lc_query d)
     \<and> lc_generation c = lc_generation d"

text \<open>What a stored cursor rests on.\<close>

definition stored_from :: "(128 word \<Rightarrow> string) \<Rightarrow> cursor_history \<Rightarrow> string \<Rightarrow> cursor_state \<Rightarrow> bool" where
  "stored_from ut h cursor s \<longleftrightarrow>
     (\<exists>later e earlier c. h = later @ e # earlier \<and> issued cursor c e
        \<and> (\<forall>x\<in>set later. \<not> accepted cursor x) \<and> cu_last_used s = lc_later c
        \<and> in_context ut (lc_account c) (lc_mount c) (lq_list_prefix (lc_query c)) (lc_generation c) s)"

definition cursors_wf :: "(128 word \<Rightarrow> string) \<Rightarrow> cursor_history \<Rightarrow> cursor_store \<Rightarrow> bool" where
  "cursors_wf ut h store \<longleftrightarrow>
     bm_wf store \<and> length store \<le> MAX_CURSORS
     \<and> (\<forall>cursor s. bm_get store cursor = Some s \<longrightarrow> stored_from ut h cursor s)"

section \<open>Laws\<close>

lemma stored_from_Cons:
  "stored_from ut h cursor s \<Longrightarrow> \<not> accepted cursor x \<Longrightarrow> stored_from ut (x # h) cursor s"
  unfolding stored_from_def by (metis append_Cons set_ConsD)

lemma min_by_key_in: "min_by_key f xs = Some x \<Longrightarrow> x \<in> set xs"
  by (induction xs arbitrary: x) (auto split: option.splits if_splits)

lemma min_by_key_None: "min_by_key f xs = None \<longleftrightarrow> xs = []"
  by (cases xs) (auto split: option.splits)

lemma insert_cursor_length:
  assumes "bm_wf store" "length store \<le> MAX_CURSORS"
  shows "length (insert_cursor c s store) \<le> MAX_CURSORS"
proof (cases "MAX_CURSORS \<le> length store")
  case False
  then show ?thesis using length_bm_insert_le [of c s store] by (simp add: insert_cursor_def)
next
  case True
  then have "store \<noteq> []" by (auto simp: limits)
  then obtain k v where m: "min_by_key (\<lambda>(_, s). cu_last_used s) store = Some (k, v)"
    using min_by_key_None by (metis not_Some_eq surj_pair)
  then have "(k, v) \<in> set (store)" by (rule min_by_key_in)
  then have "length (bm_remove k store) < length store"
    unfolding bm_remove_def by (intro length_filter_less) auto
  with True m assms(2) length_bm_insert_le [of c s "bm_remove k store"] show ?thesis
    by (simp add: insert_cursor_def)
qed

lemma insert_cursor_others:
  "bm_get (insert_cursor c s store) d = Some t \<Longrightarrow> d = c \<and> t = s \<or> bm_get store d = Some t"
  by (auto simp: insert_cursor_def bm_get_insert bm_get_remove split: if_splits option.splits)

lemma open_cursor_store:
  assumes "open_cursor ut world now op a m front cursor g store = (r, store1)" "bm_wf store"
  shows "length store1 \<le> length store"
    and "bm_get store1 d = Some s \<Longrightarrow> bm_get store d = Some s"
    and "r = Inr t \<Longrightarrow> cursor = Some d \<Longrightarrow> bm_get store1 d = None"
proof -
  show "length store1 \<le> length store"
    using assms(1) unfolding open_cursor_def invalidate_mount_def take_bound_def bm_remove_def Let_def
    by (auto split: option.splits intro: order.trans [OF length_filter_le])
  show "bm_get store1 d = Some s \<Longrightarrow> bm_get store d = Some s"
    using assms unfolding open_cursor_def invalidate_mount_def take_bound_def Let_def
    by (auto simp: bm_get_filter bm_get_remove bm_filter_wf split: option.splits if_splits)
  show "r = Inr t \<Longrightarrow> cursor = Some d \<Longrightarrow> bm_get store1 d = None"
    using assms unfolding open_cursor_def take_bound_def Let_def
    by (auto simp: bm_get_remove split: option.splits if_splits)
qed

lemma open_cursor_context:
  assumes "open_cursor ut world now op a m front cursor g store = (Inr s, store1)" "bm_wf store"
  shows "in_context ut a m front g s"
  using assms by (auto simp: open_cursor_def in_context_def dest!: take_bound_ok split: option.splits sum.splits)

lemma cut_page_store:
  assumes "cut_page now fresh s es store = (r, store')"
  shows "(\<exists>page. r = Inr page \<and> pg_next_cursor page = None) \<and> store' = store
    \<or> (\<exists>page s'. r = Inr page \<and> pg_next_cursor page = Some fresh \<and> store' = insert_cursor fresh s' store
        \<and> cu_last_used s' = now \<and> (\<forall>ut a m front g. in_context ut a m front g s \<longrightarrow> in_context ut a m front g s'))"
proof -
  define es' where "es' = (if MAX_OBJECT_STORAGE_WORKSPACE_ENTRIES < cu_emitted s + length es
    then take (MAX_OBJECT_STORAGE_WORKSPACE_ENTRIES - cu_emitted s) es else es)"
  define s' where "s' = s\<lparr>cu_pending := Some (last es'), cu_emitted := cu_emitted s + length (butlast es'),
    cu_last_used := now\<rparr>"
  have ctx: "in_context ut a m front g s \<longrightarrow> in_context ut a m front g s'" "cu_last_used s' = now"
    for ut a m front g by (simp_all add: in_context_def s'_def)
  show ?thesis
  proof (cases "MAX_OBJECT_STORAGE_PAGE_ENTRIES < length es'
      \<and> \<not> MAX_OBJECT_STORAGE_WORKSPACE_ENTRIES < cu_emitted s + length es")
    case True
    then have c: "\<not> MAX_OBJECT_STORAGE_WORKSPACE_ENTRIES < cu_emitted s + length es" by (rule conjunct2)
    then have e: "es' = es" by (simp only: es'_def if_False)
    have l: "MAX_OBJECT_STORAGE_PAGE_ENTRIES < length es" using True unfolding e by (rule conjunct1)
    have "cut_page now fresh s es store =
        (Inr \<lparr>pg_entries = butlast es', pg_next_cursor = Some fresh, pg_capped = False\<rparr>,
         insert_cursor fresh s' store)"
      unfolding cut_page_def Let_def s'_def e using c l
      by (simp only: if_False if_True if_P if_not_P prod.case simp_thms not_False_eq_True)
    with assms have "r = Inr \<lparr>pg_entries = butlast es', pg_next_cursor = Some fresh, pg_capped = False\<rparr>"
      "store' = insert_cursor fresh s' store" by simp_all
    then show ?thesis using ctx
      by (intro disjI2 exI [of _ "\<lparr>pg_entries = butlast es', pg_next_cursor = Some fresh, pg_capped = False\<rparr>"]
          exI [of _ s']) simp
  next
    case False
    then have "snd (cut_page now fresh s es store) = store"
      "\<exists>page. fst (cut_page now fresh s es store) = Inr page \<and> pg_next_cursor page = None"
      unfolding cut_page_def Let_def es'_def by (auto split: prod.splits)
    with assms show ?thesis by auto
  qed
qed

lemma list_page_cases:
  assumes "list_page ut world now later fresh op a m query cursor g store = (r, store')"
  obtains e where "r = Inl e" "store' = store"
  | e store1 r1 where "open_cursor ut world now op a m (lq_list_prefix query) cursor g store = (r1, store1)"
      "r = Inl e" "store' = store1"
  | s es rest store1 where
      "open_cursor ut world now op a m (lq_list_prefix query) cursor g store = (Inr s, store1)"
      "cut_page later fresh (s\<lparr>cu_pending := None, cu_lister := rest\<rparr>) es store1 = (r, store')"
proof (cases "open_cursor ut world now op a m (lq_list_prefix query) cursor g store")
  case (Pair r1 store1)
  show thesis
    using assms Pair that unfolding list_page_def bind_s_def lift_r_def ensure_def
    by (auto split: if_splits sum.splits prod.splits)
qed

lemma list_page_wf:
  assumes wf: "cursors_wf ut h store"
    and page: "list_page ut (lc_world c) (lc_now c) (lc_later c) (lc_fresh c) (lc_operator c)
      (lc_account c) (lc_mount c) (lc_query c) (lc_cursor c) (lc_generation c) store = (r, store')"
  shows "cursors_wf ut ((ListPage c, Some r) # h) store'"
proof -
  let ?x = "(ListPage c, Some r)"
  have w: "bm_wf store" "length store \<le> MAX_CURSORS" using wf by (simp_all add: cursors_wf_def)
  have old: "stored_from ut h d s" if "bm_get store d = Some s" for d s
    using wf that by (simp add: cursors_wf_def)
  from page show ?thesis
  proof (cases rule: list_page_cases)
    case (1 e)
    then have "\<not> accepted d ?x" for d by (simp add: accepted_def)
    with 1 w old show ?thesis by (simp add: cursors_wf_def stored_from_Cons)
  next
    case (2 e store1 r1)
    then have "\<not> accepted d ?x" for d by (simp add: accepted_def)
    with 2 w old open_cursor_store(1,2) [OF 2(1) w(1)] open_cursor_wf [OF 2(1) w(1)] show ?thesis
      by (auto simp: cursors_wf_def stored_from_Cons)
  next
    case (3 s es rest store1)
    note o = open_cursor_store [OF 3(1) w(1)]
    have wf1: "bm_wf store1" "length store1 \<le> MAX_CURSORS"
      using open_cursor_wf [OF 3(1) w(1)] o(1) w(2) by simp_all
    have kept: "stored_from ut (?x # h) d t" if "bm_get store1 d = Some t" for d t
    proof -
      have "\<not> accepted d ?x" using o(3) [OF refl, of d] that by (auto simp: accepted_def)
      with old [OF o(2) [OF that]] show ?thesis by (rule stored_from_Cons)
    qed
    have ctx: "in_context ut (lc_account c) (lc_mount c) (lq_list_prefix (lc_query c)) (lc_generation c)
        (s\<lparr>cu_pending := None, cu_lister := rest\<rparr>)"
      using open_cursor_context [OF 3(1) w(1)] by (simp add: in_context_def)
    from cut_page_store [OF 3(2)] show ?thesis
    proof (elim disjE exE conjE)
      fix page
      assume "store' = store1"
      with wf1 kept show ?thesis by (simp add: cursors_wf_def)
    next
      fix page s'
      assume new: "r = Inr page" "pg_next_cursor page = Some (lc_fresh c)"
        "store' = insert_cursor (lc_fresh c) s' store1" "cu_last_used s' = lc_later c"
        "\<forall>ut a m front g. in_context ut a m front g (s\<lparr>cu_pending := None, cu_lister := rest\<rparr>) \<longrightarrow>
           in_context ut a m front g s'"
      have "stored_from ut (?x # h) (lc_fresh c) s'"
        unfolding stored_from_def
        by (rule exI [of _ "[]"], rule exI [of _ ?x]) (use new ctx in \<open>auto simp: issued_def\<close>)
      then have "stored_from ut (?x # h) d t" if "bm_get store' d = Some t" for d t
        using insert_cursor_others [OF that [unfolded new(3)]] kept by auto
      with new(3) wf1 show ?thesis
        by (simp add: cursors_wf_def insert_cursor_wf insert_cursor_length)
    qed
  qed
qed

lemma cursor_run_snoc:
  "cursor_run ut (ops @ [x]) =
     (let (h, store) = cursor_run ut ops; (r, store') = cursor_step ut x store in ((x, r) # h, store'))"
  by (simp add: cursor_run_def split: prod.splits)

lemma cursor_run_wf: "cursor_run ut ops = (h, store) \<Longrightarrow> cursors_wf ut h store"
proof (induction ops arbitrary: h store rule: rev_induct)
  case Nil
  then show ?case by (simp add: cursor_run_def cursors_wf_def bm_get_def)
next
  case (snoc x ops)
  obtain h0 store0 where run: "cursor_run ut ops = (h0, store0)" by (rule prod.exhaust)
  note wf = snoc.IH [OF run]
  show ?case
  proof (cases x)
    case (ListPage c)
    then show ?thesis using snoc.prems run list_page_wf [OF wf, of c]
      by (auto simp: cursor_run_snoc Let_def split: prod.splits)
  next
    case (DropAccount account)
    then have "\<not> accepted d (x, None)" for d by (simp add: accepted_def)
    with DropAccount snoc.prems run wf show ?thesis
      by (auto simp: cursor_run_snoc cursors_wf_def invalidate_cursors_def bm_filter_wf bm_get_filter
          stored_from_Cons intro: order.trans [OF length_filter_le] split: option.splits if_splits)
  next
    case DropAll
    with snoc.prems run show ?thesis by (auto simp: cursor_run_snoc cursors_wf_def bm_get_def)
  qed
qed

end
