(* ===== verification/Object_Data_Laws.thy ===== *)
theory Object_Data_Laws
  imports Object_Transfer
begin

text \<open>
  Laws of the data operations of the object storage connector: what a cut through encoded text leaves,
  and what a download does to the file at its target while other processes work on the same files.
\<close>

section \<open>Cutting encoded text\<close>

text \<open>The number of continuation bytes that a leading byte announces.\<close>

definition announced :: "char \<Rightarrow> nat" where
  "announced b = (if byte b < 0xC0 then 0 else if byte b < 0xE0 then 1 else if byte b < 0xF0 then 2 else 3)"

lemma utf8_enc_announced:
  assumes "is_scalar c" "utf8_enc c = b # bs"
  shows "length bs = announced b"
proof -
  have top: "c div 262144 < 5" using assms(1) by (auto simp: is_scalar_def)
  consider "c < 0x80" | "0x80 \<le> c" "c < 0x800" | "0x800 \<le> c" "c < 0x10000" | "0x10000 \<le> c"
    by linarith
  then show ?thesis
  proof cases
    case 1
    then show ?thesis using assms(2) by (auto simp: utf8_enc_def announced_def)
  next
    case 2
    then have "c div 64 < 32" by auto
    then show ?thesis using 2 assms(2) by (auto simp: utf8_enc_def announced_def)
  next
    case 3
    then have "c div 4096 < 16" by auto
    then show ?thesis using 3 assms(2) by (auto simp: utf8_enc_def announced_def)
  next
    case 4
    then show ?thesis using top assms(2) by (auto simp: utf8_enc_def announced_def)
  qed
qed

text \<open>What follows a whole text inside a longer one starts a character.\<close>

lemma utf8_prefix_rest:
  assumes "list_all is_scalar ds" "list_all is_scalar cs" "utf8 ds @ r = utf8 cs" "r \<noteq> []"
  shows "\<not> is_cont (hd r)"
  using assms
proof (induction ds arbitrary: cs)
  case Nil
  then obtain c cs' where "cs = c # cs'" by (cases cs) auto
  moreover from this have "is_scalar c" using Nil.prems(2) by simp
  then obtain b bs where "utf8_enc c = b # bs" "\<not> is_cont b" by (rule utf8_enc_shape)
  ultimately show ?case using Nil.prems(3) by simp
next
  case (Cons d ds)
  then have d: "is_scalar d" by simp
  then obtain b bs where enc: "utf8_enc d = b # bs" by (rule utf8_enc_shape)
  then obtain c cs' where cs: "cs = c # cs'" using Cons.prems(3) by (cases cs) auto
  then have c: "is_scalar c" using Cons.prems(2) by simp
  then obtain b' bs' where enc': "utf8_enc c = b' # bs'" by (rule utf8_enc_shape)
  have eq: "b = b'" "bs @ (utf8 ds @ r) = bs' @ utf8 cs'"
    using Cons.prems(3) cs enc enc' by simp_all
  have "length bs = length bs'"
    using utf8_enc_announced [OF d enc] utf8_enc_announced [OF c enc'] eq(1) by simp
  with eq(2) have "utf8 ds @ r = utf8 cs'" by simp
  then show ?case using Cons.IH [of cs'] Cons.prems(1,2,4) cs by simp
qed

lemma utf8_cut:
  assumes "is_utf8 s" "i < length s"
  shows "is_utf8 (take i s) \<longleftrightarrow> \<not> is_cont (s ! i)"
proof
  obtain cs where cs: "list_all is_scalar cs" "s = utf8 cs" using assms(1) by (auto simp: is_utf8_def)
  show "is_utf8 (take i s)" if n: "\<not> is_cont (s ! i)"
  proof -
    have "is_char_boundary (utf8 cs) i" using n assms(2) cs(2) by (simp add: is_char_boundary_def)
    from boundary_take [OF cs(1) this] obtain k where "take i s = utf8 (take k cs)" using cs(2) by auto
    moreover have "list_all is_scalar (take k cs)" using cs(1) by (metis append_take_drop_id list_all_append)
    ultimately show ?thesis by (simp add: is_utf8I)
  qed
  show "\<not> is_cont (s ! i)" if u: "is_utf8 (take i s)"
  proof -
    obtain ds where ds: "list_all is_scalar ds" "take i s = utf8 ds" using u by (auto simp: is_utf8_def)
    have "utf8 ds @ drop i s = utf8 cs" using ds(2) cs(2) by (metis append_take_drop_id)
    then have "\<not> is_cont (hd (drop i s))" using ds(1) cs(1) assms(2) by (intro utf8_prefix_rest) auto
    with assms(2) show ?thesis by (simp add: hd_drop_conv_nth)
  qed
qed

section \<open>The file system calls\<close>

text \<open>What a file would hold if only the other processes worked on it: the changes of the turns that
  the calls have taken.\<close>

definition others :: "fs_path \<Rightarrow> fs_turn list \<Rightarrow> fs_node option \<Rightarrow> fs_node option" where
  "others p turns n =
     fold (\<lambda>t n. fold (\<lambda>(q, v) n. if q = p then v else n) (tu_changes t) n) turns n"

lemma apply_changes_at:
  "apply_changes cs nodes p = fold (\<lambda>(q, v) n. if q = p then v else n) cs (nodes p)"
  unfolding apply_changes_def by (induction cs arbitrary: nodes) auto

lemma others_append: "others p (ts @ us) n = others p us (others p ts n)"
  by (simp add: others_def)

lemma others_single: "others p [t] (nodes p) = apply_changes (tu_changes t) nodes p"
  by (simp add: others_def apply_changes_at)

lemma change_kind: "(\<forall>n. fold (\<lambda>(q, v) n. if q = p then v else n) cs n = n)
    \<or> (\<exists>v. \<forall>n. fold (\<lambda>(q, v) n. if q = p then v else n) cs n = v)"
proof (induction cs)
  case (Cons c cs)
  then show ?case by (cases c) auto
qed simp

text \<open>The temporary file belongs to the download.\<close>

definition leaves_alone :: "fs_path \<Rightarrow> fs_turn list \<Rightarrow> bool" where
  "leaves_alone p turns \<longleftrightarrow> (\<forall>t\<in>set turns. p \<notin> fst ` set (tu_changes t))"

lemma leaves_alone_changes: "p \<notin> fst ` set cs \<Longrightarrow> apply_changes cs nodes p = nodes p"
  unfolding apply_changes_at by (induction cs) auto

lemma fs_call_cases:
  assumes "fs_call act fs = (r, fs')"
  obtains used nodes where "lf_turns fs = used @ lf_turns fs'"
    "\<And>p. nodes p = others p used (lf_nodes fs p)"
    "\<And>p. leaves_alone p (lf_turns fs) \<Longrightarrow> nodes p = lf_nodes fs p"
    "(\<exists>e. r = Inl e) \<and> lf_nodes fs' = nodes \<or> act nodes = (r, lf_nodes fs')"
proof (cases "lf_turns fs")
  case Nil
  with assms show thesis
    by (intro that [of "[]" "lf_nodes fs"]) (auto simp: fs_call_def others_def split: prod.splits)
next
  case (Cons t ts)
  with assms show thesis
    by (intro that [of "[t]" "apply_changes (tu_changes t) (lf_nodes fs)"])
      (auto simp: fs_call_def Let_def others_single leaves_alone_def leaves_alone_changes
        split: prod.splits option.splits)
qed

text \<open>While a download has only worked on its temporary file, the target holds what the others put
  there.\<close>

definition keeps :: "fs_path \<Rightarrow> fs_path \<Rightarrow> local_fs \<Rightarrow> local_fs \<Rightarrow> fs_node option \<Rightarrow> bool" where
  "keeps temporary target fs0 fs d \<longleftrightarrow>
     leaves_alone temporary (lf_turns fs)
     \<and> (\<exists>used. lf_turns fs0 = used @ lf_turns fs \<and> lf_nodes fs target = others target used (lf_nodes fs0 target))
     \<and> lf_nodes fs temporary = d"

lemma keeps_call:
  assumes "keeps temporary target fs0 fs d" "fs_call act fs = (r, fs')"
    and "\<And>n r n'. act n = (r, n') \<Longrightarrow> n' target = n target"
  obtains nodes where "nodes temporary = d" "keeps temporary target fs0 fs' (lf_nodes fs' temporary)"
    "(\<exists>e. r = Inl e) \<and> lf_nodes fs' = nodes \<or> act nodes = (r, lf_nodes fs')"
proof -
  obtain used nodes where c: "lf_turns fs = used @ lf_turns fs'"
    "\<And>p. nodes p = others p used (lf_nodes fs p)" "\<And>p. leaves_alone p (lf_turns fs) \<Longrightarrow> nodes p = lf_nodes fs p"
    "(\<exists>e. r = Inl e) \<and> lf_nodes fs' = nodes \<or> act nodes = (r, lf_nodes fs')"
    using fs_call_cases [OF assms(2)] by blast
  obtain used0 where u: "lf_turns fs0 = used0 @ lf_turns fs"
    "lf_nodes fs target = others target used0 (lf_nodes fs0 target)"
    and alone: "leaves_alone temporary (lf_turns fs)" and d: "lf_nodes fs temporary = d"
    using assms(1) by (auto simp: keeps_def)
  have "lf_nodes fs' target = nodes target" using c(4) assms(3) by blast
  then have "lf_nodes fs' target = others target (used0 @ used) (lf_nodes fs0 target)"
    by (simp add: c(2) u(2) others_append)
  moreover have "leaves_alone temporary (lf_turns fs')" using alone c(1) by (auto simp: leaves_alone_def)
  ultimately have "keeps temporary target fs0 fs' (lf_nodes fs' temporary)"
    using u(1) c(1) by (auto simp: keeps_def)
  with c(3) [OF alone] d c(4) show thesis by (intro that [of nodes]) auto
qed

lemma io_step_call:
  assumes "io_step operation act t = (r, t')"
  obtains q where "fs_call act (tr_fs t) = (q, tr_fs t')" "r = map_err (os_map_io operation) q"
  using assms by (auto simp: io_step_def split: prod.splits)

lemma keeps_step:
  assumes "keeps temporary target fs0 (tr_fs t) d" "io_step operation act t = (r, t')"
    and "\<And>n r n'. act n = (r, n') \<Longrightarrow> n' target = n target"
  obtains nodes where "nodes temporary = d" "keeps temporary target fs0 (tr_fs t') (lf_nodes (tr_fs t') temporary)"
    "\<forall>u. r = Inr u \<longrightarrow> act nodes = (Inr u, lf_nodes (tr_fs t'))"
proof -
  obtain q where q: "fs_call act (tr_fs t) = (q, tr_fs t')" "r = map_err (os_map_io operation) q"
    using io_step_call [OF assms(2)] .
  from assms(1) q(1) assms(3) obtain nodes where "nodes temporary = d"
    "keeps temporary target fs0 (tr_fs t') (lf_nodes (tr_fs t') temporary)"
    "(\<exists>e. q = Inl e) \<and> lf_nodes (tr_fs t') = nodes \<or> act nodes = (q, lf_nodes (tr_fs t'))"
    by (rule keeps_call)
  with q(2) show thesis by (intro that [of nodes]) (cases q; auto)+
qed

lemmas fs_acts = fs_metadata_def fs_create_new_def fs_append_def fs_sync_def fs_remove_def fs_hard_link_def

section \<open>Downloads\<close>

text \<open>What a stream delivers.\<close>

definition stream_data :: "(bool \<times> (io_kind + string)) list \<Rightarrow> string" where
  "stream_data items = concat (map (\<lambda>(_, item). case item of Inr chunk \<Rightarrow> chunk | Inl _ \<Rightarrow> []) items)"

lemma stream_data_simps [simp]:
  "stream_data [] = []"
  "stream_data ((c, Inr chunk) # items) = chunk @ stream_data items"
  by (simp_all add: stream_data_def)

lemma download_loop_keeps:
  assumes "download_loop items temporary overall transferred t = (r, t')" "temporary \<noteq> target"
    and "keeps temporary target fs0 (tr_fs t) (Some (FileNode x))"
  shows "\<exists>d. keeps temporary target fs0 (tr_fs t') d
    \<and> (r = Inr () \<longrightarrow> d = Some (FileNode (x @ stream_data items)))"
  using assms(1,3)
proof (induction items arbitrary: transferred t x)
  case Nil
  then show ?case by auto
next
  case (Cons i items)
  obtain c item where i: "i = (c, item)" by (cases i)
  show ?case
  proof (cases "c \<or> (\<exists>e. item = Inl e)")
    case True
    then have "t' = t" "r \<noteq> Inr ()" using Cons.prems(1) i by (cases c; auto)+
    with Cons.prems(2) show ?thesis by auto
  next
    case False
    then obtain chunk where item: "\<not> c" "item = Inr chunk" by (cases item) auto
    obtain q t1 where step: "io_step ''download'' (fs_append temporary chunk) t = (q, t1)" by (rule prod.exhaust)
    have same: "fs_append temporary chunk n = (u, n') \<Longrightarrow> n' target = n target" for n u n'
      using assms(2) by (auto simp: fs_append_def split: option.splits fs_node.splits)
    from Cons.prems(2) step same obtain nodes where nodes: "nodes temporary = Some (FileNode x)"
      "keeps temporary target fs0 (tr_fs t1) (lf_nodes (tr_fs t1) temporary)"
      "\<forall>u. q = Inr u \<longrightarrow> fs_append temporary chunk nodes = (Inr u, lf_nodes (tr_fs t1))"
      by (rule keeps_step)
    show ?thesis
    proof (cases q)
      case (Inl e)
      then have "t' = t1" "r = Inl e" using Cons.prems(1) i item step by (auto simp: bind_s_def)
      with nodes(2) show ?thesis by auto
    next
      case (Inr u)
      define k where "k = sat_add transferred (of_nat (length chunk))"
      have "lf_nodes (tr_fs t1) = nodes(temporary \<mapsto> FileNode (x @ chunk))"
        using nodes(1) nodes(3) Inr by (simp add: fs_append_def)
      then have "lf_nodes (tr_fs t1) temporary = Some (FileNode (x @ chunk))" by simp
      then have keep: "keeps temporary target fs0 (tr_fs (report_progress k overall t1)) (Some (FileNode (x @ chunk)))"
        using nodes(2) by (simp add: report_progress_def)
      have "download_loop items temporary overall k (report_progress k overall t1) = (r, t')"
        using Cons.prems(1) i item step Inr by (simp add: bind_s_def k_def Let_def)
      from Cons.IH [OF this keep] show ?thesis using i item by simp
    qed
  qed
qed

lemma download_to_temp_keeps:
  assumes "download_to_temp ev temporary overall t = (r, t')" "temporary \<noteq> target"
    and "keeps temporary target fs0 (tr_fs t) d"
  shows "\<exists>d'. keeps temporary target fs0 (tr_fs t') d'
    \<and> (r = Inr () \<longrightarrow> d' = Some (FileNode (stream_data (de_stream ev))))"
proof -
  obtain q t1 where create: "io_step ''download'' (fs_create_new temporary) t = (q, t1)" by (rule prod.exhaust)
  have same: "fs_create_new temporary n = (u, n') \<Longrightarrow> n' target = n target" for n u n'
    using assms(2) by (auto simp: fs_create_new_def split: if_splits)
  from assms(3) create same obtain nodes where "nodes temporary = d" and
    n1: "keeps temporary target fs0 (tr_fs t1) (lf_nodes (tr_fs t1) temporary)"
    "\<forall>u. q = Inr u \<longrightarrow> fs_create_new temporary nodes = (Inr u, lf_nodes (tr_fs t1))"
    by (rule keeps_step)
  have sync: "fs_sync n = (u, n') \<Longrightarrow> n' = n" for n u n' by (simp add: fs_sync_def)
  show ?thesis
  proof (cases "(\<exists>e. q = Inl e) \<or> de_reader_error ev \<noteq> None")
    case True
    then have "t' = t1" "r \<noteq> Inr ()"
      using assms(1) create by (auto simp: download_to_temp_def bind_s_def lift_r_def split: option.splits sum.splits)
    with n1 show ?thesis by auto
  next
    case False
    then obtain u where q: "q = Inr u" and reader: "de_reader_error ev = None" by (cases q) auto
    have "lf_nodes (tr_fs t1) = nodes(temporary \<mapsto> FileNode [])"
      using n1(2) q by (simp add: fs_create_new_def split: if_splits)
    then have empty: "keeps temporary target fs0 (tr_fs t1) (Some (FileNode []))"
      using n1(1) by simp
    obtain q2 t2 where loop: "download_loop (de_stream ev) temporary overall 0 t1 = (q2, t2)" by (rule prod.exhaust)
    obtain d2 where n2: "keeps temporary target fs0 (tr_fs t2) d2"
      "q2 = Inr () \<longrightarrow> d2 = Some (FileNode (stream_data (de_stream ev)))"
      using download_loop_keeps [OF loop assms(2) empty] by auto
    obtain q3 t3 where s3: "io_step ''download'' fs_sync t2 = (q3, t3)" by (rule prod.exhaust)
    obtain q4 t4 where s4: "io_step ''download'' fs_sync t3 = (q4, t4)" by (rule prod.exhaust)
    have run: "(r, t') = (case q2 of Inl e \<Rightarrow> (Inl e, t2) | Inr _ \<Rightarrow> (case q3 of Inl e \<Rightarrow> (Inl e, t3) | Inr _ \<Rightarrow> (q4, t4)))"
      using assms(1) create q reader loop s3 s4
      by (auto simp: download_to_temp_def bind_s_def lift_r_def split: sum.splits)
    have keep_sync: "keeps temporary target fs0 (tr_fs b) d2"
      if before: "keeps temporary target fs0 (tr_fs a) d2" and step: "io_step ''download'' fs_sync a = (w, b)"
      for a b w
    proof -
      obtain q where q: "fs_call fs_sync (tr_fs a) = (q, tr_fs b)" using io_step_call [OF step] .
      from before q obtain nodes where "nodes temporary = d2"
        "keeps temporary target fs0 (tr_fs b) (lf_nodes (tr_fs b) temporary)"
        "(\<exists>e. q = Inl e) \<and> lf_nodes (tr_fs b) = nodes \<or> fs_sync nodes = (q, lf_nodes (tr_fs b))"
        by (rule keeps_call) (simp add: fs_sync_def)
      then show ?thesis by (auto simp: fs_sync_def)
    qed
    show ?thesis
    proof (cases q2)
      case (Inl e)
      with run n2 show ?thesis by auto
    next
      case (Inr v)
      note k3 = keep_sync [OF n2(1) s3]
      show ?thesis
      proof (cases q3)
        case (Inl e)
        with run Inr k3 show ?thesis by auto
      next
        case Inr3: (Inr w)
        from keep_sync [OF k3 s4] show ?thesis using run Inr Inr3 n2(2) by auto
      qed
    qed
  qed
qed

text \<open>At the target, the others decide; only into an empty place does the download put its data.\<close>

definition undisturbed :: "fs_path \<Rightarrow> string \<Rightarrow> local_fs \<Rightarrow> local_fs \<Rightarrow> bool" where
  "undisturbed target data fs0 fs \<longleftrightarrow>
     (\<exists>used. lf_turns fs0 = used @ lf_turns fs
        \<and> (let theirs = others target used (lf_nodes fs0 target) in
           lf_nodes fs target = theirs \<or> theirs = None \<and> lf_nodes fs target = Some (FileNode data)))"

lemma keeps_undisturbed: "keeps temporary target fs0 fs d \<Longrightarrow> undisturbed target data fs0 fs"
  by (auto simp: keeps_def undisturbed_def Let_def)

lemma undisturbed_call:
  assumes "undisturbed target data fs0 fs" "fs_call act fs = (r, fs')"
    and "\<And>n r n'. act n = (r, n') \<Longrightarrow> n' target = n target"
  shows "undisturbed target data fs0 fs'"
proof -
  obtain used nodes where c: "lf_turns fs = used @ lf_turns fs'"
    "\<And>p. nodes p = others p used (lf_nodes fs p)"
    "(\<exists>e. r = Inl e) \<and> lf_nodes fs' = nodes \<or> act nodes = (r, lf_nodes fs')"
    using fs_call_cases [OF assms(2)] by metis
  obtain used0 where u: "lf_turns fs0 = used0 @ lf_turns fs"
    "lf_nodes fs target = others target used0 (lf_nodes fs0 target)
      \<or> others target used0 (lf_nodes fs0 target) = None \<and> lf_nodes fs target = Some (FileNode data)"
    using assms(1) by (auto simp: undisturbed_def Let_def)
  have t: "lf_nodes fs' target = others target used (lf_nodes fs target)"
    using c(2,3) assms(3) by (metis prod.inject)
  have "(\<forall>n. others target used n = n) \<or> (\<exists>v. \<forall>n. others target used n = v)"
    unfolding others_def
  proof (induction used)
    case (Cons a used)
    then show ?case using change_kind [of target "tu_changes a"] by auto
  qed simp
  with u c(1) t show ?thesis
    unfolding undisturbed_def Let_def
    by (intro exI [of _ "used0 @ used"]) (auto simp: others_append)
qed

lemma undisturbed_step:
  assumes "undisturbed target data fs0 (tr_fs t)" "io_step operation act t = (r, t')"
    and "\<And>n r n'. act n = (r, n') \<Longrightarrow> n' target = n target"
  shows "undisturbed target data fs0 (tr_fs t')"
proof -
  obtain q where "fs_call act (tr_fs t) = (q, tr_fs t')" using io_step_call [OF assms(2)] .
  from assms(1) this assms(3) show ?thesis by (rule undisturbed_call)
qed

lemma fs_remove_other: "p \<noteq> q \<Longrightarrow> fs_remove p n = (r, n') \<Longrightarrow> n' q = n q"
  by (auto simp: fs_remove_def split: if_splits)

lemma cleanup_undisturbed:
  assumes "undisturbed target data fs0 (tr_fs t)" "temporary \<noteq> target"
  shows "undisturbed target data fs0 (tr_fs (cleanup_temporary_download temporary t))"
proof -
  obtain r t' where step: "io_step ''download'' (fs_remove temporary) t = (r, t')" by (rule prod.exhaust)
  from assms(1) step fs_remove_other [OF assms(2)] have "undisturbed target data fs0 (tr_fs t')"
    by (rule undisturbed_step)
  with step show ?thesis by (simp add: cleanup_temporary_download_def)
qed

lemma commit_refuse_undisturbed:
  assumes "commit_download temporary target Refuse t = (r, t')" "temporary \<noteq> target"
    and "keeps temporary target fs0 (tr_fs t) (Some (FileNode data))"
  shows "undisturbed target data fs0 (tr_fs t')"
proof -
  obtain q t1 where link: "io_step ''download'' (fs_hard_link temporary target) t = (q, t1)" by (rule prod.exhaust)
  obtain p where p: "fs_call (fs_hard_link temporary target) (tr_fs t) = (p, tr_fs t1)"
    "q = map_err (os_map_io ''download'') p" using io_step_call [OF link] .
  obtain used nodes where c: "lf_turns (tr_fs t) = used @ lf_turns (tr_fs t1)"
    "\<And>p. nodes p = others p used (lf_nodes (tr_fs t) p)"
    "\<And>p. leaves_alone p (lf_turns (tr_fs t)) \<Longrightarrow> nodes p = lf_nodes (tr_fs t) p"
    "(\<exists>e. p = Inl e) \<and> lf_nodes (tr_fs t1) = nodes
      \<or> fs_hard_link temporary target nodes = (p, lf_nodes (tr_fs t1))"
    using fs_call_cases [OF p(1)] by metis
  obtain used0 where u: "lf_turns fs0 = used0 @ lf_turns (tr_fs t)"
    "lf_nodes (tr_fs t) target = others target used0 (lf_nodes fs0 target)"
    and alone: "leaves_alone temporary (lf_turns (tr_fs t))"
    and d: "lf_nodes (tr_fs t) temporary = Some (FileNode data)"
    using assms(3) by (auto simp: keeps_def)
  have src: "nodes temporary = Some (FileNode data)" using c(3) [OF alone] d by simp
  have theirs: "nodes target = others target (used0 @ used) (lf_nodes fs0 target)"
    by (simp add: c(2) u(2) others_append)
  have "lf_nodes (tr_fs t1) target = nodes target
      \<or> nodes target = None \<and> lf_nodes (tr_fs t1) target = Some (FileNode data)"
  proof -
    have "snd (fs_hard_link temporary target nodes) target = nodes target
        \<or> nodes target = None \<and> snd (fs_hard_link temporary target nodes) target = Some (FileNode data)"
      by (simp add: fs_hard_link_def src)
    then show ?thesis using c(4) by (metis snd_conv)
  qed
  then have linked: "undisturbed target data fs0 (tr_fs t1)"
    unfolding undisturbed_def Let_def using theirs u(1) c(1)
    by (intro exI [of _ "used0 @ used"]) auto
  show ?thesis
  proof (cases q)
    case (Inl e)
    with assms(1) link linked show ?thesis by (simp add: commit_download_def bind_s_def)
  next
    case (Inr v)
    with assms(1) link have rest: "io_step ''download'' (fs_remove temporary) t1 = (r, t')"
      by (simp add: commit_download_def bind_s_def)
    from linked rest fs_remove_other [OF assms(2)] show ?thesis by (rule undisturbed_step)
  qed
qed

lemma download_cases:
  assumes "download ev rq t = (r, t')" "validate_download_target (rq_local_path rq) (rq_overwrite rq) t = (q, t1)"
  shows "r \<noteq> Inr () \<and> (t' = t \<or> t' = t1)
    \<or> (\<exists>(raw :: raw_metadata) temporary. temporary_path (de_fresh ev) (rq_local_path rq) = Inr temporary \<and> q = Inr ()
        \<and> fetch_and_commit ev rq temporary (rm_content_length raw) t1 = (r, t'))"
proof -
  let ?rest = "\<lambda>t. bind_s (lift_r (map_err (map_opendal ''download'') (de_stat ev))) (\<lambda>raw.
     bind_s (lift_r (temporary_path (de_fresh ev) (rq_local_path rq))) (\<lambda>temporary.
       fetch_and_commit ev rq temporary (rm_content_length raw))) t"
  have tail: "r \<noteq> Inr () \<and> t' = t1
      \<or> (\<exists>(raw :: raw_metadata) temporary. temporary_path (de_fresh ev) (rq_local_path rq) = Inr temporary
          \<and> fetch_and_commit ev rq temporary (rm_content_length raw) t1 = (r, t'))"
    if "?rest t1 = (r, t')"
    using that by (cases "de_stat ev"; cases "temporary_path (de_fresh ev) (rq_local_path rq)")
      (auto simp: bind_s_def lift_r_def)
  show ?thesis
  proof (cases "ensure_safe_key (rq_key rq) ''download'' = Inr ()
      \<and> ensure_absolute (rq_local_path rq) ''download'' = Inr () \<and> q = Inr ()")
    case True
    then have "?rest t1 = (r, t')" using assms by (simp add: download_def bind_s_def lift_r_def)
    with tail True show ?thesis by blast
  next
    case False
    then show ?thesis using assms
      by (cases "ensure_safe_key (rq_key rq) ''download''"; cases "ensure_absolute (rq_local_path rq) ''download''"; cases q)
        (auto simp: download_def bind_s_def lift_r_def)
  qed
qed

text \<open>The whole download, when an existing target is to be kept.\<close>

lemma download_refuse_undisturbed:
  assumes "download ev rq t = (r, t')" "rq_overwrite rq = Refuse"
    and "\<And>p. temporary_path (de_fresh ev) (rq_local_path rq) = Inr p \<Longrightarrow>
      p \<noteq> rq_local_path rq \<and> leaves_alone p (lf_turns (tr_fs t))"
  shows "undisturbed (rq_local_path rq) (stream_data (de_stream ev)) (tr_fs t) (tr_fs t')"
proof -
  let ?T = "rq_local_path rq" and ?data = "stream_data (de_stream ev)"
  have start: "undisturbed ?T ?data (tr_fs t) (tr_fs t)"
    unfolding undisturbed_def Let_def by (rule exI [of _ "[]"]) (simp add: others_def)
  obtain q t1 where check: "validate_download_target ?T Refuse t = (q, t1)" by (rule prod.exhaust)
  obtain w where "fs_call (fs_metadata ?T) (tr_fs t) = (w, tr_fs t1)"
    using check by (auto simp: validate_download_target_def split: prod.splits)
  from start this have u1: "undisturbed ?T ?data (tr_fs t) (tr_fs t1)"
    by (rule undisturbed_call) (simp add: fs_metadata_def)
  obtain used where used: "lf_turns (tr_fs t) = used @ lf_turns (tr_fs t1)"
    "\<And>p. lf_nodes (tr_fs t1) p = others p used (lf_nodes (tr_fs t) p)"
    using fs_call_cases [OF \<open>fs_call (fs_metadata ?T) (tr_fs t) = (w, tr_fs t1)\<close>]
    by (metis fs_metadata_def prod.inject)
  consider "t' = t \<or> t' = t1"
    | raw :: raw_metadata and temporary where "temporary_path (de_fresh ev) ?T = Inr temporary"
        "fetch_and_commit ev rq temporary (rm_content_length raw) t1 = (r, t')"
    using download_cases [OF assms(1) check [folded assms(2)]] by blast
  then show ?thesis
  proof cases
    case 1
    with start u1 show ?thesis by auto
  next
    case (2 raw temporary)
    note temp = 2(1) and run = 2(2) [unfolded fetch_and_commit_def assms(2)]
    have own: "temporary \<noteq> ?T" "leaves_alone temporary (lf_turns (tr_fs t))" using assms(3) [OF temp] by simp_all
    then have "keeps temporary ?T (tr_fs t) (tr_fs t1) (lf_nodes (tr_fs t1) temporary)"
      using used by (auto simp: keeps_def leaves_alone_def)
    moreover obtain q2 t2 where fetch: "download_to_temp ev temporary (rm_content_length raw) t1 = (q2, t2)"
      by (rule prod.exhaust)
    ultimately obtain d where k: "keeps temporary ?T (tr_fs t) (tr_fs t2) d"
      "q2 = Inr () \<longrightarrow> d = Some (FileNode ?data)"
      using download_to_temp_keeps [OF fetch own(1)] by blast
    show ?thesis
    proof (cases q2)
      case (Inl e)
      with run fetch cleanup_undisturbed [OF keeps_undisturbed [OF k(1)] own(1)] show ?thesis by simp
    next
      case (Inr v)
      obtain q3 t3 where commit: "commit_download temporary ?T Refuse t2 = (q3, t3)" by (rule prod.exhaust)
      have u3: "undisturbed ?T ?data (tr_fs t) (tr_fs t3)"
        using k Inr by (intro commit_refuse_undisturbed [OF commit own(1)]) simp
      have "t' = t3 \<or> t' = cleanup_temporary_download temporary t3"
        using run fetch Inr commit by (cases q3) auto
      with u3 cleanup_undisturbed [OF u3 own(1)] show ?thesis by auto
    qed
  qed
qed

section \<open>A download without interference\<close>

lemma quiet_step:
  assumes "lf_turns (tr_fs t) = []"
  shows "io_step operation act t =
    (map_err (os_map_io operation) (fst (act (lf_nodes (tr_fs t)))),
     t\<lparr>tr_fs := (tr_fs t)\<lparr>lf_nodes := snd (act (lf_nodes (tr_fs t)))\<rparr>\<rparr>)"
  using assms by (auto simp: io_step_def fs_call_def split: prod.splits)

definition quiet_with :: "fs_nodes \<Rightarrow> transfer \<Rightarrow> bool" where
  "quiet_with nodes t \<longleftrightarrow> lf_turns (tr_fs t) = [] \<and> lf_nodes (tr_fs t) = nodes"

lemma quiet_loop:
  assumes "download_loop items temporary overall transferred t = (r, t')"
    and "quiet_with (nodes(temporary \<mapsto> FileNode x)) t"
  shows "\<exists>y. quiet_with (nodes(temporary \<mapsto> FileNode y)) t' \<and> (r = Inr () \<longrightarrow> y = x @ stream_data items)"
  using assms
proof (induction items arbitrary: transferred t x)
  case Nil
  then show ?case by auto
next
  case (Cons i items)
  obtain c item where i: "i = (c, item)" by (cases i)
  show ?case
  proof (cases "c \<or> (\<exists>e. item = Inl e)")
    case True
    then have "t' = t" "r \<noteq> Inr ()" using Cons.prems(1) i by (cases c; auto)+
    with Cons.prems(2) show ?thesis by auto
  next
    case False
    then obtain chunk where item: "\<not> c" "item = Inr chunk" by (cases item) auto
    define k where "k = sat_add transferred (of_nat (length chunk))"
    define t1 where "t1 = report_progress k overall (t\<lparr>tr_fs := (tr_fs t)\<lparr>lf_nodes :=
      nodes(temporary \<mapsto> FileNode (x @ chunk))\<rparr>\<rparr>)"
    have q: "lf_turns (tr_fs t) = []" "lf_nodes (tr_fs t) = nodes(temporary \<mapsto> FileNode x)"
      using Cons.prems(2) unfolding quiet_with_def by blast+
    have app: "fs_append temporary chunk (nodes(temporary \<mapsto> FileNode x)) = (Inr (), nodes(temporary \<mapsto> FileNode (x @ chunk)))"
      by (simp add: fs_append_def)
    have "io_step ''download'' (fs_append temporary chunk) t
        = (Inr (), t\<lparr>tr_fs := (tr_fs t)\<lparr>lf_nodes := nodes(temporary \<mapsto> FileNode (x @ chunk))\<rparr>\<rparr>)"
      by (simp only: quiet_step [OF q(1)] q(2) app fst_conv snd_conv map_err_simps)
    then have "download_loop items temporary overall k t1 = (r, t')"
      using Cons.prems(1) i item by (simp add: bind_s_def k_def t1_def Let_def)
    moreover have "quiet_with (nodes(temporary \<mapsto> FileNode (x @ chunk))) t1"
      using Cons.prems(2) by (simp add: quiet_with_def t1_def report_progress_def)
    ultimately show ?thesis using Cons.IH i item by fastforce
  qed
qed

lemma download_quiet:
  assumes "download ev rq t = (r, t')" "quiet_with nodes t"
    and "\<And>p. temporary_path (de_fresh ev) (rq_local_path rq) = Inr p \<Longrightarrow> p \<noteq> rq_local_path rq \<and> nodes p = None"
  shows "quiet_with (if r = Inr () then nodes(rq_local_path rq \<mapsto> FileNode (stream_data (de_stream ev))) else nodes) t'"
proof -
  let ?T = "rq_local_path rq"
  have check: "validate_download_target ?T (rq_overwrite rq) t = (q, t1) \<Longrightarrow> t1 = t
      \<and> (q = Inr () \<longrightarrow> nodes ?T \<noteq> Some DirNode \<and> (rq_overwrite rq = Refuse \<longrightarrow> nodes ?T = None))" for q t1
    using assms(2) by (auto simp: validate_download_target_def fs_call_def fs_metadata_def quiet_with_def ok_or_def
        split: prod.splits sum.splits option.splits fs_node.splits io_kind.splits if_splits)
  obtain q t1' where target: "validate_download_target ?T (rq_overwrite rq) t = (q, t1')" by (rule prod.exhaust)
  have same: "t1' = t" using check [OF target] by simp
  consider "r \<noteq> Inr ()" "t' = t"
    | raw :: raw_metadata and temporary where "temporary_path (de_fresh ev) ?T = Inr temporary" "q = Inr ()"
        "fetch_and_commit ev rq temporary (rm_content_length raw) t = (r, t')"
    using download_cases [OF assms(1) target] same by blast
  then show ?thesis
  proof cases
    case 1
    with assms(2) show ?thesis by simp
  next
    case (2 raw temporary)
    note temp = 2(1) and run = 2(3) [unfolded fetch_and_commit_def]
    have ok: "validate_download_target ?T (rq_overwrite rq) t = (Inr (), t)" using target 2(2) same by simp
    have own: "temporary \<noteq> ?T" "nodes temporary = None" using assms(3) [OF temp] by simp_all
    obtain q2 t2 where fetch: "download_to_temp ev temporary (rm_content_length raw) t = (q2, t2)"
      by (rule prod.exhaust)
    define t1 where "t1 = t\<lparr>tr_fs := (tr_fs t)\<lparr>lf_nodes := nodes(temporary \<mapsto> FileNode [])\<rparr>\<rparr>"
    have q1: "quiet_with (nodes(temporary \<mapsto> FileNode [])) t1"
      using assms(2) by (simp add: quiet_with_def t1_def)
    have create: "io_step ''download'' (fs_create_new temporary) t = (Inr (), t1)"
      using assms(2) own(2) by (simp add: quiet_with_def quiet_step fs_create_new_def t1_def)
    obtain q3 t3 where loop: "download_loop (de_stream ev) temporary (rm_content_length raw) 0 t1 = (q3, t3)"
      by (rule prod.exhaust)
    obtain y where y: "quiet_with (nodes(temporary \<mapsto> FileNode y)) t3"
      "q3 = Inr () \<longrightarrow> y = stream_data (de_stream ev)"
      using quiet_loop [OF loop q1] by auto
    have sync: "io_step ''download'' fs_sync t3 = (Inr (), t3)"
      using y(1) by (cases t3) (simp add: quiet_with_def quiet_step fs_sync_def)
    have fetched: "\<exists>z. quiet_with (nodes(temporary \<mapsto> FileNode z)) t2
        \<and> (q2 = Inr () \<longrightarrow> z = stream_data (de_stream ev))"
      using fetch create loop sync q1 y
      by (auto simp: download_to_temp_def bind_s_def lift_r_def split: option.splits sum.splits)
    then obtain z where z: "quiet_with (nodes(temporary \<mapsto> FileNode z)) t2"
      "q2 = Inr () \<longrightarrow> z = stream_data (de_stream ev)" by blast
    have clean: "quiet_with (m(temporary := None)) (cleanup_temporary_download temporary s)"
      if "quiet_with m s" "m temporary = Some (FileNode v)" for m s v
      using that by (simp add: cleanup_temporary_download_def quiet_with_def quiet_step fs_remove_def)
    have gone: "nodes(temporary := None) = nodes" using own(2) by auto
    show ?thesis
    proof (cases q2)
      case (Inl e)
      then have "r = Inl e" "t' = cleanup_temporary_download temporary t2" using run fetch by auto
      with clean [OF z(1)] gone show ?thesis by simp
    next
      case (Inr v)
      obtain q4 t4 where commit: "commit_download temporary ?T (rq_overwrite rq) t2 = (q4, t4)"
        by (rule prod.exhaust)
      have ready: "nodes ?T \<noteq> Some DirNode" "rq_overwrite rq = Refuse \<longrightarrow> nodes ?T = None"
        using check [OF ok] by simp_all
      have "q4 = Inr ()" "quiet_with (nodes(?T \<mapsto> FileNode z)) t4"
        using commit z(1) ready own gone
        by (auto simp: commit_download_def quiet_with_def quiet_step fs_hard_link_def fs_rename_def fs_remove_def
            bind_s_def fun_upd_twist split: if_splits)
      with run fetch Inr commit z(2) show ?thesis by simp
    qed
  qed
qed

end
