(* ===== verification/Object_Service_Laws.thy ===== *)
theory Object_Service_Laws
  imports Object_Mounts Object_Cursors Object_Data_Laws
begin

text \<open>
  Laws of the object storage service: what a verification and a save leave, how an operator stays
  cached after a failed verification, and that the transfer queue can always run empty.
\<close>

section \<open>Frames\<close>

lemma storage_call_ok:
  "storage_call act s = (Inr x, s') \<Longrightarrow> \<exists>fs. act (s\<lparr>se_faults := fs\<rparr>) = (x, s')"
proof (cases "se_faults s")
  case Nil
  then have same: "s\<lparr>se_faults := []\<rparr> = s" by (cases s) simp
  assume "storage_call act s = (Inr x, s')"
  then have "act s = (x, s')" using Nil by (auto simp: storage_call_def split: prod.splits)
  then have "act (s\<lparr>se_faults := []\<rparr>) = (x, s')" by (simp only: same)
  then show ?thesis by (rule exI)
qed (auto simp: storage_call_def split: option.splits prod.splits)

lemma storage_call_err: "storage_call act s = (Inl e, s') \<Longrightarrow> se_accounts s' = se_accounts s"
  by (auto simp: storage_call_def split: list.splits option.splits prod.splits)

lemma stored_account_frame:
  "stored_account i s = (r, s') \<Longrightarrow> se_accounts s' = se_accounts s \<and> (\<forall>x. r = Inr x \<longrightarrow> x = se_accounts s i)"
  by (auto simp: stored_account_def storage_call_def split: list.splits option.splits)

lemma verify_frame:
  "verify_configured_mounts ut parse_url env a s = (r, s') \<Longrightarrow>
     se_accounts s' = se_accounts s \<and> se_faults s' = se_faults s"
  by (auto simp: verify_configured_mounts_def bind_s_def lift_r_def split: sum.splits prod.splits)

lemma normalize_frame [simp]:
  "oa_id (normalize_manual_mounts a) = oa_id a" "oa_revision (normalize_manual_mounts a) = oa_revision a"
  by (simp_all add: normalize_manual_mounts_def)

lemma drop_account_caches_accounts [simp]:
  "se_accounts (drop_account_caches ut i r s) = se_accounts s"
  by (simp add: drop_account_caches_def clear_account_state_def)

text \<open>A save, step by step.\<close>

lemma save_account_steps:
  assumes "save_account ut parse_url env account s = (r, s')"
  defines "a \<equiv> normalize_manual_mounts account"
  shows "(\<exists>e. r = Inl e) \<and> se_accounts s' = se_accounts s
    \<or> (\<exists>revision v. r = Inr (a\<lparr>oa_revision := revision\<rparr>, v) \<and> validate_account parse_url a = Inr ()
        \<and> revision_to_save (se_accounts s (oa_id account)) a = Inr revision
        \<and> se_accounts s' = (se_accounts s)(oa_id account \<mapsto> a\<lparr>oa_revision := revision\<rparr>))"
proof -
  let ?s0 = "cancel_account_transfers (oa_id a) s"
  have acc0: "se_accounts ?s0 = se_accounts s" by (simp add: cancel_account_transfers_def)
  have id: "oa_id a = oa_id account" by (simp add: a_def)
  show ?thesis
  proof (cases "validate_account parse_url a = Inr () \<and> ce_gate env")
    case False
    then have "(\<exists>e. r = Inl e) \<and> (s' = s \<or> s' = ?s0)"
      using assms(1) unfolding save_account_def a_def [symmetric] Let_def
      by (cases "validate_account parse_url a") (auto simp: bind_s_def lift_r_def acquire_write_guard_def)
    with acc0 show ?thesis by auto
  next
    case True
    obtain q s1 where get: "stored_account (oa_id a) ?s0 = (q, s1)" by (rule prod.exhaust)
    note got = stored_account_frame [OF get, unfolded acc0]
    show ?thesis
    proof (cases "(\<exists>e. q = Inl e) \<or> (\<exists>e. revision_to_save (se_accounts s (oa_id a)) a = Inl e)")
      case no: True
      then have "(\<exists>e. r = Inl e) \<and> s' = s1"
        using assms(1) True get got unfolding save_account_def a_def [symmetric] Let_def
        by (cases q) (auto simp: bind_s_def lift_r_def acquire_write_guard_def)
      with got show ?thesis by auto
    next
      case False
      then obtain revision where rev: "q = Inr (se_accounts s (oa_id a))"
        "revision_to_save (se_accounts s (oa_id a)) a = Inr revision"
        using got by (cases q; cases "revision_to_save (se_accounts s (oa_id a)) a") auto
      let ?a = "a\<lparr>oa_revision := revision\<rparr>"
      obtain v s2 where verify: "verify_configured_mounts ut parse_url env ?a s1 = (v, s2)" by (rule prod.exhaust)
      note kept = verify_frame [OF verify]
      obtain w s3 where store: "storage_call (\<lambda>s. ((), s\<lparr>se_accounts := (se_accounts s)(oa_id a \<mapsto> ?a)\<rparr>)) s2
          = (w, s3)" by (rule prod.exhaust)
      have run: "(r, s') = (case v of Inl e \<Rightarrow> (Inl e, s2) | Inr v \<Rightarrow>
          (case w of Inl e \<Rightarrow> (Inl e, s3)
           | Inr _ \<Rightarrow> (Inr (?a, v), drop_account_caches ut (oa_id a) revision s3)))"
        using assms(1) True get rev verify store unfolding save_account_def a_def [symmetric] Let_def
        by (auto simp: bind_s_def lift_r_def acquire_write_guard_def split: sum.splits)
      show ?thesis
      proof (cases v)
        case (Inl e)
        with run kept got show ?thesis by auto
      next
        case (Inr v')
        show ?thesis
        proof (cases w)
          case (Inl e)
          with run Inr storage_call_err [OF store [unfolded Inl]] kept got show ?thesis by auto
        next
          case Inr2: (Inr u)
          then obtain fs where "s3 = s2\<lparr>se_faults := fs, se_accounts := (se_accounts s2)(oa_id a \<mapsto> ?a)\<rparr>"
            using storage_call_ok [OF store [unfolded Inr2]] by auto
          with run Inr Inr2 kept got rev(2) True id show ?thesis by auto
        qed
      qed
    qed
  qed
qed

lemma revision_to_save_next:
  "revision_to_save stored a = Inr revision \<Longrightarrow>
     (case stored of
        None \<Rightarrow> oa_revision a = 1 \<and> revision = 1
      | Some old \<Rightarrow> oa_revision old = oa_revision a \<and> unat revision = unat (oa_revision old) + 1)"
proof (cases stored)
  case (Some old)
  assume "revision_to_save stored a = Inr revision"
  with Some have old: "oa_revision old = oa_revision a" "oa_revision old \<noteq> - 1" "revision = next_revision old"
    by (auto simp: revision_to_save_def split: if_splits)
  have "unat (oa_revision old) \<noteq> 2 ^ 64 - 1"
  proof
    assume "unat (oa_revision old) = 2 ^ 64 - 1"
    then have "unat (oa_revision old) = unat (- 1 :: u64)"
      by (simp add: unsigned_minus_1_eq_mask mask_eq_exp_minus_1)
    then show False using old(2) by (simp add: word_unat_eq_iff)
  qed
  moreover have "unat (oa_revision old) < 2 ^ 64" using unsigned_less [of "oa_revision old"] by simp
  ultimately have "unat revision = unat (oa_revision old) + 1"
    unfolding old(3) next_revision_def unat_sat_add by simp
  with old(1) Some show ?thesis by simp
qed (auto simp: revision_to_save_def split: if_splits)

section \<open>Operators that stay cached\<close>

lemma length_bm_insert_new: "bm_get m k = None \<Longrightarrow> length (bm_insert k v m) = Suc (length m)"
  by (induction m) (auto simp: bm_get_def split: if_splits)

lemma insert_evict:
  assumes "lru_of ops lru" "length ops \<le> MAX_CACHED_OPERATORS" "bm_get ops k = None"
  shows "\<exists>ops'. evict (bm_insert k op ops) (touch_lru k lru)
      = (ops', (if length ops < MAX_CACHED_OPERATORS then lru else tl lru) @ [k])
    \<and> bm_get ops' k = Some op"
proof -
  have new: "k \<notin> set lru" using assms(1,3) bm_keys_eq [of ops] by (auto simp: lru_of_def simp del: set_map)
  then have touch: "touch_lru k lru = lru @ [k]" by (simp add: touch_lru_def filter_id_conv) blast
  note len = length_bm_insert_new [OF assms(3), of op]
  note lru = lru_of_insert [OF assms(1), of k op, unfolded touch]
  show ?thesis
  proof (cases lru)
    case Nil
    then have "ops = []" using lru_of_length [OF assms(1)] by simp
    with Nil touch show ?thesis by (simp add: limits bm_get_def)
  next
    case (Cons j js)
    have "j \<noteq> k" using new Cons by auto
    moreover have "evict (bm_insert k op ops) (touch_lru k lru) =
        (if length ops < MAX_CACHED_OPERATORS then (bm_insert k op ops, lru @ [k])
         else (bm_remove j (bm_insert k op ops), js @ [k]))"
      using evict_one [of "bm_insert k op ops" j "js @ [k]"] lru Cons touch len assms(2) by simp
    ultimately show ?thesis using Cons by (simp add: bm_get_remove bm_get_insert)
  qed
qed

lemma cache_get_miss:
  assumes "lru_of (ca_operators c) (ca_lru c)" "length (ca_operators c) \<le> MAX_CACHED_OPERATORS"
    and "as_id a = om_account_id m" "validate_mount parse_url (as_provider a) m = Inr ()"
    and "\<forall>min. ca_minimum c (as_id a) = Some min \<longrightarrow> min \<le> as_revision a"
    and "bm_get (ca_operators c) (operator_identity ut m (as_revision a)) = None"
    and "build_operator world a m = Inr op"
  shows "\<exists>c'. cache_get ut parse_url world a m c = (Inr op, c')
    \<and> bm_get (ca_operators c') (operator_identity ut m (as_revision a)) = Some op
    \<and> ca_minimum c' = ca_minimum c"
proof -
  let ?k = "operator_identity ut m (as_revision a)"
  obtain ops' where e: "evict (bm_insert ?k op (ca_operators c)) (touch_lru ?k (ca_lru c))
      = (ops', (if length (ca_operators c) < MAX_CACHED_OPERATORS then ca_lru c else tl (ca_lru c)) @ [?k])"
    "bm_get ops' ?k = Some op"
    using insert_evict [OF assms(1,2,6)] by blast
  have "\<not> as_revision a < (case ca_minimum c (as_id a) of None \<Rightarrow> 0 | Some r \<Rightarrow> r)"
    using assms(5) by (simp add: not_less split: option.split)
  then show ?thesis using assms(3,4,6,7) e by (simp add: cache_get_def Let_def)
qed

lemma cache_get_hit:
  assumes "as_id a = om_account_id m" "validate_mount parse_url (as_provider a) m = Inr ()"
    and "\<forall>min. ca_minimum c (as_id a) = Some min \<longrightarrow> min \<le> as_revision a"
    and "bm_get (ca_operators c) (operator_identity ut m (as_revision a)) = Some op"
  shows "\<exists>c'. cache_get ut parse_url world a m c = (Inr op, c')"
proof -
  have "\<not> as_revision a < (case ca_minimum c (as_id a) of None \<Rightarrow> 0 | Some r \<Rightarrow> r)"
    using assms(3) by (simp add: not_less split: option.split)
  then show ?thesis using assms(1,2,4) by (simp add: cache_get_def Let_def)
qed

text \<open>The query of a verification.\<close>

definition everything :: object_list_query where
  "everything = \<lparr>lq_directory_prefix = [], lq_name_prefix = [], lq_list_prefix = []\<rparr>"

lemma safe_empty: "is_opendal_safe_prefix []" "is_opendal_safe_list_prefix []"
  by (simp_all add: is_opendal_safe_prefix_def is_opendal_safe_list_prefix_def validate_prefix_def
      os_protocol_text_def limits)

lemma has_unsafe_Nil: "\<not> has_unsafe_character []"
proof -
  have "utf8_enc c \<noteq> []" for c by (simp add: utf8_enc_def)
  then show ?thesis by (simp add: has_unsafe_character_def BIDI_CONTROLS_def)
qed

lemma everything_ok: "object_list_query_new [] [] = Inr everything"
  by (simp add: object_list_query_new_def safe_empty validate_object_name_prefix_def validate_prefix_def
      os_protocol_text_def limits has_unsafe_Nil everything_def)

lemma rejected_listing:
  assumes "cache_get ut parse_url (ce_world env) a m (in_operators i) = (Inr op, c)" "in_accepting i"
    and "wd_lister (ce_world env) op [] = Inl e"
  shows "\<exists>store. driver_list_page ut parse_url env nr a m everything None g i
    = (Inl (map_opendal ''list'' e), i\<lparr>in_operators := c, in_cursors := store\<rparr>)"
proof
  show "driver_list_page ut parse_url env nr a m everything None g i = (Inl (map_opendal ''list'' e),
    i\<lparr>in_operators := c, in_cursors := invalidate_mount (account_text ut (as_id a)) (mount_text ut (om_id m))
      (in_cursors i)\<rparr>)"
    using assms
    by (simp add: driver_list_page_def bind_s_def on_operators_def runtime_run_def on_cursors_def list_page_def
        lift_r_def everything_def safe_empty open_cursor_def)
qed

section \<open>The transfer queue\<close>

definition queue_left :: "transfer_call multiset \<Rightarrow> nat" where
  "queue_left calls = 3 * size calls + 2 * in_phase Registered calls + in_phase Waiting calls"

lemma in_phase_le: "in_phase ph calls \<le> size calls"
  by (simp add: in_phase_def size_filter_mset_lesseq)

lemma pool_drains:
  assumes "pool_wf (p, calls)"
  shows "\<exists>p'. pool_step\<^sup>*\<^sup>* (p, calls) (p', {#})"
  using assms
proof (induction "(size calls, 2 * in_phase Registered calls + in_phase Waiting calls)" arbitrary: p calls
    rule: wf_induct_rule [OF wf_lex_prod [OF wf_less_than wf_less_than]])
  case (1 calls p)
  show ?case
  proof (cases "calls = {#}")
    case True
    then show ?thesis by auto
  next
    case False
    obtain p1 calls1 where step: "pool_step (p, calls) (p1, calls1)"
      and less: "size calls1 < size calls \<or> size calls1 = size calls \<and>
        2 * in_phase Registered calls1 + in_phase Waiting calls1
          < 2 * in_phase Registered calls + in_phase Waiting calls"
      using pool_progress [OF 1(2) False] by blast
    have "\<exists>p'. pool_step\<^sup>*\<^sup>* (p1, calls1) (p', {#})"
      using less pool_step_wf [OF step 1(2)] by (intro 1(1)) auto
    with step show ?thesis by (meson converse_rtranclp_into_rtranclp)
  qed
qed

section \<open>Samples\<close>


text \<open>
  A concrete account with one bucket, its mount and a cloud that rejects its credentials; the witnesses
  of the object storage properties use them.
\<close>

definition sample_text :: "128 word \<Rightarrow> string" where
  "sample_text w = dec (unat w)"

definition no_url :: "string \<Rightarrow> parsed_url option" where
  "no_url s = None"

definition sample_account_id :: object_account_id where
  "sample_account_id = ObjectAccountId 7"

definition sample_bucket :: manual_bucket where
  "sample_bucket = \<lparr>mb_id = ObjectMountId 8, mb_name = ''media'', mb_region = ''ap1'', mb_root_prefix = None\<rparr>"

definition sample_account :: object_account where
  "sample_account = (object_account_new sample_account_id ''team'' TencentCos)
     \<lparr>oa_access_key_id := ''id'', oa_access_key_secret := ''old'', oa_manual_buckets := [sample_bucket]\<rparr>"

definition sample_mount :: object_mount where
  "sample_mount = \<lparr>om_id = ObjectMountId 8, om_account_id = sample_account_id, om_bucket = ''media'',
     om_region = ''ap1'', om_endpoint = ''https://cos.ap1.myqcloud.com'', om_root_prefix = None,
     om_created_at = None, om_storage_class = None\<rparr>"

definition sample_operator :: "string \<Rightarrow> operator" where
  "sample_operator secret = \<lparr>op_builder = CosBuilder ''media'' ''https://cos.ap1.myqcloud.com'' ''id'' secret [],
     op_transport = PlainTransport\<rparr>"

definition no_access :: opendal_error where
  "no_access = \<lparr>od_kind = OdPermissionDenied, od_message = [], od_temporary = False, od_sources = []\<rparr>"

definition sample_raw :: raw_metadata where
  "sample_raw = \<lparr>rm_is_dir = False, rm_content_length = 3, rm_last_modified = None, rm_etag = None,
     rm_version = None, rm_content_type = None, rm_user_metadata = None\<rparr>"

text \<open>A cloud that lists the given items to the operators that it accepts.\<close>

definition sample_world :: "(operator \<Rightarrow> bool) \<Rightarrow> raw_entry list \<Rightarrow> od_world" where
  "sample_world accepts items =
     \<lparr>wd_builder_error = (\<lambda>_. None), wd_tls_provider = True, wd_http_client = True,
      wd_capability = (\<lambda>_. \<lparr>cp_stat = True, cp_read = True, cp_write = True, cp_delete = True, cp_list = True,
        cp_write_with_if_not_exists = False\<rparr>),
      wd_lister = (\<lambda>op _. if accepts op then Inr (map Inr items) else Inl no_access),
      wd_stat = (\<lambda>_ _. Inr sample_raw), wd_read = (\<lambda>_ _ n. Inr (replicate n CHR ''a'')),
      wd_delete = (\<lambda>_ _. Inr ()), wd_parse_rfc3339 = (\<lambda>_. None)\<rparr>"

lemma sample_texts [simp]:
  "trim ''media'' = ''media''" "trim ''ap1'' = ''ap1''" "trim ''team'' = ''team''"
  by (rule trim_ascii; simp)+

lemma sample_controls [simp]:
  "\<not> has_control ''media''" "\<not> has_control ''ap1''" "\<not> has_control ''team''" "\<not> has_control ''id''"
  "\<not> has_control ''old''" "\<not> has_control ''new''"
  by (rule has_control_ascii; simp)+

lemma host_label_samples [simp]: "host_label ''media''" "host_label ''ap1''"
  by (simp_all add: host_label_def is_ascii_lowercase_def is_ascii_digit_def is_ascii_alphanumeric_def
      is_ascii_alphabetic_def is_ascii_uppercase_def)

lemma sample_bucket_ok:
  "validate_bucket_name_for_provider TencentCos ''media'' = Inr ()" "validate_region ''ap1'' = Inr ()"
  by (simp_all add: validate_bucket_name_for_provider_def validate_bucket_name_def validate_region_def
      os_required_single_line_def os_protocol_text_def limits)

lemma sample_mounts: "mount_of_bucket sample_account sample_bucket = Inr sample_mount"
  using official_parses [OF sample_bucket_ok(2), of "''cos.''" "''.myqcloud.com''" TencentCos]
  by (simp add: mount_of_bucket_def endpoint_for_account_def official_endpoint_def sample_account_def
      object_account_new_def sample_bucket_def sample_mount_def)

lemma sample_account_ok: "validate_account no_url sample_account = Inr ()"
  by (simp add: validate_account_def sample_account_def object_account_new_def sample_bucket_def
      OBJECT_STORAGE_ACCOUNT_SCHEMA_VERSION_def os_required_single_line_def os_credential_def
      os_protocol_text_def check_endpoint_def validate_bucket_for_provider_def validate_bucket_def
      sample_bucket_ok validate_bucket_name_def limits)

lemma sample_mount_ok: "validate_mount no_url TencentCos sample_mount = Inr ()"
  using official_parses [OF sample_bucket_ok(2), of "''cos.''" "''.myqcloud.com''" TencentCos]
  by (simp add: validate_mount_def sample_mount_def sample_bucket_ok)

lemma sample_configured: "configured_mounts sample_account = Inr [sample_mount]"
  using sample_mounts by (simp add: configured_mounts_def sample_account_def object_account_new_def)

lemma sample_normal: "normalize_manual_mounts sample_account = sample_account"
  by (simp add: normalize_manual_mounts_def sample_account_def object_account_new_def)

lemma sample_built:
  "build_operator (sample_world accepts items) (snapshot_of (sample_account\<lparr>oa_access_key_secret := secret\<rparr>)) sample_mount
     = Inr (sample_operator secret)"
  by (simp add: build_operator_def service_builder_for_def apply_transport_def ensure_def sample_world_def
      snapshot_of_def sample_account_def object_account_new_def sample_mount_def sample_operator_def)

lemma sample_text_inj: "inj sample_text"
  by (rule injI) (use dec_inj in \<open>force simp: sample_text_def word_unat_eq_iff\<close>)

lemma sample_text_plain: "CHR '':'' \<notin> set (sample_text w)"
  using dec_digits [of "CHR '':''" "unat w"] by (auto simp: sample_text_def is_ascii_digit_def)

end
