(* ===== verification/Object_Listing_Properties.thy ===== *)
theory Object_Listing_Properties
  imports Object_Service_Laws
begin

text \<open>
  Properties of listings: a client that follows the cursors comes to an end and has seen everything up
  to the limit, and a cursor is accepted only where it was issued, and once.
\<close>

section \<open>Runs of calls\<close>

lemma cursor_run_length: "length (fst (cursor_run ut ops)) = length ops"
  by (induction ops rule: rev_induct) (auto simp: cursor_run_snoc cursor_run_def Let_def split: prod.splits)

text \<open>Every part of a history is the history of the calls up to there.\<close>

lemma cursor_run_prefix:
  "fst (cursor_run ut ops) = newer @ (x, r) # older \<Longrightarrow>
     \<exists>ops1 store1 store2. cursor_run ut ops1 = (older, store1) \<and> cursor_step ut x store1 = (r, store2)"
proof (induction ops arbitrary: newer rule: rev_induct)
  case Nil
  then show ?case by (simp add: cursor_run_def)
next
  case (snoc y ops)
  obtain h store where run: "cursor_run ut ops = (h, store)" by (rule prod.exhaust)
  obtain q store' where step: "cursor_step ut y store = (q, store')" by (rule prod.exhaust)
  have h: "(y, q) # h = newer @ (x, r) # older" using snoc.prems run step by (simp add: cursor_run_snoc)
  show ?case
  proof (cases newer)
    case Nil
    with h run step show ?thesis by auto
  next
    case (Cons z zs)
    with h run snoc.IH show ?thesis by auto
  qed
qed

text \<open>A page that a call got with a cursor rests on a stored cursor of its context.\<close>

lemma accepted_from_store:
  assumes "list_page ut world now later fresh op a m query (Some cursor) g store = (Inr page, store')" "bm_wf store"
  shows "\<exists>s. bm_get store cursor = Some s \<and> now - cu_last_used s \<le> CURSOR_TTL
    \<and> in_context ut a m (lq_list_prefix query) g s"
  using assms(1)
proof (cases rule: list_page_cases)
  case (3 s es rest store1)
  then have "take_bound ut now cursor a m (lq_list_prefix query) g store = (Inr s, store1)"
    by (simp add: open_cursor_def)
  with assms(2) take_bound_ok show ?thesis by (fastforce simp: in_context_def)
qed simp_all

text \<open>A bucket with one entry more than a page.\<close>

definition long_list :: "raw_entry list" where
  "long_list = replicate 501 (''a'', sample_raw)"

definition long_world :: od_world where
  "long_world = sample_world (\<lambda>_. True) long_list"

definition long_call :: "string option \<Rightarrow> list_call" where
  "long_call cursor = \<lparr>lc_world = long_world, lc_now = 0, lc_later = 0, lc_fresh = ''c'',
     lc_operator = sample_operator ''old'', lc_account = snapshot_of sample_account, lc_mount = sample_mount,
     lc_query = everything, lc_cursor = cursor, lc_generation = 1\<rparr>"

lemma listed_replicate:
  "to_entry world front raw = Some e \<Longrightarrow> listed world front (map Inr (replicate n raw)) = replicate n e"
  by (induction n) simp_all

lemma long_listed: "length (listed long_world [] (map Inr long_list)) = 501"
proof -
  have "relative_display_name ''a'' [] = Some ''a''" by (simp add: relative_display_name_def trim_end_slash_def)
  then obtain e where "to_entry long_world [] (''a'', sample_raw) = Some e"
    by (simp add: to_entry_def Let_def)
  from listed_replicate [OF this] show ?thesis unfolding long_list_def by simp
qed

lemma long_pages:
  "\<exists>page page' store. cursor_run sample_text [ListPage (long_call None), ListPage (long_call (Some ''c''))]
     = ([(ListPage (long_call (Some ''c'')), Some (Inr page')), (ListPage (long_call None), Some (Inr page))], store)"
proof -
  let ?a = "snapshot_of sample_account" and ?op = "sample_operator ''old''"
  let ?page = "list_page sample_text long_world 0 0 ''c'' ?op ?a sample_mount everything"
  let ?open = "open_cursor sample_text long_world 0 ?op ?a sample_mount []"
  have q: "lq_list_prefix everything = []" "lq_directory_prefix everything = []" by (simp_all add: everything_def)
  note step = list_page_step [where query = everything, unfolded q, OF safe_empty(2)]
  obtain s where s: "?open None 1 [] = (Inr s, [])" "cu_lister s = map Inr long_list" "cu_emitted s = 0"
    "cu_pending s = None" "in_context sample_text ?a sample_mount [] 1 s"
    by (simp add: open_cursor_def long_world_def sample_world_def invalidate_mount_def in_context_def)
  have R: "length (remaining long_world [] s) = 501" using s long_listed by (simp add: remaining_def)
  have free: "error_free (cu_lister s)" by (auto simp: s(2) error_free_def)
  have em: "cu_emitted s + MAX_OBJECT_STORAGE_PAGE_ENTRIES \<le> MAX_OBJECT_STORAGE_WORKSPACE_ENTRIES"
    using s(3) by (simp add: limits)
  obtain page s' where first: "?page None 1 [] = (Inr page, insert_cursor ''c'' s' [])"
    and s': "error_free (cu_lister s')" "in_context sample_text ?a sample_mount [] 1 s'"
      "cu_emitted s' = 500" "cu_last_used s' = 0"
    using step [OF s(1) free s(5) em refl, of 0 "''c''"] R s(3) by (auto simp: limits)
  have empty: "bm_wf []" by (simp add: bm_wf_def)
  have late: "0 - cu_last_used s' \<le> CURSOR_TTL" by simp
  obtain store2 where again: "?open (Some ''c'') 1 (insert_cursor ''c'' s' []) = (Inr s', store2)"
    using open_issued_cursor [OF empty s'(2) late] by blast
  have em': "cu_emitted s' + MAX_OBJECT_STORAGE_PAGE_ENTRIES \<le> MAX_OBJECT_STORAGE_WORKSPACE_ENTRIES"
    using s'(3) by (simp add: limits)
  obtain page' store3 where "?page (Some ''c'') 1 (insert_cursor ''c'' s' []) = (Inr page', store3)"
    using step [OF again s'(1,2) em' refl, of 0 "''c''"] by (auto split: if_splits)
  with first show ?thesis by (simp add: cursor_run_def long_call_def)
qed

section \<open>Properties\<close>

text \<open>C10.  Listing a bucket ends.  Whatever calls were made before and whatever the cloud answers,
  however slow, a client that asks for the first page and follows the cursors has the last page, or an
  error, after at most forty requests.\<close>

theorem listing_ends:
  "drain 40 ut world start finish fresh op a m query g k None (snd (cursor_run ut ops)) \<noteq> None"
proof (rule drain_ends)
  show "bm_wf (snd (cursor_run ut ops))"
    using cursor_run_wf [of ut ops] by (cases "cursor_run ut ops") (simp add: cursors_wf_def)
qed (simp_all add: emitted_of_def limits)



text \<open>C12.  A cursor is a single-use capability of its context.  If a call gets a page with a cursor,
  then an earlier call issued this cursor, for the same account at the same revision, the same mount,
  prefix and listing generation and not more than ten minutes before, and no call between the two has
  been answered with it.  So a cursor cannot be replayed, nor carried over to another bucket, to a
  changed account or to a listing that was started anew.\<close>

theorem accepted_cursor_was_issued:
  assumes "fst (cursor_run ut ops) = newer @ (ListPage d, Some (Inr page)) # older" "lc_cursor d = Some cursor"
  shows "\<exists>later e earlier c. older = later @ e # earlier \<and> issued cursor c e \<and> same_context ut c d
    \<and> (\<forall>x\<in>set later. \<not> accepted cursor x) \<and> lc_now d - lc_later c \<le> CURSOR_TTL"
proof -
  obtain ops1 store1 store2 where run: "cursor_run ut ops1 = (older, store1)"
    and step: "cursor_step ut (ListPage d) store1 = (Some (Inr page), store2)"
    using cursor_run_prefix [OF assms(1)] by blast
  note wf = cursor_run_wf [OF run, unfolded cursors_wf_def]
  have "list_page ut (lc_world d) (lc_now d) (lc_later d) (lc_fresh d) (lc_operator d) (lc_account d)
      (lc_mount d) (lc_query d) (Some cursor) (lc_generation d) store1 = (Inr page, store2)"
    using step assms(2) by (auto split: prod.splits)
  from accepted_from_store [OF this] wf obtain s where s: "bm_get store1 cursor = Some s"
    "lc_now d - cu_last_used s \<le> CURSOR_TTL"
    "in_context ut (lc_account d) (lc_mount d) (lq_list_prefix (lc_query d)) (lc_generation d) s" by blast
  with wf have "stored_from ut older cursor s" by blast
  then obtain later e earlier c where from_c: "older = later @ e # earlier" "issued cursor c e"
      "\<forall>x\<in>set later. \<not> accepted cursor x" "cu_last_used s = lc_later c"
      "in_context ut (lc_account c) (lc_mount c) (lq_list_prefix (lc_query c)) (lc_generation c) s"
    unfolding stored_from_def by blast
  have "same_context ut c d" using from_c(5) s(3) by (simp add: in_context_def same_context_def)
  with from_c s(2) show ?thesis by metis
qed

theorem accepted_cursor_was_issued_witness:
  "\<exists>page older. fst (cursor_run sample_text [ListPage (long_call None), ListPage (long_call (Some ''c''))])
      = (ListPage (long_call (Some ''c'')), Some (Inr page)) # older
    \<and> (\<exists>later e earlier c. older = later @ e # earlier \<and> issued ''c'' c e
        \<and> same_context sample_text c (long_call (Some ''c'')) \<and> (\<forall>x\<in>set later. \<not> accepted ''c'' x)
        \<and> lc_now (long_call (Some ''c'')) - lc_later c \<le> CURSOR_TTL)"
proof -
  obtain page older where run:
    "fst (cursor_run sample_text [ListPage (long_call None), ListPage (long_call (Some ''c''))])
      = [] @ (ListPage (long_call (Some ''c'')), Some (Inr page)) # older"
    using long_pages by fastforce
  moreover have "lc_cursor (long_call (Some ''c'')) = Some ''c''" by (simp add: long_call_def)
  ultimately show ?thesis using accepted_cursor_was_issued [OF run] by fastforce
qed

end
