(* ===== verification/Object_Operator_Properties.thy ===== *)
theory Object_Operator_Properties
  imports Object_Service_Laws Object_Cache
begin

text \<open>
  Properties of the operator cache: it drops the least recently used, its eviction loop ends, what it
  hands out was built for the account at its revision, and what an operator depends on.
\<close>

section \<open>The cache of a run\<close>

lemma run_lru:
  assumes "cache = cache_run ut parse_url ops cache_new"
  shows "lru_of (ca_operators cache) (ca_lru cache)" "length (ca_operators cache) \<le> MAX_CACHED_OPERATORS"
  using cache_run_wf [of ut parse_url ops] assms by (simp_all add: cache_wf_def)

lemma sample_cache_get:
  "\<exists>cache. cache_get sample_text no_url (sample_world (\<lambda>_. True) []) (snapshot_of sample_account) sample_mount
     cache_new = (Inr (sample_operator ''old''), cache)"
proof -
  have "sample_account\<lparr>oa_access_key_secret := ''old''\<rparr> = sample_account"
    by (simp add: sample_account_def object_account_new_def)
  then have "build_operator (sample_world (\<lambda>_. True) []) (snapshot_of sample_account) sample_mount
      = Inr (sample_operator ''old'')" using sample_built [of "\<lambda>_. True" "[]" "''old''"] by simp
  moreover have "as_id (snapshot_of sample_account) = om_account_id sample_mount"
    "as_provider (snapshot_of sample_account) = TencentCos"
    by (simp_all add: snapshot_of_def sample_account_def object_account_new_def sample_mount_def)
  ultimately show ?thesis
    using cache_get_miss [of cache_new "snapshot_of sample_account" sample_mount no_url sample_text]
    by (fastforce simp: cache_new_def lru_of_def bm_wf_def bm_get_def sample_mount_ok)
qed

section \<open>Properties\<close>

text \<open>C13.  The operator cache keeps the thirty-two most recently used operators.  After any sequence of
  lookups, invalidations and clearings, a lookup that succeeds leaves its operator in the cache and its
  identity at the end of the list of uses; if the cache was full and the identity new, exactly the
  least recently used one is dropped.  The list holds each cached identity once, and the eviction loop,
  which would never end with an empty list, does end.\<close>

theorem operator_cache_is_lru:
  assumes "cache = cache_run ut parse_url ops cache_new"
    and "cache_get ut parse_url world a m cache = (Inr op, cache')"
    and "k = operator_identity ut m (as_revision a)"
  shows "evict_loop (bm_insert k op (ca_operators cache)) (touch_lru k (ca_lru cache)) \<noteq> None
    \<and> ca_lru cache' =
        (if bm_get (ca_operators cache) k \<noteq> None \<or> length (ca_operators cache) < MAX_CACHED_OPERATORS
         then filter (\<lambda>j. j \<noteq> k) (ca_lru cache) else tl (ca_lru cache)) @ [k]
    \<and> bm_get (ca_operators cache') k = Some op
    \<and> distinct (ca_lru cache') \<and> set (ca_lru cache') = set (map fst (ca_operators cache'))
    \<and> length (ca_lru cache') \<le> MAX_CACHED_OPERATORS"
proof -
  note lru = run_lru [OF assms(1)]
  have "cache_wf ut parse_url (ops @ [CacheGet world a m]) cache'"
    using cache_get_wf [OF cache_run_wf] assms(1,2) by blast
  then have after: "lru_of (ca_operators cache') (ca_lru cache')"
    "length (ca_operators cache') \<le> MAX_CACHED_OPERATORS" by (simp_all add: cache_wf_def)
  have "evict_loop (bm_insert k op (ca_operators cache)) (touch_lru k (ca_lru cache)) \<noteq> None"
    using evict_loop_ends [OF lru_of_insert [OF lru(1)]] by (metis option.distinct(1))
  moreover have "ca_lru cache' =
        (if bm_get (ca_operators cache) k \<noteq> None \<or> length (ca_operators cache) < MAX_CACHED_OPERATORS
         then filter (\<lambda>j. j \<noteq> k) (ca_lru cache) else tl (ca_lru cache)) @ [k]
      \<and> bm_get (ca_operators cache') k = Some op"
    using assms(2)
  proof (cases rule: cache_get_cases)
    case (2 op')
    with assms(3) show ?thesis by (simp add: touch_lru_def)
  next
    case (3 op' ops' lru')
    then have none: "bm_get (ca_operators cache) k = None" using assms(3) by simp
    then have "k \<notin> set (ca_lru cache)" using lru(1) bm_keys_eq [of "ca_operators cache"]
      by (auto simp: lru_of_def simp del: set_map)
    then have "filter (\<lambda>j. j \<noteq> k) (ca_lru cache) = ca_lru cache" by (auto simp: filter_id_conv)
    with insert_evict [OF lru none, of op] 3 none assms(3) show ?thesis by auto
  qed simp
  moreover have "length (ca_lru cache') \<le> MAX_CACHED_OPERATORS"
    using after lru_of_length by metis
  ultimately show ?thesis using after(1) unfolding lru_of_def by blast
qed

theorem operator_cache_is_lru_witness:
  "\<exists>cache'. cache_get sample_text no_url (sample_world (\<lambda>_. True) []) (snapshot_of sample_account)
       sample_mount cache_new = (Inr (sample_operator ''old''), cache')
    \<and> ca_lru cache' = [operator_identity sample_text sample_mount (as_revision (snapshot_of sample_account))]
    \<and> length (ca_lru cache') \<le> MAX_CACHED_OPERATORS"
proof -
  obtain cache where get: "cache_get sample_text no_url (sample_world (\<lambda>_. True) []) (snapshot_of sample_account)
      sample_mount cache_new = (Inr (sample_operator ''old''), cache)" using sample_cache_get by blast
  have "cache_new = cache_run sample_text no_url [] cache_new" by (simp add: cache_run_def)
  from operator_cache_is_lru [OF this get refl] get show ?thesis
    by (intro exI [of _ cache]) (simp add: cache_new_def bm_get_def limits)
qed

text \<open>C14.  An operator is handed out for the account, revision, bucket and region it was built for.
  After any sequence of calls, the operator of a lookup was built, now or in an earlier lookup, from a
  snapshot of the same account at the same revision and a mount of the same bucket and region; and
  this revision is not below any to which the account has been invalidated, so no lookup with an old
  snapshot succeeds after a save.  The texts of two UUIDs differ and hold no colon.\<close>

theorem operator_of_current_revision:
  assumes "cache = cache_run ut parse_url ops cache_new"
    and "cache_get ut parse_url world a m cache = (Inr op, cache')"
    and "inj ut" "\<And>w. CHR '':'' \<notin> set (ut w)"
  shows "(\<exists>world' a' m'. CacheGet world' a' m' \<in> set (ops @ [CacheGet world a m])
      \<and> build_operator world' a' m' = Inr op \<and> as_id a' = as_id a \<and> as_revision a' = as_revision a
      \<and> om_bucket m' = om_bucket m \<and> om_region m' = om_region m)
    \<and> (\<forall>r. CacheInvalidate (as_id a) r \<in> set ops \<longrightarrow> r \<le> as_revision a)"
proof -
  have wf: "cache_wf ut parse_url ops cache" using cache_run_wf assms(1) by simp
  have old: "r \<le> as_revision a"
    if min: "\<forall>min. ca_minimum cache (as_id a) = Some min \<longrightarrow> min \<le> as_revision a"
      and inv: "CacheInvalidate (as_id a) r \<in> set ops" for r
  proof -
    obtain r' where "ca_minimum cache (as_id a) = Some r'" "r \<le> r'"
      using wf inv unfolding cache_wf_def by blast
    with min show ?thesis by (meson order.trans)
  qed
  from assms(2) show ?thesis
  proof (cases rule: cache_get_cases)
    case (2 op')
    then have "cached_from ut parse_url ops cache (operator_identity ut m (as_revision a)) op"
      using wf by (simp add: cache_wf_def)
    then obtain world' a' m' where c: "CacheGet world' a' m' \<in> set ops" "build_operator world' a' m' = Inr op"
      "as_id a' = om_account_id m'" "validate_mount parse_url (as_provider a') m' = Inr ()"
      "operator_identity ut m (as_revision a) = operator_identity ut m' (as_revision a')"
      by (auto simp: cached_from_def)
    note same = operator_identity_split [OF c(5) assms(4,3) 2(3) c(4)]
    show ?thesis using c same 2(2) old [OF 2(4)]
      by (intro conjI exI [of _ world'] exI [of _ a'] exI [of _ m']) auto
  next
    case (3 op' ops' lru')
    then show ?thesis using old [OF 3(4)] by auto
  qed simp
qed

theorem operator_of_current_revision_witness:
  "\<exists>world' a' m'. build_operator world' a' m' = Inr (sample_operator ''old'')
     \<and> as_id a' = sample_account_id \<and> om_bucket m' = ''media''"
proof -
  obtain cache where get: "cache_get sample_text no_url (sample_world (\<lambda>_. True) []) (snapshot_of sample_account)
      sample_mount cache_new = (Inr (sample_operator ''old''), cache)" using sample_cache_get by blast
  have new: "cache_new = cache_run sample_text no_url [] cache_new" by (simp add: cache_run_def)
  have "as_id (snapshot_of sample_account) = sample_account_id" "om_bucket sample_mount = ''media''"
    by (simp_all add: snapshot_of_def sample_account_def object_account_new_def sample_mount_def)
  with operator_of_current_revision [OF new get sample_text_inj sample_text_plain] show ?thesis by metis
qed

text \<open>What a root prefix is good for.  Two mounts that differ in the root prefix only get different
  operators for Tencent COS and Aliyun OSS, but always the same one for S3 compatible storage, where
  the root prefix has no effect: a mount that is meant for a part of the bucket shows, overwrites and
  deletes the objects of the whole bucket.\<close>

theorem operator_depends_on_root:
  assumes "build_operator world a m = Inr op" "build_operator world a (m\<lparr>om_root_prefix := q\<rparr>) = Inr op'"
  shows "op = op' \<longleftrightarrow> as_provider a = S3Compatible
    \<or> (case om_root_prefix m of None \<Rightarrow> [] | Some p \<Rightarrow> p) = (case q of None \<Rightarrow> [] | Some p \<Rightarrow> p)"
  using assms
  by (cases "as_provider a")
    (auto simp: build_operator_def service_builder_for_def apply_transport_def Let_def try_r_ok
      split: option.splits)

theorem operator_depends_on_root_witness:
  "sample_operator ''old'' \<noteq> (sample_operator ''old'')\<lparr>op_builder :=
     CosBuilder ''media'' ''https://cos.ap1.myqcloud.com'' ''id'' ''old'' ''p/''\<rparr>"
proof -
  let ?a = "snapshot_of sample_account" and ?world = "sample_world (\<lambda>_. True) []"
  have "build_operator ?world ?a sample_mount = Inr (sample_operator ''old'')"
    "build_operator ?world ?a (sample_mount\<lparr>om_root_prefix := Some ''p/''\<rparr>)
      = Inr ((sample_operator ''old'')\<lparr>op_builder :=
          CosBuilder ''media'' ''https://cos.ap1.myqcloud.com'' ''id'' ''old'' ''p/''\<rparr>)"
    by (simp_all add: build_operator_def service_builder_for_def apply_transport_def ensure_def sample_world_def
        snapshot_of_def sample_account_def object_account_new_def sample_mount_def sample_operator_def)
  from operator_depends_on_root [OF this] show ?thesis
    by (simp add: snapshot_of_def sample_account_def object_account_new_def sample_mount_def)
qed

end
