(* ===== verification/Object_Account_Properties.thy ===== *)
theory Object_Account_Properties
  imports Object_Service_Laws
begin

text \<open>
  Properties of the accounts: saves do not overwrite each other, an accepted account has mounts that can
  be used, and a save whose credentials are rejected makes the next one fail with the same credentials.
\<close>

section \<open>The verification of an account with one bucket\<close>

lemma verify_rejected:
  assumes "configured_mounts a = Inr [m]"
    and "cache_get ut parse_url (ce_world env) (snapshot_of a) m (in_operators (se_infra s)) = (Inr op, c)"
    and "in_accepting (se_infra s)" "wd_lister (ce_world env) op [] = Inl e"
  shows "\<exists>store. verify_configured_mounts ut parse_url env a s
    = (verification_from_error (map_opendal ''list'' e),
       s\<lparr>se_infra := (se_infra s)\<lparr>in_operators := c, in_cursors := store\<rparr>\<rparr>)"
proof -
  obtain store where "driver_list_page ut parse_url env 0 (snapshot_of a) m everything None 1 (se_infra s)
      = (Inl (map_opendal ''list'' e), (se_infra s)\<lparr>in_operators := c, in_cursors := store\<rparr>)"
    using rejected_listing [OF assms(2-4), of 0 1] by blast
  then have "verify_configured_mounts ut parse_url env a s
      = (verification_from_error (map_opendal ''list'' e),
         s\<lparr>se_infra := (se_infra s)\<lparr>in_operators := c, in_cursors := store\<rparr>\<rparr>)"
    using assms(1) by (simp add: verify_configured_mounts_def bind_s_def lift_r_def ensure_def everything_ok)
  then show ?thesis by blast
qed


text \<open>What a change of the credentials leaves as it is.\<close>

definition with_credentials :: "string \<Rightarrow> string \<Rightarrow> object_account \<Rightarrow> object_account" where
  "with_credentials key secret a = a\<lparr>oa_access_key_id := key, oa_access_key_secret := secret\<rparr>"

lemma credentials_frame [simp]:
  "oa_id (with_credentials key secret a) = oa_id a"
  "normalize_manual_mounts (with_credentials key secret a) = with_credentials key secret (normalize_manual_mounts a)"
  "configured_mounts (with_credentials key secret a) = configured_mounts a"
  "revision_to_save stored (with_credentials key secret a) = revision_to_save stored a"
  "as_id (snapshot_of (with_credentials key secret a)) = as_id (snapshot_of a)"
  "as_provider (snapshot_of (with_credentials key secret a)) = as_provider (snapshot_of a)"
  "as_revision (snapshot_of (with_credentials key secret a)) = as_revision (snapshot_of a)"
  by (cases "oa_provider a = S3Compatible";
      simp add: with_credentials_def normalize_manual_mounts_def configured_mounts_def mount_of_bucket_def
        endpoint_for_account_def revision_to_save_def snapshot_of_def cong: option.case_cong)+





section \<open>A first save\<close>

text \<open>The cloud answers nothing useful, so the account is saved unverified.\<close>

definition unreachable :: opendal_error where
  "unreachable = \<lparr>od_kind = OdUnexpected, od_message = [], od_temporary = True, od_sources = []\<rparr>"

definition saved_env :: call_env where
  "saved_env = \<lparr>ce_world = (sample_world (\<lambda>_. True) [])\<lparr>wd_lister := (\<lambda>_ _. Inl unreachable)\<rparr>,
     ce_now = 0, ce_later = 0, ce_fresh = (\<lambda>_. ''c''), ce_gate = True\<rparr>"


lemma new_service_cache:
  "lru_of (ca_operators (in_operators (se_infra object_service_new))) (ca_lru (in_operators (se_infra object_service_new)))"
  "length (ca_operators (in_operators (se_infra object_service_new))) \<le> MAX_CACHED_OPERATORS"
  "bm_get (ca_operators (in_operators (se_infra object_service_new))) k = None"
  "ca_minimum (in_operators (se_infra object_service_new)) i = None"
  by (simp_all add: object_service_new_def infra_new_def cache_new_def lru_of_def bm_wf_def bm_get_def)

lemma sample_account_snapshot:
  "as_id (snapshot_of sample_account) = om_account_id sample_mount" "as_provider (snapshot_of sample_account) = TencentCos"
  by (simp_all add: snapshot_of_def sample_account_def object_account_new_def sample_mount_def)

lemma unreachable_category: "oe_category (map_opendal ''list'' unreachable) = OsProvider"
proof -
  have "extract_provider_field [] ''code'' = None"
    by (simp add: extract_provider_field_def to_pascal_case_def)
  then show ?thesis
    by (simp add: map_opendal_def unreachable_def kind_category_def provider_category_def to_ascii_lowercase_def
        object_storage_retryable_def with_provider_details_def object_storage_error_new_def)
qed



lemma sample_account_saves:
  "\<exists>v s'. save_account sample_text no_url saved_env sample_account object_service_new = (Inr (sample_account, v), s')"
proof -
  let ?s = "cancel_account_transfers sample_account_id object_service_new"
  have rev: "sample_account\<lparr>oa_revision := 1\<rparr> = sample_account" "oa_id sample_account = sample_account_id"
    "revision_to_save None sample_account = Inr 1"
    by (simp_all add: sample_account_def object_account_new_def revision_to_save_def)
  have same: "se_infra ?s = se_infra object_service_new" "se_faults ?s = []" "se_accounts ?s = (\<lambda>_. None)"
    by (simp_all add: cancel_account_transfers_def object_service_new_def)
  have old: "sample_account\<lparr>oa_access_key_secret := ''old''\<rparr> = sample_account"
    by (simp add: sample_account_def object_account_new_def)
  have "build_operator (ce_world saved_env) (snapshot_of sample_account) sample_mount = Inr (sample_operator ''old'')"
    using sample_built [of "\<lambda>_. True" "[]" "''old''"] unfolding old
    by (simp add: saved_env_def sample_world_def build_operator_def apply_transport_def)
  then obtain c where get: "cache_get sample_text no_url (ce_world saved_env) (snapshot_of sample_account) sample_mount
      (in_operators (se_infra ?s)) = (Inr (sample_operator ''old''), c)"
    using cache_get_miss [OF new_service_cache(1,2) sample_account_snapshot(1), of no_url sample_text] new_service_cache(3,4)
      sample_mount_ok sample_account_snapshot(2) unfolding same by fastforce
  have open_door: "in_accepting (se_infra ?s)" unfolding same by (simp add: object_service_new_def infra_new_def)
  have down: "wd_lister (ce_world saved_env) (sample_operator ''old'') [] = Inl unreachable" by (simp add: saved_env_def)
  obtain store where verify: "verify_configured_mounts sample_text no_url saved_env sample_account ?s
      = (verification_from_error (map_opendal ''list'' unreachable),
         ?s\<lparr>se_infra := (se_infra ?s)\<lparr>in_operators := c, in_cursors := store\<rparr>\<rparr>)"
    using verify_rejected [OF sample_configured get open_door down] by blast
  have "ce_gate saved_env" by (simp add: saved_env_def)
  then show ?thesis
    using verify same unreachable_category
    by (simp add: save_account_def sample_normal sample_account_ok rev Let_def bind_s_def lift_r_def
        acquire_write_guard_def ensure_def stored_account_def storage_call_def verification_from_error_def)
qed

section \<open>Properties\<close>

text \<open>C16.  Saves of accounts do not get lost.  A save that fails leaves every stored account as it was.
  A save that succeeds stores the account, with its regions normalised, under the next revision, and
  it only succeeds if the caller's revision is the stored one (or one, for a new account); so a second
  editor, who still has the revision that has just been overwritten, is refused.\<close>

theorem account_saves_are_serialised:
  assumes "save_account ut parse_url env account s = (r, s')"
  shows "((\<exists>e. r = Inl e) \<and> se_accounts s' = se_accounts s)
    \<or> (\<exists>revision v. let saved = (normalize_manual_mounts account)\<lparr>oa_revision := revision\<rparr> in
        r = Inr (saved, v) \<and> se_accounts s' = (se_accounts s)(oa_id account \<mapsto> saved)
        \<and> validate_account parse_url (normalize_manual_mounts account) = Inr ()
        \<and> (case se_accounts s (oa_id account) of
             None \<Rightarrow> oa_revision account = 1 \<and> revision = 1
           | Some old \<Rightarrow> oa_revision old = oa_revision account
               \<and> unat revision = unat (oa_revision old) + 1
               \<and> (\<forall>env2 account2. oa_id account2 = oa_id account \<and> oa_revision account2 = oa_revision account \<longrightarrow>
                    (\<exists>e. fst (save_account ut parse_url env2 account2 s') = Inl e))))"
  using save_account_steps [OF assms]
proof (elim disjE conjE exE)
  fix revision v
  let ?n = "normalize_manual_mounts account"
  let ?saved = "?n\<lparr>oa_revision := revision\<rparr>"
  assume ok: "r = Inr (?saved, v)" "validate_account parse_url ?n = Inr ()"
    "revision_to_save (se_accounts s (oa_id account)) ?n = Inr revision"
    "se_accounts s' = (se_accounts s)(oa_id account \<mapsto> ?saved)"
  note next_rev = revision_to_save_next [OF ok(3)]
  have refused: "\<exists>e. fst (save_account ut parse_url env2 account2 s') = Inl e"
    if same: "oa_id account2 = oa_id account" "oa_revision account2 = oa_revision account"
      and stored: "se_accounts s (oa_id account) = Some old" for env2 account2 old
  proof -
    obtain r2 s2 where run: "save_account ut parse_url env2 account2 s' = (r2, s2)" by (rule prod.exhaust)
    have "unat revision \<noteq> unat (oa_revision account2)" using next_rev stored same by simp
    then have "revision_to_save (se_accounts s' (oa_id account2)) (normalize_manual_mounts account2) \<noteq> Inr q" for q
      using ok(4) same(1) by (auto simp: revision_to_save_def)
    with save_account_steps [OF run] run show ?thesis by auto
  qed
  have "case se_accounts s (oa_id account) of
      None \<Rightarrow> oa_revision account = 1 \<and> revision = 1
    | Some old \<Rightarrow> oa_revision old = oa_revision account \<and> unat revision = unat (oa_revision old) + 1
        \<and> (\<forall>env2 account2. oa_id account2 = oa_id account \<and> oa_revision account2 = oa_revision account \<longrightarrow>
             (\<exists>e. fst (save_account ut parse_url env2 account2 s') = Inl e))"
    using next_rev refused by (cases "se_accounts s (oa_id account)") auto
  with ok show ?thesis unfolding Let_def by blast
qed blast

theorem account_saves_are_serialised_witness:
  "\<exists>s'. (\<exists>v. save_account sample_text no_url saved_env sample_account object_service_new = (Inr (sample_account, v), s'))
     \<and> se_accounts s' sample_account_id = Some sample_account"
proof -
  obtain r s' where run: "save_account sample_text no_url saved_env sample_account object_service_new = (r, s')"
    by (rule prod.exhaust)
  have "\<exists>x. r = Inr x" using sample_account_saves run by fastforce
  with account_saves_are_serialised [OF run] obtain revision v where
    "r = Inr (sample_account\<lparr>oa_revision := revision\<rparr>, v)" "revision = 1"
    "se_accounts s' = (se_accounts object_service_new)(oa_id sample_account \<mapsto> sample_account\<lparr>oa_revision := revision\<rparr>)"
    by (auto simp: Let_def sample_normal object_service_new_def)
  moreover have "sample_account\<lparr>oa_revision := 1\<rparr> = sample_account" "oa_id sample_account = sample_account_id"
    by (simp_all add: sample_account_def object_account_new_def)
  ultimately show ?thesis using run by auto
qed

text \<open> Every bucket of an accepted account can be used.  If an account passes its check, it has a
  mount for each of its buckets, with the bucket's identifier; the connector accepts every mount with
  its derived endpoint, and no two of them share the identity under which their operator is cached.\<close>

theorem accepted_account_has_mounts:
  assumes "validate_account parse_url a = Inr ()"
  shows "\<exists>ms. configured_mounts a = Inr ms \<and> ms \<noteq> []
    \<and> (\<forall>m\<in>set ms. om_account_id m = oa_id a \<and> validate_mount parse_url (oa_provider a) m = Inr ())
    \<and> mset (map om_id ms) = mset (map mb_id (oa_manual_buckets a))
    \<and> distinct (map (\<lambda>m. operator_identity ut m (oa_revision a)) ms)"
  by (rule configured_mounts_ok [OF validate_account_wf [OF assms]])

theorem accepted_account_has_mounts_witness:
  "validate_mount no_url TencentCos sample_mount = Inr () \<and> om_account_id sample_mount = sample_account_id"
  using accepted_account_has_mounts [OF sample_account_ok, of sample_text] sample_configured
  by (auto simp: sample_account_def object_account_new_def)



end
