(* ===== verification/Object_Transfer_Properties.thy ===== *)
theory Object_Transfer_Properties
  imports Object_Service_Laws
begin

text \<open>
  Properties of the data operations: what a text preview shows, what a download leaves at its target
  with and without other processes in between, and the bounds of the transfer queue.
\<close>

section \<open>Repeated texts\<close>

lemma nth_concat_replicate:
  "i < n * length xs \<Longrightarrow> concat (replicate n xs) ! i = xs ! (i mod length xs)"
proof (induction n arbitrary: i)
  case (Suc n)
  show ?case
  proof (cases "i < length xs")
    case False
    then have "i mod length xs = (i - length xs) mod length xs" by (simp add: le_mod_geq)
    with Suc False show ?thesis by (simp add: nth_append)
  qed (simp add: nth_append)
qed simp

lemma length_concat_replicate: "length (concat (replicate n xs)) = n * length xs"
  by (induction n) simp_all

lemma utf8_replicate: "utf8 (replicate n c) = concat (replicate n (utf8_enc c))"
  by (simp add: utf8_def)

section \<open>Text previews\<close>

definition not_text :: object_storage_error where
  "not_text = os_invalid ''preview'' ((utf8 [0x5F53, 0x524D, 0x6587, 0x4EF6, 0x4E0D, 0x662F] @ '' UTF-8 '' @ utf8 [0x6587, 0x672C, 0xFF0C, 0x8BF7, 0x4E0B, 0x8F7D, 0x540E, 0x6253, 0x5F00]))"

text \<open>A text of 17,476,267 Chinese characters, one byte longer than the limit.\<close>

definition long_text :: string where
  "long_text = utf8 (replicate 17476267 0x4E2D)"

definition long_text_raw :: raw_metadata where
  "long_text_raw = sample_raw\<lparr>rm_content_length := 52428801, rm_content_type := Some ''text/plain''\<rparr>"

definition long_text_world :: od_world where
  "long_text_world = (sample_world (\<lambda>_. True) [])\<lparr>wd_stat := (\<lambda>_ _. Inr long_text_raw),
     wd_read := (\<lambda>_ _ n. Inr (take n long_text))\<rparr>"

lemma safe_key_a: "is_opendal_safe_key ''a''"
proof -
  have "\<not> has_control ''a''" by (rule has_control_ascii) simp
  moreover have "trim ''a'' = ''a''" by (rule trim_ascii) simp_all
  moreover have "\<not> list_ex (\<lambda>w. str_contains w ''a'') BIDI_CONTROLS"
    by (simp add: BIDI_CONTROLS_def utf8_enc_def)
  ultimately show ?thesis
    by (simp add: is_opendal_safe_key_def is_opendal_safe_path_def validate_object_key_def os_protocol_text_def
        has_unsafe_character_def starts_with_def suffix_def limits)
qed

lemma long_text_length: "length long_text = 52428801"
  unfolding long_text_def utf8_replicate length_concat_replicate by (simp add: utf8_enc_def)

lemma long_text_cut: "is_cont (long_text ! MAX_OBJECT_STORAGE_TEXT_PREVIEW_BYTES)"
proof -
  have enc: "length (utf8_enc 0x4E2D) = 3" "utf8_enc 0x4E2D ! 2 = char_of (0x80 + 0x2D :: nat)"
    by (simp_all add: utf8_enc_def)
  have "long_text ! MAX_OBJECT_STORAGE_TEXT_PREVIEW_BYTES
      = utf8_enc 0x4E2D ! (MAX_OBJECT_STORAGE_TEXT_PREVIEW_BYTES mod length (utf8_enc 0x4E2D))"
    unfolding long_text_def utf8_replicate by (rule nth_concat_replicate) (simp add: enc limits)
  also have "\<dots> = char_of (0x80 + 0x2D :: nat)" by (simp add: enc limits)
  finally show ?thesis by (simp add: is_cont_def)
qed

lemma long_text_plain: "is_utf8 long_text" "CHR 0x00 \<notin> set long_text"
proof -
  have "list_all is_scalar (replicate n 0x4E2D)" for n by (simp add: list_all_iff is_scalar_def)
  then show "is_utf8 long_text" unfolding is_utf8_def long_text_def by blast
  have "\<forall>c\<in>set (utf8_enc 0x4E2D). byte c \<noteq> 0" by (simp add: utf8_enc_def)
  then have "CHR 0x00 \<notin> set (utf8_enc 0x4E2D)" by force
  then have "CHR 0x00 \<notin> set (concat (replicate n (utf8_enc 0x4E2D)))" for n by simp
  then show "CHR 0x00 \<notin> set long_text" unfolding long_text_def utf8_replicate by blast
qed

text \<open>C19.  The preview of a text object.  If the key is accepted, the object is stored with its size, its
  type is one for previews and its content is UTF-8 without a NUL, then the preview shows the first
  50 MiB of it and says whether that is all; except that a longer text is rejected as no text when
  these 50 MiB end inside a character.\<close>

theorem preview_of_text:
  assumes "is_opendal_safe_key key" "wd_stat world op key = Inr raw"
    and "supports_text_preview key (rm_content_type raw)"
    and "\<And>n. wd_read world op key n = Inr (take n content)"
    and "unat (rm_content_length raw) = length content" "is_utf8 content" "CHR 0x00 \<notin> set content"
  shows "read_text_preview world op key =
    (if length content \<le> MAX_OBJECT_STORAGE_TEXT_PREVIEW_BYTES
        \<or> \<not> is_cont (content ! MAX_OBJECT_STORAGE_TEXT_PREVIEW_BYTES)
     then Inr \<lparr>tp_content = take MAX_OBJECT_STORAGE_TEXT_PREVIEW_BYTES content,
               tp_total_bytes = rm_content_length raw,
               tp_truncated = (MAX_OBJECT_STORAGE_TEXT_PREVIEW_BYTES < length content)\<rparr>
     else Inl not_text)"
proof -
  let ?M = MAX_OBJECT_STORAGE_TEXT_PREVIEW_BYTES
  define bytes where "bytes = take (?M + 1) content"
  have visible: "take (min (length bytes) ?M) bytes = take ?M content" by (simp add: bytes_def min_def)
  have no_nul: "CHR 0x00 \<notin> set (take ?M content)" using assms(7) by (meson in_set_takeD)
  have cut: "is_utf8 (take ?M content) \<longleftrightarrow> length content \<le> ?M \<or> \<not> is_cont (content ! ?M)"
    using utf8_cut [OF assms(6), of ?M] assms(6) by (cases "length content \<le> ?M") auto
  have got: "(if min (length content) (?M + 1) = 0 then Inr []
      else map_err f (Inr (take (min (length content) (?M + 1)) content))) = Inr bytes" for f
    by (auto simp: bytes_def min_def)
  have safe: "ensure_safe_key key operation = Inr ()" for operation
    using assms(1) by (simp add: ensure_safe_key_def ensure_def)
  have kind: "ensure (supports_text_preview key (rm_content_type raw)) e = Inr ()" for e :: object_storage_error
    using assms(3) by (simp add: ensure_def)
  have stat: "map_err f (wd_stat world op key) = Inr raw" for f by (simp add: assms(2))
  show ?thesis
    unfolding read_text_preview_def safe stat kind try_r_simps Let_def assms(4,5) got visible not_text_def
    using no_nul cut by (cases "is_utf8 (take ?M content)") (simp_all only: if_False if_True simp_thms)
qed

theorem preview_of_text_witness:
  "read_text_preview long_text_world (sample_operator ''old'') ''a'' = Inl not_text"
proof -
  have stat: "wd_stat long_text_world (sample_operator ''old'') ''a'' = Inr long_text_raw"
    and read: "wd_read long_text_world (sample_operator ''old'') ''a'' n = Inr (take n long_text)" for n
    by (simp_all add: long_text_world_def)
  have plain: "supports_text_preview ''a'' (rm_content_type long_text_raw)"
    by (simp add: supports_text_preview_def long_text_raw_def to_ascii_lowercase_def ascii_lower_def
        is_ascii_uppercase_def starts_with_def)
  have len: "unat (rm_content_length long_text_raw) = length long_text"
    unfolding long_text_length by (simp add: long_text_raw_def)
  have "\<not> (length long_text \<le> MAX_OBJECT_STORAGE_TEXT_PREVIEW_BYTES
      \<or> \<not> is_cont (long_text ! MAX_OBJECT_STORAGE_TEXT_PREVIEW_BYTES))"
    using long_text_cut unfolding long_text_length by (simp add: limits)
  with preview_of_text [OF safe_key_a stat plain read len long_text_plain] show ?thesis by (simp only: if_False)
qed

section \<open>Downloads\<close>

text \<open>A download of three bytes to \<open>/f\<close>; in the race another process creates \<open>/f\<close> right before the commit.\<close>

definition target_file :: fs_path where
  "target_file = \<lparr>pa_absolute = True, pa_parts = [''f'']\<rparr>"

definition small_events :: download_events where
  "small_events = \<lparr>de_stat = Inr sample_raw, de_reader_error = None, de_stream = [(False, Inr ''abc'')],
     de_fresh = ''x''\<rparr>"

definition small_request :: transfer_request where
  "small_request = \<lparr>rq_account = snapshot_of sample_account, rq_mount = sample_mount, rq_key = ''a'',
     rq_local_path = target_file, rq_overwrite = Refuse\<rparr>"

definition small_transfer :: "fs_turn list \<Rightarrow> transfer" where
  "small_transfer turns = \<lparr>tr_fs = \<lparr>lf_nodes = (\<lambda>_. None), lf_turns = turns\<rparr>, tr_objects = (\<lambda>_. None), tr_progress = []\<rparr>"

definition race :: "fs_turn list" where
  "race = replicate 5 \<lparr>tu_changes = [], tu_failure = None\<rparr>
     @ [\<lparr>tu_changes = [(target_file, Some (FileNode ''theirs''))], tu_failure = None\<rparr>]"

lemma small_temporary:
  "temporary_path (de_fresh small_events) (rq_local_path small_request)
     = Inr \<lparr>pa_absolute = True, pa_parts = [''.ramag-download-x.part'']\<rparr>"
  by (simp add: temporary_path_def small_events_def small_request_def target_file_def path_parent_def path_join_def)


text \<open>C17.  A download that must not overwrite never does, whatever other processes do to the file system
  between its steps and wherever it fails.  Afterwards the target holds what the other processes put
  there, or, where they left it empty, the complete object; this holds as long as the random name of
  the temporary file is not the target's and nobody else uses it.\<close>

theorem download_never_overwrites:
  assumes "download ev rq t = (r, t')" "rq_overwrite rq = Refuse"
    and "\<And>p. temporary_path (de_fresh ev) (rq_local_path rq) = Inr p \<Longrightarrow>
      p \<noteq> rq_local_path rq \<and> leaves_alone p (lf_turns (tr_fs t))"
  shows "\<exists>used. lf_turns (tr_fs t) = used @ lf_turns (tr_fs t')
    \<and> (let theirs = others (rq_local_path rq) used (lf_nodes (tr_fs t) (rq_local_path rq));
            ours = lf_nodes (tr_fs t') (rq_local_path rq)
       in ours = theirs \<or> theirs = None \<and> ours = Some (FileNode (stream_data (de_stream ev))))"
  using download_refuse_undisturbed [OF assms] unfolding undisturbed_def Let_def .

theorem download_never_overwrites_witness:
  "\<exists>used. race = used @ lf_turns (tr_fs (snd (download small_events small_request (small_transfer race))))
    \<and> (let theirs = others target_file used None;
            ours = lf_nodes (tr_fs (snd (download small_events small_request (small_transfer race)))) target_file
       in ours = theirs \<or> theirs = None \<and> ours = Some (FileNode (stream_data (de_stream small_events))))"
proof -
  have refuse: "rq_overwrite small_request = Refuse" by (simp add: small_request_def)
  have own: "p \<noteq> rq_local_path small_request \<and> leaves_alone p (lf_turns (tr_fs (small_transfer race)))"
    if "temporary_path (de_fresh small_events) (rq_local_path small_request) = Inr p" for p
    using that unfolding small_temporary
    by (auto simp: small_request_def target_file_def leaves_alone_def small_transfer_def race_def)
  from download_never_overwrites [where ev = small_events and rq = small_request and t = "small_transfer race",
      OF prod.collapse [symmetric] refuse own] show ?thesis
    by (simp add: small_transfer_def small_request_def)
qed



section \<open>The transfer queue\<close>

text \<open>C20.  The transfer queue is bounded and never stuck.  However uploads, downloads and cancellations
  interleave, at most 64 calls wait for a slot and at most three run; from every reachable state all
  calls can be brought to their end, and when none is left the queue is as new, with every slot free
  and nobody counted.\<close>

theorem transfer_queue_bounded:
  assumes "pool_step\<^sup>*\<^sup>* (pool_new, {#}) (p, calls)"
  shows "in_phase Waiting calls \<le> 64 \<and> in_phase Running calls \<le> 3
    \<and> (\<exists>p'. pool_step\<^sup>*\<^sup>* (p, calls) (p', {#}))
    \<and> (calls = {#} \<longrightarrow> p = pool_new\<lparr>tp_next_id := tp_next_id p\<rparr>)"
proof -
  have wf: "pool_wf (p, calls)" by (rule pool_reachable_wf [OF assms pool_new_wf])
  then have "in_phase Waiting calls \<le> 64" "in_phase Running calls \<le> 3" by (simp_all add: pool_wf_def limits)
  with pool_drains [OF wf] pool_idle [of p] wf show ?thesis by blast
qed

theorem transfer_queue_bounded_witness:
  "\<exists>p p'. pool_step\<^sup>*\<^sup>* (pool_new, {#}) (p, {#(ObjectAccountId 7, 1, Registered)#})
     \<and> pool_step\<^sup>*\<^sup>* (p, {#(ObjectAccountId 7, 1, Registered)#}) (p', {#})"
proof -
  have "register_transfer (ObjectAccountId 7) False pool_new = (1, snd (register_transfer (ObjectAccountId 7) False pool_new))"
    by (simp add: register_transfer_def pool_new_def Let_def)
  from Call [OF this, of "{#}"]
  have "pool_step\<^sup>*\<^sup>* (pool_new, {#}) (snd (register_transfer (ObjectAccountId 7) False pool_new),
      {#(ObjectAccountId 7, 1, Registered)#})" by (rule r_into_rtranclp)
  with transfer_queue_bounded [OF this] show ?thesis by blast
qed

end
