(* ===== verification/Git_Entities.thy ===== *)
theory Git_Entities
  imports Domain_Error Rust_Trim Rust_Split
begin

text \<open>
  The Git entities that the parsers and the operations use (\<open>crates/ramag-domain/src/entities/git.rs\<close>)
  and the checks of arguments and of parsed records
  (\<open>crates/ramag-infra-git/src/git_cmd/validation.rs\<close>).  Running the git process is left out: what it
  prints is a parameter of the parsers.
\<close>

section \<open>Limits\<close>

(* crates/ramag-domain/src/entities/git.rs:5-5 MAX_GIT_NAME_ARG_BYTES *)
definition MAX_GIT_NAME_ARG_BYTES :: nat where
  [limits]: "MAX_GIT_NAME_ARG_BYTES = 1024"

(* crates/ramag-domain/src/entities/git.rs:6-6 MAX_GIT_POSITIONAL_ARG_BYTES *)
definition MAX_GIT_POSITIONAL_ARG_BYTES :: nat where
  [limits]: "MAX_GIT_POSITIONAL_ARG_BYTES = 4 * 1024"

(* crates/ramag-domain/src/entities/git.rs:7-7 MAX_GIT_PATH_BYTES *)
definition MAX_GIT_PATH_BYTES :: nat where
  [limits]: "MAX_GIT_PATH_BYTES = 64 * 1024"

(* crates/ramag-domain/src/entities/git.rs:8-8 MAX_GIT_PATH_DEPTH *)
definition MAX_GIT_PATH_DEPTH :: nat where
  [limits]: "MAX_GIT_PATH_DEPTH = 256"

(* crates/ramag-domain/src/entities/git.rs:9-9 MAX_GIT_PATH_ARGS *)
definition MAX_GIT_PATH_ARGS :: nat where
  [limits]: "MAX_GIT_PATH_ARGS = 50000"

(* crates/ramag-domain/src/entities/git.rs:10-10 MAX_GIT_PATH_ARGS_BYTES *)
definition MAX_GIT_PATH_ARGS_BYTES :: nat where
  [limits]: "MAX_GIT_PATH_ARGS_BYTES = 16 * 1024 * 1024"

(* crates/ramag-domain/src/entities/git.rs:12-12 MAX_INCREMENTAL_STATUS_PATHS *)
definition MAX_INCREMENTAL_STATUS_PATHS :: nat where
  [limits]: "MAX_INCREMENTAL_STATUS_PATHS = 128"

(* crates/ramag-domain/src/entities/git.rs:13-13 MAX_INCREMENTAL_STATUS_PATH_BYTES *)
definition MAX_INCREMENTAL_STATUS_PATH_BYTES :: nat where
  [limits]: "MAX_INCREMENTAL_STATUS_PATH_BYTES = 16 * 1024"

(* crates/ramag-domain/src/entities/git.rs:15-15 MAX_GIT_PATCH_BYTES *)
definition MAX_GIT_PATCH_BYTES :: nat where
  [limits]: "MAX_GIT_PATCH_BYTES = 16 * 1024 * 1024"

(* crates/ramag-infra-git/src/git_cmd.rs:28-28 MAX_PARSED_GIT_ITEMS *)
definition MAX_PARSED_GIT_ITEMS :: nat where
  [limits]: "MAX_PARSED_GIT_ITEMS = 250000"

(* crates/ramag-infra-git/src/git_cmd.rs:29-29 MAX_GIT_RECORD_BYTES *)
definition MAX_GIT_RECORD_BYTES :: nat where
  [limits]: "MAX_GIT_RECORD_BYTES = 64 * 1024"

(* crates/ramag-infra-git/src/git_cmd.rs:30-30 MAX_GIT_MESSAGE_BYTES *)
definition MAX_GIT_MESSAGE_BYTES :: nat where
  [limits]: "MAX_GIT_MESSAGE_BYTES = 4 * 1024 * 1024"

section \<open>Entities\<close>

(* crates/ramag-domain/src/entities/git.rs:64-74 FileChangeKind *)
datatype file_change_kind = GitAdded | GitModified | GitDeleted | GitRenamed | GitCopied | GitTypeChanged
  | GitUntracked | GitConflicted

(* crates/ramag-domain/src/entities/git.rs:76-82 FileStatus *)
record file_status =
  fs_status_path :: string
  fs_old_path :: "string option"
  fs_staged :: "file_change_kind option"
  fs_unstaged :: "file_change_kind option"

(* crates/ramag-domain/src/entities/git.rs:84-89 FileStatus::is_conflicted *)
definition is_conflicted :: "file_status \<Rightarrow> bool" where
  "is_conflicted f \<longleftrightarrow> fs_staged f = Some GitConflicted \<or> fs_unstaged f = Some GitConflicted"

text \<open>\<open>char_indices().nth(max_chars)\<close>: the byte where a character with that index starts.\<close>

fun char_start :: "nat \<Rightarrow> nat \<Rightarrow> string \<Rightarrow> nat option" where
  "char_start i n [] = None"
| "char_start i n (b # s) =
     (if is_cont b then char_start (Suc i) n s
      else if n = 0 then Some i else char_start (Suc i) (n - 1) s)"

(* crates/ramag-domain/src/entities/git.rs:306-311 char_prefix *)
definition char_prefix :: "string \<Rightarrow> nat \<Rightarrow> string" where
  "char_prefix v max_chars = (case char_start 0 max_chars v of None \<Rightarrow> v | Some e \<Rightarrow> take e v)"

(* crates/ramag-domain/src/entities/git.rs:121-122 CommitId *)
datatype commit_id = CommitId string

(* crates/ramag-domain/src/entities/git.rs:124-128 CommitId::short *)
fun commit_short :: "commit_id \<Rightarrow> string" where
  "commit_short (CommitId s) = char_prefix s 7"

text \<open>A time is the number of seconds since 1970; the parser of the log produces whole seconds only.\<close>

(* crates/ramag-domain/src/entities/git.rs:136-141 Signature *)
record signature =
  sg_name :: string
  sg_email :: string
  sg_timestamp :: int

(* crates/ramag-domain/src/entities/git.rs:143-153 Commit *)
record git_commit =
  cm_id :: commit_id
  cm_parents :: "commit_id list"
  cm_author :: signature
  cm_committer :: signature
  cm_subject :: string
  cm_body :: string
  cm_refs :: "string list"

(* crates/ramag-domain/src/entities/git.rs:155-163 Commit::message_full *)
definition message_full :: "git_commit \<Rightarrow> string" where
  "message_full c = (if cm_body c = [] then cm_subject c else cm_subject c @ [CHR 0x0A, CHR 0x0A] @ cm_body c)"

(* crates/ramag-domain/src/entities/git.rs:200-205 DiffLineKind *)
datatype diff_line_kind = ContextLine | AddLine | DeleteLine

(* crates/ramag-domain/src/entities/git.rs:207-216 DiffLine *)
record diff_line =
  dl_kind :: diff_line_kind
  dl_old :: "u32 option"
  dl_new :: "u32 option"
  dl_text :: string

(* crates/ramag-domain/src/entities/git.rs:218-226 Hunk *)
record diff_hunk =
  hk_old_start :: u32
  hk_old_lines :: u32
  hk_new_start :: u32
  hk_new_lines :: u32
  hk_heading :: "string option"
  hk_lines :: "diff_line list"

(* crates/ramag-domain/src/entities/git.rs:228-237 FileDiff *)
record file_diff =
  fd_path :: string
  fd_old_path :: "string option"
  fd_kind :: file_change_kind
  fd_binary :: bool
  fd_old_mode :: "u32 option"
  fd_new_mode :: "u32 option"
  fd_hunks :: "diff_hunk list"

(* crates/ramag-domain/src/entities/git.rs:324-331 DiffKind *)
datatype diff_kind = WorkingTreeVsIndex | IndexVsHead | WorkingTreeVsHead | CommitVsParent commit_id
  | DiffRange commit_id commit_id

(* crates/ramag-domain/src/entities/git.rs:259-267 RebaseAction *)
datatype rebase_action = Pick | Squash | Fixup | Reword | Edit | DropCommit

(* crates/ramag-domain/src/entities/git.rs:270-279 RebaseAction::as_str *)
fun action_str :: "rebase_action \<Rightarrow> string" where
  "action_str Pick = ''pick''"
| "action_str Squash = ''squash''"
| "action_str Fixup = ''fixup''"
| "action_str Reword = ''reword''"
| "action_str Edit = ''edit''"
| "action_str DropCommit = ''drop''"

(* crates/ramag-domain/src/entities/git.rs:293-298 RebaseTodo *)
record rebase_todo =
  rt_action :: rebase_action
  rt_hash :: string
  rt_subject :: string

(* crates/ramag-domain/src/entities/git.rs:300-304 RebaseTodo::short_hash *)
definition todo_short_hash :: "rebase_todo \<Rightarrow> string" where
  "todo_short_hash t = char_prefix (rt_hash t) 7"

section \<open>Checks of arguments\<close>

text \<open>\<open>chars().any(char::is_whitespace)\<close>.\<close>

fun has_space :: "string \<Rightarrow> bool" where
  "has_space [] = False"
| "has_space (b # s) = (first_space (b # s) \<noteq> 0 \<or> has_space s)"

(* crates/ramag-infra-git/src/git_cmd/validation.rs:4-16 validate_name_arg *)
definition validate_name_arg :: "string \<Rightarrow> string \<Rightarrow> domain_error + unit" where
  "validate_name_arg v label =
     (if v = [] \<or> MAX_GIT_NAME_ARG_BYTES < length v \<or> starts_with v ''-'' \<or> has_space v \<or> has_control v
      then Inl (DeInvalidConfig (label @ (utf8 [0x4E3A, 0x7A7A, 0x3001, 0x8FC7, 0x957F, 0xFF0C, 0x6216, 0x5305, 0x542B, 0x7A7A, 0x767D] @ ''/'' @ utf8 [0x63A7, 0x5236, 0x5B57, 0x7B26] @ ''/'' @ utf8 [0x524D, 0x5BFC] @ '' '') @ [CHR 0x27, CHR ''-'', CHR 0x27]))
      else Inr ())"

(* crates/ramag-infra-git/src/git_cmd/validation.rs:19-30 validate_positional_arg *)
definition validate_positional_arg :: "string \<Rightarrow> string \<Rightarrow> domain_error + unit" where
  "validate_positional_arg v label =
     (if v = [] \<or> MAX_GIT_POSITIONAL_ARG_BYTES < length v \<or> starts_with v ''-'' \<or> has_control v
      then Inl (DeInvalidConfig (label @ (utf8 [0x4E3A, 0x7A7A, 0x3001, 0x8FC7, 0x957F, 0xFF0C, 0x6216, 0x5305, 0x542B, 0x63A7, 0x5236, 0x5B57, 0x7B26] @ ''/'' @ utf8 [0x524D, 0x5BFC] @ '' '') @ [CHR 0x27, CHR ''-'', CHR 0x27]))
      else Inr ())"

(* crates/ramag-infra-git/src/git_cmd/validation.rs:33-47 validate_path_arg *)
definition validate_path_arg :: "string \<Rightarrow> string \<Rightarrow> domain_error + unit" where
  "validate_path_arg v label =
     (if v = [] \<or> MAX_GIT_PATH_BYTES < length v \<or> CHR 0x00 \<in> set v
      then Inl (DeInvalidConfig (label @ (utf8 [0x4E3A, 0x7A7A, 0x3001, 0x8D85, 0x8FC7] @ '' '') @ dec (MAX_GIT_PATH_BYTES div 1024)
        @ ('' KiB'' @ utf8 [0xFF0C, 0x6216, 0x5305, 0x542B] @ '' NUL '' @ utf8 [0x5B57, 0x7B26])))
      else if MAX_GIT_PATH_DEPTH < length (filter (\<lambda>b. b = CHR ''/'') v) + 1
      then Inl (DeInvalidConfig (label @ (utf8 [0x8D85, 0x8FC7] @ '' '') @ dec MAX_GIT_PATH_DEPTH @ ('' '' @ utf8 [0x5C42, 0x76EE, 0x5F55, 0x4E0A, 0x9650])))
      else Inr ())"

(* crates/ramag-infra-git/src/git_cmd/validation.rs:53-60 validate_output_path *)
definition validate_output_path :: "string \<Rightarrow> string \<Rightarrow> nat \<Rightarrow> domain_error + unit" where
  "validate_output_path v label index =
     map_err (\<lambda>e. DeQueryFailed (label @ (utf8 [0x7B2C] @ '' '') @ dec index @ ('' '' @ utf8 [0x6761, 0x8D85, 0x51FA, 0x5B89, 0x5168, 0x8FB9, 0x754C, 0xFF1A]) @ domain_message e))
       (validate_path_arg v label)"

text \<open>The loop over the paths with the size so far; \<open>usize\<close> is 64 bits, and a list of 50,000 paths of
  64 KiB cannot overflow it.\<close>

(* crates/ramag-infra-git/src/git_cmd/validation.rs:83-94 encode_pathspec_size *)
fun pathspec_loop :: "string \<Rightarrow> nat \<Rightarrow> string list \<Rightarrow> domain_error + nat" where
  "pathspec_loop label overall [] = Inr overall"
| "pathspec_loop label overall (p # ps) =
     try_r (validate_path_arg p (''Git '' @ utf8 [0x6587, 0x4EF6, 0x8DEF, 0x5F84])) (\<lambda>_.
       let overall = overall + (length p + 1) in
       if MAX_GIT_PATH_ARGS_BYTES < overall
       then Inl (DeInvalidConfig (label @ (utf8 [0x603B, 0x957F, 0x5EA6, 0x8D85, 0x8FC7] @ '' '') @ dec (MAX_GIT_PATH_ARGS_BYTES div 1024 div 1024) @ ('' MiB '' @ utf8 [0x5B89, 0x5168, 0x4E0A, 0x9650])))
       else pathspec_loop label overall ps)"

(* crates/ramag-infra-git/src/git_cmd/validation.rs:72-95 encode_pathspec_size *)
definition encode_pathspec_size :: "string list \<Rightarrow> string \<Rightarrow> domain_error + nat" where
  "encode_pathspec_size paths label =
     (if paths = [] then Inl (DeInvalidConfig (label @ (utf8 [0x4E0D, 0x80FD, 0x4E3A, 0x7A7A])))
      else if MAX_GIT_PATH_ARGS < length paths
      then Inl (DeInvalidConfig (label @ (utf8 [0x8D85, 0x8FC7] @ '' '') @ dec MAX_GIT_PATH_ARGS @ ('' '' @ utf8 [0x6761, 0x5B89, 0x5168, 0x4E0A, 0x9650])))
      else pathspec_loop label 0 paths)"

(* crates/ramag-infra-git/src/git_cmd/validation.rs:49-51 validate_path_args *)
definition validate_path_args :: "string list \<Rightarrow> string \<Rightarrow> domain_error + unit" where
  "validate_path_args paths label = map_ok (\<lambda>_. ()) (encode_pathspec_size paths label)"

(* crates/ramag-infra-git/src/git_cmd/validation.rs:62-70 encode_pathspecs *)
definition encode_pathspecs :: "string list \<Rightarrow> domain_error + string" where
  "encode_pathspecs paths =
     map_ok (\<lambda>_. concat (map (\<lambda>p. p @ [CHR 0x00]) paths)) (encode_pathspec_size paths (''Git '' @ utf8 [0x6587, 0x4EF6, 0x8DEF, 0x5F84, 0x5217, 0x8868]))"

section \<open>Checks of parsed records\<close>

(* crates/ramag-infra-git/src/git_cmd/validation.rs:98-105 ensure_git_list_room *)
definition ensure_git_list_room :: "nat \<Rightarrow> string \<Rightarrow> domain_error + unit" where
  "ensure_git_list_room current label =
     (if MAX_PARSED_GIT_ITEMS \<le> current
      then Inl (DeQueryFailed (label @ (utf8 [0x8D85, 0x8FC7] @ '' '') @ dec MAX_PARSED_GIT_ITEMS @ ('' '' @ utf8 [0x6761, 0x5B89, 0x5168, 0x4E0A, 0x9650, 0xFF0C, 0x8BF7, 0x7F29, 0x5C0F, 0x4ED3, 0x5E93, 0x6216, 0x64CD, 0x4F5C, 0x8303, 0x56F4])))
      else Inr ())"

(* crates/ramag-infra-git/src/git_cmd/validation.rs:117-125 ensure_git_size *)
definition ensure_git_size :: "string \<Rightarrow> nat \<Rightarrow> string \<Rightarrow> nat \<Rightarrow> domain_error + unit" where
  "ensure_git_size bytes limit label index =
     (if limit < length bytes
      then Inl (DeQueryFailed (label @ (utf8 [0x7B2C] @ '' '') @ dec index @ ('' '' @ utf8 [0x6761, 0x8D85, 0x8FC7] @ '' '') @ dec (limit div 1024) @ ('' KiB '' @ utf8 [0x5B89, 0x5168, 0x4E0A, 0x9650])))
      else Inr ())"

(* crates/ramag-infra-git/src/git_cmd/validation.rs:108-110 ensure_git_record_size *)
definition ensure_git_record_size :: "string \<Rightarrow> string \<Rightarrow> nat \<Rightarrow> domain_error + unit" where
  "ensure_git_record_size bytes = ensure_git_size bytes MAX_GIT_RECORD_BYTES"

(* crates/ramag-infra-git/src/git_cmd/validation.rs:113-115 ensure_git_message_size *)
definition ensure_git_message_size :: "string \<Rightarrow> string \<Rightarrow> nat \<Rightarrow> domain_error + unit" where
  "ensure_git_message_size bytes = ensure_git_size bytes MAX_GIT_MESSAGE_BYTES"

end
