(* ===== verification/Git_Diff.thy ===== *)
theory Git_Diff
  imports Git_Entities List_Ops
begin

text \<open>
  Diffs: the arguments of the git call, the parser of the unified diff that it prints
  (\<open>crates/ramag-infra-git/src/diff.rs\<close>), and the patches that are built from a parsed diff to stage or
  discard a part of it (\<open>crates/ramag-tool-vcs/src/views/vcs_view_ops_patch.rs\<close>,
  \<open>crates/ramag-infra-git/src/patch.rs\<close>).
\<close>

section \<open>Arguments\<close>

(* crates/ramag-infra-git/src/diff.rs:15-15 MAX_DIFF_CONTEXT_LINES *)
definition MAX_DIFF_CONTEXT_LINES :: nat where
  [limits]: "MAX_DIFF_CONTEXT_LINES = 1000000"

(* crates/ramag-infra-git/src/diff.rs:58-100 build_diff_args *)
definition build_diff_args :: "string \<Rightarrow> diff_kind \<Rightarrow> u32 \<Rightarrow> domain_error + string list" where
  "build_diff_args p kind context =
     (let front = [''diff'', ''--no-color'', ''-U'' @ dec (unat context), ''--find-renames''] in
      case kind of
        CommitVsParent (CommitId c) \<Rightarrow>
          try_r (validate_positional_arg c ''diff commit'') (\<lambda>_.
            Inr [''diff-tree'', ''--no-color'', ''-U'' @ dec (unat context), ''--find-renames'', ''--root'', ''-p'',
                 ''--no-commit-id'', c, ''--'', p])
      | WorkingTreeVsIndex \<Rightarrow> Inr (front @ [''--'', p])
      | IndexVsHead \<Rightarrow> Inr (front @ [''--cached'', ''--'', p])
      | WorkingTreeVsHead \<Rightarrow> Inr (front @ [''HEAD'', ''--'', p])
      | DiffRange (CommitId f) (CommitId t) \<Rightarrow>
          try_r (validate_positional_arg f (''diff '' @ utf8 [0x8D77, 0x70B9])) (\<lambda>_.
          try_r (validate_positional_arg t (''diff '' @ utf8 [0x7EC8, 0x70B9])) (\<lambda>_.
            Inr (front @ [f, t, ''--'', p]))))"

section \<open>Parsing\<close>

(* crates/ramag-infra-git/src/diff.rs:298-303 diff_parse_error *)
definition diff_parse_error :: "nat \<Rightarrow> string \<Rightarrow> domain_error" where
  "diff_parse_error line_index reason =
     DeQueryFailed ((utf8 [0x89E3, 0x6790] @ '' Git diff '' @ utf8 [0x7B2C] @ '' '') @ dec (line_index + 1) @ ('' '' @ utf8 [0x884C, 0x5931, 0x8D25, 0xFF1A]) @ reason)"

definition U32_LIMIT :: nat where
  "U32_LIMIT = 4294967295"

(* crates/ramag-infra-git/src/diff.rs:256-268 parse_range *)
definition parse_range :: "string \<Rightarrow> nat \<Rightarrow> domain_error + u32 \<times> u32" where
  "parse_range s line_index =
     (let (start, count) = (case split_once '','' s of Some (a, b) \<Rightarrow> (a, b) | None \<Rightarrow> (s, ''1'')) in
      try_r (map_err (\<lambda>e. diff_parse_error line_index ((utf8 [0x8D77, 0x59CB, 0x884C, 0x53F7, 0x65E0, 0x6548, 0xFF1A]) @ int_error_text e))
               (parse_unsigned U32_LIMIT start)) (\<lambda>start.
      try_r (map_err (\<lambda>e. diff_parse_error line_index ((utf8 [0x884C, 0x6570, 0x65E0, 0x6548, 0xFF1A]) @ int_error_text e))
               (parse_unsigned U32_LIMIT count)) (\<lambda>count.
        Inr (of_nat start, of_nat count))))"

(* crates/ramag-infra-git/src/diff.rs:270-274 next_line_number *)
definition next_line_number :: "u32 \<Rightarrow> nat \<Rightarrow> domain_error + u32" where
  "next_line_number current line_index =
     ok_or (checked_add current 1) (diff_parse_error line_index (utf8 [0x884C, 0x53F7, 0x8D85, 0x51FA, 0x652F, 0x6301, 0x8303, 0x56F4]))"

text \<open>\<open>str::split_whitespace\<close>: \<open>word\<close> is the part of the current word that has been read.\<close>

function space_words :: "string \<Rightarrow> string \<Rightarrow> string list" where
  "space_words word s =
     (let emit = (if word = [] then [] else [word]) in
      if s = [] then emit
      else if first_space s \<noteq> 0 then emit @ space_words [] (drop (first_space s) s)
      else space_words (word @ [hd s]) (tl s))"
  by pat_completeness auto
termination
  by (relation "measure (\<lambda>(word, s). length s)") auto

declare space_words.simps [simp del]

definition split_whitespace :: "string \<Rightarrow> string list" where
  "split_whitespace = space_words []"

(* crates/ramag-infra-git/src/diff.rs:152-188 parse_unified_diff *)
definition parse_hunk_header :: "nat \<Rightarrow> string \<Rightarrow> domain_error + diff_hunk" where
  "parse_hunk_header line_index line =
     try_r (ok_or (Option.bind (strip_prefix ''@@ '' line) (split_once '' @@''))
              (diff_parse_error line_index (''hunk '' @ utf8 [0x5934, 0x683C, 0x5F0F, 0x65E0, 0x6548]))) (\<lambda>(ranges, rest).
       case split_whitespace ranges of
         [old_field, new_field] \<Rightarrow>
           try_r (ok_or (strip_prefix ''-'' old_field)
               (diff_parse_error line_index ((utf8 [0x65E7, 0x8303, 0x56F4, 0x7F3A, 0x5C11] @ '' '') @ [CHR 0x27, CHR ''-'', CHR 0x27] @ ('' '' @ utf8 [0x524D, 0x7F00])))) (\<lambda>old_range.
           try_r (ok_or (strip_prefix ''+'' new_field)
               (diff_parse_error line_index ((utf8 [0x65B0, 0x8303, 0x56F4, 0x7F3A, 0x5C11] @ '' '') @ [CHR 0x27, CHR ''+'', CHR 0x27] @ ('' '' @ utf8 [0x524D, 0x7F00])))) (\<lambda>new_range.
           try_r (parse_range old_range line_index) (\<lambda>(os, ol).
           try_r (parse_range new_range line_index) (\<lambda>(ns, nl).
             Inr \<lparr>hk_old_start = os, hk_old_lines = ol, hk_new_start = ns, hk_new_lines = nl,
                  hk_heading = (if trim rest = [] then None else Some (trim rest)), hk_lines = []\<rparr>))))
       | _ \<Rightarrow> Inl (diff_parse_error line_index (''hunk '' @ utf8 [0x8303, 0x56F4, 0x5B57, 0x6BB5, 0x6570, 0x91CF, 0x5F02, 0x5E38])))"

(* crates/ramag-infra-git/src/diff.rs:276-296 push_validated_hunk *)
definition push_validated_hunk ::
  "diff_hunk \<Rightarrow> u32 \<Rightarrow> u32 \<Rightarrow> diff_hunk list \<Rightarrow> domain_error + diff_hunk list" where
  "push_validated_hunk h next_old next_new hunks =
     (if next_old < hk_old_start h then Inl (DeQueryFailed (utf8 [0x89E3, 0x6790] @ '' Git diff '' @ utf8 [0x5931, 0x8D25, 0xFF1A, 0x65E7, 0x884C, 0x53F7, 0x5012, 0x9000]))
      else if next_new < hk_new_start h then Inl (DeQueryFailed (utf8 [0x89E3, 0x6790] @ '' Git diff '' @ utf8 [0x5931, 0x8D25, 0xFF1A, 0x65B0, 0x884C, 0x53F7, 0x5012, 0x9000]))
      else
        let actual_old = next_old - hk_old_start h; actual_new = next_new - hk_new_start h in
        if actual_old \<noteq> hk_old_lines h \<or> actual_new \<noteq> hk_new_lines h
        then Inl (DeQueryFailed ((utf8 [0x89E3, 0x6790] @ '' Git diff '' @ utf8 [0x5931, 0x8D25, 0xFF1A] @ ''hunk '' @ utf8 [0x58F0, 0x660E] @ '' '') @ dec (unat (hk_old_lines h)) @ ''/''
               @ dec (unat (hk_new_lines h)) @ ('' '' @ utf8 [0x884C, 0xFF0C, 0x5B9E, 0x9645] @ '' '') @ dec (unat actual_old) @ ''/''
               @ dec (unat actual_new) @ ('' '' @ utf8 [0x884C])))
        else Inr (hunks @ [h]))"

record diff_state =
  ps_hunks :: "diff_hunk list"
  ps_current :: "diff_hunk option"
  ps_old :: u32
  ps_new :: u32
  ps_binary :: bool
  ps_kind :: file_change_kind
  ps_old_path :: "string option"
  ps_items :: nat

(* crates/ramag-infra-git/src/diff.rs:103-110 parse_unified_diff *)
definition diff_start :: diff_state where
  "diff_start = \<lparr>ps_hunks = [], ps_current = None, ps_old = 0, ps_new = 0, ps_binary = False,
     ps_kind = GitModified, ps_old_path = None, ps_items = 0\<rparr>"

text \<open>\<open>trim_start_matches\<close> with a text, which takes it off again and again.\<close>

function trim_start_matches :: "string \<Rightarrow> string \<Rightarrow> string" where
  "trim_start_matches pat s =
     (case strip_prefix pat s of
        Some r \<Rightarrow> if pat = [] then s else trim_start_matches pat r
      | None \<Rightarrow> s)"
  by pat_completeness auto
termination
  by (relation "measure (\<lambda>(pat, s). length s)") (auto simp: strip_prefix_iff)

declare trim_start_matches.simps [simp del]

(* crates/ramag-infra-git/src/diff.rs:142-151 parse_unified_diff *)
definition begin_hunk :: "nat \<Rightarrow> string \<Rightarrow> diff_state \<Rightarrow> domain_error + diff_state" where
  "begin_hunk line_index line s =
     try_r (ensure_git_list_room (ps_items s) (''Git diff '' @ utf8 [0x5B9E, 0x4F53])) (\<lambda>_.
     try_r (case ps_current s of
              Some h \<Rightarrow> push_validated_hunk h (ps_old s) (ps_new s) (ps_hunks s)
            | None \<Rightarrow> Inr (ps_hunks s)) (\<lambda>hunks.
     try_r (parse_hunk_header line_index line) (\<lambda>h.
       Inr (s\<lparr>ps_items := ps_items s + 1, ps_hunks := hunks, ps_current := Some h,
              ps_old := hk_old_start h, ps_new := hk_new_start h\<rparr>))))"

(* crates/ramag-infra-git/src/diff.rs:249-254 push_diff_line *)
definition push_diff_line :: "diff_hunk \<Rightarrow> nat \<Rightarrow> diff_line \<Rightarrow> domain_error + diff_hunk \<times> nat" where
  "push_diff_line h items l =
     map_ok (\<lambda>_. (h\<lparr>hk_lines := hk_lines h @ [l]\<rparr>, items + 1)) (ensure_git_list_room items (''Git diff '' @ utf8 [0x5B9E, 0x4F53]))"

(* crates/ramag-infra-git/src/diff.rs:189-232 parse_unified_diff *)
definition diff_body_line :: "nat \<Rightarrow> string \<Rightarrow> diff_hunk \<Rightarrow> diff_state \<Rightarrow> domain_error + diff_state" where
  "diff_body_line line_index line h s =
     (case line of
        CHR '' '' # rest \<Rightarrow>
          try_r (push_diff_line h (ps_items s)
              \<lparr>dl_kind = ContextLine, dl_old = Some (ps_old s), dl_new = Some (ps_new s), dl_text = rest\<rparr>) (\<lambda>(h, items).
          try_r (next_line_number (ps_old s) line_index) (\<lambda>old.
          try_r (next_line_number (ps_new s) line_index) (\<lambda>new.
            Inr (s\<lparr>ps_current := Some h, ps_items := items, ps_old := old, ps_new := new\<rparr>))))
      | CHR ''-'' # rest \<Rightarrow>
          try_r (push_diff_line h (ps_items s)
              \<lparr>dl_kind = DeleteLine, dl_old = Some (ps_old s), dl_new = None, dl_text = rest\<rparr>) (\<lambda>(h, items).
          try_r (next_line_number (ps_old s) line_index) (\<lambda>old.
            Inr (s\<lparr>ps_current := Some h, ps_items := items, ps_old := old\<rparr>)))
      | CHR ''+'' # rest \<Rightarrow>
          try_r (push_diff_line h (ps_items s)
              \<lparr>dl_kind = AddLine, dl_old = None, dl_new = Some (ps_new s), dl_text = rest\<rparr>) (\<lambda>(h, items).
          try_r (next_line_number (ps_new s) line_index) (\<lambda>new.
            Inr (s\<lparr>ps_current := Some h, ps_items := items, ps_new := new\<rparr>)))
      | _ \<Rightarrow>
          if line = CHR 0x5C # '' No newline at end of file'' then Inr s
          else Inl (diff_parse_error line_index (''hunk '' @ utf8 [0x5185, 0x51FA, 0x73B0, 0x672A, 0x77E5, 0x884C, 0x7C7B, 0x578B])))"

text \<open>One line of the output: the loop body with its early \<open>continue\<close>s.\<close>

(* crates/ramag-infra-git/src/diff.rs:113-232 parse_unified_diff *)
definition parse_diff_line :: "nat \<Rightarrow> string \<Rightarrow> diff_state \<Rightarrow> domain_error + diff_state" where
  "parse_diff_line line_index line s =
     try_r (ensure_git_record_size line (''Git diff '' @ utf8 [0x884C]) (line_index + 1)) (\<lambda>_.
       if starts_with line ''Binary files'' then Inr (s\<lparr>ps_binary := True\<rparr>)
       else if starts_with line ''new file'' then Inr (s\<lparr>ps_kind := GitAdded\<rparr>)
       else if starts_with line ''deleted file'' then Inr (s\<lparr>ps_kind := GitDeleted\<rparr>)
       else if starts_with line ''rename from '' then
         (let p = trim_start_matches ''rename from '' line in
          try_r (validate_output_path p (''Git diff '' @ utf8 [0x65E7, 0x8DEF, 0x5F84]) (line_index + 1)) (\<lambda>_.
            Inr (s\<lparr>ps_kind := GitRenamed, ps_old_path := Some p\<rparr>)))
       else if starts_with line ''@@'' then begin_hunk line_index line s
       else if starts_with line ''diff --git'' \<or> starts_with line ''index '' then Inr s
       else if starts_with line ''--- '' \<or> starts_with line ''+++ '' then Inr s
       else case ps_current s of
         None \<Rightarrow> Inr s
       | Some h \<Rightarrow> diff_body_line line_index line h s)"

fun parse_diff_lines :: "nat \<Rightarrow> string list \<Rightarrow> diff_state \<Rightarrow> domain_error + diff_state" where
  "parse_diff_lines i [] s = Inr s"
| "parse_diff_lines i (l # ls) s = try_r (parse_diff_line i l s) (parse_diff_lines (Suc i) ls)"

text \<open>\<open>split_terminator\<close>: the pieces, without an empty last one.\<close>

definition split_terminator :: "char \<Rightarrow> string \<Rightarrow> string list" where
  "split_terminator d s =
     (let pieces = split_on d s in if last pieces = [] then butlast pieces else pieces)"

(* crates/ramag-infra-git/src/diff.rs:102-247 parse_unified_diff *)
definition parse_unified_diff :: "string \<Rightarrow> string \<Rightarrow> domain_error + file_diff" where
  "parse_unified_diff text_in p =
     try_r (parse_diff_lines 0 (split_terminator CHR 0x0A text_in) diff_start) (\<lambda>s.
     try_r (case ps_current s of
              Some h \<Rightarrow> push_validated_hunk h (ps_old s) (ps_new s) (ps_hunks s)
            | None \<Rightarrow> Inr (ps_hunks s)) (\<lambda>hunks.
       Inr \<lparr>fd_path = p, fd_old_path = ps_old_path s, fd_kind = ps_kind s, fd_binary = ps_binary s,
            fd_old_mode = None, fd_new_mode = None, fd_hunks = hunks\<rparr>))"

text \<open>The whole operation over what git answers to the arguments; the message for an answer that is not UTF-8
  is given without the position that Rust adds.\<close>

(* crates/ramag-infra-git/src/diff.rs:31-56 run_diff_full_opts *)
definition run_diff_full_opts ::
  "(string list \<Rightarrow> domain_error + string) \<Rightarrow> string \<Rightarrow> diff_kind \<Rightarrow> bool \<Rightarrow> u32 \<Rightarrow> domain_error + file_diff" where
  "run_diff_full_opts git p kind ignore_whitespace context =
     try_r (validate_path_arg p (''diff '' @ utf8 [0x6587, 0x4EF6, 0x8DEF, 0x5F84])) (\<lambda>_.
       if MAX_DIFF_CONTEXT_LINES < unat context
       then Inl (DeInvalidConfig ((''diff '' @ utf8 [0x4E0A, 0x4E0B, 0x6587, 0x884C, 0x6570, 0x8D85, 0x8FC7] @ '' '') @ dec MAX_DIFF_CONTEXT_LINES @ ('' '' @ utf8 [0x4E0A, 0x9650])))
       else try_r (build_diff_args p kind context) (\<lambda>args.
       try_r (git (if ignore_whitespace then insert_at 1 ''-w'' args else args)) (\<lambda>bytes.
         if \<not> is_utf8 bytes then Inl (DeQueryFailed (''Git diff '' @ utf8 [0x5305, 0x542B, 0x975E] @ '' UTF-8 '' @ utf8 [0x6587, 0x672C, 0xFF0C, 0x5F53, 0x524D, 0x7248, 0x672C, 0x65E0, 0x6CD5, 0x5B89, 0x5168, 0x6267, 0x884C, 0x884C, 0x7EA7, 0x64CD, 0x4F5C]))
         else parse_unified_diff bytes p)))"

(* crates/ramag-infra-git/src/diff.rs:17-19 run_diff *)
definition run_diff :: "(string list \<Rightarrow> domain_error + string) \<Rightarrow> string \<Rightarrow> diff_kind \<Rightarrow> domain_error + file_diff" where
  "run_diff git p kind = run_diff_full_opts git p kind False 3"

section \<open>Patches\<close>

(* crates/ramag-tool-vcs/src/views/vcs_view_ops_patch.rs:237-248 patch_paths *)
definition patch_paths :: "file_diff \<Rightarrow> string + string \<times> string" where
  "patch_paths d =
     (let p = fd_path d; old = (case fd_old_path d of None \<Rightarrow> p | Some q \<Rightarrow> q) in
      if has_control p \<or> has_control old \<or> {CHR 0x5C, CHR 0x22} \<inter> set (p @ old) \<noteq> {}
      then Inl (utf8 [0x6587, 0x4EF6, 0x8DEF, 0x5F84, 0x9700, 0x8981] @ '' Git '' @ utf8 [0x5F15, 0x53F7, 0x8F6C, 0x4E49, 0xFF0C, 0x5F53, 0x524D, 0x4E0D, 0x652F, 0x6301, 0x884C, 0x7EA7, 0x64CD, 0x4F5C, 0xFF1B, 0x8BF7, 0x6539, 0x7528, 0x6574, 0x6587, 0x4EF6, 0x6682, 0x5B58, 0x6216, 0x64A4, 0x56DE])
      else Inr (p, old))"

(* crates/ramag-tool-vcs/src/views/vcs_view_ops_patch.rs:304-317 append_patch_bounded *)
definition append_patch_bounded :: "string \<Rightarrow> string \<Rightarrow> string + string" where
  "append_patch_bounded out v =
     (if MAX_GIT_PATCH_BYTES < length out + length v
      then Inl ((''Git patch '' @ utf8 [0x8D85, 0x8FC7] @ '' '') @ dec (MAX_GIT_PATCH_BYTES div 1024 div 1024) @ ('' MiB '' @ utf8 [0x5B89, 0x5168, 0x4E0A, 0x9650, 0xFF0C, 0x8BF7, 0x7F29, 0x5C0F] @ '' hunk''))
      else Inr (out @ v))"

text \<open>The values that are appended one after the other.\<close>

definition append_all :: "string list \<Rightarrow> string \<Rightarrow> string + string" where
  "append_all vs out = fold_r append_patch_bounded out vs"

(* crates/ramag-tool-vcs/src/views/vcs_view_ops_patch.rs:250-275 append_patch_header *)
definition patch_header :: "file_diff \<Rightarrow> string \<Rightarrow> string \<Rightarrow> string list" where
  "patch_header d p old =
     [''diff --git a/'' @ old @ '' b/'' @ p @ [CHR 0x0A],
      (if fd_kind d \<in> {GitAdded, GitUntracked} then ''--- /dev/null'' else ''--- a/'' @ old) @ [CHR 0x0A],
      (if fd_kind d = GitDeleted then ''+++ /dev/null'' else ''+++ b/'' @ p) @ [CHR 0x0A]]"

definition line_sign :: "diff_line_kind \<Rightarrow> char" where
  "line_sign k = (case k of ContextLine \<Rightarrow> CHR '' '' | AddLine \<Rightarrow> CHR ''+'' | DeleteLine \<Rightarrow> CHR ''-'')"

(* crates/ramag-tool-vcs/src/views/vcs_view_ops_patch.rs:278-291 append_hunk *)
definition hunk_header :: "diff_hunk \<Rightarrow> string" where
  "hunk_header h =
     ''@@ -'' @ dec (unat (hk_old_start h)) @ '','' @ dec (unat (hk_old_lines h)) @ '' +''
     @ dec (unat (hk_new_start h)) @ '','' @ dec (unat (hk_new_lines h)) @ '' @@''
     @ (case hk_heading h of None \<Rightarrow> [] | Some x \<Rightarrow> '' '' @ x)"

(* crates/ramag-tool-vcs/src/views/vcs_view_ops_patch.rs:277-302 append_hunk *)
definition patch_hunk :: "diff_hunk \<Rightarrow> string list" where
  "patch_hunk h =
     (hunk_header h @ [CHR 0x0A])
     # concat (map (\<lambda>l. [[line_sign (dl_kind l)], dl_text l, [CHR 0x0A]]) (hk_lines h))"

(* crates/ramag-tool-vcs/src/views/vcs_view_ops_patch.rs:209-219 build_patch_for_hunk *)
definition build_patch_for_hunk :: "file_diff \<Rightarrow> nat \<Rightarrow> string + string" where
  "build_patch_for_hunk d i =
     (if length (fd_hunks d) \<le> i then Inl (''hunk '' @ utf8 [0x7D22, 0x5F15, 0x8D8A, 0x754C])
      else try_r (patch_paths d) (\<lambda>(p, old).
        append_all (patch_header d p old @ patch_hunk (fd_hunks d ! i)) []))"

(* crates/ramag-tool-vcs/src/views/vcs_view_ops_patch.rs:222-230 build_patch_for_diff *)
definition build_patch_for_diff :: "file_diff \<Rightarrow> string + string" where
  "build_patch_for_diff d =
     try_r (patch_paths d) (\<lambda>(p, old).
       append_all (patch_header d p old @ concat (map patch_hunk (fd_hunks d))) [])"

(* crates/ramag-tool-vcs/src/views/vcs_view_ops_patch.rs:233-235 can_build_patch_for_diff *)
definition can_build_patch_for_diff :: "file_diff \<Rightarrow> bool" where
  "can_build_patch_for_diff d \<longleftrightarrow> (\<exists>x. patch_paths d = Inr x)"

(* crates/ramag-infra-git/src/patch.rs:61-77 validate_patch *)
definition validate_patch :: "string \<Rightarrow> domain_error + unit" where
  "validate_patch patch =
     (if patch = [] then Inl (DeInvalidConfig (''Git patch '' @ utf8 [0x4E0D, 0x80FD, 0x4E3A, 0x7A7A]))
      else if MAX_GIT_PATCH_BYTES < length patch
      then Inl (DeInvalidConfig ((''Git patch '' @ utf8 [0x8D85, 0x8FC7] @ '' '') @ dec (MAX_GIT_PATCH_BYTES div 1024 div 1024) @ ('' MiB '' @ utf8 [0x5B89, 0x5168, 0x4E0A, 0x9650])))
      else if CHR 0x00 \<in> set patch then Inl (DeInvalidConfig (''Git patch '' @ utf8 [0x4E0D, 0x80FD, 0x5305, 0x542B] @ '' NUL '' @ utf8 [0x5B57, 0x7B26]))
      else Inr ())"

text \<open>The three uses of a patch: git applies it with these arguments, and the patch on its input.\<close>

(* crates/ramag-infra-git/src/patch.rs:10-24 stage *)
definition stage_patch :: "(string list \<Rightarrow> string \<Rightarrow> domain_error + unit) \<Rightarrow> string \<Rightarrow> domain_error + unit" where
  "stage_patch git patch =
     try_r (validate_patch patch) (\<lambda>_.
       git [''apply'', ''--cached'', ''--recount'', ''--unidiff-zero'', ''--inaccurate-eof'', ''-''] patch)"

(* crates/ramag-infra-git/src/patch.rs:27-42 unstage *)
definition unstage_patch :: "(string list \<Rightarrow> string \<Rightarrow> domain_error + unit) \<Rightarrow> string \<Rightarrow> domain_error + unit" where
  "unstage_patch git patch =
     try_r (validate_patch patch) (\<lambda>_.
       git [''apply'', ''--cached'', ''--reverse'', ''--recount'', ''--unidiff-zero'', ''--inaccurate-eof'', ''-''] patch)"

(* crates/ramag-infra-git/src/patch.rs:45-59 discard *)
definition discard_patch :: "(string list \<Rightarrow> string \<Rightarrow> domain_error + unit) \<Rightarrow> string \<Rightarrow> domain_error + unit" where
  "discard_patch git patch =
     try_r (validate_patch patch) (\<lambda>_.
       git [''apply'', ''--reverse'', ''--recount'', ''--unidiff-zero'', ''--inaccurate-eof'', ''-''] patch)"

end
