(* ===== verification/Git_Diff_Laws.thy ===== *)
theory Git_Diff_Laws
  imports Git_Diff
begin

text \<open>
  Laws of diffs: what the parser does with the lines of a printed hunk, and what every hunk that it
  accepts satisfies.
\<close>

section \<open>Definitions\<close>

text \<open>The old and the new lines of a hunk, numbered one after the other.\<close>

fun renumber :: "u32 \<Rightarrow> u32 \<Rightarrow> diff_line list \<Rightarrow> diff_line list" where
  "renumber x y [] = []"
| "renumber x y (l # ls) =
     (case dl_kind l of
        ContextLine \<Rightarrow> l\<lparr>dl_old := Some x, dl_new := Some y\<rparr> # renumber (x + 1) (y + 1) ls
      | DeleteLine \<Rightarrow> l\<lparr>dl_old := Some x, dl_new := None\<rparr> # renumber (x + 1) y ls
      | AddLine \<Rightarrow> l\<lparr>dl_old := None, dl_new := Some y\<rparr> # renumber x (y + 1) ls)"

definition old_count :: "diff_line list \<Rightarrow> nat" where
  "old_count ls = length (filter (\<lambda>l. dl_kind l \<noteq> AddLine) ls)"

definition new_count :: "diff_line list \<Rightarrow> nat" where
  "new_count ls = length (filter (\<lambda>l. dl_kind l \<noteq> DeleteLine) ls)"

definition hunk_wf :: "diff_hunk \<Rightarrow> bool" where
  "hunk_wf h \<longleftrightarrow>
     renumber (hk_old_start h) (hk_new_start h) (hk_lines h) = hk_lines h
     \<and> unat (hk_old_lines h) = old_count (hk_lines h) \<and> unat (hk_new_lines h) = new_count (hk_lines h)
     \<and> unat (hk_old_start h) + old_count (hk_lines h) < 2 ^ 32
     \<and> unat (hk_new_start h) + new_count (hk_lines h) < 2 ^ 32"

text \<open>A line whose printed form looks like the header of a file.\<close>

definition header_like :: "diff_line \<Rightarrow> bool" where
  "header_like l \<longleftrightarrow>
     dl_kind l = DeleteLine \<and> starts_with (dl_text l) ''-- '' \<or> dl_kind l = AddLine \<and> starts_with (dl_text l) ''++ ''"

abbreviation newline :: char where
  "newline \<equiv> CHR 0x0A"

definition plain_line :: "diff_line \<Rightarrow> bool" where
  "plain_line l \<longleftrightarrow> newline \<notin> set (dl_text l)"

definition plain_heading :: "string option \<Rightarrow> bool" where
  "plain_heading x \<longleftrightarrow> (case x of None \<Rightarrow> True | Some t \<Rightarrow> t \<noteq> [] \<and> trim t = t \<and> newline \<notin> set t)"

definition print_line :: "diff_line \<Rightarrow> string" where
  "print_line l = line_sign (dl_kind l) # dl_text l"

definition print_hunk :: "diff_hunk \<Rightarrow> string list" where
  "print_hunk h = hunk_header h # map print_line (hk_lines h)"

definition plain_hunk :: "diff_hunk \<Rightarrow> bool" where
  "plain_hunk h \<longleftrightarrow> hunk_wf h \<and> list_all plain_line (hk_lines h) \<and> plain_heading (hk_heading h)"

definition short_lines :: "string list \<Rightarrow> bool" where
  "short_lines ls \<longleftrightarrow> (\<forall>l\<in>set ls. length l \<le> MAX_GIT_RECORD_BYTES)"

definition hunk_items :: "diff_hunk list \<Rightarrow> nat" where
  "hunk_items hs = sum_list (map (\<lambda>h. 1 + length (hk_lines h)) hs)"

abbreviation clean :: "diff_hunk \<Rightarrow> bool" where
  "clean h \<equiv> \<forall>l\<in>set (hk_lines h). \<not> header_like l"

definition finish :: "diff_state \<Rightarrow> domain_error + diff_hunk list" where
  "finish s = (case ps_current s of
     Some h \<Rightarrow> push_validated_hunk h (ps_old s) (ps_new s) (ps_hunks s) | None \<Rightarrow> Inr (ps_hunks s))"

section \<open>Counting and numbering\<close>

lemma counts_simps [simp]:
  "old_count [] = 0" "new_count [] = 0"
  "old_count (l # ls) = (if dl_kind l = AddLine then old_count ls else Suc (old_count ls))"
  "new_count (l # ls) = (if dl_kind l = DeleteLine then new_count ls else Suc (new_count ls))"
  "old_count (ls @ ms) = old_count ls + old_count ms" "new_count (ls @ ms) = new_count ls + new_count ms"
  by (simp_all add: old_count_def new_count_def)

lemma renumber_append:
  "renumber x y (ls @ ms) = renumber x y ls @ renumber (x + of_nat (old_count ls)) (y + of_nat (new_count ls)) ms"
  by (induction ls arbitrary: x y) (auto split: diff_line_kind.split simp: algebra_simps)

lemma renumber_kinds [simp]:
  "length (renumber x y ls) = length ls" "old_count (renumber x y ls) = old_count ls"
  "new_count (renumber x y ls) = new_count ls"
  by (induction ls arbitrary: x y) (auto split: diff_line_kind.split)

lemma kept_counts:
  assumes "\<not> (\<forall>l\<in>set ls. \<not> header_like l)"
  shows "old_count (filter (\<lambda>l. \<not> header_like l) ls) \<noteq> old_count ls
    \<or> new_count (filter (\<lambda>l. \<not> header_like l) ls) \<noteq> new_count ls"
proof -
  let ?P = "\<lambda>l. \<not> header_like l"
  have le: "old_count (filter ?P xs) \<le> old_count xs" "new_count (filter ?P xs) \<le> new_count xs" for xs
    by (induction xs) auto
  from assms show ?thesis
  proof (induction ls)
    case (Cons l ls)
    show ?case
    proof (cases "header_like l")
      case True
      then have "dl_kind l \<noteq> ContextLine" by (auto simp: header_like_def)
      with True le [of ls] show ?thesis by (cases "dl_kind l") auto
    next
      case False
      with Cons show ?thesis by (cases "dl_kind l") auto
    qed
  qed simp
qed

section \<open>Printing and parsing a hunk\<close>

lemma next_ok: "next_line_number x i = Inr y \<longleftrightarrow> y = x + 1 \<and> unat x + 1 < 2 ^ 32"
  by (auto simp: next_line_number_def checked_add_def ok_or_def split: if_splits)

lemma checked_next: "unat (x :: u32) + 1 < 2 ^ 32 \<Longrightarrow> next_line_number x i = Inr (x + 1)"
  by (simp add: next_ok)

lemma unat_next: "unat (x :: u32) + 1 < 2 ^ 32 \<Longrightarrow> unat (x + 1) = unat x + 1"
  by (simp add: unat_word_ariths)

lemma room: "k < MAX_PARSED_GIT_ITEMS \<Longrightarrow> ensure_git_list_room k label = Inr ()"
  by (simp add: ensure_git_list_room_def)

lemma record_room: "length l \<le> MAX_GIT_RECORD_BYTES \<Longrightarrow> ensure_git_record_size l label i = Inr ()"
  by (simp add: ensure_git_record_size_def ensure_git_size_def)

lemmas line_prefixes = starts_with_def strip_prefix.simps

lemma parse_printed_line:
  assumes short: "length (print_line l) \<le> MAX_GIT_RECORD_BYTES"
  shows "parse_diff_line i (print_line l) s =
    (if header_like l then Inr s
     else case ps_current s of None \<Rightarrow> Inr s | Some h \<Rightarrow> diff_body_line i (print_line l) h s)"
proof (cases "dl_kind l")
  case ContextLine
  then show ?thesis using record_room [OF short]
    by (simp add: parse_diff_line_def print_line_def line_sign_def header_like_def line_prefixes split: option.split)
next
  case AddLine
  then show ?thesis using record_room [OF short]
    by (simp add: parse_diff_line_def print_line_def line_sign_def header_like_def line_prefixes split: option.split)
next
  case DeleteLine
  then show ?thesis using record_room [OF short]
    by (simp add: parse_diff_line_def print_line_def line_sign_def header_like_def line_prefixes split: option.split)
qed

definition step_line :: "diff_line \<Rightarrow> diff_hunk \<Rightarrow> diff_state \<Rightarrow> diff_state" where
  "step_line l h s = s\<lparr>ps_current := Some (h\<lparr>hk_lines := hk_lines h @ renumber (ps_old s) (ps_new s) [l]\<rparr>),
     ps_items := ps_items s + 1, ps_old := ps_old s + of_nat (old_count [l]),
     ps_new := ps_new s + of_nat (new_count [l])\<rparr>"

lemma body_printed_line:
  assumes "ps_items s < MAX_PARSED_GIT_ITEMS"
    and "unat (ps_old s) + old_count [l] < 2 ^ 32" "unat (ps_new s) + new_count [l] < 2 ^ 32"
  shows "diff_body_line i (print_line l) h s = Inr (step_line l h s)"
  using assms
  by (cases "dl_kind l"; cases l; cases s)
    (simp_all add: diff_body_line_def print_line_def line_sign_def push_diff_line_def room checked_next
      step_line_def)

abbreviation kept :: "diff_line list \<Rightarrow> diff_line list" where
  "kept \<equiv> filter (\<lambda>l. \<not> header_like l)"

definition steps :: "diff_line list \<Rightarrow> diff_hunk \<Rightarrow> diff_state \<Rightarrow> diff_state" where
  "steps ls h s = s\<lparr>ps_current := Some (h\<lparr>hk_lines := hk_lines h @ renumber (ps_old s) (ps_new s) ls\<rparr>),
     ps_items := ps_items s + length ls, ps_old := ps_old s + of_nat (old_count ls),
     ps_new := ps_new s + of_nat (new_count ls)\<rparr>"

lemma steps_Nil: "ps_current s = Some h \<Longrightarrow> steps [] h s = s"
  by (cases s; cases h) (simp add: steps_def)

lemma steps_Cons:
  "steps (l # ls) h s =
    steps ls (h\<lparr>hk_lines := hk_lines h @ renumber (ps_old s) (ps_new s) [l]\<rparr>) (step_line l h s)"
  using renumber_append [of "ps_old s" "ps_new s" "[l]" ls]
  by (cases s; cases h) (simp add: steps_def step_line_def algebra_simps)

lemma count_le: "old_count (kept ls) \<le> old_count ls" "new_count (kept ls) \<le> new_count ls"
  by (induction ls) auto

lemma parse_printed_lines:
  assumes "ps_current s = Some h" and "short_lines (map print_line ls)"
    and "ps_items s + length ls \<le> MAX_PARSED_GIT_ITEMS"
    and "unat (ps_old s) + old_count ls < 2 ^ 32" "unat (ps_new s) + new_count ls < 2 ^ 32"
  shows "parse_diff_lines i (map print_line ls) s = Inr (steps (kept ls) h s)"
  using assms
proof (induction ls arbitrary: i h s)
  case Nil
  then show ?case by (simp add: steps_Nil)
next
  case (Cons l ls)
  from Cons.prems have short: "length (print_line l) \<le> MAX_GIT_RECORD_BYTES"
    and rest: "short_lines (map print_line ls)" by (simp_all add: short_lines_def)
  show ?case
  proof (cases "header_like l")
    case True
    with Cons.prems have "parse_diff_lines (Suc i) (map print_line ls) s = Inr (steps (kept ls) h s)"
      by (intro Cons.IH [OF _ rest]) (auto split: if_splits)
    with True show ?thesis by (simp add: parse_printed_line [OF short])
  next
    case False
    have counts: "unat (ps_old s) + old_count [l] < 2 ^ 32" "unat (ps_new s) + new_count [l] < 2 ^ 32"
      using Cons.prems by (simp_all split: if_splits)
    have line: "parse_diff_line i (print_line l) s = Inr (step_line l h s)"
      using False Cons.prems counts by (simp add: parse_printed_line [OF short] body_printed_line)
    have old: "unat (ps_old (step_line l h s)) = unat (ps_old s) + old_count [l]"
      and new: "unat (ps_new (step_line l h s)) = unat (ps_new s) + new_count [l]"
      using counts by (cases "dl_kind l"; simp add: step_line_def unat_next)+
    have "parse_diff_lines (Suc i) (map print_line ls) (step_line l h s)
      = Inr (steps (kept ls) (h\<lparr>hk_lines := hk_lines h @ renumber (ps_old s) (ps_new s) [l]\<rparr>) (step_line l h s))"
    proof (rule Cons.IH [OF _ rest])
      show "ps_current (step_line l h s) = Some (h\<lparr>hk_lines := hk_lines h @ renumber (ps_old s) (ps_new s) [l]\<rparr>)"
        by (simp add: step_line_def)
      show "ps_items (step_line l h s) + length ls \<le> MAX_PARSED_GIT_ITEMS"
        using Cons.prems by (simp add: step_line_def)
      show "unat (ps_old (step_line l h s)) + old_count ls < 2 ^ 32"
        unfolding old using Cons.prems by (simp split: if_splits)
      show "unat (ps_new (step_line l h s)) + new_count ls < 2 ^ 32"
        unfolding new using Cons.prems by (simp split: if_splits)
    qed
    with False line show ?thesis by (simp add: steps_Cons)
  qed
qed

lemma parse_diff_lines_append:
  "parse_diff_lines i (ls @ ms) s = try_r (parse_diff_lines i ls s) (parse_diff_lines (i + length ls) ms)"
  by (induction ls arbitrary: i s) (auto simp: try_r_def split: sum.split)

section \<open>The header of a hunk\<close>

lemma split_once_at:
  assumes "CHR ''@'' \<notin> set u"
  shows "split_once '' @@'' (u @ '' @@'' @ v) = Some (u, v)"
  using assms
proof (induction u)
  case (Cons c u)
  then have "strip_prefix '' @@'' (c # u @ '' @@'' @ v) = None"
    by (cases u) auto
  with Cons show ?case by simp
qed simp

lemma split_once_char:
  "d \<notin> set u \<Longrightarrow> split_once [d] (u @ d # v) = Some (u, v)"
  by (induction u) auto

lemma space_words_word:
  assumes "\<forall>c\<in>set u. 33 \<le> byte c \<and> byte c < 128"
  shows "space_words w (u @ s) = space_words (w @ u) s"
  using assms
proof (induction u arbitrary: w)
  case (Cons c u)
  then have "first_space (c # u @ s) = 0" by (intro first_space_ascii) auto
  with Cons show ?case by (simp add: space_words.simps [of w "c # u @ s"])
qed simp

lemma split_two_words:
  assumes "\<forall>c\<in>set (u @ v). 33 \<le> byte c \<and> byte c < 128" and "u \<noteq> []" "v \<noteq> []"
  shows "split_whitespace (u @ CHR '' '' # v) = [u, v]"
proof -
  have "split_whitespace (u @ CHR '' '' # v) = space_words u (CHR '' '' # v)"
    using assms space_words_word [of u "[]" "CHR '' '' # v"] by (simp add: split_whitespace_def)
  also have "\<dots> = u # space_words [] v"
    using assms(2) by (simp add: space_words.simps [of u] first_space_blank)
  also have "space_words [] v = [v]"
    using assms space_words_word [of v "[]" "[]"] by (simp add: space_words.simps [of v "[]"])
  finally show ?thesis .
qed

lemma parse_range_dec:
  "parse_range (dec (unat a) @ '','' @ dec (unat b)) i = Inr (a, b)"
proof -
  have limit: "unat (x :: u32) \<le> U32_LIMIT" for x
    using unsigned_less [of x, where 'a = nat] by (simp add: U32_LIMIT_def)
  have "CHR '','' \<notin> set (dec (unat a))"
    using dec_digits [of "CHR '',''" "unat a"] by (auto simp: is_ascii_digit_def)
  then have "split_once '','' (dec (unat a) @ '','' @ dec (unat b)) = Some (dec (unat a), dec (unat b))"
    using split_once_char by simp
  then show ?thesis by (simp add: parse_range_def parse_unsigned_dec [OF limit])
qed

lemma parse_printed_header:
  assumes "plain_heading (hk_heading h)"
  shows "parse_hunk_header i (hunk_header h) = Inr (h\<lparr>hk_lines := []\<rparr>)"
proof -
  let ?old = "dec (unat (hk_old_start h)) @ '','' @ dec (unat (hk_old_lines h))"
  let ?new = "dec (unat (hk_new_start h)) @ '','' @ dec (unat (hk_new_lines h))"
  let ?rest = "case hk_heading h of None \<Rightarrow> [] | Some x \<Rightarrow> '' '' @ x"
  have digits: "33 \<le> byte c \<and> byte c < 128 \<and> c \<noteq> CHR ''@''" if "c \<in> set (dec n)" for c n
    using dec_digits [OF that] by (auto simp: is_ascii_digit_def)
  have strip: "strip_prefix ''@@ '' (hunk_header h) = Some ((''-'' @ ?old @ '' +'' @ ?new) @ '' @@'' @ ?rest)"
    by (simp add: hunk_header_def)
  have once: "split_once '' @@'' ((''-'' @ ?old @ '' +'' @ ?new) @ '' @@'' @ ?rest)
    = Some (''-'' @ ?old @ '' +'' @ ?new, ?rest)"
    by (rule split_once_at) (auto dest: digits)
  have ranges: "split_whitespace (''-'' @ ?old @ '' +'' @ ?new) = [''-'' @ ?old, ''+'' @ ?new]"
    using split_two_words [of "''-'' @ ?old" "''+'' @ ?new"] by (auto dest: digits)
  have heading: "(if trim ?rest = [] then None else Some (trim ?rest)) = hk_heading h"
    using assms by (auto simp: plain_heading_def trim_blank split: option.splits)
  show ?thesis
    unfolding parse_hunk_header_def strip bind.bind_lunit once ok_or_def
    using ranges heading parse_range_dec
    by (simp add: ok_or_def)
qed

section \<open>Printing and parsing hunks\<close>

lemma add_back: "unat (a :: u32) + n < 2 ^ 32 \<Longrightarrow> unat (a + of_nat n) = unat a + n"
  by (simp add: unat_word_ariths unat_of_nat)

lemma of_nat_count: "n < 2 ^ 32 \<Longrightarrow> (of_nat n = (b :: u32)) = (unat b = n)"
  by (auto simp: unat_of_nat)

lemma not_backwards: "unat (a :: u32) + n < 2 ^ 32 \<Longrightarrow> \<not> a + of_nat n < a"
  by (simp add: word_less_nat_alt add_back)

lemma push_counts:
  assumes "unat (hk_old_start h) + m < 2 ^ 32" "unat (hk_new_start h) + n < 2 ^ 32"
  shows "unat (hk_old_lines h) = m \<and> unat (hk_new_lines h) = n \<Longrightarrow>
      push_validated_hunk h (hk_old_start h + of_nat m) (hk_new_start h + of_nat n) hs = Inr (hs @ [h])"
    and "\<not> (unat (hk_old_lines h) = m \<and> unat (hk_new_lines h) = n) \<Longrightarrow>
      isl (push_validated_hunk h (hk_old_start h + of_nat m) (hk_new_start h + of_nat n) hs)"
proof -
  have "m < 2 ^ 32" "n < 2 ^ 32" using assms by simp_all
  note counts = of_nat_count [OF this(1)] of_nat_count [OF this(2)]
  show "unat (hk_old_lines h) = m \<and> unat (hk_new_lines h) = n \<Longrightarrow>
      push_validated_hunk h (hk_old_start h + of_nat m) (hk_new_start h + of_nat n) hs = Inr (hs @ [h])"
    and "\<not> (unat (hk_old_lines h) = m \<and> unat (hk_new_lines h) = n) \<Longrightarrow>
      isl (push_validated_hunk h (hk_old_start h + of_nat m) (hk_new_start h + of_nat n) hs)"
    using not_backwards [OF assms(1)] not_backwards [OF assms(2)]
    by (auto simp: push_validated_hunk_def Let_def counts)
qed

text \<open>The state that the lines of a printed hunk lead to.\<close>

definition hunk_state :: "diff_hunk list \<Rightarrow> diff_hunk \<Rightarrow> diff_state \<Rightarrow> diff_state" where
  "hunk_state hs h s = steps (kept (hk_lines h)) (h\<lparr>hk_lines := []\<rparr>)
     (s\<lparr>ps_items := ps_items s + 1, ps_hunks := hs, ps_current := Some (h\<lparr>hk_lines := []\<rparr>),
        ps_old := hk_old_start h, ps_new := hk_new_start h\<rparr>)"

lemma hunk_state_fields [simp]:
  "ps_kind (hunk_state hs h s) = ps_kind s" "ps_old_path (hunk_state hs h s) = ps_old_path s"
  "ps_binary (hunk_state hs h s) = ps_binary s"
  by (simp_all add: hunk_state_def steps_def)

lemma hunk_state_items: "ps_items (hunk_state hs h s) \<le> ps_items s + (1 + length (hk_lines h))"
  by (simp add: hunk_state_def steps_def)

lemma kept_clean: "\<forall>l\<in>set ls. \<not> header_like l \<Longrightarrow> kept ls = ls"
  by (simp add: filter_id_conv)

lemma finish_hunk_state:
  assumes "hunk_wf h"
  shows "clean h \<Longrightarrow> finish (hunk_state hs h s) = Inr (hs @ [h])"
    and "\<not> clean h \<Longrightarrow> isl (finish (hunk_state hs h s))"
proof -
  let ?h = "h\<lparr>hk_lines := renumber (hk_old_start h) (hk_new_start h) (kept (hk_lines h))\<rparr>"
  have finish: "finish (hunk_state hs h s) = push_validated_hunk ?h
      (hk_old_start ?h + of_nat (old_count (kept (hk_lines h))))
      (hk_new_start ?h + of_nat (new_count (kept (hk_lines h)))) hs"
    by (simp add: finish_def hunk_state_def steps_def)
  have bounds: "unat (hk_old_start ?h) + old_count (kept (hk_lines h)) < 2 ^ 32"
    "unat (hk_new_start ?h) + new_count (kept (hk_lines h)) < 2 ^ 32"
    using assms count_le [of "hk_lines h"] by (auto simp: hunk_wf_def)
  show "clean h \<Longrightarrow> finish (hunk_state hs h s) = Inr (hs @ [h])"
  proof -
    assume "clean h"
    then have "kept (hk_lines h) = hk_lines h" by (rule kept_clean)
    with assms push_counts(1) [OF bounds] show ?thesis
      unfolding finish by (simp add: hunk_wf_def)
  qed
  show "\<not> clean h \<Longrightarrow> isl (finish (hunk_state hs h s))"
    using kept_counts [of "hk_lines h"] assms push_counts(2) [OF bounds]
    unfolding finish by (auto simp: hunk_wf_def)
qed

lemma header_starts:
  "\<not> starts_with (hunk_header h) ''Binary files''" "\<not> starts_with (hunk_header h) ''new file''"
  "\<not> starts_with (hunk_header h) ''deleted file''" "\<not> starts_with (hunk_header h) ''rename from ''"
  "starts_with (hunk_header h) ''@@''"
  by (simp_all add: hunk_header_def line_prefixes)

lemma parse_printed_hunk:
  assumes "plain_hunk h" and "finish s = Inr hs" and "short_lines (print_hunk h)"
    and "ps_items s + (1 + length (hk_lines h)) \<le> MAX_PARSED_GIT_ITEMS"
  shows "parse_diff_lines i (print_hunk h) s = Inr (hunk_state hs h s)"
proof -
  let ?s = "s\<lparr>ps_items := ps_items s + 1, ps_hunks := hs, ps_current := Some (h\<lparr>hk_lines := []\<rparr>),
    ps_old := hk_old_start h, ps_new := hk_new_start h\<rparr>"
  have short: "length (hunk_header h) \<le> MAX_GIT_RECORD_BYTES" "short_lines (map print_line (hk_lines h))"
    using assms(3) by (simp_all add: short_lines_def print_hunk_def)
  have header: "parse_hunk_header i (hunk_header h) = Inr (h\<lparr>hk_lines := []\<rparr>)"
    using assms(1) by (intro parse_printed_header) (simp add: plain_hunk_def)
  have "begin_hunk i (hunk_header h) s = Inr ?s"
    using assms(2,4) header
    by (simp add: begin_hunk_def room finish_def cong: option.case_cong)
  moreover have "parse_diff_line i (hunk_header h) s = begin_hunk i (hunk_header h) s"
    using record_room [OF short(1)] header_starts [of h] by (simp add: parse_diff_line_def)
  moreover have "parse_diff_lines (Suc i) (map print_line (hk_lines h)) ?s = Inr (hunk_state hs h s)"
    unfolding hunk_state_def
    using assms(1,4) by (intro parse_printed_lines [OF _ short(2)]) (auto simp: plain_hunk_def hunk_wf_def)
  ultimately show ?thesis by (simp add: print_hunk_def)
qed

abbreviation same_file :: "diff_state \<Rightarrow> diff_state \<Rightarrow> bool" where
  "same_file s s' \<equiv> ps_kind s' = ps_kind s \<and> ps_old_path s' = ps_old_path s \<and> ps_binary s' = ps_binary s"

lemma parse_printed_hunks:
  assumes "\<forall>h\<in>set hs. plain_hunk h \<and> clean h" and "finish s = Inr ks"
    and "short_lines (concat (map print_hunk hs))" and "ps_items s + hunk_items hs \<le> MAX_PARSED_GIT_ITEMS"
  shows "\<exists>s'. parse_diff_lines i (concat (map print_hunk hs)) s = Inr s' \<and> finish s' = Inr (ks @ hs) \<and> same_file s s'"
  using assms
proof (induction hs arbitrary: i s ks)
  case (Cons h hs)
  have short: "short_lines (print_hunk h)" "short_lines (concat (map print_hunk hs))"
    using Cons.prems(3) by (auto simp: short_lines_def)
  let ?s = "hunk_state ks h s"
  have "parse_diff_lines i (print_hunk h) s = Inr ?s"
    using Cons.prems by (intro parse_printed_hunk [OF _ _ short(1)]) (simp_all add: hunk_items_def)
  moreover have "finish ?s = Inr (ks @ [h])"
    using Cons.prems(1) by (intro finish_hunk_state) (simp_all add: plain_hunk_def)
  moreover have "ps_items ?s + hunk_items hs \<le> MAX_PARSED_GIT_ITEMS"
    using Cons.prems(4) hunk_state_items [of ks h s] by (simp add: hunk_items_def)
  ultimately show ?case
    using Cons.IH [OF _ _ short(2), of ?s "ks @ [h]" "i + length (print_hunk h)"] Cons.prems(1)
    by (auto simp: parse_diff_lines_append)
qed auto

lemma refused_hunk_stays:
  assumes "isl (finish s)"
  shows "isl (try_r (parse_diff_lines i (concat (map print_hunk hs)) s) finish)"
proof (cases hs)
  case Nil
  with assms show ?thesis by simp
next
  case (Cons h hs')
  from assms obtain e where "finish s = Inl e" by (cases "finish s") auto
  then have "isl (begin_hunk i (hunk_header h) s)"
    by (simp add: begin_hunk_def ensure_git_list_room_def finish_def split: option.splits)
  then have "isl (parse_diff_line i (hunk_header h) s)"
    using header_starts [of h] by (simp add: parse_diff_line_def ensure_git_record_size_def ensure_git_size_def)
  then show ?thesis
    unfolding Cons by (cases "parse_diff_line i (hunk_header h) s") (simp_all add: print_hunk_def)
qed

lemma refuse_unclean_hunks:
  assumes "\<forall>h\<in>set hs. plain_hunk h" and "\<exists>h\<in>set hs. \<not> clean h" and "finish s = Inr ks"
    and "short_lines (concat (map print_hunk hs))" and "ps_items s + hunk_items hs \<le> MAX_PARSED_GIT_ITEMS"
  shows "isl (try_r (parse_diff_lines i (concat (map print_hunk hs)) s) finish)"
  using assms
proof (induction hs arbitrary: i s ks)
  case (Cons h hs)
  have short: "short_lines (print_hunk h)" "short_lines (concat (map print_hunk hs))"
    using Cons.prems(4) by (auto simp: short_lines_def)
  let ?s = "hunk_state ks h s"
  have step: "parse_diff_lines i (print_hunk h) s = Inr ?s"
    using Cons.prems by (intro parse_printed_hunk [OF _ _ short(1)]) (simp_all add: hunk_items_def)
  have room: "ps_items ?s + hunk_items hs \<le> MAX_PARSED_GIT_ITEMS"
    using Cons.prems(5) hunk_state_items [of ks h s] by (simp add: hunk_items_def)
  have wf: "hunk_wf h" using Cons.prems(1) by (simp add: plain_hunk_def)
  have "isl (try_r (parse_diff_lines (i + length (print_hunk h)) (concat (map print_hunk hs)) ?s) finish)"
  proof (cases "clean h")
    case True
    with Cons.prems(2) have "\<exists>h\<in>set hs. \<not> clean h" by auto
    with Cons.prems(1) finish_hunk_state(1) [OF wf True] show ?thesis
      by (intro Cons.IH [OF _ _ _ short(2) room]) auto
  next
    case False
    then show ?thesis by (intro refused_hunk_stays finish_hunk_state(2) [OF wf])
  qed
  with step show ?case by (simp add: parse_diff_lines_append)
qed simp

section \<open>The text of a patch\<close>

lemma split_on_line: "d \<notin> set l \<Longrightarrow> split_on d (l @ d # s) = l # split_on d s"
  by (induction l) auto

abbreviation unlines :: "string list \<Rightarrow> string" where
  "unlines ls \<equiv> concat (map (\<lambda>l. l @ [newline]) ls)"

lemma split_unlines:
  assumes "\<forall>l\<in>set ls. newline \<notin> set l"
  shows "split_terminator newline (unlines ls) = ls"
proof -
  from assms have "split_on newline (unlines ls) = ls @ [[]]"
    by (induction ls) (auto simp: split_on_line)
  then show ?thesis by (simp add: split_terminator_def)
qed

lemma append_all_concat: "append_all vs out = Inr r \<Longrightarrow> r = out @ concat vs"
  unfolding append_all_def
  by (induction vs arbitrary: out) (fastforce simp: append_patch_bounded_def split: if_splits)+

lemma patch_hunk_lines: "concat (patch_hunk h) = unlines (print_hunk h)"
proof -
  have "concat (concat (map (\<lambda>l. [[line_sign (dl_kind l)], dl_text l, [newline]]) ls)) = unlines (map print_line ls)"
    for ls by (induction ls) (auto simp: print_line_def)
  then show ?thesis by (simp add: patch_hunk_def print_hunk_def)
qed

lemma patch_hunks_lines: "concat (concat (map patch_hunk hs)) = unlines (concat (map print_hunk hs))"
  by (induction hs) (simp_all add: patch_hunk_lines)

definition header_lines :: "file_diff \<Rightarrow> string \<Rightarrow> string \<Rightarrow> string list" where
  "header_lines d p old =
     [''diff --git a/'' @ old @ '' b/'' @ p,
      if fd_kind d \<in> {GitAdded, GitUntracked} then ''--- /dev/null'' else ''--- a/'' @ old,
      if fd_kind d = GitDeleted then ''+++ /dev/null'' else ''+++ b/'' @ p]"

lemma patch_header_lines: "concat (patch_header d p old) = unlines (header_lines d p old)"
  by (simp add: patch_header_def header_lines_def)

lemma control_newline: "newline \<in> set s \<Longrightarrow> has_control s"
  by (induction s rule: has_control.induct) auto

lemma header_no_newline:
  assumes "patch_paths d = Inr (p, old)" and "l \<in> set (header_lines d p old)"
  shows "newline \<notin> set l"
  using assms control_newline
  by (auto simp: patch_paths_def header_lines_def Let_def split: if_splits)

lemma printed_no_newline:
  assumes "plain_hunk h" and "l \<in> set (print_hunk h)"
  shows "newline \<notin> set l"
proof -
  have "newline \<notin> set (dec n)" for n
    using dec_digits [of newline n] by (auto simp: is_ascii_digit_def)
  then have "newline \<notin> set (hunk_header h)"
    using assms(1) by (cases "hk_heading h") (auto simp: plain_hunk_def hunk_header_def plain_heading_def)
  then show ?thesis
    using assms by (auto simp: print_hunk_def plain_hunk_def list_all_iff plain_line_def print_line_def
      line_sign_def split: diff_line_kind.splits)
qed

lemma header_lines_skipped:
  assumes "short_lines (header_lines d p old)"
  shows "parse_diff_lines i (header_lines d p old) s = Inr s"
proof -
  have "parse_diff_line j l s = Inr s" if l: "l \<in> set (header_lines d p old)" for j l
  proof -
    have "length l \<le> MAX_GIT_RECORD_BYTES" using assms l by (simp add: short_lines_def)
    moreover have "\<not> starts_with l ''Binary files''" "\<not> starts_with l ''new file''"
      "\<not> starts_with l ''deleted file''" "\<not> starts_with l ''rename from ''" "\<not> starts_with l ''@@''"
      "starts_with l ''diff --git'' \<or> starts_with l ''--- '' \<or> starts_with l ''+++ ''"
      using l by (auto simp: header_lines_def line_prefixes split: if_splits)
    ultimately show ?thesis by (auto simp: parse_diff_line_def record_room)
  qed
  then show ?thesis by (simp add: header_lines_def)
qed

section \<open>What the parser accepts\<close>

definition open_hunk :: "diff_state \<Rightarrow> diff_hunk \<Rightarrow> bool" where
  "open_hunk s h \<longleftrightarrow> renumber (hk_old_start h) (hk_new_start h) (hk_lines h) = hk_lines h
     \<and> unat (ps_old s) = unat (hk_old_start h) + old_count (hk_lines h)
     \<and> unat (ps_new s) = unat (hk_new_start h) + new_count (hk_lines h)
     \<and> clean h \<and> list_all plain_line (hk_lines h) \<and> plain_heading (hk_heading h)"

definition parse_inv :: "diff_state \<Rightarrow> bool" where
  "parse_inv s \<longleftrightarrow> (\<forall>h\<in>set (ps_hunks s). plain_hunk h \<and> clean h)
     \<and> (case ps_current s of None \<Rightarrow> True | Some h \<Rightarrow> open_hunk s h)
     \<and> hunk_items (ps_hunks s) + (case ps_current s of None \<Rightarrow> 0 | Some h \<Rightarrow> 1 + length (hk_lines h)) = ps_items s
     \<and> ps_items s \<le> MAX_PARSED_GIT_ITEMS"

lemma finish_inv:
  assumes "parse_inv s" and "finish s = Inr hs"
  shows "\<forall>h\<in>set hs. plain_hunk h \<and> clean h" "hunk_items hs = ps_items s"
proof -
  have "(\<forall>h\<in>set hs. plain_hunk h \<and> clean h) \<and> hunk_items hs = ps_items s"
  proof (cases "ps_current s")
    case None
    with assms show ?thesis by (simp add: finish_def parse_inv_def)
  next
    case (Some h)
    let ?a = "ps_old s - hk_old_start h" and ?b = "ps_new s - hk_new_start h"
    from Some assms(1) have open_h: "open_hunk s h" by (simp add: parse_inv_def)
    from Some assms(2) have hs: "hs = ps_hunks s @ [h]" and "hk_old_lines h = ?a" "hk_new_lines h = ?b"
      by (auto simp: finish_def push_validated_hunk_def Let_def split: if_splits)
    moreover have "unat ?a = old_count (hk_lines h)" "unat ?b = new_count (hk_lines h)"
      using open_h by (simp_all add: open_hunk_def unat_sub word_le_nat_alt)
    moreover have "unat (hk_old_start h) + old_count (hk_lines h) < 2 ^ 32"
      "unat (hk_new_start h) + new_count (hk_lines h) < 2 ^ 32"
      using open_h unsigned_less [of "ps_old s", where 'a = nat] unsigned_less [of "ps_new s", where 'a = nat]
      by (simp_all add: open_hunk_def)
    ultimately have "plain_hunk h" using open_h by (simp add: plain_hunk_def hunk_wf_def open_hunk_def)
    with open_h Some assms(1) hs show ?thesis
      by (auto simp: parse_inv_def open_hunk_def hunk_items_def)
  qed
  then show "\<forall>h\<in>set hs. plain_hunk h \<and> clean h" "hunk_items hs = ps_items s" by blast+
qed

lemma room_left: "ensure_git_list_room k label = Inr u \<longleftrightarrow> k < MAX_PARSED_GIT_ITEMS"
  by (simp add: ensure_git_list_room_def)

lemma header_parsed:
  assumes "parse_hunk_header i l = Inr h" and "newline \<notin> set l"
  shows "hk_lines h = [] \<and> plain_heading (hk_heading h)"
proof -
  obtain ranges rest where once: "Option.bind (strip_prefix ''@@ '' l) (split_once '' @@'') = Some (ranges, rest)"
    using assms(1) by (auto simp: parse_hunk_header_def ok_or_def split: option.splits)
  obtain a b where "split_whitespace ranges = [a, b]"
    using assms(1) once by (auto simp: parse_hunk_header_def ok_or_def split: list.splits)
  with once assms(1) have h: "hk_lines h = []" "hk_heading h = (if trim rest = [] then None else Some (trim rest))"
    by (auto simp: parse_hunk_header_def ok_or_def)
  obtain r where l: "strip_prefix ''@@ '' l = Some r" "split_once '' @@'' r = Some (ranges, rest)"
    using once by (auto simp: bind_eq_Some_conv)
  have "newline \<notin> set rest"
    using assms(2) l by (auto simp: strip_prefix_iff dest: split_once_parts)
  moreover have "set (trim rest) \<subseteq> set rest" using trim_sublist by (rule set_mono_sublist)
  ultimately show ?thesis using h by (auto simp: plain_heading_def trim_trim)
qed

lemma begin_hunk_inv:
  assumes "parse_inv s" and "begin_hunk i l s = Inr s'" and "newline \<notin> set l"
  shows "parse_inv s'"
proof -
  obtain hs h where finish: "finish s = Inr hs" and h: "parse_hunk_header i l = Inr h"
    and s': "s' = s\<lparr>ps_items := ps_items s + 1, ps_hunks := hs, ps_current := Some h,
              ps_old := hk_old_start h, ps_new := hk_new_start h\<rparr>"
    and "ps_items s < MAX_PARSED_GIT_ITEMS"
    using assms(2) by (auto simp: begin_hunk_def finish_def room_left)
  with finish_inv [OF assms(1) finish] header_parsed [OF h assms(3)] show ?thesis
    by (auto simp: parse_inv_def open_hunk_def)
qed

definition line_of :: "string \<Rightarrow> diff_line option" where
  "line_of s = (case s of
     CHR '' '' # r \<Rightarrow> Some \<lparr>dl_kind = ContextLine, dl_old = None, dl_new = None, dl_text = r\<rparr>
   | CHR ''-'' # r \<Rightarrow> Some \<lparr>dl_kind = DeleteLine, dl_old = None, dl_new = None, dl_text = r\<rparr>
   | CHR ''+'' # r \<Rightarrow> Some \<lparr>dl_kind = AddLine, dl_old = None, dl_new = None, dl_text = r\<rparr>
   | _ \<Rightarrow> None)"

lemma body_line_ok:
  assumes "diff_body_line i l h s = Inr s'" and "ps_current s = Some h"
  shows "s' = s \<or> (\<exists>dl. line_of l = Some dl \<and> s' = step_line dl h s \<and> ps_items s < MAX_PARSED_GIT_ITEMS
    \<and> (dl_kind dl \<noteq> AddLine \<longrightarrow> unat (ps_old s) + 1 < 2 ^ 32)
    \<and> (dl_kind dl \<noteq> DeleteLine \<longrightarrow> unat (ps_new s) + 1 < 2 ^ 32))"
proof (cases "line_of l")
  case None
  then have "diff_body_line i l h s = (if l = CHR 0x5C # '' No newline at end of file'' then Inr s
      else Inl (diff_parse_error i (''hunk '' @ utf8 [0x5185, 0x51FA, 0x73B0, 0x672A, 0x77E5, 0x884C, 0x7C7B, 0x578B])))"
    by (cases l; cases "hd l" rule: char.exhaust)
      (auto simp: line_of_def diff_body_line_def split: char.splits bool.splits if_splits)
  with assms(1) show ?thesis by (simp split: if_splits)
next
  case (Some dl)
  have "l = line_sign (dl_kind dl) # dl_text dl"
    using Some by (auto simp: line_of_def line_sign_def split: list.splits char.splits bool.splits if_splits)
  with Some assms(1) show ?thesis
    by (cases "dl_kind dl"; cases dl)
      (auto simp: diff_body_line_def line_sign_def push_diff_line_def map_ok_def room_left next_ok step_line_def
        line_of_def split: sum.splits)
qed

lemma line_of_printed: "line_of l = Some dl \<Longrightarrow> l = print_line dl"
  by (auto simp: line_of_def print_line_def line_sign_def split: list.splits char.splits bool.splits if_splits)

lemma header_like_printed:
  "header_like dl \<longleftrightarrow> starts_with (print_line dl) ''--- '' \<or> starts_with (print_line dl) ''+++ ''"
  by (cases "dl_kind dl") (simp_all add: header_like_def print_line_def line_sign_def line_prefixes)

lemma renumber_line:
  "l \<in> set (renumber x y [dl]) \<Longrightarrow> header_like l = header_like dl \<and> plain_line l = plain_line dl"
  by (cases "dl_kind dl") (simp_all add: header_like_def plain_line_def)

lemma unat_offset:
  assumes "unat a = unat b + n"
  shows "a = b + of_nat n"
proof -
  have "a = of_nat (unat a)" by simp
  also have "\<dots> = b + of_nat n" unfolding assms by simp
  finally show ?thesis .
qed

lemma step_line_inv:
  assumes "parse_inv s" and "ps_current s = Some h" and "ps_items s < MAX_PARSED_GIT_ITEMS"
    and "\<not> header_like dl" "plain_line dl"
    and "dl_kind dl \<noteq> AddLine \<longrightarrow> unat (ps_old s) + 1 < 2 ^ 32"
    and "dl_kind dl \<noteq> DeleteLine \<longrightarrow> unat (ps_new s) + 1 < 2 ^ 32"
  shows "parse_inv (step_line dl h s)"
proof -
  let ?h = "h\<lparr>hk_lines := hk_lines h @ renumber (ps_old s) (ps_new s) [dl]\<rparr>"
  have open_h: "open_hunk s h" using assms(1,2) by (simp add: parse_inv_def)
  then have start: "ps_old s = hk_old_start h + of_nat (old_count (hk_lines h))"
    "ps_new s = hk_new_start h + of_nat (new_count (hk_lines h))"
    by (auto simp: open_hunk_def intro: unat_offset)
  have "renumber (hk_old_start h) (hk_new_start h) (hk_lines h @ renumber (ps_old s) (ps_new s) [dl])
    = hk_lines h @ renumber (ps_old s) (ps_new s) [dl]"
    using open_h start by (cases "dl_kind dl") (simp_all add: renumber_append open_hunk_def)
  moreover have "\<forall>l\<in>set (renumber (ps_old s) (ps_new s) [dl]). \<not> header_like l \<and> plain_line l"
    using assms(4,5) renumber_line by blast
  moreover have "unat (ps_old (step_line dl h s)) = unat (ps_old s) + old_count [dl]"
    "unat (ps_new (step_line dl h s)) = unat (ps_new s) + new_count [dl]"
    using assms(6,7) by (cases "dl_kind dl"; simp add: step_line_def unat_next)+
  ultimately have "open_hunk (step_line dl h s) ?h"
    using open_h by (auto simp: open_hunk_def list_all_iff simp del: renumber.simps)
  then show ?thesis
    using assms(1-3) by (simp add: parse_inv_def step_line_def del: renumber.simps counts_simps)
qed

lemma parse_line_inv:
  assumes "parse_inv s" and "parse_diff_line i l s = Inr s'" and "newline \<notin> set l"
  shows "parse_inv s'"
proof -
  have fields: "parse_inv (s\<lparr>ps_binary := b\<rparr>)" "parse_inv (s\<lparr>ps_kind := k\<rparr>)"
    "parse_inv (s\<lparr>ps_kind := k, ps_old_path := q\<rparr>)" for b k q
    using assms(1) by (simp_all add: parse_inv_def open_hunk_def split: option.splits)
  note line = assms(2) [unfolded parse_diff_line_def]
  consider (binary) "starts_with l ''Binary files''"
    | (added) "\<not> starts_with l ''Binary files''" "starts_with l ''new file''"
    | (deleted) "\<not> starts_with l ''Binary files''" "\<not> starts_with l ''new file''" "starts_with l ''deleted file''"
    | (renamed) "\<not> starts_with l ''Binary files''" "\<not> starts_with l ''new file''" "\<not> starts_with l ''deleted file''"
        "starts_with l ''rename from ''"
    | (hunk) "\<not> starts_with l ''Binary files''" "\<not> starts_with l ''new file''" "\<not> starts_with l ''deleted file''"
        "\<not> starts_with l ''rename from ''" "starts_with l ''@@''"
    | (body) "\<not> starts_with l ''Binary files''" "\<not> starts_with l ''new file''" "\<not> starts_with l ''deleted file''"
        "\<not> starts_with l ''rename from ''" "\<not> starts_with l ''@@''"
    by blast
  then show ?thesis
  proof cases
    case body
    consider "s' = s" | h where "\<not> starts_with l ''--- ''" "\<not> starts_with l ''+++ ''" "ps_current s = Some h"
      "diff_body_line i l h s = Inr s'"
    proof (cases "starts_with l ''diff --git'' \<or> starts_with l ''index '' \<or> starts_with l ''--- '' \<or> starts_with l ''+++ ''")
      case True
      with line body that(1) show ?thesis by (auto split: if_split_asm)
    next
      case False
      with line body that show ?thesis by (cases "ps_current s") auto
    qed
    then show ?thesis
    proof cases
      case (2 h)
      from body_line_ok [OF 2(4,3)] consider "s' = s" | dl where "line_of l = Some dl" "s' = step_line dl h s"
        "ps_items s < MAX_PARSED_GIT_ITEMS" "dl_kind dl \<noteq> AddLine \<longrightarrow> unat (ps_old s) + 1 < 2 ^ 32"
        "dl_kind dl \<noteq> DeleteLine \<longrightarrow> unat (ps_new s) + 1 < 2 ^ 32"
        by blast
      then show ?thesis
      proof cases
        case (2 dl)
        have l: "l = print_line dl" using 2(1) by (rule line_of_printed)
        have "\<not> header_like dl" using \<open>\<not> starts_with l ''--- ''\<close> \<open>\<not> starts_with l ''+++ ''\<close>
          by (simp add: header_like_printed l)
        moreover have "plain_line dl" using assms(3) by (simp add: l plain_line_def print_line_def)
        ultimately show ?thesis
          unfolding 2(2) using assms(1) \<open>ps_current s = Some h\<close> 2 by (intro step_line_inv)
      qed (use assms(1) in simp)
    qed (use assms(1) in simp)
  next
    case hunk
    with line begin_hunk_inv [OF assms(1) _ assms(3)] show ?thesis by auto
  next
    case renamed
    with line have "\<exists>q. s' = s\<lparr>ps_kind := GitRenamed, ps_old_path := Some q\<rparr>" by (auto simp: Let_def)
    with fields(3) show ?thesis by auto
  qed (use line fields in auto)
qed

lemma parse_lines_inv:
  "parse_diff_lines i ls s = Inr s' \<Longrightarrow> parse_inv s \<Longrightarrow> \<forall>l\<in>set ls. newline \<notin> set l \<Longrightarrow> parse_inv s'"
  by (induction i ls s rule: parse_diff_lines.induct) (auto dest: parse_line_inv)

lemma split_on_not_Nil [simp]: "split_on d s \<noteq> []"
  by (cases s) auto

lemma split_on_pieces: "x \<in> set (split_on d s) \<Longrightarrow> d \<notin> set x"
proof (induction s arbitrary: x)
  case (Cons c s)
  have hd: "hd (split_on d s) \<in> set (split_on d s)" by simp
  have tl: "set (tl (split_on d s)) \<subseteq> set (split_on d s)" by (cases "split_on d s") auto
  show ?case
  proof (cases "c = d")
    case False
    with Cons.prems have "x = c # hd (split_on d s) \<or> x \<in> set (tl (split_on d s))" by simp
    with False Cons.IH hd tl show ?thesis by auto
  qed (use Cons in auto)
qed simp

lemma split_terminator_pieces: "x \<in> set (split_terminator d s) \<Longrightarrow> d \<notin> set x"
  by (auto simp: split_terminator_def Let_def split: if_splits dest: in_set_butlastD split_on_pieces)

section \<open>Printing and parsing a patch\<close>

lemma printed_patch_parsed:
  assumes "build_patch_for_diff d = Inr patch"
    and "\<forall>h\<in>set (fd_hunks d). plain_hunk h"
    and "hunk_items (fd_hunks d) \<le> MAX_PARSED_GIT_ITEMS"
    and "short_lines (split_terminator newline patch)"
  shows "if \<forall>h\<in>set (fd_hunks d). clean h
    then parse_unified_diff patch p = Inr \<lparr>fd_path = p, fd_old_path = None, fd_kind = GitModified,
      fd_binary = False, fd_old_mode = None, fd_new_mode = None, fd_hunks = fd_hunks d\<rparr>
    else isl (parse_unified_diff patch p)"
proof -
  let ?hs = "fd_hunks d"
  obtain q old where paths: "patch_paths d = Inr (q, old)"
    and append: "append_all (patch_header d q old @ concat (map patch_hunk ?hs)) [] = Inr patch"
    using assms(1) by (auto simp: build_patch_for_diff_def)
  let ?lines = "header_lines d q old @ concat (map print_hunk ?hs)"
  have patch: "patch = unlines ?lines"
    using append_all_concat [OF append] by (simp add: patch_header_lines patch_hunks_lines)
  have "\<forall>l\<in>set ?lines. newline \<notin> set l"
    using header_no_newline [OF paths] printed_no_newline assms(2) by auto
  then have lines: "split_terminator newline patch = ?lines"
    unfolding patch by (rule split_unlines)
  have short: "short_lines (header_lines d q old)" "short_lines (concat (map print_hunk ?hs))"
    using assms(4) unfolding lines by (auto simp: short_lines_def)
  have parse: "parse_unified_diff patch p =
    try_r (try_r (parse_diff_lines (length (header_lines d q old)) (concat (map print_hunk ?hs)) diff_start)
      (\<lambda>s. map_ok (Pair s) (finish s)))
      (\<lambda>(s, hunks). Inr \<lparr>fd_path = p, fd_old_path = ps_old_path s, fd_kind = ps_kind s, fd_binary = ps_binary s,
            fd_old_mode = None, fd_new_mode = None, fd_hunks = hunks\<rparr>)"
    unfolding parse_unified_diff_def lines finish_def
    by (simp add: parse_diff_lines_append header_lines_skipped [OF short(1)])
      (auto simp: try_r_def map_ok_def split: sum.split option.split)
  have start: "finish diff_start = Inr []" "ps_items diff_start + hunk_items ?hs \<le> MAX_PARSED_GIT_ITEMS"
    using assms(3) by (simp_all add: finish_def diff_start_def)
  show ?thesis
  proof (cases "\<forall>h\<in>set ?hs. clean h")
    case True
    with assms(2) have "\<forall>h\<in>set ?hs. plain_hunk h \<and> clean h" by blast
    from parse_printed_hunks [OF this start(1) short(2) start(2)] obtain s where
      "parse_diff_lines (length (header_lines d q old)) (concat (map print_hunk ?hs)) diff_start = Inr s"
      "finish s = Inr ?hs" "same_file diff_start s"
      by auto
    with True show ?thesis by (simp add: parse diff_start_def)
  next
    case False
    then have "\<exists>h\<in>set ?hs. \<not> clean h" by blast
    from refuse_unclean_hunks [OF assms(2) this start(1) short(2) start(2), of "length (header_lines d q old)"]
    have "isl (parse_unified_diff patch p)"
      unfolding parse by (auto simp: try_r_def map_ok_def split: sum.splits)
    with False show ?thesis by (simp only: if_False)
  qed
qed

lemma accepted_diff_wf:
  assumes "parse_unified_diff bytes p = Inr d"
  shows "(\<forall>h\<in>set (fd_hunks d). hunk_wf h \<and> plain_hunk h \<and> clean h) \<and> hunk_items (fd_hunks d) \<le> MAX_PARSED_GIT_ITEMS
    \<and> fd_path d = p"
proof -
  obtain s hs where s: "parse_diff_lines 0 (split_terminator newline bytes) diff_start = Inr s"
    and hs: "finish s = Inr hs" and d: "fd_hunks d = hs" "fd_path d = p"
    using assms by (auto simp: parse_unified_diff_def finish_def)
  have "parse_inv diff_start" by (simp add: parse_inv_def diff_start_def hunk_items_def)
  then have "parse_inv s" by (rule parse_lines_inv [OF s]) (blast dest: split_terminator_pieces)
  then have "ps_items s \<le> MAX_PARSED_GIT_ITEMS" by (simp add: parse_inv_def)
  with finish_inv [OF \<open>parse_inv s\<close> hs] show ?thesis unfolding d by (simp add: plain_hunk_def)
qed

end
