(* ===== verification/Git_Diff_Properties.thy ===== *)
theory Git_Diff_Properties
  imports Git_Diff_Laws
begin

text \<open>
  The properties of diffs: what a printed patch is read back as, what every accepted diff satisfies, and
  that the arguments of the git call cannot be taken for options.
\<close>

section \<open>Arguments\<close>

definition fixed_options :: "string list" where
  "fixed_options = [''diff'', ''diff-tree'', ''-w'', ''--no-color'', ''--find-renames'', ''--root'', ''-p'',
     ''--no-commit-id'', ''--cached'', ''HEAD'']"

definition safe_arg :: "u32 \<Rightarrow> string \<Rightarrow> bool" where
  "safe_arg context a \<longleftrightarrow> a \<in> set fixed_options \<or> a = ''-U'' @ dec (unat context)
     \<or> a \<noteq> [] \<and> \<not> has_control a \<and> \<not> starts_with a ''-''"

definition safe_args :: "string \<Rightarrow> u32 \<Rightarrow> string list \<Rightarrow> bool" where
  "safe_args p context args \<longleftrightarrow> (\<exists>front. args = front @ [''--'', p] \<and> list_all (safe_arg context) front)
     \<and> p \<noteq> [] \<and> CHR 0x00 \<notin> set p \<and> unat context \<le> MAX_DIFF_CONTEXT_LINES"

lemma revision_safe: "validate_positional_arg c label = Inr () \<Longrightarrow> safe_arg context c"
  by (auto simp: validate_positional_arg_def safe_arg_def split: if_splits)

lemma fixed_safe: "a \<in> set fixed_options \<Longrightarrow> safe_arg context a" "safe_arg context (''-U'' @ dec (unat context))"
  by (simp_all add: safe_arg_def)

lemma literals_safe:
  "safe_arg context ''diff''" "safe_arg context ''diff-tree''" "safe_arg context ''-w''" "safe_arg context ''--no-color''"
  "safe_arg context ''--find-renames''" "safe_arg context ''--root''" "safe_arg context ''-p''"
  "safe_arg context ''--no-commit-id''" "safe_arg context ''--cached''" "safe_arg context ''HEAD''"
  by (intro fixed_safe(1); simp add: fixed_options_def)+

lemma built_args:
  assumes "build_diff_args p kind context = Inr args"
  obtains x y ys where "args = (x # y # ys) @ [''--'', p]" "list_all (safe_arg context) (x # y # ys)"
proof (cases kind)
  case WorkingTreeVsIndex
  with assms have "args = [''diff'', ''--no-color'', ''-U'' @ dec (unat context), ''--find-renames''] @ [''--'', p]"
    by (simp add: build_diff_args_def)
  then show ?thesis using literals_safe fixed_safe(2)
    by (intro that [of "''diff''" "''--no-color''" "[''-U'' @ dec (unat context), ''--find-renames'']"])
      (simp_all only: append.simps list.pred_inject simp_thms)
next
  case IndexVsHead
  with assms have "args = [''diff'', ''--no-color'', ''-U'' @ dec (unat context), ''--find-renames'', ''--cached''] @ [''--'', p]"
    by (simp add: build_diff_args_def)
  then show ?thesis using literals_safe fixed_safe(2)
    by (intro that [of "''diff''" "''--no-color''" "[''-U'' @ dec (unat context), ''--find-renames'', ''--cached'']"])
      (simp_all only: append.simps list.pred_inject simp_thms)
next
  case WorkingTreeVsHead
  with assms have "args = [''diff'', ''--no-color'', ''-U'' @ dec (unat context), ''--find-renames'', ''HEAD''] @ [''--'', p]"
    by (simp add: build_diff_args_def)
  then show ?thesis using literals_safe fixed_safe(2)
    by (intro that [of "''diff''" "''--no-color''" "[''-U'' @ dec (unat context), ''--find-renames'', ''HEAD'']"])
      (simp_all only: append.simps list.pred_inject simp_thms)
next
  case (CommitVsParent r)
  then obtain c where kind: "kind = CommitVsParent (CommitId c)" by (cases r) auto
  have "safe_arg context c" using assms revision_safe by (auto simp: kind build_diff_args_def)
  moreover have "args = [''diff-tree'', ''--no-color'', ''-U'' @ dec (unat context), ''--find-renames'', ''--root'',
      ''-p'', ''--no-commit-id'', c] @ [''--'', p]"
    using assms by (auto simp: kind build_diff_args_def)
  ultimately show ?thesis using literals_safe fixed_safe(2)
    by (intro that [of "''diff-tree''" "''--no-color''"
          "[''-U'' @ dec (unat context), ''--find-renames'', ''--root'', ''-p'', ''--no-commit-id'', c]"])
      (simp_all only: append.simps list.pred_inject simp_thms)
next
  case (DiffRange r q)
  then obtain f t where kind: "kind = DiffRange (CommitId f) (CommitId t)" by (cases r; cases q) auto
  have "safe_arg context f" "safe_arg context t" using assms revision_safe by (auto simp: kind build_diff_args_def)
  moreover have "args = [''diff'', ''--no-color'', ''-U'' @ dec (unat context), ''--find-renames'', f, t] @ [''--'', p]"
    using assms by (auto simp: kind build_diff_args_def)
  ultimately show ?thesis using literals_safe fixed_safe(2)
    by (intro that [of "''diff''" "''--no-color''" "[''-U'' @ dec (unat context), ''--find-renames'', f, t]"])
      (simp_all only: append.simps list.pred_inject simp_thms)
qed

lemma built_args_safe:
  assumes "build_diff_args p kind context = Inr args"
  shows "\<exists>front. (if w then insert_at 1 ''-w'' args else args) = front @ [''--'', p] \<and> list_all (safe_arg context) front"
proof (rule built_args [OF assms])
  fix x y ys
  assume "args = (x # y # ys) @ [''--'', p]" and "list_all (safe_arg context) (x # y # ys)"
  then show ?thesis
    using literals_safe(3)
    by (intro exI [of _ "if w then x # ''-w'' # y # ys else x # y # ys"]) (simp add: insert_at_def)
qed

section \<open>Samples\<close>

definition sample_hunk :: "string \<Rightarrow> diff_hunk" where
  "sample_hunk s = \<lparr>hk_old_start = 1, hk_old_lines = 2, hk_new_start = 1, hk_new_lines = 1, hk_heading = None,
     hk_lines = [\<lparr>dl_kind = ContextLine, dl_old = Some 1, dl_new = Some 1, dl_text = ''select''\<rparr>,
       \<lparr>dl_kind = DeleteLine, dl_old = Some 2, dl_new = None, dl_text = s\<rparr>]\<rparr>"

definition sample_diff :: "string \<Rightarrow> file_diff" where
  "sample_diff s = \<lparr>fd_path = ''q.sql'', fd_old_path = None, fd_kind = GitModified, fd_binary = False,
     fd_old_mode = None, fd_new_mode = None, fd_hunks = [sample_hunk s]\<rparr>"

definition sample_lines :: "string \<Rightarrow> string list" where
  "sample_lines s = [''diff --git a/q.sql b/q.sql'', ''--- a/q.sql'', ''+++ b/q.sql'', ''@@ -1,2 +1,1 @@'', '' select'', CHR ''-'' # s]"

lemma sample_wf:
  assumes "newline \<notin> set s"
  shows "\<forall>h\<in>set (fd_hunks (sample_diff s)). plain_hunk h" "hunk_items (fd_hunks (sample_diff s)) \<le> MAX_PARSED_GIT_ITEMS"
  using assms
  by (simp_all add: sample_diff_def sample_hunk_def plain_hunk_def hunk_wf_def plain_line_def plain_heading_def
      hunk_items_def limits)

lemma append_all_fits:
  "length out + length (concat vs) \<le> MAX_GIT_PATCH_BYTES \<Longrightarrow> append_all vs out = Inr (out @ concat vs)"
  unfolding append_all_def by (induction vs arbitrary: out) (simp_all add: append_patch_bounded_def)

lemma sample_patch:
  assumes "length s < 60000"
  shows "build_patch_for_diff (sample_diff s) = Inr (unlines (sample_lines s))"
proof -
  have paths: "patch_paths (sample_diff s) = Inr (''q.sql'', ''q.sql'')"
    by (simp add: patch_paths_def sample_diff_def Let_def)
  have d: "dec (Suc 0) = ''1''" "dec 2 = ''2''" by code_simp+
  have lines: "concat (patch_header (sample_diff s) ''q.sql'' ''q.sql'' @ concat (map patch_hunk (fd_hunks (sample_diff s))))
    = unlines (sample_lines s)"
    by (simp add: patch_header_def patch_hunk_def hunk_header_def sample_diff_def sample_hunk_def sample_lines_def
        line_sign_def d)
  have "length (unlines (sample_lines s)) \<le> MAX_GIT_PATCH_BYTES"
    using assms by (simp add: sample_lines_def limits)
  then show ?thesis
    using append_all_fits [of "[]", unfolded list.size add_0 append.simps, folded lines]
    by (simp only: build_patch_for_diff_def paths try_r_simps prod.case lines)
qed

lemma sample_split: "newline \<notin> set s \<Longrightarrow> split_terminator newline (unlines (sample_lines s)) = sample_lines s"
  by (rule split_unlines) (simp add: sample_lines_def)

lemma sample_short: "length s < 60000 \<Longrightarrow> short_lines (sample_lines s)"
  by (simp add: short_lines_def sample_lines_def limits)

lemma sample_diff_parsed:
  "parse_unified_diff (unlines (sample_lines ''from t'')) ''q.sql'' = Inr (sample_diff ''from t'')"
proof -
  have clean: "\<forall>h\<in>set (fd_hunks (sample_diff ''from t'')). clean h"
    by (simp add: sample_diff_def sample_hunk_def header_like_def line_prefixes)
  have "parse_unified_diff (unlines (sample_lines ''from t'')) ''q.sql'' = Inr \<lparr>fd_path = ''q.sql'', fd_old_path = None, fd_kind = GitModified,
      fd_binary = False, fd_old_mode = None, fd_new_mode = None, fd_hunks = fd_hunks (sample_diff ''from t'')\<rparr>"
    using printed_patch_parsed [OF sample_patch sample_wf, of "''from t''" "''q.sql''"] clean
      sample_split [of "''from t''"] sample_short [of "''from t''"] by simp
  then show ?thesis by (simp add: sample_diff_def)
qed



section \<open>Properties\<close>

text \<open>C22. The patch that is built from a diff is read back as the same hunks when no hunk deletes a line
  that starts with two dashes and a blank or adds one that starts with two plus signs and a blank; when one
  does, the parser takes its printed line for the header of a file, leaves it out, and refuses the whole
  patch because the lines of the hunk do not add up.  The diff must have well-formed hunks without line
  breaks inside its lines, at most 250,000 hunks and lines, and no printed line of more than 64 KiB.\<close>

theorem diff_patch_roundtrip:
  assumes "build_patch_for_diff d = Inr patch"
    and "\<forall>h\<in>set (fd_hunks d). plain_hunk h"
    and "hunk_items (fd_hunks d) \<le> MAX_PARSED_GIT_ITEMS"
    and "short_lines (split_terminator newline patch)"
  shows "if \<forall>h\<in>set (fd_hunks d). clean h
    then parse_unified_diff patch p = Inr \<lparr>fd_path = p, fd_old_path = None, fd_kind = GitModified,
      fd_binary = False, fd_old_mode = None, fd_new_mode = None, fd_hunks = fd_hunks d\<rparr>
    else isl (parse_unified_diff patch p)"
  using assms by (rule printed_patch_parsed)

theorem diff_patch_roundtrip_witness:
  "parse_unified_diff (unlines (sample_lines ''from t'')) ''q.sql'' = Inr ((sample_diff ''from t'')\<lparr>fd_path := ''q.sql''\<rparr>)
    \<and> isl (parse_unified_diff (unlines (sample_lines ''-- note'')) ''q.sql'')"
proof
  have clean: "\<forall>h\<in>set (fd_hunks (sample_diff ''from t'')). clean h"
    by (simp add: sample_diff_def sample_hunk_def header_like_def line_prefixes)
  have "parse_unified_diff (unlines (sample_lines ''from t'')) ''q.sql'' = Inr \<lparr>fd_path = ''q.sql'', fd_old_path = None, fd_kind = GitModified,
      fd_binary = False, fd_old_mode = None, fd_new_mode = None, fd_hunks = fd_hunks (sample_diff ''from t'')\<rparr>"
    using diff_patch_roundtrip [OF sample_patch sample_wf, of "''from t''" "''q.sql''"] clean
      sample_split [of "''from t''"] sample_short [of "''from t''"] by simp
  then show "parse_unified_diff (unlines (sample_lines ''from t'')) ''q.sql'' = Inr ((sample_diff ''from t'')\<lparr>fd_path := ''q.sql''\<rparr>)"
    by (simp add: sample_diff_def)
  have "\<not> (\<forall>h\<in>set (fd_hunks (sample_diff ''-- note'')). clean h)"
    by (simp add: sample_diff_def sample_hunk_def header_like_def line_prefixes)
  then show "isl (parse_unified_diff (unlines (sample_lines ''-- note'')) ''q.sql'')"
    using diff_patch_roundtrip [OF sample_patch sample_wf, of "''-- note''" "''q.sql''"]
      sample_split [of "''-- note''"] sample_short [of "''-- note''"] by simp
qed

text \<open>C23. Every diff that the parser accepts has well-formed hunks: the lines carry consecutive numbers from the
  declared starts, the declared counts are the counts of the lines and no number leaves 32 bits, no line
  looks like the header of a file, the heading is trimmed and not empty, and there are at most 250,000 hunks
  and lines.\<close>

theorem parsed_diff_wf:
  assumes "parse_unified_diff bytes p = Inr d"
  shows "(\<forall>h\<in>set (fd_hunks d). hunk_wf h \<and> plain_hunk h \<and> clean h) \<and> hunk_items (fd_hunks d) \<le> MAX_PARSED_GIT_ITEMS
    \<and> fd_path d = p"
  using assms by (rule accepted_diff_wf)

theorem parsed_diff_wf_witness:
  "hunk_wf (sample_hunk ''from t'') \<and> plain_hunk (sample_hunk ''from t'') \<and> hunk_items [sample_hunk ''from t''] \<le> MAX_PARSED_GIT_ITEMS"
  using parsed_diff_wf [OF sample_diff_parsed] by (simp add: sample_diff_def)



text \<open>C24. Git is only called with arguments that cannot be taken for anything else: the file's path stands
  alone after the two dashes that end the options, and before them is either one of the fixed options, the
  context size, or a revision that is not empty, has no control character and does not start with a dash.\<close>

theorem diff_args_are_safe:
  assumes "\<And>args. safe_args p context args \<Longrightarrow> git args = git' args"
  shows "run_diff_full_opts git p kind ignore_whitespace context
    = run_diff_full_opts git' p kind ignore_whitespace context"
proof (cases "build_diff_args p kind context")
  case (Inl e)
  then show ?thesis by (simp add: run_diff_full_opts_def)
next
  case (Inr args)
  let ?args = "if ignore_whitespace then insert_at 1 ''-w'' args else args"
  have "validate_path_arg p label = Inr () \<Longrightarrow> unat context \<le> MAX_DIFF_CONTEXT_LINES \<Longrightarrow> safe_args p context ?args"
    for label using built_args_safe [OF Inr] by (auto simp: safe_args_def validate_path_arg_def split: if_splits)
  then have "validate_path_arg p label = Inr () \<Longrightarrow> unat context \<le> MAX_DIFF_CONTEXT_LINES \<Longrightarrow> git ?args = git' ?args"
    for label using assms by blast
  with Inr show ?thesis
    by (cases "validate_path_arg p (''diff '' @ utf8 [0x6587, 0x4EF6, 0x8DEF, 0x5F84])";
        cases "unat context \<le> MAX_DIFF_CONTEXT_LINES")
      (simp_all add: run_diff_full_opts_def)
qed

text \<open>A git that would write a file of its own accord, if only it were told to.\<close>

definition careless_git :: "string list \<Rightarrow> domain_error + string" where
  "careless_git args = (if ''--output=q'' \<in> set args then Inl (DeOther ''written'') else Inr [])"

theorem diff_args_are_safe_witness:
  "run_diff_full_opts careless_git ''q.sql'' (CommitVsParent (CommitId ''--output=q'')) True 3
    = run_diff_full_opts (\<lambda>args. Inr []) ''q.sql'' (CommitVsParent (CommitId ''--output=q'')) True 3"
proof (rule diff_args_are_safe)
  fix args
  assume "safe_args ''q.sql'' 3 args"
  moreover have "\<not> safe_arg 3 ''--output=q''"
    by (simp add: safe_arg_def fixed_options_def line_prefixes)
  ultimately have "''--output=q'' \<notin> set args" by (auto simp: safe_args_def list_all_iff)
  then show "careless_git args = Inr []" by (simp add: careless_git_def)
qed

end
