(* ===== verification/Git_Lanes.thy ===== *)
theory Git_Lanes
  imports Git_Entities List_Ops
begin

text \<open>
  The lanes of the commit graph (\<open>crates/ramag-tool-vcs/src/views/commit_graph.rs\<close>): every commit that is
  still expected as a parent keeps a lane, lanes that become free are used again, and the state continues
  over the pages of the history.  \<open>BinaryHeap<Reverse<usize>>\<close> is the ascending list of its elements, and
  \<open>HashMap\<close> a partial map.  The drawing of the lanes is left out.
\<close>

section \<open>State\<close>

(* crates/ramag-tool-vcs/src/views/commit_graph.rs:12-20 CommitGraphRow *)
record graph_row =
  gr_lane :: u8
  gr_total :: u8
  gr_merge :: bool

(* crates/ramag-tool-vcs/src/views/commit_graph.rs:25-25 MAX_RENDERED_LANES *)
definition MAX_RENDERED_LANES :: nat where
  [limits]: "MAX_RENDERED_LANES = 64"

(* crates/ramag-tool-vcs/src/views/commit_graph.rs:35-35 SMALL_ACTIVE_LANES *)
definition SMALL_ACTIVE_LANES :: nat where
  [limits]: "SMALL_ACTIVE_LANES = 16"

(* crates/ramag-tool-vcs/src/views/commit_graph.rs:43-48 CommitKey *)
datatype commit_key = KeySha1 string | KeySha256 string | KeyOther string

(* crates/ramag-tool-vcs/src/views/commit_graph.rs:50-66 CommitKey::from *)
fun key_of :: "commit_id \<Rightarrow> commit_key" where
  "key_of (CommitId s) =
     (if length s = 40 then KeySha1 s else if length s = 64 then KeySha256 s else KeyOther s)"

(* crates/ramag-tool-vcs/src/views/commit_graph.rs:37-41 ActiveLanes *)
record active_lanes =
  al_small :: "(commit_key \<times> nat) list"
  al_large :: "(commit_key \<rightharpoonup> nat) option"

(* crates/ramag-tool-vcs/src/views/commit_graph.rs:27-33 CommitLaneState *)
record lane_state =
  ln_occupied :: "bool list"
  ln_active :: active_lanes
  ln_free :: "nat list"

definition new_lanes :: lane_state where
  "new_lanes = \<lparr>ln_occupied = [], ln_active = \<lparr>al_small = [], al_large = None\<rparr>, ln_free = []\<rparr>"

section \<open>Active lanes\<close>

text \<open>\<open>Vec::swap_remove\<close>: the last element takes the place of the one that goes.\<close>

definition swap_remove :: "nat \<Rightarrow> 'a list \<Rightarrow> 'a list" where
  "swap_remove i xs = (butlast xs)[i := last xs]"

(* crates/ramag-tool-vcs/src/views/commit_graph.rs:69-78 ActiveLanes::remove *)
definition active_remove :: "commit_key \<Rightarrow> active_lanes \<Rightarrow> nat option \<times> active_lanes" where
  "active_remove k a =
     (case al_large a of
        Some m \<Rightarrow> (m k, a\<lparr>al_large := Some (m(k := None))\<rparr>)
      | None \<Rightarrow>
          case position (\<lambda>(candidate, _). candidate = k) (al_small a) of
            None \<Rightarrow> (None, a)
          | Some i \<Rightarrow> (Some (snd (al_small a ! i)), a\<lparr>al_small := swap_remove i (al_small a)\<rparr>))"

(* crates/ramag-tool-vcs/src/views/commit_graph.rs:81-103 ActiveLanes::insert_if_absent *)
definition insert_if_absent :: "commit_key \<Rightarrow> nat \<Rightarrow> active_lanes \<Rightarrow> bool \<times> active_lanes" where
  "insert_if_absent k lane a =
     (case al_large a of
        Some m \<Rightarrow> if m k \<noteq> None then (False, a) else (True, a\<lparr>al_large := Some (m(k \<mapsto> lane))\<rparr>)
      | None \<Rightarrow>
          if list_ex (\<lambda>(candidate, _). candidate = k) (al_small a) then (False, a)
          else if length (al_small a) < SMALL_ACTIVE_LANES
          then (True, a\<lparr>al_small := al_small a @ [(k, lane)]\<rparr>)
          else (True, \<lparr>al_small = [],
                  al_large = Some ((fold (\<lambda>(k, v) m. m(k \<mapsto> v)) (al_small a) Map.empty)(k \<mapsto> lane))\<rparr>))"

section \<open>Lanes\<close>

text \<open>The loop that takes entries from the heap until one names a lane that is free.\<close>

(* crates/ramag-tool-vcs/src/views/commit_graph.rs:167-172 allocate_lane *)
fun pop_free :: "bool list \<Rightarrow> nat list \<Rightarrow> nat option \<times> nat list" where
  "pop_free occupied [] = (None, [])"
| "pop_free occupied (l # ls) =
     (if l < length occupied \<and> \<not> occupied ! l then (Some l, ls) else pop_free occupied ls)"

(* crates/ramag-tool-vcs/src/views/commit_graph.rs:166-175 allocate_lane *)
definition allocate_lane :: "bool list \<Rightarrow> nat list \<Rightarrow> nat \<times> bool list \<times> nat list" where
  "allocate_lane occupied free =
     (case pop_free occupied free of
        (Some l, free) \<Rightarrow> (l, occupied[l := True], free)
      | (None, free) \<Rightarrow> (length occupied, occupied @ [True], free))"

(* crates/ramag-tool-vcs/src/views/commit_graph.rs:177-182 release_lane *)
definition release_lane :: "nat \<Rightarrow> bool list \<Rightarrow> nat list \<Rightarrow> bool list \<times> nat list" where
  "release_lane l occupied free =
     (if l < length occupied \<and> occupied ! l then (occupied[l := False], insort l free) else (occupied, free))"

text \<open>The lane of the first parent; the assignment by index is a panic when the lane does not exist.\<close>

(* crates/ramag-tool-vcs/src/views/commit_graph.rs:121-132 CommitLaneState::append *)
definition first_parent_step :: "nat \<Rightarrow> commit_id list \<Rightarrow> lane_state \<Rightarrow> lane_state option" where
  "first_parent_step lane parents s =
     (let released = (let (occupied, free) = release_lane lane (ln_occupied s) (ln_free s)
                      in s\<lparr>ln_occupied := occupied, ln_free := free\<rparr>) in
      case parents of
        [] \<Rightarrow> Some released
      | p # _ \<Rightarrow>
          (case insert_if_absent (key_of p) lane (ln_active s) of
             (True, a) \<Rightarrow>
               if lane < length (ln_occupied s)
               then Some (s\<lparr>ln_active := a, ln_occupied := (ln_occupied s)[lane := True]\<rparr>) else None
           | (False, a) \<Rightarrow> Some released))"

(* crates/ramag-tool-vcs/src/views/commit_graph.rs:134-142 CommitLaneState::append *)
definition other_parent_step :: "lane_state \<Rightarrow> commit_id \<Rightarrow> lane_state" where
  "other_parent_step s p =
     (let (lane, occupied, free) = allocate_lane (ln_occupied s) (ln_free s) in
      case insert_if_absent (key_of p) lane (ln_active s) of
        (True, a) \<Rightarrow> s\<lparr>ln_active := a, ln_occupied := occupied, ln_free := free\<rparr>
      | (False, a) \<Rightarrow>
          let (occupied, free) = release_lane lane occupied free in s\<lparr>ln_occupied := occupied, ln_free := free\<rparr>)"

(* crates/ramag-tool-vcs/src/views/commit_graph.rs:144-146 CommitLaneState::append *)
definition drop_free_tail :: "bool list \<Rightarrow> bool list" where
  "drop_free_tail occupied = rev (dropWhile Not (rev occupied))"

text \<open>\<open>u8::try_from(...).unwrap_or(u8::MAX)\<close>.\<close>

definition to_u8 :: "nat \<Rightarrow> u8" where
  "to_u8 n = (if n < 256 then of_nat n else 255)"

(* crates/ramag-tool-vcs/src/views/commit_graph.rs:147-154 CommitLaneState::append *)
definition graph_row_of :: "nat \<Rightarrow> bool list \<Rightarrow> bool \<Rightarrow> graph_row" where
  "graph_row_of lane occupied is_merge =
     (let logical_total = max (length occupied) (lane + 1);
          rendered_lane = min lane (MAX_RENDERED_LANES - 1);
          total_lanes = max (min logical_total MAX_RENDERED_LANES) (rendered_lane + 1) in
      \<lparr>gr_lane = to_u8 rendered_lane, gr_total = to_u8 total_lanes, gr_merge = is_merge\<rparr>)"

(* crates/ramag-tool-vcs/src/views/commit_graph.rs:112-155 CommitLaneState::append *)
definition append_commit :: "lane_state \<Rightarrow> git_commit \<Rightarrow> (lane_state \<times> graph_row) option" where
  "append_commit s c =
     (let (taken, a) = active_remove (key_of (cm_id c)) (ln_active s);
          (lane, occupied, free) =
            (case taken of Some l \<Rightarrow> (l, ln_occupied s, ln_free s) | None \<Rightarrow> allocate_lane (ln_occupied s) (ln_free s));
          is_merge = 1 < length (cm_parents c) in
      case first_parent_step lane (cm_parents c) \<lparr>ln_occupied = occupied, ln_active = a, ln_free = free\<rparr> of
        None \<Rightarrow> None
      | Some s1 \<Rightarrow>
          let s2 = foldl other_parent_step s1 (drop 1 (cm_parents c));
              s3 = s2\<lparr>ln_occupied := drop_free_tail (ln_occupied s2)\<rparr> in
          Some (s3, graph_row_of lane (ln_occupied s3) is_merge))"

(* crates/ramag-tool-vcs/src/views/commit_graph.rs:106-158 CommitLaneState::append *)
fun append_commits :: "lane_state \<Rightarrow> git_commit list \<Rightarrow> (lane_state \<times> graph_row list) option" where
  "append_commits s [] = Some (s, [])"
| "append_commits s (c # cs) =
     (case append_commit s c of
        None \<Rightarrow> None
      | Some (s1, row) \<Rightarrow> map_option (\<lambda>(s2, rows). (s2, row # rows)) (append_commits s1 cs))"

end
