(* ===== verification/Git_Lanes_Laws.thy ===== *)
theory Git_Lanes_Laws
  imports Git_Lanes
begin

text \<open>
  Laws of the commit graph: the active lanes are a map, the heap of free lanes gives the least lane that
  nobody uses, and the whole algorithm refines a description in which only that map is left.  The property at the end states this for any number of
  pages.
\<close>

section \<open>Specification\<close>

text \<open>The lane of every commit that is expected; a new lane is the least one that none of them has.\<close>

type_synonym waiting = "commit_key \<rightharpoonup> nat"

definition least_lane :: "waiting \<Rightarrow> nat" where
  "least_lane m = (LEAST l. l \<notin> ran m)"

definition expect :: "nat \<Rightarrow> commit_id \<Rightarrow> waiting \<Rightarrow> waiting" where
  "expect l p m = (if m (key_of p) = None then m(key_of p \<mapsto> l) else m)"

definition spec_lane :: "waiting \<Rightarrow> git_commit \<Rightarrow> nat" where
  "spec_lane m c = (case m (key_of (cm_id c)) of Some l \<Rightarrow> l | None \<Rightarrow> least_lane m)"

definition spec_step :: "waiting \<Rightarrow> git_commit \<Rightarrow> waiting" where
  "spec_step m c =
     (let m1 = m(key_of (cm_id c) := None) in
      case cm_parents c of
        [] \<Rightarrow> m1
      | p # ps \<Rightarrow> fold (\<lambda>q m. expect (least_lane m) q m) ps (expect (spec_lane m c) p m1))"

text \<open>The number of lanes: up to the last one in use.\<close>

definition lanes_of :: "nat set \<Rightarrow> nat" where
  "lanes_of L = (if L = {} then 0 else Suc (Max L))"

fun spec_rows :: "waiting \<Rightarrow> git_commit list \<Rightarrow> (nat \<times> nat \<times> bool) list" where
  "spec_rows m [] = []"
| "spec_rows m (c # cs) =
     (spec_lane m c, lanes_of (insert (spec_lane m c) (ran (spec_step m c))), 1 < length (cm_parents c))
     # spec_rows (spec_step m c) cs"

definition shown :: "nat \<times> nat \<times> bool \<Rightarrow> nat \<times> nat \<times> bool" where
  "shown r = (case r of (lane, overall, is_merge) \<Rightarrow> (min lane 63, min overall 64, is_merge))"

section \<open>Active lanes are a map\<close>

definition al_map :: "active_lanes \<Rightarrow> waiting" where
  "al_map a = (case al_large a of Some m \<Rightarrow> m | None \<Rightarrow> map_of (al_small a))"

definition al_ok :: "active_lanes \<Rightarrow> bool" where
  "al_ok a \<longleftrightarrow> al_large a = None \<longrightarrow> distinct (map fst (al_small a))"

lemma key_of_inject [simp]: "key_of x = key_of y \<longleftrightarrow> x = y"
  by (cases x; cases y) auto

lemma mset_swap_remove: "i < length xs \<Longrightarrow> add_mset (xs ! i) (mset (swap_remove i xs)) = mset xs"
proof (cases xs rule: rev_cases)
  case (snoc ys y)
  assume "i < length xs"
  with snoc show ?thesis
    by (cases "i = length ys") (auto simp: swap_remove_def nth_append mset_update list_update_beyond)
qed simp

lemma swap_remove_entry:
  assumes "distinct (map fst xs)" and "i < length xs"
  shows "distinct (map fst (swap_remove i xs))" "map_of (swap_remove i xs) = (map_of xs)(fst (xs ! i) := None)"
proof -
  have all: "mset xs = mset (xs ! i # swap_remove i xs)" using mset_swap_remove [OF assms(2)] by simp
  then have "mset (map fst xs) = mset (map fst (xs ! i # swap_remove i xs))" by (metis mset_map)
  with assms(1) have dist: "distinct (map fst (xs ! i # swap_remove i xs))"
    by (metis mset_eq_imp_distinct_iff)
  then show "distinct (map fst (swap_remove i xs))" by simp
  have "set xs = set (xs ! i # swap_remove i xs)" using all by (rule mset_eq_setD)
  with assms(1) dist have "map_of xs = map_of (xs ! i # swap_remove i xs)" by (simp only: map_of_inject_set)
  moreover have "fst (xs ! i) \<notin> set (map fst (swap_remove i xs))" using dist by simp
  then have "map_of (swap_remove i xs) (fst (xs ! i)) = None" by (simp add: map_of_eq_None_iff)
  ultimately show "map_of (swap_remove i xs) = (map_of xs)(fst (xs ! i) := None)"
    by (cases "xs ! i") (auto simp: fun_eq_iff)
qed

lemma active_remove_map:
  assumes "al_ok a" and "active_remove k a = (r, a')"
  shows "r = al_map a k \<and> al_map a' = (al_map a)(k := None) \<and> al_ok a'"
proof (cases "al_large a")
  case (Some m)
  with assms show ?thesis by (auto simp: active_remove_def al_map_def al_ok_def)
next
  case None
  let ?P = "\<lambda>(candidate, _). candidate = k"
  show ?thesis
  proof (cases "position ?P (al_small a)")
    case (Some i)
    from position_split [OF this] have i: "i < length (al_small a)" "fst (al_small a ! i) = k" by auto
    then have "map_of (al_small a) k = Some (snd (al_small a ! i))"
      using None assms(1) by (intro map_of_is_SomeI) (auto simp: al_ok_def in_set_conv_nth intro!: exI [of _ i])
    with None Some i assms swap_remove_entry [of "al_small a" i] show ?thesis
      by (auto simp: active_remove_def al_map_def al_ok_def)
  next
    case N: None
    then have "map_of (al_small a) k = None" by (auto simp: position_None map_of_eq_None_iff)
    with None N assms show ?thesis by (auto simp: active_remove_def al_map_def al_ok_def)
  qed
qed

lemma fold_map_of:
  "distinct (map fst xs) \<Longrightarrow> fold (\<lambda>(k, v) m. m(k \<mapsto> v)) xs m = m ++ map_of xs"
proof (induction xs arbitrary: m)
  case (Cons x xs)
  obtain k v where x: "x = (k, v)" by (cases x)
  with Cons.prems have "k \<notin> dom (map_of xs)" by (auto simp: dom_map_of_conv_image_fst)
  then have "m(k \<mapsto> v) ++ map_of xs = (m ++ map_of xs)(k \<mapsto> v)" by (rule map_add_upd_left)
  with Cons x show ?case by (simp del: fun_upd_apply)
qed simp

lemma insert_if_absent_map:
  assumes "al_ok a" and "insert_if_absent k l a = (b, a')"
  shows "b = (al_map a k = None) \<and> al_map a' = (if b then (al_map a)(k \<mapsto> l) else al_map a) \<and> al_ok a'"
proof (cases "al_large a")
  case (Some m)
  with assms show ?thesis by (auto simp: insert_if_absent_def al_map_def al_ok_def split: if_splits)
next
  case None
  have present: "list_ex (\<lambda>(candidate, _). candidate = k) (al_small a) \<longleftrightarrow> map_of (al_small a) k \<noteq> None"
    by (force simp: list_ex_iff map_of_eq_None_iff)
  show ?thesis
  proof (cases "map_of (al_small a) k")
    case N: None
    then have "k \<notin> fst ` set (al_small a)" by (simp add: map_of_eq_None_iff)
    moreover from this have "map_of (al_small a @ [(k, l)]) = (map_of (al_small a))(k \<mapsto> l)"
      using N by (auto simp: map_add_def fun_eq_iff split: option.splits)
    ultimately show ?thesis
      using None N assms present fold_map_of [of "al_small a" Map.empty]
      by (auto simp: insert_if_absent_def al_map_def al_ok_def split: if_splits)
  next
    case (Some x)
    with None assms present show ?thesis by (auto simp: insert_if_absent_def al_map_def al_ok_def)
  qed
qed

text \<open>What the graph relies on: a store that takes out the entry of a key, and that refuses a second entry.\<close>

locale keyed_store =
  fixes pull :: "'k \<Rightarrow> 's \<Rightarrow> 'v option \<times> 's"
    and put :: "'k \<Rightarrow> 'v \<Rightarrow> 's \<Rightarrow> bool \<times> 's"
    and view :: "'s \<Rightarrow> 'k \<rightharpoonup> 'v"
    and ok :: "'s \<Rightarrow> bool"
  assumes pull: "ok s \<Longrightarrow> pull k s = (r, s') \<Longrightarrow> r = view s k \<and> view s' = (view s)(k := None) \<and> ok s'"
    and put: "ok s \<Longrightarrow> put k v s = (b, s') \<Longrightarrow>
      b = (view s k = None) \<and> view s' = (if b then (view s)(k \<mapsto> v) else view s) \<and> ok s'"
begin

lemma put_view: "ok s \<Longrightarrow> put k v s = (b, s') \<Longrightarrow> view s' k = (if b then Some v else view s k)"
  using put by fastforce

lemma put_then_pull:
  assumes "ok s" and "put k v s = (True, s')"
  shows "fst (pull k s') = Some v"
  using put [OF assms] pull [of s' k] by (cases "pull k s'") auto

lemma pull_then_put:
  assumes "ok s" and "pull k s = (r, s')"
  shows "fst (put k v s')"
  using pull [OF assms] put [of s' k v] by (cases "put k v s'") auto

end

interpretation active: keyed_store active_remove insert_if_absent al_map al_ok
  using active_remove_map insert_if_absent_map by unfold_locales blast+

section \<open>Lanes in use\<close>

text \<open>\<open>L\<close> is the set of the lanes in use: those of the expected commits, and the one in hand.\<close>

definition lanes_inv :: "nat set \<Rightarrow> bool list \<Rightarrow> nat list \<Rightarrow> bool" where
  "lanes_inv L occ fs \<longleftrightarrow> sorted fs \<and> (\<forall>l. l \<in> L \<longleftrightarrow> l < length occ \<and> occ ! l)
     \<and> (\<forall>l<length occ. \<not> occ ! l \<longrightarrow> l \<in> set fs)"

lemma lanes_inv_finite: "lanes_inv L occ fs \<Longrightarrow> finite L"
  by (rule finite_subset [of _ "{..<length occ}"]) (auto simp: lanes_inv_def)

abbreviation available :: "bool list \<Rightarrow> nat \<Rightarrow> bool" where
  "available occ l \<equiv> l < length occ \<and> \<not> occ ! l"

lemma pop_free_None: "pop_free occ fs = (None, fs') \<Longrightarrow> fs' = [] \<and> (\<forall>l\<in>set fs. \<not> available occ l)"
  by (induction occ fs rule: pop_free.induct) (auto split: if_splits)

lemma pop_free_Some:
  "pop_free occ fs = (Some l, fs') \<Longrightarrow> sorted fs \<Longrightarrow>
    available occ l \<and> sorted fs' \<and> (\<forall>j\<in>set fs. available occ j \<longrightarrow> l \<le> j \<and> (j = l \<or> j \<in> set fs'))"
  by (induction occ fs rule: pop_free.induct) (auto split: if_splits)

lemma allocate_lane_inv:
  assumes "lanes_inv L occ fs" and "allocate_lane occ fs = (l, occ', fs')"
  shows "l = (LEAST l. l \<notin> L) \<and> l \<notin> L \<and> lanes_inv (insert l L) occ' fs'"
proof (cases "pop_free occ fs")
  case (Pair r gs)
  show ?thesis
  proof (cases r)
    case None
    with Pair assms(2) have l: "l = length occ" "occ' = occ @ [True]" "fs' = gs" by (auto simp: allocate_lane_def)
    have none: "gs = [] \<and> (\<forall>l\<in>set fs. \<not> available occ l)" using Pair None by (intro pop_free_None) simp
    have all: "occ ! j" if "j < length occ" for j
      using assms(1) none that by (auto simp: lanes_inv_def)
    then have L: "j \<in> L \<longleftrightarrow> j < length occ" for j using assms(1) by (auto simp: lanes_inv_def)
    have "(LEAST l. l \<notin> L) = l" unfolding L l(1) by (intro Least_equality) auto
    moreover have "j \<in> insert l L \<longleftrightarrow> j < length occ' \<and> occ' ! j" for j
      unfolding l L insert_iff using all by (cases "j < length occ") (auto simp: nth_append)
    moreover have "occ' ! j" if "j < length occ'" for j
      using that all unfolding l by (cases "j < length occ") (auto simp: nth_append)
    ultimately show ?thesis using none L l by (simp add: lanes_inv_def)
  next
    case (Some k)
    with Pair assms(2) have l: "k = l" "occ' = occ[l := True]" "fs' = gs" by (auto simp: allocate_lane_def)
    have some: "available occ l \<and> sorted gs \<and> (\<forall>j\<in>set fs. available occ j \<longrightarrow> l \<le> j \<and> (j = l \<or> j \<in> set gs))"
      using Pair Some l(1) assms(1) by (intro pop_free_Some [of occ fs]) (simp_all add: lanes_inv_def)
    have "(LEAST l. l \<notin> L) = l"
    proof (rule Least_equality)
      show "l \<notin> L" using some assms(1) by (auto simp: lanes_inv_def)
      show "l \<le> j" if "j \<notin> L" for j
      proof (cases "j < length occ")
        case True
        with that assms(1) some show ?thesis by (auto simp: lanes_inv_def)
      next
        case False
        with some show ?thesis by simp
      qed
    qed
    with assms(1) some l show ?thesis
      by (auto simp: lanes_inv_def nth_list_update)
  qed
qed

lemma release_lane_inv:
  assumes "lanes_inv L occ fs" and "l \<in> L" and "release_lane l occ fs = (occ', fs')"
  shows "lanes_inv (L - {l}) occ' fs'"
  using assms by (auto simp: release_lane_def lanes_inv_def sorted_insort set_insort_key nth_list_update split: if_splits)

lemma drop_free_tail_Cons:
  "drop_free_tail (xs @ [x]) = (if x then xs @ [x] else drop_free_tail xs)"
  by (simp add: drop_free_tail_def)

lemma drop_free_tail_inv: "lanes_inv L occ fs \<Longrightarrow> lanes_inv L (drop_free_tail occ) fs"
proof (induction occ rule: rev_induct)
  case (snoc x xs)
  show ?case
  proof (cases x)
    case False
    with snoc.prems have "lanes_inv L xs fs"
      by (auto simp: lanes_inv_def nth_append less_Suc_eq split: if_splits)
    with False snoc.IH show ?thesis by (simp add: drop_free_tail_Cons)
  qed (use snoc in \<open>simp add: drop_free_tail_Cons\<close>)
qed (simp add: drop_free_tail_def)

lemma drop_free_tail_length: "lanes_inv L occ fs \<Longrightarrow> length (drop_free_tail occ) = lanes_of L"
proof (induction occ rule: rev_induct)
  case Nil
  then show ?case by (simp add: lanes_inv_def lanes_of_def drop_free_tail_def)
next
  case (snoc x xs)
  show ?case
  proof (cases x)
    case True
    with snoc.prems have "length xs \<in> L" "\<forall>l\<in>L. l \<le> length xs" by (auto simp: lanes_inv_def)
    then have "Max L = length xs" using lanes_inv_finite [OF snoc.prems] by (intro Max_eqI) auto
    with True \<open>length xs \<in> L\<close> show ?thesis by (auto simp: drop_free_tail_Cons lanes_of_def)
  next
    case False
    with snoc.prems have "lanes_inv L xs fs"
      by (auto simp: lanes_inv_def nth_append less_Suc_eq split: if_splits)
    with False snoc.IH show ?thesis by (simp add: drop_free_tail_Cons)
  qed
qed

section \<open>Refinement\<close>

definition distinct_lanes :: "waiting \<Rightarrow> bool" where
  "distinct_lanes m \<longleftrightarrow> (\<forall>j k l. m j = Some l \<longrightarrow> m k = Some l \<longrightarrow> j = k)"

definition graph_inv :: "waiting \<Rightarrow> nat set \<Rightarrow> lane_state \<Rightarrow> bool" where
  "graph_inv m E s \<longleftrightarrow> al_ok (ln_active s) \<and> al_map (ln_active s) = m \<and> distinct_lanes m \<and> E \<inter> ran m = {}
     \<and> lanes_inv (ran m \<union> E) (ln_occupied s) (ln_free s)"

lemma distinct_lanes_upd: "distinct_lanes m \<Longrightarrow> l \<notin> ran m \<Longrightarrow> distinct_lanes (m(k \<mapsto> l))"
  by (auto simp: distinct_lanes_def ran_def)

lemma distinct_lanes_remove: "distinct_lanes m \<Longrightarrow> distinct_lanes (m(k := None))"
  by (auto simp: distinct_lanes_def)

lemma ran_remove:
  assumes "distinct_lanes m" and "m k = Some l"
  shows "ran (m(k := None)) = ran m - {l}"
proof (intro set_eqI iffI)
  show "x \<in> ran m - {l}" if "x \<in> ran (m(k := None))" for x
    using that assms by (auto simp: distinct_lanes_def ran_def split: if_splits)
  show "x \<in> ran (m(k := None))" if "x \<in> ran m - {l}" for x
  proof -
    from that obtain j where "m j = Some x" by (auto simp: ran_def)
    moreover from this have "j \<noteq> k" using assms(2) that by auto
    ultimately show ?thesis by (auto simp: ran_def)
  qed
qed

lemma other_parent_refines:
  assumes "graph_inv m {} s"
  shows "graph_inv (expect (least_lane m) p m) {} (other_parent_step s p)"
proof -
  obtain l occ fs where alloc: "allocate_lane (ln_occupied s) (ln_free s) = (l, occ, fs)" by (metis prod_cases3)
  obtain b a where ins: "insert_if_absent (key_of p) l (ln_active s) = (b, a)" by fastforce
  have l: "l = least_lane m" "l \<notin> ran m" "lanes_inv (insert l (ran m)) occ fs"
    using allocate_lane_inv [OF _ alloc, of "ran m"] assms by (auto simp: graph_inv_def least_lane_def)
  have a: "b = (m (key_of p) = None)" "al_map a = (if b then m(key_of p \<mapsto> l) else m)" "al_ok a"
    using active.put [OF _ ins] assms by (auto simp: graph_inv_def)
  show ?thesis
  proof (cases "m (key_of p)")
    case None
    with a have True: b by simp
    with a l assms have "graph_inv (m(key_of p \<mapsto> l)) {} (s\<lparr>ln_active := a, ln_occupied := occ, ln_free := fs\<rparr>)"
      by (simp add: graph_inv_def distinct_lanes_upd)
    with True a(1) l(1) ins alloc show ?thesis by (simp add: expect_def other_parent_step_def)
  next
    case (Some k)
    with a have False: "b = False" by simp
    obtain occ' fs' where rel: "release_lane l occ fs = (occ', fs')" by fastforce
    have "insert l (ran m) - {l} = ran m" using l(2) by blast
    with release_lane_inv [OF l(3) _ rel] have "lanes_inv (ran m) occ' fs'" by simp
    moreover have "other_parent_step s p = s\<lparr>ln_occupied := occ', ln_free := fs'\<rparr>"
      using ins alloc rel unfolding False by (simp add: other_parent_step_def)
    ultimately show ?thesis using Some assms by (simp add: graph_inv_def expect_def)
  qed
qed

lemma other_parents_refine:
  "graph_inv m {} s \<Longrightarrow>
    graph_inv (fold (\<lambda>q m. expect (least_lane m) q m) ps m) {} (foldl other_parent_step s ps)"
  by (induction ps arbitrary: m s) (simp_all add: other_parent_refines)

lemma first_parent_refines:
  assumes "graph_inv m {l} s"
  shows "\<exists>s'. first_parent_step l ps s = Some s'
    \<and> graph_inv (case ps of [] \<Rightarrow> m | p # _ \<Rightarrow> expect l p m) {} s'"
proof -
  obtain occ fs where rel: "release_lane l (ln_occupied s) (ln_free s) = (occ, fs)" by fastforce
  have l: "l \<notin> ran m" "lanes_inv (insert l (ran m)) (ln_occupied s) (ln_free s)" and "distinct_lanes m"
    using assms by (simp_all add: graph_inv_def)
  have "insert l (ran m) - {l} = ran m" using l(1) by blast
  with release_lane_inv [OF l(2) _ rel] have "lanes_inv (ran m) occ fs" by simp
  then have released: "graph_inv m {} (s\<lparr>ln_occupied := occ, ln_free := fs\<rparr>)"
    using assms by (simp add: graph_inv_def)
  show ?thesis
  proof (cases ps)
    case Nil
    with rel released show ?thesis by (simp add: first_parent_step_def)
  next
    case (Cons p qs)
    obtain b a where ins: "insert_if_absent (key_of p) l (ln_active s) = (b, a)" by fastforce
    have a: "b = (m (key_of p) = None)" "al_map a = (if b then m(key_of p \<mapsto> l) else m)" "al_ok a"
      using active.put [OF _ ins] assms by (auto simp: graph_inv_def)
    show ?thesis
    proof (cases "m (key_of p)")
      case None
      with a have True: "b = True" by simp
      have bound: "l < length (ln_occupied s)" "ln_occupied s ! l" using l(2) by (auto simp: lanes_inv_def)
      then have "(ln_occupied s)[l := True] = ln_occupied s" by (metis list_update_id)
      with a l True \<open>distinct_lanes m\<close> have "graph_inv (m(key_of p \<mapsto> l)) {} (s\<lparr>ln_active := a, ln_occupied := (ln_occupied s)[l := True]\<rparr>)"
        using ran_map_upd [of m "key_of p" l] None by (simp add: graph_inv_def distinct_lanes_upd)
      with None True Cons ins bound show ?thesis by (simp add: first_parent_step_def expect_def)
    next
      case (Some k)
      with a have "b = False" by simp
      with Some Cons ins rel released show ?thesis by (simp add: first_parent_step_def expect_def)
    qed
  qed
qed

lemma take_lane_refines:
  assumes "graph_inv m {} s" and "active_remove (key_of (cm_id c)) (ln_active s) = (taken, a)"
    and "(l, occ, fs) = (case taken of Some l \<Rightarrow> (l, ln_occupied s, ln_free s) | None \<Rightarrow> allocate_lane (ln_occupied s) (ln_free s))"
  shows "l = spec_lane m c"
    and "graph_inv (m(key_of (cm_id c) := None)) {l} \<lparr>ln_occupied = occ, ln_active = a, ln_free = fs\<rparr>"
proof -
  let ?k = "key_of (cm_id c)"
  have inv: "lanes_inv (ran m) (ln_occupied s) (ln_free s)" "distinct_lanes m"
    using assms(1) by (simp_all add: graph_inv_def)
  have a: "taken = m ?k" "al_map a = m(?k := None)" "al_ok a"
    using active.pull [OF _ assms(2)] assms(1) by (auto simp: graph_inv_def)
  have "l = spec_lane m c \<and> graph_inv (m(?k := None)) {l} \<lparr>ln_occupied = occ, ln_active = a, ln_free = fs\<rparr>"
  proof (cases "m ?k")
    case None
    then have "m(?k := None) = m" by auto
    moreover from None a(1) assms(3) have alloc: "allocate_lane (ln_occupied s) (ln_free s) = (l, occ, fs)" by simp
    ultimately show ?thesis
      using allocate_lane_inv [OF inv(1) alloc] a inv(2) None
      by (auto simp: graph_inv_def spec_lane_def least_lane_def)
  next
    case (Some j)
    with a(1) assms(3) have l: "l = j" "occ = ln_occupied s" "fs = ln_free s" by simp_all
    have "ran (m(?k := None)) = ran m - {j}" by (rule ran_remove [OF inv(2) Some])
    moreover have "j \<in> ran m" using Some by (rule ranI)
    ultimately show ?thesis
      using a inv Some distinct_lanes_remove [OF inv(2)] unfolding l
      by (simp add: graph_inv_def spec_lane_def insert_absorb)
  qed
  then show "l = spec_lane m c"
    and "graph_inv (m(?k := None)) {l} \<lparr>ln_occupied = occ, ln_active = a, ln_free = fs\<rparr>" by blast+
qed

lemma to_u8_small: "n < 256 \<Longrightarrow> unat (to_u8 n) = n"
  by (simp add: to_u8_def unat_of_nat)

definition row_shown :: "graph_row \<Rightarrow> nat \<times> nat \<times> bool" where
  "row_shown r = (unat (gr_lane r), unat (gr_total r), gr_merge r)"

lemma max_lanes: "finite L \<Longrightarrow> max (lanes_of L) (l + 1) = lanes_of (insert l L)"
  by (cases "L = {}") (simp_all add: lanes_of_def max.commute)

lemma graph_row_shown:
  assumes "length occ = lanes_of L" and "finite L"
  shows "row_shown (graph_row_of l occ b) = shown (l, lanes_of (insert l L), b)"
proof -
  have "l < lanes_of (insert l L)" unfolding max_lanes [OF assms(2), symmetric] by simp
  then show ?thesis
    unfolding graph_row_of_def assms(1)
    by (simp add: row_shown_def shown_def Let_def max_lanes [OF assms(2), simplified] to_u8_small limits)
qed

lemma append_commit_refines:
  assumes "graph_inv m {} s"
  shows "\<exists>s' row. append_commit s c = Some (s', row) \<and> graph_inv (spec_step m c) {} s'
    \<and> row_shown row = shown (spec_lane m c, lanes_of (insert (spec_lane m c) (ran (spec_step m c))), 1 < length (cm_parents c))"
proof -
  obtain taken a where rem: "active_remove (key_of (cm_id c)) (ln_active s) = (taken, a)" by fastforce
  obtain l occ fs where take_l: "(l, occ, fs)
      = (case taken of Some l \<Rightarrow> (l, ln_occupied s, ln_free s) | None \<Rightarrow> allocate_lane (ln_occupied s) (ln_free s))"
    by (metis prod_cases3)
  note lane = take_lane_refines [OF assms rem take_l]
  let ?m = "m(key_of (cm_id c) := None)"
  obtain s1 where s1: "first_parent_step l (cm_parents c) \<lparr>ln_occupied = occ, ln_active = a, ln_free = fs\<rparr> = Some s1"
    and inv1: "graph_inv (case cm_parents c of [] \<Rightarrow> ?m | p # _ \<Rightarrow> expect l p ?m) {} s1"
    using first_parent_refines [OF lane(2)] by blast
  let ?s2 = "foldl other_parent_step s1 (drop 1 (cm_parents c))"
  let ?s3 = "?s2\<lparr>ln_occupied := drop_free_tail (ln_occupied ?s2)\<rparr>"
  have inv2: "graph_inv (spec_step m c) {} ?s2"
  proof (cases "cm_parents c")
    case Nil
    with inv1 show ?thesis by (simp add: spec_step_def)
  next
    case (Cons p ps)
    with other_parents_refine [OF inv1, of ps] lane(1) show ?thesis by (simp add: spec_step_def)
  qed
  then have inv3: "graph_inv (spec_step m c) {} ?s3" by (simp add: graph_inv_def drop_free_tail_inv)
  have used: "lanes_inv (ran (spec_step m c)) (ln_occupied ?s2) (ln_free ?s2)" using inv2 by (simp add: graph_inv_def)
  have "append_commit s c = Some (?s3, graph_row_of l (ln_occupied ?s3) (1 < length (cm_parents c)))"
    using rem s1 by (simp add: append_commit_def take_l [symmetric] Let_def)
  with inv3 graph_row_shown [OF _ lanes_inv_finite [OF used]] drop_free_tail_length [OF used] lane(1)
  show ?thesis by auto
qed

lemma append_commits_refine:
  "graph_inv m {} s \<Longrightarrow> \<exists>s' rows. append_commits s cs = Some (s', rows) \<and> graph_inv (foldl spec_step m cs) {} s'
    \<and> map row_shown rows = map shown (spec_rows m cs)"
proof (induction cs arbitrary: m s)
  case (Cons c cs)
  from append_commit_refines [OF Cons.prems, of c] obtain s1 row where
    "append_commit s c = Some (s1, row)" "graph_inv (spec_step m c) {} s1"
    "row_shown row = shown (spec_lane m c, lanes_of (insert (spec_lane m c) (ran (spec_step m c))), 1 < length (cm_parents c))"
    by blast
  with Cons.IH [of "spec_step m c" s1] show ?case by auto
qed simp

lemma new_lanes_inv: "graph_inv Map.empty {} new_lanes"
  by (simp add: graph_inv_def new_lanes_def al_ok_def al_map_def distinct_lanes_def lanes_inv_def)

section \<open>Property\<close>

lemma graph_row_bounds: "gr_lane (graph_row_of l occ b) < gr_total (graph_row_of l occ b) \<and> gr_total (graph_row_of l occ b) \<le> 64"
  by (simp add: graph_row_of_def Let_def word_less_nat_alt word_le_nat_alt to_u8_small limits) linarith

lemma append_commits_bounds:
  "append_commits s cs = Some (s', rows) \<Longrightarrow> list_all (\<lambda>r. gr_lane r < gr_total r \<and> gr_total r \<le> 64) rows"
proof (induction cs arbitrary: s rows)
  case (Cons c cs)
  then obtain s1 row rows1 where "append_commit s c = Some (s1, row)" "append_commits s1 cs = Some (s', rows1)"
    "rows = row # rows1"
    by (auto split: option.splits)
  moreover from this obtain l occ b where "row = graph_row_of l occ b"
    by (auto simp: append_commit_def Let_def split: prod.splits option.splits)
  ultimately show ?case using Cons.IH graph_row_bounds by simp
qed simp

lemma spec_rows_append: "spec_rows m (cs @ ds) = spec_rows m cs @ spec_rows (foldl spec_step m cs) ds"
  by (induction cs arbitrary: m) simp_all

text \<open>C25. The commit graph is drawn as described, page after page: no history makes the lane assignment fail, and
  the rows of one page followed by the rows of the next are those of the whole history, in which a commit
  has the lane that its first child handed on or else the least lane that no expected commit has.  Two
  expected commits never share a lane, and every row has at most 64 lanes and its commit on one of them.\<close>

theorem commit_lanes_refine:
  "\<exists>s s' rows rows'. append_commits new_lanes cs = Some (s, rows) \<and> append_commits s ds = Some (s', rows')
    \<and> map row_shown (rows @ rows') = map shown (spec_rows Map.empty (cs @ ds))
    \<and> distinct_lanes (al_map (ln_active s'))
    \<and> list_all (\<lambda>r. gr_lane r < gr_total r \<and> gr_total r \<le> 64) (rows @ rows')"
proof -
  let ?m = "foldl spec_step Map.empty cs"
  obtain s rows where cs: "append_commits new_lanes cs = Some (s, rows)" "graph_inv ?m {} s"
    "map row_shown rows = map shown (spec_rows Map.empty cs)"
    using append_commits_refine [OF new_lanes_inv] by blast
  obtain s' rows' where ds: "append_commits s ds = Some (s', rows')" "graph_inv (foldl spec_step ?m ds) {} s'"
    "map row_shown rows' = map shown (spec_rows ?m ds)"
    using append_commits_refine [OF cs(2)] by blast
  have "distinct_lanes (al_map (ln_active s'))" using ds(2) by (simp add: graph_inv_def)
  with cs ds append_commits_bounds [OF cs(1)] append_commits_bounds [OF ds(1)] show ?thesis
    by (auto simp: spec_rows_append)
qed

end
