(* ===== verification/Git_Records.thy ===== *)
theory Git_Records
  imports Git_Diff
begin

text \<open>
  Texts that are exchanged with git.  The messages for its errors, without the credentials that it may print
  (\<open>crates/ramag-infra-git/src/errors.rs\<close>).  The plan of an interactive rebase: reading the commits from the log and
  writing the todo file for git (\<open>crates/ramag-infra-git/src/rebase_interactive.rs\<close>).  The files of a commit or
  of a range of commits, from the answer of git that ends every field with a NUL byte
  (\<open>crates/ramag-infra-git/src/commit_files.rs\<close>); the message for bytes that are not UTF-8 is given without the
  position that Rust adds.  The temporary files and the git process are
  left out; the text that is written to the todo file is the value of \<open>build_todo_content\<close>.
\<close>

section \<open>Error messages\<close>

text \<open>\<open>str::to_lowercase\<close> as far as a search for an ASCII text can tell: of the characters outside ASCII only
  the Kelvin sign and the capital I with a dot have a lower case with ASCII characters.\<close>

fun lowercase_view :: "string \<Rightarrow> string" where
  "lowercase_view (a # b # c # s) =
     (if byte a = 0xE2 \<and> byte b = 0x84 \<and> byte c = 0xAA then CHR ''k'' # lowercase_view s
      else if byte a = 0xC4 \<and> byte b = 0xB0 then CHR ''i'' # utf8 [0x307] @ lowercase_view (c # s)
      else ascii_lower a # lowercase_view (b # c # s))"
| "lowercase_view [a, b] =
     (if byte a = 0xC4 \<and> byte b = 0xB0 then CHR ''i'' # utf8 [0x307]
      else [ascii_lower a, ascii_lower b])"
| "lowercase_view [a] = [ascii_lower a]"
| "lowercase_view [] = []"

text \<open>The text before the first place where \<open>stop\<close> holds of what follows, and the text from there on.\<close>

fun span_until :: "(string \<Rightarrow> bool) \<Rightarrow> string \<Rightarrow> string \<times> string" where
  "span_until stop [] = ([], [])"
| "span_until stop (c # s) =
     (if stop (c # s) then ([], c # s) else (let (a, b) = span_until stop s in (c # a, b)))"

lemma span_until_length: "span_until stop s = (a, b) \<Longrightarrow> length a + length b = length s"
  by (induction s arbitrary: a) (auto split: if_splits prod.splits)

lemma span_until_snd: "length (snd (span_until stop s)) \<le> length s"
  using span_until_length [of stop s] by (cases "span_until stop s") auto

definition stops_at :: "char set \<Rightarrow> string \<Rightarrow> bool" where
  "stops_at C s \<longleftrightarrow> s \<noteq> [] \<and> (first_space s \<noteq> 0 \<or> hd s \<in> C)"

(* crates/ramag-infra-git/src/errors.rs:132-136 redact_url_credentials *)
definition authority_stops :: "char set" where
  "authority_stops = {CHR ''/'', CHR 0x5C, CHR ''?'', CHR ''#'', CHR 0x27, CHR 0x22, CHR '')'', CHR '']''}"

(* crates/ramag-infra-git/src/errors.rs:137-143 redact_url_credentials *)
definition redact_authority :: "string \<Rightarrow> string" where
  "redact_authority a =
     (if CHR ''@'' \<in> set a then ''***@'' @ rev (takeWhile (\<lambda>c. c \<noteq> CHR ''@'') (rev a)) else a)"

(* crates/ramag-infra-git/src/errors.rs:126-146 redact_url_credentials *)
function redact_urls :: "string \<Rightarrow> string" where
  "redact_urls s =
     (case split_once ''://'' s of
        None \<Rightarrow> s
      | Some (a, r) \<Rightarrow>
          let (authority, rest) = span_until (stops_at authority_stops) r in
          a @ ''://'' @ redact_authority authority @ redact_urls rest)"
  by pat_completeness auto
termination
  by (relation "measure length") (auto dest!: split_once_parts span_until_length dest: sym)

declare redact_urls.simps [simp del]

(* crates/ramag-infra-git/src/errors.rs:166-179 redact_query_credentials *)
definition sensitive_keys :: "string list" where
  "sensitive_keys = [''access_token'', ''auth'', ''authorization'', ''client_secret'', ''code'', ''password'',
     ''passwd'', ''secret'', ''sig'', ''signature'', ''token'', ''x-amz-signature'']"

(* crates/ramag-infra-git/src/errors.rs:160-182 redact_query_credentials *)
definition secret_key :: "string \<Rightarrow> bool" where
  "secret_key key \<longleftrightarrow>
     key \<noteq> [] \<and> list_all (\<lambda>b. is_ascii_alphanumeric b \<or> b \<in> {CHR ''_'', CHR ''-'', CHR ''.''}) key
     \<and> (let lower = to_ascii_lowercase key in
        lower \<in> set sensitive_keys \<or> suffix ''_token'' lower \<or> suffix ''-token'' lower)"

(* crates/ramag-infra-git/src/errors.rs:191-193 redact_query_credentials *)
definition query_stops :: "char set" where
  "query_stops = {CHR ''&'', CHR ''#'', CHR 0x27, CHR 0x22, CHR '')'', CHR '']''}"

abbreviation query_marker :: "string \<Rightarrow> bool" where
  "query_marker s \<equiv> hd s \<in> {CHR ''?'', CHR ''&''}"

(* crates/ramag-infra-git/src/errors.rs:150-197 redact_query_credentials *)
function redact_query_credentials :: "string \<Rightarrow> string" where
  "redact_query_credentials s =
     (case span_until query_marker s of
        (a, []) \<Rightarrow> s
      | (a, m # r) \<Rightarrow>
          (case split_once ''='' r of
             None \<Rightarrow> s
           | Some (key, v) \<Rightarrow>
               if \<not> secret_key key then a @ m # redact_query_credentials r
               else a @ m # key @ ''=***'' @ redact_query_credentials (snd (span_until (stops_at query_stops) v))))"
  by pat_completeness auto
termination
  by (relation "measure length")
    (auto dest!: split_once_parts span_until_length dest: sym intro!: le_less_trans [OF span_until_snd])

declare redact_query_credentials.simps [simp del]

(* crates/ramag-infra-git/src/errors.rs:126-148 redact_url_credentials *)
definition redact_url_credentials :: "string \<Rightarrow> string" where
  "redact_url_credentials s = redact_query_credentials (redact_urls s)"

(* crates/ramag-infra-git/src/errors.rs:25-117 friendly_git_error *)
definition git_error_hint :: "string \<Rightarrow> string option" where
  "git_error_hint lower =
     (let has = (\<lambda>p. str_contains p lower); nl = [CHR 0x0A] in
      if has ''does not appear to be a git repository'' \<or> has ''could not read from remote repository''
      then Some ((utf8 [0x8FDC, 0x7A0B, 0x4ED3, 0x5E93, 0x4E0D, 0x53EF, 0x8FBE, 0xFF1A]) @ nl @ (''- '' @ utf8 [0x68C0, 0x67E5] @ '' remote '' @ utf8 [0x662F, 0x5426, 0x914D, 0x7F6E, 0xFF08] @ ''git remote -v'' @ utf8 [0xFF09]) @ nl @ (''- '' @ utf8 [0x68C0, 0x67E5, 0x7F51, 0x7EDC, 0x8FDE, 0x63A5, 0x548C, 0x8BBF, 0x95EE, 0x6743, 0x9650]))
      else if has ''authentication failed'' \<or> has ''could not read username'' \<or> has ''permission denied (publickey)''
      then Some ((utf8 [0x51ED, 0x8BC1, 0x9519, 0x8BEF, 0xFF1A]) @ nl @ (''- HTTPS'' @ utf8 [0xFF1A, 0x68C0, 0x67E5, 0x7528, 0x6237, 0x540D] @ '' / Personal Access Token'') @ nl @ (''- SSH'' @ utf8 [0xFF1A, 0x68C0, 0x67E5] @ '' ~/.ssh '' @ utf8 [0x4E0B] @ '' key '' @ utf8 [0x662F, 0x5426, 0x52A0, 0x5165] @ '' ssh-agent''))
      else if has ''merge conflict'' \<or> has ''conflict'' \<and> has ''automatic merge failed''
      then Some ((utf8 [0x5B58, 0x5728, 0x5408, 0x5E76, 0x51B2, 0x7A81, 0xFF1A]) @ nl @ (''- '' @ utf8 [0x5DE5, 0x4F5C, 0x533A, 0x6587, 0x4EF6, 0x5206, 0x7EC4, 0x91CC, 0x4F1A, 0x51FA, 0x73B0, 0x300C, 0x51B2, 0x7A81, 0x300D, 0x6BB5]) @ nl
        @ (''- '' @ utf8 [0x7528] @ '' [Use Ours]/[Use Theirs] '' @ utf8 [0x4E00, 0x952E, 0x91C7, 0x7EB3, 0xFF0C, 0x6216, 0x624B, 0x6539, 0x540E, 0x70B9] @ '' ['' @ utf8 [0x2713] @ '' '' @ utf8 [0x6807, 0x8BB0, 0x5DF2, 0x89E3, 0x51B3] @ '']'') @ nl @ (''- '' @ utf8 [0x5168, 0x90E8, 0x89E3, 0x51B3, 0x540E, 0x70B9, 0x9876, 0x90E8, 0x6A2A, 0x5E45, 0x7684] @ '' ['' @ utf8 [0x7EE7, 0x7EED] @ '']''))
      else if has ''local changes'' \<and> (has ''would be overwritten'' \<or> has ''commit your changes'')
      then Some ((utf8 [0x5DE5, 0x4F5C, 0x533A, 0x6709, 0x672A, 0x63D0, 0x4EA4, 0x6539, 0x52A8, 0x4F1A, 0x88AB, 0x8986, 0x76D6, 0xFF1A]) @ nl @ (''- '' @ utf8 [0x5148] @ '' commit '' @ utf8 [0x8FD9, 0x4E9B, 0x6539, 0x52A8, 0xFF0C, 0x6216]) @ nl @ (''- '' @ utf8 [0x5148] @ '' Stash '' @ utf8 [0x5F53, 0x524D, 0x6539, 0x52A8, 0xFF08, 0x5DE6, 0x4FA7] @ '' sidebar Stash '' @ utf8 [0x6BB5, 0xFF09]))
      else if has ''not possible to fast-forward'' \<or> has ''non-fast-forward''
      then Some ((utf8 [0x65E0, 0x6CD5] @ '' fast-forward'' @ utf8 [0xFF1A]) @ nl @ (''- '' @ utf8 [0x8FDC, 0x7A0B, 0x5DF2, 0x6709, 0x65B0] @ '' commit '' @ utf8 [0x800C, 0x4F60, 0x7684, 0x672C, 0x5730, 0x5206, 0x652F, 0x4E5F, 0x6709, 0x65B0] @ '' commit'') @ nl
        @ (''- '' @ utf8 [0x6539, 0x7528] @ '' Pull'' @ utf8 [0xFF08, 0x4F1A, 0x521B, 0x5EFA] @ '' merge commit'' @ utf8 [0xFF09, 0x6216, 0x5148] @ '' fetch '' @ utf8 [0x540E] @ '' rebase''))
      else if has ''nothing to commit'' then Some ((utf8 [0x6682, 0x5B58, 0x533A, 0x4E3A, 0x7A7A, 0xFF0C, 0x6CA1, 0x6709, 0x5185, 0x5BB9, 0x53EF, 0x63D0, 0x4EA4, 0x3002, 0x5148] @ '' Stage '' @ utf8 [0x6587, 0x4EF6, 0x6216, 0x52FE, 0x9009, 0x8981, 0x63D0, 0x4EA4, 0x7684, 0x884C, 0x3002]))
      else if has ''author identity unknown'' \<or> has ''unable to auto-detect email address'' \<or> has ''please tell me who you are''
      then Some ((utf8 [0x5C1A, 0x672A, 0x914D, 0x7F6E] @ '' Git '' @ utf8 [0x63D0, 0x4EA4, 0x8EAB, 0x4EFD, 0xFF1A]) @ nl @ (''- '' @ utf8 [0x5728, 0x7EC8, 0x7AEF, 0x8FD0, 0x884C] @ '' git config user.name '') @ [CHR 0x22] @ (utf8 [0x4F60, 0x7684, 0x540D, 0x5B57]) @ [CHR 0x22] @ nl
        @ (''- '' @ utf8 [0x518D, 0x8FD0, 0x884C] @ '' git config user.email '') @ [CHR 0x22] @ (utf8 [0x4F60, 0x7684, 0x90AE, 0x7BB1]) @ [CHR 0x22] @ nl
        @ (utf8 [0x4EE5, 0x4E0A, 0x547D, 0x4EE4, 0x9ED8, 0x8BA4, 0x53EA, 0x914D, 0x7F6E, 0x5F53, 0x524D, 0x4ED3, 0x5E93, 0xFF1B, 0x9700, 0x8981, 0x5168, 0x5C40, 0x914D, 0x7F6E, 0x65F6, 0x518D, 0x52A0] @ '' --global''))
      else if has ''gpg failed to sign the data'' \<or> has ''signing failed''
        \<or> has ''failed to write commit object'' \<and> has ''gpg''
      then Some ((''GPG '' @ utf8 [0x7B7E, 0x540D, 0x5931, 0x8D25, 0xFF1A, 0x68C0, 0x67E5] @ '' signing key '' @ utf8 [0x4E0E] @ '' gpg-agent'' @ utf8 [0xFF1B, 0x4E5F, 0x53EF, 0x5728, 0x63D0, 0x4EA4, 0x83DC, 0x5355, 0x4E2D, 0x5173, 0x95ED, 0x300C] @ ''GPG '' @ utf8 [0x7B7E, 0x540D, 0x300D, 0x540E, 0x91CD, 0x8BD5, 0x3002]))
      else if has ''no upstream branch'' \<or> has ''no tracking information''
        \<or> has ''the current branch'' \<and> has ''has no upstream''
      then Some ((utf8 [0x5F53, 0x524D, 0x5206, 0x652F, 0x6CA1, 0x6709, 0x4E0A, 0x6E38, 0xFF08] @ ''upstream'' @ utf8 [0xFF09, 0xFF1A]) @ nl @ (''- '' @ utf8 [0x7B2C, 0x4E00, 0x6B21] @ '' push '' @ utf8 [0x4F1A, 0x81EA, 0x52A8, 0x52A0] @ '' -u '' @ utf8 [0x53C2, 0x6570, 0x8BBE, 0x7F6E] @ '' upstream'') @ nl
        @ (''- '' @ utf8 [0x6216, 0x5728, 0x7EC8, 0x7AEF, 0x8FD0, 0x884C] @ '' git push -u origin <branch>''))
      else if has ''cannot lock ref'' \<or> has ''unable to create'' \<and> has ''.lock''
      then Some ((''Git '' @ utf8 [0x9501, 0x6587, 0x4EF6, 0x51B2, 0x7A81, 0xFF1A]) @ nl @ (''- '' @ utf8 [0x53EF, 0x80FD, 0x6709, 0x5176, 0x4ED6] @ '' git '' @ utf8 [0x64CD, 0x4F5C, 0x5728, 0x8FDB, 0x884C, 0xFF08] @ ''IDE / CLI'' @ utf8 [0xFF09]) @ nl
        @ (''- '' @ utf8 [0x7B49, 0x5F85, 0x5BF9, 0x65B9, 0x5B8C, 0x6210, 0xFF1B, 0x6216, 0x624B, 0x52A8, 0x5220, 0x9664] @ '' .git/index.lock'' @ utf8 [0xFF08, 0x4EC5, 0x5728, 0x786E, 0x8BA4, 0x65E0, 0x5E76, 0x53D1, 0x65F6, 0xFF09]))
      else if has ''bad revision'' \<or> has ''unknown revision''
      then Some ((utf8 [0x627E, 0x4E0D, 0x5230, 0x6307, 0x5B9A, 0x7684, 0x5206, 0x652F] @ '' / commit / tag '' @ utf8 [0x2014, 0x2014] @ '' '' @ utf8 [0x68C0, 0x67E5, 0x540D, 0x5B57, 0x62FC, 0x5199, 0x662F, 0x5426, 0x6B63, 0x786E, 0xFF08, 0x533A, 0x5206, 0x5927, 0x5C0F, 0x5199, 0xFF09]))
      else if has ''ambiguous'' then Some ((utf8 [0x540D, 0x5B57, 0x6709, 0x6B67, 0x4E49, 0xFF08, 0x540C, 0x540D, 0x7684, 0x5206, 0x652F, 0x548C] @ '' tag'' @ utf8 [0xFF09, 0xFF0C, 0x8BF7, 0x7528, 0x5168, 0x540D, 0xFF08, 0x5982] @ '' refs/heads/main'' @ utf8 [0xFF09]))
      else if has ''would clobber existing tag'' then Some ((''Tag '' @ utf8 [0x5DF2, 0x5B58, 0x5728, 0xFF0C, 0x65E0, 0x6CD5, 0x8986, 0x76D6, 0x3002, 0x5148, 0x5220, 0x9664, 0x65E7] @ '' tag '' @ utf8 [0x6216, 0x6362, 0x4E2A, 0x540D, 0x5B57, 0x3002]))
      else if has ''not something we can merge'' then Some ((utf8 [0x6307, 0x5B9A, 0x7684, 0x5BF9, 0x8C61, 0x4E0D, 0x80FD, 0x88AB, 0x5408, 0x5E76, 0xFF08, 0x53EF, 0x80FD, 0x662F] @ '' tag / commit hash '' @ utf8 [0x800C, 0x975E, 0x5206, 0x652F, 0x540D, 0xFF09]))
      else if has ''you have unmerged paths''
      then Some ((utf8 [0x5B58, 0x5728, 0x672A, 0x89E3, 0x51B3, 0x7684, 0x51B2, 0x7A81, 0x6587, 0x4EF6, 0xFF1A]) @ nl @ (''- '' @ utf8 [0x5DE5, 0x4F5C, 0x533A, 0x300C, 0x51B2, 0x7A81, 0x300D, 0x6BB5, 0x5904, 0x7406, 0x5B8C, 0x6240, 0x6709, 0x6587, 0x4EF6]) @ nl @ (''- '' @ utf8 [0x7136, 0x540E, 0x70B9, 0x9876, 0x90E8, 0x6A2A, 0x5E45] @ '' ['' @ utf8 [0x7EE7, 0x7EED] @ '']''))
      else None)"

(* crates/ramag-infra-git/src/errors.rs:18-123 friendly_git_error *)
definition friendly_git_error :: "string list \<Rightarrow> string \<Rightarrow> string" where
  "friendly_git_error args stderr =
     (let raw = trim stderr;
          operation = (case args of [] \<Rightarrow> ''unknown'' | a # _ \<Rightarrow> a);
          safe_raw = redact_url_credentials raw in
      case git_error_hint (lowercase_view raw) of
        Some h \<Rightarrow> h @ [CHR 0x0A, CHR 0x0A] @ (''['' @ utf8 [0x539F, 0x59CB, 0x9519, 0x8BEF] @ ''] git '') @ operation @ '': '' @ safe_raw
      | None \<Rightarrow> ''git '' @ operation @ ('' '' @ utf8 [0x5931, 0x8D25] @ '': '') @ safe_raw)"

section \<open>Text\<close>

text \<open>\<open>str::lines\<close>: a line ends with a line feed, or a carriage return and a line feed; the text after the
  last line feed is a line when it is not empty.\<close>

definition strip_cr :: "string \<Rightarrow> string" where
  "strip_cr s = (if s \<noteq> [] \<and> last s = CHR 0x0D then butlast s else s)"

definition str_lines :: "string \<Rightarrow> string list" where
  "str_lines s =
     (let pieces = split_on CHR 0x0A s in
      map strip_cr (butlast pieces) @ (if last pieces = [] then [] else [last pieces]))"

text \<open>\<open>trim_end_matches('\r')\<close>.\<close>

definition trim_end_cr :: "string \<Rightarrow> string" where
  "trim_end_cr s = rev (dropWhile (\<lambda>c. c = CHR 0x0D) (rev s))"

definition is_ascii_hexdigit :: "char \<Rightarrow> bool" where
  "is_ascii_hexdigit c \<longleftrightarrow>
     is_ascii_digit c \<or> 97 \<le> byte c \<and> byte c \<le> 102 \<or> 65 \<le> byte c \<and> byte c \<le> 70"

(* crates/ramag-infra-git/src/rebase_interactive.rs:218-220 is_safe_object_id *)
definition is_safe_object_id :: "string \<Rightarrow> bool" where
  "is_safe_object_id v \<longleftrightarrow> 4 \<le> length v \<and> length v \<le> 64 \<and> list_all is_ascii_hexdigit v"

text \<open>A control character of one byte, or of two bytes from U+0080 on, becomes one blank.\<close>

(* crates/ramag-infra-git/src/rebase_interactive.rs:222-233 sanitize_todo_subject *)
fun sanitize_todo_subject :: "string \<Rightarrow> string" where
  "sanitize_todo_subject [] = []"
| "sanitize_todo_subject [b] = (if byte b < 32 \<or> byte b = 127 then [CHR '' ''] else [b])"
| "sanitize_todo_subject (b # c # s) =
     (if byte b < 32 \<or> byte b = 127 then CHR '' '' # sanitize_todo_subject (c # s)
      else if byte b = 0xC2 \<and> 0x80 \<le> byte c \<and> byte c < 0xA0 then CHR '' '' # sanitize_todo_subject s
      else b # sanitize_todo_subject (c # s))"

section \<open>Limits and arguments\<close>

(* crates/ramag-infra-git/src/rebase_interactive.rs:14-14 MAX_REBASE_TODOS *)
definition MAX_REBASE_TODOS :: nat where
  [limits]: "MAX_REBASE_TODOS = 10000"

(* crates/ramag-infra-git/src/rebase_interactive.rs:15-15 MAX_REBASE_TODO_BYTES *)
definition MAX_REBASE_TODO_BYTES :: nat where
  [limits]: "MAX_REBASE_TODO_BYTES = 4 * 1024 * 1024"

(* crates/ramag-infra-git/src/rebase_interactive.rs:214-216 validate_revision_arg *)
definition validate_revision_arg :: "string \<Rightarrow> domain_error + unit" where
  "validate_revision_arg revision = validate_positional_arg revision (''rebase '' @ utf8 [0x4E0A, 0x6E38, 0x5F15, 0x7528])"

section \<open>The plan\<close>

text \<open>The loop over the lines with the commits and the bytes so far; one line of at most 64 KiB is added to at
  most 4 MiB, so the saturating addition is the addition.\<close>

(* crates/ramag-infra-git/src/rebase_interactive.rs:35-66 parse_plan_output *)
fun plan_lines :: "nat \<Rightarrow> rebase_todo list \<Rightarrow> nat \<Rightarrow> string list \<Rightarrow> domain_error + rebase_todo list" where
  "plan_lines i todos retained [] = Inr todos"
| "plan_lines i todos retained (raw # ls) =
     (let line = trim_end_cr raw in
      if line = [] then plan_lines (Suc i) todos retained ls
      else if MAX_REBASE_TODOS \<le> length todos
      then Inl (DeQueryFailed ((''rebase '' @ utf8 [0x8BA1, 0x5212, 0x8D85, 0x8FC7] @ '' '') @ dec MAX_REBASE_TODOS @ ('' '' @ utf8 [0x4E2A] @ '' commit '' @ utf8 [0x5B89, 0x5168, 0x4E0A, 0x9650, 0xFF0C, 0x8BF7, 0x7F29, 0x5C0F, 0x4E0A, 0x6E38, 0x8303, 0x56F4])))
      else try_r (ensure_git_record_size line (''Git rebase '' @ utf8 [0x8BA1, 0x5212, 0x8BB0, 0x5F55]) (i + 1)) (\<lambda>_.
        let retained = retained + length line in
        if MAX_REBASE_TODO_BYTES < retained
        then Inl (DeQueryFailed ((''rebase '' @ utf8 [0x8BA1, 0x5212, 0x6587, 0x672C, 0x8D85, 0x8FC7] @ '' '') @ dec (MAX_REBASE_TODO_BYTES div 1024 div 1024) @ ('' MiB '' @ utf8 [0x5B89, 0x5168, 0x4E0A, 0x9650, 0xFF0C, 0x8BF7, 0x7F29, 0x5C0F, 0x4E0A, 0x6E38, 0x8303, 0x56F4])))
        else
          let (hash, subject) = (case split_once '' '' line of Some (a, b) \<Rightarrow> (a, b) | None \<Rightarrow> (line, [])) in
          if \<not> is_safe_object_id hash
          then Inl (DeQueryFailed ((utf8 [0x89E3, 0x6790] @ '' rebase '' @ utf8 [0x8BA1, 0x5212, 0x7B2C] @ '' '') @ dec (i + 1) @ ('' '' @ utf8 [0x6761, 0x8BB0, 0x5F55, 0x5931, 0x8D25, 0xFF1A] @ ''commit id '' @ utf8 [0x65E0, 0x6548])))
          else plan_lines (Suc i) (todos @ [\<lparr>rt_action = Pick, rt_hash = hash, rt_subject = subject\<rparr>]) retained ls))"

(* crates/ramag-infra-git/src/rebase_interactive.rs:32-68 parse_plan_output *)
definition parse_plan_output :: "string \<Rightarrow> domain_error + rebase_todo list" where
  "parse_plan_output out = plan_lines 0 [] 0 (str_lines out)"

(* crates/ramag-infra-git/src/rebase_interactive.rs:18-30 plan *)
definition rebase_plan :: "(string list \<Rightarrow> domain_error + string) \<Rightarrow> string \<Rightarrow> domain_error + rebase_todo list" where
  "rebase_plan git onto =
     try_r (validate_revision_arg onto) (\<lambda>_.
     try_r (git [''log'', ''--format=%H %s'', ''--reverse'', onto @ ''..HEAD'']) parse_plan_output)"

section \<open>The todo file\<close>

text \<open>The loop with the capacity so far.  The additions are those of \<open>usize\<close>, 64 bits wide: the texts of one
  commit are at most 64 KiB and 16 bytes and the capacity at most 4 MiB, so neither addition can overflow
  and the branch for the overflow is never taken.\<close>

(* crates/ramag-infra-git/src/rebase_interactive.rs:153-186 validate_todos *)
fun todos_capacity :: "nat \<Rightarrow> rebase_todo list \<Rightarrow> domain_error + nat" where
  "todos_capacity capacity [] = Inr capacity"
| "todos_capacity capacity (t # ts) =
     (if \<not> is_safe_object_id (rt_hash t)
      then Inl (DeInvalidConfig ((''rebase commit id '' @ utf8 [0x65E0, 0x6548, 0xFF1A]) @ rt_hash t))
      else if MAX_GIT_RECORD_BYTES < length (rt_subject t)
      then Inl (DeInvalidConfig (''rebase commit '' @ todo_short_hash t @ ('' '' @ utf8 [0x7684, 0x6807, 0x9898, 0x8D85, 0x8FC7] @ '' '') @ dec (MAX_GIT_RECORD_BYTES div 1024) @ ('' KiB '' @ utf8 [0x4E0A, 0x9650])))
      else
        let capacity = capacity + (length (action_str (rt_action t)) + length (todo_short_hash t) + length (rt_subject t) + 3) in
        if MAX_REBASE_TODO_BYTES < capacity
        then Inl (DeInvalidConfig ((''rebase '' @ utf8 [0x8BA1, 0x5212, 0x6587, 0x672C, 0x8D85, 0x8FC7] @ '' '') @ dec (MAX_REBASE_TODO_BYTES div 1024 div 1024) @ ('' MiB '' @ utf8 [0x5B89, 0x5168, 0x4E0A, 0x9650])))
        else todos_capacity capacity ts)"

(* crates/ramag-infra-git/src/rebase_interactive.rs:144-187 validate_todos *)
definition validate_todos :: "rebase_todo list \<Rightarrow> domain_error + nat" where
  "validate_todos todos =
     (if todos = [] then Inl (DeInvalidConfig (''rebase '' @ utf8 [0x8BA1, 0x5212, 0x4E0D, 0x80FD, 0x4E3A, 0x7A7A]))
      else if MAX_REBASE_TODOS < length todos
      then Inl (DeInvalidConfig ((''rebase '' @ utf8 [0x8BA1, 0x5212, 0x8D85, 0x8FC7] @ '' '') @ dec MAX_REBASE_TODOS @ ('' '' @ utf8 [0x4E2A] @ '' commit '' @ utf8 [0x5B89, 0x5168, 0x4E0A, 0x9650])))
      else todos_capacity 0 todos)"

(* crates/ramag-infra-git/src/rebase_interactive.rs:132-139 build_todo_content *)
definition todo_line :: "rebase_todo \<Rightarrow> string" where
  "todo_line t = action_str (rt_action t) @ '' '' @ todo_short_hash t @ '' '' @ sanitize_todo_subject (rt_subject t)"

(* crates/ramag-infra-git/src/rebase_interactive.rs:127-142 build_todo_content *)
definition build_todo_content :: "rebase_todo list \<Rightarrow> domain_error + string" where
  "build_todo_content todos =
     map_ok (\<lambda>_. concat (map (\<lambda>t. todo_line t @ [CHR 0x0A]) todos)) (validate_todos todos)"

text \<open>\<open>value.replace('\'', "'\"'\"'")\<close> between quotes, for the shell that git starts the editor with.\<close>

(* crates/ramag-infra-git/src/rebase_interactive.rs:210-212 shell_quote *)
definition shell_quote :: "string \<Rightarrow> string" where
  "shell_quote v =
     [CHR 0x27] @ concat (map (\<lambda>c. if c = CHR 0x27 then [CHR 0x27, CHR 0x22, CHR 0x27, CHR 0x22, CHR 0x27] else [c]) v)
     @ [CHR 0x27]"

text \<open>The name of the operating system is a compile-time condition.\<close>

(* crates/ramag-infra-git/src/rebase_interactive.rs:190-197 sequence_editor_command *)
definition sequence_editor_command :: "bool \<Rightarrow> string \<Rightarrow> string" where
  "sequence_editor_command windows script = (if windows then ''sh '' @ shell_quote script else shell_quote script)"

text \<open>The operation: it writes the todo file, lets git read it, and takes a conflict for progress.  \<open>git\<close>
  answers, for the todo text and the arguments, whether it succeeded and what it wrote on its error stream;
  a temporary file that cannot be written is one of its errors.\<close>

(* crates/ramag-infra-git/src/rebase_interactive.rs:72-125 execute *)
definition execute_rebase ::
  "(string \<Rightarrow> string list \<Rightarrow> domain_error + bool \<times> string) \<Rightarrow> string \<Rightarrow> rebase_todo list \<Rightarrow> domain_error + unit" where
  "execute_rebase git onto todos =
     try_r (validate_revision_arg onto) (\<lambda>_.
     try_r (build_todo_content todos) (\<lambda>content.
     try_r (git content [''-c'', ''core.quotepath=false'', ''-c'', ''core.longpaths=true'', ''rebase'', ''-i'', onto])
       (\<lambda>(success, stderr).
         if success \<or> str_contains ''CONFLICT'' stderr then Inr ()
         else Inl (DeQueryFailed (friendly_git_error [''rebase'', ''-i'', onto] stderr)))))"

section \<open>The files of a commit\<close>

(* crates/ramag-infra-git/src/commit_files.rs:147-149 status_parse_error *)
definition name_status_error :: "string \<Rightarrow> nat \<Rightarrow> string \<Rightarrow> domain_error" where
  "name_status_error context index reason =
     DeQueryFailed ((utf8 [0x89E3, 0x6790] @ '' '') @ context @ (utf8 [0x7B2C] @ '' '') @ dec index @ ('' '' @ utf8 [0x6761, 0x8BB0, 0x5F55, 0x5931, 0x8D25, 0xFF1A]) @ reason)"

(* crates/ramag-infra-git/src/commit_files.rs:74-89 parse_name_status *)
definition code_kind :: "char \<Rightarrow> file_change_kind option" where
  "code_kind c =
     (if c = CHR ''M'' then Some GitModified else if c = CHR ''A'' then Some GitAdded
      else if c = CHR ''D'' then Some GitDeleted else if c = CHR ''R'' then Some GitRenamed
      else if c = CHR ''C'' then Some GitCopied else if c = CHR ''T'' then Some GitTypeChanged else None)"

(* crates/ramag-infra-git/src/commit_files.rs:117-134 validate_status_code *)
definition validate_status_code :: "string \<Rightarrow> file_change_kind \<Rightarrow> nat \<Rightarrow> string \<Rightarrow> domain_error + unit" where
  "validate_status_code code kind index context =
     (let valid = (if kind \<in> {GitRenamed, GitCopied} then 1 < length code \<and> list_all is_ascii_digit (tl code)
                   else length code = 1) in
      if valid then Inr () else Inl (name_status_error context index ((utf8 [0x72B6, 0x6001, 0x7801, 0x683C, 0x5F0F, 0x5F02, 0x5E38]))))"

(* crates/ramag-infra-git/src/commit_files.rs:136-145 decode_diff_path *)
definition decode_diff_path :: "string \<Rightarrow> nat \<Rightarrow> string \<Rightarrow> domain_error + string" where
  "decode_diff_path p index context =
     (if p = [] then Inl (name_status_error context index ((utf8 [0x6587, 0x4EF6, 0x8DEF, 0x5F84, 0x4E3A, 0x7A7A])))
      else if \<not> is_utf8 p then Inl (name_status_error context index ((utf8 [0x6587, 0x4EF6, 0x8DEF, 0x5F84, 0x975E] @ '' UTF-8'' @ utf8 [0xFF1A])))
      else map_ok (\<lambda>_. p) (validate_output_path p (context @ (utf8 [0x6587, 0x4EF6, 0x8DEF, 0x5F84])) index))"

text \<open>The loop over the fields, with the files so far.\<close>

(* crates/ramag-infra-git/src/commit_files.rs:60-114 parse_name_status *)
function name_status_loop :: "string \<Rightarrow> nat \<Rightarrow> file_status list \<Rightarrow> string list \<Rightarrow> domain_error + file_status list" where
  "name_status_loop context index out [] = Inr out"
| "name_status_loop context index out (code # rest) =
     (let index = index + 1 in
      try_r (ensure_git_list_room (length out) context) (\<lambda>_.
      try_r (ensure_git_record_size code (context @ (utf8 [0x72B6, 0x6001, 0x7801])) index) (\<lambda>_.
        if \<not> is_utf8 code then Inl (name_status_error context index ((utf8 [0x72B6, 0x6001, 0x7801, 0x975E] @ '' UTF-8'' @ utf8 [0xFF1A])))
        else if code = [] then Inl (name_status_error context index ((utf8 [0x72B6, 0x6001, 0x7801, 0x4E3A, 0x7A7A])))
        else case code_kind (hd code) of
          None \<Rightarrow> Inl (name_status_error context index ((utf8 [0x672A, 0x77E5, 0x72B6, 0x6001, 0x7801, 0xFF1A]) @ code))
        | Some kind \<Rightarrow>
            try_r (validate_status_code code kind index context) (\<lambda>_.
              case rest of
                [] \<Rightarrow> Inl (name_status_error context index ((utf8 [0x7F3A, 0x5C11, 0x6587, 0x4EF6, 0x8DEF, 0x5F84])))
              | first # rest1 \<Rightarrow>
                  try_r (ensure_git_record_size first (context @ (utf8 [0x6587, 0x4EF6, 0x8DEF, 0x5F84])) index) (\<lambda>_.
                  try_r (decode_diff_path first index context) (\<lambda>first_path.
                    if kind \<in> {GitRenamed, GitCopied}
                    then (case rest1 of
                        [] \<Rightarrow> Inl (name_status_error context index ((utf8 [0x7F3A, 0x5C11, 0x65B0, 0x6587, 0x4EF6, 0x8DEF, 0x5F84])))
                      | new # rest2 \<Rightarrow>
                          try_r (ensure_git_record_size new (context @ (utf8 [0x65B0, 0x6587, 0x4EF6, 0x8DEF, 0x5F84])) index) (\<lambda>_.
                          try_r (decode_diff_path new index context) (\<lambda>new_path.
                            name_status_loop context index
                              (out @ [\<lparr>fs_status_path = new_path, fs_old_path = Some first_path,
                                 fs_staged = Some kind, fs_unstaged = None\<rparr>]) rest2)))
                    else name_status_loop context index
                      (out @ [\<lparr>fs_status_path = first_path, fs_old_path = None,
                         fs_staged = Some kind, fs_unstaged = None\<rparr>]) rest1))))))"
  by pat_completeness auto
termination
  by (relation "measure (\<lambda>(context, index, out, rest). length rest)") auto

(* crates/ramag-infra-git/src/commit_files.rs:54-115 parse_name_status *)
definition parse_name_status :: "string \<Rightarrow> string \<Rightarrow> domain_error + file_status list" where
  "parse_name_status raw context = name_status_loop context 0 [] (filter (\<lambda>f. f \<noteq> []) (split_on CHR 0x00 raw))"

(* crates/ramag-infra-git/src/commit_files.rs:13-29 list *)
definition commit_file_list :: "(string list \<Rightarrow> domain_error + string) \<Rightarrow> string \<Rightarrow> domain_error + file_status list" where
  "commit_file_list git commit =
     try_r (validate_positional_arg commit ''commit id'') (\<lambda>_.
     try_r (git [''diff-tree'', ''--root'', ''--no-commit-id'', ''--name-status'', ''-z'', ''-r'', commit]) (\<lambda>raw.
       parse_name_status raw ((''Git commit '' @ utf8 [0x6587, 0x4EF6, 0x5217, 0x8868]))))"

(* crates/ramag-infra-git/src/commit_files.rs:32-48 list_range *)
definition range_file_list :: "(string list \<Rightarrow> domain_error + string) \<Rightarrow> string \<Rightarrow> string \<Rightarrow> domain_error + file_status list" where
  "range_file_list git f t =
     try_r (validate_positional_arg f ((''diff '' @ utf8 [0x8D77, 0x70B9]))) (\<lambda>_.
     try_r (validate_positional_arg t ((''diff '' @ utf8 [0x7EC8, 0x70B9]))) (\<lambda>_.
     try_r (git [''diff'', ''--find-renames'', ''--name-status'', ''-z'', f, t, ''--'']) (\<lambda>raw.
       parse_name_status raw ((''Git '' @ utf8 [0x8303, 0x56F4, 0x6587, 0x4EF6, 0x5217, 0x8868])))))"

end
